(* ===== verification/Prelude.thy ===== *)
theory Prelude
  imports Main "HOL-Library.Sublist" "HOL-Library.Char_ord" "HOL-Library.List_Lexorder"
begin

text \<open>
  What every component of the model shares: the exceptions of the program and the result
  type that carries them, the sequencing of fallible steps, the recursion schemes of
  Python's \<open>for\<close> loops over fallible bodies, insertion-ordered dictionaries as
  association lists, and the generic lemmas about them.
\<close>

section \<open>Exceptions and results\<close>

text \<open>
  An exception carries the text it was raised with: several callers inspect that text.
  \<open>IdempotencyConflictError\<close> and \<open>HomeTaxRequestValidationError\<close> are subclasses of
  \<open>AccountingValidationError\<close>, which is a \<open>ValueError\<close>; the constructor
  \<open>InvalidOperation\<close> is the trap of the \<open>decimal\<close> module and \<open>OverflowError\<close> what \<open>int\<close> raises
  for an infinity, \<open>HTTPException\<close> the failures of \<open>http.client\<close> that are no \<open>OSError\<close>, and \<open>KeyError\<close> a
  missing dictionary entry, \<open>IndexError\<close> a pop from an empty list, and \<open>DatabaseError\<close> an error of the
  database driver with its SQLSTATE: none of them is a \<open>ValueError\<close>.
\<close>

datatype py_exc =
    AccountingValidationError string
  | IdempotencyConflictError string
  | HomeTaxRequestValidationError string
  | ValueError string
  | InvalidOperation
  | OverflowError
  | HTTPException
  | KeyError string
  | IndexError
  | DatabaseError string
  | TypeError  \<comment> \<open>subscripting the None of an empty \<open>fetchone()\<close>\<close>

type_synonym 'a result = "py_exc + 'a"

fun exc_message :: "py_exc \<Rightarrow> string" where
  "exc_message (AccountingValidationError m) = m"
| "exc_message (IdempotencyConflictError m) = m"
| "exc_message (HomeTaxRequestValidationError m) = m"
| "exc_message (ValueError m) = m"
| "exc_message InvalidOperation = []"
| "exc_message OverflowError = ''cannot convert float infinity to integer''"
| "exc_message HTTPException = []"
| "exc_message (KeyError k) = k"
| "exc_message IndexError = ''pop from empty list''"
| "exc_message (DatabaseError sqlstate) = sqlstate"
| "exc_message TypeError = ''NoneType object is not subscriptable''"

text \<open>\<open>except AccountingValidationError\<close> also catches the two subclasses.\<close>

fun is_validation_error :: "py_exc \<Rightarrow> bool" where
  "is_validation_error (AccountingValidationError m) = True"
| "is_validation_error (IdempotencyConflictError m) = True"
| "is_validation_error (HomeTaxRequestValidationError m) = True"
| "is_validation_error (ValueError m) = False"
| "is_validation_error InvalidOperation = False"
| "is_validation_error OverflowError = False"
| "is_validation_error HTTPException = False"
| "is_validation_error (KeyError k) = False"
| "is_validation_error IndexError = False"
| "is_validation_error (DatabaseError sqlstate) = False"
| "is_validation_error TypeError = False"

fun is_idempotency_conflict :: "py_exc \<Rightarrow> bool" where
  "is_idempotency_conflict (IdempotencyConflictError m) = True"
| "is_idempotency_conflict _ = False"

named_theorems result_simps \<open>rules that take a sequence of fallible steps apart\<close>

definition bind_result :: "'a result \<Rightarrow> ('a \<Rightarrow> 'b result) \<Rightarrow> 'b result" where
  "bind_result r f = (case r of Inl e \<Rightarrow> Inl e | Inr x \<Rightarrow> f x)"

text \<open>\<open>if not condition: raise error\<close>.\<close>

definition require :: "bool \<Rightarrow> py_exc \<Rightarrow> unit result" where
  "require b e = (if b then Inr () else Inl e)"

lemma bind_result_Inr [simp]: "bind_result (Inr x) f = f x"
  by (simp add: bind_result_def)

lemma bind_result_Inl [simp]: "bind_result (Inl e) f = Inl e"
  by (simp add: bind_result_def)

lemma bind_result_eq_Inr [result_simps]:
  "bind_result r f = Inr y \<longleftrightarrow> (\<exists>x. r = Inr x \<and> f x = Inr y)"
  by (cases r) auto

lemma bind_result_eq_Inl:
  "bind_result r f = Inl e \<longleftrightarrow> r = Inl e \<or> (\<exists>x. r = Inr x \<and> f x = Inl e)"
  by (cases r) auto

lemma require_eq_Inr [result_simps]: "require b e = Inr u \<longleftrightarrow> b"
  by (simp add: require_def)

lemma require_eq_Inl [result_simps]: "require b e = Inl e' \<longleftrightarrow> \<not> b \<and> e' = e"
  by (auto simp: require_def)

lemma require_True [simp]: "require True e = Inr ()"
  by (simp add: require_def)

lemma require_False [simp]: "require False e = Inl e"
  by (simp add: require_def)

lemma if_Inl_eq_Inr [result_simps]: "(if b then Inl e else r) = Inr x \<longleftrightarrow> \<not> b \<and> r = Inr x"
  by simp

section \<open>Loops with fallible bodies\<close>

text \<open>A generator expression whose body may raise: the first failure wins.\<close>

fun map_result :: "('a \<Rightarrow> 'b result) \<Rightarrow> 'a list \<Rightarrow> 'b list result" where
  "map_result f [] = Inr []"
| "map_result f (x # xs) =
     bind_result (f x) (\<lambda>y. bind_result (map_result f xs) (\<lambda>ys. Inr (y # ys)))"

text \<open>A loop whose body only checks.\<close>

fun check_all :: "('a \<Rightarrow> unit result) \<Rightarrow> 'a list \<Rightarrow> unit result" where
  "check_all f [] = Inr ()"
| "check_all f (x # xs) = bind_result (f x) (\<lambda>_. check_all f xs)"

text \<open>A loop that updates local variables and may raise.\<close>

fun fold_result :: "('s \<Rightarrow> 'a \<Rightarrow> 's result) \<Rightarrow> 's \<Rightarrow> 'a list \<Rightarrow> 's result" where
  "fold_result f s [] = Inr s"
| "fold_result f s (x # xs) = bind_result (f s x) (\<lambda>s'. fold_result f s' xs)"

lemma check_all_eq_Inr [result_simps]:
  "check_all f xs = Inr u \<longleftrightarrow> (\<forall>x\<in>set xs. f x = Inr ())"
  by (induction xs) (auto simp: bind_result_eq_Inr)

lemma map_result_eq_Inr_list_all2:
  "map_result f xs = Inr ys \<longleftrightarrow> list_all2 (\<lambda>x y. f x = Inr y) xs ys"
  by (induction xs arbitrary: ys) (auto simp: bind_result_eq_Inr list_all2_Cons1)

lemma map_result_length: "map_result f xs = Inr ys \<Longrightarrow> length ys = length xs"
  by (simp add: map_result_eq_Inr_list_all2 list_all2_lengthD)

lemma map_result_set:
  "map_result f xs = Inr ys \<Longrightarrow> y \<in> set ys \<Longrightarrow> \<exists>x\<in>set xs. f x = Inr y"
  by (induction xs arbitrary: ys) (auto simp: bind_result_eq_Inr)

lemma map_result_map: "(\<And>x. x \<in> set xs \<Longrightarrow> f x = Inr (g x)) \<Longrightarrow> map_result f xs = Inr (map g xs)"
  by (induction xs) auto

lemma map_result_fails: "x \<in> set xs \<Longrightarrow> f x = Inl e \<Longrightarrow> \<exists>e'. map_result f xs = Inl e'"
proof (induction xs)
  case Nil
  then show ?case by simp
next
  case (Cons a xs)
  then show ?case by (cases "f a") (auto simp: bind_result_eq_Inl)
qed

section \<open>Steps with effects\<close>

text \<open>
  A step that acts on the outside world (the database, the billing service) and may raise: an
  exception does not undo what was done before it.
\<close>

type_synonym ('w, 'a) io = "'w \<Rightarrow> 'w \<times> 'a result"

definition io_lift :: "'a result \<Rightarrow> ('w, 'a) io" where
  "io_lift r w = (w, r)"

definition io_bind :: "('w, 'a) io \<Rightarrow> ('a \<Rightarrow> ('w, 'b) io) \<Rightarrow> ('w, 'b) io" where
  "io_bind m f w = (case m w of (w', Inl e) \<Rightarrow> (w', Inl e) | (w', Inr x) \<Rightarrow> f x w')"

lemma io_bind_Inr_iff:
  "io_bind m f w = (w'', Inr y) \<longleftrightarrow> (\<exists>w' x. m w = (w', Inr x) \<and> f x w' = (w'', Inr y))"
  by (auto simp: io_bind_def split: prod.splits sum.splits)

lemma io_lift_Inr_iff [simp]: "io_lift r w = (w', Inr y) \<longleftrightarrow> w' = w \<and> r = Inr y"
  by (auto simp: io_lift_def)

lemma io_bind_lift_Inr [simp]: "io_bind (io_lift (Inr x)) f w = f x w"
  by (simp add: io_bind_def io_lift_def)

lemma io_bind_lift_Inl [simp]: "io_bind (io_lift (Inl e)) f w = (w, Inl e)"
  by (simp add: io_bind_def io_lift_def)

text \<open>A relation between worlds that every step keeps is kept by their sequence.\<close>

definition io_keeps :: "('w \<Rightarrow> 'w \<Rightarrow> bool) \<Rightarrow> ('w, 'a) io \<Rightarrow> bool" where
  "io_keeps R m \<longleftrightarrow> (\<forall>w. R w (fst (m w)))"

lemma io_keeps_lift: "reflp R \<Longrightarrow> io_keeps R (io_lift r)"
  by (simp add: io_keeps_def io_lift_def reflp_def)

lemma io_keeps_bind:
  "transp R \<Longrightarrow> io_keeps R m \<Longrightarrow> (\<And>x. io_keeps R (f x)) \<Longrightarrow> io_keeps R (io_bind m f)"
  unfolding io_keeps_def io_bind_def
  by (auto split: prod.splits sum.splits) (metis fst_conv transpD)+

lemma io_keeps_bind_dep:
  assumes "transp R" "io_keeps R m" "\<And>w w' x. m w = (w', Inr x) \<Longrightarrow> io_keeps R (f x)"
  shows "io_keeps R (io_bind m f)"
  unfolding io_keeps_def
proof
  fix w
  obtain w' r where m: "m w = (w', r)" by (cases "m w")
  have "R w w'" using assms(2) m by (metis fst_conv io_keeps_def)
  moreover have "R w' (fst (f x w'))" if "r = Inr x" for x
    using assms(3) m that by (auto simp: io_keeps_def)
  ultimately show "R w (fst (io_bind m f w))"
    using m transpD [OF assms(1)] by (cases r) (auto simp: io_bind_def)
qed

section \<open>Insertion-ordered dictionaries\<close>

text \<open>
  A Python \<open>dict\<close> keeps insertion order, and assigning to an existing key keeps its
  position. The model is an association list with distinct keys.
\<close>

type_synonym ('k, 'v) dict = "('k \<times> 'v) list"

fun dict_set :: "'k \<Rightarrow> 'v \<Rightarrow> ('k, 'v) dict \<Rightarrow> ('k, 'v) dict" where
  "dict_set k v [] = [(k, v)]"
| "dict_set k v ((k', v') # d) = (if k' = k then (k, v) # d else (k', v') # dict_set k v d)"

abbreviation dict_get :: "('k, 'v) dict \<Rightarrow> 'k \<Rightarrow> 'v option" where
  "dict_get \<equiv> map_of"

abbreviation dict_keys :: "('k, 'v) dict \<Rightarrow> 'k list" where
  "dict_keys d \<equiv> map fst d"

abbreviation dict_wf :: "('k, 'v) dict \<Rightarrow> bool" where
  "dict_wf d \<equiv> distinct (dict_keys d)"

text \<open>Lookups stay lookups: they are not rewritten into membership.\<close>

declare map_of_eq_Some_iff [simp del]

lemma dict_get_set [simp]: "dict_get (dict_set k v d) = (dict_get d)(k \<mapsto> v)"
  by (induction d) (auto simp: fun_eq_iff)

lemma dict_keys_set:
  "dict_keys (dict_set k v d) = (if k \<in> set (dict_keys d) then dict_keys d else dict_keys d @ [k])"
  by (induction d) force+

lemma dict_wf_set [simp]: "dict_wf d \<Longrightarrow> dict_wf (dict_set k v d)"
  by (simp add: dict_keys_set)

lemma dict_set_fresh: "k \<notin> set (dict_keys d) \<Longrightarrow> dict_set k v d = d @ [(k, v)]"
  by (induction d) auto

lemma dict_get_None_iff: "dict_get d k = None \<longleftrightarrow> k \<notin> set (dict_keys d)"
  by (simp add: map_of_eq_None_iff)

text \<open>
  The interface the ledger uses a dictionary through: a store with a lookup, an update
  and the sequence of its values in insertion order.
\<close>

locale keyed_store =
  fixes empty_store :: "'s"
    and put :: "'k \<Rightarrow> 'v \<Rightarrow> 's \<Rightarrow> 's"
    and get :: "'s \<Rightarrow> 'k \<Rightarrow> 'v option"
    and vals :: "'s \<Rightarrow> 'v list"
    and ok :: "'s \<Rightarrow> bool"
  assumes get_empty: "get empty_store k = None"
    and get_put: "ok s \<Longrightarrow> get (put k v s) k' = (if k' = k then Some v else get s k')"
    and vals_empty: "vals empty_store = []"
    and vals_put_fresh: "ok s \<Longrightarrow> get s k = None \<Longrightarrow> vals (put k v s) = vals s @ [v]"
    and vals_get: "ok s \<Longrightarrow> v \<in> set (vals s) \<longleftrightarrow> (\<exists>k. get s k = Some v)"
    and ok_empty: "ok empty_store"
    and ok_put: "ok s \<Longrightarrow> ok (put k v s)"
begin

lemma get_put_same: "ok s \<Longrightarrow> get (put k v s) k = Some v"
  by (simp add: get_put)

lemma get_put_other: "ok s \<Longrightarrow> k' \<noteq> k \<Longrightarrow> get (put k v s) k' = get s k'"
  by (simp add: get_put)

lemma put_fresh_preserves: "ok s \<Longrightarrow> get s k = None \<Longrightarrow> get s k' = Some w \<Longrightarrow> get (put k v s) k' = Some w"
  by (auto simp: get_put)

lemma count_put_fresh: "ok s \<Longrightarrow> get s k = None \<Longrightarrow> length (vals (put k v s)) = Suc (length (vals s))"
  by (simp add: vals_put_fresh)

lemma put_fresh_all:
  "ok s \<Longrightarrow> get s k = None \<Longrightarrow> (\<forall>w\<in>set (vals (put k v s)). P w) \<longleftrightarrow> P v \<and> (\<forall>w\<in>set (vals s). P w)"
  by (auto simp: vals_put_fresh)

end

interpretation dict_store: keyed_store "[]" dict_set dict_get "map snd" dict_wf
proof
  fix s :: "('k, 'v) dict" and k :: 'k and v :: 'v
  assume "dict_get s k = None"
  then show "map snd (dict_set k v s) = map snd s @ [v]"
    by (simp add: dict_set_fresh dict_get_None_iff)
next
  fix s :: "('k, 'v) dict" and v :: 'v
  assume "dict_wf s"
  then show "v \<in> set (map snd s) \<longleftrightarrow> (\<exists>k. dict_get s k = Some v)"
    by (force simp: image_iff map_of_eq_Some_iff)
qed (auto simp: dict_keys_set)

end
