(* ===== verification/Python_Text.thy ===== *)
theory Python_Text
  imports Prelude
begin

text \<open>
  Python's \<open>str\<close> as a list of code points below 256, with the operations the program uses:
  \<open>strip\<close>, \<open>split\<close>, \<open>replace\<close>, \<open>in\<close>, character classes, decimal numerals, and the six
  patterns of \<open>core.py\<close> as recognisers. Code points above 255 are outside the model; the
  patterns are ASCII-only, so no string with such a code point matches any of them.
\<close>

section \<open>Characters\<close>

abbreviation code :: "char \<Rightarrow> nat" where
  "code c \<equiv> of_char c"

definition in_range :: "char \<Rightarrow> char \<Rightarrow> char \<Rightarrow> bool" where
  "in_range lo hi c \<longleftrightarrow> code lo \<le> code c \<and> code c \<le> code hi"

abbreviation is_digit :: "char \<Rightarrow> bool" where
  "is_digit \<equiv> in_range CHR ''0'' CHR ''9''"

abbreviation is_lower :: "char \<Rightarrow> bool" where
  "is_lower \<equiv> in_range CHR ''a'' CHR ''z''"

abbreviation is_upper :: "char \<Rightarrow> bool" where
  "is_upper \<equiv> in_range CHR ''A'' CHR ''Z''"

definition is_hex :: "char \<Rightarrow> bool" where
  "is_hex c \<longleftrightarrow> is_digit c \<or> in_range CHR ''a'' CHR ''f'' c \<or> in_range CHR ''A'' CHR ''F'' c"

definition is_lower_hex :: "char \<Rightarrow> bool" where
  "is_lower_hex c \<longleftrightarrow> is_digit c \<or> in_range CHR ''a'' CHR ''f'' c"

text \<open>\<open>str.isspace\<close> on one character below 256.\<close>

definition is_space :: "char \<Rightarrow> bool" where
  "is_space c \<longleftrightarrow> (let n = code c in (9 \<le> n \<and> n \<le> 13) \<or> (28 \<le> n \<and> n \<le> 32) \<or> n = 133 \<or> n = 160)"

text \<open>\<open>str.isascii\<close> and, for ASCII text, \<open>str.isalnum\<close> (false for the empty string).\<close>

definition is_ascii :: "string \<Rightarrow> bool" where
  "is_ascii s \<longleftrightarrow> list_all (\<lambda>c. code c < 128) s"

definition is_alnum_ascii :: "string \<Rightarrow> bool" where
  "is_alnum_ascii s \<longleftrightarrow> s \<noteq> [] \<and> list_all (\<lambda>c. is_digit c \<or> is_lower c \<or> is_upper c) s"

section \<open>Operations on text\<close>

definition lstrip_set :: "(char \<Rightarrow> bool) \<Rightarrow> string \<Rightarrow> string" where
  "lstrip_set p s = dropWhile p s"

definition rstrip_set :: "(char \<Rightarrow> bool) \<Rightarrow> string \<Rightarrow> string" where
  "rstrip_set p s = rev (dropWhile p (rev s))"

definition strip :: "string \<Rightarrow> string" where
  "strip s = rstrip_set is_space (lstrip_set is_space s)"

definition starts_with :: "string \<Rightarrow> string \<Rightarrow> bool" where
  "starts_with p s \<longleftrightarrow> take (length p) s = p"

text \<open>\<open>needle in haystack\<close>.\<close>

fun contains :: "string \<Rightarrow> string \<Rightarrow> bool" where
  "contains needle [] = (needle = [])"
| "contains needle (c # cs) = (starts_with needle (c # cs) \<or> contains needle cs)"

text \<open>\<open>s.replace(old, new)\<close> for a non-empty \<open>old\<close>, left to right, without overlaps.\<close>

function replace_text :: "string \<Rightarrow> string \<Rightarrow> string \<Rightarrow> string" where
  "replace_text old new s =
     (case s of
        [] \<Rightarrow> []
      | c # cs \<Rightarrow>
          if old \<noteq> [] \<and> starts_with old s then new @ replace_text old new (drop (length old) s)
          else c # replace_text old new cs)"
  by pat_completeness auto
termination
  by (relation "measure (\<lambda>(old, new, s). length s)") auto

declare replace_text.simps [simp del]

text \<open>\<open>s.split(sep)\<close> and \<open>s.split(sep, 1)\<close> for a one-character separator.\<close>

fun split_on :: "char \<Rightarrow> string \<Rightarrow> string list" where
  "split_on sep [] = [[]]"
| "split_on sep (c # cs) =
     (if c = sep then [] # split_on sep cs
      else case split_on sep cs of [] \<Rightarrow> [[c]] | w # ws \<Rightarrow> (c # w) # ws)"

definition split_once :: "char \<Rightarrow> string \<Rightarrow> string \<times> string" where
  "split_once sep s = (takeWhile (\<lambda>c. c \<noteq> sep) s, drop 1 (dropWhile (\<lambda>c. c \<noteq> sep) s))"

text \<open>\<open>sep.join(parts)\<close>.\<close>

fun join :: "string \<Rightarrow> string list \<Rightarrow> string" where
  "join sep [] = []"
| "join sep [w] = w"
| "join sep (w # v # ws) = w @ sep @ join sep (v # ws)"

section \<open>Numerals\<close>

definition digit_char :: "nat \<Rightarrow> char" where
  "digit_char n = char_of (48 + n)"

definition digit_value :: "char \<Rightarrow> nat" where
  "digit_value c = code c - 48"

text \<open>\<open>str(n)\<close> of a natural number, and the value of a run of decimal digits.\<close>

fun nat_text :: "nat \<Rightarrow> string" where
  "nat_text n = (if n < 10 then [digit_char n] else nat_text (n div 10) @ [digit_char (n mod 10)])"

declare nat_text.simps [simp del]

definition int_text :: "int \<Rightarrow> string" where
  "int_text i = (if i < 0 then CHR ''-'' # nat_text (nat (- i)) else nat_text (nat i))"

definition digits_value :: "string \<Rightarrow> nat" where
  "digits_value s = foldl (\<lambda>n c. 10 * n + digit_value c) 0 s"

text \<open>Left padding with zeros, as the format \<open>%0wd\<close> of a natural number.\<close>

definition zero_pad :: "nat \<Rightarrow> nat \<Rightarrow> string" where
  "zero_pad w n = replicate (w - length (nat_text n)) (CHR ''0'') @ nat_text n"

section \<open>Lemmas on numerals\<close>

lemma code_digit_char [simp]: "n < 10 \<Longrightarrow> code (digit_char n) = 48 + n"
  by (simp add: digit_char_def)

lemma digit_value_digit_char [simp]: "n < 10 \<Longrightarrow> digit_value (digit_char n) = n"
  by (simp add: digit_value_def)

lemma is_digit_digit_char [simp]: "n < 10 \<Longrightarrow> is_digit (digit_char n)"
  by (simp add: in_range_def)

lemma nat_text_digits: "list_all is_digit (nat_text n)"
proof (induction n rule: nat_text.induct)
  case (1 n)
  then show ?case by (cases "n < 10") (simp_all add: nat_text.simps [of n])
qed

lemma nat_text_nonempty [simp]: "nat_text n \<noteq> []"
  by (simp add: nat_text.simps [of n])

lemma digits_value_snoc [simp]: "digits_value (s @ [c]) = 10 * digits_value s + digit_value c"
  by (simp add: digits_value_def)

lemma digits_value_Nil [simp]: "digits_value [] = 0"
  by (simp add: digits_value_def)

lemma digits_value_nat_text [simp]: "digits_value (nat_text n) = n"
proof (induction n rule: nat_text.induct)
  case (1 n)
  show ?case
  proof (cases "n < 10")
    case True
    have "digits_value ([] @ [digit_char n]) = n"
      unfolding digits_value_snoc using True by simp
    with True show ?thesis by (simp add: nat_text.simps [of n])
  next
    case False
    with 1 show ?thesis by (simp add: nat_text.simps [of n])
  qed
qed

lemma nat_text_inject [simp]: "nat_text m = nat_text n \<longleftrightarrow> m = n"
  by (metis digits_value_nat_text)

lemma digits_value_append: "digits_value (a @ b) = digits_value a * 10 ^ length b + digits_value b"
  by (induction b rule: rev_induct) (simp_all add: algebra_simps flip: append_assoc)

lemma digits_value_bound: "list_all is_digit s \<Longrightarrow> digits_value s < 10 ^ length s"
proof (induction s rule: rev_induct)
  case Nil
  then show ?case by simp
next
  case (snoc c s)
  then have "digits_value s + 1 \<le> 10 ^ length s" and "digit_value c \<le> 9"
    by (auto simp: in_range_def digit_value_def)
  then show ?case by simp
qed

lemma nat_text_length_le: "n < 10 ^ k \<Longrightarrow> 0 < k \<Longrightarrow> length (nat_text n) \<le> k"
proof (induction n arbitrary: k rule: nat_text.induct)
  case (1 n)
  show ?case
  proof (cases "n < 10")
    case True
    with 1 show ?thesis by (simp add: nat_text.simps [of n])
  next
    case False
    then obtain j where k: "k = Suc (Suc j)"
      using "1.prems" by (cases k; cases "k - 1") auto
    have "n div 10 < 10 ^ Suc j"
      using "1.prems"(1) k by (simp add: less_mult_imp_div_less mult.commute)
    then have "length (nat_text (n div 10)) \<le> Suc j"
      using "1.IH" False by blast
    then show ?thesis
      using False k by (simp add: nat_text.simps [of n])
  qed
qed

lemma nat_text_length_bound: "n < 10 ^ length (nat_text n)"
  using digits_value_bound [OF nat_text_digits, of n] by simp

lemma digit_value_zero [simp]: "digit_value (CHR ''0'') = 0"
  by (simp add: digit_value_def)

lemma digit_char_zero: "digit_char 0 = CHR ''0''"
  by code_simp

lemma digit_char_digit_value: "is_digit c \<Longrightarrow> digit_char (digit_value c) = c"
  by (simp add: digit_char_def digit_value_def in_range_def)

lemma nat_text_hd:
  "0 < n \<Longrightarrow> hd (nat_text n) \<noteq> CHR ''0''"
proof (induction n rule: nat_text.induct)
  case (1 n)
  show ?case
  proof (cases "n < 10")
    case True
    then have "digit_char n \<noteq> CHR ''0''"
      using "1.prems" by (metis digit_value_digit_char digit_value_zero less_irrefl)
    then show ?thesis using True by (simp add: nat_text.simps [of n])
  next
    case False
    then have "hd (nat_text (n div 10)) \<noteq> CHR ''0''"
      using "1.IH" by simp
    then show ?thesis using False by (simp add: nat_text.simps [of n])
  qed
qed

lemma zero_pad_length: "n < 10 ^ w \<Longrightarrow> 0 < w \<Longrightarrow> length (zero_pad w n) = w"
  using nat_text_length_le [of n w] by (simp add: zero_pad_def)

lemma digits_value_replicate_zero [simp]: "digits_value (replicate k (CHR ''0'') @ s) = digits_value s"
proof -
  have "digits_value (replicate k (CHR ''0'')) = 0"
    by (induction k) (simp_all add: digits_value_def digit_value_def)
  then show ?thesis by (simp add: digits_value_append)
qed

lemma digits_value_zero_pad [simp]: "digits_value (zero_pad w n) = n"
  by (simp add: zero_pad_def)

lemma zero_pad_digits: "list_all is_digit (zero_pad w n)"
  using nat_text_digits [of n] by (auto simp: zero_pad_def list_all_iff in_range_def)

text \<open>A numeral without a leading zero is determined by its value.\<close>

lemma digits_value_pos:
  assumes "list_all is_digit s" and "s \<noteq> []" and "hd s \<noteq> CHR ''0''"
  shows "0 < digits_value s"
proof -
  obtain c t where s: "s = [c] @ t" using assms(2) by (cases s) auto
  have "is_digit c" and "c \<noteq> CHR ''0''" using assms s by auto
  then have "digit_value c \<noteq> 0"
    by (metis digit_char_digit_value digit_value_zero in_range_def order_refl digit_char_zero)
  then have "0 < digits_value [c]" by (simp add: digits_value_def)
  then show ?thesis by (simp add: s digits_value_append del: append.simps)
qed

lemma nat_text_digits_value:
  "list_all is_digit s \<Longrightarrow> s \<noteq> [] \<Longrightarrow> hd s \<noteq> CHR ''0'' \<or> s = ''0'' \<Longrightarrow> nat_text (digits_value s) = s"
proof (induction s rule: rev_induct)
  case Nil
  then show ?case by simp
next
  case (snoc c s)
  have c: "is_digit c" and c9: "digit_value c < 10"
    using snoc.prems(1) by (auto simp: in_range_def digit_value_def)
  show ?case
  proof (cases "s = []")
    case True
    then show ?thesis
      using c c9 by (simp add: digits_value_def nat_text.simps [of "digit_value c"] digit_char_digit_value)
  next
    case False
    then have hd: "hd s \<noteq> CHR ''0''" using snoc.prems(3) by (cases s) auto
    have IH: "nat_text (digits_value s) = s"
      using snoc.IH snoc.prems(1) False hd by simp
    have pos: "0 < digits_value s"
      using digits_value_pos [OF _ False hd] snoc.prems(1) by simp
    show ?thesis
      using c c9 pos IH by (simp add: nat_text.simps [of "10 * digits_value s + digit_value c"]
        digit_char_digit_value)
  qed
qed

text \<open>A run of digits is its value padded with zeros to its length.\<close>

lemma zero_pad_digits_value:
  "list_all is_digit s \<Longrightarrow> s \<noteq> [] \<Longrightarrow> zero_pad (length s) (digits_value s) = s"
proof (induction s)
  case Nil
  then show ?case by simp
next
  case (Cons c s)
  show ?case
  proof (cases "c = CHR ''0'' \<and> s \<noteq> []")
    case True
    then have dv: "digits_value (c # s) = digits_value s"
      using digits_value_append [of "[c]" s] by (simp add: digits_value_def)
    have IH: "zero_pad (length s) (digits_value s) = s"
      using Cons True by simp
    then have "length (nat_text (digits_value s)) \<le> length s"
      by (metis zero_pad_def length_append le_add2)
    then have "zero_pad (length (c # s)) (digits_value s) = CHR ''0'' # zero_pad (length s) (digits_value s)"
      by (simp add: zero_pad_def Suc_diff_le)
    then show ?thesis using IH dv True by simp
  next
    case False
    then have "nat_text (digits_value (c # s)) = c # s"
      using Cons.prems by (intro nat_text_digits_value) auto
    then show ?thesis by (simp add: zero_pad_def)
  qed
qed

section \<open>Lemmas on splitting\<close>

lemma starts_with_single [simp]:
  "starts_with [c] (d # s) \<longleftrightarrow> d = c"
  "starts_with [c] [] \<longleftrightarrow> False"
  by (simp_all add: starts_with_def)

lemma dropWhile_none: "list_all (\<lambda>c. \<not> p c) s \<Longrightarrow> dropWhile p s = s"
  by (cases s) auto

lemma strip_no_space: "list_all (\<lambda>c. \<not> is_space c) s \<Longrightarrow> strip s = s"
  using dropWhile_none [of is_space s] dropWhile_none [of is_space "rev s"]
  by (simp add: strip_def lstrip_set_def rstrip_set_def)

lemma strip_empty_iff: "strip s = [] \<longleftrightarrow> list_all is_space s"
proof -
  have "strip s = [] \<longleftrightarrow> (\<forall>c\<in>set (dropWhile is_space s). is_space c)"
    by (simp add: strip_def lstrip_set_def rstrip_set_def dropWhile_eq_Nil_conv)
  also have "\<dots> \<longleftrightarrow> dropWhile is_space s = []"
    using hd_dropWhile [of is_space s] by (metis dropWhile.simps(1) emptyE hd_in_set list.set(1))
  finally show ?thesis by (simp add: dropWhile_eq_Nil_conv list_all_iff)
qed

lemma split_once_append:
  "sep \<notin> set a \<Longrightarrow> split_once sep (a @ sep # b) = (a, b)"
proof -
  assume "sep \<notin> set a"
  then have "\<And>x. x \<in> set a \<Longrightarrow> x \<noteq> sep" by auto
  then show ?thesis by (simp add: split_once_def takeWhile_append dropWhile_append)
qed

lemma split_on_nonempty [simp]: "split_on sep s \<noteq> []"
  by (cases s) (auto split: list.splits)

lemma split_on_no_sep: "sep \<notin> set s \<Longrightarrow> split_on sep s = [s]"
  by (induction s) auto

lemma join_split_on: "join [sep] (split_on sep s) = s"
proof (induction s)
  case Nil
  then show ?case by simp
next
  case (Cons c cs)
  obtain w ws where w: "split_on sep cs = w # ws"
    by (cases "split_on sep cs") auto
  with Cons show ?case by (cases ws) auto
qed

section \<open>The patterns of the posting core\<close>

text \<open>\<open>^[a-z][a-z0-9_]{1,63}$\<close>\<close>

definition code_pattern :: "string \<Rightarrow> bool" where
  "code_pattern s \<longleftrightarrow>
     (case s of
        [] \<Rightarrow> False
      | c # cs \<Rightarrow> is_lower c \<and> 1 \<le> length cs \<and> length cs \<le> 63 \<and>
          list_all (\<lambda>d. is_lower d \<or> is_digit d \<or> d = CHR ''_'') cs)"

text \<open>\<open>^[A-Z]{3}$\<close>\<close>

definition currency_pattern :: "string \<Rightarrow> bool" where
  "currency_pattern s \<longleftrightarrow> length s = 3 \<and> list_all is_upper s"

text \<open>\<open>^(0|[1-9][0-9]*)(\.[0-9]{1,6})?$\<close>\<close>

definition decimal_pattern :: "string \<Rightarrow> bool" where
  "decimal_pattern s \<longleftrightarrow>
     (let ip = takeWhile (\<lambda>c. c \<noteq> CHR ''.'') s; rest = dropWhile (\<lambda>c. c \<noteq> CHR ''.'') s
      in (ip = ''0'' \<or> (ip \<noteq> [] \<and> hd ip \<noteq> CHR ''0'' \<and> list_all is_digit ip)) \<and>
         (rest = [] \<or>
          (let fp = drop 1 rest in 1 \<le> length fp \<and> length fp \<le> 6 \<and> list_all is_digit fp)))"

text \<open>\<open>^sha256:[0-9a-f]{64}$\<close>\<close>

definition hash_pattern :: "string \<Rightarrow> bool" where
  "hash_pattern s \<longleftrightarrow>
     starts_with ''sha256:'' s \<and> length s = 71 \<and> list_all is_lower_hex (drop 7 s)"

text \<open>The hyphenated UUID: groups of 8, 4, 4, 4 and 12 hexadecimal digits.\<close>

definition proposal_id_pattern :: "string \<Rightarrow> bool" where
  "proposal_id_pattern s \<longleftrightarrow>
     map length (split_on CHR ''-'' s) = [8, 4, 4, 4, 12] \<and>
     list_all (list_all is_hex) (split_on CHR ''-'' s)"

text \<open>\<open>^urn:cwl:[A-Za-z0-9_:.\-]+$\<close>\<close>

definition reference_pattern :: "string \<Rightarrow> bool" where
  "reference_pattern s \<longleftrightarrow>
     starts_with ''urn:cwl:'' s \<and> length s > 8 \<and>
     list_all (\<lambda>c. is_lower c \<or> is_upper c \<or> is_digit c \<or> c \<in> set ''_:.-'') (drop 8 s)"

section \<open>Lemmas on the patterns\<close>

text \<open>What the decimal pattern accepts, as an integer part and a fraction.\<close>

lemma decimal_patternE:
  assumes "decimal_pattern s"
  obtains ip fp where "s = ip @ (if fp = [] then [] else CHR ''.'' # fp)"
    and "ip = ''0'' \<or> hd ip \<noteq> CHR ''0''" and "ip \<noteq> []"
    and "list_all is_digit ip" and "list_all is_digit fp" and "length fp \<le> 6"
proof -
  define ip where "ip = takeWhile (\<lambda>c. c \<noteq> CHR ''.'') s"
  define rest where "rest = dropWhile (\<lambda>c. c \<noteq> CHR ''.'') s"
  have s: "s = ip @ rest" by (simp add: ip_def rest_def)
  have rest: "rest = [] \<or> (\<exists>fp. rest = CHR ''.'' # fp)"
    using hd_dropWhile [of "\<lambda>c. c \<noteq> CHR ''.''" s] unfolding rest_def [symmetric]
    by (cases rest) auto
  have "is_digit (CHR ''0'')" by (simp add: in_range_def)
  then have "(ip = ''0'' \<or> hd ip \<noteq> CHR ''0'') \<and> ip \<noteq> [] \<and> list_all is_digit ip"
    and "rest \<noteq> [] \<Longrightarrow> drop 1 rest \<noteq> [] \<and> length (drop 1 rest) \<le> 6 \<and> list_all is_digit (drop 1 rest)"
    using assms by (auto simp: decimal_pattern_def Let_def ip_def [symmetric] rest_def [symmetric])
  then show thesis
    using that [of ip "drop 1 rest"] s rest by auto
qed

lemma decimal_pattern_hd: "decimal_pattern s \<Longrightarrow> s \<noteq> [] \<and> is_digit (hd s)"
  by (erule decimal_patternE) (auto simp: neq_Nil_conv)

lemma decimal_pattern_chars: "decimal_pattern s \<Longrightarrow> list_all (\<lambda>c. is_digit c \<or> c = CHR ''.'') s"
  by (erule decimal_patternE) (auto simp: list_all_iff)

end
