(* ===== verification/Python_Decimal.thy ===== *)
theory Python_Decimal
  imports Python_Text Complex_Main
begin

text \<open>
  Python's \<open>decimal.Decimal\<close> under the default context, the one every module of the program
  runs in: precision 28, rounding to nearest with ties to even. A finite decimal is a sign, a
  coefficient and an exponent. The constructor is exact; addition and subtraction round the
  exact result to 28 significant digits, which is what decides whether the program's sums
  are exact. The exponent limits of the context (a million digits) are outside the model.
\<close>

section \<open>Values\<close>

datatype dec = Dec (dneg: bool) (dcoef: nat) (dexp: int)

datatype py_decimal = Fin dec | Inf bool | NaN bool bool nat

fun is_finite :: "py_decimal \<Rightarrow> bool" where
  "is_finite (Fin d) = True"
| "is_finite (Inf s) = False"
| "is_finite (NaN s q p) = False"

definition dec_zero :: dec where
  "dec_zero = Dec False 0 0"

definition signed_coef :: "dec \<Rightarrow> int" where
  "signed_coef d = (if dneg d then - int (dcoef d) else int (dcoef d))"

text \<open>The signed coefficient once the exponent is lowered to \<open>m\<close>.\<close>

definition scaled :: "dec \<Rightarrow> int \<Rightarrow> int" where
  "scaled d m = signed_coef d * 10 ^ nat (dexp d - m)"

section \<open>Comparison\<close>

text \<open>Comparisons are exact: both operands are brought to the smaller exponent.\<close>

definition dec_eq :: "dec \<Rightarrow> dec \<Rightarrow> bool" where
  "dec_eq a b = (let m = min (dexp a) (dexp b) in scaled a m = scaled b m)"

definition dec_less :: "dec \<Rightarrow> dec \<Rightarrow> bool" where
  "dec_less a b = (let m = min (dexp a) (dexp b) in scaled a m < scaled b m)"

definition dec_positive :: "dec \<Rightarrow> bool" where
  "dec_positive d \<longleftrightarrow> \<not> dneg d \<and> 0 < dcoef d"

section \<open>Addition and subtraction\<close>

definition precision :: nat where
  "precision = 28"

definition num_digits :: "nat \<Rightarrow> nat" where
  "num_digits n = length (nat_text n)"

text \<open>Drop \<open>k\<close> digits of a coefficient, rounding half to even.\<close>

definition round_half_even :: "nat \<Rightarrow> nat \<Rightarrow> nat" where
  "round_half_even n k =
     (let q = n div 10 ^ k; r = n mod 10 ^ k
      in if 2 * r > 10 ^ k \<or> (2 * r = 10 ^ k \<and> odd q) then q + 1 else q)"

definition dec_fix :: "dec \<Rightarrow> dec" where
  "dec_fix d =
     (let n = num_digits (dcoef d) in
      if n \<le> precision then d
      else let k = n - precision; q = round_half_even (dcoef d) k in
           if q = 10 ^ precision then Dec (dneg d) (10 ^ (precision - 1)) (dexp d + int k + 1)
           else Dec (dneg d) q (dexp d + int k))"

definition dec_add :: "dec \<Rightarrow> dec \<Rightarrow> dec" where
  "dec_add a b =
     (let m = min (dexp a) (dexp b); n = scaled a m + scaled b m
      in dec_fix (Dec (if n = 0 then dneg a \<and> dneg b else n < 0) (nat \<bar>n\<bar>) m))"

fun dec_copy_negate :: "dec \<Rightarrow> dec" where
  "dec_copy_negate (Dec s c e) = Dec (\<not> s) c e"

definition dec_sub :: "dec \<Rightarrow> dec \<Rightarrow> dec" where
  "dec_sub a b = dec_add a (dec_copy_negate b)"

text \<open>\<open>-x\<close> and \<open>abs(x)\<close>: a zero loses its sign, and the result is rounded.\<close>

definition dec_neg :: "dec \<Rightarrow> dec" where
  "dec_neg a = dec_fix (if dcoef a = 0 then Dec False 0 (dexp a) else dec_copy_negate a)"

definition dec_abs :: "dec \<Rightarrow> dec" where
  "dec_abs a = (if dneg a then dec_neg a
                else dec_fix (if dcoef a = 0 then Dec False 0 (dexp a) else a))"

text \<open>\<open>sum(values, Decimal("0"))\<close>.\<close>

definition dec_sum :: "dec list \<Rightarrow> dec" where
  "dec_sum ds = foldl dec_add dec_zero ds"

section \<open>Text\<close>

text \<open>\<open>str(d)\<close>: scientific notation when the exponent is positive or the value is tiny.\<close>

definition dec_digits_at :: "string \<Rightarrow> int \<Rightarrow> string" where
  "dec_digits_at ds dot =
     (if dot \<le> 0 then ''0.'' @ replicate (nat (- dot)) (CHR ''0'') @ ds
      else if int (length ds) \<le> dot then ds @ replicate (nat dot - length ds) (CHR ''0'')
      else take (nat dot) ds @ ''.'' @ drop (nat dot) ds)"

fun dec_text :: "dec \<Rightarrow> string" where
  "dec_text (Dec s c e) =
     (let ds = nat_text c; left = e + int (length ds);
          dot = (if e \<le> 0 \<and> left > -6 then left else 1)
      in (if s then ''-'' else '''') @ dec_digits_at ds dot @
         (if left = dot then ''''
          else ''E'' @ (if left - dot < 0 then ''-'' else ''+'') @ nat_text (nat \<bar>left - dot\<bar>)))"

text \<open>\<open>format(d, "f")\<close>: never an exponent.\<close>

fun dec_format_f :: "dec \<Rightarrow> string" where
  "dec_format_f (Dec s c e) =
     (let e' = (if c = 0 \<and> 0 < e then 0 else e); ds = nat_text c
      in (if s then ''-'' else '''') @ dec_digits_at ds (e' + int (length ds)))"

fun py_decimal_text :: "py_decimal \<Rightarrow> string" where
  "py_decimal_text (Fin d) = dec_text d"
| "py_decimal_text (Inf s) = (if s then ''-'' else '''') @ ''Infinity''"
| "py_decimal_text (NaN s sig p) =
     (if s then ''-'' else '''') @ (if sig then ''sNaN'' else ''NaN'') @
     (if p = 0 then '''' else nat_text p)"

text \<open>
  \<open>Decimal(text)\<close>: surrounding white space and every underscore are ignored, then the text is
  a sign and a number, an infinity or a NaN, in any letter case. \<open>None\<close> is
  \<open>InvalidOperation\<close>.
\<close>

definition lower_char :: "char \<Rightarrow> char" where
  "lower_char c = (if is_upper c then char_of (code c + 32) else c)"

definition take_sign :: "string \<Rightarrow> bool \<times> string" where
  "take_sign s = (case s of
       [] \<Rightarrow> (False, [])
     | c # cs \<Rightarrow> if c = CHR ''-'' then (True, cs) else if c = CHR ''+'' then (False, cs) else (False, s))"

definition read_exponent :: "string \<Rightarrow> int option" where
  "read_exponent s = (case take_sign s of (neg, ds) \<Rightarrow>
     if ds = [] \<or> \<not> list_all is_digit ds then None
     else Some (if neg then - int (digits_value ds) else int (digits_value ds)))"

definition read_number :: "bool \<Rightarrow> string \<Rightarrow> py_decimal option" where
  "read_number neg s =
     (let mant = takeWhile (\<lambda>c. c \<noteq> CHR ''e'') s; rest = dropWhile (\<lambda>c. c \<noteq> CHR ''e'') s;
          ip = takeWhile (\<lambda>c. c \<noteq> CHR ''.'') mant;
          fp = drop 1 (dropWhile (\<lambda>c. c \<noteq> CHR ''.'') mant)
      in if ip @ fp = [] \<or> \<not> list_all is_digit (ip @ fp) then None
         else case (if rest = [] then Some 0 else read_exponent (drop 1 rest)) of
                None \<Rightarrow> None
              | Some e \<Rightarrow> Some (Fin (Dec neg (digits_value (ip @ fp)) (e - int (length fp)))))"

definition read_nan :: "bool \<Rightarrow> bool \<Rightarrow> string \<Rightarrow> py_decimal option" where
  "read_nan neg sig ds = (if list_all is_digit ds then Some (NaN neg sig (digits_value ds)) else None)"

definition decimal_of_text :: "string \<Rightarrow> py_decimal option" where
  "decimal_of_text s =
     (let t = map lower_char (filter (\<lambda>c. c \<noteq> CHR ''_'') (strip s)); (neg, u) = take_sign t
      in if u = ''inf'' \<or> u = ''infinity'' then Some (Inf neg)
         else if starts_with ''nan'' u then read_nan neg False (drop 3 u)
         else if starts_with ''snan'' u then read_nan neg True (drop 4 u)
         else read_number neg u)"

section \<open>The value of a decimal\<close>

definition dval :: "dec \<Rightarrow> rat" where
  "dval d = of_int (signed_coef d) * 10 powi dexp d"

lemma dval_zero [simp]: "dval dec_zero = 0"
  by (simp add: dval_def dec_zero_def signed_coef_def)

lemma powi_10_pos [simp]: "(0::rat) < 10 powi m" "\<not> (10::rat) powi m < 0"
  by (simp_all add: zero_less_power_int not_less less_imp_le)

lemma dval_scaled:
  assumes "m \<le> dexp d"
  shows "dval d = of_int (scaled d m) * 10 powi m"
proof -
  define k where "k = nat (dexp d - m)"
  have "(10::rat) powi dexp d = 10 powi (int k + m)"
    using assms by (simp add: k_def)
  also have "\<dots> = 10 powi int k * 10 powi m"
    by (rule power_int_add) simp
  also have "\<dots> = 10 ^ nat (dexp d - m) * 10 powi m"
    by (simp only: power_int_of_nat k_def)
  finally show ?thesis by (simp add: dval_def scaled_def)
qed

lemma dec_eq_iff: "dec_eq a b \<longleftrightarrow> dval a = dval b"
  unfolding dec_eq_def Let_def
  by (simp add: dval_scaled [of "min (dexp a) (dexp b)"])

lemma dec_less_iff: "dec_less a b \<longleftrightarrow> dval a < dval b"
  unfolding dec_less_def Let_def
  by (simp add: dval_scaled [of "min (dexp a) (dexp b)"])

lemma dec_positive_iff: "dec_positive d \<longleftrightarrow> 0 < dval d"
  by (simp add: dec_positive_def dval_def signed_coef_def zero_less_mult_iff less_imp_not_less)

lemma dval_copy_negate [simp]: "dval (dec_copy_negate d) = - dval d"
  by (cases d) (simp add: dval_def signed_coef_def)

lemma dec_fix_exact: "dcoef d < 10 ^ precision \<Longrightarrow> dec_fix d = d"
  using nat_text_length_le [of "dcoef d" precision]
  by (simp add: dec_fix_def num_digits_def precision_def)

lemma dval_exact_sum:
  assumes "m \<le> dexp a" and "m \<le> dexp b"
  shows "dval a + dval b = of_int (scaled a m + scaled b m) * 10 powi m"
  using assms by (simp add: dval_scaled [of m] distrib_right)

text \<open>Addition is exact as long as the exact result has at most 28 digits.\<close>

lemma dec_add_exact:
  assumes "\<bar>dval a + dval b\<bar> < 10 powi (min (dexp a) (dexp b) + int precision)"
  shows "dval (dec_add a b) = dval a + dval b"
    and "dexp (dec_add a b) = min (dexp a) (dexp b)"
proof -
  define m where "m = min (dexp a) (dexp b)"
  define n where "n = scaled a m + scaled b m"
  have sum: "dval a + dval b = of_int n * 10 powi m"
    unfolding n_def m_def by (rule dval_exact_sum) simp_all
  have "of_int \<bar>n\<bar> * (10::rat) powi m < 10 ^ precision * 10 powi m"
    using assms by (simp add: sum abs_mult m_def [symmetric] power_int_add mult.commute)
  then have "of_int \<bar>n\<bar> < (10::rat) ^ precision"
    by simp
  then have "\<bar>n\<bar> < 10 ^ precision"
    by (metis of_int_less_iff of_int_numeral of_int_power)
  then have n: "nat \<bar>n\<bar> < 10 ^ precision"
    by (simp add: nat_less_iff)
  have eq: "dec_add a b = Dec (if n = 0 then dneg a \<and> dneg b else n < 0) (nat \<bar>n\<bar>) m"
    using n by (simp add: dec_add_def m_def n_def Let_def dec_fix_exact)
  have "signed_coef (dec_add a b) = n"
    by (simp add: eq signed_coef_def)
  then show "dval (dec_add a b) = dval a + dval b"
    using sum by (simp add: dval_def eq)
  show "dexp (dec_add a b) = min (dexp a) (dexp b)"
    by (simp add: eq m_def)
qed

text \<open>
  The sum of a list of non-negative amounts is exact while the amounts have at most \<open>k\<close>
  fractional digits and their total stays below \<open>10 ^ (28 - k)\<close>: every partial sum is then
  exact.
\<close>

abbreviation dval_sum :: "dec list \<Rightarrow> rat" where
  "dval_sum ds \<equiv> sum_list (map dval ds)"

lemma dec_foldl_add_exact:
  assumes "0 \<le> dval a" and "- k \<le> dexp a"
    and "\<forall>d\<in>set ds. 0 \<le> dval d \<and> - k \<le> dexp d"
    and "dval a + dval_sum ds < 10 powi (int precision - k)"
  shows "dval (foldl dec_add a ds) = dval a + dval_sum ds \<and> - k \<le> dexp (foldl dec_add a ds)"
  using assms
proof (induction ds arbitrary: a)
  case Nil
  then show ?case by simp
next
  case (Cons d ds)
  have rest: "0 \<le> dval_sum ds"
    using Cons.prems(3) by (intro sum_list_nonneg) auto
  have m: "- k \<le> min (dexp a) (dexp d)"
    using Cons.prems by simp
  have "\<bar>dval a + dval d\<bar> = dval a + dval d"
    using Cons.prems by simp
  also have "\<dots> < 10 powi (int precision - k)"
    using Cons.prems(4) rest by simp
  also have "\<dots> \<le> 10 powi (min (dexp a) (dexp d) + int precision)"
    using m by (intro power_int_increasing) auto
  finally have add: "dval (dec_add a d) = dval a + dval d"
      "dexp (dec_add a d) = min (dexp a) (dexp d)"
    by (rule dec_add_exact)+
  have "dval (foldl dec_add (dec_add a d) ds) = dval (dec_add a d) + dval_sum ds \<and>
      - k \<le> dexp (foldl dec_add (dec_add a d) ds)"
    using Cons.prems m by (intro Cons.IH) (auto simp: add)
  then show ?case by (simp add: add)
qed

lemma dec_sum_exact:
  assumes "\<forall>d\<in>set ds. 0 \<le> dval d \<and> - 6 \<le> dexp d" and "dval_sum ds < 10 ^ 22"
  shows "dval (dec_sum ds) = dval_sum ds" and "- 6 \<le> dexp (dec_sum ds)"
proof -
  have "dval dec_zero + dval_sum ds < 10 powi (int precision - 6)"
    using assms(2) by (simp add: precision_def)
  moreover have "- 6 \<le> dexp dec_zero" by (simp add: dec_zero_def)
  ultimately have "dval (dec_sum ds) = dval dec_zero + dval_sum ds \<and> - 6 \<le> dexp (dec_sum ds)"
    unfolding dec_sum_def using assms(1) by (intro dec_foldl_add_exact) simp_all
  then show "dval (dec_sum ds) = dval_sum ds" and "- 6 \<le> dexp (dec_sum ds)" by simp_all
qed

text \<open>A difference of two such sums is exact as well.\<close>

lemma dec_sub_exact:
  assumes "- 6 \<le> dexp a" and "- 6 \<le> dexp b" and "\<bar>dval a - dval b\<bar> < 10 ^ 22"
  shows "dval (dec_sub a b) = dval a - dval b"
proof -
  have e: "dexp (dec_copy_negate b) = dexp b" by (cases b) simp
  have "(10::rat) ^ 22 = 10 powi 22" by (simp only: power_int_numeral)
  also have "\<dots> \<le> 10 powi (min (dexp a) (dexp b) + int precision)"
    using assms(1,2) by (intro power_int_increasing) (auto simp: precision_def)
  finally show ?thesis
    using dec_add_exact(1) [of a "dec_copy_negate b"] assms(3) by (simp add: dec_sub_def e)
qed

section \<open>Reading and writing canonical amounts\<close>

definition digits_dec :: "string \<Rightarrow> string \<Rightarrow> dec" where
  "digits_dec ip fp = Dec False (digits_value (ip @ fp)) (- int (length fp))"

lemma digit_not_letter:
  "is_digit c \<Longrightarrow> c \<noteq> CHR ''.'' \<and> c \<noteq> CHR ''e'' \<and> c \<noteq> CHR ''_'' \<and> c \<noteq> CHR ''i'' \<and> c \<noteq> CHR ''n'' \<and>
     c \<noteq> CHR ''s'' \<and> c \<noteq> CHR ''-'' \<and> c \<noteq> CHR ''+'' \<and> \<not> is_space c \<and> \<not> is_upper c"
  by (auto simp: in_range_def is_space_def Let_def)

lemma read_number_digits:
  assumes "list_all is_digit ip" and "list_all is_digit fp" and "ip \<noteq> []"
  shows "read_number neg (ip @ (if fp = [] then [] else CHR ''.'' # fp)) =
           Some (Fin (Dec neg (digits_value (ip @ fp)) (- int (length fp))))"
proof -
  let ?s = "ip @ (if fp = [] then [] else CHR ''.'' # fp)"
  have "\<forall>c\<in>set ?s. c \<noteq> CHR ''e''"
    using assms digit_not_letter by (auto simp: list_all_iff)
  then have e: "takeWhile (\<lambda>c. c \<noteq> CHR ''e'') ?s = ?s" "dropWhile (\<lambda>c. c \<noteq> CHR ''e'') ?s = []"
    by (simp_all add: takeWhile_eq_all_conv dropWhile_eq_Nil_conv)
  have d: "\<forall>c\<in>set ip. c \<noteq> CHR ''.''"
    using assms digit_not_letter by (auto simp: list_all_iff)
  have "takeWhile (\<lambda>c. c \<noteq> CHR ''.'') ?s = ip"
    and "drop 1 (dropWhile (\<lambda>c. c \<noteq> CHR ''.'') ?s) = fp"
    using d by (auto simp: takeWhile_append dropWhile_append takeWhile_eq_all_conv dropWhile_eq_Nil_conv)
  then show ?thesis
    using assms unfolding read_number_def Let_def e by simp
qed

lemma decimal_of_text_digits:
  assumes "list_all is_digit ip" and "list_all is_digit fp" and "ip \<noteq> []"
  shows "decimal_of_text (ip @ (if fp = [] then [] else CHR ''.'' # fp)) = Some (Fin (digits_dec ip fp))"
proof -
  let ?s = "ip @ (if fp = [] then [] else CHR ''.'' # fp)"
  have chars: "\<forall>c\<in>set ?s. is_digit c \<or> c = CHR ''.''"
    using assms by (auto simp: list_all_iff)
  have dot: "\<not> is_space (CHR ''.'')" "\<not> is_upper (CHR ''.'')"
    by (simp_all add: is_space_def in_range_def)
  have ok: "\<not> is_space c \<and> \<not> is_upper c \<and> c \<noteq> CHR ''_''" if "c \<in> set ?s" for c
    using chars that digit_not_letter [of c] dot by (cases "c = CHR ''.''") auto
  have "strip ?s = ?s"
    by (rule strip_no_space) (use ok in \<open>simp only: list_all_iff, blast\<close>)
  moreover have "filter (\<lambda>c. c \<noteq> CHR ''_'') ?s = ?s"
    using ok by (intro filter_True) blast
  moreover have "map lower_char ?s = ?s"
    using ok by (intro map_idI) (simp only: lower_char_def, metis)
  ultimately have t: "map lower_char (filter (\<lambda>c. c \<noteq> CHR ''_'') (strip ?s)) = ?s"
    by simp
  obtain c cs where s: "?s = c # cs" and c: "is_digit c"
    using assms by (cases ip) auto
  have sign: "take_sign ?s = (False, ?s)"
    using digit_not_letter [OF c] by (simp add: s take_sign_def)
  have "?s \<noteq> ''inf''" "?s \<noteq> ''infinity''" "\<not> starts_with ''nan'' ?s" "\<not> starts_with ''snan'' ?s"
    using digit_not_letter [OF c] by (auto simp: s starts_with_def)
  then show ?thesis
    unfolding decimal_of_text_def t Let_def sign
    using read_number_digits [OF assms, of False] by (simp add: digits_dec_def)
qed

lemma dec_text_digits_dec:
  assumes "list_all is_digit ip" and "list_all is_digit fp" and "ip \<noteq> []"
    and "ip = ''0'' \<or> hd ip \<noteq> CHR ''0''" and "length fp \<le> 6"
  shows "dec_text (digits_dec ip fp) = ip @ (if fp = [] then [] else CHR ''.'' # fp)"
proof (cases "ip = ''0''")
  case True
  have dv: "digits_value (CHR ''0'' # fp) = digits_value fp"
    using digits_value_replicate_zero [of 1 fp] by simp
  show ?thesis
  proof (cases "fp = []")
    case True
    then show ?thesis
      using \<open>ip = ''0''\<close> by (simp add: digits_dec_def dec_digits_at_def digits_value_def
        nat_text.simps [of 0] digit_char_zero Let_def)
  next
    case False
    let ?n = "digits_value fp"
    have zp: "zero_pad (length fp) ?n = fp"
      using assms(2) False by (rule zero_pad_digits_value)
    then have len: "length (nat_text ?n) \<le> length fp"
      by (metis zero_pad_def length_append le_add2)
    have "nat (int (length fp) - int (length (nat_text ?n))) = length fp - length (nat_text ?n)"
      using len by arith
    moreover have "0 < length (nat_text ?n)" by simp
    then have "- 6 < int (length (nat_text ?n)) - int (length fp)"
      using assms(5) by arith
    ultimately show ?thesis
      using len zp False \<open>ip = ''0''\<close>
      by (simp add: digits_dec_def dv dec_digits_at_def Let_def zero_pad_def)
  qed
next
  case False
  have "nat_text (digits_value (ip @ fp)) = ip @ fp"
    using assms False by (intro nat_text_digits_value) auto
  then show ?thesis
    using assms by (cases "fp = []") (simp_all add: digits_dec_def dec_digits_at_def Let_def)
qed

theorem decimal_pattern_roundtrip:
  assumes "decimal_pattern s"
  shows "\<exists>d. decimal_of_text s = Some (Fin d) \<and> dec_text d = s \<and> 0 \<le> dval d \<and>
             - 6 \<le> dexp d \<and> dexp d \<le> 0 \<and> \<not> dneg d"
  using assms
proof (rule decimal_patternE)
  fix ip fp
  assume a: "s = ip @ (if fp = [] then [] else CHR ''.'' # fp)" "ip = ''0'' \<or> hd ip \<noteq> CHR ''0''"
    "ip \<noteq> []" "list_all is_digit ip" "list_all is_digit fp" "length fp \<le> 6"
  have "0 \<le> dval (digits_dec ip fp)"
    by (simp add: digits_dec_def dval_def signed_coef_def)
  then show ?thesis
    using decimal_of_text_digits [OF a(4,5,3)] dec_text_digits_dec [OF a(4,5,3,2,6)] a(6)
    by (simp add: a(1) digits_dec_def)
qed

lemma decimal_pattern_intro:
  assumes "list_all is_digit ip" and "list_all is_digit fp" and "ip \<noteq> []"
    and "ip = ''0'' \<or> hd ip \<noteq> CHR ''0''" and "length fp \<le> 6"
  shows "decimal_pattern (ip @ (if fp = [] then [] else CHR ''.'' # fp))"
proof -
  let ?s = "ip @ (if fp = [] then [] else CHR ''.'' # fp)"
  have d: "\<forall>c\<in>set ip. c \<noteq> CHR ''.''"
    using assms(1) digit_not_letter by (auto simp: list_all_iff)
  have tw: "takeWhile (\<lambda>c. c \<noteq> CHR ''.'') ?s = ip" "dropWhile (\<lambda>c. c \<noteq> CHR ''.'') ?s = (if fp = [] then [] else CHR ''.'' # fp)"
    using d by (auto simp: takeWhile_append dropWhile_append takeWhile_eq_all_conv dropWhile_eq_Nil_conv)
  have "ip = ''0'' \<or> (ip \<noteq> [] \<and> hd ip \<noteq> CHR ''0'' \<and> list_all is_digit ip)"
    using assms by blast
  moreover have "fp = [] \<or> (1 \<le> length fp \<and> length fp \<le> 6 \<and> list_all is_digit fp)"
    using assms(2,5) by (cases fp) simp_all
  ultimately show ?thesis
    unfolding decimal_pattern_def Let_def tw by (auto simp: Suc_le_eq)
qed

lemma amount_text_roundtrip:
  assumes "\<not> dneg d" and "- 6 \<le> dexp d" and "dexp d \<le> 0"
  shows "decimal_pattern (dec_text d) \<and> decimal_of_text (dec_text d) = Some (Fin d)"
proof -
  define k where "k = nat (- dexp d)"
  have d: "d = Dec False (dcoef d) (- int k)" and k: "k \<le> 6"
    using assms by (cases d, simp add: k_def)+
  let ?ds = "if k < length (nat_text (dcoef d)) then nat_text (dcoef d) else zero_pad (Suc k) (dcoef d)"
  let ?ip = "take (length ?ds - k) ?ds" and ?fp = "drop (length ?ds - k) ?ds"
  have len: "k < length ?ds" by (simp add: zero_pad_def)
  have dig: "list_all is_digit ?ip" "list_all is_digit ?fp"
    using nat_text_digits [of "dcoef d"] zero_pad_digits [of "Suc k" "dcoef d"]
    by (auto simp: list_all_iff dest: in_set_takeD in_set_dropD)
  have ne: "?ip \<noteq> []" and fp: "length ?fp = k" using len by auto
  have hd: "?ip = ''0'' \<or> hd ?ip \<noteq> CHR ''0''"
  proof (cases "k < length (nat_text (dcoef d))")
    case True
    then show ?thesis
    proof (cases "dcoef d = 0")
      case True
      then have "nat_text (dcoef d) = ''0''" by (simp add: nat_text.simps [of 0] digit_char_zero)
      then show ?thesis using \<open>k < length (nat_text (dcoef d))\<close> by simp
    next
      case False
      then show ?thesis using True nat_text_hd [of "dcoef d"] by (simp add: hd_take)
    qed
  next
    case False
    then have "length ?ds = Suc k" by (simp add: zero_pad_def)
    moreover have "take 1 ?ds = ''0''" using False by (simp add: zero_pad_def Suc_diff_le take_Cons')
    ultimately show ?thesis by simp
  qed
  have "digits_value (?ip @ ?fp) = dcoef d"
    by simp
  then have "digits_dec ?ip ?fp = d"
    using d fp unfolding digits_dec_def by simp
  then show ?thesis
    using decimal_of_text_digits [OF dig ne] dec_text_digits_dec [OF dig ne hd] decimal_pattern_intro [OF dig ne hd] k fp
    by simp
qed

end
