(* ===== verification/Python_Value.thy ===== *)
theory Python_Value
  imports Python_Decimal
begin

text \<open>
  The dynamically typed values that cross the program's boundaries: decoded JSON documents,
  and the arguments of dataclass constructors. A float is its shortest decimal form (what
  \<open>repr\<close> prints), which identifies it. The module defines \<open>str\<close>, \<open>repr\<close>, truth testing and
  \<open>Mapping.get\<close> on these values.
\<close>

datatype py_value =
    PNone
  | PBool bool
  | PInt int
  | PFloat string
  | PDecimal py_decimal
  | PStr string
  | PBytes string
  | PList "py_value list"
  | PDict "(string \<times> py_value) list"

type_synonym payload = "(string \<times> py_value) list"

section \<open>Type tests\<close>

fun as_mapping :: "py_value \<Rightarrow> payload option" where
  "as_mapping (PDict d) = Some d"
| "as_mapping _ = None"

text \<open>A \<open>Sequence\<close> that is neither \<open>str\<close> nor \<open>bytes\<close>.\<close>

fun as_sequence :: "py_value \<Rightarrow> py_value list option" where
  "as_sequence (PList xs) = Some xs"
| "as_sequence _ = None"

fun as_str :: "py_value \<Rightarrow> string option" where
  "as_str (PStr s) = Some s"
| "as_str _ = None"

text \<open>A finite \<open>Decimal\<close>; everything else, floats and integers included, is not one.\<close>

fun as_finite_decimal :: "py_value \<Rightarrow> dec option" where
  "as_finite_decimal (PDecimal (Fin d)) = Some d"
| "as_finite_decimal _ = None"

lemma as_mapping_eq_Some [simp]: "as_mapping v = Some d \<longleftrightarrow> v = PDict d"
  by (cases v) auto

lemma as_sequence_eq_Some [simp]: "as_sequence v = Some xs \<longleftrightarrow> v = PList xs"
  by (cases v) auto

lemma as_str_eq_Some [simp]: "as_str v = Some s \<longleftrightarrow> v = PStr s"
  by (cases v) auto

lemma as_finite_decimal_eq_Some [simp]: "as_finite_decimal v = Some d \<longleftrightarrow> v = PDecimal (Fin d)"
  by (cases v rule: as_finite_decimal.cases) auto

section \<open>Lookup and truth\<close>

definition get_value :: "payload \<Rightarrow> string \<Rightarrow> py_value" where
  "get_value d k = (case dict_get d k of None \<Rightarrow> PNone | Some v \<Rightarrow> v)"

definition has_key :: "payload \<Rightarrow> string \<Rightarrow> bool" where
  "has_key d k \<longleftrightarrow> k \<in> set (dict_keys d)"

fun truthy :: "py_value \<Rightarrow> bool" where
  "truthy PNone = False"
| "truthy (PBool b) = b"
| "truthy (PInt i) = (i \<noteq> 0)"
| "truthy (PFloat r) = (r \<noteq> ''0.0'' \<and> r \<noteq> ''-0.0'')"
| "truthy (PDecimal (Fin d)) = (dcoef d \<noteq> 0)"
| "truthy (PDecimal (Inf s)) = True"
| "truthy (PDecimal (NaN s q p)) = True"
| "truthy (PStr s) = (s \<noteq> [])"
| "truthy (PBytes s) = (s \<noteq> [])"
| "truthy (PList xs) = (xs \<noteq> [])"
| "truthy (PDict d) = (d \<noteq> [])"

text \<open>\<open>value in (None, "")\<close>.\<close>

definition none_or_empty :: "py_value \<Rightarrow> bool" where
  "none_or_empty v \<longleftrightarrow> v = PNone \<or> v = PStr []"

section \<open>Text of a value\<close>

definition hex_char :: "nat \<Rightarrow> char" where
  "hex_char n = (if n < 10 then char_of (48 + n) else char_of (87 + n))"

definition hex_byte :: "nat \<Rightarrow> string" where
  "hex_byte n = [hex_char (n div 16), hex_char (n mod 16)]"

text \<open>The characters below 256 for which \<open>str.isprintable\<close> is false.\<close>

definition unprintable :: "char \<Rightarrow> bool" where
  "unprintable c \<longleftrightarrow> (let n = code c in n < 32 \<or> (127 \<le> n \<and> n \<le> 160) \<or> n = 173)"

definition repr_char :: "bool \<Rightarrow> char \<Rightarrow> char \<Rightarrow> string" where
  "repr_char bytes quote c =
     (if c = quote \<or> c = CHR 0x5C then [CHR 0x5C, c]
      else if c = CHR 0x09 then [CHR 0x5C, CHR ''t'']
      else if c = CHR 0x0A then [CHR 0x5C, CHR ''n'']
      else if c = CHR 0x0D then [CHR 0x5C, CHR ''r'']
      else if unprintable c \<or> (bytes \<and> 127 \<le> code c) then [CHR 0x5C, CHR ''x''] @ hex_byte (code c)
      else [c])"

definition repr_text :: "bool \<Rightarrow> string \<Rightarrow> string" where
  "repr_text bytes s =
     (let quote = (if CHR 0x27 \<in> set s \<and> CHR 0x22 \<notin> set s then CHR 0x22 else CHR 0x27)
      in quote # concat (map (repr_char bytes quote) s) @ [quote])"

fun py_repr :: "py_value \<Rightarrow> string" where
  "py_repr PNone = ''None''"
| "py_repr (PBool b) = (if b then ''True'' else ''False'')"
| "py_repr (PInt i) = int_text i"
| "py_repr (PFloat r) = r"
| "py_repr (PDecimal d) = ''Decimal('' @ CHR 0x27 # py_decimal_text d @ CHR 0x27 # '')''"
| "py_repr (PStr s) = repr_text False s"
| "py_repr (PBytes s) = CHR ''b'' # repr_text True s"
| "py_repr (PList xs) = ''['' @ join '', '' (map py_repr xs) @ '']''"
| "py_repr (PDict d) = ''{'' @ join '', '' (map (\<lambda>(k, v). repr_text False k @ '': '' @ py_repr v) d) @ ''}''"

fun py_str :: "py_value \<Rightarrow> string" where
  "py_str (PStr s) = s"
| "py_str (PDecimal d) = py_decimal_text d"
| "py_str v = py_repr v"

text \<open>\<open>str(value or "")\<close>.\<close>

definition str_or_empty :: "py_value \<Rightarrow> string" where
  "str_or_empty v = (if truthy v then py_str v else [])"

lemma str_or_empty_str [simp]: "str_or_empty (PStr s) = s"
  by (simp add: str_or_empty_def)

lemma str_or_empty_None [simp]: "str_or_empty PNone = []"
  by (simp add: str_or_empty_def)

text \<open>\<open>str(payload.get(name) or "")\<close>.\<close>

definition text_field :: "payload \<Rightarrow> string \<Rightarrow> string" where
  "text_field p name = str_or_empty (get_value p name)"

text \<open>\<open>str(payload.get(a) or payload.get(b) or "")\<close>.\<close>

definition first_field :: "payload \<Rightarrow> string \<Rightarrow> string \<Rightarrow> string" where
  "first_field p a b = (if truthy (get_value p a) then py_str (get_value p a) else text_field p b)"

end
