(* ===== verification/Sha256.thy ===== *)
theory Sha256
  imports Python_Value "HOL-Library.Word"
begin

text \<open>
  \<open>hashlib.sha256(...).hexdigest()\<close> over 32-bit words, and \<open>json.dumps\<close> with sorted keys
  and compact separators: together the canonical command and payload hashes of the program.
  The lemmas show that a hash always has the canonical form the program's pattern demands, and
  that the JSON text of a string can be read back, so canonical texts of different records
  differ.
\<close>

unbundle bit_operations_syntax

section \<open>SHA-256\<close>

type_synonym word32 = "32 word"

text \<open>
  The constants, derived as the standard does: the first 32 bits of the fractional parts of the
  cube roots and the square roots of the first primes. \<open>root_bits e n b r\<close> refines the integer
  root of \<open>n\<close> bit by bit from \<open>r\<close>.
\<close>

fun root_bits :: "nat \<Rightarrow> int \<Rightarrow> nat \<Rightarrow> int \<Rightarrow> int" where
  "root_bits e n 0 r = r"
| "root_bits e n (Suc b) r = (let r' = r + 2 ^ b in root_bits e n b (if r' ^ e \<le> n then r' else r))"

definition root_fraction :: "nat \<Rightarrow> int \<Rightarrow> word32" where
  "root_fraction e p = word_of_int (root_bits e (p * 2 ^ (32 * e)) 37 0)"

definition small_primes :: "int list" where
  "small_primes = filter (\<lambda>p. list_all (\<lambda>q. p mod q \<noteq> 0) [2..p - 1]) [2..311]"

definition round_constants :: "word32 list" where
  "round_constants = map (root_fraction 3) small_primes"

definition initial_state :: "word32 list" where
  "initial_state = map (root_fraction 2) [2, 3, 5, 7, 11, 13, 17, 19]"

definition small_sigma0 :: "word32 \<Rightarrow> word32" where
  "small_sigma0 x = word_rotr 7 x XOR word_rotr 18 x XOR drop_bit 3 x"

definition small_sigma1 :: "word32 \<Rightarrow> word32" where
  "small_sigma1 x = word_rotr 17 x XOR word_rotr 19 x XOR drop_bit 10 x"

definition big_sigma0 :: "word32 \<Rightarrow> word32" where
  "big_sigma0 x = word_rotr 2 x XOR word_rotr 13 x XOR word_rotr 22 x"

definition big_sigma1 :: "word32 \<Rightarrow> word32" where
  "big_sigma1 x = word_rotr 6 x XOR word_rotr 11 x XOR word_rotr 25 x"

definition sha_ch :: "word32 \<Rightarrow> word32 \<Rightarrow> word32 \<Rightarrow> word32" where
  "sha_ch x y z = (x AND y) XOR ((NOT x) AND z)"

definition majority :: "word32 \<Rightarrow> word32 \<Rightarrow> word32 \<Rightarrow> word32" where
  "majority x y z = (x AND y) XOR (x AND z) XOR (y AND z)"

text \<open>The message schedule: 16 words extended to 64, newest last.\<close>

fun extend_schedule :: "nat \<Rightarrow> word32 list \<Rightarrow> word32 list" where
  "extend_schedule 0 w = w"
| "extend_schedule (Suc n) w =
     (let l = length w in
      extend_schedule n (w @ [small_sigma1 (w ! (l - 2)) + w ! (l - 7) + small_sigma0 (w ! (l - 15)) + w ! (l - 16)]))"

fun compress_round :: "word32 list \<Rightarrow> word32 \<times> word32 \<Rightarrow> word32 list" where
  "compress_round [a, b, c, d, e, f, g, h] (k, w) =
     (let t1 = h + big_sigma1 e + sha_ch e f g + k + w; t2 = big_sigma0 a + majority a b c
      in [t1 + t2, a, b, c, d + t1, e, f, g])"
| "compress_round s _ = s"

definition compress_block :: "word32 list \<Rightarrow> word32 list \<Rightarrow> word32 list" where
  "compress_block s block =
     map2 (+) s (foldl compress_round s (zip round_constants (extend_schedule 48 block)))"

text \<open>Padding: one bit, zeros, and the length in bits as 64 bits.\<close>

definition length_bytes :: "nat \<Rightarrow> nat list" where
  "length_bytes bits = map (\<lambda>i. bits div 256 ^ i mod 256) [7, 6, 5, 4, 3, 2, 1, 0]"

definition pad_message :: "nat list \<Rightarrow> nat list" where
  "pad_message m =
     m @ [128] @ replicate (nat ((55 - int (length m)) mod 64)) 0 @ length_bytes (8 * length m)"

fun words_of_bytes :: "nat list \<Rightarrow> word32 list" where
  "words_of_bytes (a # b # c # d # bs) =
     of_nat (((a * 256 + b) * 256 + c) * 256 + d) # words_of_bytes bs"
| "words_of_bytes _ = []"

function hash_blocks :: "word32 list \<Rightarrow> word32 list \<Rightarrow> word32 list" where
  "hash_blocks s ws = (if ws = [] then s else hash_blocks (compress_block s (take 16 ws)) (drop 16 ws))"
  by pat_completeness auto
termination
  by (relation "measure (\<lambda>(s, ws). length ws)") auto

declare hash_blocks.simps [simp del]

definition hex_of_word :: "word32 \<Rightarrow> string" where
  "hex_of_word w = map (\<lambda>i. hex_char (unat w div 16 ^ i mod 16)) [7, 6, 5, 4, 3, 2, 1, 0]"

definition sha256_hex :: "string \<Rightarrow> string" where
  "sha256_hex m =
     concat (map hex_of_word (hash_blocks initial_state (words_of_bytes (pad_message (map of_char m)))))"

definition sha256_reference :: "string \<Rightarrow> string" where
  "sha256_reference m = ''sha256:'' @ sha256_hex m"

section \<open>The form of a hash\<close>

lemma hex_char_lower: "n < 16 \<Longrightarrow> is_lower_hex (hex_char n)"
  by (auto simp: hex_char_def is_lower_hex_def in_range_def)

lemma length_compress_round: "length s = 8 \<Longrightarrow> length (compress_round s kw) = 8"
  by (cases "(s, kw)" rule: compress_round.cases) (auto simp: Let_def)

lemma length_foldl_compress: "length s = 8 \<Longrightarrow> length (foldl compress_round s kws) = 8"
  by (induction kws arbitrary: s) (auto simp: length_compress_round)

lemma length_compress_block: "length s = 8 \<Longrightarrow> length (compress_block s b) = 8"
  by (simp add: compress_block_def length_foldl_compress)

lemma length_hash_blocks: "length s = 8 \<Longrightarrow> length (hash_blocks s ws) = 8"
proof (induction s ws rule: hash_blocks.induct)
  case (1 s ws)
  then show ?case by (simp add: hash_blocks.simps [of s ws] length_compress_block)
qed

lemma sha256_hex_form: "length (sha256_hex m) = 64 \<and> list_all is_lower_hex (sha256_hex m)"
proof -
  have len: "length (concat (map hex_of_word ws)) = 8 * length ws" for ws
    by (induction ws) (simp_all add: hex_of_word_def)
  have "list_all is_lower_hex (concat (map hex_of_word ws))" for ws
    by (auto simp: list_all_iff hex_of_word_def hex_char_lower)
  then show ?thesis
    by (simp add: sha256_hex_def len length_hash_blocks initial_state_def)
qed

lemma sha256_reference_pattern: "hash_pattern (sha256_reference m)"
  using sha256_hex_form [of m] by (simp add: hash_pattern_def sha256_reference_def starts_with_def)

section \<open>Canonical JSON\<close>

definition json_escape :: "char \<Rightarrow> string" where
  "json_escape c =
     (if c = CHR 0x22 \<or> c = CHR 0x5C then [CHR 0x5C, c]
      else if c = CHR 0x08 then [CHR 0x5C, CHR ''b'']
      else if c = CHR 0x0C then [CHR 0x5C, CHR ''f'']
      else if c = CHR 0x0A then [CHR 0x5C, CHR ''n'']
      else if c = CHR 0x0D then [CHR 0x5C, CHR ''r'']
      else if c = CHR 0x09 then [CHR 0x5C, CHR ''t'']
      else if code c < 32 \<or> 126 < code c then [CHR 0x5C, CHR ''u'', CHR ''0'', CHR ''0''] @ hex_byte (code c)
      else [c])"

definition json_string :: "string \<Rightarrow> string" where
  "json_string s = CHR 0x22 # concat (map json_escape s) @ [CHR 0x22]"

text \<open>
  \<open>json.dumps(value, separators=(",", ":"), sort_keys=True)\<close> for the values that have a JSON
  form; a \<open>Decimal\<close> or \<open>bytes\<close> value (a \<open>TypeError\<close> in the code) is \<open>None\<close>.
\<close>

fun json_dumps :: "py_value \<Rightarrow> string option" where
  "json_dumps PNone = Some ''null''"
| "json_dumps (PBool b) = Some (if b then ''true'' else ''false'')"
| "json_dumps (PInt i) = Some (int_text i)"
| "json_dumps (PFloat r) = Some r"
| "json_dumps (PDecimal d) = None"
| "json_dumps (PStr s) = Some (json_string s)"
| "json_dumps (PBytes s) = None"
| "json_dumps (PList xs) =
     (let ts = map json_dumps xs in
      if None \<in> set ts then None else Some (''['' @ join '','' (map the ts) @ '']''))"
| "json_dumps (PDict d) =
     (let ts = map (\<lambda>(k, v). (k, json_dumps v)) d in
      if None \<in> set (map snd ts) then None
      else Some (''{'' @ join '','' (map (\<lambda>(k, t). json_string k @ '':'' @ the t) (sort_key fst ts)) @ ''}''))"

text \<open>Reading one escaped character back.\<close>

definition hex_value :: "char \<Rightarrow> nat" where
  "hex_value c = (if is_digit c then code c - 48 else code c - 87)"

fun json_unescape :: "string \<Rightarrow> (char \<times> string) option" where
  "json_unescape [] = None"
| "json_unescape (c # r) =
     (if c \<noteq> CHR 0x5C then Some (c, r)
      else case r of
          [] \<Rightarrow> None
        | d # r' \<Rightarrow>
            if d = CHR ''b'' then Some (CHR 0x08, r')
            else if d = CHR ''f'' then Some (CHR 0x0C, r')
            else if d = CHR ''n'' then Some (CHR 0x0A, r')
            else if d = CHR ''r'' then Some (CHR 0x0D, r')
            else if d = CHR ''t'' then Some (CHR 0x09, r')
            else if d = CHR ''u'' then
              Some (char_of (16 * hex_value (r' ! 2) + hex_value (r' ! 3)), drop 4 r')
            else Some (d, r'))"

lemma hex_value_hex_char: "n < 16 \<Longrightarrow> hex_value (hex_char n) = n"
  by (auto simp: hex_value_def hex_char_def in_range_def)

lemma code_less_256: "code c < 256"
  by (metis mod_less_divisor of_char_mod_256 zero_less_numeral)

lemma hex_byte_value:
  "16 * hex_value (hex_char (code c div 16)) + hex_value (hex_char (code c mod 16)) = code c"
  using code_less_256 [of c] by (simp add: hex_value_hex_char less_mult_imp_div_less)

lemma json_unescape_escape: "json_unescape (json_escape c @ r) = Some (c, r)"
  using hex_byte_value [of c] by (auto simp: json_escape_def hex_byte_def)

lemma json_escape_not_quote: "json_escape c = e # es \<Longrightarrow> e \<noteq> CHR 0x22"
  by (auto simp: json_escape_def split: if_splits)

lemma json_escape_nonempty: "json_escape c \<noteq> []"
  by (simp add: json_escape_def)

lemma json_quote_clash: "CHR 0x22 # r \<noteq> concat (map json_escape (d # t)) @ q"
proof -
  obtain e es where "json_escape d = e # es"
    using json_escape_nonempty [of d] by (cases "json_escape d") auto
  then show ?thesis using json_escape_not_quote by auto
qed

lemma json_chars_inject:
  "concat (map json_escape s) @ CHR 0x22 # r = concat (map json_escape t) @ CHR 0x22 # q \<Longrightarrow> s = t \<and> r = q"
proof (induction s arbitrary: t)
  case Nil
  then show ?case
    using json_quote_clash [of r] by (cases t) (simp_all, metis append.assoc)
next
  case (Cons c s)
  show ?case
  proof (cases t)
    case Nil
    then show ?thesis
      using Cons.prems json_quote_clash [of q c s "CHR 0x22 # r"] by simp
  next
    case (Cons d t')
    with Cons.prems have "json_unescape (json_escape c @ (concat (map json_escape s) @ CHR 0x22 # r)) =
        json_unescape (json_escape d @ (concat (map json_escape t') @ CHR 0x22 # q))"
      by simp
    then show ?thesis
      using Cons.IH [of t'] unfolding json_unescape_escape by (simp add: Cons)
  qed
qed

lemma json_string_inject:
  "json_string s @ r = json_string t @ q \<longleftrightarrow> s = t \<and> r = q"
  using json_chars_inject [of s r t q] by (auto simp: json_string_def)

lemma json_string_eq_iff [simp]: "json_string s = json_string t \<longleftrightarrow> s = t"
  using json_string_inject [of s "[]" t "[]"] by simp

end
