(* ===== verification/Calendar_Date.thy ===== *)
theory Calendar_Date
  imports Python_Text
begin

text \<open>
  Python's \<open>datetime.date\<close>: the proleptic Gregorian calendar of the years 1 to 9999, ordered
  as dates are, with ordinals (for differences in days), \<open>isoformat\<close> and \<open>fromisoformat\<close> in
  the forms the language documents: \<open>YYYY-MM-DD\<close>, \<open>YYYYMMDD\<close>, and the ISO week forms.
\<close>

datatype date = Date (year: int) (month: int) (day: int)

instantiation date :: linorder
begin

definition less_eq_date :: "date \<Rightarrow> date \<Rightarrow> bool" where
  "less_eq_date a b \<longleftrightarrow>
     year a < year b \<or>
     (year a = year b \<and> (month a < month b \<or> (month a = month b \<and> day a \<le> day b)))"

definition less_date :: "date \<Rightarrow> date \<Rightarrow> bool" where
  "less_date a b \<longleftrightarrow>
     year a < year b \<or>
     (year a = year b \<and> (month a < month b \<or> (month a = month b \<and> day a < day b)))"

instance
proof
  fix a b c :: date
  show "(a < b) = (a \<le> b \<and> \<not> b \<le> a)" and "a \<le> a" and "a \<le> b \<or> b \<le> a"
    by (auto simp: less_eq_date_def less_date_def)
  show "a \<le> b \<Longrightarrow> b \<le> c \<Longrightarrow> a \<le> c" and "a \<le> b \<Longrightarrow> b \<le> a \<Longrightarrow> a = b"
    by (auto simp: less_eq_date_def intro: date.expand)
qed

end

section \<open>The calendar\<close>

definition is_leap :: "int \<Rightarrow> bool" where
  "is_leap y \<longleftrightarrow> y mod 4 = 0 \<and> (y mod 100 \<noteq> 0 \<or> y mod 400 = 0)"

definition days_in_month :: "int \<Rightarrow> int \<Rightarrow> int" where
  "days_in_month y m =
     (if m = 2 then (if is_leap y then 29 else 28)
      else if m = 4 \<or> m = 6 \<or> m = 9 \<or> m = 11 then 30 else 31)"

definition valid_date :: "date \<Rightarrow> bool" where
  "valid_date d \<longleftrightarrow>
     1 \<le> year d \<and> year d \<le> 9999 \<and> 1 \<le> month d \<and> month d \<le> 12 \<and>
     1 \<le> day d \<and> day d \<le> days_in_month (year d) (month d)"

definition days_before_year :: "int \<Rightarrow> int" where
  "days_before_year y = (let p = y - 1 in p * 365 + p div 4 - p div 100 + p div 400)"

definition month_offsets :: "int list" where
  "month_offsets = [0, 31, 59, 90, 120, 151, 181, 212, 243, 273, 304, 334]"

definition days_before_month :: "int \<Rightarrow> int \<Rightarrow> int" where
  "days_before_month y m = month_offsets ! nat (m - 1) + (if 2 < m \<and> is_leap y then 1 else 0)"

definition to_ordinal :: "date \<Rightarrow> int" where
  "to_ordinal d = days_before_year (year d) + days_before_month (year d) (month d) + day d"

text \<open>\<open>(a - b).days\<close>.\<close>

definition days_between :: "date \<Rightarrow> date \<Rightarrow> int" where
  "days_between a b = to_ordinal a - to_ordinal b"

text \<open>The date of an ordinal: cycles of 400, 100, 4 and 1 years, then the month by estimate.\<close>

definition of_ordinal :: "int \<Rightarrow> date" where
  "of_ordinal n =
     (let n0 = n - 1; n400 = n0 div 146097; r400 = n0 mod 146097;
          n100 = r400 div 36524; r100 = r400 mod 36524;
          n4 = r100 div 1461; r4 = r100 mod 1461;
          n1 = r4 div 365; r1 = r4 mod 365;
          y = n400 * 400 + 1 + n100 * 100 + n4 * 4 + n1
      in if n1 = 4 \<or> n100 = 4 then Date (y - 1) 12 31
         else
           let m0 = (r1 + 50) div 32;
               m = (if days_before_month y m0 > r1 then m0 - 1 else m0)
           in Date y m (r1 - days_before_month y m + 1))"

section \<open>ISO text\<close>

definition date_isoformat :: "date \<Rightarrow> string" where
  "date_isoformat d =
     zero_pad 4 (nat (year d)) @ ''-'' @ zero_pad 2 (nat (month d)) @ ''-'' @ zero_pad 2 (nat (day d))"

text \<open>Read exactly \<open>n\<close> decimal digits.\<close>

definition read_digits :: "nat \<Rightarrow> string \<Rightarrow> (int \<times> string) option" where
  "read_digits n s =
     (if n \<le> length s \<and> list_all is_digit (take n s)
      then Some (int (digits_value (take n s)), drop n s) else None)"

definition iso_week_date :: "int \<Rightarrow> int \<Rightarrow> int \<Rightarrow> date option" where
  "iso_week_date y w d =
     (let jan1 = days_before_year y + 1; weekday = (jan1 + 6) mod 7;
          long_year = jan1 mod 7 = 4 \<or> (jan1 mod 7 = 3 \<and> is_leap y);
          monday1 = jan1 - weekday + (if weekday > 3 then 7 else 0)
      in if 1 \<le> y \<and> y \<le> 9999 \<and> 1 \<le> w \<and> (w \<le> 52 \<or> (w = 53 \<and> long_year)) \<and> 1 \<le> d \<and> d \<le> 7
         then Some (of_ordinal (monday1 + (w - 1) * 7 + (d - 1))) else None)"

definition date_parts :: "string \<Rightarrow> date option" where
  "date_parts s =
     (case read_digits 4 s of
        None \<Rightarrow> None
      | Some (y, r0) \<Rightarrow>
          let sep = starts_with ''-'' r0; r1 = (if sep then drop 1 r0 else r0)
          in if starts_with ''W'' r1 then
               (case read_digits 2 (drop 1 r1) of
                  None \<Rightarrow> None
                | Some (w, r2) \<Rightarrow>
                    if r2 = [] then iso_week_date y w 1
                    else if sep \<noteq> starts_with ''-'' r2 then None
                    else (case read_digits 1 (if sep then drop 1 r2 else r2) of
                            None \<Rightarrow> None
                          | Some (d, r3) \<Rightarrow> if r3 = [] then iso_week_date y w d else None))
             else
               (case read_digits 2 r1 of
                  None \<Rightarrow> None
                | Some (m, r2) \<Rightarrow>
                    if sep \<noteq> starts_with ''-'' r2 then None
                    else (case read_digits 2 (if sep then drop 1 r2 else r2) of
                            None \<Rightarrow> None
                          | Some (d, r3) \<Rightarrow> if r3 = [] then Some (Date y m d) else None)))"

text \<open>\<open>date.fromisoformat\<close>; \<open>None\<close> is its \<open>ValueError\<close>.\<close>

definition date_fromisoformat :: "string \<Rightarrow> date option" where
  "date_fromisoformat s =
     (if length s \<in> {7, 8, 10}
      then (case date_parts s of Some d \<Rightarrow> if valid_date d then Some d else None | None \<Rightarrow> None)
      else None)"

lemma date_fromisoformat_valid: "date_fromisoformat s = Some d \<Longrightarrow> valid_date d"
  by (auto simp: date_fromisoformat_def split: if_splits option.splits)

lemma read_digits_zero_pad:
  assumes "n < 10 ^ w" and "0 < w"
  shows "read_digits w (zero_pad w n @ r) = Some (int n, r)"
  using assms zero_pad_digits [of w n] by (simp add: read_digits_def zero_pad_length)

lemma zero_pad_Cons:
  assumes "0 < w"
  obtains c t where "zero_pad w n = c # t" and "is_digit c"
proof -
  have "zero_pad w n \<noteq> []" by (simp add: zero_pad_def)
  then obtain c t where "zero_pad w n = c # t" by (cases "zero_pad w n") auto
  then show thesis using that zero_pad_digits [of w n] by simp
qed

lemma valid_date_bounds:
  assumes "valid_date d"
  shows "nat (year d) < 10 ^ 4" and "nat (month d) < 10 ^ 2" and "nat (day d) < 10 ^ 2"
    and "0 \<le> year d" and "0 \<le> month d" and "0 \<le> day d"
  using assms by (auto simp: valid_date_def days_in_month_def split: if_splits)

theorem date_isoformat_roundtrip:
  assumes "valid_date d"
  shows "date_fromisoformat (date_isoformat d) = Some d"
proof -
  note b = valid_date_bounds [OF assms]
  obtain c t where c: "zero_pad 2 (nat (month d)) = c # t" "is_digit c"
    using zero_pad_Cons [of 2] by auto
  have W: "\<not> starts_with ''W'' (zero_pad 2 (nat (month d)) @ r)" for r
    using c by (auto simp: in_range_def)
  have "date_parts (date_isoformat d) = Some (Date (int (nat (year d))) (int (nat (month d))) (int (nat (day d))))"
    using b read_digits_zero_pad [of "nat (day d)" 2 "[]"]
    by (simp add: date_parts_def date_isoformat_def read_digits_zero_pad W Let_def)
  then have "date_parts (date_isoformat d) = Some d"
    using b by (cases d) simp
  moreover have "length (date_isoformat d) = 10"
    using b by (simp add: date_isoformat_def zero_pad_length)
  ultimately show ?thesis
    using assms by (simp add: date_fromisoformat_def)
qed

section \<open>Ordinals agree with the order of dates\<close>

lemma div_pred:
  assumes "0 < (n::int)"
  shows "y div n = (y - 1) div n + (if y mod n = 0 then 1 else 0)"
proof (cases "y mod n = 0")
  case True
  then have "y - 1 = n * (y div n - 1) + (n - 1)"
    using div_mult_mod_eq [of y n] by (simp add: algebra_simps)
  then have "(y - 1) div n = y div n - 1"
    using assms by (intro int_div_pos_eq [where q = "y div n - 1" and r = "n - 1"]) auto
  then show ?thesis using True by simp
next
  case False
  have "0 \<le> y mod n" and "y mod n < n" using assms by auto
  moreover have "y - 1 = n * (y div n) + (y mod n - 1)"
    by (simp add: algebra_simps)
  ultimately have "(y - 1) div n = y div n"
    using False by (intro int_div_pos_eq [where r = "y mod n - 1"]) auto
  then show ?thesis using False by simp
qed

lemma days_before_year_Suc:
  "days_before_year (y + 1) = days_before_year y + 365 + (if is_leap y then 1 else 0)"
proof -
  have imp: "y mod 400 = 0 \<longrightarrow> y mod 100 = 0" "y mod 100 = 0 \<longrightarrow> y mod 4 = 0"
    using dvd_trans [of 100 400 y] dvd_trans [of 4 100 y] by (simp_all add: mod_eq_0_iff_dvd)
  have "(a3 \<longrightarrow> a2) \<Longrightarrow> (a2 \<longrightarrow> a1) \<Longrightarrow> (if a1 then 1 else 0) - (if a2 then 1 else 0) + (if a3 then 1 else 0) =
      (if a1 \<and> (\<not> a2 \<or> a3) then 1 else (0::int))" for a1 a2 a3 :: bool
    by (cases a1; cases a2; cases a3) simp_all
  from this [OF imp] have "(if y mod 4 = 0 then 1 else 0) - (if y mod 100 = 0 then 1 else 0) +
      (if y mod 400 = 0 then 1 else 0) = (if is_leap y then 1 else (0::int))"
    unfolding is_leap_def .
  moreover have "days_before_year (y + 1) = days_before_year y + 365 +
      ((if y mod 4 = 0 then 1 else 0) - (if y mod 100 = 0 then 1 else 0) + (if y mod 400 = 0 then 1 else 0))"
  proof -
    have "\<And>i j k :: int. y div 4 = (y - 1) div 4 + i \<Longrightarrow> y div 100 = (y - 1) div 100 + j \<Longrightarrow>
        y div 400 = (y - 1) div 400 + k \<Longrightarrow>
        y * 365 + y div 4 - y div 100 + y div 400 =
          (y - 1) * 365 + (y - 1) div 4 - (y - 1) div 100 + (y - 1) div 400 + 365 + (i - j + k)"
      by algebra
    from this [OF div_pred div_pred div_pred] show ?thesis
      unfolding days_before_year_def Let_def add_diff_cancel_right' by (simp only: refl zero_less_numeral)
  qed
  ultimately show ?thesis by simp
qed

lemma days_before_year_less:
  assumes "y < z"
  shows "days_before_year y + 365 + (if is_leap y then 1 else 0) \<le> days_before_year z"
proof -
  have "days_before_year (y + 1) \<le> days_before_year (y + 1 + int k)" for k
  proof (induction k)
    case 0
    show ?case by simp
  next
    case (Suc k)
    then show ?case
      using days_before_year_Suc [of "y + 1 + int k"] by (simp add: algebra_simps split: if_splits)
  qed
  from this [of "nat (z - (y + 1))"] show ?thesis
    using assms by (simp add: days_before_year_Suc)
qed

lemma month_cases:
  assumes "1 \<le> m" and "m \<le> (12::int)"
  shows "m \<in> {1, 2, 3, 4, 5, 6, 7, 8, 9, 10, 11, 12}"
  using assms by (simp only: insert_iff empty_iff) presburger

lemma days_before_month_Suc:
  assumes "1 \<le> m" and "m \<le> (11::int)"
  shows "days_before_month y (m + 1) = days_before_month y m + days_in_month y m"
  using month_cases [of m] assms
  by (auto simp: days_before_month_def month_offsets_def days_in_month_def)

lemma days_before_month_next:
  assumes "1 \<le> m" and "m < n" and "n \<le> (12::int)"
  shows "days_before_month y m + days_in_month y m \<le> days_before_month y n"
proof -
  have "m + 1 + int k \<le> 12 \<Longrightarrow> days_before_month y (m + 1) \<le> days_before_month y (m + 1 + int k)" for k
  proof (induction k)
    case 0
    show ?case by simp
  next
    case (Suc k)
    have "0 \<le> days_in_month y (m + 1 + int k)"
      by (simp add: days_in_month_def)
    then show ?case
      using Suc days_before_month_Suc [of "m + 1 + int k" y] assms by (simp add: algebra_simps)
  qed
  from this [of "nat (n - (m + 1))"] show ?thesis
    using assms by (simp add: days_before_month_Suc)
qed

lemma days_before_month_end:
  assumes "1 \<le> m" and "m \<le> (12::int)"
  shows "0 \<le> days_before_month y m"
    and "days_before_month y m + days_in_month y m \<le> 365 + (if is_leap y then 1 else 0)"
  using month_cases [OF assms]
  by (auto simp: days_before_month_def month_offsets_def days_in_month_def)

theorem to_ordinal_less:
  assumes "valid_date a" and "valid_date b" and "a < b"
  shows "to_ordinal a < to_ordinal b"
proof -
  consider "year a < year b" | "year a = year b" "month a < month b"
    | "year a = year b" "month a = month b" "day a < day b"
    using assms(3) by (auto simp: less_date_def)
  then show ?thesis
  proof cases
    case 1
    then show ?thesis
      using days_before_year_less [OF 1] assms days_before_month_end [of "month a" "year a"]
        days_before_month_end(1) [of "month b" "year b"]
      by (auto simp: to_ordinal_def valid_date_def split: if_splits)
  next
    case 2
    then show ?thesis
      using days_before_month_next [of "month a" "month b" "year b"] assms
      by (auto simp: to_ordinal_def valid_date_def)
  next
    case 3
    then show ?thesis by (simp add: to_ordinal_def)
  qed
qed

lemma to_ordinal_inject:
  "valid_date a \<Longrightarrow> valid_date b \<Longrightarrow> to_ordinal a = to_ordinal b \<longleftrightarrow> a = b"
  by (metis linorder_less_linear order_less_irrefl to_ordinal_less)

end
