(* ===== verification/Core.thy ===== *)
theory Core
  imports Sha256 Calendar_Date
begin

text \<open>
  \<open>core.py\<close>, first part: caller-safe exceptions, the validated values of the posting core
  (journal lines, journal proposals, accounting policies) and their constructors, policy
  loading from a manifest, and the canonical hash of a reversal command. A dataclass whose
  \<open>__post_init__\<close> validates or normalises is a record with a constructor function that
  returns the record or the exception.
\<close>

section \<open>Caller-safe messages\<close>

definition customer_error_replacements :: "(string \<times> string) list" where
  "customer_error_replacements =
    [(''the database session is not provisioned for this tenant'',
      ''this deployment is not provisioned for this tenant''),
     (''Repair the fiscal-period control data for this book, then retry the close.'',
      ''Ask the platform operator to restore the fiscal-period control data for this book, then '' @
      ''retry the close.''),
     (''requires a stored trial_balance_snapshot'',
      ''requires stored close evidence''),
     (''without a trial-balance snapshot. Restore the trial_balance_snapshot for this book from the '' @
      ''journal population, then retry the trial-balance read.'',
      ''without stored close evidence. Ask the platform operator to restore the close evidence for '' @
      ''this book from the authoritative journal history, then retry the trial-balance read.''),
     (''Restore the trial_balance_snapshot for this book from the journal population'',
      ''Ask the platform operator to restore the close evidence for this book from the '' @
      ''authoritative journal history''),
     (''reversal date belongs to a closed fiscal period. Reverse into an open or soft-closed '' @
      ''period, then retry reversal.'',
      ''reversal_date is outside the permitted accounting policy date range. Supply a '' @
      ''reversal_date within the policy range, then retry reversal.'')]"

definition customer_safe_error_message :: "string \<Rightarrow> string" where
  "customer_safe_error_message m =
     foldl (\<lambda>text (internal, customer). replace_text internal customer text) m
       customer_error_replacements"

text \<open>\<open>AccountingValidationError(message)\<close> and \<open>IdempotencyConflictError(message)\<close>.\<close>

definition validation_error :: "string \<Rightarrow> py_exc" where
  "validation_error m = AccountingValidationError (customer_safe_error_message m)"

definition conflict_error :: "string \<Rightarrow> py_exc" where
  "conflict_error m = IdempotencyConflictError (customer_safe_error_message m)"

lemma validation_error_not_conflict [simp]:
  "validation_error m \<noteq> conflict_error n" "conflict_error n \<noteq> validation_error m"
  "is_validation_error (validation_error m)" "is_validation_error (conflict_error m)"
  "\<not> is_idempotency_conflict (validation_error m)" "is_idempotency_conflict (conflict_error m)"
  by (simp_all add: validation_error_def conflict_error_def)

section \<open>Messages\<close>

definition msg_line_number :: string where
  "msg_line_number =
     ''line_number must be positive. Supply a line_number starting at 1, then retry ingest.''"

definition msg_one_positive_side :: string where
  "msg_one_positive_side =
     ''journal line must contain exactly one positive debit or credit amount. Supply exactly one '' @
     ''positive debit_amount or credit_amount per line, then retry ingest.''"

definition msg_proposal_identity :: string where
  "msg_proposal_identity =
     ''proposal identity and contract version are required. Supply proposal_id and '' @
     ''proposal_contract_version, then retry ingest.''"

definition msg_idempotency_key :: string where
  "msg_idempotency_key =
     ''idempotency_key is required. Supply the source-system idempotency_key, then retry ingest.''"

definition msg_payload_hash :: string where
  "msg_payload_hash =
     ''source_payload_hash must be canonical sha256. Supply sha256: plus 64 hex characters, then retry '' @
     ''ingest.''"

definition msg_event_reference :: string where
  "msg_event_reference =
     ''at least one source event reference is required. Supply at least one source_event_reference, '' @
     ''then retry ingest.''"

definition msg_two_lines :: string where
  "msg_two_lines =
     ''journal proposal requires at least two lines. Supply at least two journal lines, then retry '' @
     ''ingest.''"

definition msg_unique_lines :: string where
  "msg_unique_lines =
     ''journal line numbers must be unique. Supply unique line numbers, then retry ingest.''"

definition msg_must_balance :: string where
  "msg_must_balance =
     ''journal proposal must balance. Correct the line amounts so debit totals equal credit totals, '' @
     ''then retry ingest.''"

definition msg_open_period :: string where
  "msg_open_period =
     ''open fiscal period start must not exceed end. Correct open_period_start/open_period_end in the '' @
     ''policy manifest, then retry policy load.''"

definition msg_policy_versions :: string where
  "msg_policy_versions =
     ''accounting policy and posting rule versions are required. Supply accounting_policy_version and '' @
     ''posting_rule_version, then retry policy load.''"

definition msg_chart_code :: string where
  "msg_chart_code =
     ''chart account code must be non-empty ASCII alphanumeric. Supply a non-empty alphanumeric '' @
     ''chart_account_code, then retry policy load.''"

definition msg_mappings_empty :: string where
  "msg_mappings_empty =
     ''account mappings must include at least one role. Supply a unique role-to-chart mapping, then '' @
     ''retry policy load.''"

definition msg_mapping_object :: string where
  "msg_mapping_object =
     ''account mapping must be an object with account_role_code and chart_account_code. Correct the '' @
     ''policy manifest, then retry policy load.''"

definition msg_mapping_fields :: string where
  "msg_mapping_fields =
     ''account mapping must include account_role_code and chart_account_code. Correct the policy '' @
     ''manifest, then retry policy load.''"

definition msg_mappings_array :: string where
  "msg_mappings_array =
     ''policy manifest account_mappings must be an array. Correct the policy manifest, then retry '' @
     ''policy load.''"

definition msg_policy_dates :: string where
  "msg_policy_dates =
     ''policy manifest open period must be an ISO date. Correct the policy manifest, then retry policy '' @
     ''load.''"

definition msg_immutable :: string where
  "msg_immutable =
     ''posted journal is immutable. Reverse the existing journal, then post a replacement.''"

definition msg_reversal_key :: string where
  "msg_reversal_key =
     ''reversal idempotency key must not be empty. Supply the reversal command identity, then retry '' @
     ''reversal.''"

definition msg_no_journal :: string where
  "msg_no_journal =
     ''journal does not exist. Supply a posted journal reference, then retry reversal.''"

definition msg_reverse_reversal :: string where
  "msg_reverse_reversal =
     ''a reversal journal cannot itself be reversed. Reverse the original journal, or post a '' @
     ''replacement.''"

definition msg_reversal_scope :: string where
  "msg_reversal_scope =
     ''reversal policy scope does not match original journal. Supply the reversal policy for the '' @
     ''original journal's legal entity and book, then retry reversal.''"

definition msg_already_reversed :: string where
  "msg_already_reversed =
     ''journal is already reversed. Use the existing reversal receipt, then retry.''"

definition msg_reversal_conflict :: string where
  "msg_reversal_conflict =
     ''reversal idempotency key was already used with a different payload''"

definition msg_reversal_early :: string where
  "msg_reversal_early =
     ''reversal date must not precede the original journal accounting date. Supply a reversal_date on '' @
     ''or after the original accounting date, then retry reversal.''"

definition msg_reversal_range :: string where
  "msg_reversal_range =
     ''reversal_date is outside the permitted accounting policy date range. Supply a reversal_date '' @
     ''within the policy range, then retry reversal.''"

definition msg_conflict :: string where
  "msg_conflict =
     ''idempotency key was already used with a different payload''"

definition msg_tenant_scope :: string where
  "msg_tenant_scope =
     ''proposal tenant scope does not match policy. Send the proposal under the matching tenant scope, '' @
     ''then retry posting.''"

definition msg_entity_scope :: string where
  "msg_entity_scope =
     ''proposal legal entity scope does not match policy. Send the proposal under the matching '' @
     ''legal-entity scope, then retry posting.''"

definition msg_book_scope :: string where
  "msg_book_scope =
     ''proposal book role does not match policy. Send the proposal under the matching book role, then '' @
     ''retry posting.''"

definition msg_closed_period :: string where
  "msg_closed_period =
     ''accounting date belongs to a closed fiscal period. Post into an open period for this book, then '' @
     ''retry posting.''"

definition msg_currency_scope :: string where
  "msg_currency_scope =
     ''proposal transaction currency does not match policy. Supply the policy transaction currency, '' @
     ''then retry posting.''"

definition msg_foreign_exchange :: string where
  "msg_foreign_exchange =
     ''foreign exchange accounting is outside the initial posting milestone. Post in the book's '' @
     ''functional currency, then retry posting.''"

definition msg_amount :: string where
  "msg_amount =
     ''amount must be a canonical non-negative decimal with at most six fractional digits. Supply a '' @
     ''non-negative decimal string with no more than six fractional digits, then retry ingest.''"

definition msg_amount_decimal :: string where
  "msg_amount_decimal =
     ''amount is not a valid decimal. Supply a canonical non-negative decimal string, then retry '' @
     ''ingest.''"

definition msg_proposal_id :: string where
  "msg_proposal_id =
     ''proposal_id must be a UUID. Supply the Billing published proposal_id, then retry posting.''"

definition msg_currency :: string where
  "msg_currency =
     ''currency code must contain three uppercase letters. Supply a three-letter uppercase ISO '' @
     ''currency code, then retry.''"

definition msg_code :: "string \<Rightarrow> string" where
  "msg_code label = label @ '' must be lower snake_case. Supply a valid '' @ label @ '', then retry.''"

definition msg_reference :: "string \<Rightarrow> string" where
  "msg_reference label =
     label @ '' must be a CWL URN. Supply an opaque urn:cwl: reference, then retry.''"

definition msg_mapped_twice :: "string \<Rightarrow> string" where
  "msg_mapped_twice role =
     ''account role '' @ role @ '' is mapped more than once. '' @
     ''Keep one chart_account_code per account_role_code, then retry policy load.''"

definition msg_not_mapped :: "string \<Rightarrow> string" where
  "msg_not_mapped role =
     ''account role '' @ role @ '' is not mapped on this book. '' @
     ''Map that role in the policy manifest, then retry posting.''"

section \<open>Field validators\<close>

definition require_proposal_id :: "string \<Rightarrow> unit result" where
  "require_proposal_id pid = require (proposal_id_pattern pid) (validation_error msg_proposal_id)"

definition require_code :: "string \<Rightarrow> string \<Rightarrow> unit result" where
  "require_code value label = require (code_pattern value) (validation_error (msg_code label))"

definition require_currency :: "string \<Rightarrow> unit result" where
  "require_currency value = require (currency_pattern value) (validation_error msg_currency)"

definition require_reference :: "string \<Rightarrow> string \<Rightarrow> unit result" where
  "require_reference value label =
     require (reference_pattern value) (validation_error (msg_reference label))"

definition parse_amount :: "py_value \<Rightarrow> dec result" where
  "parse_amount value =
     (let text = py_str value in
      if \<not> decimal_pattern text then Inl (validation_error msg_amount)
      else case decimal_of_text text of
             Some (Fin amount) \<Rightarrow> Inr amount
           | _ \<Rightarrow> Inl (validation_error msg_amount_decimal))"

section \<open>Journal lines\<close>

record journal_line_proposal =
  jl_line_number :: int
  jl_account_role_code :: string
  jl_debit_amount :: dec
  jl_credit_amount :: dec

definition make_line_proposal ::
    "int \<Rightarrow> string \<Rightarrow> py_value \<Rightarrow> py_value \<Rightarrow> journal_line_proposal result" where
  "make_line_proposal number role debit credit =
     (if number < 1 then Inl (validation_error msg_line_number)
      else bind_result (require_code role ''account role code'') (\<lambda>_.
        bind_result (parse_amount debit) (\<lambda>debit_amount.
        bind_result (parse_amount credit) (\<lambda>credit_amount.
          if dec_positive debit_amount = dec_positive credit_amount
          then Inl (validation_error msg_one_positive_side)
          else Inr \<lparr>jl_line_number = number, jl_account_role_code = role,
                    jl_debit_amount = debit_amount, jl_credit_amount = credit_amount\<rparr>))))"

section \<open>Journal proposals\<close>

record journal_proposal =
  jp_proposal_id :: string
  jp_contract_version :: int
  jp_idempotency_key :: string
  jp_tenant_reference :: string
  jp_legal_entity_reference :: string
  jp_book_role_code :: string
  jp_transaction_currency :: string
  jp_transaction_date :: date
  jp_accounting_date :: date
  jp_source_payload_hash :: string
  jp_source_event_references :: "string list"
  jp_lines :: "journal_line_proposal list"

definition proposal_debit_total :: "journal_proposal \<Rightarrow> dec" where
  "proposal_debit_total p = dec_sum (map jl_debit_amount (jp_lines p))"

definition proposal_credit_total :: "journal_proposal \<Rightarrow> dec" where
  "proposal_credit_total p = dec_sum (map jl_credit_amount (jp_lines p))"

definition validate_proposal :: "journal_proposal \<Rightarrow> journal_proposal result" where
  "validate_proposal p =
     bind_result (require (jp_proposal_id p \<noteq> [] \<and> \<not> jp_contract_version p < 1)
                    (validation_error msg_proposal_identity)) (\<lambda>_.
     bind_result (require_proposal_id (jp_proposal_id p)) (\<lambda>_.
     bind_result (require (jp_idempotency_key p \<noteq> []) (validation_error msg_idempotency_key)) (\<lambda>_.
     bind_result (require_reference (jp_tenant_reference p) ''tenant reference'') (\<lambda>_.
     bind_result (require_reference (jp_legal_entity_reference p) ''legal entity reference'') (\<lambda>_.
     bind_result (require_code (jp_book_role_code p) ''intended book role code'') (\<lambda>_.
     bind_result (require_currency (jp_transaction_currency p)) (\<lambda>_.
     bind_result (require (hash_pattern (jp_source_payload_hash p))
                    (validation_error msg_payload_hash)) (\<lambda>_.
     bind_result (require (jp_source_event_references p \<noteq> []) (validation_error msg_event_reference)) (\<lambda>_.
     bind_result (check_all (\<lambda>r. require_reference r ''source event reference'')
                    (jp_source_event_references p)) (\<lambda>_.
     bind_result (require (\<not> length (jp_lines p) < 2) (validation_error msg_two_lines)) (\<lambda>_.
     bind_result (require (distinct (map jl_line_number (jp_lines p)))
                    (validation_error msg_unique_lines)) (\<lambda>_.
     bind_result (require (dec_eq (proposal_debit_total p) (proposal_credit_total p))
                    (validation_error msg_must_balance)) (\<lambda>_.
       Inr p)))))))))))))"

section \<open>Accounting policies\<close>

record accounting_policy =
  pol_tenant_reference :: string
  pol_legal_entity_reference :: string
  pol_book_reference :: string
  pol_book_role_code :: string
  pol_transaction_currency :: string
  pol_functional_currency :: string
  pol_open_period_start :: date
  pol_open_period_end :: date
  pol_chart_account_mapping :: "(string, string) dict"
  pol_policy_version :: string
  pol_rule_version :: string

definition check_mapping_item :: "string \<times> string \<Rightarrow> unit result" where
  "check_mapping_item item =
     bind_result (require_code (fst item) ''account role code'') (\<lambda>_.
       require (snd item \<noteq> [] \<and> is_ascii (snd item) \<and> is_alnum_ascii (snd item))
         (validation_error msg_chart_code))"

definition validate_policy :: "accounting_policy \<Rightarrow> accounting_policy result" where
  "validate_policy p =
     bind_result (require_reference (pol_tenant_reference p) ''tenant reference'') (\<lambda>_.
     bind_result (require_reference (pol_legal_entity_reference p) ''legal entity reference'') (\<lambda>_.
     bind_result (require_reference (pol_book_reference p) ''accounting book reference'') (\<lambda>_.
     bind_result (require_code (pol_book_role_code p) ''intended book role code'') (\<lambda>_.
     bind_result (require_currency (pol_transaction_currency p)) (\<lambda>_.
     bind_result (require_currency (pol_functional_currency p)) (\<lambda>_.
     bind_result (require (\<not> pol_open_period_start p > pol_open_period_end p)
                    (validation_error msg_open_period)) (\<lambda>_.
     bind_result (require (pol_policy_version p \<noteq> [] \<and> pol_rule_version p \<noteq> [])
                    (validation_error msg_policy_versions)) (\<lambda>_.
     bind_result (check_all check_mapping_item (pol_chart_account_mapping p)) (\<lambda>_.
       Inr p)))))))))"

definition permits :: "accounting_policy \<Rightarrow> date \<Rightarrow> bool" where
  "permits p d \<longleftrightarrow> pol_open_period_start p \<le> d \<and> d \<le> pol_open_period_end p"

section \<open>Policy loading\<close>

definition load_mapping_item :: "(string, string) dict \<Rightarrow> py_value \<Rightarrow> (string, string) dict result" where
  "load_mapping_item mapping item =
     (case as_mapping item of
        None \<Rightarrow> Inl (validation_error msg_mapping_object)
      | Some d \<Rightarrow>
          (case (as_str (get_value d ''account_role_code''), as_str (get_value d ''chart_account_code'')) of
             (Some role, Some account) \<Rightarrow>
               if role \<in> set (dict_keys mapping) then Inl (validation_error (msg_mapped_twice role))
               else Inr (dict_set role account mapping)
           | _ \<Rightarrow> Inl (validation_error msg_mapping_fields)))"

definition load_chart_account_mapping :: "py_value list \<Rightarrow> (string, string) dict result" where
  "load_chart_account_mapping items =
     (if items = [] then Inl (validation_error msg_mappings_empty)
      else fold_result load_mapping_item [] items)"

text \<open>\<open>str(manifest.get(key, ""))\<close>.\<close>

definition manifest_text :: "payload \<Rightarrow> string \<Rightarrow> string" where
  "manifest_text m k = (case dict_get m k of None \<Rightarrow> [] | Some v \<Rightarrow> py_str v)"

definition load_accounting_policy :: "payload \<Rightarrow> accounting_policy result" where
  "load_accounting_policy m =
     (case as_sequence (get_value m ''account_mappings'') of
        None \<Rightarrow> Inl (validation_error msg_mappings_array)
      | Some raw_mappings \<Rightarrow>
          (case (date_fromisoformat (manifest_text m ''open_period_start''),
                 date_fromisoformat (manifest_text m ''open_period_end'')) of
             (Some start, Some end) \<Rightarrow>
               bind_result (load_chart_account_mapping raw_mappings) (\<lambda>mapping.
                 validate_policy
                   \<lparr>pol_tenant_reference = manifest_text m ''tenant_reference'',
                    pol_legal_entity_reference = manifest_text m ''legal_entity_reference'',
                    pol_book_reference = manifest_text m ''accounting_book_reference'',
                    pol_book_role_code = manifest_text m ''intended_book_role_code'',
                    pol_transaction_currency = manifest_text m ''transaction_currency'',
                    pol_functional_currency = manifest_text m ''functional_currency'',
                    pol_open_period_start = start,
                    pol_open_period_end = end,
                    pol_chart_account_mapping = mapping,
                    pol_policy_version = manifest_text m ''accounting_policy_version'',
                    pol_rule_version = manifest_text m ''posting_rule_version''\<rparr>)
           | _ \<Rightarrow> Inl (validation_error msg_policy_dates)))"

section \<open>Posted journals and receipts\<close>

record posted_journal_line =
  pl_line_number :: int
  pl_chart_account_code :: string
  pl_account_role_code :: string
  pl_debit_amount :: dec
  pl_credit_amount :: dec

record posted_journal =
  pj_journal_reference :: string
  pj_tenant_reference :: string
  pj_legal_entity_reference :: string
  pj_book_reference :: string
  pj_accounting_date :: date
  pj_transaction_currency :: string
  pj_functional_currency :: string
  pj_source_proposal_id :: string
  pj_source_payload_hash :: string
  pj_policy_version :: string
  pj_rule_version :: string
  pj_lines :: "posted_journal_line list"
  pj_reversal_of :: "string option"
  pj_reversal_reason_code :: "string option"
  pj_reversal_idempotency_key :: "string option"

record posting_receipt =
  rc_receipt_reference :: string
  rc_journal_reference :: string
  rc_status_code :: string
  rc_source_proposal_id :: string
  rc_source_payload_hash :: string
  rc_tenant_reference :: string
  rc_legal_entity_reference :: string
  rc_book_reference :: string
  rc_policy_version :: string
  rc_rule_version :: string
  rc_line_count :: nat
  rc_reversal_of :: "string option"

record account_balance =
  ab_chart_account_code :: string
  ab_debit_total :: dec
  ab_credit_total :: dec

definition net_balance :: "account_balance \<Rightarrow> dec" where
  "net_balance b = dec_sub (ab_debit_total b) (ab_credit_total b)"

section \<open>The hash of a reversal command\<close>

definition reversal_command_payload ::
    "string \<Rightarrow> string \<Rightarrow> string \<Rightarrow> date \<Rightarrow> string \<Rightarrow> payload" where
  "reversal_command_payload tenant key original d reason =
    [(''original_journal_reference'', PStr original),
     (''reversal_date'', PStr (date_isoformat d)),
     (''reversal_idempotency_key'', PStr key),
     (''reversal_reason_code'', PStr reason),
     (''tenant_reference'', PStr tenant)]"

definition reversal_command_text ::
    "string \<Rightarrow> string \<Rightarrow> string \<Rightarrow> date \<Rightarrow> string \<Rightarrow> string" where
  "reversal_command_text tenant key original d reason =
     the (json_dumps (PDict (reversal_command_payload tenant key original d reason)))"

definition reversal_command_hash ::
    "string \<Rightarrow> string \<Rightarrow> string \<Rightarrow> date \<Rightarrow> string \<Rightarrow> string" where
  "reversal_command_hash tenant key original d reason =
     sha256_reference (reversal_command_text tenant key original d reason)"

section \<open>What the constructors guarantee\<close>

text \<open>An amount the parser accepts: a non-negative decimal with at most six fractional digits.\<close>

definition amount_ok :: "dec \<Rightarrow> bool" where
  "amount_ok d \<longleftrightarrow> \<not> dneg d \<and> - 6 \<le> dexp d \<and> dexp d \<le> 0"

lemma amount_ok_nonneg: "amount_ok d \<Longrightarrow> 0 \<le> dval d"
  by (simp add: amount_ok_def dval_def signed_coef_def)

lemma amount_ok_zero [simp]: "amount_ok dec_zero"
  by (simp add: amount_ok_def dec_zero_def)

lemma parse_amount_ok:
  assumes "parse_amount v = Inr d"
  shows "amount_ok d" and "dec_text d = py_str v" and "decimal_pattern (py_str v)"
proof -
  have p: "decimal_pattern (py_str v)"
    using assms by (simp add: parse_amount_def Let_def split: if_splits)
  then obtain d' where d': "decimal_of_text (py_str v) = Some (Fin d')" "dec_text d' = py_str v"
      "- 6 \<le> dexp d'" "dexp d' \<le> 0" "\<not> dneg d'"
    using decimal_pattern_roundtrip [OF p] by blast
  with assms p have "d = d'" by (simp add: parse_amount_def Let_def)
  with d' show "amount_ok d" and "dec_text d = py_str v" by (simp_all add: amount_ok_def)
  show "decimal_pattern (py_str v)" by (rule p)
qed

lemma parse_amount_total:
  "decimal_pattern (py_str v) \<longleftrightarrow> (\<exists>d. parse_amount v = Inr d)"
proof
  assume p: "decimal_pattern (py_str v)"
  then show "\<exists>d. parse_amount v = Inr d"
    using decimal_pattern_roundtrip [OF p] by (auto simp: parse_amount_def Let_def)
qed (auto dest: parse_amount_ok(3))

definition line_ok :: "journal_line_proposal \<Rightarrow> bool" where
  "line_ok l \<longleftrightarrow> 1 \<le> jl_line_number l \<and> code_pattern (jl_account_role_code l) \<and>
     amount_ok (jl_debit_amount l) \<and> amount_ok (jl_credit_amount l) \<and>
     (0 < dval (jl_debit_amount l) \<longleftrightarrow> dval (jl_credit_amount l) = 0)"

lemma amount_not_positive: "amount_ok d \<Longrightarrow> \<not> 0 < dval d \<longleftrightarrow> dval d = 0"
  using amount_ok_nonneg [of d] by auto

lemma make_line_proposal_ok:
  assumes "make_line_proposal n role debit credit = Inr l"
  shows "line_ok l"
proof -
  from assms obtain d c where
    "1 \<le> n" "code_pattern role" and d: "parse_amount debit = Inr d" and c: "parse_amount credit = Inr c"
    and side: "dec_positive d \<noteq> dec_positive c"
    and l: "l = \<lparr>jl_line_number = n, jl_account_role_code = role, jl_debit_amount = d, jl_credit_amount = c\<rparr>"
    by (auto simp: make_line_proposal_def require_code_def result_simps split: if_splits)
  then show ?thesis
    using parse_amount_ok(1) [OF d] parse_amount_ok(1) [OF c] amount_not_positive [of d] amount_not_positive [of c]
    by (auto simp: line_ok_def dec_positive_iff)
qed

lemmas validator_defs =
  require_proposal_id_def require_code_def require_currency_def require_reference_def

lemma validate_proposal_eq_Inr:
  "validate_proposal p = Inr q \<longleftrightarrow>
     q = p \<and> jp_proposal_id p \<noteq> [] \<and> 1 \<le> jp_contract_version p \<and> proposal_id_pattern (jp_proposal_id p) \<and>
     jp_idempotency_key p \<noteq> [] \<and> reference_pattern (jp_tenant_reference p) \<and>
     reference_pattern (jp_legal_entity_reference p) \<and> code_pattern (jp_book_role_code p) \<and>
     currency_pattern (jp_transaction_currency p) \<and> hash_pattern (jp_source_payload_hash p) \<and>
     jp_source_event_references p \<noteq> [] \<and> list_all reference_pattern (jp_source_event_references p) \<and>
     2 \<le> length (jp_lines p) \<and> distinct (map jl_line_number (jp_lines p)) \<and>
     dval (proposal_debit_total p) = dval (proposal_credit_total p)"
  unfolding validate_proposal_def validator_defs bind_result_eq_Inr require_eq_Inr check_all_eq_Inr
  by (auto simp: list_all_iff dec_eq_iff)

text \<open>A validated proposal whose totals stay below ten to the 22 balances exactly.\<close>

lemma validated_proposal_balances:
  assumes "validate_proposal p = Inr q" and "list_all line_ok (jp_lines p)"
    and "dval_sum (map jl_debit_amount (jp_lines p)) < 10 ^ 22"
    and "dval_sum (map jl_credit_amount (jp_lines p)) < 10 ^ 22"
  shows "dval_sum (map jl_debit_amount (jp_lines p)) = dval_sum (map jl_credit_amount (jp_lines p))"
proof -
  have "\<forall>d\<in>set (map jl_debit_amount (jp_lines p)). 0 \<le> dval d \<and> - 6 \<le> dexp d"
    and "\<forall>d\<in>set (map jl_credit_amount (jp_lines p)). 0 \<le> dval d \<and> - 6 \<le> dexp d"
    using assms(2) amount_ok_nonneg by (auto simp: line_ok_def list_all_iff amount_ok_def)
  then have "dval (proposal_debit_total p) = dval_sum (map jl_debit_amount (jp_lines p))"
    and "dval (proposal_credit_total p) = dval_sum (map jl_credit_amount (jp_lines p))"
    using assms(3,4) unfolding proposal_debit_total_def proposal_credit_total_def
    by (simp_all only: dec_sum_exact)
  then show ?thesis
    using assms(1) by (simp add: validate_proposal_eq_Inr)
qed

lemma validate_policy_eq_Inr:
  "validate_policy p = Inr q \<longleftrightarrow>
     q = p \<and> reference_pattern (pol_tenant_reference p) \<and> reference_pattern (pol_legal_entity_reference p) \<and>
     reference_pattern (pol_book_reference p) \<and> code_pattern (pol_book_role_code p) \<and>
     currency_pattern (pol_transaction_currency p) \<and> currency_pattern (pol_functional_currency p) \<and>
     pol_open_period_start p \<le> pol_open_period_end p \<and> pol_policy_version p \<noteq> [] \<and> pol_rule_version p \<noteq> [] \<and>
     (\<forall>(role, account)\<in>set (pol_chart_account_mapping p).
        code_pattern role \<and> account \<noteq> [] \<and> is_ascii account \<and> is_alnum_ascii account)"
  unfolding validate_policy_def validator_defs check_mapping_item_def bind_result_eq_Inr
    require_eq_Inr check_all_eq_Inr
  by (auto simp: not_less)

text \<open>Role mapping: one account per role, in manifest order, no role twice.\<close>

lemma load_mapping_item_eq_Inr:
  "load_mapping_item m item = Inr m' \<longleftrightarrow>
     (\<exists>d role account. item = PDict d \<and> get_value d ''account_role_code'' = PStr role \<and>
        get_value d ''chart_account_code'' = PStr account \<and> role \<notin> set (dict_keys m) \<and>
        m' = m @ [(role, account)])"
  by (auto simp: load_mapping_item_def dict_set_fresh split: option.splits)

lemma load_mapping_fold:
  assumes "fold_result load_mapping_item m items = Inr m'" and "dict_wf m"
  shows "dict_wf m' \<and> length m' = length m + length items \<and> take (length m) m' = m"
  using assms
proof (induction items arbitrary: m)
  case Nil
  then show ?case by simp
next
  case (Cons item items)
  then obtain role account where rest: "fold_result load_mapping_item (m @ [(role, account)]) items = Inr m'"
    and fresh: "role \<notin> set (dict_keys m)"
    by (auto simp: bind_result_eq_Inr load_mapping_item_eq_Inr)
  have "dict_wf m' \<and> length m' = length (m @ [(role, account)]) + length items \<and>
      take (length (m @ [(role, account)])) m' = m @ [(role, account)]"
    using Cons.IH [OF rest] Cons.prems(2) fresh by simp
  then show ?case by (metis add_Suc_right add_Suc_shift append_eq_conv_conj length_Cons
      length_append_singleton list.size(4) take_Suc_conv_app_nth take_append take_take
      append_take_drop_id min.absorb1 le_add1)
qed

text \<open>The hash of a reversal command is canonical, and its text determines the command.\<close>

lemma reversal_command_text_eq:
  "reversal_command_text tenant key original d reason =
     ''{'' @ json_string ''original_journal_reference'' @ '':'' @ json_string original @ '','' @
     json_string ''reversal_date'' @ '':'' @ json_string (date_isoformat d) @ '','' @
     json_string ''reversal_idempotency_key'' @ '':'' @ json_string key @ '','' @
     json_string ''reversal_reason_code'' @ '':'' @ json_string reason @ '','' @
     json_string ''tenant_reference'' @ '':'' @ json_string tenant @ ''}''"
proof -
  have "sorted (map fst (map (\<lambda>(k, v). (k, json_dumps v)) (reversal_command_payload tenant key original d reason)))"
    by (simp add: reversal_command_payload_def)
  then have "sort_key fst (map (\<lambda>(k, v). (k, json_dumps v)) (reversal_command_payload tenant key original d reason)) =
      map (\<lambda>(k, v). (k, json_dumps v)) (reversal_command_payload tenant key original d reason)"
    by (rule sort_key_id_if_sorted)
  then show ?thesis
    by (simp add: reversal_command_text_def Let_def) (simp add: reversal_command_payload_def)
qed

lemma reversal_command_text_inject:
  assumes "valid_date d" and "valid_date d'"
  shows "reversal_command_text t k j d r = reversal_command_text t' k' j' d' r' \<longleftrightarrow>
     t = t' \<and> k = k' \<and> j = j' \<and> d = d' \<and> r = r'"
proof -
  have "date_isoformat d = date_isoformat d' \<longleftrightarrow> d = d'"
    using assms date_isoformat_roundtrip by (metis option.inject)
  then show ?thesis
    by (auto simp: reversal_command_text_eq json_string_inject)
qed

end
