(* ===== verification/Ingest.thy ===== *)
theory Ingest
  imports Core
begin

text \<open>
  \<open>ingest.py\<close>: the published journal proposal of the billing product, a decoded JSON document,
  becomes a validated journal proposal or an exception. The checks run in the order of the
  code, argument by argument.
\<close>

section \<open>Messages\<close>

definition msg_payload_object :: string where
  "msg_payload_object =
     ''journal proposal payload must be a JSON object. Supply a Billing accounting_journal_proposal, then retry ingest.''"

definition msg_reject_row :: string where
  "msg_reject_row =
     ''Billing operational reject rows are not schema-valid journal proposals. '' @
     ''Correct the invoice draft or tenant named in rejection_reason_code, '' @
     ''then retry propose_journal; do not ingest the reject row.''"

definition msg_status_rejected :: "string \<Rightarrow> string" where
  "msg_status_rejected status =
     ''proposal_status '' @ status @ '' is not ingestible. Ask Billing to emit a validated proposal, then retry ingest.''"

definition msg_status_posted :: string where
  "msg_status_posted =
     ''proposal_status posted is not a Billing proposal state. '' @
     ''Wait for the AIS posting_receipt; do not expect Billing to flip the proposal to posted.''"

definition msg_status_unknown :: "string \<Rightarrow> string" where
  "msg_status_unknown status =
     ''proposal_status '' @ status @ '' is not ingestible. Supply validated or exported, then retry ingest.''"

definition msg_status_field :: string where
  "msg_status_field =
     ''published field is proposal_status, not proposal_status_code. Map the Billing contract field, then retry ingest.''"

definition msg_status_missing :: string where
  "msg_status_missing =
     ''proposal_status is required. Supply the Billing published proposal_status, then retry ingest.''"

definition msg_field_required :: "string \<Rightarrow> string" where
  "msg_field_required field =
     field @ '' is required. Supply the Billing published '' @ field @ '', then retry ingest.''"

definition msg_references_array :: string where
  "msg_references_array =
     ''source_event_references must be an array of CWL URNs. Supply the Billing published references, then retry ingest.''"

definition msg_lines_array :: string where
  "msg_lines_array =
     ''lines must be an array of journal line objects. Supply the Billing published lines, then retry ingest.''"

definition msg_line_object :: string where
  "msg_line_object =
     ''each journal line must be a line object. Supply Billing line objects, then retry ingest.''"

definition msg_retained_earnings :: string where
  "msg_retained_earnings =
     ''retained_earnings is reserved for AIS period-close. '' @
     ''Post revenue and expense through Billing, then hard-close; '' @
     ''do not send retained_earnings on a Billing proposal.''"

definition msg_integer :: "string \<Rightarrow> string" where
  "msg_integer field =
     field @ '' must be an integer. Supply the Billing published '' @ field @ '', then retry ingest.''"

definition msg_amount_string :: "string \<Rightarrow> string" where
  "msg_amount_string field =
     field @ '' must be a canonical decimal string. Supply exact decimal strings, not JSON numbers, then retry ingest.''"

definition msg_canonical_zero :: "string \<Rightarrow> string" where
  "msg_canonical_zero field =
     field @ '' must use canonical zero '' @ CHR 0x27 # ''0'' @ CHR 0x27 #
     ''. Supply the Billing schema's literal zero representation, then retry ingest.''"

definition msg_iso_date :: "string \<Rightarrow> string" where
  "msg_iso_date field = field @ '' must be an ISO date. Supply YYYY-MM-DD, then retry ingest.''"

section \<open>Fields\<close>

definition required_contract_fields :: "string list" where
  "required_contract_fields =
    [''proposal_id'', ''proposal_contract_version'', ''idempotency_key'', ''tenant_reference'',
     ''legal_entity_reference'', ''intended_book_role_code'', ''transaction_currency'',
     ''transaction_date'', ''accounting_date'', ''source_payload_hash'', ''proposed_at'',
     ''proposal_status'', ''source_event_references'', ''lines'']"

definition required_line_fields :: "string list" where
  "required_line_fields = [''line_number'', ''account_role_code'', ''debit_amount'', ''credit_amount'']"

definition check_required_field :: "payload \<Rightarrow> string \<Rightarrow> unit result" where
  "check_required_field d field =
     require (has_key d field \<and> \<not> none_or_empty (get_value d field))
       (validation_error (msg_field_required field))"

fun require_contract_int :: "py_value \<Rightarrow> string \<Rightarrow> int result" where
  "require_contract_int (PInt i) field = Inr i"
| "require_contract_int v field = Inl (validation_error (msg_integer field))"

text \<open>
  A string that \<open>Decimal\<close> rejects is passed on, to be refused by \<open>parse_amount\<close>. Comparing a
  signalling NaN raises \<open>InvalidOperation\<close>, which nothing here catches.
\<close>

fun require_amount_string :: "py_value \<Rightarrow> string \<Rightarrow> string result" where
  "require_amount_string (PStr value) field =
     (case decimal_of_text value of
        None \<Rightarrow> Inr value
      | Some (NaN sign signalling payload) \<Rightarrow> if signalling then Inl InvalidOperation else Inr value
      | Some (Inf sign) \<Rightarrow> Inr value
      | Some (Fin d) \<Rightarrow>
          if dec_eq d dec_zero \<and> value \<noteq> ''0'' then Inl (validation_error (msg_canonical_zero field))
          else Inr value)"
| "require_amount_string v field = Inl (validation_error (msg_amount_string field))"

fun require_iso_date :: "py_value \<Rightarrow> string \<Rightarrow> date result" where
  "require_iso_date (PStr value) field =
     (case date_fromisoformat value of
        None \<Rightarrow> Inl (validation_error (msg_iso_date field))
      | Some d \<Rightarrow> Inr d)"
| "require_iso_date v field = Inl (validation_error (msg_iso_date field))"

section \<open>Lines and proposals\<close>

definition journal_line_from_contract :: "py_value \<Rightarrow> journal_line_proposal result" where
  "journal_line_from_contract line =
     (case as_mapping line of
        None \<Rightarrow> Inl (validation_error msg_line_object)
      | Some d \<Rightarrow>
          bind_result (check_all (check_required_field d) required_line_fields) (\<lambda>_.
            let role = py_str (get_value d ''account_role_code'') in
            if role = ''retained_earnings'' then Inl (validation_error msg_retained_earnings)
            else
              bind_result (require_contract_int (get_value d ''line_number'') ''line_number'') (\<lambda>number.
              bind_result (require_amount_string (get_value d ''debit_amount'') ''debit_amount'') (\<lambda>debit.
              bind_result (require_amount_string (get_value d ''credit_amount'') ''credit_amount'') (\<lambda>credit.
                make_line_proposal number role (PStr debit) (PStr credit))))))"

definition contract_proposal ::
    "payload \<Rightarrow> int \<Rightarrow> date \<Rightarrow> date \<Rightarrow> py_value list \<Rightarrow> journal_line_proposal list \<Rightarrow> journal_proposal" where
  "contract_proposal p version transaction_date accounting_date references ls =
     \<lparr>jp_proposal_id = py_str (get_value p ''proposal_id''),
      jp_contract_version = version,
      jp_idempotency_key = py_str (get_value p ''idempotency_key''),
      jp_tenant_reference = py_str (get_value p ''tenant_reference''),
      jp_legal_entity_reference = py_str (get_value p ''legal_entity_reference''),
      jp_book_role_code = py_str (get_value p ''intended_book_role_code''),
      jp_transaction_currency = py_str (get_value p ''transaction_currency''),
      jp_transaction_date = transaction_date,
      jp_accounting_date = accounting_date,
      jp_source_payload_hash = py_str (get_value p ''source_payload_hash''),
      jp_source_event_references = map py_str references,
      jp_lines = ls\<rparr>"

definition journal_proposal_from_contract :: "payload \<Rightarrow> journal_proposal result" where
  "journal_proposal_from_contract p =
     bind_result (check_all (check_required_field p) required_contract_fields) (\<lambda>_.
     case as_sequence (get_value p ''source_event_references'') of
       None \<Rightarrow> Inl (validation_error msg_references_array)
     | Some references \<Rightarrow>
     (case as_sequence (get_value p ''lines'') of
       None \<Rightarrow> Inl (validation_error msg_lines_array)
     | Some lines \<Rightarrow>
         bind_result (require_contract_int (get_value p ''proposal_contract_version'')
                        ''proposal_contract_version'') (\<lambda>version.
         bind_result (require_iso_date (get_value p ''transaction_date'') ''transaction_date'') (\<lambda>transaction_date.
         bind_result (require_iso_date (get_value p ''accounting_date'') ''accounting_date'') (\<lambda>accounting_date.
         bind_result (map_result journal_line_from_contract lines) (\<lambda>ls.
           validate_proposal
             (contract_proposal p version transaction_date accounting_date references ls)))))))"

definition published_proposal_status :: "payload \<Rightarrow> string result" where
  "published_proposal_status p =
     (if has_key p ''proposal_status'' then Inr (py_str (get_value p ''proposal_status''))
      else if has_key p ''proposal_status_code'' then Inl (validation_error msg_status_field)
      else Inl (validation_error msg_status_missing))"

definition ingest_journal_proposal :: "py_value \<Rightarrow> journal_proposal result" where
  "ingest_journal_proposal v =
     (case as_mapping v of
        None \<Rightarrow> Inl (validation_error msg_payload_object)
      | Some p \<Rightarrow>
          if get_value p ''journal_proposal_outcome_code'' = PStr ''rejected'' \<or> has_key p ''rejection_reason_code''
          then Inl (validation_error msg_reject_row)
          else
            bind_result (published_proposal_status p) (\<lambda>status.
              if status = ''validated'' \<or> status = ''exported'' then journal_proposal_from_contract p
              else if status = ''draft'' \<or> status = ''rejected'' then Inl (validation_error (msg_status_rejected status))
              else if status = ''posted'' then Inl (validation_error msg_status_posted)
              else Inl (validation_error (msg_status_unknown status))))"

section \<open>What ingestion guarantees\<close>

lemma require_iso_date_eq_Inr:
  "require_iso_date v f = Inr d \<longleftrightarrow> (\<exists>s. v = PStr s \<and> date_fromisoformat s = Some d)"
  by (cases "(v, f)" rule: require_iso_date.cases) (auto split: option.splits)

lemma require_contract_int_eq_Inr: "require_contract_int v f = Inr i \<longleftrightarrow> v = PInt i"
  by (cases "(v, f)" rule: require_contract_int.cases) auto

lemma require_amount_string_eq_Inr:
  "require_amount_string v f = Inr s \<longleftrightarrow>
     v = PStr s \<and> (\<forall>sg p. decimal_of_text s \<noteq> Some (NaN sg True p)) \<and>
     (\<forall>d. decimal_of_text s = Some (Fin d) \<longrightarrow> dval d = 0 \<longrightarrow> s = ''0'')"
proof (cases "(v, f)" rule: require_amount_string.cases)
  case (1 t fld)
  then show ?thesis
    by (auto simp: dec_eq_iff split: option.splits py_decimal.splits if_splits)
qed auto

lemma journal_line_from_contract_eq_Inr:
  "journal_line_from_contract v = Inr l \<longleftrightarrow>
     (\<exists>d role number debit credit. v = PDict d \<and> check_all (check_required_field d) required_line_fields = Inr () \<and>
        role = py_str (get_value d ''account_role_code'') \<and> role \<noteq> ''retained_earnings'' \<and>
        get_value d ''line_number'' = PInt number \<and>
        require_amount_string (get_value d ''debit_amount'') ''debit_amount'' = Inr debit \<and>
        require_amount_string (get_value d ''credit_amount'') ''credit_amount'' = Inr credit \<and>
        make_line_proposal number role (PStr debit) (PStr credit) = Inr l)"
  by (auto simp: journal_line_from_contract_def Let_def bind_result_eq_Inr require_contract_int_eq_Inr
      split: option.splits if_splits)

lemma make_line_proposal_role:
  "make_line_proposal n role debit credit = Inr l \<Longrightarrow> jl_account_role_code l = role"
  by (auto simp: make_line_proposal_def result_simps split: if_splits)

lemma journal_line_from_contract_ok:
  assumes "journal_line_from_contract v = Inr l"
  shows "line_ok l \<and> jl_account_role_code l \<noteq> ''retained_earnings''"
  using assms make_line_proposal_ok make_line_proposal_role
  by (fastforce simp: journal_line_from_contract_eq_Inr)

lemma contract_proposal_fields [simp]:
  "jp_lines (contract_proposal p version td ad references ls) = ls"
  "jp_accounting_date (contract_proposal p version td ad references ls) = ad"
  "jp_transaction_date (contract_proposal p version td ad references ls) = td"
  by (simp_all add: contract_proposal_def)

lemma contract_eq_Inr:
  "journal_proposal_from_contract p = Inr q \<longleftrightarrow>
     check_all (check_required_field p) required_contract_fields = Inr () \<and>
     (\<exists>references lines version s t td ad ls.
        get_value p ''source_event_references'' = PList references \<and> get_value p ''lines'' = PList lines \<and>
        get_value p ''proposal_contract_version'' = PInt version \<and>
        get_value p ''transaction_date'' = PStr s \<and> date_fromisoformat s = Some td \<and>
        get_value p ''accounting_date'' = PStr t \<and> date_fromisoformat t = Some ad \<and>
        map_result journal_line_from_contract lines = Inr ls \<and>
        q = contract_proposal p version td ad references ls \<and> validate_proposal q = Inr q)"
proof -
  have v: "validate_proposal r = Inr q \<longleftrightarrow> q = r \<and> validate_proposal q = Inr q" for r
    by (auto simp: validate_proposal_eq_Inr)
  show ?thesis
    unfolding journal_proposal_from_contract_def bind_result_eq_Inr
    by (auto simp: bind_result_eq_Inr require_iso_date_eq_Inr require_contract_int_eq_Inr v [of "contract_proposal _ _ _ _ _ _"]
        simp del: validate_proposal_eq_Inr split: option.splits)
qed

lemma contract_ok:
  assumes "journal_proposal_from_contract p = Inr q"
  shows "validate_proposal q = Inr q \<and>
     list_all (\<lambda>l. line_ok l \<and> jl_account_role_code l \<noteq> ''retained_earnings'') (jp_lines q) \<and>
     valid_date (jp_accounting_date q) \<and> valid_date (jp_transaction_date q)"
proof -
  obtain lines ls where ls: "map_result journal_line_from_contract lines = Inr ls" "jp_lines q = ls"
    and q: "validate_proposal q = Inr q"
    and d: "\<exists>s t. date_fromisoformat s = Some (jp_accounting_date q) \<and> date_fromisoformat t = Some (jp_transaction_date q)"
    using assms unfolding contract_eq_Inr by (metis contract_proposal_fields)
  have "line_ok l \<and> jl_account_role_code l \<noteq> ''retained_earnings''" if "l \<in> set ls" for l
    using map_result_set [OF ls(1) that] journal_line_from_contract_ok by blast
  then show ?thesis
    using q d ls(2) date_fromisoformat_valid by (auto simp: list_all_iff)
qed

lemma ingest_eq_Inr:
  "ingest_journal_proposal v = Inr q \<longleftrightarrow>
     (\<exists>p. v = PDict p \<and> get_value p ''journal_proposal_outcome_code'' \<noteq> PStr ''rejected'' \<and>
        \<not> has_key p ''rejection_reason_code'' \<and> has_key p ''proposal_status'' \<and>
        py_str (get_value p ''proposal_status'') \<in> {''validated'', ''exported''} \<and>
        journal_proposal_from_contract p = Inr q)"
  by (auto simp: ingest_journal_proposal_def published_proposal_status_def bind_result_eq_Inr
      split: option.splits if_splits)

end
