(* ===== verification/Posting_Ledger.thy ===== *)
theory Posting_Ledger
  imports Core
begin

text \<open>
  The class \<open>PostingLedger\<close> of \<open>core.py\<close>: the deterministic in-memory reference for posting,
  reversal and trial balance. Its four dictionaries are the fields of a record; an operation
  returns the exception, leaving the ledger as it was (no operation assigns before it raises),
  or the new ledger and its receipt.
\<close>

section \<open>State\<close>

record ledger =
  journals :: "(string \<times> string, posted_journal) dict"
  receipts_by_idempotency :: "(string \<times> string, string \<times> posting_receipt) dict"
  reversal_receipts :: "(string \<times> string, posting_receipt) dict"
  reversal_evidence :: "(string \<times> string, string \<times> string \<times> string) dict"

definition empty_ledger :: ledger where
  "empty_ledger = \<lparr>journals = [], receipts_by_idempotency = [], reversal_receipts = [], reversal_evidence = []\<rparr>"

definition journal_count :: "ledger \<Rightarrow> nat" where
  "journal_count s = length (journals s)"

definition tenant_cache_key :: "string \<Rightarrow> string \<Rightarrow> string \<times> string" where
  "tenant_cache_key tenant scoped = (tenant, scoped)"

section \<open>Posting\<close>

definition cached_idempotency_receipt ::
    "ledger \<Rightarrow> string \<Rightarrow> string \<Rightarrow> string \<Rightarrow> posting_receipt option result" where
  "cached_idempotency_receipt s tenant key hash =
     (case dict_get (receipts_by_idempotency s) (tenant_cache_key tenant key) of
        None \<Rightarrow> Inr None
      | Some (prior_hash, prior_receipt) \<Rightarrow>
          if rc_tenant_reference prior_receipt \<noteq> tenant then Inr None
          else if prior_hash \<noteq> hash then Inl (conflict_error msg_conflict)
          else Inr (Some prior_receipt))"

definition validate_policy_scope :: "journal_proposal \<Rightarrow> accounting_policy \<Rightarrow> unit result" where
  "validate_policy_scope p pol =
     bind_result (require (jp_tenant_reference p = pol_tenant_reference pol)
                    (validation_error msg_tenant_scope)) (\<lambda>_.
     bind_result (require (jp_legal_entity_reference p = pol_legal_entity_reference pol)
                    (validation_error msg_entity_scope)) (\<lambda>_.
     bind_result (require (jp_book_role_code p = pol_book_role_code pol)
                    (validation_error msg_book_scope)) (\<lambda>_.
     bind_result (require (permits pol (jp_accounting_date p))
                    (validation_error msg_closed_period)) (\<lambda>_.
     bind_result (require (jp_transaction_currency p = pol_transaction_currency pol)
                    (validation_error msg_currency_scope)) (\<lambda>_.
       require (pol_transaction_currency pol = pol_functional_currency pol)
         (validation_error msg_foreign_exchange))))))"

definition resolve_line ::
    "accounting_policy \<Rightarrow> journal_line_proposal \<Rightarrow> posted_journal_line result" where
  "resolve_line pol l =
     (case dict_get (pol_chart_account_mapping pol) (jl_account_role_code l) of
        None \<Rightarrow> Inl (validation_error (msg_not_mapped (jl_account_role_code l)))
      | Some account \<Rightarrow>
          Inr \<lparr>pl_line_number = jl_line_number l,
               pl_chart_account_code = account,
               pl_account_role_code = jl_account_role_code l,
               pl_debit_amount = jl_debit_amount l,
               pl_credit_amount = jl_credit_amount l\<rparr>)"

definition general_journal_prefix :: string where
  "general_journal_prefix = ''urn:cwl:accounting:general_journal:''"

definition posting_receipt_prefix :: string where
  "posting_receipt_prefix = ''urn:cwl:accounting:posting_receipt:''"

definition posted_journal_of ::
    "journal_proposal \<Rightarrow> accounting_policy \<Rightarrow> posted_journal_line list \<Rightarrow> posted_journal" where
  "posted_journal_of p pol resolved =
     \<lparr>pj_journal_reference = general_journal_prefix @ jp_proposal_id p,
      pj_tenant_reference = jp_tenant_reference p,
      pj_legal_entity_reference = jp_legal_entity_reference p,
      pj_book_reference = pol_book_reference pol,
      pj_accounting_date = jp_accounting_date p,
      pj_transaction_currency = jp_transaction_currency p,
      pj_functional_currency = pol_functional_currency pol,
      pj_source_proposal_id = jp_proposal_id p,
      pj_source_payload_hash = jp_source_payload_hash p,
      pj_policy_version = pol_policy_version pol,
      pj_rule_version = pol_rule_version pol,
      pj_lines = resolved,
      pj_reversal_of = None,
      pj_reversal_reason_code = None,
      pj_reversal_idempotency_key = None\<rparr>"

definition posting_receipt_of ::
    "journal_proposal \<Rightarrow> accounting_policy \<Rightarrow> posted_journal_line list \<Rightarrow> posting_receipt" where
  "posting_receipt_of p pol resolved =
     \<lparr>rc_receipt_reference = posting_receipt_prefix @ jp_proposal_id p,
      rc_journal_reference = general_journal_prefix @ jp_proposal_id p,
      rc_status_code = ''posted'',
      rc_source_proposal_id = jp_proposal_id p,
      rc_source_payload_hash = jp_source_payload_hash p,
      rc_tenant_reference = jp_tenant_reference p,
      rc_legal_entity_reference = jp_legal_entity_reference p,
      rc_book_reference = pol_book_reference pol,
      rc_policy_version = pol_policy_version pol,
      rc_rule_version = pol_rule_version pol,
      rc_line_count = length resolved,
      rc_reversal_of = None\<rparr>"

definition post :: "ledger \<Rightarrow> journal_proposal \<Rightarrow> accounting_policy \<Rightarrow> (ledger \<times> posting_receipt) result" where
  "post s p pol =
     bind_result (cached_idempotency_receipt s (jp_tenant_reference p) (jp_idempotency_key p)
                    (jp_source_payload_hash p)) (\<lambda>cached.
       case cached of
         Some receipt \<Rightarrow> Inr (s, receipt)
       | None \<Rightarrow>
           bind_result (validate_policy_scope p pol) (\<lambda>_.
           bind_result (map_result (resolve_line pol) (jp_lines p)) (\<lambda>resolved.
             let journal_key = tenant_cache_key (jp_tenant_reference p)
                                 (general_journal_prefix @ jp_proposal_id p)
             in if dict_get (journals s) journal_key \<noteq> None
                then Inl (validation_error msg_immutable)
                else let receipt = posting_receipt_of p pol resolved in
                  Inr (s\<lparr>journals := dict_set journal_key (posted_journal_of p pol resolved) (journals s),
                         receipts_by_idempotency :=
                           dict_set (tenant_cache_key (jp_tenant_reference p) (jp_idempotency_key p))
                             (jp_source_payload_hash p, receipt) (receipts_by_idempotency s)\<rparr>,
                       receipt))))"

section \<open>Reversal\<close>

definition cached_reversal_receipt ::
    "ledger \<Rightarrow> string \<Rightarrow> string \<Rightarrow> string \<Rightarrow> string \<Rightarrow> posting_receipt option result" where
  "cached_reversal_receipt s tenant journal_reference key hash =
     (let cache_key = tenant_cache_key tenant journal_reference in
      case dict_get (reversal_receipts s) cache_key of
        None \<Rightarrow> Inr None
      | Some prior_receipt \<Rightarrow>
          if rc_tenant_reference prior_receipt \<noteq> tenant then Inr None
          else case dict_get (reversal_evidence s) cache_key of
              None \<Rightarrow> Inr None
            | Some (prior_key, prior_original, prior_hash) \<Rightarrow>
                if prior_key \<noteq> key \<or> prior_original \<noteq> journal_reference then Inr None
                else if prior_hash \<noteq> hash then Inl (conflict_error msg_reversal_conflict)
                else Inr (Some prior_receipt))"

definition receipt_for_posted_journal :: "posted_journal \<Rightarrow> posting_receipt" where
  "receipt_for_posted_journal j =
     \<lparr>rc_receipt_reference = pj_journal_reference j @ '':receipt'',
      rc_journal_reference = pj_journal_reference j,
      rc_status_code = ''posted'',
      rc_source_proposal_id = pj_source_proposal_id j,
      rc_source_payload_hash = pj_source_payload_hash j,
      rc_tenant_reference = pj_tenant_reference j,
      rc_legal_entity_reference = pj_legal_entity_reference j,
      rc_book_reference = pj_book_reference j,
      rc_policy_version = pj_policy_version j,
      rc_rule_version = pj_rule_version j,
      rc_line_count = length (pj_lines j),
      rc_reversal_of = pj_reversal_of j\<rparr>"

definition reversal_line :: "posted_journal_line \<Rightarrow> posted_journal_line" where
  "reversal_line l =
     \<lparr>pl_line_number = pl_line_number l,
      pl_chart_account_code = pl_chart_account_code l,
      pl_account_role_code = pl_account_role_code l,
      pl_debit_amount = pl_credit_amount l,
      pl_credit_amount = pl_debit_amount l\<rparr>"

definition reversal_journal_of ::
    "posted_journal \<Rightarrow> string \<Rightarrow> date \<Rightarrow> string \<Rightarrow> string \<Rightarrow> accounting_policy \<Rightarrow> string \<Rightarrow> posted_journal" where
  "reversal_journal_of original journal_reference d reason command_key pol command_hash =
     \<lparr>pj_journal_reference = journal_reference @ '':reversal'',
      pj_tenant_reference = pj_tenant_reference original,
      pj_legal_entity_reference = pj_legal_entity_reference original,
      pj_book_reference = pj_book_reference original,
      pj_accounting_date = d,
      pj_transaction_currency = pj_transaction_currency original,
      pj_functional_currency = pj_functional_currency original,
      pj_source_proposal_id = pj_source_proposal_id original,
      pj_source_payload_hash = command_hash,
      pj_policy_version = pol_policy_version pol,
      pj_rule_version = pol_rule_version pol,
      pj_lines = map reversal_line (pj_lines original),
      pj_reversal_of = Some journal_reference,
      pj_reversal_reason_code = Some reason,
      pj_reversal_idempotency_key = Some command_key\<rparr>"

definition reversal_receipt_of ::
    "posted_journal \<Rightarrow> string \<Rightarrow> accounting_policy \<Rightarrow> string \<Rightarrow> posting_receipt" where
  "reversal_receipt_of original journal_reference pol command_hash =
     \<lparr>rc_receipt_reference = journal_reference @ '':reversal'' @ '':receipt'',
      rc_journal_reference = journal_reference @ '':reversal'',
      rc_status_code = ''posted'',
      rc_source_proposal_id = pj_source_proposal_id original,
      rc_source_payload_hash = command_hash,
      rc_tenant_reference = pj_tenant_reference original,
      rc_legal_entity_reference = pj_legal_entity_reference original,
      rc_book_reference = pj_book_reference original,
      rc_policy_version = pol_policy_version pol,
      rc_rule_version = pol_rule_version pol,
      rc_line_count = length (map reversal_line (pj_lines original)),
      rc_reversal_of = Some journal_reference\<rparr>"

definition record_reversal ::
    "ledger \<Rightarrow> string \<times> string \<Rightarrow> posting_receipt \<Rightarrow> string \<times> string \<times> string \<Rightarrow> ledger" where
  "record_reversal s key receipt evidence =
     s\<lparr>reversal_receipts := dict_set key receipt (reversal_receipts s),
       reversal_evidence := dict_set key evidence (reversal_evidence s)\<rparr>"

definition reversal_command_key :: "string \<Rightarrow> string option \<Rightarrow> string" where
  "reversal_command_key journal_reference key =
     (case key of None \<Rightarrow> ''reversal:'' @ journal_reference | Some k \<Rightarrow> strip k)"

text \<open>The part of \<open>reverse\<close> after the cache lookup.\<close>

definition reverse_uncached ::
    "ledger \<Rightarrow> string \<Rightarrow> date \<Rightarrow> string \<Rightarrow> accounting_policy \<Rightarrow> string \<Rightarrow> string \<Rightarrow>
       (ledger \<times> posting_receipt) result" where
  "reverse_uncached s jref d reason pol command_key command_hash =
     (let reversal_key = tenant_cache_key (pol_tenant_reference pol) jref in
      case dict_get (journals s) reversal_key of
        None \<Rightarrow> Inl (validation_error msg_no_journal)
      | Some original \<Rightarrow>
          if pj_reversal_of original \<noteq> None then Inl (validation_error msg_reverse_reversal)
          else if pj_legal_entity_reference original \<noteq> pol_legal_entity_reference pol \<or>
                  pj_book_reference original \<noteq> pol_book_reference pol
          then Inl (validation_error msg_reversal_scope)
          else
            let occupant_key = tenant_cache_key (pj_tenant_reference original) (jref @ '':reversal'') in
            case dict_get (journals s) occupant_key of
              Some occupant \<Rightarrow>
                if pj_reversal_of occupant \<noteq> Some jref then Inl (validation_error msg_immutable)
                else if pj_reversal_idempotency_key occupant \<noteq> Some command_key
                then Inl (validation_error msg_already_reversed)
                else if pj_source_payload_hash occupant \<noteq> command_hash
                then Inl (conflict_error msg_reversal_conflict)
                else let receipt = receipt_for_posted_journal occupant in
                     Inr (record_reversal s reversal_key receipt (command_key, jref, command_hash), receipt)
            | None \<Rightarrow>
                if d < pj_accounting_date original then Inl (validation_error msg_reversal_early)
                else if \<not> permits pol d then Inl (validation_error msg_reversal_range)
                else let receipt = reversal_receipt_of original jref pol command_hash in
                     Inr (record_reversal
                            (s\<lparr>journals := dict_set occupant_key
                                 (reversal_journal_of original jref d reason command_key pol command_hash)
                                 (journals s)\<rparr>)
                            reversal_key receipt (command_key, jref, command_hash), receipt))"

definition reverse ::
    "ledger \<Rightarrow> string \<Rightarrow> date \<Rightarrow> string \<Rightarrow> accounting_policy \<Rightarrow> string option \<Rightarrow>
       (ledger \<times> posting_receipt) result" where
  "reverse s jref d reason pol key =
     bind_result (require_code reason ''reversal reason code'') (\<lambda>_.
       let command_key = reversal_command_key jref key in
       if command_key = [] then Inl (validation_error msg_reversal_key)
       else
         let command_hash = reversal_command_hash (pol_tenant_reference pol) command_key jref d reason in
         bind_result (cached_reversal_receipt s (pol_tenant_reference pol) jref command_key command_hash)
           (\<lambda>prior. case prior of
               Some receipt \<Rightarrow> Inr (s, receipt)
             | None \<Rightarrow> reverse_uncached s jref d reason pol command_key command_hash))"

section \<open>Trial balance\<close>

definition add_line_to_totals ::
    "(string, dec \<times> dec) dict \<Rightarrow> posted_journal_line \<Rightarrow> (string, dec \<times> dec) dict" where
  "add_line_to_totals totals l =
     (let (debit_total, credit_total) =
        (case dict_get totals (pl_chart_account_code l) of None \<Rightarrow> (dec_zero, dec_zero) | Some dc \<Rightarrow> dc)
      in dict_set (pl_chart_account_code l)
           (dec_add debit_total (pl_debit_amount l), dec_add credit_total (pl_credit_amount l)) totals)"

definition in_scope :: "string \<Rightarrow> string \<Rightarrow> string \<Rightarrow> date \<Rightarrow> posted_journal \<Rightarrow> bool" where
  "in_scope tenant entity book through j \<longleftrightarrow>
     pj_tenant_reference j = tenant \<and> pj_legal_entity_reference j = entity \<and>
     pj_book_reference j = book \<and> \<not> pj_accounting_date j > through"

definition trial_balance_totals ::
    "ledger \<Rightarrow> string \<Rightarrow> string \<Rightarrow> string \<Rightarrow> date \<Rightarrow> (string, dec \<times> dec) dict" where
  "trial_balance_totals s tenant entity book through =
     foldl (\<lambda>totals j. if in_scope tenant entity book through j
                        then foldl add_line_to_totals totals (pj_lines j) else totals)
       [] (map snd (journals s))"

definition trial_balance ::
    "ledger \<Rightarrow> string \<Rightarrow> string \<Rightarrow> string \<Rightarrow> date \<Rightarrow> (string, account_balance) dict" where
  "trial_balance s tenant entity book through =
     map (\<lambda>(account, debit_total, credit_total).
            (account, \<lparr>ab_chart_account_code = account, ab_debit_total = debit_total,
                        ab_credit_total = credit_total\<rparr>))
       (sort_key fst (trial_balance_totals s tenant entity book through))"

section \<open>Commands\<close>

datatype ledger_command =
    Post journal_proposal accounting_policy
  | Reverse string date string accounting_policy "string option"

fun run_command :: "ledger \<Rightarrow> ledger_command \<Rightarrow> (ledger \<times> posting_receipt) result" where
  "run_command s (Post p pol) = post s p pol"
| "run_command s (Reverse jref d reason pol key) = reverse s jref d reason pol key"

text \<open>
  Proposals and policies exist only as the validated values of \<open>core.py\<close>; dates are real
  dates.
\<close>

definition valid_proposal :: "journal_proposal \<Rightarrow> bool" where
  "valid_proposal p \<longleftrightarrow> validate_proposal p = Inr p \<and> list_all line_ok (jp_lines p) \<and>
     valid_date (jp_accounting_date p)"

definition valid_policy :: "accounting_policy \<Rightarrow> bool" where
  "valid_policy pol \<longleftrightarrow> validate_policy pol = Inr pol \<and> dict_wf (pol_chart_account_mapping pol)"

fun admissible :: "ledger_command \<Rightarrow> bool" where
  "admissible (Post p pol) = (valid_proposal p \<and> valid_policy pol)"
| "admissible (Reverse jref d reason pol key) = (valid_policy pol \<and> valid_date d)"

section \<open>The effect of an operation\<close>

lemma cached_idempotency_receipt_Some:
  "cached_idempotency_receipt s t k h = Inr (Some r) \<longleftrightarrow>
     dict_get (receipts_by_idempotency s) (t, k) = Some (h, r) \<and> rc_tenant_reference r = t"
  by (auto simp: cached_idempotency_receipt_def tenant_cache_key_def split: option.splits)

lemma cached_idempotency_receipt_None:
  "cached_idempotency_receipt s t k h = Inr None \<longleftrightarrow>
     (\<forall>h' r. dict_get (receipts_by_idempotency s) (t, k) = Some (h', r) \<longrightarrow> rc_tenant_reference r \<noteq> t)"
  by (auto simp: cached_idempotency_receipt_def tenant_cache_key_def split: option.splits)

lemma validate_policy_scope_eq_Inr:
  "validate_policy_scope p pol = Inr u \<longleftrightarrow>
     jp_tenant_reference p = pol_tenant_reference pol \<and>
     jp_legal_entity_reference p = pol_legal_entity_reference pol \<and>
     jp_book_role_code p = pol_book_role_code pol \<and>
     permits pol (jp_accounting_date p) \<and>
     jp_transaction_currency p = pol_transaction_currency pol \<and>
     pol_transaction_currency pol = pol_functional_currency pol"
  by (simp add: validate_policy_scope_def result_simps)

definition resolved_line :: "accounting_policy \<Rightarrow> journal_line_proposal \<Rightarrow> posted_journal_line" where
  "resolved_line pol l =
     \<lparr>pl_line_number = jl_line_number l,
      pl_chart_account_code = the (dict_get (pol_chart_account_mapping pol) (jl_account_role_code l)),
      pl_account_role_code = jl_account_role_code l,
      pl_debit_amount = jl_debit_amount l,
      pl_credit_amount = jl_credit_amount l\<rparr>"

abbreviation role_mapped :: "accounting_policy \<Rightarrow> journal_line_proposal \<Rightarrow> bool" where
  "role_mapped pol l \<equiv> dict_get (pol_chart_account_mapping pol) (jl_account_role_code l) \<noteq> None"

lemma resolve_line_eq_Inr: "resolve_line pol l = Inr x \<longleftrightarrow> role_mapped pol l \<and> x = resolved_line pol l"
  by (auto simp: resolve_line_def resolved_line_def split: option.splits)

lemma resolve_lines_eq_Inr:
  "map_result (resolve_line pol) ls = Inr xs \<longleftrightarrow>
     (\<forall>l\<in>set ls. role_mapped pol l) \<and> xs = map (resolved_line pol) ls"
  by (induction ls arbitrary: xs) (auto simp: bind_result_eq_Inr resolve_line_eq_Inr)

text \<open>Posting either replays a retained receipt or appends exactly one journal.\<close>

definition post_fresh :: "ledger \<Rightarrow> journal_proposal \<Rightarrow> accounting_policy \<Rightarrow> bool" where
  "post_fresh s p pol \<longleftrightarrow>
     cached_idempotency_receipt s (jp_tenant_reference p) (jp_idempotency_key p) (jp_source_payload_hash p) = Inr None \<and>
     validate_policy_scope p pol = Inr () \<and> (\<forall>l\<in>set (jp_lines p). role_mapped pol l) \<and>
     dict_get (journals s) (jp_tenant_reference p, general_journal_prefix @ jp_proposal_id p) = None"

definition post_result :: "ledger \<Rightarrow> journal_proposal \<Rightarrow> accounting_policy \<Rightarrow> ledger" where
  "post_result s p pol =
     (let resolved = map (resolved_line pol) (jp_lines p) in
      s\<lparr>journals := dict_set (jp_tenant_reference p, general_journal_prefix @ jp_proposal_id p)
                     (posted_journal_of p pol resolved) (journals s),
        receipts_by_idempotency := dict_set (jp_tenant_reference p, jp_idempotency_key p)
          (jp_source_payload_hash p, posting_receipt_of p pol resolved) (receipts_by_idempotency s)\<rparr>)"

lemma post_eq_Inr:
  "post s p pol = Inr (s', r) \<longleftrightarrow>
     (s' = s \<and> cached_idempotency_receipt s (jp_tenant_reference p) (jp_idempotency_key p)
                 (jp_source_payload_hash p) = Inr (Some r)) \<or>
     (post_fresh s p pol \<and> s' = post_result s p pol \<and>
      r = posting_receipt_of p pol (map (resolved_line pol) (jp_lines p)))"
  (is "?l \<longleftrightarrow> ?a \<or> ?b")
proof (cases "cached_idempotency_receipt s (jp_tenant_reference p) (jp_idempotency_key p) (jp_source_payload_hash p)")
  case (Inl e)
  then show ?thesis by (simp add: post_def post_fresh_def)
next
  case (Inr cached)
  then show ?thesis
    by (cases cached)
      (auto simp: post_def post_fresh_def post_result_def result_simps Let_def tenant_cache_key_def
        resolve_lines_eq_Inr)
qed

lemma post_result_simps [simp]:
  "journals (post_result s p pol) =
     dict_set (jp_tenant_reference p, general_journal_prefix @ jp_proposal_id p)
       (posted_journal_of p pol (map (resolved_line pol) (jp_lines p))) (journals s)"
  "receipts_by_idempotency (post_result s p pol) =
     dict_set (jp_tenant_reference p, jp_idempotency_key p)
       (jp_source_payload_hash p, posting_receipt_of p pol (map (resolved_line pol) (jp_lines p)))
       (receipts_by_idempotency s)"
  "reversal_receipts (post_result s p pol) = reversal_receipts s"
  "reversal_evidence (post_result s p pol) = reversal_evidence s"
  by (simp_all add: post_result_def Let_def)

text \<open>Reversal: the same, in three outcomes.\<close>

definition reversal_hash_of :: "accounting_policy \<Rightarrow> string \<Rightarrow> string \<Rightarrow> date \<Rightarrow> string \<Rightarrow> string" where
  "reversal_hash_of pol ck jref d reason = reversal_command_hash (pol_tenant_reference pol) ck jref d reason"

lemma cached_reversal_receipt_Some:
  "cached_reversal_receipt s t jref k h = Inr (Some r) \<longleftrightarrow>
     dict_get (reversal_receipts s) (t, jref) = Some r \<and> rc_tenant_reference r = t \<and>
     dict_get (reversal_evidence s) (t, jref) = Some (k, jref, h)"
  by (auto simp: cached_reversal_receipt_def tenant_cache_key_def Let_def split: option.splits if_splits)

definition reversible :: "ledger \<Rightarrow> string \<Rightarrow> accounting_policy \<Rightarrow> posted_journal \<Rightarrow> bool" where
  "reversible s jref pol original \<longleftrightarrow>
     dict_get (journals s) (pol_tenant_reference pol, jref) = Some original \<and>
     pj_reversal_of original = None \<and>
     pj_legal_entity_reference original = pol_legal_entity_reference pol \<and>
     pj_book_reference original = pol_book_reference pol"

lemma reverse_uncached_eq_Inr:
  "reverse_uncached s jref d reason pol ck h = Inr (s', r) \<longleftrightarrow>
     (\<exists>original. reversible s jref pol original \<and>
       ((\<exists>occupant. dict_get (journals s) (pj_tenant_reference original, jref @ '':reversal'') = Some occupant \<and>
           pj_reversal_of occupant = Some jref \<and> pj_reversal_idempotency_key occupant = Some ck \<and>
           pj_source_payload_hash occupant = h \<and> r = receipt_for_posted_journal occupant \<and>
           s' = record_reversal s (pol_tenant_reference pol, jref) r (ck, jref, h)) \<or>
        (dict_get (journals s) (pj_tenant_reference original, jref @ '':reversal'') = None \<and>
         pj_accounting_date original \<le> d \<and> permits pol d \<and>
         r = reversal_receipt_of original jref pol h \<and>
         s' = record_reversal
                (s\<lparr>journals := dict_set (pj_tenant_reference original, jref @ '':reversal'')
                    (reversal_journal_of original jref d reason ck pol h) (journals s)\<rparr>)
                (pol_tenant_reference pol, jref) r (ck, jref, h))))"
  unfolding reverse_uncached_def Let_def tenant_cache_key_def reversible_def
  by (cases "dict_get (journals s) (pol_tenant_reference pol, jref)")
    (fastforce split: option.splits if_splits)+

lemma reverse_eq_Inr:
  "reverse s jref d reason pol key = Inr (s', r) \<longleftrightarrow>
     code_pattern reason \<and>
     (let ck = reversal_command_key jref key; h = reversal_hash_of pol ck jref d reason in
      ck \<noteq> [] \<and>
      ((s' = s \<and> cached_reversal_receipt s (pol_tenant_reference pol) jref ck h = Inr (Some r)) \<or>
       (cached_reversal_receipt s (pol_tenant_reference pol) jref ck h = Inr None \<and>
        reverse_uncached s jref d reason pol ck h = Inr (s', r))))"
proof (cases "cached_reversal_receipt s (pol_tenant_reference pol) jref (reversal_command_key jref key)
    (reversal_hash_of pol (reversal_command_key jref key) jref d reason)")
  case (Inl e)
  then show ?thesis
    by (simp add: reverse_def require_code_def result_simps Let_def reversal_hash_of_def)
next
  case (Inr cached)
  then show ?thesis
    by (cases cached) (auto simp: reverse_def require_code_def result_simps Let_def reversal_hash_of_def)
qed

lemma record_reversal_simps [simp]:
  "journals (record_reversal s k r e) = journals s"
  "receipts_by_idempotency (record_reversal s k r e) = receipts_by_idempotency s"
  "reversal_receipts (record_reversal s k r e) = dict_set k r (reversal_receipts s)"
  "reversal_evidence (record_reversal s k r e) = dict_set k e (reversal_evidence s)"
  by (simp_all add: record_reversal_def)

lemma receipt_of_reversal_journal [simp]:
  "receipt_for_posted_journal (reversal_journal_of original jref d reason ck pol h) =
     reversal_receipt_of original jref pol h"
  by (simp add: receipt_for_posted_journal_def reversal_journal_of_def reversal_receipt_of_def)

end
