(* ===== verification/Command_Contract.thy ===== *)
theory Command_Contract
  imports Prelude
begin

text \<open>
  The contracts a command-processing component offers its callers, as locales: commands that
  keep an invariant, commands that can be retried forever with the same answer, and an
  append-only log. A failed command leaves the state as it was.
\<close>

definition next_state :: "('s \<Rightarrow> 'c \<Rightarrow> ('s \<times> 'r) result) \<Rightarrow> 's \<Rightarrow> 'c \<Rightarrow> 's" where
  "next_state run s c = (case run s c of Inl e \<Rightarrow> s | Inr (s', r) \<Rightarrow> s')"

fun run_all :: "('s \<Rightarrow> 'c \<Rightarrow> ('s \<times> 'r) result) \<Rightarrow> 's \<Rightarrow> 'c list \<Rightarrow> 's" where
  "run_all run s [] = s"
| "run_all run s (c # cs) = run_all run (next_state run s c) cs"

lemma next_state_cases:
  obtains "next_state run s c = s" | s' r where "run s c = Inr (s', r)" and "next_state run s c = s'"
  by (cases "run s c") (auto simp: next_state_def)

locale command_service =
  fixes run :: "'s \<Rightarrow> 'c \<Rightarrow> ('s \<times> 'r) result"
    and inv :: "'s \<Rightarrow> bool"
    and adm :: "'c \<Rightarrow> bool"
  assumes inv_run: "inv s \<Longrightarrow> adm c \<Longrightarrow> run s c = Inr (s', r) \<Longrightarrow> inv s'"
begin

lemma inv_next: "inv s \<Longrightarrow> adm c \<Longrightarrow> inv (next_state run s c)"
  by (rule next_state_cases [of run s c]) (auto dest: inv_run)

lemma inv_run_all: "inv s \<Longrightarrow> list_all adm cs \<Longrightarrow> inv (run_all run s cs)"
  by (induction cs arbitrary: s) (auto simp: inv_next)

end

locale idempotent_service = command_service run inv adm
  for run :: "'s \<Rightarrow> 'c \<Rightarrow> ('s \<times> 'r) result" and inv adm +
  fixes answered :: "'s \<Rightarrow> 'c \<Rightarrow> 'r \<Rightarrow> bool"
  assumes run_answered: "inv s \<Longrightarrow> adm c \<Longrightarrow> run s c = Inr (s', r) \<Longrightarrow> answered s' c r"
    and answered_replay: "inv s \<Longrightarrow> answered s c r \<Longrightarrow> run s c = Inr (s, r)"
    and answered_stable:
      "inv s \<Longrightarrow> adm d \<Longrightarrow> run s d = Inr (s', q) \<Longrightarrow> answered s c r \<Longrightarrow> answered s' c r"
begin

lemma answered_next: "inv s \<Longrightarrow> adm d \<Longrightarrow> answered s c r \<Longrightarrow> answered (next_state run s d) c r"
  by (rule next_state_cases [of run s d]) (auto dest: answered_stable)

lemma answered_run_all:
  "inv s \<Longrightarrow> list_all adm cs \<Longrightarrow> answered s c r \<Longrightarrow> answered (run_all run s cs) c r"
  by (induction cs arbitrary: s) (auto simp: inv_next answered_next)

lemma replay_after:
  assumes "inv s" and "adm c" and "run s c = Inr (s', r)" and "list_all adm cs"
  shows "run (run_all run s' cs) c = Inr (run_all run s' cs, r)"
  using assms inv_run run_answered by (intro answered_replay inv_run_all answered_run_all) blast+

lemma retry: "inv s \<Longrightarrow> adm c \<Longrightarrow> run s c = Inr (s', r) \<Longrightarrow> run s' c = Inr (s', r)"
  using replay_after [of s c s' r "[]"] by simp

end

locale append_only_service = command_service run inv adm
  for run :: "'s \<Rightarrow> 'c \<Rightarrow> ('s \<times> 'r) result" and inv adm +
  fixes log :: "'s \<Rightarrow> 'j list"
  assumes log_grows: "inv s \<Longrightarrow> run s c = Inr (s', r) \<Longrightarrow> \<exists>new. length new < 2 \<and> log s' = log s @ new"
begin

lemma log_next: "inv s \<Longrightarrow> prefix (log s) (log (next_state run s c))"
  by (rule next_state_cases [of run s c]) (auto dest: log_grows)

lemma log_run_all: "inv s \<Longrightarrow> list_all adm cs \<Longrightarrow> prefix (log s) (log (run_all run s cs))"
proof (induction cs arbitrary: s)
  case Nil
  then show ?case by simp
next
  case (Cons c cs)
  then show ?case using log_next [of s c] inv_next [of s c] by (auto intro: prefix_order.trans)
qed

lemma log_length: "inv s \<Longrightarrow> list_all adm cs \<Longrightarrow> length (log (run_all run s cs)) \<le> length (log s) + length cs"
proof (induction cs arbitrary: s)
  case Nil
  then show ?case by simp
next
  case (Cons c cs)
  have "length (log (next_state run s c)) \<le> Suc (length (log s))"
    by (rule next_state_cases [of run s c]) (use log_grows [OF Cons.prems(1), of c] in fastforce)+
  then show ?case using Cons inv_next [of s c] by fastforce
qed

end

end
