(* ===== verification/Ledger_Invariants.thy ===== *)
theory Ledger_Invariants
  imports Posting_Ledger Command_Contract
begin

text \<open>
  What the posting ledger keeps true: the representation invariant, its preservation by every
  command, the append-only discipline, and the contract of idempotent commands as a locale
  that the ledger interprets.
\<close>

section \<open>The invariant\<close>

definition posted_line_ok :: "posted_journal_line \<Rightarrow> bool" where
  "posted_line_ok l \<longleftrightarrow> amount_ok (pl_debit_amount l) \<and> amount_ok (pl_credit_amount l) \<and>
     (0 < dval (pl_debit_amount l) \<longleftrightarrow> dval (pl_credit_amount l) = 0)"

definition lines_wf :: "posted_journal_line list \<Rightarrow> bool" where
  "lines_wf ls \<longleftrightarrow> 2 \<le> length ls \<and> distinct (map pl_line_number ls) \<and> list_all posted_line_ok ls \<and>
     dec_eq (dec_sum (map pl_debit_amount ls)) (dec_sum (map pl_credit_amount ls))"

definition reverses :: "posted_journal \<Rightarrow> posted_journal \<Rightarrow> bool" where
  "reverses j original \<longleftrightarrow>
     pj_reversal_of original = None \<and>
     pj_reversal_of j = Some (pj_journal_reference original) \<and>
     pj_journal_reference j = pj_journal_reference original @ '':reversal'' \<and>
     pj_tenant_reference j = pj_tenant_reference original \<and>
     pj_legal_entity_reference j = pj_legal_entity_reference original \<and>
     pj_book_reference j = pj_book_reference original \<and>
     pj_lines j = map reversal_line (pj_lines original) \<and>
     pj_accounting_date original \<le> pj_accounting_date j"

definition journals_inv :: "ledger \<Rightarrow> bool" where
  "journals_inv s \<longleftrightarrow> dict_wf (journals s) \<and>
     (\<forall>k j. dict_get (journals s) k = Some j \<longrightarrow>
        k = (pj_tenant_reference j, pj_journal_reference j) \<and> lines_wf (pj_lines j))"

definition lineage_inv :: "ledger \<Rightarrow> bool" where
  "lineage_inv s \<longleftrightarrow>
     (\<forall>k j jref. dict_get (journals s) k = Some j \<longrightarrow> pj_reversal_of j = Some jref \<longrightarrow>
        (\<exists>original. dict_get (journals s) (pj_tenant_reference j, jref) = Some original \<and> reverses j original))"

definition receipt_entry :: "ledger \<Rightarrow> string \<Rightarrow> string \<Rightarrow> posting_receipt \<Rightarrow> bool" where
  "receipt_entry s t h r \<longleftrightarrow>
     rc_tenant_reference r = t \<and> rc_source_payload_hash r = h \<and>
     (\<exists>j. dict_get (journals s) (t, rc_journal_reference r) = Some j \<and>
          pj_source_payload_hash j = h \<and> pj_reversal_of j = None \<and>
          rc_line_count r = length (pj_lines j))"

definition receipts_inv :: "ledger \<Rightarrow> bool" where
  "receipts_inv s \<longleftrightarrow> dict_wf (receipts_by_idempotency s) \<and>
     (\<forall>t k h r. dict_get (receipts_by_idempotency s) (t, k) = Some (h, r) \<longrightarrow> receipt_entry s t h r)"

definition evidence_entry :: "ledger \<Rightarrow> string \<Rightarrow> string \<Rightarrow> posting_receipt \<Rightarrow> bool" where
  "evidence_entry s t jref r \<longleftrightarrow>
     (\<exists>ck j. dict_get (reversal_evidence s) (t, jref) = Some (ck, jref, pj_source_payload_hash j) \<and>
        dict_get (journals s) (t, jref @ '':reversal'') = Some j \<and>
        pj_reversal_of j = Some jref \<and> pj_reversal_idempotency_key j = Some ck \<and>
        r = receipt_for_posted_journal j)"

definition evidence_inv :: "ledger \<Rightarrow> bool" where
  "evidence_inv s \<longleftrightarrow> dict_wf (reversal_receipts s) \<and> dict_wf (reversal_evidence s) \<and>
     (\<forall>t jref r. dict_get (reversal_receipts s) (t, jref) = Some r \<longrightarrow> evidence_entry s t jref r)"

definition ledger_inv :: "ledger \<Rightarrow> bool" where
  "ledger_inv s \<longleftrightarrow> journals_inv s \<and> lineage_inv s \<and> receipts_inv s \<and> evidence_inv s"

lemma ledger_inv_empty: "ledger_inv empty_ledger"
  by (simp add: ledger_inv_def journals_inv_def lineage_inv_def receipts_inv_def evidence_inv_def
      empty_ledger_def)

lemma journals_invD:
  "journals_inv s \<Longrightarrow> dict_get (journals s) (t, k) = Some j \<Longrightarrow>
     pj_tenant_reference j = t \<and> pj_journal_reference j = k \<and> lines_wf (pj_lines j)"
  by (force simp: journals_inv_def)

section \<open>Adding one journal under a fresh key\<close>

lemma resolved_line_fields [simp]:
  "pl_line_number \<circ> resolved_line pol = jl_line_number"
  "pl_debit_amount \<circ> resolved_line pol = jl_debit_amount"
  "pl_credit_amount \<circ> resolved_line pol = jl_credit_amount"
  by (simp_all add: fun_eq_iff resolved_line_def)

lemma reversal_line_fields [simp]:
  "pl_line_number \<circ> reversal_line = pl_line_number"
  "pl_debit_amount \<circ> reversal_line = pl_credit_amount"
  "pl_credit_amount \<circ> reversal_line = pl_debit_amount"
  "pl_chart_account_code \<circ> reversal_line = pl_chart_account_code"
  by (simp_all add: fun_eq_iff reversal_line_def)

lemma resolved_lines_wf:
  assumes "valid_proposal p"
  shows "lines_wf (map (resolved_line pol) (jp_lines p))"
proof -
  have "validate_proposal p = Inr p" and l: "list_all line_ok (jp_lines p)"
    using assms by (simp_all add: valid_proposal_def)
  moreover have "list_all posted_line_ok (map (resolved_line pol) (jp_lines p))"
    using l by (auto simp: list_all_iff posted_line_ok_def line_ok_def resolved_line_def)
  ultimately show ?thesis
    unfolding lines_wf_def validate_proposal_eq_Inr
    by (simp add: dec_eq_iff proposal_debit_total_def proposal_credit_total_def)
qed

lemma reversal_lines_wf:
  assumes "lines_wf ls"
  shows "lines_wf (map reversal_line ls)"
proof -
  have "posted_line_ok (reversal_line l)" if "posted_line_ok l" for l
    using that amount_not_positive [of "pl_debit_amount l"] amount_not_positive [of "pl_credit_amount l"]
    by (auto simp: posted_line_ok_def reversal_line_def)
  then show ?thesis
    using assms by (auto simp: lines_wf_def dec_eq_iff list_all_iff)
qed

lemma journals_inv_add:
  assumes "journals_inv s" and "dict_get (journals s) k = None"
    and "k = (pj_tenant_reference j, pj_journal_reference j)" and "lines_wf (pj_lines j)"
    and "journals s' = dict_set k j (journals s)"
  shows "journals_inv s'"
  using assms by (auto simp: journals_inv_def)

lemma lineage_invD:
  "lineage_inv s \<Longrightarrow> dict_get (journals s) k = Some j \<Longrightarrow> pj_reversal_of j = Some jref \<Longrightarrow>
     \<exists>original. dict_get (journals s) (pj_tenant_reference j, jref) = Some original \<and> reverses j original"
  unfolding lineage_inv_def by blast

text \<open>\<open>grows s s'\<close>: no journal of \<open>s\<close> is lost or changed in \<open>s'\<close>.\<close>

definition grows :: "ledger \<Rightarrow> ledger \<Rightarrow> bool" where
  "grows s s' \<longleftrightarrow> (\<forall>k w. dict_get (journals s) k = Some w \<longrightarrow> dict_get (journals s') k = Some w)"

lemma growsD: "grows s s' \<Longrightarrow> dict_get (journals s) k = Some w \<Longrightarrow> dict_get (journals s') k = Some w"
  unfolding grows_def by blast

lemma grows_add:
  "dict_get (journals s) k = None \<Longrightarrow> journals s' = dict_set k j (journals s) \<Longrightarrow> grows s s'"
  by (auto simp: grows_def)

lemma lineage_inv_add:
  assumes "lineage_inv s" and "dict_get (journals s) k = None"
    and "journals s' = dict_set k j (journals s)"
    and "\<And>jref. pj_reversal_of j = Some jref \<Longrightarrow>
           \<exists>original. dict_get (journals s) (pj_tenant_reference j, jref) = Some original \<and> reverses j original"
  shows "lineage_inv s'"
  unfolding lineage_inv_def
proof (intro allI impI)
  fix k' j' jref
  assume g: "dict_get (journals s') k' = Some j'" and rev: "pj_reversal_of j' = Some jref"
  have "\<exists>original. dict_get (journals s) (pj_tenant_reference j', jref) = Some original \<and> reverses j' original"
  proof (cases "k' = k")
    case True
    then have "j' = j" using g by (simp add: assms(3))
    then show ?thesis using assms(4) rev by simp
  next
    case False
    then have "dict_get (journals s) k' = Some j'" using g by (simp add: assms(3))
    then show ?thesis using lineage_invD [OF assms(1) _ rev] by simp
  qed
  then show "\<exists>original. dict_get (journals s') (pj_tenant_reference j', jref) = Some original \<and> reverses j' original"
    using growsD [OF grows_add [OF assms(2,3)]] by auto
qed

lemma receipt_entry_mono: "grows s s' \<Longrightarrow> receipt_entry s t h r \<Longrightarrow> receipt_entry s' t h r"
  by (auto simp: receipt_entry_def dest: growsD)

lemma receipts_inv_mono:
  "receipts_inv s \<Longrightarrow> receipts_by_idempotency s' = receipts_by_idempotency s \<Longrightarrow> grows s s' \<Longrightarrow> receipts_inv s'"
  using receipt_entry_mono by (simp add: receipts_inv_def)

lemma evidence_entry_mono:
  "grows s s' \<Longrightarrow> reversal_evidence s' = reversal_evidence s \<Longrightarrow> evidence_entry s t jref r \<Longrightarrow>
     evidence_entry s' t jref r"
  by (auto simp: evidence_entry_def dest: growsD)

lemma evidence_inv_mono:
  "evidence_inv s \<Longrightarrow> reversal_receipts s' = reversal_receipts s \<Longrightarrow>
     reversal_evidence s' = reversal_evidence s \<Longrightarrow> grows s s' \<Longrightarrow> evidence_inv s'"
  using evidence_entry_mono by (simp add: evidence_inv_def)

section \<open>Every command keeps the invariant\<close>

lemma post_result_grows: "post_fresh s p pol \<Longrightarrow> grows s (post_result s p pol)"
  by (rule grows_add [OF _ post_result_simps(1)]) (simp add: post_fresh_def)

lemma post_result_inv:
  assumes inv: "ledger_inv s" and fresh: "post_fresh s p pol" and p: "valid_proposal p"
  shows "ledger_inv (post_result s p pol)"
proof -
  let ?s' = "post_result s p pol"
  let ?k = "(jp_tenant_reference p, general_journal_prefix @ jp_proposal_id p)"
  let ?j = "posted_journal_of p pol (map (resolved_line pol) (jp_lines p))"
  note grow = post_result_grows [OF fresh]
  have none: "dict_get (journals s) ?k = None"
    using fresh by (simp add: post_fresh_def)
  have "journals_inv ?s'"
    by (rule journals_inv_add [where k = ?k and j = ?j and s = s]) (use inv none resolved_lines_wf [OF p, of pol] in \<open>simp_all add: ledger_inv_def posted_journal_of_def\<close>)
  moreover have "lineage_inv ?s'"
    by (rule lineage_inv_add [where k = ?k and j = ?j and s = s]) (use inv none in \<open>simp_all add: ledger_inv_def posted_journal_of_def\<close>)
  moreover have "evidence_inv ?s'"
    by (rule evidence_inv_mono [where s = s]) (use inv grow in \<open>simp_all add: ledger_inv_def\<close>)
  moreover have "receipts_inv ?s'"
  proof -
    have r: "receipts_inv s" using inv by (simp add: ledger_inv_def)
    have new: "receipt_entry ?s' (jp_tenant_reference p) (jp_source_payload_hash p)
        (posting_receipt_of p pol (map (resolved_line pol) (jp_lines p)))"
      by (simp add: receipt_entry_def posting_receipt_of_def posted_journal_of_def)
    show ?thesis
      using r new receipt_entry_mono [OF grow] by (simp add: receipts_inv_def)
  qed
  ultimately show ?thesis by (simp add: ledger_inv_def)
qed

lemma post_inv:
  assumes "ledger_inv s" and "valid_proposal p" and "post s p pol = Inr (s', r)"
  shows "ledger_inv s'"
  using assms post_result_inv by (auto simp: post_eq_Inr)

lemma record_reversal_inv:
  assumes "ledger_inv s"
    and "dict_get (journals s) (t, jref @ '':reversal'') = Some j"
    and "pj_reversal_of j = Some jref" and "pj_reversal_idempotency_key j = Some ck"
  shows "ledger_inv (record_reversal s (t, jref) (receipt_for_posted_journal j) (ck, jref, pj_source_payload_hash j))"
    (is "ledger_inv ?s'")
proof -
  have ev: "evidence_inv s" using assms(1) by (simp add: ledger_inv_def)
  have new: "evidence_entry ?s' t jref (receipt_for_posted_journal j)"
    using assms(2-4) by (auto simp: evidence_entry_def)
  have old: "evidence_entry ?s' t' jref' r" if "evidence_entry s t' jref' r" and "(t', jref') \<noteq> (t, jref)" for t' jref' r
    using that by (auto simp: evidence_entry_def)
  have "evidence_inv ?s'"
    using ev new old unfolding evidence_inv_def by (simp split: if_splits)
  moreover have "journals_inv ?s'" and "lineage_inv ?s'"
    using assms(1) unfolding ledger_inv_def journals_inv_def lineage_inv_def record_reversal_simps by blast+
  moreover have "receipts_inv ?s'"
    by (rule receipts_inv_mono [where s = s]) (use assms(1) in \<open>simp_all add: ledger_inv_def grows_def\<close>)
  ultimately show ?thesis by (simp add: ledger_inv_def)
qed

lemma reversal_of_original:
  assumes "journals_inv s" and "reversible s jref pol original" and "pj_accounting_date original \<le> d"
  shows "reverses (reversal_journal_of original jref d reason ck pol h) original"
    and "pj_tenant_reference original = pol_tenant_reference pol"
    and "pj_journal_reference original = jref" and "lines_wf (pj_lines original)"
  using journals_invD [of s "pol_tenant_reference pol" jref original] assms
  by (auto simp: reversible_def reverses_def reversal_journal_of_def)

lemma add_reversal_inv:
  assumes inv: "ledger_inv s" and orig: "reversible s jref pol original"
    and none: "dict_get (journals s) (pj_tenant_reference original, jref @ '':reversal'') = None"
    and date: "pj_accounting_date original \<le> d"
  shows "ledger_inv (s\<lparr>journals := dict_set (pj_tenant_reference original, jref @ '':reversal'')
           (reversal_journal_of original jref d reason ck pol h) (journals s)\<rparr>)"
    (is "ledger_inv ?s'")
proof -
  let ?k = "(pj_tenant_reference original, jref @ '':reversal'')"
  let ?j = "reversal_journal_of original jref d reason ck pol h"
  have ji: "journals_inv s" using inv by (simp add: ledger_inv_def)
  note o = reversal_of_original [OF ji orig date]
  have grow: "grows s ?s'"
    by (rule grows_add [OF none]) simp
  have "journals_inv ?s'"
    by (rule journals_inv_add [where k = ?k and j = ?j and s = s]) (use ji none reversal_lines_wf [OF o(4)] o(3) in \<open>simp_all add: reversal_journal_of_def\<close>)
  moreover have "lineage_inv ?s'"
  proof (rule lineage_inv_add [where k = ?k and j = ?j and s = s])
    fix r
    assume "pj_reversal_of ?j = Some r"
    then have "r = jref" by (simp add: reversal_journal_of_def)
    moreover have "dict_get (journals s) (pj_tenant_reference ?j, jref) = Some original"
      using orig o(2) by (simp add: reversible_def reversal_journal_of_def)
    ultimately show "\<exists>w. dict_get (journals s) (pj_tenant_reference ?j, r) = Some w \<and> reverses ?j w"
      using o(1) by blast
  qed (use inv none in \<open>simp_all add: ledger_inv_def\<close>)
  moreover have "receipts_inv ?s'"
    by (rule receipts_inv_mono [where s = s]) (use inv grow in \<open>simp_all add: ledger_inv_def\<close>)
  moreover have "evidence_inv ?s'"
    by (rule evidence_inv_mono [where s = s]) (use inv grow in \<open>simp_all add: ledger_inv_def\<close>)
  ultimately show ?thesis by (simp add: ledger_inv_def)
qed

lemma reverse_uncached_inv:
  assumes inv: "ledger_inv s" and run: "reverse_uncached s jref d reason pol ck h = Inr (s', r)"
  shows "ledger_inv s'"
proof -
  have ji: "journals_inv s" using inv by (simp add: ledger_inv_def)
  obtain original where orig: "reversible s jref pol original"
    and out: "(\<exists>occupant. dict_get (journals s) (pj_tenant_reference original, jref @ '':reversal'') = Some occupant \<and>
           pj_reversal_of occupant = Some jref \<and> pj_reversal_idempotency_key occupant = Some ck \<and>
           pj_source_payload_hash occupant = h \<and> r = receipt_for_posted_journal occupant \<and>
           s' = record_reversal s (pol_tenant_reference pol, jref) r (ck, jref, h)) \<or>
        (dict_get (journals s) (pj_tenant_reference original, jref @ '':reversal'') = None \<and>
         pj_accounting_date original \<le> d \<and> permits pol d \<and>
         r = reversal_receipt_of original jref pol h \<and>
         s' = record_reversal
                (s\<lparr>journals := dict_set (pj_tenant_reference original, jref @ '':reversal'')
                    (reversal_journal_of original jref d reason ck pol h) (journals s)\<rparr>)
                (pol_tenant_reference pol, jref) r (ck, jref, h))"
    using run unfolding reverse_uncached_eq_Inr by blast
  have t: "pj_tenant_reference original = pol_tenant_reference pol"
    using journals_invD [OF ji] orig by (auto simp: reversible_def)
  from out show ?thesis
  proof (elim disjE exE conjE)
    fix occupant
    assume "dict_get (journals s) (pj_tenant_reference original, jref @ '':reversal'') = Some occupant"
      "pj_reversal_of occupant = Some jref" "pj_reversal_idempotency_key occupant = Some ck"
      "pj_source_payload_hash occupant = h" "r = receipt_for_posted_journal occupant"
      "s' = record_reversal s (pol_tenant_reference pol, jref) r (ck, jref, h)"
    then show ?thesis
      using record_reversal_inv [OF inv, of "pol_tenant_reference pol" jref occupant ck] t by simp
  next
    let ?s1 = "s\<lparr>journals := dict_set (pj_tenant_reference original, jref @ '':reversal'')
                    (reversal_journal_of original jref d reason ck pol h) (journals s)\<rparr>"
    let ?j = "reversal_journal_of original jref d reason ck pol h"
    assume none: "dict_get (journals s) (pj_tenant_reference original, jref @ '':reversal'') = None"
      and date: "pj_accounting_date original \<le> d" and r: "r = reversal_receipt_of original jref pol h"
      and s': "s' = record_reversal ?s1 (pol_tenant_reference pol, jref) r (ck, jref, h)"
    have "ledger_inv ?s1"
      using add_reversal_inv [OF inv orig none date] .
    moreover have "pj_reversal_of ?j = Some jref" "pj_reversal_idempotency_key ?j = Some ck"
      "pj_source_payload_hash ?j = h"
      by (simp_all add: reversal_journal_of_def)
    ultimately show ?thesis
      using record_reversal_inv [of ?s1 "pol_tenant_reference pol" jref ?j ck] t by (simp add: s' r)
  qed
qed

lemma reverse_inv:
  assumes "ledger_inv s" and "reverse s jref d reason pol key = Inr (s', r)"
  shows "ledger_inv s'"
proof -
  have "s' = s \<or> (\<exists>ck h. reverse_uncached s jref d reason pol ck h = Inr (s', r))"
    using assms(2) unfolding reverse_eq_Inr Let_def by blast
  then show ?thesis using assms(1) reverse_uncached_inv by auto
qed

lemma run_command_inv:
  assumes "ledger_inv s" and "admissible c" and "run_command s c = Inr (s', r)"
  shows "ledger_inv s'"
proof (cases c)
  case (Post p pol)
  then show ?thesis using assms post_inv [of s p pol s' r] by simp
next
  case (Reverse jref d reason pol key)
  then show ?thesis using assms reverse_inv [of s jref d reason pol key s' r] by simp
qed

section \<open>The ledger keeps its answers\<close>

text \<open>What the ledger remembers of an answered command.\<close>

fun ledger_answered :: "ledger \<Rightarrow> ledger_command \<Rightarrow> posting_receipt \<Rightarrow> bool" where
  "ledger_answered s (Post p pol) r =
     (dict_get (receipts_by_idempotency s) (jp_tenant_reference p, jp_idempotency_key p) =
        Some (jp_source_payload_hash p, r) \<and> rc_tenant_reference r = jp_tenant_reference p)"
| "ledger_answered s (Reverse jref d reason pol key) r =
     (code_pattern reason \<and> reversal_command_key jref key \<noteq> [] \<and>
      dict_get (reversal_receipts s) (pol_tenant_reference pol, jref) = Some r \<and>
      rc_tenant_reference r = pol_tenant_reference pol \<and>
      dict_get (reversal_evidence s) (pol_tenant_reference pol, jref) =
        Some (reversal_command_key jref key, jref,
              reversal_hash_of pol (reversal_command_key jref key) jref d reason))"

lemma answered_replays: "ledger_answered s c r \<Longrightarrow> run_command s c = Inr (s, r)"
  by (cases c) (auto simp: post_eq_Inr cached_idempotency_receipt_Some reverse_eq_Inr Let_def
      cached_reversal_receipt_Some)

lemma post_answered:
  "post s p pol = Inr (s', r) \<Longrightarrow> ledger_answered s' (Post p pol) r"
  by (auto simp: post_eq_Inr cached_idempotency_receipt_Some posting_receipt_of_def)

lemma reverse_uncached_receipt:
  assumes "journals_inv s" and "reverse_uncached s jref d reason pol ck h = Inr (s', r)"
  shows "rc_tenant_reference r = pol_tenant_reference pol \<and>
     dict_get (reversal_receipts s') (pol_tenant_reference pol, jref) = Some r \<and>
     dict_get (reversal_evidence s') (pol_tenant_reference pol, jref) = Some (ck, jref, h)"
  using assms(2) journals_invD [OF assms(1)]
  by (fastforce simp: reverse_uncached_eq_Inr reversible_def receipt_for_posted_journal_def
      reversal_receipt_of_def)

lemma reverse_answered:
  assumes "ledger_inv s" and "reverse s jref d reason pol key = Inr (s', r)"
  shows "ledger_answered s' (Reverse jref d reason pol key) r"
  using assms reverse_uncached_receipt [of s jref d reason pol "reversal_command_key jref key"]
  by (auto simp: reverse_eq_Inr Let_def cached_reversal_receipt_Some ledger_inv_def)

text \<open>An answer is never overwritten.\<close>

lemma post_keeps_answers:
  assumes "post s p pol = Inr (s', q)" and "ledger_answered s c r"
  shows "ledger_answered s' c r"
  using assms by (cases c) (auto simp: post_eq_Inr post_fresh_def cached_idempotency_receipt_None)

text \<open>
  Once a reversal of a journal is on record, a reversal of the same journal under another
  command key is refused.
\<close>

lemma recorded_reversal_blocks:
  assumes inv: "ledger_inv s"
    and rec: "dict_get (reversal_receipts s) (pol_tenant_reference pol, jref) = Some r"
    and ev: "dict_get (reversal_evidence s) (pol_tenant_reference pol, jref) = Some (ck, jref, h)"
    and run: "reverse_uncached s jref d reason pol ck' h' = Inr (s', q)"
  shows "ck' = ck \<and> h' = h \<and> q = r"
proof -
  have ji: "journals_inv s" using inv by (simp add: ledger_inv_def)
  have "evidence_entry s (pol_tenant_reference pol) jref r"
    using inv rec by (simp add: ledger_inv_def evidence_inv_def)
  then show ?thesis
    using run ev journals_invD [OF ji]
    by (fastforce simp: evidence_entry_def reverse_uncached_eq_Inr reversible_def)
qed

lemma reverse_uncached_keeps_answers:
  assumes inv: "ledger_inv s" and run: "reverse_uncached s jref d reason pol ck h = Inr (s', q)"
    and ans: "ledger_answered s c r"
  shows "ledger_answered s' c r"
proof (cases c)
  case (Post p pol')
  have "receipts_by_idempotency s' = receipts_by_idempotency s"
    using run by (auto simp: reverse_uncached_eq_Inr)
  then show ?thesis using ans Post by simp
next
  case (Reverse jref' d' reason' pol' key')
  have upd: "reversal_receipts s' = dict_set (pol_tenant_reference pol, jref) q (reversal_receipts s)"
    "reversal_evidence s' = dict_set (pol_tenant_reference pol, jref) (ck, jref, h) (reversal_evidence s)"
    using run by (auto simp: reverse_uncached_eq_Inr)
  show ?thesis
  proof (cases "(pol_tenant_reference pol', jref') = (pol_tenant_reference pol, jref)")
    case True
    then have "ck = reversal_command_key jref' key' \<and>
        h = reversal_hash_of pol' (reversal_command_key jref' key') jref' d' reason' \<and> q = r"
      using recorded_reversal_blocks [OF inv _ _ run, of r] ans Reverse by auto
    then show ?thesis using ans Reverse True by (simp add: upd)
  next
    case False
    then show ?thesis using ans Reverse by (auto simp: upd)
  qed
qed

lemma run_keeps_answers:
  assumes "ledger_inv s" and "run_command s d = Inr (s', q)" and "ledger_answered s c r"
  shows "ledger_answered s' c r"
proof (cases d)
  case (Post p pol)
  then show ?thesis using assms post_keeps_answers by simp
next
  case (Reverse jref dt reason pol key)
  then have "s' = s \<or> (\<exists>ck h. reverse_uncached s jref dt reason pol ck h = Inr (s', q))"
    using assms(2) by (auto simp: reverse_eq_Inr Let_def)
  then show ?thesis using assms reverse_uncached_keeps_answers by blast
qed

lemma log_add:
  "dict_get d k = None \<Longrightarrow> \<exists>new. length new < 2 \<and> map snd (dict_set k j d) = map snd d @ new"
  by (rule exI [of _ "[j]"]) (simp add: dict_set_fresh dict_get_None_iff)

lemma run_command_log:
  assumes "run_command s c = Inr (s', r)"
  shows "\<exists>new. length new < 2 \<and> map snd (journals s') = map snd (journals s) @ new"
proof -
  have same: "\<exists>new. length new < 2 \<and> xs = xs @ new" for xs :: "posted_journal list"
    by (rule exI [of _ "[]"]) simp
  show ?thesis
  proof (cases c)
    case (Post p pol)
    then show ?thesis
      using assms same by (auto simp: post_eq_Inr post_fresh_def intro: log_add)
  next
    case (Reverse jref d reason pol key)
    then have "s' = s \<or> (\<exists>ck h. reverse_uncached s jref d reason pol ck h = Inr (s', r))"
      using assms by (auto simp: reverse_eq_Inr Let_def)
    then show ?thesis
      using same by (auto simp: reverse_uncached_eq_Inr intro: log_add)
  qed
qed

interpretation posting: idempotent_service run_command ledger_inv admissible ledger_answered
proof
  fix s c s' r
  assume "ledger_inv s" and "admissible c" and run: "run_command s c = Inr (s', r)"
  then show "ledger_inv s'" by (rule run_command_inv)
  show "ledger_answered s' c r"
    using run \<open>ledger_inv s\<close> post_answered reverse_answered by (cases c) auto
qed (use answered_replays run_keeps_answers in blast)+

interpretation journal_log: append_only_service run_command ledger_inv admissible "\<lambda>s. map snd (journals s)"
  by unfold_locales (rule run_command_log)

end
