(* ===== verification/Trial_Balance.thy ===== *)
theory Trial_Balance
  imports Ledger_Invariants "HOL-Library.Multiset"
begin

text \<open>
  The trial balance of the in-memory ledger: which accounts it lists and in which order, that
  each total is the sum of the account's lines in scope, that the totals of the whole book
  agree, and that a reversal takes its original off every account again. The totals are sums
  under the 28-digit decimal context, so the arithmetic statements bound the turnover.
\<close>

section \<open>The lines in scope\<close>

definition scope_lines :: "ledger \<Rightarrow> string \<Rightarrow> string \<Rightarrow> string \<Rightarrow> date \<Rightarrow> posted_journal_line list" where
  "scope_lines s t e b d = concat (map pj_lines (filter (in_scope t e b d) (map snd (journals s))))"

definition account_lines :: "string \<Rightarrow> posted_journal_line list \<Rightarrow> posted_journal_line list" where
  "account_lines a ls = filter (\<lambda>l. pl_chart_account_code l = a) ls"

definition accounts_of :: "posted_journal_line list \<Rightarrow> string set" where
  "accounts_of ls = pl_chart_account_code ` set ls"

lemma account_lines_simps [simp]:
  "account_lines a [] = []"
  "account_lines a (l # ls) = (if pl_chart_account_code l = a then l # account_lines a ls else account_lines a ls)"
  "account_lines a (ls @ ms) = account_lines a ls @ account_lines a ms"
  by (simp_all add: account_lines_def)

lemma accounts_of_simps [simp]:
  "accounts_of [] = {}"
  "accounts_of (l # ls) = insert (pl_chart_account_code l) (accounts_of ls)"
  "finite (accounts_of ls)"
  by (simp_all add: accounts_of_def)

lemma account_lines_Nil: "account_lines a ls = [] \<longleftrightarrow> a \<notin> accounts_of ls"
  by (auto simp: account_lines_def accounts_of_def filter_empty_conv)

lemma totals_foldl:
  "foldl (\<lambda>totals j. if f j then foldl add_line_to_totals totals (pj_lines j) else totals) m js =
     foldl add_line_to_totals m (concat (map pj_lines (filter f js)))"
  by (induction js arbitrary: m) auto

lemma trial_balance_totals_eq:
  "trial_balance_totals s t e b d = foldl add_line_to_totals [] (scope_lines s t e b d)"
  by (simp add: trial_balance_totals_def scope_lines_def totals_foldl)

section \<open>Totals per account\<close>

definition running :: "(string, dec \<times> dec) dict \<Rightarrow> string \<Rightarrow> dec \<times> dec" where
  "running m a = (case dict_get m a of None \<Rightarrow> (dec_zero, dec_zero) | Some dc \<Rightarrow> dc)"

lemma add_line_eq:
  "add_line_to_totals m l =
     (let a = pl_chart_account_code l in
      dict_set a (dec_add (fst (running m a)) (pl_debit_amount l),
                  dec_add (snd (running m a)) (pl_credit_amount l)) m)"
  by (simp add: add_line_to_totals_def running_def Let_def split_def)

lemma add_line_keys: "fst ` set (add_line_to_totals m l) = insert (pl_chart_account_code l) (fst ` set m)"
proof -
  have "set (dict_keys (dict_set k v m)) = insert k (set (dict_keys m))" for k v
    unfolding dict_keys_set by auto
  then show ?thesis by (simp add: add_line_eq Let_def)
qed

lemma add_line_wf: "dict_wf m \<Longrightarrow> dict_wf (add_line_to_totals m l)"
  by (simp only: add_line_eq Let_def dict_wf_set)

lemma add_line_running:
  "running (add_line_to_totals m l) a =
     (if pl_chart_account_code l = a
      then (dec_add (fst (running m a)) (pl_debit_amount l), dec_add (snd (running m a)) (pl_credit_amount l))
      else running m a)"
  by (simp add: add_line_eq Let_def) (simp add: running_def)

lemma foldl_keys:
  "fst ` set (foldl add_line_to_totals m ls) = fst ` set m \<union> accounts_of ls"
  by (induction ls arbitrary: m) (auto simp: add_line_keys)

lemma foldl_wf: "dict_wf m \<Longrightarrow> dict_wf (foldl add_line_to_totals m ls)"
  by (induction ls arbitrary: m) (auto simp: add_line_wf)

lemma foldl_running:
  "running (foldl add_line_to_totals m ls) a =
     (foldl dec_add (fst (running m a)) (map pl_debit_amount (account_lines a ls)),
      foldl dec_add (snd (running m a)) (map pl_credit_amount (account_lines a ls)))"
  by (induction ls arbitrary: m) (auto simp: add_line_running)

definition account_balance_of :: "posted_journal_line list \<Rightarrow> string \<Rightarrow> account_balance" where
  "account_balance_of ls a =
     \<lparr>ab_chart_account_code = a,
      ab_debit_total = dec_sum (map pl_debit_amount (account_lines a ls)),
      ab_credit_total = dec_sum (map pl_credit_amount (account_lines a ls))\<rparr>"

lemma running_Nil: "running [] a = (dec_zero, dec_zero)"
  by (simp add: running_def)

lemma totals_get:
  "dict_get (foldl add_line_to_totals [] ls) a =
     (if a \<in> accounts_of ls
      then Some (dec_sum (map pl_debit_amount (account_lines a ls)),
                 dec_sum (map pl_credit_amount (account_lines a ls)))
      else None)"
proof (cases "dict_get (foldl add_line_to_totals [] ls) a")
  case None
  then show ?thesis
    using foldl_keys [of "[]" ls] by (simp add: dict_get_None_iff)
next
  case (Some dc)
  then have "a \<in> set (dict_keys (foldl add_line_to_totals [] ls))"
    by (metis dict_get_None_iff option.distinct(1))
  then have "a \<in> accounts_of ls" by (simp add: foldl_keys)
  moreover have "dc = running (foldl add_line_to_totals [] ls) a"
    by (simp add: running_def Some)
  ultimately show ?thesis
    using Some by (simp add: foldl_running running_Nil dec_sum_def)
qed

lemma sort_key_get:
  "dict_wf m \<Longrightarrow> dict_get (sort_key fst m) k = dict_get m k"
proof -
  assume wf: "dict_wf m"
  have "mset (map fst (sort_key fst m)) = mset (map fst m)"
    by (simp only: mset_map mset_sort)
  then have "distinct (map fst (sort_key fst m))"
    using wf by (metis mset_eq_imp_distinct_iff)
  then have "map_of (sort_key fst m) = map_of m"
    using wf by (simp add: map_of_inject_set)
  then show ?thesis by simp
qed

lemma dict_get_map_value:
  "dict_get (map (\<lambda>(k, v). (k, f k v)) m) a = map_option (f a) (dict_get m a)"
  by (induction m) auto

lemma trial_balance_get:
  "dict_get (trial_balance s t e b d) a =
     (if a \<in> accounts_of (scope_lines s t e b d)
      then Some (account_balance_of (scope_lines s t e b d) a) else None)"
proof -
  have "trial_balance s t e b d =
      map (\<lambda>(k, v). (k, (case v of (x, y) \<Rightarrow>
             \<lparr>ab_chart_account_code = k, ab_debit_total = x, ab_credit_total = y\<rparr>)))
        (sort_key fst (trial_balance_totals s t e b d))"
    by (simp add: trial_balance_def split_def)
  then show ?thesis
    by (simp add: dict_get_map_value trial_balance_totals_eq sort_key_get foldl_wf totals_get
        account_balance_of_def)
qed

lemma trial_balance_keys:
  "dict_keys (trial_balance s t e b d) = sort (dict_keys (trial_balance_totals s t e b d))"
proof -
  have "dict_keys (trial_balance s t e b d) = map fst (sort_key fst (trial_balance_totals s t e b d))"
    by (simp add: trial_balance_def split_def comp_def)
  also have "\<dots> = sort (map fst (trial_balance_totals s t e b d))"
    by (rule properties_for_sort [symmetric]) (simp_all only: mset_map mset_sort sorted_sort_key)
  finally show ?thesis .
qed

lemma trial_balance_listing:
  "sorted (dict_keys (trial_balance s t e b d))" "distinct (dict_keys (trial_balance s t e b d))"
  "set (dict_keys (trial_balance s t e b d)) = accounts_of (scope_lines s t e b d)"
proof -
  have "dict_wf (trial_balance_totals s t e b d)"
    by (simp only: trial_balance_totals_eq) (rule foldl_wf, simp)
  then show "distinct (dict_keys (trial_balance s t e b d))" by (simp only: trial_balance_keys distinct_sort)
  show "sorted (dict_keys (trial_balance s t e b d))" by (simp only: trial_balance_keys sorted_sort)
  show "set (dict_keys (trial_balance s t e b d)) = accounts_of (scope_lines s t e b d)"
    by (simp only: trial_balance_keys set_sort) (simp add: trial_balance_totals_eq foldl_keys)
qed

section \<open>Exact totals while the turnover stays below ten to the 22\<close>

definition debit_sum :: "posted_journal_line list \<Rightarrow> rat" where
  "debit_sum ls = dval_sum (map pl_debit_amount ls)"

definition credit_sum :: "posted_journal_line list \<Rightarrow> rat" where
  "credit_sum ls = dval_sum (map pl_credit_amount ls)"

lemma side_sum_simps [simp]:
  "debit_sum [] = 0" "debit_sum (l # ls) = dval (pl_debit_amount l) + debit_sum ls"
  "debit_sum (ls @ ms) = debit_sum ls + debit_sum ms"
  "credit_sum [] = 0" "credit_sum (l # ls) = dval (pl_credit_amount l) + credit_sum ls"
  "credit_sum (ls @ ms) = credit_sum ls + credit_sum ms"
  by (simp_all add: debit_sum_def credit_sum_def)

definition exact_lines :: "posted_journal_line list \<Rightarrow> bool" where
  "exact_lines ls \<longleftrightarrow> list_all posted_line_ok ls \<and> debit_sum ls < 10 ^ 22 \<and> credit_sum ls < 10 ^ 22"

lemma posted_line_nonneg: "posted_line_ok l \<Longrightarrow> 0 \<le> dval (pl_debit_amount l) \<and> 0 \<le> dval (pl_credit_amount l)"
  by (simp add: posted_line_ok_def amount_ok_nonneg)

lemma side_sum_nonneg: "list_all posted_line_ok ls \<Longrightarrow> 0 \<le> debit_sum ls \<and> 0 \<le> credit_sum ls"
  using posted_line_nonneg by (induction ls) (auto intro: add_nonneg_nonneg)

lemma side_sum_account_le:
  "list_all posted_line_ok ls \<Longrightarrow>
     debit_sum (account_lines a ls) \<le> debit_sum ls \<and> credit_sum (account_lines a ls) \<le> credit_sum ls"
proof (induction ls)
  case Nil
  then show ?case by simp
next
  case (Cons l ls)
  then show ?case using posted_line_nonneg [of l] by auto
qed

lemma exact_lines_account: "exact_lines ls \<Longrightarrow> exact_lines (account_lines a ls)"
  using side_sum_account_le [of ls a]
  by (auto simp: exact_lines_def account_lines_def list_all_iff)

lemma exact_lines_append: "exact_lines (ls @ ms) \<Longrightarrow> exact_lines ls \<and> exact_lines ms"
  using side_sum_nonneg [of ls] side_sum_nonneg [of ms] by (auto simp: exact_lines_def)

lemma exact_sums:
  assumes "exact_lines ls"
  shows "dval (dec_sum (map pl_debit_amount ls)) = debit_sum ls"
    and "dval (dec_sum (map pl_credit_amount ls)) = credit_sum ls"
proof -
  have "\<forall>d\<in>set (map pl_debit_amount ls). 0 \<le> dval d \<and> - 6 \<le> dexp d"
    and "\<forall>d\<in>set (map pl_credit_amount ls). 0 \<le> dval d \<and> - 6 \<le> dexp d"
    using assms amount_ok_nonneg
    by (auto simp: exact_lines_def posted_line_ok_def list_all_iff amount_ok_def)
  then show "dval (dec_sum (map pl_debit_amount ls)) = debit_sum ls"
    and "dval (dec_sum (map pl_credit_amount ls)) = credit_sum ls"
    using assms unfolding exact_lines_def debit_sum_def credit_sum_def
    by (simp_all only: dec_sum_exact)
qed

lemma account_balance_exact:
  assumes "exact_lines ls"
  shows "dval (ab_debit_total (account_balance_of ls a)) = debit_sum (account_lines a ls)"
    and "dval (ab_credit_total (account_balance_of ls a)) = credit_sum (account_lines a ls)"
  using exact_sums [OF exact_lines_account [OF assms, of a]] by (simp_all add: account_balance_of_def)

lemma side_sum_partition:
  assumes "finite A" and "accounts_of ls \<subseteq> A"
  shows "(\<Sum>a\<in>A. debit_sum (account_lines a ls)) = debit_sum ls"
    and "(\<Sum>a\<in>A. credit_sum (account_lines a ls)) = credit_sum ls"
proof -
  have one: "(\<Sum>a\<in>A. if pl_chart_account_code l = a then x else 0) = x"
    if "pl_chart_account_code l \<in> A" for l :: posted_journal_line and x :: rat
    using assms(1) that by (simp add: sum.delta)
  have "(\<Sum>a\<in>A. debit_sum (account_lines a ls)) = debit_sum ls \<and>
        (\<Sum>a\<in>A. credit_sum (account_lines a ls)) = credit_sum ls"
    using assms(2)
  proof (induction ls)
    case Nil
    then show ?case by simp
  next
    case (Cons l ls)
    have "debit_sum (account_lines a (l # ls)) =
        (if pl_chart_account_code l = a then dval (pl_debit_amount l) else 0) + debit_sum (account_lines a ls)"
      "credit_sum (account_lines a (l # ls)) =
        (if pl_chart_account_code l = a then dval (pl_credit_amount l) else 0) + credit_sum (account_lines a ls)" for a
      by simp_all
    then show ?case using Cons one [of l] by (simp add: sum.distrib)
  qed
  then show "(\<Sum>a\<in>A. debit_sum (account_lines a ls)) = debit_sum ls"
    and "(\<Sum>a\<in>A. credit_sum (account_lines a ls)) = credit_sum ls" by simp_all
qed

section \<open>The books balance\<close>

definition tb_debits :: "(string, account_balance) dict \<Rightarrow> rat" where
  "tb_debits tb = sum_list (map (\<lambda>(a, ab). dval (ab_debit_total ab)) tb)"

definition tb_credits :: "(string, account_balance) dict \<Rightarrow> rat" where
  "tb_credits tb = sum_list (map (\<lambda>(a, ab). dval (ab_credit_total ab)) tb)"

lemma trial_balance_sum:
  "sum_list (map (\<lambda>(a, ab). f ab) (trial_balance s t e b d)) =
     (\<Sum>a\<in>accounts_of (scope_lines s t e b d). f (account_balance_of (scope_lines s t e b d) a))"
proof -
  let ?tb = "trial_balance s t e b d"
  have "ab = account_balance_of (scope_lines s t e b d) a" if "(a, ab) \<in> set ?tb" for a ab
    using map_of_is_SomeI [OF trial_balance_listing(2) that]
    by (simp add: trial_balance_get split: if_splits)
  then have "map (\<lambda>(a, ab). f ab) ?tb = map (\<lambda>a. f (account_balance_of (scope_lines s t e b d) a)) (dict_keys ?tb)"
    by (auto simp: comp_def)
  then show ?thesis
    using sum_list_distinct_conv_sum_set [OF trial_balance_listing(2)]
    by (simp only: trial_balance_listing(3))
qed

lemma trial_balance_totals_exact:
  assumes "exact_lines (scope_lines s t e b d)"
  shows "tb_debits (trial_balance s t e b d) = debit_sum (scope_lines s t e b d)"
    and "tb_credits (trial_balance s t e b d) = credit_sum (scope_lines s t e b d)"
  using side_sum_partition [of "accounts_of (scope_lines s t e b d)" "scope_lines s t e b d"]
  by (simp_all add: tb_debits_def tb_credits_def trial_balance_sum account_balance_exact [OF assms])

lemma scope_journals_wf:
  assumes inv: "ledger_inv s"
  shows "\<forall>ls\<in>set (map pj_lines (filter (in_scope t e b d) (map snd (journals s)))). lines_wf ls"
proof -
  have "lines_wf (pj_lines j)" if j: "j \<in> set (map snd (journals s))" for j
  proof -
    have "dict_wf (journals s)" using inv by (simp add: ledger_inv_def journals_inv_def)
    then obtain k where "dict_get (journals s) k = Some j"
      using j dict_store.vals_get [of "journals s" j] by blast
    then show ?thesis using inv by (cases k) (auto simp: ledger_inv_def dest: journals_invD)
  qed
  then show ?thesis by auto
qed

lemma scope_lines_ok:
  assumes "ledger_inv s"
  shows "list_all posted_line_ok (scope_lines s t e b d)"
  using scope_journals_wf [OF assms, of t e b d] by (fastforce simp: scope_lines_def list_all_iff lines_wf_def)

lemma journals_balance_exactly:
  assumes "lines_wf ls" and "exact_lines ls"
  shows "debit_sum ls = credit_sum ls"
  using assms exact_sums [OF assms(2)] by (simp add: lines_wf_def dec_eq_iff)

lemma concat_balances:
  assumes "\<forall>ls\<in>set lss. lines_wf ls" and "exact_lines (concat lss)"
  shows "debit_sum (concat lss) = credit_sum (concat lss)"
  using assms
proof (induction lss)
  case Nil
  then show ?case by simp
next
  case (Cons ls lss)
  then show ?case using exact_lines_append [of ls "concat lss"] journals_balance_exactly [of ls] by simp
qed

lemma scope_balances:
  assumes "ledger_inv s" and "exact_lines (scope_lines s t e b d)"
  shows "debit_sum (scope_lines s t e b d) = credit_sum (scope_lines s t e b d)"
  using concat_balances [OF scope_journals_wf [OF assms(1)]] assms(2) by (simp add: scope_lines_def)

section \<open>Net balances\<close>

definition tb_net :: "(string, account_balance) dict \<Rightarrow> string \<Rightarrow> rat" where
  "tb_net tb a = (case dict_get tb a of None \<Rightarrow> 0 | Some ab \<Rightarrow> dval (net_balance ab))"

definition net_sum :: "string \<Rightarrow> posted_journal_line list \<Rightarrow> rat" where
  "net_sum a ls = debit_sum (account_lines a ls) - credit_sum (account_lines a ls)"

lemma net_sum_simps [simp]:
  "net_sum a [] = 0" "net_sum a (ls @ ms) = net_sum a ls + net_sum a ms"
  by (simp_all add: net_sum_def)

lemma net_balance_exact:
  assumes "exact_lines ls"
  shows "dval (net_balance (account_balance_of ls a)) = net_sum a ls"
proof -
  have x: "exact_lines (account_lines a ls)" using assms by (rule exact_lines_account)
  then have "0 \<le> debit_sum (account_lines a ls)" "0 \<le> credit_sum (account_lines a ls)"
    "debit_sum (account_lines a ls) < 10 ^ 22" "credit_sum (account_lines a ls) < 10 ^ 22"
    using side_sum_nonneg [of "account_lines a ls"] by (auto simp: exact_lines_def)
  then have bound: "\<bar>debit_sum (account_lines a ls) - credit_sum (account_lines a ls)\<bar> < 10 ^ 22" by arith
  have "\<forall>d\<in>set (map pl_debit_amount (account_lines a ls)). 0 \<le> dval d \<and> - 6 \<le> dexp d"
    and "\<forall>d\<in>set (map pl_credit_amount (account_lines a ls)). 0 \<le> dval d \<and> - 6 \<le> dexp d"
    using x amount_ok_nonneg by (auto simp: exact_lines_def posted_line_ok_def list_all_iff amount_ok_def)
  then have "- 6 \<le> dexp (ab_debit_total (account_balance_of ls a))"
    and "- 6 \<le> dexp (ab_credit_total (account_balance_of ls a))"
    using x unfolding exact_lines_def debit_sum_def credit_sum_def account_balance_of_def account_balance.simps
    by (blast intro: dec_sum_exact(2))+
  then show ?thesis
    using dec_sub_exact bound account_balance_exact [OF assms, of a]
    by (simp add: net_balance_def net_sum_def)
qed

lemma tb_net_exact:
  assumes "exact_lines (scope_lines s t e b d)"
  shows "tb_net (trial_balance s t e b d) a = net_sum a (scope_lines s t e b d)"
proof (cases "a \<in> accounts_of (scope_lines s t e b d)")
  case True
  then show ?thesis by (simp add: tb_net_def trial_balance_get net_balance_exact [OF assms])
next
  case False
  then have "account_lines a (scope_lines s t e b d) = []" by (simp add: account_lines_Nil)
  then show ?thesis using False by (simp add: tb_net_def trial_balance_get net_sum_def)
qed

text \<open>The mirror of a journal takes it off every account.\<close>

lemma reversal_account_lines:
  "account_lines a (map reversal_line ls) = map reversal_line (account_lines a ls)"
  by (simp add: account_lines_def filter_map comp_def reversal_line_def)

lemma net_sum_reversal: "net_sum a (map reversal_line ls) = - net_sum a ls"
proof -
  have "debit_sum (map reversal_line ms) = credit_sum ms \<and> credit_sum (map reversal_line ms) = debit_sum ms" for ms
    by (induction ms) (auto simp: reversal_line_def)
  then show ?thesis by (simp add: net_sum_def reversal_account_lines)
qed

lemma scope_lines_append:
  "map snd (journals s') = map snd (journals s) @ [j] \<Longrightarrow> in_scope t e b d j \<Longrightarrow>
     scope_lines s' t e b d = scope_lines s t e b d @ pj_lines j"
  by (simp add: scope_lines_def)

end
