(* ===== verification/Ledger_Properties.thy ===== *)
theory Ledger_Properties
  imports Trial_Balance
begin

text \<open>
  The promises of the posting ledger, over every ledger that commands can produce from the
  empty one, with a worked example: a sale posted on the 10th of January 2026 and reversed on
  the 20th.
\<close>

section \<open>Reachable ledgers\<close>

definition ledger_after :: "ledger_command list \<Rightarrow> ledger" where
  "ledger_after cs = run_all run_command empty_ledger cs"

lemma ledger_after_inv: "list_all admissible cs \<Longrightarrow> ledger_inv (ledger_after cs)"
  unfolding ledger_after_def by (rule posting.inv_run_all [OF ledger_inv_empty])

section \<open>Worked example\<close>

definition sample_policy :: accounting_policy where
  "sample_policy =
     \<lparr>pol_tenant_reference = ''urn:cwl:platform:tenant:t1'',
      pol_legal_entity_reference = ''urn:cwl:accounting:legal_entity:e1'',
      pol_book_reference = ''urn:cwl:accounting:book:b1'',
      pol_book_role_code = ''primary'',
      pol_transaction_currency = ''KRW'',
      pol_functional_currency = ''KRW'',
      pol_open_period_start = Date 2026 1 1,
      pol_open_period_end = Date 2026 1 31,
      pol_chart_account_mapping = [(''receivable'', ''1100''), (''revenue'', ''4000'')],
      pol_policy_version = ''policy-v1'',
      pol_rule_version = ''rule-v1''\<rparr>"

definition sample_proposal :: journal_proposal where
  "sample_proposal =
     \<lparr>jp_proposal_id = ''00000000-0000-4000-8000-000000000001'',
      jp_contract_version = 1,
      jp_idempotency_key = ''sale-1'',
      jp_tenant_reference = ''urn:cwl:platform:tenant:t1'',
      jp_legal_entity_reference = ''urn:cwl:accounting:legal_entity:e1'',
      jp_book_role_code = ''primary'',
      jp_transaction_currency = ''KRW'',
      jp_transaction_date = Date 2026 1 10,
      jp_accounting_date = Date 2026 1 10,
      jp_source_payload_hash = ''sha256:'' @ replicate 64 (CHR ''a''),
      jp_source_event_references = [''urn:cwl:billing:event:1''],
      jp_lines =
        [\<lparr>jl_line_number = 1, jl_account_role_code = ''receivable'',
          jl_debit_amount = Dec False 1000 (-2), jl_credit_amount = Dec False 0 0\<rparr>,
         \<lparr>jl_line_number = 2, jl_account_role_code = ''revenue'',
          jl_debit_amount = Dec False 0 0, jl_credit_amount = Dec False 1000 (-2)\<rparr>]\<rparr>"

definition sample_reference :: string where
  "sample_reference = ''urn:cwl:accounting:general_journal:00000000-0000-4000-8000-000000000001''"

definition sample_post :: ledger_command where
  "sample_post = Post sample_proposal sample_policy"

definition sample_reverse :: ledger_command where
  "sample_reverse = Reverse sample_reference (Date 2026 1 20) ''entry_error'' sample_policy None"

lemma sample_proposal_patterns:
  "proposal_id_pattern (jp_proposal_id sample_proposal)"
  "reference_pattern (jp_tenant_reference sample_proposal)"
  "reference_pattern (jp_legal_entity_reference sample_proposal)"
  "code_pattern (jp_book_role_code sample_proposal)"
  "currency_pattern (jp_transaction_currency sample_proposal)"
  "hash_pattern (jp_source_payload_hash sample_proposal)"
  "list_all reference_pattern (jp_source_event_references sample_proposal)"
  "valid_date (jp_accounting_date sample_proposal)"
  by code_simp+

lemma sample_codes: "code_pattern ''receivable''" "code_pattern ''revenue''" "code_pattern ''entry_error''"
  by code_simp+

lemma sample_amount [simp]: "0 < dval (Dec False 1000 (-2))" "dval (Dec False 1000 (-2)) \<noteq> 0" "dval (Dec False 0 0) = 0"
  by (simp_all add: dval_def signed_coef_def)

lemma sample_totals:
  "dec_eq (proposal_debit_total sample_proposal) (proposal_credit_total sample_proposal)"
  by (simp add: proposal_debit_total_def proposal_credit_total_def sample_proposal_def dec_sum_def
      dec_zero_def dec_add_def scaled_def signed_coef_def dec_eq_def Let_def dec_fix_exact precision_def)

lemma sample_proposal_valid: "valid_proposal sample_proposal"
proof -
  have "validate_proposal sample_proposal = Inr sample_proposal"
    using sample_proposal_patterns sample_totals
    by (simp add: validate_proposal_eq_Inr dec_eq_iff) (simp add: sample_proposal_def)
  moreover have "list_all line_ok (jp_lines sample_proposal)"
    by (simp add: sample_proposal_def line_ok_def amount_ok_def sample_codes)
  ultimately show ?thesis
    using sample_proposal_patterns by (simp add: valid_proposal_def)
qed

lemma sample_policy_valid: "valid_policy sample_policy"
proof -
  have "reference_pattern (pol_tenant_reference sample_policy)"
    "reference_pattern (pol_legal_entity_reference sample_policy)"
    "reference_pattern (pol_book_reference sample_policy)"
    "code_pattern (pol_book_role_code sample_policy)"
    "currency_pattern (pol_transaction_currency sample_policy)"
    "currency_pattern (pol_functional_currency sample_policy)"
    "list_all (\<lambda>(role, account). code_pattern role \<and> account \<noteq> [] \<and> is_ascii account \<and> is_alnum_ascii account)
       (pol_chart_account_mapping sample_policy)"
    "pol_open_period_start sample_policy \<le> pol_open_period_end sample_policy"
    by code_simp+
  moreover have "pol_policy_version sample_policy \<noteq> []" "pol_rule_version sample_policy \<noteq> []"
    "dict_wf (pol_chart_account_mapping sample_policy)"
    by (simp_all add: sample_policy_def)
  ultimately show ?thesis by (simp add: valid_policy_def validate_policy_eq_Inr list_all_iff)
qed

lemma sample_admissible [simp]: "admissible sample_post" "admissible sample_reverse"
proof -
  have "valid_date (Date 2026 1 20)" by code_simp
  then show "admissible sample_post" "admissible sample_reverse"
    by (simp_all add: sample_post_def sample_reverse_def sample_proposal_valid sample_policy_valid)
qed

definition sample_posted :: ledger where
  "sample_posted = post_result empty_ledger sample_proposal sample_policy"

definition sample_receipt :: posting_receipt where
  "sample_receipt = posting_receipt_of sample_proposal sample_policy
     (map (resolved_line sample_policy) (jp_lines sample_proposal))"

definition sample_original :: posted_journal where
  "sample_original = posted_journal_of sample_proposal sample_policy
     (map (resolved_line sample_policy) (jp_lines sample_proposal))"

definition sample_command_key :: string where
  "sample_command_key = ''reversal:'' @ sample_reference"

definition sample_command_hash :: string where
  "sample_command_hash = reversal_hash_of sample_policy sample_command_key sample_reference (Date 2026 1 20) ''entry_error''"

definition sample_reversal :: posted_journal where
  "sample_reversal = reversal_journal_of sample_original sample_reference (Date 2026 1 20) ''entry_error''
     sample_command_key sample_policy sample_command_hash"

definition sample_reversal_receipt :: posting_receipt where
  "sample_reversal_receipt = reversal_receipt_of sample_original sample_reference sample_policy sample_command_hash"

definition sample_reversed :: ledger where
  "sample_reversed = record_reversal
     (sample_posted\<lparr>journals := dict_set (''urn:cwl:platform:tenant:t1'', sample_reference @ '':reversal'')
        sample_reversal (journals sample_posted)\<rparr>)
     (''urn:cwl:platform:tenant:t1'', sample_reference) sample_reversal_receipt
     (sample_command_key, sample_reference, sample_command_hash)"

lemma sample_journals:
  "journals sample_posted = [((''urn:cwl:platform:tenant:t1'', sample_reference), sample_original)]"
  by (simp add: sample_posted_def sample_original_def empty_ledger_def)
    (simp add: sample_proposal_def sample_reference_def general_journal_prefix_def)

lemma run_sample_post: "run_command empty_ledger sample_post = Inr (sample_posted, sample_receipt)"
proof -
  have "validate_policy_scope sample_proposal sample_policy = Inr ()"
    unfolding validate_policy_scope_eq_Inr by code_simp
  moreover have "\<forall>l\<in>set (jp_lines sample_proposal). role_mapped sample_policy l"
    by (simp add: sample_proposal_def sample_policy_def)
  ultimately show ?thesis
    by (simp add: sample_post_def post_eq_Inr sample_posted_def sample_receipt_def post_fresh_def
        cached_idempotency_receipt_None) (simp add: empty_ledger_def)
qed

lemma sample_reversible: "reversible sample_posted sample_reference sample_policy sample_original"
  by (simp add: reversible_def sample_journals) (simp add: sample_original_def posted_journal_of_def
      sample_policy_def sample_proposal_def)

lemma sample_uncached:
  "cached_reversal_receipt sample_posted t j k h = Inr None"
  by (simp add: cached_reversal_receipt_def sample_posted_def post_result_def empty_ledger_def
      tenant_cache_key_def Let_def)

lemma sample_original_fields:
  "pj_tenant_reference sample_original = ''urn:cwl:platform:tenant:t1''"
  "pj_accounting_date sample_original = Date 2026 1 10"
  "pol_tenant_reference sample_policy = ''urn:cwl:platform:tenant:t1''"
  by (simp_all add: sample_original_def posted_journal_of_def sample_policy_def sample_proposal_def)

lemma run_sample_reverse: "run_command sample_posted sample_reverse = Inr (sample_reversed, sample_reversal_receipt)"
proof -
  have "permits sample_policy (Date 2026 1 20)" "Date 2026 1 10 \<le> Date 2026 1 20" by code_simp+
  then have "reverse_uncached sample_posted sample_reference (Date 2026 1 20) ''entry_error'' sample_policy
      sample_command_key sample_command_hash = Inr (sample_reversed, sample_reversal_receipt)"
    unfolding reverse_uncached_eq_Inr
    by (intro exI [of _ sample_original] conjI sample_reversible disjI2)
      (simp_all add: sample_journals sample_original_fields sample_reversal_receipt_def
        sample_reversed_def sample_reversal_def)
  moreover have "reversal_command_key sample_reference None = sample_command_key" "sample_command_key \<noteq> []"
    by (simp_all add: reversal_command_key_def sample_command_key_def)
  ultimately show ?thesis
    by (simp add: sample_reverse_def reverse_eq_Inr sample_uncached sample_codes sample_command_hash_def Let_def)
qed

lemma sample_reachable: "ledger_after [sample_post] = sample_posted" "ledger_after [sample_post, sample_reverse] = sample_reversed"
  by (simp_all add: ledger_after_def next_state_def run_sample_post run_sample_reverse)

section \<open>Idempotency\<close>

text \<open>C7 Retrying a command: once a post or a reversal has succeeded on any reachable ledger, the
  same command answers with the same receipt after any further commands, and changes nothing.\<close>

theorem command_replays_forever:
  assumes "list_all admissible before" and "admissible c"
    and "run_command (ledger_after before) c = Inr (s, r)" and "list_all admissible later"
  shows "run_command (run_all run_command s later) c = Inr (run_all run_command s later, r)"
  by (rule posting.replay_after [OF ledger_after_inv [OF assms(1)] assms(2-4)])

theorem command_replays_forever_witness:
  "run_command (run_all run_command sample_posted [sample_reverse]) sample_post =
     Inr (run_all run_command sample_posted [sample_reverse], sample_receipt)"
  by (rule command_replays_forever [of "[]"]) (simp_all add: ledger_after_def run_sample_post)

lemma posted_key_answered:
  assumes "list_all admissible before" and "admissible (Post p pol)"
    and "run_command (ledger_after before) (Post p pol) = Inr (s, r)" and "list_all admissible later"
  shows "ledger_answered (run_all run_command s later) (Post p pol) r"
  using assms posting.inv_run posting.run_answered posting.answered_run_all ledger_after_inv by metis

text \<open>An idempotency key stays bound to its payload: after a proposal was posted, a proposal of
  the same tenant with the same key and another payload hash is refused with the conflict error,
  whatever ran in between.\<close>

theorem key_reuse_conflicts:
  assumes "list_all admissible before" and "admissible (Post p pol)"
    and "run_command (ledger_after before) (Post p pol) = Inr (s, r)" and "list_all admissible later"
    and "jp_tenant_reference q = jp_tenant_reference p" and "jp_idempotency_key q = jp_idempotency_key p"
    and "jp_source_payload_hash q \<noteq> jp_source_payload_hash p"
  shows "post (run_all run_command s later) q pol' = Inl (conflict_error msg_conflict)"
proof -
  have "ledger_answered (run_all run_command s later) (Post p pol) r"
    using assms(1-4) by (rule posted_key_answered)
  then show ?thesis
    using assms(5-7) by (simp add: post_def cached_idempotency_receipt_def tenant_cache_key_def)
qed

theorem key_reuse_conflicts_witness:
  "post sample_posted (sample_proposal\<lparr>jp_source_payload_hash := ''sha256:'' @ replicate 64 (CHR ''b'')\<rparr>)
     sample_policy = Inl (conflict_error msg_conflict)"
proof -
  have "post (run_all run_command sample_posted [])
      (sample_proposal\<lparr>jp_source_payload_hash := ''sha256:'' @ replicate 64 (CHR ''b'')\<rparr>) sample_policy =
      Inl (conflict_error msg_conflict)"
    by (rule key_reuse_conflicts [of "[]" sample_proposal sample_policy sample_posted sample_receipt])
      (use run_sample_post sample_admissible(1) in
        \<open>simp_all add: ledger_after_def sample_post_def\<close>, simp add: sample_proposal_def)
  then show ?thesis by simp
qed

section \<open>The journal log\<close>

text \<open>Posted journals are immutable: whatever commands run, the journals of a reachable ledger
  stay, unchanged and in order, and each command appends at most one.\<close>

theorem journals_append_only:
  assumes "list_all admissible before" and "list_all admissible later"
  shows "prefix (map snd (journals (ledger_after before))) (map snd (journals (ledger_after (before @ later)))) \<and>
     journal_count (ledger_after (before @ later)) \<le> journal_count (ledger_after before) + length later"
proof -
  have split: "run_all run_command s (xs @ ys) = run_all run_command (run_all run_command s xs) ys" for s xs ys
    by (induction xs arbitrary: s) simp_all
  show ?thesis
    using journal_log.log_run_all [OF ledger_after_inv [OF assms(1)] assms(2)]
      journal_log.log_length [OF ledger_after_inv [OF assms(1)] assms(2)]
    by (simp add: ledger_after_def split journal_count_def)
qed

theorem journals_append_only_witness:
  "prefix (map snd (journals sample_posted)) (map snd (journals sample_reversed)) \<and> journal_count sample_reversed \<le> 2"
  using journals_append_only [of "[sample_post]" "[sample_reverse]"]
  by (simp add: sample_reachable journal_count_def sample_journals)

text \<open>Every journal of a reachable ledger is stored under its own tenant and reference, has at
  least two lines with distinct numbers, exactly one positive side per line, and debit and credit
  sums that compare equal.\<close>

theorem reachable_journals_well_formed:
  assumes "list_all admissible cs" and "dict_get (journals (ledger_after cs)) (t, k) = Some j"
  shows "pj_tenant_reference j = t \<and> pj_journal_reference j = k \<and> 2 \<le> length (pj_lines j) \<and>
     distinct (map pl_line_number (pj_lines j)) \<and> list_all posted_line_ok (pj_lines j) \<and>
     dec_eq (dec_sum (map pl_debit_amount (pj_lines j))) (dec_sum (map pl_credit_amount (pj_lines j)))"
  using journals_invD [OF _ assms(2)] ledger_after_inv [OF assms(1)] by (simp add: ledger_inv_def lines_wf_def)

theorem reachable_journals_well_formed_witness:
  "pj_tenant_reference sample_original = ''urn:cwl:platform:tenant:t1'' \<and>
   2 \<le> length (pj_lines sample_original) \<and> list_all posted_line_ok (pj_lines sample_original)"
  using reachable_journals_well_formed [of "[sample_post]" "''urn:cwl:platform:tenant:t1''" sample_reference sample_original]
  by (simp add: sample_reachable sample_journals)

section \<open>Reversal\<close>

text \<open>C8 Lineage: every reversal journal of a reachable ledger mirrors a posted journal of the same
  tenant that is not itself a reversal, line by line with debit and credit exchanged, dated on or
  after it.\<close>

theorem reversal_mirrors_original:
  assumes "list_all admissible cs" and "dict_get (journals (ledger_after cs)) (t, k) = Some j"
    and "pj_reversal_of j = Some jref"
  shows "\<exists>original. dict_get (journals (ledger_after cs)) (t, jref) = Some original \<and>
     pj_reversal_of original = None \<and> k = jref @ '':reversal'' \<and>
     pj_book_reference j = pj_book_reference original \<and>
     pj_lines j = map reversal_line (pj_lines original) \<and>
     pj_accounting_date original \<le> pj_accounting_date j"
proof -
  have inv: "journals_inv (ledger_after cs)" "lineage_inv (ledger_after cs)"
    using ledger_after_inv [OF assms(1)] by (simp_all add: ledger_inv_def)
  note j = journals_invD [OF inv(1) assms(2)]
  obtain original where o: "dict_get (journals (ledger_after cs)) (t, jref) = Some original" "reverses j original"
    using inv(2) assms(2,3) j unfolding lineage_inv_def by blast
  then show ?thesis using j journals_invD [OF inv(1) o(1)] by (auto simp: reverses_def)
qed

theorem reversal_mirrors_original_witness:
  "\<exists>original. dict_get (journals sample_reversed) (''urn:cwl:platform:tenant:t1'', sample_reference) = Some original \<and>
     pj_lines sample_reversal = map reversal_line (pj_lines original)"
  using reversal_mirrors_original [of "[sample_post, sample_reverse]" "''urn:cwl:platform:tenant:t1''"
      "sample_reference @ '':reversal''" sample_reversal sample_reference]
  by (simp add: sample_reachable sample_reversed_def)
    (auto simp: sample_reversal_def reversal_journal_of_def)

text \<open>A journal is reversed at most once: after a reversal succeeded, a reversal of the same
  journal of the same tenant under another command identity fails, whatever ran in between.\<close>

theorem at_most_one_reversal:
  assumes "list_all admissible before" and "admissible (Reverse jref d reason pol key)"
    and "run_command (ledger_after before) (Reverse jref d reason pol key) = Inr (s, r)"
    and "list_all admissible later"
    and "pol_tenant_reference pol' = pol_tenant_reference pol"
    and "reversal_command_key jref key' \<noteq> reversal_command_key jref key"
  shows "\<exists>e. reverse (run_all run_command s later) jref d' reason' pol' key' = Inl e"
proof -
  let ?s = "run_all run_command s later"
  have inv: "ledger_inv ?s"
    using assms(1-4) posting.inv_run posting.inv_run_all ledger_after_inv by metis
  have "ledger_answered ?s (Reverse jref d reason pol key) r"
    using assms(1-4) posting.inv_run posting.run_answered posting.answered_run_all ledger_after_inv by metis
  then have rec: "dict_get (reversal_receipts ?s) (pol_tenant_reference pol', jref) = Some r"
    and ev: "dict_get (reversal_evidence ?s) (pol_tenant_reference pol', jref) =
        Some (reversal_command_key jref key, jref, reversal_hash_of pol (reversal_command_key jref key) jref d reason)"
    using assms(5) by simp_all
  have "\<not> (\<exists>x. reverse ?s jref d' reason' pol' key' = Inr x)"
    using recorded_reversal_blocks [OF inv rec ev] assms(6) rec ev
    by (auto simp: reverse_eq_Inr Let_def cached_reversal_receipt_Some)
  then show ?thesis by (cases "reverse ?s jref d' reason' pol' key'") auto
qed

lemma strip_again: "strip ''again'' = ''again''"
  by code_simp

theorem at_most_one_reversal_witness:
  "\<exists>e. reverse sample_reversed sample_reference (Date 2026 1 21) ''entry_error'' sample_policy (Some ''again'') = Inl e"
proof -
  have "reversal_command_key sample_reference (Some ''again'') \<noteq> reversal_command_key sample_reference None"
    by (simp add: reversal_command_key_def strip_again)
  then have "\<exists>e. reverse (run_all run_command sample_reversed []) sample_reference (Date 2026 1 21) ''entry_error''
      sample_policy (Some ''again'') = Inl e"
    using at_most_one_reversal [of "[sample_post]" sample_reference "Date 2026 1 20" "''entry_error''" sample_policy None
        sample_reversed sample_reversal_receipt "[]" sample_policy]
      run_sample_reverse sample_admissible by (simp add: sample_reachable sample_reverse_def)
  then show ?thesis by simp
qed

section \<open>Scope and errors\<close>

text \<open>C13 What a successful post of a new proposal means: tenant, legal entity, book role and currency
  are the policy's, the accounting date lies in the open period, every role is mapped, the journal
  reference was unused, and exactly the one journal and the one receipt are added.\<close>

theorem post_effect:
  "post s p pol = Inr (s', r) \<and> s' \<noteq> s \<Longrightarrow>
     jp_tenant_reference p = pol_tenant_reference pol \<and>
     jp_legal_entity_reference p = pol_legal_entity_reference pol \<and>
     jp_book_role_code p = pol_book_role_code pol \<and>
     pol_open_period_start pol \<le> jp_accounting_date p \<and> jp_accounting_date p \<le> pol_open_period_end pol \<and>
     jp_transaction_currency p = pol_functional_currency pol \<and>
     (\<forall>l\<in>set (jp_lines p). role_mapped pol l) \<and>
     journals s' = journals s @
       [((jp_tenant_reference p, general_journal_prefix @ jp_proposal_id p),
         posted_journal_of p pol (map (resolved_line pol) (jp_lines p)))] \<and>
     dict_get (receipts_by_idempotency s') (jp_tenant_reference p, jp_idempotency_key p) =
       Some (jp_source_payload_hash p, r) \<and>
     reversal_receipts s' = reversal_receipts s"
  by (auto simp: post_eq_Inr post_fresh_def validate_policy_scope_eq_Inr permits_def dict_set_fresh
      dict_get_None_iff)

theorem post_effect_witness:
  "journals sample_posted = journals empty_ledger @
     [((jp_tenant_reference sample_proposal, general_journal_prefix @ jp_proposal_id sample_proposal), sample_original)]"
  using post_effect [of empty_ledger sample_proposal sample_policy sample_posted sample_receipt] run_sample_post
  by (simp add: sample_post_def sample_original_def) (auto simp: empty_ledger_def sample_posted_def)

text \<open>How a post fails: always with a validation error that leaves the ledger alone; the conflict
  error exactly when the tenant's idempotency key is retained with another payload hash.\<close>

theorem post_errors:
  "post s p pol = Inl e \<Longrightarrow>
     is_validation_error e \<and>
     (is_idempotency_conflict e \<longleftrightarrow>
        (\<exists>h r. dict_get (receipts_by_idempotency s) (jp_tenant_reference p, jp_idempotency_key p) = Some (h, r) \<and>
               rc_tenant_reference r = jp_tenant_reference p \<and> h \<noteq> jp_source_payload_hash p))"
proof -
  assume fail: "post s p pol = Inl e"
  have scope: "x = Inl e' \<Longrightarrow> x = validate_policy_scope p pol \<Longrightarrow> \<exists>m. e' = validation_error m" for x e'
    by (auto simp: validate_policy_scope_def bind_result_eq_Inl require_eq_Inl)
  have lines: "map_result (resolve_line pol) ls = Inl e' \<Longrightarrow> \<exists>m. e' = validation_error m" for ls e'
    by (induction ls) (auto simp: bind_result_eq_Inl resolve_line_def split: option.splits)
  show ?thesis
  proof (cases "cached_idempotency_receipt s (jp_tenant_reference p) (jp_idempotency_key p) (jp_source_payload_hash p)")
    case (Inl e')
    then show ?thesis
      using fail by (auto simp: post_def cached_idempotency_receipt_def tenant_cache_key_def split: option.splits if_splits)
  next
    case (Inr c)
    then have no: "\<not> (\<exists>h r. dict_get (receipts_by_idempotency s) (jp_tenant_reference p, jp_idempotency_key p) = Some (h, r) \<and>
        rc_tenant_reference r = jp_tenant_reference p \<and> h \<noteq> jp_source_payload_hash p)"
      by (auto simp: cached_idempotency_receipt_def tenant_cache_key_def split: option.splits if_splits)
    have "\<exists>m. e = validation_error m"
      using fail Inr scope lines
      by (auto simp: post_def bind_result_eq_Inl Let_def split: option.splits if_splits)
    then show ?thesis using no by auto
  qed
qed

theorem post_errors_witness:
  "is_validation_error (conflict_error msg_conflict) \<and>
   post sample_posted (sample_proposal\<lparr>jp_source_payload_hash := []\<rparr>) sample_policy = Inl (conflict_error msg_conflict)"
proof -
  have "post sample_posted (sample_proposal\<lparr>jp_source_payload_hash := []\<rparr>) sample_policy = Inl (conflict_error msg_conflict)"
    by (simp add: post_def cached_idempotency_receipt_def tenant_cache_key_def sample_posted_def posting_receipt_of_def)
      (simp add: sample_proposal_def)
  then show ?thesis using post_errors by blast
qed

fun command_tenant :: "ledger_command \<Rightarrow> string" where
  "command_tenant (Post p pol) = jp_tenant_reference p"
| "command_tenant (Reverse jref d reason pol key) = pol_tenant_reference pol"

lemma run_adds_own_tenant:
  assumes "ledger_inv s" and "run_command s c = Inr (s', r)"
  shows "\<exists>new. map snd (journals s') = map snd (journals s) @ new \<and> (\<forall>j\<in>set new. pj_tenant_reference j = command_tenant c)"
proof -
  have same: "\<exists>new. xs = xs @ new \<and> (\<forall>j\<in>set new. pj_tenant_reference j = t)" for xs t
    by (rule exI [of _ "[]"]) simp
  have add: "dict_get d k = None \<Longrightarrow> pj_tenant_reference j = t \<Longrightarrow>
      \<exists>new. map snd (dict_set k j d) = map snd d @ new \<and> (\<forall>j\<in>set new. pj_tenant_reference j = t)"
    for k :: "string \<times> string" and j d t
    by (rule exI [of _ "[j]"]) (simp add: dict_set_fresh dict_get_None_iff)
  show ?thesis
  proof (cases c)
    case (Post p pol)
    then show ?thesis
      using assms(2) same by (auto simp: post_eq_Inr post_fresh_def posted_journal_of_def intro!: add)
  next
    case (Reverse jref d reason pol key)
    then have "s' = s \<or> (\<exists>ck h. reverse_uncached s jref d reason pol ck h = Inr (s', r))"
      using assms(2) by (auto simp: reverse_eq_Inr Let_def)
    moreover have "reversible s jref pol original \<Longrightarrow> pj_tenant_reference original = pol_tenant_reference pol" for original
      using assms(1) by (auto simp: reversible_def ledger_inv_def dest: journals_invD)
    ultimately show ?thesis
      using same Reverse by (auto simp: reverse_uncached_eq_Inr reversal_journal_of_def intro!: add)
  qed
qed

text \<open>C11 Tenants are isolated: a command of one tenant leaves every trial balance of every other
  tenant as it was.\<close>

theorem tenants_isolated:
  assumes "list_all admissible before" and "run_command (ledger_after before) c = Inr (s, r)"
    and "t \<noteq> command_tenant c"
  shows "trial_balance s t e b d = trial_balance (ledger_after before) t e b d"
proof -
  obtain new where new: "map snd (journals s) = map snd (journals (ledger_after before)) @ new"
    "\<forall>j\<in>set new. pj_tenant_reference j = command_tenant c"
    using run_adds_own_tenant [OF ledger_after_inv [OF assms(1)] assms(2)] by blast
  then have "filter (in_scope t e b d) new = []"
    using assms(3) by (auto simp: filter_empty_conv in_scope_def)
  then have "scope_lines s t e b d = scope_lines (ledger_after before) t e b d"
    by (simp add: scope_lines_def new(1))
  then show ?thesis by (simp add: trial_balance_def trial_balance_totals_eq)
qed

theorem tenants_isolated_witness:
  "\<forall>e b d. trial_balance sample_posted ''urn:cwl:platform:tenant:t2'' e b d =
     trial_balance empty_ledger ''urn:cwl:platform:tenant:t2'' e b d"
  using tenants_isolated [of "[]" sample_post sample_posted sample_receipt "''urn:cwl:platform:tenant:t2''"]
    run_sample_post by (simp add: ledger_after_def sample_post_def sample_proposal_def)

section \<open>Trial balance\<close>

text \<open>C12 The trial balance lists exactly the accounts with a line in scope, in ascending code order,
  each with the decimal sums of its debit and credit lines in posting order.\<close>

theorem trial_balance_correct:
  "sorted (dict_keys (trial_balance s t e b d)) \<and> distinct (dict_keys (trial_balance s t e b d)) \<and>
   set (dict_keys (trial_balance s t e b d)) = accounts_of (scope_lines s t e b d) \<and>
   dict_get (trial_balance s t e b d) a =
     (if a \<in> accounts_of (scope_lines s t e b d)
      then Some \<lparr>ab_chart_account_code = a,
                 ab_debit_total = dec_sum (map pl_debit_amount (account_lines a (scope_lines s t e b d))),
                 ab_credit_total = dec_sum (map pl_credit_amount (account_lines a (scope_lines s t e b d)))\<rparr>
      else None)"
  by (simp only: trial_balance_listing trial_balance_get account_balance_of_def)


lemma sample_scope:
  "scope_lines sample_posted ''urn:cwl:platform:tenant:t1'' ''urn:cwl:accounting:legal_entity:e1''
     ''urn:cwl:accounting:book:b1'' (Date 2026 1 31) = pj_lines sample_original"
proof -
  have "Date 2026 1 10 \<le> Date 2026 1 31" by code_simp
  then show ?thesis
    by (simp add: scope_lines_def sample_journals in_scope_def sample_original_def posted_journal_of_def
        sample_proposal_def sample_policy_def not_less)
qed

lemma sample_sums:
  "debit_sum (pj_lines sample_original) = 10" "credit_sum (pj_lines sample_original) = 10"
  by (simp_all add: sample_original_def posted_journal_of_def sample_proposal_def)
    (simp_all add: resolved_line_def dval_def signed_coef_def power_int_def power2_eq_square)



lemma sample_reversed_log:
  "map snd (journals sample_reversed) = [sample_original, sample_reversal]"
  by (simp add: sample_reversed_def sample_journals)

lemma sample_reversed_scope:
  "scope_lines sample_reversed ''urn:cwl:platform:tenant:t1'' ''urn:cwl:accounting:legal_entity:e1''
     ''urn:cwl:accounting:book:b1'' (Date 2026 1 31) =
   pj_lines sample_original @ map reversal_line (pj_lines sample_original)"
proof -
  have "Date 2026 1 10 \<le> Date 2026 1 31" "Date 2026 1 20 \<le> Date 2026 1 31" by code_simp+
  then show ?thesis
    by (simp add: scope_lines_def sample_reversed_log in_scope_def sample_reversal_def reversal_journal_of_def
      sample_original_def posted_journal_of_def sample_proposal_def sample_policy_def not_less)
qed


end
