(* ===== verification/Core_Properties.thy ===== *)
theory Core_Properties
  imports Ledger_Properties
begin

text \<open>
  The promises of the validated values of \<open>core.py\<close>: amounts, journal lines, proposals, policy
  loading and the identity of a reversal command.
\<close>

section \<open>Amounts and lines\<close>

text \<open>C15 An amount is accepted exactly when its text is a canonical decimal with at most six fractional
  digits, and the accepted amount is non-negative, prints back to the same text and has at most
  six fractional digits.\<close>

theorem parse_amount_canonical:
  "(\<forall>d. parse_amount v = Inr d \<longrightarrow> decimal_pattern (py_str v) \<and> dec_text d = py_str v \<and> 0 \<le> dval d \<and>
      - 6 \<le> dexp d \<and> dexp d \<le> 0) \<and>
   (decimal_pattern (py_str v) \<longrightarrow> (\<exists>d. parse_amount v = Inr d))"
  using parse_amount_ok [of v] parse_amount_total [of v] amount_ok_nonneg by (auto simp: amount_ok_def)

theorem parse_amount_canonical_witness:
  "decimal_pattern ''12.50'' \<and> (\<exists>d. parse_amount (PStr ''12.50'') = Inr d)"
proof -
  have "decimal_pattern ''12.50''" by code_simp
  then show ?thesis using parse_amount_canonical [of "PStr ''12.50''"] by simp
qed

lemma make_line_proposal_eq_Inr:
  "make_line_proposal n role debit credit = Inr l \<longleftrightarrow>
     1 \<le> n \<and> code_pattern role \<and>
     (\<exists>d c. parse_amount debit = Inr d \<and> parse_amount credit = Inr c \<and> dec_positive d \<noteq> dec_positive c \<and>
        l = \<lparr>jl_line_number = n, jl_account_role_code = role, jl_debit_amount = d, jl_credit_amount = c\<rparr>)"
  by (auto simp: make_line_proposal_def require_code_def result_simps not_less)

text \<open>A journal line is built exactly when its number is positive, its role is lower snake case, both
  amounts are canonical and exactly one of them is positive; it then carries precisely the amounts
  written.\<close>

theorem journal_line_one_side:
  "(\<exists>l. make_line_proposal n role (PStr debit) (PStr credit) = Inr l) \<longleftrightarrow>
     1 \<le> n \<and> code_pattern role \<and> decimal_pattern debit \<and> decimal_pattern credit \<and>
     (\<exists>d c. decimal_of_text debit = Some (Fin d) \<and> decimal_of_text credit = Some (Fin c) \<and>
        (0 < dval d \<longleftrightarrow> dval c = 0))"
proof -
  have p: "parse_amount (PStr s) = Inr d \<longleftrightarrow> decimal_pattern s \<and> decimal_of_text s = Some (Fin d)" for s d
    by (auto simp: parse_amount_def split: option.splits py_decimal.splits)
  have nn: "0 \<le> dval d" if "parse_amount (PStr s) = Inr d" for s d
    using parse_amount_ok(1) [OF that] by (rule amount_ok_nonneg)
  show ?thesis
    unfolding make_line_proposal_eq_Inr dec_positive_iff
    using nn by (force simp: p)
qed

section \<open>Proposals\<close>

text \<open>C14 A validated proposal balances exactly as long as its debit and credit sums stay below ten to
  the 22: its debit amounts and its credit amounts have the same rational sum.\<close>

theorem valid_proposal_balances:
  assumes "valid_proposal p"
    and "dval_sum (map jl_debit_amount (jp_lines p)) < 10 ^ 22"
    and "dval_sum (map jl_credit_amount (jp_lines p)) < 10 ^ 22"
  shows "dval_sum (map jl_debit_amount (jp_lines p)) = dval_sum (map jl_credit_amount (jp_lines p))"
  using assms validated_proposal_balances by (simp add: valid_proposal_def)

theorem valid_proposal_balances_witness:
  "dval_sum (map jl_debit_amount (jp_lines sample_proposal)) = dval_sum (map jl_credit_amount (jp_lines sample_proposal))"
  by (rule valid_proposal_balances [OF sample_proposal_valid])
    (simp_all add: sample_proposal_def dval_def signed_coef_def power_int_def power2_eq_square)

definition big_debit :: string where
  "big_debit = ''10000000000000000000000000001''"

definition big_credit :: string where
  "big_credit = ''10000000000000000000000000000''"

definition big_lines :: "journal_line_proposal list" where
  "big_lines =
     [\<lparr>jl_line_number = 1, jl_account_role_code = ''receivable'',
       jl_debit_amount = Dec False 10000000000000000000000000001 0, jl_credit_amount = Dec False 0 0\<rparr>,
      \<lparr>jl_line_number = 2, jl_account_role_code = ''revenue'',
       jl_debit_amount = Dec False 0 0, jl_credit_amount = Dec False 10000000000000000000000000000 0\<rparr>]"

lemma big_amounts:
  "parse_amount (PStr big_debit) = Inr (Dec False 10000000000000000000000000001 0)"
  "parse_amount (PStr big_credit) = Inr (Dec False 10000000000000000000000000000 0)"
  "parse_amount (PStr ''0'') = Inr (Dec False 0 0)"
proof -
  have "decimal_pattern big_debit" "decimal_pattern big_credit" "decimal_pattern ''0''"
    by code_simp+
  moreover have "list_all is_digit big_debit" "list_all is_digit big_credit" "list_all is_digit ''0''"
    by code_simp+
  then have "decimal_of_text big_debit = Some (Fin (digits_dec big_debit []))"
    "decimal_of_text big_credit = Some (Fin (digits_dec big_credit []))"
    "decimal_of_text ''0'' = Some (Fin (digits_dec ''0'' []))"
    using decimal_of_text_digits [of _ "[]"] by (force simp: big_debit_def big_credit_def)+
  moreover have "digits_dec big_debit [] = Dec False 10000000000000000000000000001 0"
    "digits_dec big_credit [] = Dec False 10000000000000000000000000000 0" "digits_dec ''0'' [] = Dec False 0 0"
    by (simp_all add: digits_dec_def digits_value_def digit_value_def big_debit_def big_credit_def)
  ultimately
  show "parse_amount (PStr big_debit) = Inr (Dec False 10000000000000000000000000001 0)"
    "parse_amount (PStr big_credit) = Inr (Dec False 10000000000000000000000000000 0)"
    "parse_amount (PStr ''0'') = Inr (Dec False 0 0)"
    by (simp_all add: parse_amount_def)
qed

lemma big_totals:
  "dec_eq (dec_sum (map jl_debit_amount big_lines)) (dec_sum (map jl_credit_amount big_lines))"
proof -
  have "num_digits 10000000000000000000000000001 = 29" "num_digits 10000000000000000000000000000 = 29"
    "num_digits 1000000000000000000000000000 = 28" "num_digits 0 = 1"
    by (simp_all add: num_digits_def nat_text.simps)
  then show ?thesis
    by (simp add: big_lines_def dec_sum_def dec_zero_def dec_add_def scaled_def signed_coef_def Let_def
        dec_fix_def precision_def round_half_even_def dec_eq_def)
qed

text \<open>The balance check is not exact beyond 28 digits: two lines built from canonical amount texts,
  a debit of ten to the 28 plus one and a credit of ten to the 28, form a proposal that validates
  although its sides differ.\<close>

theorem unbalanced_proposal_accepted:
  "make_line_proposal 1 ''receivable'' (PStr big_debit) (PStr ''0'') = Inr (big_lines ! 0) \<and>
   make_line_proposal 2 ''revenue'' (PStr ''0'') (PStr big_credit) = Inr (big_lines ! 1) \<and>
   validate_proposal (sample_proposal\<lparr>jp_lines := big_lines\<rparr>) = Inr (sample_proposal\<lparr>jp_lines := big_lines\<rparr>) \<and>
   dval_sum (map jl_debit_amount big_lines) \<noteq> dval_sum (map jl_credit_amount big_lines)"
proof (intro conjI)
  show "make_line_proposal 1 ''receivable'' (PStr big_debit) (PStr ''0'') = Inr (big_lines ! 0)"
    "make_line_proposal 2 ''revenue'' (PStr ''0'') (PStr big_credit) = Inr (big_lines ! 1)"
    by (simp_all add: make_line_proposal_eq_Inr big_amounts sample_codes big_lines_def dec_positive_def)
  show "validate_proposal (sample_proposal\<lparr>jp_lines := big_lines\<rparr>) = Inr (sample_proposal\<lparr>jp_lines := big_lines\<rparr>)"
    using sample_proposal_patterns big_totals
    by (simp add: validate_proposal_eq_Inr proposal_debit_total_def proposal_credit_total_def flip: dec_eq_iff)
      (simp add: sample_proposal_def big_lines_def)
  show "dval_sum (map jl_debit_amount big_lines) \<noteq> dval_sum (map jl_credit_amount big_lines)"
    by (simp add: big_lines_def dval_def signed_coef_def)
qed

section \<open>Policy manifests\<close>

definition item_role :: "py_value \<Rightarrow> string" where
  "item_role item = (case as_mapping item of Some d \<Rightarrow> the (as_str (get_value d ''account_role_code'')) | None \<Rightarrow> [])"

definition item_account :: "py_value \<Rightarrow> string" where
  "item_account item = (case as_mapping item of Some d \<Rightarrow> the (as_str (get_value d ''chart_account_code'')) | None \<Rightarrow> [])"

lemma load_mapping_fold_items:
  assumes "fold_result load_mapping_item m items = Inr m'" and "dict_wf m"
  shows "m' = m @ map (\<lambda>i. (item_role i, item_account i)) items \<and> dict_wf m'"
  using assms
proof (induction items arbitrary: m)
  case Nil
  then show ?case by simp
next
  case (Cons item items)
  then obtain d role account where item: "item = PDict d" "get_value d ''account_role_code'' = PStr role"
    "get_value d ''chart_account_code'' = PStr account" "role \<notin> set (dict_keys m)"
    and rest: "fold_result load_mapping_item (m @ [(role, account)]) items = Inr m'"
    by (auto simp: bind_result_eq_Inr load_mapping_item_eq_Inr)
  have "m' = (m @ [(role, account)]) @ map (\<lambda>i. (item_role i, item_account i)) items \<and> dict_wf m'"
    using Cons.prems(2) item(4) by (intro Cons.IH [OF rest]) simp
  moreover have "item_role item = role" "item_account item = account"
    using item by (simp_all add: item_role_def item_account_def)
  ultimately have "m' = m @ map (\<lambda>i. (item_role i, item_account i)) (item # items)" and "dict_wf m'"
    by (simp, blast)
  then show ?case by blast
qed

text \<open>C16 A policy loads with exactly the manifest's role-to-account items in manifest order, and no role
  occurs twice: a later item cannot silently replace an earlier one.\<close>

theorem policy_mapping_faithful:
  assumes "load_accounting_policy m = Inr pol" and "get_value m ''account_mappings'' = PList items"
  shows "pol_chart_account_mapping pol = map (\<lambda>i. (item_role i, item_account i)) items \<and>
     distinct (map item_role items) \<and> items \<noteq> [] \<and> valid_policy pol"
proof -
  obtain mapping where l: "load_chart_account_mapping items = Inr mapping"
    and v: "validate_policy pol = Inr pol" "pol_chart_account_mapping pol = mapping"
    using assms by (auto simp: load_accounting_policy_def result_simps validate_policy_eq_Inr split: option.splits)
  have ne: "items \<noteq> []" and f: "fold_result load_mapping_item [] items = Inr mapping"
    using l by (auto simp: load_chart_account_mapping_def split: if_splits)
  have *: "mapping = [] @ map (\<lambda>i. (item_role i, item_account i)) items \<and> dict_wf mapping"
    by (rule load_mapping_fold_items [OF f]) simp
  have mapping: "mapping = map (\<lambda>i. (item_role i, item_account i)) items" using * by simp
  have wf: "dict_wf mapping" using * by blast
  have keys: "dict_keys mapping = map item_role items" by (simp add: mapping comp_def)
  have "distinct (map item_role items)" using wf by (simp only: keys)
  moreover have "valid_policy pol" using v wf by (simp only: valid_policy_def)
  ultimately show ?thesis using v ne mapping by simp
qed

definition sample_manifest :: payload where
  "sample_manifest =
    [(''tenant_reference'', PStr ''urn:cwl:platform:tenant:t1''),
     (''legal_entity_reference'', PStr ''urn:cwl:accounting:legal_entity:e1''),
     (''accounting_book_reference'', PStr ''urn:cwl:accounting:book:b1''),
     (''intended_book_role_code'', PStr ''primary''),
     (''transaction_currency'', PStr ''KRW''),
     (''functional_currency'', PStr ''KRW''),
     (''open_period_start'', PStr ''2026-01-01''),
     (''open_period_end'', PStr ''2026-01-31''),
     (''account_mappings'', PList
       [PDict [(''account_role_code'', PStr ''receivable''), (''chart_account_code'', PStr ''1100'')],
        PDict [(''account_role_code'', PStr ''revenue''), (''chart_account_code'', PStr ''4000'')]]),
     (''accounting_policy_version'', PStr ''policy-v1''),
     (''posting_rule_version'', PStr ''rule-v1'')]"

lemma load_sample_manifest: "load_accounting_policy sample_manifest = Inr sample_policy"
proof -
  have d: "date_fromisoformat ''2026-01-01'' = Some (Date 2026 1 1)" "date_fromisoformat ''2026-01-31'' = Some (Date 2026 1 31)"
    by code_simp+
  have v: "validate_policy sample_policy = Inr sample_policy"
    using sample_policy_valid by (simp add: valid_policy_def)
  show ?thesis
    by (simp add: load_accounting_policy_def sample_manifest_def get_value_def manifest_text_def d
        load_chart_account_mapping_def load_mapping_item_def)
      (use v in \<open>simp add: sample_policy_def\<close>)
qed

theorem policy_mapping_faithful_witness:
  "pol_chart_account_mapping sample_policy = [(''receivable'', ''1100''), (''revenue'', ''4000'')] \<and> valid_policy sample_policy"
  using policy_mapping_faithful [OF load_sample_manifest]
  by (simp add: sample_manifest_def get_value_def item_role_def item_account_def)

section \<open>Reversal commands\<close>

text \<open>C17 The identity of a reversal command: its hash is a canonical sha256 reference of a text that two
  commands share only when tenant, key, original journal, date and reason all agree.\<close>

theorem reversal_command_identity:
  assumes "valid_date d" and "valid_date d'"
  shows "reversal_command_hash t k j d r = sha256_reference (reversal_command_text t k j d r) \<and>
     hash_pattern (reversal_command_hash t k j d r) \<and>
     (reversal_command_text t k j d r = reversal_command_text t' k' j' d' r' \<longleftrightarrow>
        t = t' \<and> k = k' \<and> j = j' \<and> d = d' \<and> r = r')"
  using reversal_command_text_inject [OF assms] sha256_reference_pattern
  by (simp add: reversal_command_hash_def)

theorem reversal_command_identity_witness:
  "hash_pattern (reversal_command_hash ''t'' ''k'' ''j'' (Date 2026 1 20) ''r'') \<and>
   reversal_command_text ''t'' ''k'' ''j'' (Date 2026 1 20) ''r'' \<noteq> reversal_command_text ''t'' ''k'' ''j'' (Date 2026 1 21) ''r''"
proof -
  have "valid_date (Date 2026 1 20)" "valid_date (Date 2026 1 21)" by code_simp+
  then show ?thesis
    using reversal_command_identity [of "Date 2026 1 20" "Date 2026 1 21" "''t''" "''k''" "''j''" "''r''" "''t''" "''k''" "''j''" "''r''"]
    by auto
qed

end
