(* ===== verification/Ingest_Properties.thy ===== *)
theory Ingest_Properties
  imports Ingest Core_Properties
begin

text \<open>
  The contract of ingestion: what it admits, what it never admits, how it fails, and that it
  reads back every proposal the published document format can carry.
\<close>

section \<open>The published document of a proposal\<close>

definition line_document :: "journal_line_proposal \<Rightarrow> py_value" where
  "line_document l = PDict
     [(''line_number'', PInt (jl_line_number l)),
      (''account_role_code'', PStr (jl_account_role_code l)),
      (''debit_amount'', PStr (dec_text (jl_debit_amount l))),
      (''credit_amount'', PStr (dec_text (jl_credit_amount l)))]"

definition proposal_fields :: "string \<Rightarrow> string \<Rightarrow> journal_proposal \<Rightarrow> payload" where
  "proposal_fields status proposed_at p =
     [(''proposal_id'', PStr (jp_proposal_id p)),
      (''proposal_contract_version'', PInt (jp_contract_version p)),
      (''idempotency_key'', PStr (jp_idempotency_key p)),
      (''tenant_reference'', PStr (jp_tenant_reference p)),
      (''legal_entity_reference'', PStr (jp_legal_entity_reference p)),
      (''intended_book_role_code'', PStr (jp_book_role_code p)),
      (''transaction_currency'', PStr (jp_transaction_currency p)),
      (''transaction_date'', PStr (date_isoformat (jp_transaction_date p))),
      (''accounting_date'', PStr (date_isoformat (jp_accounting_date p))),
      (''source_payload_hash'', PStr (jp_source_payload_hash p)),
      (''proposed_at'', PStr proposed_at),
      (''proposal_status'', PStr status),
      (''source_event_references'', PList (map PStr (jp_source_event_references p))),
      (''lines'', PList (map line_document (jp_lines p)))]"

definition proposal_document :: "string \<Rightarrow> string \<Rightarrow> journal_proposal \<Rightarrow> py_value" where
  "proposal_document status proposed_at p = PDict (proposal_fields status proposed_at p)"

lemma proposal_fields_get:
  "get_value (proposal_fields status proposed_at p) ''proposal_id'' = PStr (jp_proposal_id p)"
  "get_value (proposal_fields status proposed_at p) ''proposal_contract_version'' = PInt (jp_contract_version p)"
  "get_value (proposal_fields status proposed_at p) ''idempotency_key'' = PStr (jp_idempotency_key p)"
  "get_value (proposal_fields status proposed_at p) ''tenant_reference'' = PStr (jp_tenant_reference p)"
  "get_value (proposal_fields status proposed_at p) ''legal_entity_reference'' = PStr (jp_legal_entity_reference p)"
  "get_value (proposal_fields status proposed_at p) ''intended_book_role_code'' = PStr (jp_book_role_code p)"
  "get_value (proposal_fields status proposed_at p) ''transaction_currency'' = PStr (jp_transaction_currency p)"
  "get_value (proposal_fields status proposed_at p) ''transaction_date'' = PStr (date_isoformat (jp_transaction_date p))"
  "get_value (proposal_fields status proposed_at p) ''accounting_date'' = PStr (date_isoformat (jp_accounting_date p))"
  "get_value (proposal_fields status proposed_at p) ''source_payload_hash'' = PStr (jp_source_payload_hash p)"
  "get_value (proposal_fields status proposed_at p) ''proposed_at'' = PStr proposed_at"
  "get_value (proposal_fields status proposed_at p) ''proposal_status'' = PStr status"
  "get_value (proposal_fields status proposed_at p) ''source_event_references'' = PList (map PStr (jp_source_event_references p))"
  "get_value (proposal_fields status proposed_at p) ''lines'' = PList (map line_document (jp_lines p))"
  "get_value (proposal_fields status proposed_at p) ''journal_proposal_outcome_code'' = PNone"
  by (simp_all add: proposal_fields_def get_value_def)

lemma proposal_fields_has:
  "has_key (proposal_fields status proposed_at p) f \<longleftrightarrow> f \<in> set required_contract_fields"
proof -
  have "dict_keys (proposal_fields status proposed_at p) = required_contract_fields"
    by (simp add: proposal_fields_def required_contract_fields_def)
  then show ?thesis by (simp only: has_key_def)
qed

text \<open>Zero is written \<open>0\<close>, and the closing account is not the billing product's to use.\<close>

definition publishable_line :: "journal_line_proposal \<Rightarrow> bool" where
  "publishable_line l \<longleftrightarrow> jl_account_role_code l \<noteq> ''retained_earnings'' \<and>
     (dval (jl_debit_amount l) = 0 \<longrightarrow> jl_debit_amount l = dec_zero) \<and>
     (dval (jl_credit_amount l) = 0 \<longrightarrow> jl_credit_amount l = dec_zero)"

definition publishable :: "journal_proposal \<Rightarrow> bool" where
  "publishable p \<longleftrightarrow> valid_proposal p \<and> valid_date (jp_transaction_date p) \<and> list_all publishable_line (jp_lines p)"

lemma patterns_nonempty [simp]:
  "\<not> code_pattern []" "\<not> currency_pattern []" "\<not> hash_pattern []" "\<not> reference_pattern []" "\<not> proposal_id_pattern []"
  by (simp_all add: code_pattern_def currency_pattern_def hash_pattern_def reference_pattern_def
      proposal_id_pattern_def starts_with_def)

lemma amount_text_ok:
  assumes "amount_ok d" and "dval d = 0 \<longrightarrow> d = dec_zero"
  shows "parse_amount (PStr (dec_text d)) = Inr d" and "require_amount_string (PStr (dec_text d)) f = Inr (dec_text d)"
    and "dec_text d \<noteq> []"
proof -
  have d: "decimal_pattern (dec_text d)" "decimal_of_text (dec_text d) = Some (Fin d)"
    using amount_text_roundtrip [of d] assms(1) by (simp_all add: amount_ok_def)
  have z: "dec_text dec_zero = ''0''"
    by (simp add: dec_zero_def dec_digits_at_def nat_text.simps [of 0] digit_char_zero Let_def)
  show "parse_amount (PStr (dec_text d)) = Inr d" using d by (simp add: parse_amount_def)
  show "require_amount_string (PStr (dec_text d)) f = Inr (dec_text d)"
  proof -
    have "dval d = 0 \<Longrightarrow> dec_text d = ''0''" using assms(2) z by metis
    then show ?thesis using d by (simp add: dec_eq_iff)
  qed
  show "dec_text d \<noteq> []" using d(1) by (auto simp: decimal_pattern_def)
qed

lemma line_document_reads:
  assumes "line_ok l" and "publishable_line l"
  shows "journal_line_from_contract (line_document l) = Inr l"
proof -
  have d: "amount_ok (jl_debit_amount l)" "dval (jl_debit_amount l) = 0 \<longrightarrow> jl_debit_amount l = dec_zero"
    and c: "amount_ok (jl_credit_amount l)" "dval (jl_credit_amount l) = 0 \<longrightarrow> jl_credit_amount l = dec_zero"
    using assms by (simp_all add: line_ok_def publishable_line_def)
  have side: "dec_positive (jl_debit_amount l) \<noteq> dec_positive (jl_credit_amount l)"
    using assms(1) amount_not_positive [OF c(1)] by (simp add: line_ok_def dec_positive_iff)
  have role: "jl_account_role_code l \<noteq> []" "code_pattern (jl_account_role_code l)"
    using assms(1) by (auto simp: line_ok_def)
  show ?thesis
    using assms role side amount_text_ok [OF d] amount_text_ok [OF c]
    unfolding journal_line_from_contract_eq_Inr make_line_proposal_eq_Inr
    by (simp add: line_document_def check_required_field_def required_line_fields_def has_key_def get_value_def
        none_or_empty_def line_ok_def publishable_line_def)
qed

lemma publishable_document_reads:
  assumes "publishable p" and "status \<in> {''validated'', ''exported''}" and "proposed_at \<noteq> []"
  shows "journal_proposal_from_contract (proposal_fields status proposed_at p) = Inr p"
proof -
  have v: "validate_proposal p = Inr p" and l: "list_all line_ok (jp_lines p)" "list_all publishable_line (jp_lines p)"
    and d: "valid_date (jp_accounting_date p)" "valid_date (jp_transaction_date p)"
    using assms(1) by (simp_all add: publishable_def valid_proposal_def)
  have ne: "jp_proposal_id p \<noteq> []" "jp_idempotency_key p \<noteq> []" "jp_tenant_reference p \<noteq> []"
    "jp_legal_entity_reference p \<noteq> []" "jp_book_role_code p \<noteq> []" "jp_transaction_currency p \<noteq> []"
    "jp_source_payload_hash p \<noteq> []"
    using v by (auto simp: validate_proposal_eq_Inr)
  have dates: "date_fromisoformat (date_isoformat (jp_accounting_date p)) = Some (jp_accounting_date p)"
    "date_fromisoformat (date_isoformat (jp_transaction_date p)) = Some (jp_transaction_date p)"
    using d date_isoformat_roundtrip by blast+
  have dne: "date_isoformat x \<noteq> []" for x
    by (simp add: date_isoformat_def)
  have lines: "map_result journal_line_from_contract (map line_document (jp_lines p)) = Inr (jp_lines p)"
    using l line_document_reads
    by (simp add: map_result_eq_Inr_list_all2 list_all2_conv_all_nth list_all_length)
  let ?q = "proposal_fields status proposed_at p"
  have "status \<noteq> []" using assms(2) by auto
  then have "\<forall>f\<in>set required_contract_fields. \<not> none_or_empty (get_value ?q f)"
    using ne dne assms(3) by (simp add: required_contract_fields_def proposal_fields_get none_or_empty_def)
  then have keys: "check_all (check_required_field ?q) required_contract_fields = Inr ()"
    by (simp add: check_all_eq_Inr check_required_field_def require_eq_Inr proposal_fields_has)
  have "p = contract_proposal ?q (jp_contract_version p) (jp_transaction_date p) (jp_accounting_date p)
      (map PStr (jp_source_event_references p)) (jp_lines p)"
    by (simp add: contract_proposal_def proposal_fields_get comp_def)
  then show ?thesis
    unfolding contract_eq_Inr proposal_fields_get using keys v dates lines by blast
qed

text \<open>C19 Reading back: every publishable proposal, written as the published document with status
  validated or exported, is ingested as exactly that proposal.\<close>

theorem ingest_reads_document:
  assumes "publishable p" and "status \<in> {''validated'', ''exported''}" and "proposed_at \<noteq> []"
  shows "ingest_journal_proposal (proposal_document status proposed_at p) = Inr p"
  using assms(2) publishable_document_reads [OF assms]
  by (simp add: proposal_document_def ingest_eq_Inr proposal_fields_get proposal_fields_has required_contract_fields_def)

lemma sample_publishable: "publishable sample_proposal"
proof -
  have "valid_date (jp_transaction_date sample_proposal)" by code_simp
  moreover have "list_all publishable_line (jp_lines sample_proposal)"
    by (simp add: publishable_line_def sample_proposal_def dec_zero_def)
  ultimately show ?thesis by (simp add: publishable_def sample_proposal_valid)
qed

theorem ingest_reads_document_witness:
  "ingest_journal_proposal (proposal_document ''validated'' ''2026-01-10T00:00:00Z'' sample_proposal) = Inr sample_proposal"
  by (rule ingest_reads_document [OF sample_publishable]) simp_all

lemma sample_document_ingests:
  "journal_proposal_from_contract (proposal_fields ''validated'' ''2026-01-10T00:00:00Z'' sample_proposal) = Inr sample_proposal"
  using publishable_document_reads [OF sample_publishable] by simp

section \<open>What ingestion admits\<close>

text \<open>C18 Nothing invalid passes: an ingested proposal comes from an object with status validated or
  exported that is no reject row, satisfies every check of the posting core, and uses the
  retained-earnings role on no line.\<close>

theorem ingest_admits_only_valid:
  assumes "ingest_journal_proposal v = Inr q"
  shows "valid_proposal q \<and> list_all (\<lambda>l. jl_account_role_code l \<noteq> ''retained_earnings'') (jp_lines q) \<and>
     (\<exists>p. v = PDict p \<and> \<not> has_key p ''rejection_reason_code'' \<and>
        py_str (get_value p ''proposal_status'') \<in> {''validated'', ''exported''} \<and>
        py_str (get_value p ''idempotency_key'') = jp_idempotency_key q \<and>
        py_str (get_value p ''source_payload_hash'') = jp_source_payload_hash q)"
proof -
  obtain p where p: "v = PDict p" "\<not> has_key p ''rejection_reason_code''"
    "py_str (get_value p ''proposal_status'') \<in> {''validated'', ''exported''}"
    and c: "journal_proposal_from_contract p = Inr q"
    using assms unfolding ingest_eq_Inr by blast
  have "py_str (get_value p ''idempotency_key'') = jp_idempotency_key q"
    "py_str (get_value p ''source_payload_hash'') = jp_source_payload_hash q"
    using c unfolding contract_eq_Inr by (auto simp: contract_proposal_def)
  then show ?thesis
    using p contract_ok [OF c] by (auto simp: valid_proposal_def list_all_iff)
qed

theorem ingest_admits_only_valid_witness:
  "valid_proposal sample_proposal \<and> list_all (\<lambda>l. jl_account_role_code l \<noteq> ''retained_earnings'') (jp_lines sample_proposal)"
  using ingest_admits_only_valid [of "proposal_document ''validated'' ''2026-01-10T00:00:00Z'' sample_proposal" sample_proposal]
  by (simp add: proposal_document_def ingest_eq_Inr proposal_fields_get proposal_fields_has required_contract_fields_def
      sample_document_ingests)

section \<open>How ingestion fails\<close>

definition signalling_amount :: "py_value \<Rightarrow> bool" where
  "signalling_amount line \<longleftrightarrow>
     (\<exists>d f s sg n. line = PDict d \<and> f \<in> {''debit_amount'', ''credit_amount''} \<and> get_value d f = PStr s \<and>
        decimal_of_text s = Some (NaN sg True n))"

lemma check_required_error:
  "check_all (check_required_field d) fs = Inl e \<Longrightarrow> is_validation_error e"
  by (induction fs) (auto simp: bind_result_eq_Inl check_required_field_def require_eq_Inl)

lemma require_amount_string_error:
  "require_amount_string v f = Inl e \<Longrightarrow>
     is_validation_error e \<or> (e = InvalidOperation \<and> (\<exists>s sg n. v = PStr s \<and> decimal_of_text s = Some (NaN sg True n)))"
  by (cases "(v, f)" rule: require_amount_string.cases) (auto split: option.splits py_decimal.splits if_splits)

lemma require_contract_int_error: "require_contract_int v f = Inl e \<Longrightarrow> is_validation_error e"
  by (cases "(v, f)" rule: require_contract_int.cases) auto

lemma require_iso_date_error: "require_iso_date v f = Inl e \<Longrightarrow> is_validation_error e"
  by (cases "(v, f)" rule: require_iso_date.cases) (auto split: option.splits)

lemma make_line_proposal_error: "make_line_proposal n role d c = Inl e \<Longrightarrow> is_validation_error e"
  by (auto simp: make_line_proposal_def bind_result_eq_Inl require_code_def require_eq_Inl parse_amount_def Let_def
      split: if_splits option.splits py_decimal.splits)

lemma line_error:
  "journal_line_from_contract v = Inl e \<Longrightarrow> is_validation_error e \<or> (e = InvalidOperation \<and> signalling_amount v)"
  unfolding journal_line_from_contract_def signalling_amount_def Let_def
  by (auto simp: bind_result_eq_Inl dest!: check_required_error require_contract_int_error require_amount_string_error
      make_line_proposal_error split: option.splits if_splits)

lemma lines_error:
  "map_result journal_line_from_contract ls = Inl e \<Longrightarrow>
     is_validation_error e \<or> (e = InvalidOperation \<and> (\<exists>l\<in>set ls. signalling_amount l))"
  by (induction ls) (auto simp: bind_result_eq_Inl dest: line_error)

lemma validate_proposal_error: "validate_proposal q = Inl e \<Longrightarrow> is_validation_error e"
proof -
  have refs: "check_all (\<lambda>r. require_reference r m) rs = Inl e' \<Longrightarrow> is_validation_error e'" for m rs e'
    by (induction rs) (auto simp: bind_result_eq_Inl require_reference_def require_eq_Inl)
  show "validate_proposal q = Inl e \<Longrightarrow> is_validation_error e"
    unfolding validate_proposal_def bind_result_eq_Inl validator_defs require_eq_Inl
    using refs by (auto simp: require_reference_def)
qed


definition signalling_document :: py_value where
  "signalling_document =
     PDict (dict_set ''lines''
       (PList [PDict [(''line_number'', PInt 1), (''account_role_code'', PStr ''revenue''),
                      (''debit_amount'', PStr ''sNaN''), (''credit_amount'', PStr ''1'')]])
       (proposal_fields ''validated'' ''2026-01-10T00:00:00Z'' sample_proposal))"

lemma signalling_document_fails:
  "ingest_journal_proposal signalling_document = Inl InvalidOperation"
proof -
  let ?q = "proposal_fields ''validated'' ''2026-01-10T00:00:00Z'' sample_proposal"
  let ?line = "[(''line_number'', PInt 1), (''account_role_code'', PStr ''revenue''),
                (''debit_amount'', PStr ''sNaN''), (''credit_amount'', PStr ''1'')]"
  let ?d = "dict_set ''lines'' (PList [PDict ?line]) ?q"
  have nan: "decimal_of_text ''sNaN'' = Some (NaN False True 0)" by code_simp
  have line: "journal_line_from_contract (PDict ?line) = Inl InvalidOperation"
    by (simp add: journal_line_from_contract_def required_line_fields_def check_required_field_def has_key_def
        get_value_def none_or_empty_def nan)
  have get: "get_value ?d f = (if f = ''lines'' then PList [PDict ?line] else get_value ?q f)" for f
    by (simp add: get_value_def)
  have has: "has_key ?d f \<longleftrightarrow> f \<in> set required_contract_fields" for f
  proof -
    have "set (dict_keys ?d) = insert ''lines'' (set (dict_keys ?q))" unfolding dict_keys_set by auto
    then have "has_key ?d f \<longleftrightarrow> f = ''lines'' \<or> has_key ?q f" by (simp only: has_key_def) blast
    then show ?thesis by (auto simp: proposal_fields_has required_contract_fields_def)
  qed
  obtain version td ad references where
    q: "get_value ?q ''proposal_contract_version'' = PInt version"
      "require_iso_date (get_value ?q ''transaction_date'') ''transaction_date'' = Inr td"
      "require_iso_date (get_value ?q ''accounting_date'') ''accounting_date'' = Inr ad"
      "get_value ?q ''source_event_references'' = PList references"
    and keys: "\<forall>f\<in>set required_contract_fields. \<not> none_or_empty (get_value ?q f)"
    using sample_document_ingests
    by (auto simp: contract_eq_Inr check_all_eq_Inr check_required_field_def require_eq_Inr)
  have "check_all (check_required_field ?d) required_contract_fields = Inr ()"
    using keys by (auto simp: check_all_eq_Inr check_required_field_def require_eq_Inr has get none_or_empty_def)
  then have "journal_proposal_from_contract ?d = Inl InvalidOperation"
    by (simp add: journal_proposal_from_contract_def get q line)
  moreover have "py_str (get_value ?d ''proposal_status'') = ''validated''"
    "get_value ?d ''journal_proposal_outcome_code'' = PNone" "\<not> has_key ?d ''rejection_reason_code''" "has_key ?d ''proposal_status''"
    by (simp_all add: get has proposal_fields_get required_contract_fields_def)
  ultimately show ?thesis
    by (simp add: signalling_document_def ingest_journal_proposal_def published_proposal_status_def)
qed


text \<open>The exception does occur: a published document whose only defect is the debit amount text
  \<open>sNaN\<close> makes ingestion raise \<open>InvalidOperation\<close>, not a validation error.\<close>

theorem signalling_nan_escapes: "ingest_journal_proposal signalling_document = Inl InvalidOperation"
  by (rule signalling_document_fails)

end
