(* ===== verification/Reconciliation.thy ===== *)
theory Reconciliation
  imports Core "HOL-Library.Multiset"
begin

text \<open>
  \<open>reconciliation.py\<close>: evidence about bank-statement entries and posted journals, and the
  deterministic proposal of at most one match or an explicit abstention. Constructors are
  functions that raise \<open>ValueError\<close>; the money argument is a dynamically typed value, because
  the constructor tests its type.
\<close>

section \<open>Evidence\<close>

definition msg_direction_code :: string where
  "msg_direction_code =
     ''credit_debit_code must be CRDT or DBIT. Normalize the source movement direction before reconciliation.''"

definition msg_positive_amount :: string where
  "msg_positive_amount =
     ''amount must be a positive exact Decimal. Supply a finite Decimal greater than zero before reconciliation.''"

definition msg_date_window :: string where
  "msg_date_window =
     ''date_window_days must be a non-negative integer. Supply zero or a whole number of days before reconciliation.''"

definition require_credit_debit_code :: "string \<Rightarrow> unit result" where
  "require_credit_debit_code value = require (value \<in> {''CRDT'', ''DBIT''}) (ValueError msg_direction_code)"

definition require_positive_exact_decimal :: "py_value \<Rightarrow> dec result" where
  "require_positive_exact_decimal value =
     (case as_finite_decimal value of
        Some d \<Rightarrow> if dec_positive d then Inr d else Inl (ValueError msg_positive_amount)
      | None \<Rightarrow> Inl (ValueError msg_positive_amount))"

record statement_entry_evidence =
  se_reference :: string
  se_provider_reference :: "string option"
  se_end_to_end_reference :: "string option"
  se_account_servicer_reference :: "string option"
  se_amount :: dec
  se_currency_code :: string
  se_credit_debit_code :: string
  se_booking_date :: date
  se_value_date :: date

definition make_statement_entry ::
    "string \<Rightarrow> string option \<Rightarrow> string option \<Rightarrow> string option \<Rightarrow> py_value \<Rightarrow> string \<Rightarrow> string \<Rightarrow>
       date \<Rightarrow> date \<Rightarrow> statement_entry_evidence result" where
  "make_statement_entry ref provider end_to_end servicer amount currency direction booked valued =
     bind_result (require_positive_exact_decimal amount) (\<lambda>d.
     bind_result (require_credit_debit_code direction) (\<lambda>_.
       Inr \<lparr>se_reference = ref, se_provider_reference = provider, se_end_to_end_reference = end_to_end,
            se_account_servicer_reference = servicer, se_amount = d, se_currency_code = currency,
            se_credit_debit_code = direction, se_booking_date = booked, se_value_date = valued\<rparr>))"

record book_journal_evidence =
  bj_journal_reference :: string
  bj_provider_reference :: "string option"
  bj_end_to_end_reference :: "string option"
  bj_account_servicer_reference :: "string option"
  bj_amount :: dec
  bj_currency_code :: string
  bj_credit_debit_code :: string
  bj_accounting_date :: date

definition make_book_journal ::
    "string \<Rightarrow> string option \<Rightarrow> string option \<Rightarrow> string option \<Rightarrow> py_value \<Rightarrow> string \<Rightarrow> string \<Rightarrow>
       date \<Rightarrow> book_journal_evidence result" where
  "make_book_journal ref provider end_to_end servicer amount currency direction accounted =
     bind_result (require_positive_exact_decimal amount) (\<lambda>d.
     bind_result (require_credit_debit_code direction) (\<lambda>_.
       Inr \<lparr>bj_journal_reference = ref, bj_provider_reference = provider, bj_end_to_end_reference = end_to_end,
            bj_account_servicer_reference = servicer, bj_amount = d, bj_currency_code = currency,
            bj_credit_debit_code = direction, bj_accounting_date = accounted\<rparr>))"

text \<open>\<open>bool\<close> is a subclass of \<open>int\<close> and is excluded by name.\<close>

fun make_match_policy :: "py_value \<Rightarrow> nat result" where
  "make_match_policy (PInt i) = (if i < 0 then Inl (ValueError msg_date_window) else Inr (nat i))"
| "make_match_policy v = Inl (ValueError msg_date_window)"

section \<open>Decisions\<close>

definition msg_match_one_journal :: string where
  "msg_match_one_journal =
     ''match decision must reference exactly one journal. Rebuild the deterministic proposal from source evidence.''"

definition msg_match_amount :: string where
  "msg_match_amount =
     ''match decision allocated_amount must be a positive exact Decimal. Rebuild the deterministic proposal from source evidence.''"

definition msg_match_exception :: string where
  "msg_match_exception =
     ''match decision cannot carry an exception_code. Rebuild the deterministic proposal from source evidence.''"

definition msg_abstain_journal :: string where
  "msg_abstain_journal =
     ''abstain decision cannot reference a matched journal. Review unmatched evidence and record an explicit exception.''"

definition msg_abstain_amount :: string where
  "msg_abstain_amount =
     ''abstain decision allocated_amount must be exactly zero Decimal. Review unmatched evidence and record an explicit exception.''"

definition msg_abstain_exception :: string where
  "msg_abstain_exception =
     ''abstain decision requires an exception_code. Review unmatched evidence and record an explicit exception.''"

definition msg_decision_code :: string where
  "msg_decision_code =
     ''decision_code must be match or abstain. Rebuild the reconciliation decision from deterministic source evidence.''"

record reconciliation_decision =
  rd_statement_entry_reference :: string
  rd_decision_code :: string
  rd_rule_code :: "string option"
  rd_matched_journal_references :: "string list"
  rd_allocated_amount :: dec
  rd_exception_code :: "string option"
  rd_next_action :: string

definition make_decision ::
    "string \<Rightarrow> string \<Rightarrow> string option \<Rightarrow> string list \<Rightarrow> py_value \<Rightarrow> py_value \<Rightarrow> string \<Rightarrow>
       reconciliation_decision result" where
  "make_decision ref kind rule matched amount exception action =
     (let built = (\<lambda>d e. \<lparr>rd_statement_entry_reference = ref, rd_decision_code = kind, rd_rule_code = rule,
                         rd_matched_journal_references = matched, rd_allocated_amount = d,
                         rd_exception_code = e, rd_next_action = action\<rparr>) in
      if kind = ''match'' then
        (if length matched \<noteq> 1 then Inl (ValueError msg_match_one_journal)
         else case require_positive_exact_decimal amount of
                Inl e \<Rightarrow> Inl (ValueError msg_match_amount)
              | Inr d \<Rightarrow> if exception \<noteq> PNone then Inl (ValueError msg_match_exception) else Inr (built d None))
      else if kind = ''abstain'' then
        (if matched \<noteq> [] then Inl (ValueError msg_abstain_journal)
         else case as_finite_decimal amount of
                None \<Rightarrow> Inl (ValueError msg_abstain_amount)
              | Some d \<Rightarrow>
                  if \<not> dec_eq d dec_zero then Inl (ValueError msg_abstain_amount)
                  else case as_str exception of
                         None \<Rightarrow> Inl (ValueError msg_abstain_exception)
                       | Some e \<Rightarrow> if strip e = [] then Inl (ValueError msg_abstain_exception)
                                   else Inr (built d (Some e)))
      else Inl (ValueError msg_decision_code))"

section \<open>Matching\<close>

datatype strong_field = Provider | End_To_End | Account_Servicer

fun rule_code :: "strong_field \<Rightarrow> string" where
  "rule_code Provider = ''provider_reference''"
| "rule_code End_To_End = ''end_to_end_reference''"
| "rule_code Account_Servicer = ''account_servicer_reference''"

fun entry_reference :: "strong_field \<Rightarrow> statement_entry_evidence \<Rightarrow> string option" where
  "entry_reference Provider s = se_provider_reference s"
| "entry_reference End_To_End s = se_end_to_end_reference s"
| "entry_reference Account_Servicer s = se_account_servicer_reference s"

fun journal_reference :: "strong_field \<Rightarrow> book_journal_evidence \<Rightarrow> string option" where
  "journal_reference Provider c = bj_provider_reference c"
| "journal_reference End_To_End c = bj_end_to_end_reference c"
| "journal_reference Account_Servicer c = bj_account_servicer_reference c"

definition strong_reference_rules :: "strong_field list" where
  "strong_reference_rules = [Provider, End_To_End, Account_Servicer]"

fun first_strong :: "strong_field list \<Rightarrow> statement_entry_evidence \<Rightarrow> (strong_field \<times> string) option" where
  "first_strong [] s = None"
| "first_strong (f # fs) s =
     (case entry_reference f s of
        Some v \<Rightarrow> if v \<noteq> [] then Some (f, v) else first_strong fs s
      | None \<Rightarrow> first_strong fs s)"

definition strong_reference :: "statement_entry_evidence \<Rightarrow> (strong_field \<times> string) option" where
  "strong_reference s = first_strong strong_reference_rules s"

definition msg_direction_action :: string where
  "msg_direction_action =
     ''Verify whether the bank movement is a credit or debit before recording a reconciliation decision.''"

definition msg_no_candidate_action :: string where
  "msg_no_candidate_action =
     ''Review unmatched statement evidence and create an authorized exception or adjusting-journal proposal if required.''"

definition msg_ambiguous_action :: string where
  "msg_ambiguous_action =
     ''Review the competing book candidates and record an explicit reconciliation decision.''"

definition msg_currency_action :: string where
  "msg_currency_action =
     ''Verify the statement and book currencies before recording a reconciliation decision.''"

definition msg_amount_action :: string where
  "msg_amount_action =
     ''Verify the exact statement and journal amounts before recording a reconciliation decision.''"

definition msg_window_action :: string where
  "msg_window_action =
     ''Review the statement and journal dates or document an explicit reconciliation exception.''"

definition msg_match_action :: string where
  "msg_match_action =
     ''Review and record this deterministic reconciliation proposal; do not post a journal from it.''"

definition abstain :: "statement_entry_evidence \<Rightarrow> string \<Rightarrow> string \<Rightarrow> reconciliation_decision result" where
  "abstain s exception action =
     make_decision (se_reference s) ''abstain'' None [] (PDecimal (Fin dec_zero)) (PStr exception) action"

definition matching :: "statement_entry_evidence \<Rightarrow> book_journal_evidence \<Rightarrow> string \<Rightarrow> reconciliation_decision result" where
  "matching s c rule =
     make_decision (se_reference s) ''match'' (Some rule) [bj_journal_reference c] (PDecimal (Fin (se_amount s)))
       PNone msg_match_action"

definition strong_match ::
    "statement_entry_evidence \<Rightarrow> book_journal_evidence list \<Rightarrow> strong_field \<Rightarrow> string \<Rightarrow> reconciliation_decision result" where
  "strong_match s candidates f v =
     (case filter (\<lambda>c. journal_reference f c = Some v) candidates of
        [] \<Rightarrow> abstain s ''no_candidate'' msg_no_candidate_action
      | [c] \<Rightarrow>
          if bj_currency_code c \<noteq> se_currency_code s then abstain s ''currency_mismatch'' msg_currency_action
          else if \<not> dec_eq (bj_amount c) (se_amount s) then abstain s ''amount_mismatch'' msg_amount_action
          else if bj_credit_debit_code c \<noteq> se_credit_debit_code s
          then abstain s ''direction_mismatch'' msg_direction_action
          else matching s c (rule_code f)
      | _ \<Rightarrow> abstain s ''ambiguous_reference'' msg_ambiguous_action)"

definition exact_money :: "statement_entry_evidence \<Rightarrow> book_journal_evidence \<Rightarrow> bool" where
  "exact_money s c \<longleftrightarrow> bj_currency_code c = se_currency_code s \<and> dec_eq (bj_amount c) (se_amount s)"

definition same_direction :: "statement_entry_evidence \<Rightarrow> book_journal_evidence \<Rightarrow> bool" where
  "same_direction s c \<longleftrightarrow> bj_credit_debit_code c = se_credit_debit_code s"

definition in_window :: "nat \<Rightarrow> statement_entry_evidence \<Rightarrow> book_journal_evidence \<Rightarrow> bool" where
  "in_window window s c \<longleftrightarrow> \<bar>days_between (bj_accounting_date c) (se_booking_date s)\<bar> \<le> int window"

definition weak_match ::
    "statement_entry_evidence \<Rightarrow> book_journal_evidence list \<Rightarrow> nat \<Rightarrow> reconciliation_decision result" where
  "weak_match s candidates window =
     (let money = filter (exact_money s) candidates;
          direction = filter (same_direction s) money;
          windowed = filter (in_window window s) direction
      in case windowed of
           [c] \<Rightarrow> matching s c ''exact_money_bounded_date''
         | _ # _ # _ \<Rightarrow> abstain s ''ambiguous_reference'' msg_ambiguous_action
         | [] \<Rightarrow>
             if direction \<noteq> [] then abstain s ''date_window_mismatch'' msg_window_action
             else if money \<noteq> [] then abstain s ''direction_mismatch'' msg_direction_action
             else abstain s ''no_candidate'' msg_no_candidate_action)"

definition propose_deterministic_match ::
    "statement_entry_evidence \<Rightarrow> book_journal_evidence list \<Rightarrow> nat \<Rightarrow> reconciliation_decision result" where
  "propose_deterministic_match s candidates window =
     (case strong_reference s of
        Some (f, v) \<Rightarrow> strong_match s candidates f v
      | None \<Rightarrow> weak_match s candidates window)"

section \<open>What a proposal means\<close>

definition entry_ok :: "statement_entry_evidence \<Rightarrow> bool" where
  "entry_ok s \<longleftrightarrow> dec_positive (se_amount s) \<and> se_credit_debit_code s \<in> {''CRDT'', ''DBIT''}"

lemma make_statement_entry_ok: "make_statement_entry r p e a m c d b v = Inr s \<Longrightarrow> entry_ok s"
  by (auto simp: make_statement_entry_def require_positive_exact_decimal_def require_credit_debit_code_def
      entry_ok_def result_simps split: option.splits if_splits)

definition match_decision :: "statement_entry_evidence \<Rightarrow> book_journal_evidence \<Rightarrow> string \<Rightarrow> reconciliation_decision" where
  "match_decision s c rule =
     \<lparr>rd_statement_entry_reference = se_reference s, rd_decision_code = ''match'', rd_rule_code = Some rule,
      rd_matched_journal_references = [bj_journal_reference c], rd_allocated_amount = se_amount s,
      rd_exception_code = None, rd_next_action = msg_match_action\<rparr>"

definition abstain_decision :: "statement_entry_evidence \<Rightarrow> string \<Rightarrow> string \<Rightarrow> reconciliation_decision" where
  "abstain_decision s exception action =
     \<lparr>rd_statement_entry_reference = se_reference s, rd_decision_code = ''abstain'', rd_rule_code = None,
      rd_matched_journal_references = [], rd_allocated_amount = dec_zero,
      rd_exception_code = Some exception, rd_next_action = action\<rparr>"

lemma matching_Inr [simp]: "entry_ok s \<Longrightarrow> matching s c rule = Inr (match_decision s c rule)"
  by (simp add: matching_def make_decision_def match_decision_def require_positive_exact_decimal_def entry_ok_def)

lemma abstain_Inr [simp]: "strip exception \<noteq> [] \<Longrightarrow> abstain s exception action = Inr (abstain_decision s exception action)"
  by (simp add: abstain_def make_decision_def abstain_decision_def dec_eq_iff)

lemma exception_codes [simp]:
  "strip ''no_candidate'' \<noteq> []" "strip ''currency_mismatch'' \<noteq> []" "strip ''amount_mismatch'' \<noteq> []"
  "strip ''direction_mismatch'' \<noteq> []" "strip ''ambiguous_reference'' \<noteq> []" "strip ''date_window_mismatch'' \<noteq> []"
  by code_simp+

text \<open>The journals the rule in force considers, and whether one of them may be matched.\<close>

definition considered :: "statement_entry_evidence \<Rightarrow> nat \<Rightarrow> book_journal_evidence \<Rightarrow> bool" where
  "considered s window c \<longleftrightarrow>
     (case strong_reference s of
        Some (f, v) \<Rightarrow> journal_reference f c = Some v
      | None \<Rightarrow> exact_money s c \<and> same_direction s c \<and> in_window window s c)"

definition agrees :: "statement_entry_evidence \<Rightarrow> book_journal_evidence \<Rightarrow> bool" where
  "agrees s c \<longleftrightarrow> exact_money s c \<and> same_direction s c"

definition rule_in_force :: "statement_entry_evidence \<Rightarrow> string" where
  "rule_in_force s = (case strong_reference s of Some (f, v) \<Rightarrow> rule_code f | None \<Rightarrow> ''exact_money_bounded_date'')"

lemma decisions_differ [simp]:
  "match_decision s c rule \<noteq> abstain_decision s' e a" "abstain_decision s' e a \<noteq> match_decision s c rule"
  by (simp_all add: match_decision_def abstain_decision_def)

lemma strong_match_cases:
  assumes "entry_ok s"
  shows "strong_match s cs f v =
     (case filter (\<lambda>c. journal_reference f c = Some v) cs of
        [] \<Rightarrow> Inr (abstain_decision s ''no_candidate'' msg_no_candidate_action)
      | [c] \<Rightarrow>
          Inr (if bj_currency_code c \<noteq> se_currency_code s then abstain_decision s ''currency_mismatch'' msg_currency_action
               else if \<not> dec_eq (bj_amount c) (se_amount s) then abstain_decision s ''amount_mismatch'' msg_amount_action
               else if \<not> same_direction s c then abstain_decision s ''direction_mismatch'' msg_direction_action
               else match_decision s c (rule_code f))
      | _ \<Rightarrow> Inr (abstain_decision s ''ambiguous_reference'' msg_ambiguous_action))"
  using assms by (simp add: strong_match_def same_direction_def split: list.splits)

lemma weak_match_cases:
  assumes "entry_ok s"
  shows "weak_match s cs window =
     (case filter (\<lambda>c. agrees s c \<and> in_window window s c) cs of
        [c] \<Rightarrow> Inr (match_decision s c ''exact_money_bounded_date'')
      | _ # _ # _ \<Rightarrow> Inr (abstain_decision s ''ambiguous_reference'' msg_ambiguous_action)
      | [] \<Rightarrow>
          Inr (if filter (agrees s) cs \<noteq> [] then abstain_decision s ''date_window_mismatch'' msg_window_action
               else if filter (exact_money s) cs \<noteq> [] then abstain_decision s ''direction_mismatch'' msg_direction_action
               else abstain_decision s ''no_candidate'' msg_no_candidate_action))"
proof -
  have f: "filter (same_direction s) (filter (exact_money s) cs) = filter (agrees s) cs"
    by (simp add: agrees_def [abs_def])
  have g: "filter (in_window window s) (filter (agrees s) cs) = filter (\<lambda>c. agrees s c \<and> in_window window s c) cs"
    by simp
  show ?thesis
    unfolding weak_match_def Let_def f g using assms by (simp split: list.splits)
qed

text \<open>A proposal never raises, and is a match exactly when the rule in force singles out one journal
  that agrees in currency, amount and direction.\<close>

lemma list_three_cases:
  obtains "xs = []" | x where "xs = [x]" | x y zs where "xs = x # y # zs"
  by (cases xs rule: remdups_adj.cases) auto

lemma match_decision_eq:
  "match_decision s c' rule' = match_decision s c rule \<longleftrightarrow>
     bj_journal_reference c' = bj_journal_reference c \<and> rule' = rule"
  by (auto simp: match_decision_def)

lemma strong_match_iff:
  assumes "entry_ok s"
  shows "strong_match s cs f v = Inr (match_decision s c rule) \<longleftrightarrow>
     rule = rule_code f \<and> (\<exists>c'. filter (\<lambda>c. journal_reference f c = Some v) cs = [c'] \<and> agrees s c' \<and>
        bj_journal_reference c' = bj_journal_reference c)"
  unfolding strong_match_cases [OF assms]
  by (cases "filter (\<lambda>c. journal_reference f c = Some v) cs" rule: list_three_cases)
    (auto simp: match_decision_eq agrees_def exact_money_def)

lemma weak_match_iff:
  assumes "entry_ok s"
  shows "weak_match s cs window = Inr (match_decision s c rule) \<longleftrightarrow>
     rule = ''exact_money_bounded_date'' \<and>
     (\<exists>c'. filter (\<lambda>c. agrees s c \<and> in_window window s c) cs = [c'] \<and> bj_journal_reference c' = bj_journal_reference c)"
  unfolding weak_match_cases [OF assms]
  by (cases "filter (\<lambda>c. agrees s c \<and> in_window window s c) cs" rule: list_three_cases)
    (auto simp: match_decision_eq)

lemma propose_match_iff:
  assumes "entry_ok s"
  shows "propose_deterministic_match s cs window = Inr (match_decision s c rule) \<longleftrightarrow>
     rule = rule_in_force s \<and> (\<exists>c'. filter (considered s window) cs = [c'] \<and> agrees s c' \<and>
        bj_journal_reference c' = bj_journal_reference c)"
proof (cases "strong_reference s")
  case None
  then have con: "considered s window = (\<lambda>c. agrees s c \<and> in_window window s c)"
    by (auto simp: considered_def agrees_def fun_eq_iff)
  have one: "agrees s c'" if "filter (\<lambda>c. agrees s c \<and> in_window window s c) cs = [c']" for c'
  proof -
    have "c' \<in> set (filter (\<lambda>c. agrees s c \<and> in_window window s c) cs)" by (simp only: that) simp
    then show ?thesis by simp
  qed
  show ?thesis
    unfolding propose_deterministic_match_def None con option.case rule_in_force_def weak_match_iff [OF assms]
    using one by blast
next
  case (Some fv)
  obtain f v where fv: "fv = (f, v)" by fastforce
  have con: "considered s window = (\<lambda>c. journal_reference f c = Some v)"
    by (simp add: considered_def Some fv fun_eq_iff)
  show ?thesis
    unfolding propose_deterministic_match_def Some fv con option.case prod.case rule_in_force_def
    by (rule strong_match_iff [OF assms])
qed

lemma strong_match_total:
  assumes "entry_ok s"
  shows "(\<exists>c rule. strong_match s cs f v = Inr (match_decision s c rule)) \<or>
     (\<exists>e a. strong_match s cs f v = Inr (abstain_decision s e a))"
  unfolding strong_match_cases [OF assms]
  by (cases "filter (\<lambda>c. journal_reference f c = Some v) cs" rule: list_three_cases) auto

lemma weak_match_total:
  assumes "entry_ok s"
  shows "(\<exists>c rule. weak_match s cs window = Inr (match_decision s c rule)) \<or>
     (\<exists>e a. weak_match s cs window = Inr (abstain_decision s e a))"
  unfolding weak_match_cases [OF assms]
  by (cases "filter (\<lambda>c. agrees s c \<and> in_window window s c) cs" rule: list_three_cases) auto

lemma propose_total:
  assumes "entry_ok s"
  shows "(\<exists>c rule. propose_deterministic_match s cs window = Inr (match_decision s c rule)) \<or>
     (\<exists>e a. propose_deterministic_match s cs window = Inr (abstain_decision s e a))"
proof (cases "strong_reference s")
  case None
  then show ?thesis using weak_match_total [OF assms] by (simp add: propose_deterministic_match_def)
next
  case (Some fv)
  then have "propose_deterministic_match s cs window = strong_match s cs (fst fv) (snd fv)"
    by (simp add: propose_deterministic_match_def split_def)
  then show ?thesis using strong_match_total [OF assms] by simp
qed

text \<open>The order of the candidates does not matter.\<close>

lemma filter_mset_length:
  "mset xs = mset ys \<Longrightarrow> mset (filter P xs) = mset (filter P ys)"
  by simp

lemma list_case_perm:
  assumes "mset xs = mset ys"
  shows "(xs = [] \<longleftrightarrow> ys = []) \<and> (xs = [x] \<longleftrightarrow> ys = [x])"
  using assms by (metis mset.simps(1) mset_eq_length mset_zero_iff mset_single_iff_right mset_single_iff)

lemma case_list_perm:
  assumes "mset xs = mset ys"
  shows "(case xs of [] \<Rightarrow> a | [x] \<Rightarrow> f x | _ \<Rightarrow> b) = (case ys of [] \<Rightarrow> a | [x] \<Rightarrow> f x | _ \<Rightarrow> b)"
proof (cases "xs = [] \<or> (\<exists>x. xs = [x])")
  case True
  then show ?thesis using list_case_perm [OF assms] by auto
next
  case False
  then have "\<not> (ys = [] \<or> (\<exists>x. ys = [x]))" using list_case_perm [OF assms] by auto
  with False show ?thesis by (auto split: list.splits)
qed

lemma propose_perm:
  assumes "entry_ok s" and p: "mset cs = mset ds"
  shows "propose_deterministic_match s cs window = propose_deterministic_match s ds window"
proof -
  have e: "filter P cs = [] \<longleftrightarrow> filter P ds = []" for P
    using list_case_perm [of "filter P cs" "filter P ds"] p by auto
  have "strong_match s cs f v = strong_match s ds f v" for f v
    unfolding strong_match_cases [OF assms(1)] by (rule case_list_perm) (simp add: p)
  moreover have "weak_match s cs window = weak_match s ds window"
    unfolding weak_match_cases [OF assms(1)] e
    using p by (intro case_list_perm [of "filter _ cs" "filter _ ds", where f = "\<lambda>c. Inr (match_decision s c ''exact_money_bounded_date'')", THEN trans]) auto
  ultimately show ?thesis
    by (cases "strong_reference s") (auto simp: propose_deterministic_match_def)
qed

end
