(* ===== verification/Allocation.thy ===== *)
theory Allocation
  imports Reconciliation
begin

text \<open>
  \<open>allocation.py\<close>: splitting one statement amount over several journals and aggregating several
  statement entries into one journal. Both loops keep a running total and compare it with the
  amount to conserve; their common contract is the locale \<open>conserving_allocator\<close>.
\<close>

definition msg_exact_positive :: "string \<Rightarrow> string" where
  "msg_exact_positive field =
     field @ '' must be a positive exact Decimal. Supply a finite Decimal greater than zero before reconciliation.''"

definition msg_identity :: "string \<Rightarrow> string" where
  "msg_identity field = field @ '' must be a non-empty identity''"

definition msg_split_empty :: string where
  "msg_split_empty = ''at least one candidate journal is required for a split allocation''"

definition msg_split_currency :: string where
  "msg_split_currency =
     ''split candidates must share one currency. Supply same-currency journal evidence before planning a split.''"

definition msg_split_total :: string where
  "msg_split_total =
     ''split allocations must conserve the exact statement amount: the '' @
     ''candidate total may not exceed the statement amount. Re-select '' @
     ''candidates whose exact total equals the statement, then retry.''"

definition msg_aggregate_empty :: string where
  "msg_aggregate_empty = ''at least one statement item is required for an aggregate allocation''"

definition msg_aggregate_total :: string where
  "msg_aggregate_total =
     ''aggregation sides must agree: the statement-side total must equal '' @
     ''the journal-side total exactly. Investigate the unmatched evidence '' @
     ''before recording allocations.''"

definition require_exact_positive :: "py_value \<Rightarrow> string \<Rightarrow> dec result" where
  "require_exact_positive value field =
     (case as_finite_decimal value of
        Some d \<Rightarrow> if dec_positive d then Inr d else Inl (ValueError (msg_exact_positive field))
      | None \<Rightarrow> Inl (ValueError (msg_exact_positive field)))"

definition require_identity :: "py_value \<Rightarrow> string \<Rightarrow> string result" where
  "require_identity value field =
     (case as_str value of
        Some s \<Rightarrow> if strip s = [] then Inl (ValueError (msg_identity field)) else Inr s
      | None \<Rightarrow> Inl (ValueError (msg_identity field)))"

record reconciliation_allocation =
  al_tenant_account_reference :: string
  al_reconciliation_run_reference :: string
  al_statement_entry_reference :: string
  al_journal_reference :: string
  al_allocated_amount :: dec
  al_currency_code :: string

definition make_allocation ::
    "py_value \<Rightarrow> py_value \<Rightarrow> py_value \<Rightarrow> py_value \<Rightarrow> py_value \<Rightarrow> py_value \<Rightarrow> reconciliation_allocation result" where
  "make_allocation tenant run entry journal amount currency =
     bind_result (require_identity tenant ''tenant_account_reference'') (\<lambda>t.
     bind_result (require_identity run ''reconciliation_run_reference'') (\<lambda>r.
     bind_result (require_identity entry ''statement_entry_reference'') (\<lambda>e.
     bind_result (require_identity journal ''journal_reference'') (\<lambda>j.
     bind_result (require_identity currency ''currency_code'') (\<lambda>c.
     bind_result (require_exact_positive amount ''allocated_amount'') (\<lambda>a.
       Inr \<lparr>al_tenant_account_reference = t, al_reconciliation_run_reference = r,
            al_statement_entry_reference = e, al_journal_reference = j,
            al_allocated_amount = a, al_currency_code = c\<rparr>))))))"

section \<open>Split\<close>

text \<open>One turn of the loop: check the journal, add its amount, append its allocation.\<close>

definition split_step ::
    "py_value \<Rightarrow> py_value \<Rightarrow> py_value \<Rightarrow> string \<Rightarrow> reconciliation_allocation list \<times> dec \<Rightarrow> book_journal_evidence \<Rightarrow>
       (reconciliation_allocation list \<times> dec) result" where
  "split_step entry run tenant currency acc journal =
     bind_result (require_exact_positive (PDecimal (Fin (bj_amount journal)))
                    (''candidate '' @ bj_journal_reference journal @ '' amount'')) (\<lambda>amount.
     bind_result (require (bj_currency_code journal = currency) (ValueError msg_split_currency)) (\<lambda>_.
     bind_result (make_allocation tenant run entry (PStr (bj_journal_reference journal))
                    (PDecimal (Fin amount)) (PStr currency)) (\<lambda>a.
       Inr (fst acc @ [a], dec_add (snd acc) amount))))"

definition propose_split_allocations ::
    "py_value \<Rightarrow> py_value \<Rightarrow> book_journal_evidence list \<Rightarrow> py_value \<Rightarrow> py_value \<Rightarrow> reconciliation_allocation list result" where
  "propose_split_allocations entry statement_amount journals run tenant =
     bind_result (require_identity entry ''statement_entry_reference'') (\<lambda>_.
     bind_result (require_exact_positive statement_amount ''statement_amount'') (\<lambda>amount.
       case journals of
         [] \<Rightarrow> Inl (ValueError msg_split_empty)
       | first # _ \<Rightarrow>
           bind_result (fold_result (split_step entry run tenant (bj_currency_code first)) ([], dec_zero) journals)
             (\<lambda>(allocations, total).
                if \<not> dec_eq total amount then Inl (ValueError msg_split_total) else Inr allocations)))"

section \<open>Aggregate\<close>

definition aggregate_step ::
    "py_value \<Rightarrow> py_value \<Rightarrow> py_value \<Rightarrow> py_value \<Rightarrow> reconciliation_allocation list \<times> dec \<Rightarrow> py_value \<times> py_value \<Rightarrow>
       (reconciliation_allocation list \<times> dec) result" where
  "aggregate_step run tenant journal currency acc item =
     bind_result (require_identity (fst item) ''statement_entry_reference'') (\<lambda>entry.
     bind_result (require_exact_positive (snd item) (''statement '' @ entry @ '' amount'')) (\<lambda>amount.
     bind_result (make_allocation tenant run (PStr entry) journal (PDecimal (Fin amount)) currency) (\<lambda>a.
       Inr (fst acc @ [a], dec_add (snd acc) amount))))"

definition aggregate_allocations ::
    "(py_value \<times> py_value) list \<Rightarrow> py_value \<Rightarrow> py_value \<Rightarrow> py_value \<Rightarrow> py_value \<Rightarrow> py_value \<Rightarrow>
       reconciliation_allocation list result" where
  "aggregate_allocations items journal_total run tenant journal currency =
     bind_result (require_exact_positive journal_total ''journal_total'') (\<lambda>total.
     bind_result (require_identity journal ''journal_reference'') (\<lambda>_.
     bind_result (require_identity currency ''currency_code'') (\<lambda>_.
     bind_result (require (items \<noteq> []) (ValueError msg_aggregate_empty)) (\<lambda>_.
     bind_result (fold_result (aggregate_step run tenant journal currency) ([], dec_zero) items)
       (\<lambda>(allocations, statement_total).
          if \<not> dec_eq statement_total total then Inl (ValueError msg_aggregate_total) else Inr allocations)))))"

section \<open>The contract of an allocator\<close>

text \<open>
  What both allocators promise: the plan's amounts are positive, one per input amount and in
  the same order, and their running decimal sum compares equal to the target.
\<close>

locale conserving_allocator =
  fixes plan :: "'i \<Rightarrow> reconciliation_allocation list result"
    and target :: "'i \<Rightarrow> dec option"
    and amounts :: "'i \<Rightarrow> dec list"
  assumes plan_amounts: "plan i = Inr as \<Longrightarrow> map al_allocated_amount as = amounts i"
    and plan_positive: "plan i = Inr as \<Longrightarrow> a \<in> set as \<Longrightarrow> dec_positive (al_allocated_amount a)"
    and plan_target: "plan i = Inr as \<Longrightarrow> \<exists>t. target i = Some t \<and> dec_eq (dec_sum (map al_allocated_amount as)) t"
begin

lemma plan_bounded:
  assumes "plan i = Inr as" and "target i = Some t"
    and "\<forall>d\<in>set (amounts i). - k \<le> dexp d" and "0 \<le> k"
    and "dval_sum (amounts i) < 10 powi (int precision - k)"
  shows "dval_sum (map al_allocated_amount as) = dval t"
proof -
  have "set (amounts i) = al_allocated_amount ` set as"
    by (simp flip: plan_amounts [OF assms(1)])
  then have nn: "\<forall>d\<in>set (amounts i). 0 \<le> dval d"
    using plan_positive [OF assms(1)] by (auto simp: dec_positive_iff intro: less_imp_le)
  have "dval (dec_sum (amounts i)) = dval_sum (amounts i)"
    using dec_foldl_add_exact [of dec_zero k "amounts i"] nn assms(3-5)
    by (simp add: dec_sum_def) (simp add: dec_zero_def)
  then show ?thesis
    using plan_target [OF assms(1)] assms(2) plan_amounts [OF assms(1)] by (simp add: dec_eq_iff)
qed

lemma plan_nonzero: "plan i = Inr as \<Longrightarrow> a \<in> set as \<Longrightarrow> 0 < dval (al_allocated_amount a)"
  using plan_positive dec_positive_iff by blast

end

section \<open>Both loops\<close>

lemma require_exact_positive_eq_Inr:
  "require_exact_positive v f = Inr d \<longleftrightarrow> v = PDecimal (Fin d) \<and> dec_positive d"
  by (auto simp: require_exact_positive_def split: option.splits)

lemma require_identity_eq_Inr: "require_identity v f = Inr s \<longleftrightarrow> v = PStr s \<and> strip s \<noteq> []"
  by (auto simp: require_identity_def split: option.splits)

lemma make_allocation_eq_Inr:
  "make_allocation tenant run entry journal amount currency = Inr a \<longleftrightarrow>
     tenant = PStr (al_tenant_account_reference a) \<and> strip (al_tenant_account_reference a) \<noteq> [] \<and>
     run = PStr (al_reconciliation_run_reference a) \<and> strip (al_reconciliation_run_reference a) \<noteq> [] \<and>
     entry = PStr (al_statement_entry_reference a) \<and> strip (al_statement_entry_reference a) \<noteq> [] \<and>
     journal = PStr (al_journal_reference a) \<and> strip (al_journal_reference a) \<noteq> [] \<and>
     currency = PStr (al_currency_code a) \<and> strip (al_currency_code a) \<noteq> [] \<and>
     amount = PDecimal (Fin (al_allocated_amount a)) \<and> dec_positive (al_allocated_amount a)"
  by (cases a) (auto simp: make_allocation_def bind_result_eq_Inr require_identity_eq_Inr require_exact_positive_eq_Inr)

text \<open>A loop that appends one allocation per item and adds its amount.\<close>

definition allocates ::
    "(reconciliation_allocation list \<times> dec \<Rightarrow> 'x \<Rightarrow> (reconciliation_allocation list \<times> dec) result) \<Rightarrow>
       ('x \<Rightarrow> reconciliation_allocation \<Rightarrow> bool) \<Rightarrow> bool" where
  "allocates step fits \<longleftrightarrow>
     (\<forall>acc x acc'. step acc x = Inr acc' \<longrightarrow>
        (\<exists>a. fits x a \<and> acc' = (fst acc @ [a], dec_add (snd acc) (al_allocated_amount a))))"

lemma allocates_fold:
  assumes "allocates step fits" and "fold_result step acc xs = Inr acc'"
  shows "\<exists>as. list_all2 fits xs as \<and> fst acc' = fst acc @ as \<and>
     snd acc' = foldl dec_add (snd acc) (map al_allocated_amount as)"
  using assms(2)
proof (induction xs arbitrary: acc)
  case Nil
  then show ?case by simp
next
  case (Cons x xs)
  then obtain acc1 where one: "step acc x = Inr acc1" and more: "fold_result step acc1 xs = Inr acc'"
    by (auto simp: bind_result_eq_Inr)
  then obtain a where a: "fits x a" and acc1: "acc1 = (fst acc @ [a], dec_add (snd acc) (al_allocated_amount a))"
    using assms(1) unfolding allocates_def by blast
  have rest: "fold_result step (fst acc @ [a], dec_add (snd acc) (al_allocated_amount a)) xs = Inr acc'"
    using more by (simp add: acc1)
  obtain as where "list_all2 fits xs as" "fst acc' = (fst acc @ [a]) @ as"
    "snd acc' = foldl dec_add (dec_add (snd acc) (al_allocated_amount a)) (map al_allocated_amount as)"
    using Cons.IH [OF rest] by auto
  then show ?case using a by (intro exI [of _ "a # as"]) simp
qed

definition split_fits :: "string \<Rightarrow> string \<Rightarrow> string \<Rightarrow> string \<Rightarrow> book_journal_evidence \<Rightarrow> reconciliation_allocation \<Rightarrow> bool" where
  "split_fits entry run tenant currency j a \<longleftrightarrow>
     a = \<lparr>al_tenant_account_reference = tenant, al_reconciliation_run_reference = run,
          al_statement_entry_reference = entry, al_journal_reference = bj_journal_reference j,
          al_allocated_amount = bj_amount j, al_currency_code = currency\<rparr> \<and>
     bj_currency_code j = currency \<and> dec_positive (bj_amount j)"

lemma split_step_eq_Inr:
  "split_step entry run tenant currency acc j = Inr acc' \<longleftrightarrow>
     (\<exists>e r t a. entry = PStr e \<and> run = PStr r \<and> tenant = PStr t \<and> strip e \<noteq> [] \<and> strip r \<noteq> [] \<and> strip t \<noteq> [] \<and>
        strip currency \<noteq> [] \<and> strip (bj_journal_reference j) \<noteq> [] \<and>
        split_fits e r t currency j a \<and> acc' = (fst acc @ [a], dec_add (snd acc) (al_allocated_amount a)))"
  by (auto simp: split_step_def bind_result_eq_Inr require_eq_Inr require_exact_positive_eq_Inr
      make_allocation_eq_Inr split_fits_def)

definition aggregate_fits :: "string \<Rightarrow> string \<Rightarrow> string \<Rightarrow> string \<Rightarrow> py_value \<times> py_value \<Rightarrow> reconciliation_allocation \<Rightarrow> bool" where
  "aggregate_fits run tenant journal currency item a \<longleftrightarrow>
     item = (PStr (al_statement_entry_reference a), PDecimal (Fin (al_allocated_amount a))) \<and>
     al_tenant_account_reference a = tenant \<and> al_reconciliation_run_reference a = run \<and>
     al_journal_reference a = journal \<and> al_currency_code a = currency \<and> dec_positive (al_allocated_amount a)"

lemma aggregate_step_eq_Inr:
  "aggregate_step run tenant journal currency acc item = Inr acc' \<longleftrightarrow>
     (\<exists>r t j c a. run = PStr r \<and> tenant = PStr t \<and> journal = PStr j \<and> currency = PStr c \<and> strip r \<noteq> [] \<and> strip t \<noteq> [] \<and>
        strip j \<noteq> [] \<and> strip c \<noteq> [] \<and> strip (al_statement_entry_reference a) \<noteq> [] \<and>
        aggregate_fits r t j c item a \<and> acc' = (fst acc @ [a], dec_add (snd acc) (al_allocated_amount a)))"
  by (cases item)
    (auto simp: aggregate_step_def bind_result_eq_Inr require_identity_eq_Inr require_exact_positive_eq_Inr
      make_allocation_eq_Inr aggregate_fits_def)

section \<open>The two allocators keep the contract\<close>

type_synonym split_input = "py_value \<times> py_value \<times> book_journal_evidence list \<times> py_value \<times> py_value"

fun split_plan :: "split_input \<Rightarrow> reconciliation_allocation list result" where
  "split_plan (entry, amount, journals, run, tenant) = propose_split_allocations entry amount journals run tenant"

fun split_target :: "split_input \<Rightarrow> dec option" where
  "split_target (entry, amount, journals, run, tenant) = as_finite_decimal amount"

fun split_amounts :: "split_input \<Rightarrow> dec list" where
  "split_amounts (entry, amount, journals, run, tenant) = map bj_amount journals"

type_synonym aggregate_input = "(py_value \<times> py_value) list \<times> py_value \<times> py_value \<times> py_value \<times> py_value \<times> py_value"

fun aggregate_plan :: "aggregate_input \<Rightarrow> reconciliation_allocation list result" where
  "aggregate_plan (items, whole, run, tenant, journal, currency) =
     aggregate_allocations items whole run tenant journal currency"

fun aggregate_target :: "aggregate_input \<Rightarrow> dec option" where
  "aggregate_target (items, whole, run, tenant, journal, currency) = as_finite_decimal whole"

fun aggregate_amounts :: "aggregate_input \<Rightarrow> dec list" where
  "aggregate_amounts (items, whole, run, tenant, journal, currency) =
     map (\<lambda>(r, v). case as_finite_decimal v of Some d \<Rightarrow> d | None \<Rightarrow> dec_zero) items"

lemma split_loop:
  assumes "fold_result (split_step entry run tenant currency) ([], dec_zero) js = Inr (as, tot)"
    and "entry = PStr e" and "js \<noteq> []"
  shows "\<exists>r t. run = PStr r \<and> tenant = PStr t \<and> list_all2 (split_fits e r t currency) js as \<and>
     tot = dec_sum (map al_allocated_amount as)"
proof -
  obtain r t where rt: "run = PStr r" "tenant = PStr t"
    using assms by (cases js) (auto simp: bind_result_eq_Inr split_step_eq_Inr)
  have "allocates (split_step entry run tenant currency) (split_fits e r t currency)"
    unfolding allocates_def split_step_eq_Inr by (auto simp: assms(2) rt)
  then show ?thesis
    using allocates_fold [OF _ assms(1)] rt by (fastforce simp: dec_sum_def)
qed

lemma split_eq_Inr:
  assumes "propose_split_allocations entry amount js run tenant = Inr as"
  shows "\<exists>e r t target. entry = PStr e \<and> run = PStr r \<and> tenant = PStr t \<and> amount = PDecimal (Fin target) \<and>
     js \<noteq> [] \<and> list_all2 (split_fits e r t (bj_currency_code (hd js))) js as \<and>
     dec_eq (dec_sum (map al_allocated_amount as)) target"
proof -
  obtain e target first rest tot where "entry = PStr e" "amount = PDecimal (Fin target)" "js = first # rest"
    and loop: "fold_result (split_step entry run tenant (bj_currency_code first)) ([], dec_zero) js = Inr (as, tot)"
    and "dec_eq tot target"
    using assms unfolding propose_split_allocations_def bind_result_eq_Inr require_identity_eq_Inr
      require_exact_positive_eq_Inr
    by (cases js) (auto simp: bind_result_eq_Inr simp del: fold_result.simps split: if_splits)
  then show ?thesis using split_loop [OF loop] by (fastforce simp del: fold_result.simps)
qed

lemma aggregate_loop:
  assumes "fold_result (aggregate_step run tenant journal currency) ([], dec_zero) items = Inr (as, tot)" and "items \<noteq> []"
  shows "\<exists>r t j c. run = PStr r \<and> tenant = PStr t \<and> journal = PStr j \<and> currency = PStr c \<and>
     list_all2 (aggregate_fits r t j c) items as \<and> tot = dec_sum (map al_allocated_amount as)"
proof -
  obtain r t j c where rt: "run = PStr r" "tenant = PStr t" "journal = PStr j" "currency = PStr c"
    using assms by (cases items) (auto simp: bind_result_eq_Inr aggregate_step_eq_Inr)
  have "allocates (aggregate_step run tenant journal currency) (aggregate_fits r t j c)"
    unfolding allocates_def aggregate_step_eq_Inr by (auto simp: rt)
  then show ?thesis
    using allocates_fold [OF _ assms(1)] rt by (fastforce simp: dec_sum_def)
qed

lemma aggregate_eq_Inr:
  assumes "aggregate_allocations items tot run tenant journal currency = Inr as"
  shows "\<exists>r t j c target. run = PStr r \<and> tenant = PStr t \<and> journal = PStr j \<and> currency = PStr c \<and>
     tot = PDecimal (Fin target) \<and> items \<noteq> [] \<and> list_all2 (aggregate_fits r t j c) items as \<and>
     dec_eq (dec_sum (map al_allocated_amount as)) target"
proof -
  obtain target sum where "tot = PDecimal (Fin target)" "items \<noteq> []"
    and loop: "fold_result (aggregate_step run tenant journal currency) ([], dec_zero) items = Inr (as, sum)"
    and "dec_eq sum target"
    using assms unfolding aggregate_allocations_def bind_result_eq_Inr require_identity_eq_Inr
      require_exact_positive_eq_Inr require_eq_Inr
    by (auto simp: bind_result_eq_Inr simp del: fold_result.simps split: if_splits)
  then show ?thesis using aggregate_loop [OF loop] by (fastforce simp del: fold_result.simps)
qed

lemma list_all2_map_eq:
  "list_all2 P xs ys \<Longrightarrow> (\<And>x y. P x y \<Longrightarrow> f x = g y) \<Longrightarrow> map g ys = map f xs"
  by (induction rule: list_all2_induct) auto

lemma list_all2_set2: "list_all2 P xs ys \<Longrightarrow> y \<in> set ys \<Longrightarrow> \<exists>x. P x y"
  by (induction rule: list_all2_induct) auto

lemma split_fits_positive: "split_fits e r t c j a \<Longrightarrow> dec_positive (al_allocated_amount a)"
  by (auto simp: split_fits_def)

lemma aggregate_fits_positive: "aggregate_fits r t j c x a \<Longrightarrow> dec_positive (al_allocated_amount a)"
  by (auto simp: aggregate_fits_def)

interpretation split: conserving_allocator split_plan split_target split_amounts
proof
  fix i as
  assume plan: "split_plan i = Inr as"
  obtain entry amount js run tenant where i: "i = (entry, amount, js, run, tenant)" by (cases i)
  from plan i obtain e r t target where fit: "list_all2 (split_fits e r t (bj_currency_code (hd js))) js as"
    and t: "amount = PDecimal (Fin target)" "dec_eq (dec_sum (map al_allocated_amount as)) target"
    using split_eq_Inr by fastforce
  show "map al_allocated_amount as = split_amounts i"
    using list_all2_map_eq [OF fit, of bj_amount al_allocated_amount] by (simp add: i split_fits_def)
  show "\<exists>t. split_target i = Some t \<and> dec_eq (dec_sum (map al_allocated_amount as)) t"
    using t by (simp add: i)
  fix a
  assume "a \<in> set as"
  then show "dec_positive (al_allocated_amount a)"
    using list_all2_set2 [OF fit] split_fits_positive by blast
qed

interpretation aggregate: conserving_allocator aggregate_plan aggregate_target aggregate_amounts
proof
  fix i as
  assume plan: "aggregate_plan i = Inr as"
  obtain items whole run tenant journal currency where i: "i = (items, whole, run, tenant, journal, currency)" by (cases i)
  from plan i obtain r t j c target where fit: "list_all2 (aggregate_fits r t j c) items as"
    and t: "whole = PDecimal (Fin target)" "dec_eq (dec_sum (map al_allocated_amount as)) target"
    using aggregate_eq_Inr by fastforce
  show "map al_allocated_amount as = aggregate_amounts i"
    using list_all2_map_eq [OF fit, of "\<lambda>(r, v). case as_finite_decimal v of Some d \<Rightarrow> d | None \<Rightarrow> dec_zero" al_allocated_amount]
    by (simp add: i aggregate_fits_def)
  show "\<exists>t. aggregate_target i = Some t \<and> dec_eq (dec_sum (map al_allocated_amount as)) t"
    using t by (simp add: i)
  fix a
  assume "a \<in> set as"
  then show "dec_positive (al_allocated_amount a)"
    using list_all2_set2 [OF fit] aggregate_fits_positive by blast
qed

end
