(* ===== verification/Reconciliation_Bridge.thy ===== *)
theory Reconciliation_Bridge
  imports Core
begin

text \<open>
  \<open>reconciliation_bridge.py\<close>: from nine balances of one reconciliation run, the three equations
  that tie the statement, the book and the bridge between them. Money fields of the input are
  dynamically typed, because the module tests their type; the result carries decimals.
\<close>

record bridge_scope =
  bs_reconciliation_run_reference :: string
  bs_statement_population_reference :: string
  bs_book_population_reference :: string
  bs_currency_code :: string
  bs_tenant_account_reference :: py_value
  bs_legal_entity_reference :: py_value
  bs_accounting_book_reference :: py_value
  bs_bank_account_assignment_reference :: py_value

record bridge_input = bridge_scope +
  bi_statement_opening_balance :: py_value
  bi_statement_period_movements :: py_value
  bi_statement_closing_balance :: py_value
  bi_book_opening_balance :: py_value
  bi_posted_cash_book_movements :: py_value
  bi_book_closing_balance :: py_value
  bi_reconciled_book_balance :: py_value
  bi_outstanding_book_items :: py_value
  bi_outstanding_bank_items :: py_value

text \<open>The nine balances once they are known to be finite decimals.\<close>

record bridge_money =
  bm_statement_opening_balance :: dec
  bm_statement_period_movements :: dec
  bm_statement_closing_balance :: dec
  bm_book_opening_balance :: dec
  bm_posted_cash_book_movements :: dec
  bm_book_closing_balance :: dec
  bm_reconciled_book_balance :: dec
  bm_outstanding_book_items :: dec
  bm_outstanding_bank_items :: dec

record bridge_result =
  br_scope :: bridge_scope
  br_money :: bridge_money
  br_bridge_balance :: dec
  br_unexplained_difference :: dec
  br_status_code :: string
  br_exception_code :: "string option"
  br_next_action :: string

definition msg_finite_decimal :: "string \<Rightarrow> string" where
  "msg_finite_decimal field = field @ '' must be a finite Decimal''"

definition bridge_field :: "string \<Rightarrow> py_value \<Rightarrow> dec result" where
  "bridge_field field value =
     (case as_finite_decimal value of
        Some d \<Rightarrow> Inr d
      | None \<Rightarrow> Inl (ValueError (msg_finite_decimal field)))"

definition validate_bridge_money :: "bridge_input \<Rightarrow> bridge_money result" where
  "validate_bridge_money i =
     bind_result (bridge_field ''statement_opening_balance'' (bi_statement_opening_balance i)) (\<lambda>so.
     bind_result (bridge_field ''statement_period_movements'' (bi_statement_period_movements i)) (\<lambda>sm.
     bind_result (bridge_field ''statement_closing_balance'' (bi_statement_closing_balance i)) (\<lambda>sc.
     bind_result (bridge_field ''book_opening_balance'' (bi_book_opening_balance i)) (\<lambda>bo.
     bind_result (bridge_field ''posted_cash_book_movements'' (bi_posted_cash_book_movements i)) (\<lambda>pm.
     bind_result (bridge_field ''book_closing_balance'' (bi_book_closing_balance i)) (\<lambda>bc.
     bind_result (bridge_field ''reconciled_book_balance'' (bi_reconciled_book_balance i)) (\<lambda>rb.
     bind_result (bridge_field ''outstanding_book_items'' (bi_outstanding_book_items i)) (\<lambda>ob.
     bind_result (bridge_field ''outstanding_bank_items'' (bi_outstanding_bank_items i)) (\<lambda>ok.
       Inr \<lparr>bm_statement_opening_balance = so, bm_statement_period_movements = sm,
            bm_statement_closing_balance = sc, bm_book_opening_balance = bo,
            bm_posted_cash_book_movements = pm, bm_book_closing_balance = bc,
            bm_reconciled_book_balance = rb, bm_outstanding_book_items = ob,
            bm_outstanding_bank_items = ok\<rparr>)))))))))"

definition msg_statement_mismatch :: "dec \<Rightarrow> string \<Rightarrow> string" where
  "msg_statement_mismatch difference currency =
     ''Review the immutable statement population: opening balance plus '' @
     ''period movements differs from statement closing balance by '' @ dec_text difference @ '' '' @ currency @
     ''. Correct the source evidence or mapping, then rerun reconciliation.''"

definition msg_book_mismatch :: "dec \<Rightarrow> string \<Rightarrow> string" where
  "msg_book_mismatch difference currency =
     ''Review the immutable posted-book population: opening balance plus '' @
     ''posted cash movements differs from book closing balance by '' @ dec_text difference @ '' '' @ currency @
     ''. Correct the book population selection, then rerun reconciliation.''"

definition msg_bridge_difference :: "dec \<Rightarrow> string \<Rightarrow> string" where
  "msg_bridge_difference difference currency =
     ''Review outstanding book and bank items: the exact book-to-bank bridge differs by '' @
     dec_text difference @ '' '' @ currency @
     ''. Resolve the unmatched evidence or record an explicit reviewed exception before period-close evidence is accepted.''"

definition msg_bridge_reconciled :: string where
  "msg_bridge_reconciled =
     ''Attach this exact book-to-bank bridge to period-close evidence. This '' @
     ''projection does not post journals or approve reconciliation.''"

definition bridge_result_of ::
    "bridge_input \<Rightarrow> bridge_money \<Rightarrow> dec \<Rightarrow> dec \<Rightarrow> string \<Rightarrow> string option \<Rightarrow> string \<Rightarrow> bridge_result" where
  "bridge_result_of i m balance difference status exception action =
     \<lparr>br_scope = bridge_scope.truncate i, br_money = m, br_bridge_balance = balance,
      br_unexplained_difference = difference, br_status_code = status,
      br_exception_code = exception, br_next_action = action\<rparr>"

definition compute_bridge :: "bridge_input \<Rightarrow> bridge_money \<Rightarrow> bridge_result" where
  "compute_bridge i m =
     (let expected_statement = dec_add (bm_statement_opening_balance m) (bm_statement_period_movements m);
          expected_book = dec_add (bm_book_opening_balance m) (bm_posted_cash_book_movements m);
          balance = dec_sub (dec_add (bm_reconciled_book_balance m) (bm_outstanding_book_items m))
                      (bm_outstanding_bank_items m);
          currency = bs_currency_code i
      in if \<not> dec_eq expected_statement (bm_statement_closing_balance m)
         then let difference = dec_sub expected_statement (bm_statement_closing_balance m) in
              bridge_result_of i m balance difference ''not_reconciled'' (Some ''statement_balance_mismatch'')
                (msg_statement_mismatch difference currency)
         else if \<not> dec_eq expected_book (bm_book_closing_balance m)
         then let difference = dec_sub expected_book (bm_book_closing_balance m) in
              bridge_result_of i m balance difference ''not_reconciled'' (Some ''book_balance_mismatch'')
                (msg_book_mismatch difference currency)
         else let unexplained = dec_sub balance (bm_statement_closing_balance m) in
              if \<not> dec_eq unexplained dec_zero
              then bridge_result_of i m balance unexplained ''not_reconciled'' (Some ''bridge_difference'')
                     (msg_bridge_difference unexplained currency)
              else bridge_result_of i m balance dec_zero ''reconciled'' None msg_bridge_reconciled)"

definition compute_book_to_bank_bridge :: "bridge_input \<Rightarrow> bridge_result result" where
  "compute_book_to_bank_bridge i =
     bind_result (validate_bridge_money i) (\<lambda>m. Inr (compute_bridge i m))"

section \<open>The equations\<close>

lemma bridge_field_eq_Inr: "bridge_field f v = Inr d \<longleftrightarrow> v = PDecimal (Fin d)"
  by (auto simp: bridge_field_def split: option.splits)

lemma validate_bridge_money_eq_Inr:
  "validate_bridge_money i = Inr m \<longleftrightarrow>
     bi_statement_opening_balance i = PDecimal (Fin (bm_statement_opening_balance m)) \<and>
     bi_statement_period_movements i = PDecimal (Fin (bm_statement_period_movements m)) \<and>
     bi_statement_closing_balance i = PDecimal (Fin (bm_statement_closing_balance m)) \<and>
     bi_book_opening_balance i = PDecimal (Fin (bm_book_opening_balance m)) \<and>
     bi_posted_cash_book_movements i = PDecimal (Fin (bm_posted_cash_book_movements m)) \<and>
     bi_book_closing_balance i = PDecimal (Fin (bm_book_closing_balance m)) \<and>
     bi_reconciled_book_balance i = PDecimal (Fin (bm_reconciled_book_balance m)) \<and>
     bi_outstanding_book_items i = PDecimal (Fin (bm_outstanding_book_items m)) \<and>
     bi_outstanding_bank_items i = PDecimal (Fin (bm_outstanding_bank_items m))"
  unfolding validate_bridge_money_def bind_result_eq_Inr bridge_field_eq_Inr by (cases m) auto

text \<open>
  Money in the ordinary range: at most six fractional digits and less than ten to the 21 in
  magnitude, so that every intermediate result of the bridge is exact.
\<close>

definition ordinary :: "dec \<Rightarrow> bool" where
  "ordinary d \<longleftrightarrow> - 6 \<le> dexp d \<and> dexp d \<le> 0 \<and> \<bar>dval d\<bar> < 10 ^ 21"

lemma dec_add_small:
  assumes "- 6 \<le> dexp a" and "- 6 \<le> dexp b" and "\<bar>dval a + dval b\<bar> < 10 ^ 22"
  shows "dval (dec_add a b) = dval a + dval b" and "- 6 \<le> dexp (dec_add a b)"
proof -
  have "(10::rat) ^ 22 = 10 powi 22" by (simp only: power_int_numeral)
  also have "\<dots> \<le> 10 powi (min (dexp a) (dexp b) + int precision)"
    using assms(1,2) by (intro power_int_increasing) (auto simp: precision_def)
  finally have "\<bar>dval a + dval b\<bar> < 10 powi (min (dexp a) (dexp b) + int precision)"
    using assms(3) by linarith
  note exact = dec_add_exact [OF this]
  show "dval (dec_add a b) = dval a + dval b" by (rule exact(1))
  show "- 6 \<le> dexp (dec_add a b)" using assms by (simp add: exact(2))
qed

definition statement_gap :: "bridge_money \<Rightarrow> rat" where
  "statement_gap m = dval (bm_statement_opening_balance m) + dval (bm_statement_period_movements m) -
     dval (bm_statement_closing_balance m)"

definition book_gap :: "bridge_money \<Rightarrow> rat" where
  "book_gap m = dval (bm_book_opening_balance m) + dval (bm_posted_cash_book_movements m) -
     dval (bm_book_closing_balance m)"

definition bridge_gap :: "bridge_money \<Rightarrow> rat" where
  "bridge_gap m = dval (bm_reconciled_book_balance m) + dval (bm_outstanding_book_items m) -
     dval (bm_outstanding_bank_items m) - dval (bm_statement_closing_balance m)"

definition ordinary_money :: "bridge_money \<Rightarrow> bool" where
  "ordinary_money m \<longleftrightarrow>
     list_all ordinary
       [bm_statement_opening_balance m, bm_statement_period_movements m, bm_statement_closing_balance m,
        bm_book_opening_balance m, bm_posted_cash_book_movements m, bm_book_closing_balance m,
        bm_reconciled_book_balance m, bm_outstanding_book_items m, bm_outstanding_bank_items m]"

lemma gap_exact:
  assumes "ordinary a" and "ordinary b" and "ordinary c"
  shows "dec_eq (dec_add a b) c \<longleftrightarrow> dval a + dval b - dval c = 0"
    and "dval (dec_sub (dec_add a b) c) = dval a + dval b - dval c"
    and "- 6 \<le> dexp (dec_sub (dec_add a b) c)"
proof -
  have s: "\<bar>dval a + dval b\<bar> < 10 ^ 22" "\<bar>dval a + dval b - dval c\<bar> < 10 ^ 22"
    using assms unfolding ordinary_def by (simp_all add: abs_less_iff)
  have add: "dval (dec_add a b) = dval a + dval b" "- 6 \<le> dexp (dec_add a b)"
    using assms s(1) unfolding ordinary_def by (blast intro: dec_add_small)+
  show "dec_eq (dec_add a b) c \<longleftrightarrow> dval a + dval b - dval c = 0"
    by (auto simp: dec_eq_iff add)
  have c: "- 6 \<le> dexp c" "- 6 \<le> dexp (dec_copy_negate c)"
    using assms(3) by (cases c; simp add: ordinary_def)+
  show "dval (dec_sub (dec_add a b) c) = dval a + dval b - dval c"
    using dec_sub_exact [OF add(2) c(1)] s(2) by (simp add: add(1))
  show "- 6 \<le> dexp (dec_sub (dec_add a b) c)"
    unfolding dec_sub_def by (rule dec_add_small(2) [OF add(2) c(2)]) (use s(2) add(1) in simp)
qed

lemma bridge_gap_exact:
  assumes "ordinary_money m"
  shows "dval (dec_sub (dec_sub (dec_add (bm_reconciled_book_balance m) (bm_outstanding_book_items m))
             (bm_outstanding_bank_items m)) (bm_statement_closing_balance m)) = bridge_gap m"
proof -
  let ?b = "dec_sub (dec_add (bm_reconciled_book_balance m) (bm_outstanding_book_items m)) (bm_outstanding_bank_items m)"
  have o: "ordinary (bm_reconciled_book_balance m)" "ordinary (bm_outstanding_book_items m)"
    "ordinary (bm_outstanding_bank_items m)" "ordinary (bm_statement_closing_balance m)"
    using assms by (simp_all add: ordinary_money_def)
  have bound: "\<bar>dval ?b - dval (bm_statement_closing_balance m)\<bar> < 10 ^ 22"
    unfolding gap_exact(2) [OF o(1-3)] using o unfolding ordinary_def by (simp add: abs_less_iff)
  have "dval (dec_sub ?b (bm_statement_closing_balance m)) = dval ?b - dval (bm_statement_closing_balance m)"
    using gap_exact(3) [OF o(1-3)] o(4) bound by (intro dec_sub_exact) (simp_all add: ordinary_def)
  then show ?thesis by (simp add: gap_exact(2) [OF o(1-3)] bridge_gap_def)
qed

text \<open>The status, the exception and the difference, decided by the exact gaps.\<close>

lemma compute_bridge_exact:
  assumes "ordinary_money m"
  shows "br_status_code (compute_bridge i m) =
      (if statement_gap m = 0 \<and> book_gap m = 0 \<and> bridge_gap m = 0 then ''reconciled'' else ''not_reconciled'')"
    and "dval (br_unexplained_difference (compute_bridge i m)) =
      (if statement_gap m \<noteq> 0 then statement_gap m else if book_gap m \<noteq> 0 then book_gap m else bridge_gap m)"
    and "br_exception_code (compute_bridge i m) =
      (if statement_gap m \<noteq> 0 then Some ''statement_balance_mismatch''
       else if book_gap m \<noteq> 0 then Some ''book_balance_mismatch''
       else if bridge_gap m \<noteq> 0 then Some ''bridge_difference'' else None)"
proof -
  have o: "ordinary (bm_statement_opening_balance m)" "ordinary (bm_statement_period_movements m)"
    "ordinary (bm_statement_closing_balance m)" "ordinary (bm_book_opening_balance m)"
    "ordinary (bm_posted_cash_book_movements m)" "ordinary (bm_book_closing_balance m)"
    using assms by (simp_all add: ordinary_money_def)
  note s = gap_exact [OF o(1-3), folded statement_gap_def] and b = gap_exact [OF o(4-6), folded book_gap_def]
  have z: "dec_eq (dec_sub (dec_sub (dec_add (bm_reconciled_book_balance m) (bm_outstanding_book_items m))
             (bm_outstanding_bank_items m)) (bm_statement_closing_balance m)) dec_zero \<longleftrightarrow> bridge_gap m = 0"
    by (simp add: dec_eq_iff bridge_gap_exact [OF assms])
  note defs = compute_bridge_def Let_def bridge_result_of_def s(1) b(1) z
  show "br_status_code (compute_bridge i m) =
      (if statement_gap m = 0 \<and> book_gap m = 0 \<and> bridge_gap m = 0 then ''reconciled'' else ''not_reconciled'')"
    by (simp add: defs)
  show "dval (br_unexplained_difference (compute_bridge i m)) =
      (if statement_gap m \<noteq> 0 then statement_gap m else if book_gap m \<noteq> 0 then book_gap m else bridge_gap m)"
    by (simp add: defs s(2) b(2) bridge_gap_exact [OF assms])
  show "br_exception_code (compute_bridge i m) =
      (if statement_gap m \<noteq> 0 then Some ''statement_balance_mismatch''
       else if book_gap m \<noteq> 0 then Some ''book_balance_mismatch''
       else if bridge_gap m \<noteq> 0 then Some ''bridge_difference'' else None)"
    by (simp add: defs)
qed

end
