(* ===== verification/Close_Review.thy ===== *)
theory Close_Review
  imports Reconciliation Reconciliation_Bridge
begin

text \<open>
  \<open>reconciliation_read_model.py\<close>: the close-review projection of one reconciliation run from its
  decisions and its bridge, and its JSON and CSV exports. Scope identities are dynamically typed
  (the module tests them); the exports are texts.
\<close>

section \<open>Inputs\<close>

record review_scope =
  rs_tenant_account_reference :: py_value
  rs_legal_entity_reference :: py_value
  rs_accounting_book_reference :: py_value
  rs_bank_account_assignment_reference :: py_value
  rs_currency_code :: string

record review_input =
  ri_bridge_result :: bridge_result
  ri_decisions :: "reconciliation_decision list"
  ri_expected_references :: "py_value list"
  ri_scope :: review_scope
  ri_preceding_bridge_result :: "bridge_result option"
  ri_preceding_scope :: "review_scope option"

record review_projection =
  rp_tenant_account_reference :: string
  rp_legal_entity_reference :: string
  rp_accounting_book_reference :: string
  rp_bank_account_assignment_reference :: string
  rp_reconciliation_run_reference :: string
  rp_statement_population_reference :: string
  rp_book_population_reference :: string
  rp_currency_code :: string
  rp_bank_closing_balance :: dec
  rp_posted_book_cash_balance :: dec
  rp_reconciled_balance :: dec
  rp_outstanding_bank_items :: dec
  rp_outstanding_book_items :: dec
  rp_unexplained_difference :: dec
  rp_safely_matchable_candidate_count :: nat
  rp_exception_count :: nat
  rp_exception_references :: "string list"
  rp_unexplained_difference_change :: "dec option"
  rp_outstanding_bank_items_change :: "dec option"
  rp_outstanding_book_items_change :: "dec option"
  rp_suitable_for_period_close_review :: bool
  rp_next_action :: string

section \<open>Validation\<close>

definition msg_scope_empty :: "string \<Rightarrow> string" where
  "msg_scope_empty label = label @ '' reconciliation scope identity must be non-empty''"

definition msg_scope_currency :: "string \<Rightarrow> string" where
  "msg_scope_currency label = label @ '' reconciliation scope currency must match bridge currency''"

definition msg_bridge_unbound :: "string \<Rightarrow> string" where
  "msg_bridge_unbound label = label @ '' bridge scope identity must be bound''"

definition msg_bridge_scope :: "string \<Rightarrow> string" where
  "msg_bridge_scope label = label @ '' bridge scope must match reconciliation scope''"

definition msg_population_empty :: string where
  "msg_population_empty = ''statement population identities must be non-empty''"

definition msg_population_unique :: string where
  "msg_population_unique = ''statement population identities must be unique''"

definition msg_population_decisions :: string where
  "msg_population_decisions = ''statement population decision identities must be non-empty''"

definition msg_population_cover :: string where
  "msg_population_cover =
     ''statement population decisions must exactly cover the expected statement population''"

definition msg_preceding_extra :: string where
  "msg_preceding_extra =
     ''preceding reconciliation scope cannot exist without preceding bridge evidence''"

definition msg_preceding_missing :: string where
  "msg_preceding_missing =
     ''preceding reconciliation scope is required for preceding bridge evidence''"

definition msg_preceding_differs :: string where
  "msg_preceding_differs =
     ''preceding reconciliation scope must match the current accounting and bank scope''"

fun identity_text :: "py_value \<Rightarrow> bool" where
  "identity_text (PStr s) = (strip s \<noteq> [])"
| "identity_text _ = False"

definition scope_identity :: "review_scope \<Rightarrow> py_value list" where
  "scope_identity s =
     [rs_tenant_account_reference s, rs_legal_entity_reference s, rs_accounting_book_reference s,
      rs_bank_account_assignment_reference s]"

definition bridge_identity :: "bridge_result \<Rightarrow> py_value list" where
  "bridge_identity b =
     [bs_tenant_account_reference (br_scope b), bs_legal_entity_reference (br_scope b),
      bs_accounting_book_reference (br_scope b), bs_bank_account_assignment_reference (br_scope b)]"

definition validate_scope :: "review_scope \<Rightarrow> bridge_result \<Rightarrow> string \<Rightarrow> unit result" where
  "validate_scope s b label =
     bind_result (require (list_all identity_text (scope_identity s)) (ValueError (msg_scope_empty label))) (\<lambda>_.
     bind_result (require (rs_currency_code s = bs_currency_code (br_scope b))
                    (ValueError (msg_scope_currency label))) (\<lambda>_.
     bind_result (require (list_all identity_text (bridge_identity b)) (ValueError (msg_bridge_unbound label))) (\<lambda>_.
       require (bridge_identity b = scope_identity s) (ValueError (msg_bridge_scope label)))))"

definition validate_statement_population :: "review_input \<Rightarrow> unit result" where
  "validate_statement_population i =
     (let expected = ri_expected_references i;
          decided = map rd_statement_entry_reference (ri_decisions i)
      in bind_result (require (list_all identity_text expected) (ValueError msg_population_empty)) (\<lambda>_.
         bind_result (require (distinct expected) (ValueError msg_population_unique)) (\<lambda>_.
         bind_result (require (list_all (\<lambda>r. strip r \<noteq> []) decided) (ValueError msg_population_decisions)) (\<lambda>_.
           require (length decided = length expected \<and> distinct decided \<and> set (map PStr decided) = set expected)
             (ValueError msg_population_cover)))))"

section \<open>Projection\<close>

definition msg_resolve_bridge :: "dec \<Rightarrow> string \<Rightarrow> string" where
  "msg_resolve_bridge difference currency =
     ''Resolve the exact book-to-bank bridge difference '' @ dec_text difference @ '' '' @ currency @
     '', then rerun close review.''"

definition msg_resolve_exceptions :: "nat \<Rightarrow> string" where
  "msg_resolve_exceptions n =
     ''Resolve '' @ nat_text n @ '' reconciliation exception(s) from the listed statement evidence, then rerun period-close review.''"

definition msg_attach_review :: string where
  "msg_attach_review =
     ''Attach this exact reconciliation evidence to the period-close review; '' @
     ''the authorized reconciliation review remains a separate control.''"

definition preceding_changes :: "review_input \<Rightarrow> (dec \<times> dec \<times> dec) option result" where
  "preceding_changes i =
     (let bridge = ri_bridge_result i in
      case (ri_preceding_bridge_result i, ri_preceding_scope i) of
        (None, None) \<Rightarrow> Inr None
      | (None, Some _) \<Rightarrow> Inl (ValueError msg_preceding_extra)
      | (Some _, None) \<Rightarrow> Inl (ValueError msg_preceding_missing)
      | (Some preceding, Some scope) \<Rightarrow>
          bind_result (validate_scope scope preceding ''preceding'') (\<lambda>_.
          bind_result (require (scope = ri_scope i) (ValueError msg_preceding_differs)) (\<lambda>_.
            Inr (Some
              (dec_sub (br_unexplained_difference bridge) (br_unexplained_difference preceding),
               dec_sub (bm_outstanding_bank_items (br_money bridge)) (bm_outstanding_bank_items (br_money preceding)),
               dec_sub (bm_outstanding_book_items (br_money bridge)) (bm_outstanding_book_items (br_money preceding)))))))"

definition build_close_review :: "review_input \<Rightarrow> review_projection result" where
  "build_close_review i =
     (let bridge = ri_bridge_result i; scope = ri_scope i in
      bind_result (validate_scope scope bridge ''current'') (\<lambda>_.
      bind_result (validate_statement_population i) (\<lambda>_.
        let exceptions = filter (\<lambda>d. rd_decision_code d \<noteq> ''match'') (ri_decisions i);
            match_count = length (filter (\<lambda>d. rd_decision_code d = ''match'') (ri_decisions i))
        in bind_result (preceding_changes i) (\<lambda>changes.
             Inr \<lparr>rp_tenant_account_reference = py_str (rs_tenant_account_reference scope),
                  rp_legal_entity_reference = py_str (rs_legal_entity_reference scope),
                  rp_accounting_book_reference = py_str (rs_accounting_book_reference scope),
                  rp_bank_account_assignment_reference = py_str (rs_bank_account_assignment_reference scope),
                  rp_reconciliation_run_reference = bs_reconciliation_run_reference (br_scope bridge),
                  rp_statement_population_reference = bs_statement_population_reference (br_scope bridge),
                  rp_book_population_reference = bs_book_population_reference (br_scope bridge),
                  rp_currency_code = bs_currency_code (br_scope bridge),
                  rp_bank_closing_balance = bm_statement_closing_balance (br_money bridge),
                  rp_posted_book_cash_balance = bm_book_closing_balance (br_money bridge),
                  rp_reconciled_balance = bm_reconciled_book_balance (br_money bridge),
                  rp_outstanding_bank_items = bm_outstanding_bank_items (br_money bridge),
                  rp_outstanding_book_items = bm_outstanding_book_items (br_money bridge),
                  rp_unexplained_difference = br_unexplained_difference bridge,
                  rp_safely_matchable_candidate_count = match_count,
                  rp_exception_count = length exceptions,
                  rp_exception_references = map rd_statement_entry_reference exceptions,
                  rp_unexplained_difference_change = map_option fst changes,
                  rp_outstanding_bank_items_change = map_option (fst \<circ> snd) changes,
                  rp_outstanding_book_items_change = map_option (snd \<circ> snd) changes,
                  rp_suitable_for_period_close_review =
                    (br_status_code bridge = ''reconciled'' \<and> exceptions = []),
                  rp_next_action =
                    (if br_status_code bridge \<noteq> ''reconciled''
                     then msg_resolve_bridge (br_unexplained_difference bridge) (bs_currency_code (br_scope bridge))
                     else if exceptions \<noteq> [] then msg_resolve_exceptions (length exceptions)
                     else msg_attach_review)\<rparr>))))"

section \<open>Exports\<close>

definition optional_text :: "dec option \<Rightarrow> py_value" where
  "optional_text x = (case x of None \<Rightarrow> PNone | Some d \<Rightarrow> PStr (dec_text d))"

definition projection_mapping :: "review_projection \<Rightarrow> payload" where
  "projection_mapping p =
     [(''tenant_account_reference'', PStr (rp_tenant_account_reference p)),
      (''legal_entity_reference'', PStr (rp_legal_entity_reference p)),
      (''accounting_book_reference'', PStr (rp_accounting_book_reference p)),
      (''bank_account_assignment_reference'', PStr (rp_bank_account_assignment_reference p)),
      (''reconciliation_run_reference'', PStr (rp_reconciliation_run_reference p)),
      (''statement_population_reference'', PStr (rp_statement_population_reference p)),
      (''book_population_reference'', PStr (rp_book_population_reference p)),
      (''currency_code'', PStr (rp_currency_code p)),
      (''bank_closing_balance'', PStr (dec_text (rp_bank_closing_balance p))),
      (''posted_book_cash_balance'', PStr (dec_text (rp_posted_book_cash_balance p))),
      (''reconciled_balance'', PStr (dec_text (rp_reconciled_balance p))),
      (''outstanding_bank_items'', PStr (dec_text (rp_outstanding_bank_items p))),
      (''outstanding_book_items'', PStr (dec_text (rp_outstanding_book_items p))),
      (''unexplained_difference'', PStr (dec_text (rp_unexplained_difference p))),
      (''safely_matchable_candidate_count'', PInt (int (rp_safely_matchable_candidate_count p))),
      (''exception_count'', PInt (int (rp_exception_count p))),
      (''exception_statement_entry_references'', PList (map PStr (rp_exception_references p))),
      (''unexplained_difference_change'', optional_text (rp_unexplained_difference_change p)),
      (''outstanding_bank_items_change'', optional_text (rp_outstanding_bank_items_change p)),
      (''outstanding_book_items_change'', optional_text (rp_outstanding_book_items_change p)),
      (''suitable_for_period_close_review'', PBool (rp_suitable_for_period_close_review p)),
      (''next_action'', PStr (rp_next_action p))]"

text \<open>\<open>json.dumps(..., ensure_ascii=False)\<close>: only quotes, backslashes and controls are escaped.\<close>

definition json_escape_unicode :: "char \<Rightarrow> string" where
  "json_escape_unicode c = (if 126 < code c then [c] else json_escape c)"

definition json_string_unicode :: "string \<Rightarrow> string" where
  "json_string_unicode s = CHR 0x22 # concat (map json_escape_unicode s) @ [CHR 0x22]"

fun json_unicode :: "py_value \<Rightarrow> string" where
  "json_unicode (PStr s) = json_string_unicode s"
| "json_unicode (PInt i) = int_text i"
| "json_unicode (PBool b) = (if b then ''true'' else ''false'')"
| "json_unicode (PList xs) = ''['' @ join '','' (map json_unicode xs) @ '']''"
| "json_unicode v = ''null''"

definition render_json :: "review_projection \<Rightarrow> string" where
  "render_json p =
     ''{'' @ join '','' (map (\<lambda>(k, v). json_string_unicode k @ '':'' @ json_unicode v)
                        (sort_key fst (projection_mapping p))) @ ''}''"

text \<open>The \<open>excel\<close> dialect of the \<open>csv\<close> module: minimal quoting, doubled quotes, CR LF.\<close>

definition csv_special :: "char \<Rightarrow> bool" where
  "csv_special c \<longleftrightarrow> c \<in> {CHR '','', CHR 0x22, CHR 0x0D, CHR 0x0A}"

definition csv_field :: "string \<Rightarrow> string" where
  "csv_field s =
     (if list_ex csv_special s
      then CHR 0x22 # concat (map (\<lambda>c. if c = CHR 0x22 then [c, c] else [c]) s) @ [CHR 0x22]
      else s)"

definition csv_row :: "string list \<Rightarrow> string" where
  "csv_row fs = join '','' (map csv_field fs) @ [CHR 0x0D, CHR 0x0A]"

fun csv_text :: "py_value \<Rightarrow> string" where
  "csv_text (PBool b) = (if b then ''true'' else ''false'')"
| "csv_text (PList xs) = join ''|'' (map py_str xs)"
| "csv_text PNone = []"
| "csv_text v = py_str v"

definition render_csv :: "review_projection \<Rightarrow> string" where
  "render_csv p =
     csv_row (dict_keys (projection_mapping p)) @ csv_row (map (csv_text \<circ> snd) (projection_mapping p))"

section \<open>Reading a CSV record\<close>

fun csv_quoted :: "string \<Rightarrow> (string \<times> string) option" where
  "csv_quoted [] = None"
| "csv_quoted (c # s) =
     (if c = CHR 0x22
      then (case s of
              d # s' \<Rightarrow> if d = CHR 0x22 then map_option (\<lambda>(f, r). (d # f, r)) (csv_quoted s') else Some ([], s)
            | [] \<Rightarrow> Some ([], []))
      else map_option (\<lambda>(f, r). (c # f, r)) (csv_quoted s))"

definition csv_read_field :: "string \<Rightarrow> (string \<times> string) option" where
  "csv_read_field s =
     (case s of
        [] \<Rightarrow> Some ([], [])
      | c # s' \<Rightarrow> if c = CHR 0x22 then csv_quoted s'
                  else Some (takeWhile (\<lambda>c. \<not> csv_special c) s, dropWhile (\<lambda>c. \<not> csv_special c) s))"

fun csv_read_row :: "nat \<Rightarrow> string \<Rightarrow> (string list \<times> string) option" where
  "csv_read_row 0 s = None"
| "csv_read_row (Suc n) s =
     (case csv_read_field s of
        None \<Rightarrow> None
      | Some (f, r) \<Rightarrow>
          (case r of
             c # r' \<Rightarrow>
               if c = CHR '','' then map_option (\<lambda>(fs, t). (f # fs, t)) (csv_read_row n r')
               else if take 2 r = [CHR 0x0D, CHR 0x0A] then Some ([f], drop 2 r) else None
           | [] \<Rightarrow> None))"

lemma csv_special_simps [simp]:
  "csv_special CHR 0x22" "csv_special (CHR '','')" "csv_special CHR 0x0D" "csv_special CHR 0x0A"
  by (simp_all add: csv_special_def)

lemma csv_quoted_read:
  assumes "r = [] \<or> hd r \<noteq> CHR 0x22"
  shows "csv_quoted (concat (map (\<lambda>c. if c = CHR 0x22 then [c, c] else [c]) s) @ CHR 0x22 # r) = Some (s, r)"
proof (induction s)
  case Nil
  then show ?case using assms by (cases r) auto
next
  case (Cons c s)
  then show ?case by (cases "c = CHR 0x22") simp_all
qed

lemma csv_field_read:
  assumes "r \<noteq> []" and "csv_special (hd r)" and "hd r \<noteq> CHR 0x22"
  shows "csv_read_field (csv_field s @ r) = Some (s, r)"
proof (cases "list_ex csv_special s")
  case True
  then show ?thesis
    using assms csv_quoted_read [of r s] by (simp add: csv_read_field_def csv_field_def)
next
  case False
  then have plain: "\<forall>c\<in>set s. \<not> csv_special c" by (simp add: list_ex_iff)
  obtain d r' where r: "r = d # r'" using assms(1) by (cases r) auto
  have tw: "takeWhile (\<lambda>c. \<not> csv_special c) (s @ r) = s" "dropWhile (\<lambda>c. \<not> csv_special c) (s @ r) = r"
    using plain assms(2) r by (auto simp: takeWhile_append dropWhile_append takeWhile_eq_all_conv)
  have "\<exists>c t. s @ r = c # t \<and> c \<noteq> CHR 0x22"
    using plain assms(3) r by (cases s) auto
  then show ?thesis
    using tw False by (auto simp: csv_read_field_def csv_field_def)
qed

lemma csv_row_read:
  assumes "fs \<noteq> []" and "length fs \<le> n"
  shows "csv_read_row n (csv_row fs @ r) = Some (fs, r)"
  using assms
proof (induction fs arbitrary: n)
  case Nil
  then show ?case by simp
next
  case (Cons f fs)
  obtain m where n: "n = Suc m" using Cons.prems(2) by (cases n) auto
  show ?case
  proof (cases fs)
    case Nil
    then show ?thesis
      using csv_field_read [of "CHR 0x0D # CHR 0x0A # r" f] by (simp add: n csv_row_def)
  next
    case (Cons g gs)
    have row: "csv_row (f # fs) @ r = csv_field f @ CHR '','' # (csv_row fs @ r)"
      by (simp add: csv_row_def Cons)
    have "csv_read_row m (csv_row fs @ r) = Some (fs, r)"
      using Cons Cons.IH [of m] \<open>length (f # fs) \<le> n\<close> n by simp
    then show ?thesis
      using csv_field_read [of "CHR '','' # (csv_row fs @ r)" f] by (simp add: n row)
  qed
qed

end
