(* ===== verification/Reconciliation_Properties.thy ===== *)
theory Reconciliation_Properties
  imports Allocation Close_Review
begin

text \<open>
  The promises of reconciliation: what a match means, that abstaining is the only alternative,
  conservation of allocated money, the bridge equations, and the close review with its export.
\<close>

section \<open>Worked example\<close>

definition sample_entry :: statement_entry_evidence where
  "sample_entry =
     \<lparr>se_reference = ''entry-1'', se_provider_reference = Some ''pay-1'', se_end_to_end_reference = None,
      se_account_servicer_reference = None, se_amount = Dec False 1500 (-2), se_currency_code = ''KRW'',
      se_credit_debit_code = ''CRDT'', se_booking_date = Date 2026 1 10, se_value_date = Date 2026 1 10\<rparr>"

definition sample_book_journal :: book_journal_evidence where
  "sample_book_journal =
     \<lparr>bj_journal_reference = ''journal-1'', bj_provider_reference = Some ''pay-1'', bj_end_to_end_reference = None,
      bj_account_servicer_reference = None, bj_amount = Dec False 15 0, bj_currency_code = ''KRW'',
      bj_credit_debit_code = ''CRDT'', bj_accounting_date = Date 2026 1 12\<rparr>"

lemma sample_entry_ok: "entry_ok sample_entry"
  by (simp add: entry_ok_def sample_entry_def dec_positive_def)

lemma sample_amounts_equal: "dec_eq (Dec False 15 0) (Dec False 1500 (-2))"
  by (simp add: dec_eq_def scaled_def signed_coef_def)

section \<open>Matching\<close>

text \<open>C21 What a match means: for constructed statement evidence, the proposal is a match with journal
  reference \<open>j\<close> exactly when the rule in force (the first strong reference the entry carries, or
  else exact money within the date window) singles out one candidate, that candidate has
  reference \<open>j\<close>, and it agrees with the entry in currency, amount and direction. A strong
  reference never falls through to the weak rule.\<close>

theorem match_iff_unique_agreeing:
  assumes "make_statement_entry r p e a m cur d b v = Inr s"
  shows "(\<exists>dec. propose_deterministic_match s cs window = Inr dec \<and> rd_decision_code dec = ''match'' \<and>
            rd_matched_journal_references dec = [j]) \<longleftrightarrow>
     (\<exists>c. filter (considered s window) cs = [c] \<and> bj_journal_reference c = j \<and>
          bj_currency_code c = se_currency_code s \<and> dval (bj_amount c) = dval (se_amount s) \<and>
          bj_credit_debit_code c = se_credit_debit_code s)"
    (is "?l \<longleftrightarrow> ?r")
proof -
  have ok: "entry_ok s" using assms by (rule make_statement_entry_ok)
  have agree: "agrees s c \<longleftrightarrow> bj_currency_code c = se_currency_code s \<and> dval (bj_amount c) = dval (se_amount s) \<and>
      bj_credit_debit_code c = se_credit_debit_code s" for c
    by (auto simp: agrees_def exact_money_def same_direction_def dec_eq_iff)
  have "?l \<longleftrightarrow> (\<exists>c rule. propose_deterministic_match s cs window = Inr (match_decision s c rule) \<and> bj_journal_reference c = j)"
    using propose_total [OF ok, of cs window] by (auto simp: match_decision_def abstain_decision_def)
  also have "\<dots> \<longleftrightarrow> ?r"
    unfolding propose_match_iff [OF ok] agree by blast
  finally show ?thesis .
qed

theorem match_iff_unique_agreeing_witness:
  "\<exists>dec. propose_deterministic_match sample_entry [sample_book_journal] 0 = Inr dec \<and>
     rd_decision_code dec = ''match'' \<and> rd_matched_journal_references dec = [''journal-1'']"
proof -
  have made: "make_statement_entry ''entry-1'' (Some ''pay-1'') None None (PDecimal (Fin (Dec False 1500 (-2)))) ''KRW''
      ''CRDT'' (Date 2026 1 10) (Date 2026 1 10) = Inr sample_entry"
    by (simp add: make_statement_entry_def require_positive_exact_decimal_def require_credit_debit_code_def
        dec_positive_def sample_entry_def)
  have con: "considered sample_entry 0 sample_book_journal"
    by (simp add: considered_def strong_reference_def strong_reference_rules_def sample_entry_def sample_book_journal_def)
  show ?thesis
    unfolding match_iff_unique_agreeing [OF made]
    using con sample_amounts_equal by (simp add: dec_eq_iff) (simp add: sample_entry_def sample_book_journal_def)
qed

text \<open>Matching is deterministic: on constructed evidence the proposal always returns a decision that
  is a match or an abstention, and the order of the candidates does not change it.\<close>

theorem proposal_total_and_order_free:
  assumes "make_statement_entry r p e a m cur d b v = Inr s" and "mset cs = mset ds"
  shows "propose_deterministic_match s cs window = propose_deterministic_match s ds window \<and>
     (\<exists>dec. propose_deterministic_match s cs window = Inr dec \<and> rd_statement_entry_reference dec = se_reference s \<and>
        rd_decision_code dec \<in> {''match'', ''abstain''})"
proof -
  have ok: "entry_ok s" using assms(1) by (rule make_statement_entry_ok)
  show ?thesis
    using propose_perm [OF ok assms(2)] propose_total [OF ok, of cs window]
    by (auto simp: match_decision_def abstain_decision_def)
qed

definition sample_other_journal :: book_journal_evidence where
  "sample_other_journal = sample_book_journal\<lparr>bj_journal_reference := ''journal-2'', bj_provider_reference := None\<rparr>"

theorem proposal_total_and_order_free_witness:
  "propose_deterministic_match sample_entry [sample_book_journal, sample_other_journal] 3 =
   propose_deterministic_match sample_entry [sample_other_journal, sample_book_journal] 3"
proof -
  have made: "make_statement_entry ''entry-1'' (Some ''pay-1'') None None (PDecimal (Fin (Dec False 1500 (-2)))) ''KRW''
      ''CRDT'' (Date 2026 1 10) (Date 2026 1 10) = Inr sample_entry"
    by (simp add: make_statement_entry_def require_positive_exact_decimal_def require_credit_debit_code_def
        dec_positive_def sample_entry_def)
  show ?thesis
    using proposal_total_and_order_free [OF made, of "[sample_book_journal, sample_other_journal]"
        "[sample_other_journal, sample_book_journal]" 3] by (simp add: add_mset_commute)
qed

text \<open>No forged decision: a decision value exists only as a match of exactly one journal with a
  positive amount and no exception, or as an abstention without journals, with a zero amount and
  a non-blank exception code.\<close>

theorem decisions_well_formed:
  assumes "make_decision ref kind rule matched amount exception action = Inr d"
  shows "(kind = ''match'' \<and> (\<exists>j. rd_matched_journal_references d = [j]) \<and> 0 < dval (rd_allocated_amount d) \<and>
      rd_exception_code d = None) \<or>
     (kind = ''abstain'' \<and> rd_matched_journal_references d = [] \<and> dval (rd_allocated_amount d) = 0 \<and>
      (\<exists>e. rd_exception_code d = Some e \<and> strip e \<noteq> []))"
proof -
  have "length matched = 1 \<longleftrightarrow> (\<exists>j. matched = [j])" by (auto simp: length_Suc_conv)
  then show ?thesis
    using assms
    by (auto simp: make_decision_def Let_def require_positive_exact_decimal_def dec_positive_iff dec_eq_iff
        split: if_splits option.splits sum.splits)
qed

theorem decisions_well_formed_witness:
  "0 < dval (rd_allocated_amount (match_decision sample_entry sample_book_journal ''provider_reference''))"
  using decisions_well_formed [of "se_reference sample_entry" "''match''" "Some ''provider_reference''"
      "[bj_journal_reference sample_book_journal]" "PDecimal (Fin (se_amount sample_entry))" PNone msg_match_action
      "match_decision sample_entry sample_book_journal ''provider_reference''"]
    matching_Inr [OF sample_entry_ok, of sample_book_journal "''provider_reference''"]
  by (simp add: matching_def)

section \<open>Allocations\<close>


lemma strip_samples:
  "strip ''entry-1'' \<noteq> []" "strip ''run-1'' \<noteq> []" "strip ''tenant-1'' \<noteq> []" "strip ''journal-1'' \<noteq> []" "strip ''KRW'' \<noteq> []"
  by code_simp+

lemma sample_sum: "dec_eq (dec_add dec_zero (Dec False 15 0)) (Dec False 1500 (-2))"
  by (simp add: dec_add_def dec_zero_def scaled_def signed_coef_def dec_fix_exact precision_def dec_eq_def Let_def)

definition sample_allocation :: reconciliation_allocation where
  "sample_allocation =
     \<lparr>al_tenant_account_reference = ''tenant-1'', al_reconciliation_run_reference = ''run-1'',
      al_statement_entry_reference = ''entry-1'', al_journal_reference = ''journal-1'',
      al_allocated_amount = Dec False 15 0, al_currency_code = ''KRW''\<rparr>"

lemma sample_split:
  "propose_split_allocations (PStr ''entry-1'') (PDecimal (Fin (Dec False 1500 (-2)))) [sample_book_journal]
     (PStr ''run-1'') (PStr ''tenant-1'') = Inr [sample_allocation]"
  using strip_samples sample_sum
  by (simp add: propose_split_allocations_def require_identity_def require_exact_positive_def dec_positive_def
      split_step_def make_allocation_def sample_book_journal_def sample_allocation_def)


text \<open>An aggregate conserves money: one allocation per statement item, in order, all for the one
  journal, and under the same bounds they add up to exactly the journal total.\<close>

theorem aggregate_conserves:
  assumes "aggregate_allocations items (PDecimal (Fin total_amount)) run tenant journal currency = Inr as"
    and "\<forall>a\<in>set as. - k \<le> dexp (al_allocated_amount a)" and "0 \<le> k"
    and "dval_sum (map al_allocated_amount as) < 10 powi (int precision - k)"
  shows "dval_sum (map al_allocated_amount as) = dval total_amount \<and>
     items = map (\<lambda>a. (PStr (al_statement_entry_reference a), PDecimal (Fin (al_allocated_amount a)))) as \<and>
     (\<forall>a\<in>set as. PStr (al_journal_reference a) = journal \<and> PStr (al_currency_code a) = currency \<and> 0 < dval (al_allocated_amount a))"
proof -
  obtain r t j c where st: "journal = PStr j" "currency = PStr c"
    and fit: "list_all2 (aggregate_fits r t j c) items as"
    using aggregate_eq_Inr [OF assms(1)] by blast
  let ?i = "(items, PDecimal (Fin total_amount), run, tenant, journal, currency)"
  have plan: "aggregate_plan ?i = Inr as" using assms(1) by simp
  have amounts: "aggregate_amounts ?i = map al_allocated_amount as"
    by (rule aggregate.plan_amounts [OF plan, symmetric])
  have "dval_sum (map al_allocated_amount as) = dval total_amount"
    using aggregate.plan_bounded [OF plan, of total_amount k] assms(2-4) unfolding amounts by simp
  moreover have "items = map (\<lambda>a. (PStr (al_statement_entry_reference a), PDecimal (Fin (al_allocated_amount a)))) as"
    using fit by (induction rule: list_all2_induct) (auto simp: aggregate_fits_def)
  moreover have "PStr (al_journal_reference a) = journal \<and> PStr (al_currency_code a) = currency \<and> 0 < dval (al_allocated_amount a)"
    if "a \<in> set as" for a
    using list_all2_set2 [OF fit that] st by (auto simp: aggregate_fits_def dec_positive_iff)
  ultimately show ?thesis by blast
qed

lemma sample_aggregate:
  "aggregate_allocations [(PStr ''entry-1'', PDecimal (Fin (Dec False 15 0)))] (PDecimal (Fin (Dec False 1500 (-2))))
     (PStr ''run-1'') (PStr ''tenant-1'') (PStr ''journal-1'') (PStr ''KRW'') = Inr [sample_allocation]"
  using strip_samples sample_sum
  by (simp add: aggregate_allocations_def require_identity_def require_exact_positive_def dec_positive_def
      aggregate_step_def make_allocation_def sample_allocation_def)

theorem aggregate_conserves_witness:
  "dval_sum (map al_allocated_amount [sample_allocation]) = dval (Dec False 1500 (-2))"
  using aggregate_conserves [OF sample_aggregate, of 2]
  by (simp add: sample_allocation_def) (simp add: dval_def signed_coef_def precision_def)

section \<open>The bridge\<close>

lemma bridge_exact_status:
  assumes "compute_book_to_bank_bridge i = Inr b" and "ordinary_money (br_money b)"
  shows "br_status_code b = ''reconciled'' \<longleftrightarrow>
       statement_gap (br_money b) = 0 \<and> book_gap (br_money b) = 0 \<and> bridge_gap (br_money b) = 0"
proof -
  obtain m where b: "b = compute_bridge i m" using assms(1) by (auto simp: compute_book_to_bank_bridge_def bind_result_eq_Inr)
  have m: "br_money b = m" by (simp add: b compute_bridge_def Let_def bridge_result_of_def)
  show ?thesis unfolding m by (simp add: b compute_bridge_exact [OF assms(2) [unfolded m]])
qed

text \<open>C23 The bridge is exact on ordinary money (at most six fractional digits, below ten to the 21): the
  run is reconciled exactly when opening plus movements equals closing on the statement side and
  on the book side and reconciled book plus outstanding book less outstanding bank equals the
  statement closing; otherwise the reported difference is the exact, non-zero gap of the first
  equation that fails, named by the exception code.\<close>

theorem bridge_exact:
  assumes "compute_book_to_bank_bridge i = Inr b" and "ordinary_money (br_money b)"
  shows "(br_status_code b = ''reconciled'' \<longleftrightarrow>
       statement_gap (br_money b) = 0 \<and> book_gap (br_money b) = 0 \<and> bridge_gap (br_money b) = 0) \<and>
     dval (br_unexplained_difference b) =
       (if statement_gap (br_money b) \<noteq> 0 then statement_gap (br_money b)
        else if book_gap (br_money b) \<noteq> 0 then book_gap (br_money b) else bridge_gap (br_money b)) \<and>
     (br_exception_code b = None \<longleftrightarrow> br_status_code b = ''reconciled'')"
proof -
  obtain m where b: "b = compute_bridge i m" using assms(1) by (auto simp: compute_book_to_bank_bridge_def bind_result_eq_Inr)
  have m: "br_money b = m" by (simp add: b compute_bridge_def Let_def bridge_result_of_def)
  note x = compute_bridge_exact [OF assms(2) [unfolded m]]
  show ?thesis unfolding m by (simp add: b x)
qed

definition bridge_sample :: "dec \<Rightarrow> dec \<Rightarrow> dec \<Rightarrow> bridge_input" where
  "bridge_sample opening movement closing =
     \<lparr>bs_reconciliation_run_reference = ''run-1'', bs_statement_population_reference = ''population-1'',
      bs_book_population_reference = ''population-2'', bs_currency_code = ''KRW'',
      bs_tenant_account_reference = PStr ''tenant-1'', bs_legal_entity_reference = PStr ''entity-1'',
      bs_accounting_book_reference = PStr ''book-1'', bs_bank_account_assignment_reference = PStr ''bank-1'',
      bi_statement_opening_balance = PDecimal (Fin opening),
      bi_statement_period_movements = PDecimal (Fin movement),
      bi_statement_closing_balance = PDecimal (Fin closing),
      bi_book_opening_balance = PDecimal (Fin dec_zero),
      bi_posted_cash_book_movements = PDecimal (Fin closing),
      bi_book_closing_balance = PDecimal (Fin closing),
      bi_reconciled_book_balance = PDecimal (Fin closing),
      bi_outstanding_book_items = PDecimal (Fin dec_zero),
      bi_outstanding_bank_items = PDecimal (Fin dec_zero)\<rparr>"

definition bridge_sample_money :: "dec \<Rightarrow> dec \<Rightarrow> dec \<Rightarrow> bridge_money" where
  "bridge_sample_money opening movement closing =
     \<lparr>bm_statement_opening_balance = opening, bm_statement_period_movements = movement,
      bm_statement_closing_balance = closing, bm_book_opening_balance = dec_zero,
      bm_posted_cash_book_movements = closing, bm_book_closing_balance = closing,
      bm_reconciled_book_balance = closing, bm_outstanding_book_items = dec_zero,
      bm_outstanding_bank_items = dec_zero\<rparr>"

lemma bridge_sample_runs:
  "compute_book_to_bank_bridge (bridge_sample o' m c) = Inr (compute_bridge (bridge_sample o' m c) (bridge_sample_money o' m c))"
proof -
  have "validate_bridge_money (bridge_sample o' m c) = Inr (bridge_sample_money o' m c)"
    by (simp add: validate_bridge_money_eq_Inr bridge_sample_def bridge_sample_money_def)
  then show ?thesis by (simp add: compute_book_to_bank_bridge_def)
qed

lemma compute_bridge_money [simp]: "br_money (compute_bridge i m) = m" "br_scope (compute_bridge i m) = bridge_scope.truncate i"
  by (simp_all add: compute_bridge_def Let_def bridge_result_of_def)

theorem bridge_exact_witness:
  "br_status_code (compute_bridge (bridge_sample (Dec False 100 0) (Dec False 5 0) (Dec False 105 0))
     (bridge_sample_money (Dec False 100 0) (Dec False 5 0) (Dec False 105 0))) = ''reconciled''"
proof -
  let ?m = "bridge_sample_money (Dec False 100 0) (Dec False 5 0) (Dec False 105 0)"
  have v: "dval (Dec False 100 0) = 100" "dval (Dec False 5 0) = 5" "dval (Dec False 105 0) = 105"
    by (simp_all add: dval_def signed_coef_def)
  have "ordinary_money ?m"
    by (simp add: ordinary_money_def bridge_sample_money_def ordinary_def v) (simp add: dec_zero_def)
  moreover have "statement_gap ?m = 0" "book_gap ?m = 0" "bridge_gap ?m = 0"
    by (simp_all add: statement_gap_def book_gap_def bridge_gap_def bridge_sample_money_def v)
  ultimately show ?thesis
    using bridge_exact [OF bridge_sample_runs [of "Dec False 100 0" "Dec False 5 0" "Dec False 105 0"]] by simp
qed

text \<open>Outside that range it is not: an opening balance of ten to the 28, a movement of one and a
  closing balance of ten to the 28 are reported as reconciled with no difference, although the
  statement does not add up.\<close>

theorem bridge_hides_difference:
  "\<exists>b. compute_book_to_bank_bridge
         (bridge_sample (Dec False 10000000000000000000000000000 0) (Dec False 1 0)
            (Dec False 10000000000000000000000000000 0)) = Inr b \<and>
       br_status_code b = ''reconciled'' \<and> dval (br_unexplained_difference b) = 0 \<and> statement_gap (br_money b) = 1"
proof -
  let ?big = "Dec False 10000000000000000000000000000 0"
  let ?m = "bridge_sample_money ?big (Dec False 1 0) ?big"
  have digits: "num_digits 10000000000000000000000000001 = 29" "num_digits 10000000000000000000000000000 = 29"
    "num_digits 0 = 1"
    by (simp_all add: num_digits_def nat_text.simps)
  have add: "dec_add ?big (Dec False 1 0) = Dec False 1000000000000000000000000000 1"
    "dec_add dec_zero ?big = Dec False 1000000000000000000000000000 1"
    "dec_add ?big dec_zero = Dec False 1000000000000000000000000000 1"
    by (simp_all add: dec_zero_def dec_add_def scaled_def signed_coef_def Let_def dec_fix_def precision_def
        round_half_even_def digits)
  have sub: "dec_sub (Dec False 1000000000000000000000000000 1) dec_zero = Dec False 1000000000000000000000000000 1"
    "dec_sub (Dec False 1000000000000000000000000000 1) ?big = Dec False 0 0"
    by (simp_all add: dec_sub_def dec_zero_def dec_add_def scaled_def signed_coef_def Let_def dec_fix_def precision_def
        round_half_even_def digits)
  have eq: "dec_eq (Dec False 1000000000000000000000000000 1) ?big" "dec_eq (Dec False 0 0) dec_zero"
    by (simp_all add: dec_eq_def scaled_def signed_coef_def dec_zero_def)
  have "br_status_code (compute_bridge (bridge_sample ?big (Dec False 1 0) ?big) ?m) = ''reconciled''"
    "br_unexplained_difference (compute_bridge (bridge_sample ?big (Dec False 1 0) ?big) ?m) = dec_zero"
    by (simp_all add: compute_bridge_def Let_def bridge_sample_money_def add sub eq bridge_result_of_def del: One_nat_def)
  moreover have "statement_gap ?m = 1"
    by (simp add: statement_gap_def bridge_sample_money_def dval_def signed_coef_def)
  ultimately show ?thesis using bridge_sample_runs by simp
qed

section \<open>Close review\<close>

lemma validate_population_eq_Inr:
  "validate_statement_population i = Inr u \<longleftrightarrow>
     list_all identity_text (ri_expected_references i) \<and> distinct (ri_expected_references i) \<and>
     list_all (\<lambda>r. strip r \<noteq> []) (map rd_statement_entry_reference (ri_decisions i)) \<and>
     length (ri_decisions i) = length (ri_expected_references i) \<and>
     distinct (map rd_statement_entry_reference (ri_decisions i)) \<and>
     set (map (PStr \<circ> rd_statement_entry_reference) (ri_decisions i)) = set (ri_expected_references i)"
  by (simp add: validate_statement_population_def Let_def result_simps comp_def image_image)


definition sample_bridge :: bridge_result where
  "sample_bridge = compute_bridge (bridge_sample (Dec False 100 0) (Dec False 5 0) (Dec False 105 0))
     (bridge_sample_money (Dec False 100 0) (Dec False 5 0) (Dec False 105 0))"

definition sample_review :: review_input where
  "sample_review =
     \<lparr>ri_bridge_result = sample_bridge,
      ri_decisions = [match_decision sample_entry sample_book_journal ''provider_reference''],
      ri_expected_references = [PStr ''entry-1''],
      ri_scope = \<lparr>rs_tenant_account_reference = PStr ''tenant-1'', rs_legal_entity_reference = PStr ''entity-1'',
                  rs_accounting_book_reference = PStr ''book-1'', rs_bank_account_assignment_reference = PStr ''bank-1'',
                  rs_currency_code = ''KRW''\<rparr>,
      ri_preceding_bridge_result = None, ri_preceding_scope = None\<rparr>"

lemma sample_review_builds: "\<exists>p. build_close_review sample_review = Inr p"
proof -
  have s: "strip ''entity-1'' \<noteq> []" "strip ''book-1'' \<noteq> []" "strip ''bank-1'' \<noteq> []" by code_simp+
  have scope: "validate_scope (ri_scope sample_review) sample_bridge ''current'' = Inr ()"
    using s strip_samples
    by (simp add: validate_scope_def scope_identity_def bridge_identity_def sample_review_def sample_bridge_def
        bridge_sample_def bridge_scope.defs)
  have "validate_statement_population sample_review = Inr ()"
    using strip_samples
    by (simp add: validate_population_eq_Inr sample_review_def match_decision_def sample_entry_def)
  then show ?thesis
    using scope by (simp add: build_close_review_def Let_def preceding_changes_def) (simp add: sample_review_def)
qed


text \<open>The CSV export loses nothing: read as two CSV records it yields the column names and the text
  of every value, whatever characters the texts contain.\<close>

theorem csv_export_reads_back:
  "\<exists>rest. csv_read_row 22 (render_csv p) = Some (dict_keys (projection_mapping p), rest) \<and>
     csv_read_row 22 rest = Some (map (csv_text \<circ> snd) (projection_mapping p), [])"
proof -
  have len: "length (projection_mapping p) = 22" by (simp add: projection_mapping_def)
  then have "dict_keys (projection_mapping p) \<noteq> []" "map (csv_text \<circ> snd) (projection_mapping p) \<noteq> []"
    by (auto simp del: map_map)
  then show ?thesis
    using csv_row_read [of "dict_keys (projection_mapping p)" 22 "csv_row (map (csv_text \<circ> snd) (projection_mapping p))"]
      csv_row_read [of "map (csv_text \<circ> snd) (projection_mapping p)" 22 "[]"] len
    by (simp add: render_csv_def)
qed

end
