(* ===== verification/Calendar_Time.thy ===== *)
theory Calendar_Time
  imports Calendar_Date
begin

text \<open>
  Python's \<open>datetime\<close>: a date, a time of day and an optional offset from UTC; \<open>fromisoformat\<close> of
  Python 3.13, conversion to UTC, and \<open>isoformat\<close>. A \<open>ValueError\<close> of the reader is \<open>None\<close>.
\<close>

record datetime =
  dt_date :: date
  dt_hour :: int
  dt_minute :: int
  dt_second :: int
  dt_micro :: int
  dt_offset :: "int option"  \<comment> \<open>microseconds east of UTC; None for a naive datetime\<close>

definition day_micros :: int where "day_micros = 86400000000"

definition valid_datetime :: "datetime \<Rightarrow> bool" where
  "valid_datetime t \<longleftrightarrow>
     valid_date (dt_date t) \<and> 0 \<le> dt_hour t \<and> dt_hour t \<le> 23 \<and> 0 \<le> dt_minute t \<and> dt_minute t \<le> 59 \<and>
     0 \<le> dt_second t \<and> dt_second t \<le> 59 \<and> 0 \<le> dt_micro t \<and> dt_micro t \<le> 999999 \<and>
     (case dt_offset t of None \<Rightarrow> True | Some off \<Rightarrow> - day_micros < off \<and> off < day_micros)"

section \<open>Reading\<close>

text \<open>
  Where the date ends: the forms of a date differ in their fifth and sixth character, and the
  separator of date and time may be any character.
\<close>

definition char_at :: "string \<Rightarrow> nat \<Rightarrow> char" where
  "char_at s i = (if i < length s then s ! i else CHR 0x00)"

definition separator_location :: "string \<Rightarrow> nat option" where
  "separator_location s =
     (if length s = 7 then Some 7
      else if char_at s 4 = CHR ''-'' then
        (if char_at s 5 = CHR ''W'' then
           (if length s < 8 then None
            else if length s > 8 \<and> char_at s 8 = CHR ''-'' then
              (if length s = 9 then None
               else if length s > 10 \<and> is_digit (char_at s 10) then Some 8 else Some 10)
            else Some 8)
         else Some 10)
      else if char_at s 4 = CHR ''W'' then
        (let pos = 7 + length (takeWhile is_digit (drop 7 s))
         in if pos < 9 then Some pos else if even pos then Some 7 else Some 8)
      else Some 8)"

lemma read_digits_length: "read_digits n s = Some (v, r) \<Longrightarrow> length s = n + length r"
  by (auto simp: read_digits_def split: if_splits)

text \<open>
  The fields of a clock time up to a limit: the first argument is the index of the field, the second
  whether the fields are separated by colons, \<open>after\<close> the character behind the limit, if any. The
  result has the fields read, the fraction in microseconds, and whether something was left over,
  which only a following time zone makes acceptable.
\<close>

definition read_fraction :: "string \<Rightarrow> char option \<Rightarrow> (int list \<times> int \<times> bool) option" where
  "read_fraction s after =
     (let k = min 6 (length s) in
      case read_digits k s of
        None \<Rightarrow> None
      | Some (us, r) \<Rightarrow>
          Some ([], us * 10 ^ (6 - k),
            (case dropWhile is_digit r of [] \<Rightarrow> after \<noteq> None | c # cs \<Rightarrow> c \<noteq> CHR 0x00)))"

function read_clock :: "nat \<Rightarrow> bool \<Rightarrow> string \<Rightarrow> char option \<Rightarrow> (int list \<times> int \<times> bool) option" where
  "read_clock i separated s after =
     (case read_digits 2 s of
        None \<Rightarrow> None
      | Some (v, r) \<Rightarrow>
          (case r of
             [] \<Rightarrow> Some ([v], 0, after \<noteq> None)
           | c # r' \<Rightarrow>
               let separated' = (if i = 0 then c = CHR '':'' else separated)
               in if r' = [] \<and> code c < 128 then Some ([v], 0, c \<noteq> CHR 0x00)
                  else if separated' \<and> c = CHR '':'' then
                    (if i \<ge> 2 then None
                     else map_option (\<lambda>(vs, us, left). (v # vs, us, left)) (read_clock (Suc i) separated' r' after))
                  else if c = CHR ''.'' \<or> c = CHR '','' then
                    (if i < 2 then None
                     else map_option (\<lambda>(vs, us, left). (v # vs, us, left)) (read_fraction r' after))
                  else if separated' then None
                  else if i \<ge> 2 then map_option (\<lambda>(vs, us, left). (v # vs, us, left)) (read_fraction r after)
                  else map_option (\<lambda>(vs, us, left). (v # vs, us, left)) (read_clock (Suc i) separated' r after)))"
  by pat_completeness auto
termination
  by (relation "measure (\<lambda>(i, p, s, a). length s)") (auto dest!: read_digits_length)

declare read_clock.simps [simp del]

definition clock_field :: "int list \<Rightarrow> nat \<Rightarrow> int" where
  "clock_field vs i = (if i < length vs then vs ! i else 0)"

text \<open>A time of day with its offset: seconds and microseconds of the fields.\<close>

definition read_zone :: "string \<Rightarrow> int option" where
  "read_zone z =
     (case z of
        [] \<Rightarrow> None
      | c # r \<Rightarrow>
          if c = CHR ''Z'' then (if r = [] \<or> hd r = CHR 0x00 then Some 0 else None)
          else (case read_clock 0 True r None of
                  Some (vs, us, False) \<Rightarrow>
                    (let off = ((clock_field vs 0 * 60 + clock_field vs 1) * 60 + clock_field vs 2) * 1000000 + us
                     in Some (if c = CHR ''-'' then - off else off))
                | _ \<Rightarrow> None))"

definition read_time :: "string \<Rightarrow> (int list \<times> int \<times> int option) option" where
  "read_time s =
     (let zone_char = (\<lambda>c. c \<in> set ''+-Z''); t = takeWhile (\<lambda>c. \<not> zone_char c) s; z = dropWhile (\<lambda>c. \<not> zone_char c) s
      in case read_clock 0 True t (if z = [] then None else Some (hd z)) of
           None \<Rightarrow> None
         | Some (vs, us, left) \<Rightarrow>
             if z = [] then (if left then None else Some (vs, us, None))
             else map_option (\<lambda>off. (vs, us, Some off)) (read_zone z))"

definition datetime_fromisoformat :: "string \<Rightarrow> datetime option" where
  "datetime_fromisoformat s =
     (if length s < 7 then None
      else case separator_location s of
        None \<Rightarrow> None
      | Some loc \<Rightarrow>
          (case date_parts (take loc s) of
             None \<Rightarrow> None
           | Some d \<Rightarrow>
               (case (if length s - loc > 1 then read_time (drop (loc + 1) s) else Some ([], 0, None)) of
                  None \<Rightarrow> None
                | Some (vs, us, off) \<Rightarrow>
                    let t = \<lparr>dt_date = d, dt_hour = clock_field vs 0, dt_minute = clock_field vs 1,
                             dt_second = clock_field vs 2, dt_micro = us, dt_offset = off\<rparr>
                    in if valid_datetime t then Some t else None)))"

section \<open>Writing\<close>

text \<open>
  \<open>value.astimezone(timezone.utc)\<close> of an aware datetime; \<open>None\<close> is the \<open>OverflowError\<close> of a date
  outside the calendar.
\<close>

definition to_utc :: "datetime \<Rightarrow> datetime option" where
  "to_utc t =
     (case dt_offset t of
        None \<Rightarrow> None
      | Some off \<Rightarrow>
          if off = 0 then Some t
          else
            (let micros = to_ordinal (dt_date t) * day_micros +
                   ((dt_hour t * 60 + dt_minute t) * 60 + dt_second t) * 1000000 + dt_micro t - off;
                 day = micros div day_micros; rest = micros mod day_micros; secs = rest div 1000000
             in if 1 \<le> day \<and> day \<le> 3652059
                then Some \<lparr>dt_date = of_ordinal day, dt_hour = secs div 3600, dt_minute = secs div 60 mod 60,
                           dt_second = secs mod 60, dt_micro = rest mod 1000000, dt_offset = Some 0\<rparr>
                else None))"

text \<open>\<open>isoformat\<close> of a datetime in UTC, and the same with \<open>Z\<close> for the offset.\<close>

definition clock_text :: "datetime \<Rightarrow> string" where
  "clock_text t =
     zero_pad 2 (nat (dt_hour t)) @ '':'' @ zero_pad 2 (nat (dt_minute t)) @ '':'' @ zero_pad 2 (nat (dt_second t)) @
     (if dt_micro t = 0 then [] else ''.'' @ zero_pad 6 (nat (dt_micro t)))"

definition utc_isoformat :: "datetime \<Rightarrow> string" where
  "utc_isoformat t = date_isoformat (dt_date t) @ ''T'' @ clock_text t @ ''+00:00''"

section \<open>Reading back\<close>

lemma read_clock_last: 
  "v < 100 \<Longrightarrow> read_clock i sep (zero_pad 2 v) after = Some ([int v], 0, after \<noteq> None)"
  using read_digits_zero_pad [of v 2 "[]"] by (simp add: read_clock.simps)

lemma read_clock_colon:
  assumes "v < 100" "i = 0 \<or> sep" "i < 2" "2 \<le> length r" 
  shows "read_clock i sep (zero_pad 2 v @ CHR '':'' # r) after =
     map_option (\<lambda>(vs, us, left). (int v # vs, us, left)) (read_clock (Suc i) True r after)"
  using assms by (subst read_clock.simps) (auto simp: read_digits_zero_pad Let_def)

lemma read_clock_fraction:
  assumes "v < 100" "us < 10 ^ 6"
  shows "read_clock 2 True (zero_pad 2 v @ CHR ''.'' # zero_pad 6 us) after = Some ([int v], int us, after \<noteq> None)"
proof -
  have len: "length (zero_pad 6 us) = 6" using assms(2) by (simp add: zero_pad_length)
  then have "read_fraction (zero_pad 6 us) after = Some ([], int us, after \<noteq> None)"
    using read_digits_zero_pad [of us 6 "[]"] assms(2) by (simp add: read_fraction_def)
  moreover have "zero_pad 6 us \<noteq> []" using len by auto
  ultimately show ?thesis
    using assms by (subst read_clock.simps) (simp add: read_digits_zero_pad Let_def)
qed

lemma read_clock_text:
  assumes "valid_datetime t"
  shows "read_clock 0 True (clock_text t) after =
     Some ([dt_hour t, dt_minute t, dt_second t], dt_micro t, after \<noteq> None)"
proof -
  have b: "nat (dt_hour t) < 100" "nat (dt_minute t) < 100" "nat (dt_second t) < 100" "nat (dt_micro t) < 10 ^ 6"
    using assms by (auto simp: valid_datetime_def)
  have len: "length (zero_pad 2 (nat (dt_minute t))) = 2" "length (zero_pad 2 (nat (dt_second t))) = 2"
    using b by (simp_all add: zero_pad_length)
  show ?thesis
    using b assms len read_clock_last [of "nat (dt_second t)" 2 True after] read_clock_fraction [of "nat (dt_second t)" "nat (dt_micro t)" after]
    by (auto simp: clock_text_def read_clock_colon valid_datetime_def numeral_2_eq_2 [symmetric])
qed

lemma clock_text_chars: "c \<in> set (clock_text t) \<Longrightarrow> is_digit c \<or> c = CHR '':'' \<or> c = CHR ''.''"
  using zero_pad_digits by (auto simp: clock_text_def list_all_iff split: if_splits)

text \<open>The text of a UTC time reads back as the time.\<close>

lemma utc_isoformat_roundtrip:
  assumes valid: "valid_datetime t" and utc: "dt_offset t = Some 0"
  shows "datetime_fromisoformat (utc_isoformat t) = Some t"
proof -
  have date: "valid_date (dt_date t)" using valid by (simp add: valid_datetime_def)
  note db = valid_date_bounds [OF date]
  let ?d = "date_isoformat (dt_date t)"
  have len: "length ?d = 10" using db by (simp add: date_isoformat_def zero_pad_length)
  have parts: "date_parts ?d = Some (dt_date t)"
    using date_isoformat_roundtrip [OF date] by (auto simp: date_fromisoformat_def split: if_splits option.splits)
  have at4: "char_at (utc_isoformat t) 4 = CHR ''-''"
    using len db by (simp add: char_at_def utc_isoformat_def nth_append date_isoformat_def zero_pad_length)
  obtain c cs where m: "zero_pad 2 (nat (month (dt_date t))) = c # cs" "is_digit c"
    using zero_pad_Cons [of 2] by auto
  have "char_at (utc_isoformat t) 5 = c"
    using len db m by (simp add: char_at_def utc_isoformat_def nth_append date_isoformat_def zero_pad_length)
  then have at5: "char_at (utc_isoformat t) 5 \<noteq> CHR ''W''" using m(2) by (auto simp: in_range_def)
  have loc: "separator_location (utc_isoformat t) = Some 10"
    using at4 at5 len by (simp add: separator_location_def utc_isoformat_def)
  have no_zone: "c \<notin> set ''+-Z''" if "c \<in> set (clock_text t)" for c
    using clock_text_chars [OF that] by (auto simp: in_range_def)
  have tw: "takeWhile (\<lambda>c. \<not> c \<in> set ''+-Z'') (clock_text t @ ''+00:00'') = clock_text t"
    "dropWhile (\<lambda>c. \<not> c \<in> set ''+-Z'') (clock_text t @ ''+00:00'') = ''+00:00''"
    using no_zone by (simp_all add: takeWhile_append2 dropWhile_append2)
  have "read_zone ''+00:00'' = Some 0" by code_simp
  then have time: "read_time (clock_text t @ ''+00:00'') =
      Some ([dt_hour t, dt_minute t, dt_second t], dt_micro t, Some 0)"
    unfolding read_time_def Let_def tw by (simp add: read_clock_text [OF valid])
  have cut: "drop (10 + 1) (utc_isoformat t) = clock_text t @ ''+00:00''" "take 10 (utc_isoformat t) = ?d"
    and long: "\<not> length (utc_isoformat t) < 7" "1 < length (utc_isoformat t) - 10"
    using len by (simp_all add: utc_isoformat_def)
  have "\<lparr>dt_date = dt_date t, dt_hour = dt_hour t, dt_minute = dt_minute t, dt_second = dt_second t,
      dt_micro = dt_micro t, dt_offset = Some 0\<rparr> = t"
    using utc by (cases t) simp
  then show ?thesis
    using long valid
    unfolding datetime_fromisoformat_def loc option.case cut parts time
    by (simp add: clock_field_def Let_def)
qed

end
