(* ===== verification/Python_Number.thy ===== *)
theory Python_Number
  imports Python_Value
begin

text \<open>
  \<open>int(...)\<close> of a text in a base and of a dynamically typed value, and the textual form of a
  UUID. A float is read from its shortest decimal form and truncated.
\<close>

definition digit_in_base :: "nat \<Rightarrow> char \<Rightarrow> nat option" where
  "digit_in_base base c =
     (let v = (if is_digit c then code c - 48 else if is_lower c then code c - 87
               else if is_upper c then code c - 55 else base)
      in if v < base then Some v else None)"

text \<open>Digits with single underscores between them.\<close>

fun number_digits :: "nat \<Rightarrow> nat \<Rightarrow> string \<Rightarrow> nat option" where
  "number_digits base n [] = Some n"
| "number_digits base n (c # s) =
     (if c = CHR ''_''
      then (case s of
              d # s' \<Rightarrow> (case digit_in_base base d of Some v \<Rightarrow> number_digits base (n * base + v) s' | None \<Rightarrow> None)
            | [] \<Rightarrow> None)
      else case digit_in_base base c of Some v \<Rightarrow> number_digits base (n * base + v) s | None \<Rightarrow> None)"

definition drop_base_prefix :: "nat \<Rightarrow> string \<Rightarrow> string" where
  "drop_base_prefix base s =
     (if base = 16 \<and> (starts_with ''0x'' s \<or> starts_with ''0X'' s)
      then (let r = drop 2 s in if starts_with ''_'' r then drop 1 r else r) else s)"

definition int_of_text :: "nat \<Rightarrow> string \<Rightarrow> int option" where
  "int_of_text base s =
     (let (neg, ds) = take_sign (strip s); ds' = drop_base_prefix base ds
      in if ds' = [] \<or> hd ds' = CHR ''_'' then None
         else map_option (\<lambda>n. if neg then - int n else int n) (number_digits base 0 ds'))"

definition truncate_decimal :: "dec \<Rightarrow> int" where
  "truncate_decimal d =
     (let m = (if 0 \<le> dexp d then int (dcoef d) * 10 ^ nat (dexp d) else int (dcoef d) div 10 ^ nat (- dexp d))
      in if dneg d then - m else m)"

text \<open>\<open>int(value)\<close>; \<open>TypeError\<close> and \<open>ValueError\<close> are both caught by the callers.\<close>

datatype int_outcome = Int_Value int | Int_Bad | Int_Overflow

fun int_of_decimal :: "py_decimal \<Rightarrow> int_outcome" where
  "int_of_decimal (Fin d) = Int_Value (truncate_decimal d)"
| "int_of_decimal (Inf s) = Int_Overflow"
| "int_of_decimal (NaN s q p) = Int_Bad"

fun int_of_value :: "py_value \<Rightarrow> int_outcome" where
  "int_of_value (PInt i) = Int_Value i"
| "int_of_value (PBool b) = Int_Value (if b then 1 else 0)"
| "int_of_value (PFloat r) = (case decimal_of_text r of Some d \<Rightarrow> int_of_decimal d | None \<Rightarrow> Int_Bad)"
| "int_of_value (PDecimal d) = int_of_decimal d"
| "int_of_value (PStr s) = (case int_of_text 10 s of Some i \<Rightarrow> Int_Value i | None \<Rightarrow> Int_Bad)"
| "int_of_value (PBytes s) = (case int_of_text 10 s of Some i \<Rightarrow> Int_Value i | None \<Rightarrow> Int_Bad)"
| "int_of_value v = Int_Bad"

section \<open>UUIDs\<close>

text \<open>
  \<open>UUID(text)\<close>: the words \<open>urn:\<close> and \<open>uuid:\<close>, surrounding braces and all hyphens are removed; what
  remains are 32 characters that \<open>int(..., 16)\<close> reads.
\<close>

definition uuid_digits :: "string \<Rightarrow> string" where
  "uuid_digits s =
     (let t = replace_text ''uuid:'' [] (replace_text ''urn:'' [] s); brace = (\<lambda>c. c \<in> set ''{}'')
      in filter (\<lambda>c. c \<noteq> CHR ''-'') (rstrip_set brace (lstrip_set brace t)))"

definition uuid_of_text :: "string \<Rightarrow> nat option" where
  "uuid_of_text s =
     (let h = uuid_digits s in
      if length h \<noteq> 32 then None
      else case int_of_text 16 h of Some i \<Rightarrow> if 0 \<le> i then Some (nat i) else None | None \<Rightarrow> None)"

definition hex_pad :: "nat \<Rightarrow> nat \<Rightarrow> string" where
  "hex_pad w n = map (\<lambda>i. hex_char (n div 16 ^ (w - 1 - i) mod 16)) [0..<w]"

definition uuid_text :: "nat \<Rightarrow> string" where
  "uuid_text u =
     (let h = hex_pad 32 u in
      take 8 h @ ''-'' @ take 4 (drop 8 h) @ ''-'' @ take 4 (drop 12 h) @ ''-'' @ take 4 (drop 16 h) @ ''-'' @ drop 20 h)"

end
