(* ===== verification/Paging.thy ===== *)
theory Paging
  imports Core Calendar_Time Python_Number
begin

text \<open>
  The page limits and list cursors of \<open>accept.py\<close>: how a page size is bounded, how the cursor texts
  of the seven paged reads are taken apart, and \<open>_format_timestamp\<close> of \<open>persistence.py\<close>, which
  writes the timestamps of the cursors that the reads hand out.
\<close>

section \<open>Page limits\<close>

definition msg_page_limit :: "string \<Rightarrow> string" where
  "msg_page_limit next_action = ''page_limit must be between 1 and 100. '' @ next_action"

definition list_default_page_limit :: int where "list_default_page_limit = 50"
definition list_max_page_limit :: int where "list_max_page_limit = 100"

definition resolve_bounded_page_limit :: "int option \<Rightarrow> string \<Rightarrow> int result" where
  "resolve_bounded_page_limit limit next_action =
     (case limit of
        None \<Rightarrow> Inr list_default_page_limit
      | Some n \<Rightarrow>
          if n < 1 \<or> n > list_max_page_limit then Inl (validation_error (msg_page_limit next_action)) else Inr n)"

definition resolve_journal_list_page_limit :: "int option \<Rightarrow> int result" where
  "resolve_journal_list_page_limit limit =
     resolve_bounded_page_limit limit ''Supply a journal-list page_limit, then retry the journal list.''"

definition resolve_journal_reversal_page_limit :: "int option \<Rightarrow> int result" where
  "resolve_journal_reversal_page_limit limit =
     resolve_bounded_page_limit limit ''Supply a journal-reversal page_limit, then retry the journal-reversal list.''"

definition resolve_period_close_page_limit :: "int option \<Rightarrow> int result" where
  "resolve_period_close_page_limit limit =
     resolve_bounded_page_limit limit ''Supply a period-close page_limit, then retry the period-close list.''"

definition resolve_outbox_page_limit :: "int option \<Rightarrow> int result" where
  "resolve_outbox_page_limit limit =
     resolve_bounded_page_limit limit ''Supply an outbox-event page_limit, then retry the outbox read.''"

definition resolve_audit_event_page_limit :: "int option \<Rightarrow> int result" where
  "resolve_audit_event_page_limit limit =
     resolve_bounded_page_limit limit ''Supply an audit-event page_limit, then retry the audit-event read.''"

definition resolve_fiscal_period_list_page_limit :: "int option \<Rightarrow> int result" where
  "resolve_fiscal_period_list_page_limit limit =
     resolve_bounded_page_limit limit ''Supply a fiscal-period-list page_limit, then retry the period list.''"

definition resolve_account_balance_page_limit :: "int option \<Rightarrow> int result" where
  "resolve_account_balance_page_limit limit =
     resolve_bounded_page_limit limit ''Supply an account-balance page_limit, then retry the account-balance read.''"

definition resolve_account_ledger_page_limit :: "int option \<Rightarrow> int result" where
  "resolve_account_ledger_page_limit limit =
     resolve_bounded_page_limit limit ''Supply an account-ledger page_limit, then retry the account-ledger read.''"

section \<open>Timestamps\<close>

text \<open>The writer; \<open>astimezone\<close> may overflow the calendar.\<close>

definition format_timestamp :: "datetime \<Rightarrow> string result" where
  "format_timestamp value =
     (case to_utc value of
        None \<Rightarrow> Inl OverflowError
      | Some u \<Rightarrow> Inr (replace_text ''+00:00'' ''Z'' (utc_isoformat u)))"

text \<open>\<open>datetime.fromisoformat(text.replace("Z", "+00:00"))\<close>\<close>

definition read_timestamp :: "string \<Rightarrow> datetime option" where
  "read_timestamp s = datetime_fromisoformat (replace_text ''Z'' ''+00:00'' s)"

definition msg_utc_offset :: "string \<Rightarrow> string \<Rightarrow> string" where
  "msg_utc_offset field_name next_action = field_name @ '' must include a UTC offset. '' @ next_action"

definition require_aware_timestamp :: "datetime \<Rightarrow> string \<Rightarrow> string \<Rightarrow> datetime result" where
  "require_aware_timestamp value field_name next_action =
     (if dt_offset value = None then Inl (validation_error (msg_utc_offset field_name next_action)) else Inr value)"

section \<open>Cursors\<close>

text \<open>
  The two parts of a cursor around its first bar: both must be there and non-empty.
\<close>

definition cursor_halves :: "string \<Rightarrow> (string \<times> string) option" where
  "cursor_halves cursor =
     (if CHR ''|'' \<notin> set cursor then None
      else (case split_once (CHR ''|'') cursor of
              (a, b) \<Rightarrow> if a = [] \<or> b = [] then None else Some (a, b)))"

definition msg_journal_list_cursor :: string where
  "msg_journal_list_cursor =
     ''cursor must be accounting_date|journal_reference. '' @
     ''Supply a journal-list cursor, then retry the journal list.''"

definition parse_journal_list_cursor :: "string \<Rightarrow> (date \<times> string) option result" where
  "parse_journal_list_cursor cursor =
     (if cursor = [] then Inr None
      else case cursor_halves cursor of
             None \<Rightarrow> Inl (validation_error msg_journal_list_cursor)
           | Some (date_text, journal_reference) \<Rightarrow>
               (case date_fromisoformat date_text of
                  None \<Rightarrow> Inl (validation_error msg_journal_list_cursor)
                | Some accounting_date \<Rightarrow> Inr (Some (accounting_date, journal_reference))))"

definition msg_fiscal_period_cursor :: string where
  "msg_fiscal_period_cursor =
     ''cursor must be period_start_date|period_code. '' @
     ''Supply a fiscal-period-list cursor, then retry the period list.''"

definition parse_fiscal_period_list_cursor :: "string \<Rightarrow> (date \<times> string) option result" where
  "parse_fiscal_period_list_cursor cursor =
     (if cursor = [] then Inr None
      else case cursor_halves cursor of
             None \<Rightarrow> Inl (validation_error msg_fiscal_period_cursor)
           | Some (date_text, period_code) \<Rightarrow>
               (case date_fromisoformat date_text of
                  None \<Rightarrow> Inl (validation_error msg_fiscal_period_cursor)
                | Some period_start_date \<Rightarrow> Inr (Some (period_start_date, period_code))))"

definition msg_reversal_cursor :: string where
  "msg_reversal_cursor =
     ''cursor must be posted_at|journal_reference. '' @
     ''Supply a journal-reversal cursor, then retry the journal-reversal list.''"

definition parse_journal_reversal_cursor :: "string \<Rightarrow> (datetime \<times> string) option result" where
  "parse_journal_reversal_cursor cursor =
     (if cursor = [] then Inr None
      else case cursor_halves cursor of
             None \<Rightarrow> Inl (validation_error msg_reversal_cursor)
           | Some (posted_at_text, journal_reference) \<Rightarrow>
               (case read_timestamp posted_at_text of
                  None \<Rightarrow> Inl (validation_error msg_reversal_cursor)
                | Some posted_at \<Rightarrow>
                    bind_result (require_aware_timestamp posted_at ''cursor posted_at''
                        ''Supply a journal-reversal cursor, then retry the journal-reversal list.'')
                      (\<lambda>aware. Inr (Some (aware, journal_reference)))))"

definition msg_close_cursor :: string where
  "msg_close_cursor =
     ''cursor must be snapshot_generated_at|snapshot_record_id. '' @
     ''Supply a period-close cursor, then retry the period-close list.''"

definition msg_close_cursor_uuid :: string where
  "msg_close_cursor_uuid =
     ''cursor snapshot_record_id must be a UUID. '' @
     ''Supply a period-close cursor, then retry the period-close list.''"

definition parse_period_close_cursor :: "string \<Rightarrow> (datetime \<times> nat) option result" where
  "parse_period_close_cursor cursor =
     (if cursor = [] then Inr None
      else case cursor_halves cursor of
             None \<Rightarrow> Inl (validation_error msg_close_cursor)
           | Some (generated_at_text, record_text) \<Rightarrow>
               (case read_timestamp generated_at_text of
                  None \<Rightarrow> Inl (validation_error msg_close_cursor)
                | Some generated_at \<Rightarrow>
                    bind_result (require_aware_timestamp generated_at ''cursor snapshot_generated_at''
                        ''Supply a period-close cursor, then retry the period-close list.'')
                      (\<lambda>aware. case uuid_of_text record_text of
                         None \<Rightarrow> Inl (validation_error msg_close_cursor_uuid)
                       | Some u \<Rightarrow> Inr (Some (aware, u)))))"

definition msg_outbox_cursor :: string where
  "msg_outbox_cursor =
     ''cursor must be created_at|outbox_event_id. '' @
     ''Supply an outbox-event cursor, then retry the outbox read.''"

definition msg_outbox_cursor_time :: string where
  "msg_outbox_cursor_time =
     ''cursor created_at must be an ISO-8601 timestamp. '' @
     ''Supply an outbox-event cursor, then retry the outbox read.''"

definition msg_outbox_cursor_uuid :: string where
  "msg_outbox_cursor_uuid =
     ''cursor outbox_event_id must be a UUID. '' @
     ''Supply an outbox-event cursor, then retry the outbox read.''"

definition parse_outbox_cursor :: "string \<Rightarrow> (datetime \<times> nat) option result" where
  "parse_outbox_cursor cursor =
     (if cursor = [] then Inr None
      else case cursor_halves cursor of
             None \<Rightarrow> Inl (validation_error msg_outbox_cursor)
           | Some (created_at_text, event_text) \<Rightarrow>
               (case read_timestamp created_at_text of
                  None \<Rightarrow> Inl (validation_error msg_outbox_cursor_time)
                | Some created_at \<Rightarrow>
                    bind_result (require_aware_timestamp created_at ''cursor created_at''
                        ''Supply an outbox-event cursor, then retry the outbox read.'')
                      (\<lambda>aware. case uuid_of_text event_text of
                         None \<Rightarrow> Inl (validation_error msg_outbox_cursor_uuid)
                       | Some u \<Rightarrow> Inr (Some (aware, u)))))"

definition msg_ledger_cursor :: string where
  "msg_ledger_cursor =
     ''cursor must be posted_at|journal_reference|line_number. '' @
     ''Supply an account-ledger cursor, then retry the account-ledger read.''"

definition msg_ledger_cursor_time :: string where
  "msg_ledger_cursor_time =
     ''cursor posted_at must be an ISO-8601 timestamp. '' @
     ''Supply an account-ledger cursor, then retry the account-ledger read.''"

definition msg_ledger_cursor_line :: string where
  "msg_ledger_cursor_line =
     ''cursor line_number must be an integer. '' @
     ''Supply an account-ledger cursor, then retry the account-ledger read.''"

definition parse_account_ledger_cursor :: "string \<Rightarrow> (datetime \<times> string \<times> int) option result" where
  "parse_account_ledger_cursor cursor =
     (if cursor = [] then Inr None
      else case split_on (CHR ''|'') cursor of
             [posted_at_text, journal_reference, line_text] \<Rightarrow>
               if posted_at_text = [] \<or> journal_reference = [] \<or> line_text = []
               then Inl (validation_error msg_ledger_cursor)
               else (case read_timestamp posted_at_text of
                       None \<Rightarrow> Inl (validation_error msg_ledger_cursor_time)
                     | Some posted_at \<Rightarrow>
                         bind_result (require_aware_timestamp posted_at ''cursor posted_at''
                             ''Supply an account-ledger cursor, then retry the account-ledger read.'')
                           (\<lambda>aware. case int_of_text 10 line_text of
                              None \<Rightarrow> Inl (validation_error msg_ledger_cursor_line)
                            | Some n \<Rightarrow> Inr (Some (aware, journal_reference, n))))
           | _ \<Rightarrow> Inl (validation_error msg_ledger_cursor))"

end
