(* ===== verification/Ledger_Service.thy ===== *)
theory Ledger_Service
  imports Paging
begin

text \<open>
  What the command and read functions of \<open>accept.py\<close> ask of the persistent ledger
  (\<open>PostgresPostingLedger\<close>): one field per operation that changes state, and one datatype of the
  reads. The operations act on a world, the database, and are a parameter of the model; opening the
  ledger binds it to a tenant.
\<close>

section \<open>Commands\<close>

record adjusting_command =
  ac_legal_entity_reference :: string
  ac_book_reference :: string
  ac_period_code :: string
  ac_journal_date :: date
  ac_idempotency_key :: string
  ac_source_payload_hash :: string
  ac_proposal_id :: string
  ac_transaction_currency :: string
  ac_lines :: "posted_journal_line list"

record close_command =
  cc_legal_entity_reference :: string
  cc_book_reference :: string
  cc_period_code :: string
  cc_snapshot_currency_code :: string
  cc_period_status_code :: string
  cc_idempotency_key :: string

record open_command =
  oc_legal_entity_reference :: string
  oc_period_code :: string
  oc_period_start_date :: "date option"
  oc_period_end_date :: "date option"
  oc_idempotency_key :: string
  oc_source_payload_hash :: string

record home_tax_record =
  ht_legal_entity_reference :: string
  ht_book_reference :: string
  ht_period_code :: string
  ht_idempotency_key :: string
  ht_source_payload_hash :: string
  ht_source_payload_reference :: string
  ht_register_document :: payload
  ht_rejection_reason_code :: string

text \<open>\<open>PeriodCloseReceipt\<close>.\<close>

record period_close_receipt =
  pc_tenant_reference :: string
  pc_legal_entity_reference :: string
  pc_book_reference :: string
  pc_period_code :: string
  pc_period_status_code :: string
  pc_snapshot_record_id :: string
  pc_snapshot_generated_at :: datetime
  pc_source_journal_count :: int
  pc_source_payload_hash :: string
  pc_replayed :: bool

section \<open>Reads\<close>

datatype ledger_query =
    Published_Receipt_By_Key string
  | Fiscal_Period string string
  | Fiscal_Periods string int "(date \<times> string) option"
  | Account_Rollforward string string string string string
  | Unapplied_Cash_Rollforward string string string
  | Vat_Period_Register string string string
  | Home_Tax_Submissions string string string
  | Account_Balances string string string string int string
  | Receivable_Aging string string string string
  | Payable_Aging string string string string
  | Account_Ledger string string string int "(datetime \<times> string \<times> int) option"
  | Period_Journals string string string int "(date \<times> string) option" string
  | Journal_Reversals string string string int "(datetime \<times> string) option"
  | Period_Closes string string string int "(datetime \<times> nat) option"
  | Unpublished_Outbox_Events string int "(datetime \<times> nat) option"
  | Audit_Events string int "(datetime \<times> nat) option"
  | Posted_Journal string string
  | Account_Role_Mappings string string
  | Legal_Entities
  | Accounting_Books string
  | Chart_Accounts string string
  | Period_Trial_Balance string string string string
  | Financial_Statement string string string string string string
  | Financial_Statement_Package string string string string string
  | Period_Close_Package string string string string string

section \<open>The ledger\<close>

record 'w postgres_ledger =
  run_post_proposal :: "journal_proposal \<Rightarrow> ('w, unit) io"
  run_published_receipt :: "journal_proposal \<Rightarrow> ('w, payload) io"
  run_post_adjusting :: "adjusting_command \<Rightarrow> ('w, unit) io"
  run_reversal_policy :: "string \<Rightarrow> date \<Rightarrow> ('w, accounting_policy) io"
  run_reverse :: "string \<Rightarrow> date \<Rightarrow> string \<Rightarrow> accounting_policy \<Rightarrow> string \<Rightarrow> ('w, unit) io"
  run_close_period :: "close_command \<Rightarrow> ('w, period_close_receipt) io"
  run_open_period :: "open_command \<Rightarrow> ('w, payload) io"
  run_persist_home_tax :: "home_tax_record \<Rightarrow> ('w, payload) io"
  run_publish_outbox_event :: "string \<Rightarrow> ('w, payload) io"
  run_query :: "ledger_query \<Rightarrow> ('w, payload) io"

text \<open>A database: its address, and the ledger of each tenant.\<close>

record 'w database =
  db_url :: string
  db_ledger :: "string \<Rightarrow> 'w postgres_ledger"

definition msg_database_url :: string where
  "msg_database_url =
     ''ACCOUNTING_DATABASE_URL is empty. Set a PostgreSQL 18 URL and retry posting.''"

text \<open>\<open>PostgresPostingLedger(database_url, tenant_reference)\<close>.\<close>

definition open_ledger :: "'w database \<Rightarrow> string \<Rightarrow> 'w postgres_ledger result" where
  "open_ledger db tenant =
     bind_result (require (db_url db \<noteq> []) (validation_error msg_database_url)) (\<lambda>_.
     bind_result (require_reference tenant ''tenant reference'') (\<lambda>_. Inr (db_ledger db tenant)))"

definition with_ledger :: "'w database \<Rightarrow> string \<Rightarrow> ('w postgres_ledger \<Rightarrow> ('w, 'a) io) \<Rightarrow> ('w, 'a) io" where
  "with_ledger db tenant f = io_bind (io_lift (open_ledger db tenant)) f"

lemma with_ledger_Inr_iff:
  "with_ledger db tenant f w = (w', Inr x) \<longleftrightarrow>
     db_url db \<noteq> [] \<and> reference_pattern tenant \<and> f (db_ledger db tenant) w = (w', Inr x)"
  by (auto simp: with_ledger_def open_ledger_def require_reference_def require_def io_bind_def io_lift_def
      split: prod.splits sum.splits)

end
