(* ===== verification/Accept_Lookups.thy ===== *)
theory Accept_Lookups
  imports Ledger_Service
begin

text \<open>
  The read functions of \<open>accept.py\<close>: each checks its arguments, opens the ledger of the tenant,
  resolves page limit and cursor, and runs one read.
\<close>

section \<open>Shared parts\<close>

definition fiscal_period_prefix :: string where
  "fiscal_period_prefix = ''urn:cwl:accounting:fiscal_period:''"

definition period_code_from_reference :: "string \<Rightarrow> string" where
  "period_code_from_reference value =
     (if starts_with fiscal_period_prefix value then drop (length fiscal_period_prefix) value else value)"

definition allowed_outbox_event_type_codes :: "string list" where
  "allowed_outbox_event_type_codes = [''posting_receipt'', ''period_close'', ''journal_reversal'']"

text \<open>Most reads name the same required fields.\<close>

definition msg_scope :: "string \<Rightarrow> string \<Rightarrow> string" where
  "msg_scope fields_of action =
     ''legal_entity_reference, book_reference, and fiscal_period_reference are required. Supply those '' @
     fields_of @ '' fields, then retry the '' @ action @ ''.''"

definition msg_entity :: "string \<Rightarrow> string \<Rightarrow> string" where
  "msg_entity field_of action =
     ''legal_entity_reference is required. Supply that '' @ field_of @ '' field, then retry the '' @ action @ ''.''"

definition msg_account :: "string \<Rightarrow> string \<Rightarrow> string" where
  "msg_account field_of action =
     ''chart_account_code is required. Supply that '' @ field_of @ '' field, then retry the '' @ action @ ''.''"

definition msg_statement_scope :: "string \<Rightarrow> string" where
  "msg_statement_scope action =
     ''statement_scope_code must be period or year_to_date. Supply a known statement scope, then retry the '' @
     action @ ''.''"

definition require_scope :: "string \<Rightarrow> string \<Rightarrow> string \<Rightarrow> string \<Rightarrow> string \<Rightarrow> unit result" where
  "require_scope entity book period fields_of action =
     require (entity \<noteq> [] \<and> book \<noteq> [] \<and> period \<noteq> []) (validation_error (msg_scope fields_of action))"

definition require_choice :: "string \<Rightarrow> string list \<Rightarrow> string \<Rightarrow> unit result" where
  "require_choice value allowed msg = require (value = [] \<or> value \<in> set allowed) (validation_error msg)"

text \<open>Check, open the ledger, build the read, run it.\<close>

definition lookup :: "'w database \<Rightarrow> string \<Rightarrow> unit result \<Rightarrow> ledger_query result \<Rightarrow> ('w, payload) io" where
  "lookup db tenant checks query =
     io_bind (io_lift checks) (\<lambda>_.
     with_ledger db tenant (\<lambda>ledger. io_bind (io_lift query) (run_query ledger)))"

section \<open>Receipts and journals\<close>

definition msg_receipt_key :: string where
  "msg_receipt_key =
     ''idempotency key is required. Supply the Billing idempotency key, then retry the receipt read.''"

definition lookup_published_receipt :: "'w database \<Rightarrow> string \<Rightarrow> string \<Rightarrow> ('w, payload) io" where
  "lookup_published_receipt db tenant idempotency_key =
     lookup db tenant (require (idempotency_key \<noteq> []) (validation_error msg_receipt_key))
       (Inr (Published_Receipt_By_Key idempotency_key))"

definition msg_journal_identity :: string where
  "msg_journal_identity =
     ''idempotency_key or journal_reference is required. '' @
     ''Supply the Billing key or the posted journal reference, then retry the journal read.''"

definition lookup_posted_journal :: "'w database \<Rightarrow> string \<Rightarrow> string \<Rightarrow> string \<Rightarrow> ('w, payload) io" where
  "lookup_posted_journal db tenant idempotency_key journal_reference =
     lookup db tenant
       (require (idempotency_key \<noteq> [] \<or> journal_reference \<noteq> []) (validation_error msg_journal_identity))
       (Inr (Posted_Journal idempotency_key journal_reference))"

definition msg_journal_source :: string where
  "msg_journal_source =
     ''journal_source_code must be billing, adjusting, period_closing, or reversal. '' @
     ''Supply a known journal source, then retry the journal list.''"

definition lookup_period_journals ::
    "'w database \<Rightarrow> string \<Rightarrow> string \<Rightarrow> string \<Rightarrow> string \<Rightarrow> int option \<Rightarrow> string \<Rightarrow> string \<Rightarrow> ('w, payload) io" where
  "lookup_period_journals db tenant entity book period limit cursor source =
     lookup db tenant
       (bind_result (require_scope entity book period ''journal-list'' ''journal list'') (\<lambda>_.
          require_choice source [''billing'', ''adjusting'', ''period_closing'', ''reversal''] msg_journal_source))
       (bind_result (resolve_journal_list_page_limit limit) (\<lambda>n.
        bind_result (parse_journal_list_cursor cursor) (\<lambda>after.
          Inr (Period_Journals entity book (period_code_from_reference period) n after source))))"

definition lookup_journal_reversals ::
    "'w database \<Rightarrow> string \<Rightarrow> string \<Rightarrow> string \<Rightarrow> string \<Rightarrow> int option \<Rightarrow> string \<Rightarrow> ('w, payload) io" where
  "lookup_journal_reversals db tenant entity original period limit cursor =
     lookup db tenant
       (require (entity \<noteq> []) (validation_error (msg_entity ''journal-reversal list'' ''journal-reversal list'')))
       (bind_result (resolve_journal_reversal_page_limit limit) (\<lambda>n.
        bind_result (parse_journal_reversal_cursor cursor) (\<lambda>after.
          Inr (Journal_Reversals entity original (period_code_from_reference period) n after))))"

section \<open>Periods\<close>

definition msg_period_read :: string where
  "msg_period_read =
     ''legal_entity_reference and fiscal_period_reference are required. '' @
     ''Supply those period fields, then retry the period read.''"

definition lookup_fiscal_period :: "'w database \<Rightarrow> string \<Rightarrow> string \<Rightarrow> string \<Rightarrow> ('w, payload) io" where
  "lookup_fiscal_period db tenant entity period =
     lookup db tenant (require (entity \<noteq> [] \<and> period \<noteq> []) (validation_error msg_period_read))
       (Inr (Fiscal_Period entity (period_code_from_reference period)))"

definition lookup_fiscal_periods ::
    "'w database \<Rightarrow> string \<Rightarrow> string \<Rightarrow> int option \<Rightarrow> string \<Rightarrow> ('w, payload) io" where
  "lookup_fiscal_periods db tenant entity limit cursor =
     lookup db tenant (require (entity \<noteq> []) (validation_error (msg_entity ''period-list'' ''period list'')))
       (bind_result (resolve_fiscal_period_list_page_limit limit) (\<lambda>n.
        bind_result (parse_fiscal_period_list_cursor cursor) (\<lambda>after. Inr (Fiscal_Periods entity n after))))"

definition msg_close_status :: string where
  "msg_close_status =
     ''period_status_code must be soft_closed or hard_closed. '' @
     ''Supply a known period_status_code, then retry the period-close list.''"

definition lookup_period_closes ::
    "'w database \<Rightarrow> string \<Rightarrow> string \<Rightarrow> string \<Rightarrow> string \<Rightarrow> int option \<Rightarrow> string \<Rightarrow> ('w, payload) io" where
  "lookup_period_closes db tenant entity period status limit cursor =
     lookup db tenant
       (bind_result (require (entity \<noteq> []) (validation_error (msg_entity ''period-close list'' ''period-close list''))) (\<lambda>_.
          require_choice status [''soft_closed'', ''hard_closed''] msg_close_status))
       (bind_result (resolve_period_close_page_limit limit) (\<lambda>n.
        bind_result (parse_period_close_cursor cursor) (\<lambda>after.
          Inr (Period_Closes entity (period_code_from_reference period) status n after))))"

section \<open>Balances and statements\<close>

definition lookup_account_rollforward ::
    "'w database \<Rightarrow> string \<Rightarrow> string \<Rightarrow> string \<Rightarrow> string \<Rightarrow> string \<Rightarrow> string \<Rightarrow> ('w, payload) io" where
  "lookup_account_rollforward db tenant entity book period account scope =
     lookup db tenant
       (bind_result (require_scope entity book period ''account-rollforward'' ''account-rollforward read'') (\<lambda>_.
        bind_result (require (account \<noteq> [])
            (validation_error (msg_account ''account-rollforward'' ''account-rollforward read''))) (\<lambda>_.
          require_choice scope [''period'', ''year_to_date''] (msg_statement_scope ''account-rollforward read''))))
       (Inr (Account_Rollforward entity book (period_code_from_reference period) account scope))"

definition lookup_unapplied_cash_rollforward ::
    "'w database \<Rightarrow> string \<Rightarrow> string \<Rightarrow> string \<Rightarrow> string \<Rightarrow> ('w, payload) io" where
  "lookup_unapplied_cash_rollforward db tenant entity book period =
     lookup db tenant
       (require_scope entity book period ''unapplied-cash-rollforward'' ''unapplied-cash-rollforward read'')
       (Inr (Unapplied_Cash_Rollforward entity book (period_code_from_reference period)))"

definition lookup_vat_period_register ::
    "'w database \<Rightarrow> string \<Rightarrow> string \<Rightarrow> string \<Rightarrow> string \<Rightarrow> ('w, payload) io" where
  "lookup_vat_period_register db tenant entity book period =
     lookup db tenant (require_scope entity book period ''vat-period-register'' ''vat-period-register read'')
       (Inr (Vat_Period_Register entity book (period_code_from_reference period)))"

definition lookup_home_tax_submissions ::
    "'w database \<Rightarrow> string \<Rightarrow> string \<Rightarrow> string \<Rightarrow> string \<Rightarrow> ('w, payload) io" where
  "lookup_home_tax_submissions db tenant entity book period =
     lookup db tenant (require_scope entity book period ''home-tax-submission'' ''home-tax-submission read'')
       (Inr (Home_Tax_Submissions entity book (period_code_from_reference period)))"

definition lookup_account_balances ::
    "'w database \<Rightarrow> string \<Rightarrow> string \<Rightarrow> string \<Rightarrow> string \<Rightarrow> string \<Rightarrow> int option \<Rightarrow> string \<Rightarrow> ('w, payload) io" where
  "lookup_account_balances db tenant entity book period account limit cursor =
     lookup db tenant (require_scope entity book period ''account-balance'' ''account-balance read'')
       (bind_result (resolve_account_balance_page_limit limit) (\<lambda>n.
          Inr (Account_Balances entity book (period_code_from_reference period) account n cursor)))"

definition lookup_receivable_aging ::
    "'w database \<Rightarrow> string \<Rightarrow> string \<Rightarrow> string \<Rightarrow> string \<Rightarrow> string \<Rightarrow> ('w, payload) io" where
  "lookup_receivable_aging db tenant entity book period account =
     lookup db tenant (require_scope entity book period ''receivable-aging'' ''receivable-aging read'')
       (Inr (Receivable_Aging entity book (period_code_from_reference period) account))"

definition lookup_payable_aging ::
    "'w database \<Rightarrow> string \<Rightarrow> string \<Rightarrow> string \<Rightarrow> string \<Rightarrow> string \<Rightarrow> ('w, payload) io" where
  "lookup_payable_aging db tenant entity book period account =
     lookup db tenant (require_scope entity book period ''payable-aging'' ''payable-aging read'')
       (Inr (Payable_Aging entity book (period_code_from_reference period) account))"

definition lookup_account_ledger ::
    "'w database \<Rightarrow> string \<Rightarrow> string \<Rightarrow> string \<Rightarrow> string \<Rightarrow> int option \<Rightarrow> string \<Rightarrow> ('w, payload) io" where
  "lookup_account_ledger db tenant entity account period limit cursor =
     lookup db tenant
       (bind_result (require (entity \<noteq> []) (validation_error (msg_entity ''ledger'' ''account-ledger read''))) (\<lambda>_.
          require (account \<noteq> []) (validation_error (msg_account ''ledger'' ''account-ledger read''))))
       (bind_result (resolve_account_ledger_page_limit limit) (\<lambda>n.
        bind_result (parse_account_ledger_cursor cursor) (\<lambda>after. Inr (Account_Ledger entity account period n after))))"

definition msg_balance_basis :: string where
  "msg_balance_basis =
     ''balance_basis_code must be unadjusted, adjusted, or post_close. '' @
     ''Supply a known trial-balance basis, then retry the trial-balance read.''"

definition lookup_trial_balance ::
    "'w database \<Rightarrow> string \<Rightarrow> string \<Rightarrow> string \<Rightarrow> string \<Rightarrow> string \<Rightarrow> ('w, payload) io" where
  "lookup_trial_balance db tenant entity book period basis =
     lookup db tenant
       (bind_result (require_scope entity book period ''trial-balance'' ''trial-balance read'') (\<lambda>_.
          require_choice basis [''unadjusted'', ''adjusted'', ''post_close''] msg_balance_basis))
       (Inr (Period_Trial_Balance entity book (period_code_from_reference period) basis))"

definition msg_statement_type :: string where
  "msg_statement_type =
     ''statement_type_code must be income_statement, balance_sheet, changes_in_equity, or cash_flow. '' @
     ''Supply a known statement type, then retry the financial-statement read.''"

definition lookup_financial_statement ::
    "'w database \<Rightarrow> string \<Rightarrow> string \<Rightarrow> string \<Rightarrow> string \<Rightarrow> string \<Rightarrow> string \<Rightarrow> string \<Rightarrow> ('w, payload) io" where
  "lookup_financial_statement db tenant entity book period type_code comparison scope =
     lookup db tenant
       (bind_result (require_scope entity book period ''financial-statement'' ''financial-statement read'') (\<lambda>_.
        bind_result (require (type_code \<in> {''income_statement'', ''balance_sheet'', ''changes_in_equity'', ''cash_flow''})
            (validation_error msg_statement_type)) (\<lambda>_.
          require_choice scope [''period'', ''year_to_date''] (msg_statement_scope ''financial-statement read''))))
       (Inr (Financial_Statement entity book (period_code_from_reference period) type_code
          (period_code_from_reference comparison) scope))"

definition lookup_financial_statement_package ::
    "'w database \<Rightarrow> string \<Rightarrow> string \<Rightarrow> string \<Rightarrow> string \<Rightarrow> string \<Rightarrow> string \<Rightarrow> ('w, payload) io" where
  "lookup_financial_statement_package db tenant entity book period comparison scope =
     lookup db tenant
       (bind_result (require_scope entity book period ''financial-statement-package'' ''financial-statement-package read'') (\<lambda>_.
          require_choice scope [''period'', ''year_to_date''] (msg_statement_scope ''financial-statement-package read'')))
       (Inr (Financial_Statement_Package entity book (period_code_from_reference period)
          (period_code_from_reference comparison) scope))"

definition lookup_period_close_package ::
    "'w database \<Rightarrow> string \<Rightarrow> string \<Rightarrow> string \<Rightarrow> string \<Rightarrow> string \<Rightarrow> string \<Rightarrow> ('w, payload) io" where
  "lookup_period_close_package db tenant entity book period comparison scope =
     lookup db tenant
       (bind_result (require_scope entity book period ''period-close-package'' ''period-close-package read'') (\<lambda>_.
          require_choice scope [''period'', ''year_to_date''] (msg_statement_scope ''period-close-package read'')))
       (Inr (Period_Close_Package entity book (period_code_from_reference period)
          (period_code_from_reference comparison) scope))"

section \<open>Events and catalogue\<close>

definition msg_outbox_type :: string where
  "msg_outbox_type =
     ''event_type_code must be posting_receipt, period_close, or journal_reversal. '' @
     ''Supply a supported outbox event_type_code, then retry the outbox read.''"

definition lookup_outbox_events ::
    "'w database \<Rightarrow> string \<Rightarrow> string \<Rightarrow> int option \<Rightarrow> string \<Rightarrow> ('w, payload) io" where
  "lookup_outbox_events db tenant event_type limit cursor =
     lookup db tenant
       (require (event_type \<in> set allowed_outbox_event_type_codes) (validation_error msg_outbox_type))
       (bind_result (resolve_outbox_page_limit limit) (\<lambda>n.
        bind_result (parse_outbox_cursor cursor) (\<lambda>after. Inr (Unpublished_Outbox_Events event_type n after))))"

definition msg_audit_type :: string where
  "msg_audit_type =
     ''event_type_code must be posting_receipt, period_close, or journal_reversal. '' @
     ''Supply a supported audit event_type_code, then retry the audit-event read.''"

definition lookup_audit_events ::
    "'w database \<Rightarrow> string \<Rightarrow> string \<Rightarrow> int option \<Rightarrow> string \<Rightarrow> ('w, payload) io" where
  "lookup_audit_events db tenant event_type limit cursor =
     lookup db tenant (require_choice event_type allowed_outbox_event_type_codes msg_audit_type)
       (bind_result (resolve_audit_event_page_limit limit) (\<lambda>n.
        bind_result (parse_outbox_cursor cursor) (\<lambda>after. Inr (Audit_Events event_type n after))))"

definition msg_mapping_read :: string where
  "msg_mapping_read =
     ''legal_entity_reference and book_reference are required. '' @
     ''Supply those catalog fields, then retry the mapping read.''"

definition lookup_account_role_mappings :: "'w database \<Rightarrow> string \<Rightarrow> string \<Rightarrow> string \<Rightarrow> ('w, payload) io" where
  "lookup_account_role_mappings db tenant entity book =
     lookup db tenant (require (entity \<noteq> [] \<and> book \<noteq> []) (validation_error msg_mapping_read))
       (Inr (Account_Role_Mappings entity book))"

definition lookup_legal_entities :: "'w database \<Rightarrow> string \<Rightarrow> ('w, payload) io" where
  "lookup_legal_entities db tenant = lookup db tenant (Inr ()) (Inr Legal_Entities)"

definition lookup_accounting_books :: "'w database \<Rightarrow> string \<Rightarrow> string \<Rightarrow> ('w, payload) io" where
  "lookup_accounting_books db tenant entity =
     lookup db tenant (require (entity \<noteq> []) (validation_error (msg_entity ''catalog'' ''accounting-book list'')))
       (Inr (Accounting_Books entity))"

definition msg_chart_read :: string where
  "msg_chart_read =
     ''legal_entity_reference and book_reference are required. '' @
     ''Supply those catalog fields, then retry the chart-account read.''"

definition lookup_chart_accounts :: "'w database \<Rightarrow> string \<Rightarrow> string \<Rightarrow> string \<Rightarrow> ('w, payload) io" where
  "lookup_chart_accounts db tenant entity book =
     lookup db tenant (require (entity \<noteq> [] \<and> book \<noteq> []) (validation_error msg_chart_read))
       (Inr (Chart_Accounts entity book))"

end
