(* ===== verification/Url.thy ===== *)
theory Url
  imports Python_Value
begin

text \<open>
  The parts of \<open>urllib.parse\<close> and \<open>ipaddress\<close> (Python 3.13) that the billing pull relies on:
  splitting a URL, the host, port and user information of its network location, reading IPv4 and
  IPv6 addresses, and the query encoding. A \<open>ValueError\<close> is \<open>None\<close>.
\<close>

section \<open>Text helpers\<close>

definition has_char :: "char \<Rightarrow> string \<Rightarrow> bool" where
  "has_char c s \<longleftrightarrow> c \<in> set s"

text \<open>\<open>s.partition(c)\<close> without the separator, and the part after the last \<open>c\<close>.\<close>

definition before_char :: "char \<Rightarrow> string \<Rightarrow> string" where
  "before_char c s = takeWhile (\<lambda>d. d \<noteq> c) s"

definition after_char :: "char \<Rightarrow> string \<Rightarrow> string" where
  "after_char c s = drop 1 (dropWhile (\<lambda>d. d \<noteq> c) s)"

definition after_last :: "char \<Rightarrow> string \<Rightarrow> string" where
  "after_last c s = rev (takeWhile (\<lambda>d. d \<noteq> c) (rev s))"

definition before_last :: "char \<Rightarrow> string \<Rightarrow> string" where
  "before_last c s = rev (drop 1 (dropWhile (\<lambda>d. d \<noteq> c) (rev s)))"

definition lower_latin :: "char \<Rightarrow> char" where
  "lower_latin c =
     (if is_upper c \<or> (192 \<le> code c \<and> code c \<le> 222 \<and> code c \<noteq> 215) then char_of (code c + 32) else c)"

definition py_lower :: "string \<Rightarrow> string" where
  "py_lower s = map lower_latin s"

section \<open>Addresses\<close>

definition ipv4_octet :: "string \<Rightarrow> nat option" where
  "ipv4_octet s =
     (if s = [] \<or> \<not> list_all is_digit s \<or> length s > 3 \<or> (s \<noteq> ''0'' \<and> hd s = CHR ''0'') \<or> digits_value s > 255
      then None else Some (digits_value s))"

definition ipv4_octets :: "string \<Rightarrow> nat list option" where
  "ipv4_octets s =
     (let parts = map ipv4_octet (split_on (CHR ''.'') s)
      in if length parts \<noteq> 4 \<or> None \<in> set parts \<or> has_char (CHR ''/'') s then None else Some (map the parts))"

definition hex_digit_value :: "char \<Rightarrow> nat" where
  "hex_digit_value c =
     (if is_digit c then code c - 48 else if is_lower c then code c - 87 else code c - 55)"

definition hextet :: "string \<Rightarrow> nat option" where
  "hextet s =
     (if s = [] \<or> \<not> list_all is_hex s \<or> length s > 4 then None
      else Some (foldl (\<lambda>n c. 16 * n + hex_digit_value c) 0 s))"

text \<open>The last part may be an IPv4 address: it counts as two parts.\<close>

definition ipv6_parts :: "string \<Rightarrow> (string list \<times> nat list) option" where
  "ipv6_parts s =
     (let parts = split_on (CHR '':'') s in
      if s = [] \<or> length parts < 3 then None
      else if has_char (CHR ''.'') (last parts)
      then map_option (\<lambda>q. (butlast parts,
             [(q ! 0) * 256 + q ! 1, (q ! 2) * 256 + q ! 3])) (ipv4_octets (last parts))
      else Some (parts, []))"

definition gap_indices :: "bool list \<Rightarrow> nat list" where
  "gap_indices empties = filter (\<lambda>i. empties ! i) [1..<length empties - 1]"

definition ipv6_hextets :: "string \<Rightarrow> nat list option" where
  "ipv6_hextets s =
     (case ipv6_parts s of
        None \<Rightarrow> None
      | Some (parts, tail) \<Rightarrow>
          let n = length parts + length tail;
              empties = map (\<lambda>p. p = []) parts @ map (\<lambda>_. False) tail;
              values = map hextet parts @ map Some tail
          in if n > 9 then None
             else (case gap_indices empties of
                 [] \<Rightarrow> if n \<noteq> 8 \<or> None \<in> set values then None else Some (map the values)
               | [i] \<Rightarrow>
                   (let hi = (if empties ! 0 then i - 1 else i);
                        lo = (if last empties then n - i - 2 else n - i - 1);
                        high = take hi values; low = drop (n - lo) values
                    in if (empties ! 0 \<and> hi \<noteq> 0) \<or> (last empties \<and> lo \<noteq> 0) \<or> hi + lo > 7 \<or>
                          None \<in> set high \<or> None \<in> set low
                       then None
                       else Some (map the high @ replicate (8 - (hi + lo)) 0 @ map the low))
               | _ \<Rightarrow> None))"

datatype ip_address = IPv4 "nat list" | IPv6 "nat list"

definition ipv6_scope_ok :: "string \<Rightarrow> bool" where
  "ipv6_scope_ok s \<longleftrightarrow>
     \<not> has_char (CHR ''%'') s \<or> (after_char (CHR ''%'') s \<noteq> [] \<and> \<not> has_char (CHR ''%'') (after_char (CHR ''%'') s))"

definition read_ip_address :: "string \<Rightarrow> ip_address option" where
  "read_ip_address s =
     (case ipv4_octets s of
        Some q \<Rightarrow> Some (IPv4 q)
      | None \<Rightarrow>
          if has_char (CHR ''/'') s \<or> \<not> ipv6_scope_ok s then None
          else map_option IPv6 (ipv6_hextets (before_char (CHR ''%'') s)))"

definition mapped_ipv4 :: "nat list \<Rightarrow> nat list option" where
  "mapped_ipv4 h =
     (if take 6 h = [0, 0, 0, 0, 0, 65535]
      then Some [(h ! 6) div 256, (h ! 6) mod 256, (h ! 7) div 256, (h ! 7) mod 256] else None)"

fun is_loopback :: "ip_address \<Rightarrow> bool" where
  "is_loopback (IPv4 q) = (q ! 0 = 127)"
| "is_loopback (IPv6 h) =
     (case mapped_ipv4 h of Some q \<Rightarrow> q ! 0 = 127 | None \<Rightarrow> h = [0, 0, 0, 0, 0, 0, 0, 1])"

fun is_link_local :: "ip_address \<Rightarrow> bool" where
  "is_link_local (IPv4 q) = (q ! 0 = 169 \<and> q ! 1 = 254)"
| "is_link_local (IPv6 h) =
     (case mapped_ipv4 h of
        Some q \<Rightarrow> q ! 0 = 169 \<and> q ! 1 = 254
      | None \<Rightarrow> (h ! 0) div 64 = 1018)"

section \<open>URLs\<close>

record parsed_url =
  url_scheme :: string
  url_netloc :: string
  url_path :: string
  url_params :: string
  url_query :: string
  url_fragment :: string

definition scheme_char :: "char \<Rightarrow> bool" where
  "scheme_char c \<longleftrightarrow> is_lower c \<or> is_upper c \<or> is_digit c \<or> c \<in> set ''+-.''"

definition split_scheme :: "string \<Rightarrow> string \<times> string" where
  "split_scheme url =
     (let s = before_char (CHR '':'') url in
      if has_char (CHR '':'') url \<and> s \<noteq> [] \<and> (is_lower (hd s) \<or> is_upper (hd s)) \<and> list_all scheme_char s
      then (py_lower s, after_char (CHR '':'') url) else ([], url))"

definition after_at :: "string \<Rightarrow> string" where
  "after_at netloc = after_last (CHR ''@'') netloc"

definition ipvfuture :: "string \<Rightarrow> bool" where
  "ipvfuture h \<longleftrightarrow>
     (let digits = takeWhile is_hex (drop 1 h); rest = dropWhile is_hex (drop 1 h)
      in digits \<noteq> [] \<and> starts_with ''.'' rest \<and> length rest > 1 \<and> \<not> has_char CHR 0x0A (drop 1 rest))"

definition bracketed_host_ok :: "string \<Rightarrow> bool" where
  "bracketed_host_ok h \<longleftrightarrow>
     (if starts_with ''v'' h then ipvfuture h
      else case read_ip_address h of Some (IPv6 x) \<Rightarrow> True | _ \<Rightarrow> False)"

definition bracketed_netloc_ok :: "string \<Rightarrow> bool" where
  "bracketed_netloc_ok netloc \<longleftrightarrow>
     (let h = after_at netloc in
      if has_char (CHR ''['') h
      then let b = after_char (CHR ''['') h; port = after_char (CHR '']'') b in
           before_char (CHR ''['') h = [] \<and> (port = [] \<or> hd port = CHR '':'') \<and>
           bracketed_host_ok (before_char (CHR '']'') b)
      else bracketed_host_ok (before_char (CHR '':'') h))"

definition netloc_ok :: "string \<Rightarrow> bool" where
  "netloc_ok netloc \<longleftrightarrow>
     has_char (CHR ''['') netloc = has_char (CHR '']'') netloc \<and>
     (has_char (CHR ''['') netloc \<longrightarrow> bracketed_netloc_ok netloc)"

text \<open>Parameters are split off the last path segment.\<close>

definition split_params :: "string \<Rightarrow> string \<times> string" where
  "split_params path =
     (let seg = after_last (CHR ''/'') path; keep = take (length path - length seg) path in
      if has_char (CHR '';'') seg then (keep @ before_char (CHR '';'') seg, after_char (CHR '';'') seg)
      else (path, []))"

definition uses_params :: "string list" where
  "uses_params = ['''', ''ftp'', ''hdl'', ''prospero'', ''http'', ''imap'', ''https'', ''shttp'', ''rtsp'',
     ''rtsps'', ''rtspu'', ''sip'', ''sips'', ''mms'', ''sftp'', ''tel'']"

definition urlparse :: "string \<Rightarrow> parsed_url option" where
  "urlparse raw =
     (let url = filter (\<lambda>c. c \<notin> {CHR 0x09, CHR 0x0A, CHR 0x0D}) (lstrip_set (\<lambda>c. code c \<le> 32) raw);
          (sch, rest) = split_scheme url;
          slashes = starts_with ''//'' rest;
          stop = (\<lambda>c. c \<in> set ''/?#'');
          netloc = (if slashes then takeWhile (\<lambda>c. \<not> stop c) (drop 2 rest) else []);
          tail = (if slashes then dropWhile (\<lambda>c. \<not> stop c) (drop 2 rest) else rest);
          fragment = after_char (CHR ''#'') tail;
          body = before_char (CHR ''#'') tail;
          query = after_char (CHR ''?'') body;
          path = before_char (CHR ''?'') body;
          (path', params) = (if sch \<in> set uses_params then split_params path else (path, []))
      in if \<not> netloc_ok netloc then None
         else Some \<lparr>url_scheme = sch, url_netloc = netloc, url_path = path', url_params = params,
                    url_query = query, url_fragment = fragment\<rparr>)"

definition host_and_port :: "string \<Rightarrow> string \<times> string" where
  "host_and_port netloc =
     (let h = after_at netloc in
      if has_char (CHR ''['') h
      then let b = after_char (CHR ''['') h in
           (before_char (CHR '']'') b, after_char (CHR '':'') (after_char (CHR '']'') b))
      else (before_char (CHR '':'') h, after_char (CHR '':'') h))"

text \<open>\<open>parsed.hostname\<close>: lower case up to a zone; \<open>None\<close> when empty.\<close>

definition url_hostname :: "parsed_url \<Rightarrow> string option" where
  "url_hostname u =
     (let h = fst (host_and_port (url_netloc u)) in
      if h = [] then None
      else Some (py_lower (before_char (CHR ''%'') h) @ dropWhile (\<lambda>c. c \<noteq> CHR ''%'') h))"

text \<open>\<open>parsed.port\<close>: outer \<open>None\<close> is \<open>ValueError\<close>, inner \<open>None\<close> the absence of a port.\<close>

definition url_port :: "parsed_url \<Rightarrow> nat option option" where
  "url_port u =
     (let p = snd (host_and_port (url_netloc u)) in
      if p = [] then Some None
      else if list_all is_digit p \<and> digits_value p \<le> 65535 then Some (Some (digits_value p)) else None)"

definition url_has_userinfo :: "parsed_url \<Rightarrow> bool" where
  "url_has_userinfo u = has_char (CHR ''@'') (url_netloc u)"

section \<open>Query strings\<close>

definition utf8 :: "char \<Rightarrow> nat list" where
  "utf8 c = (let n = code c in if n < 128 then [n] else [192 + n div 64, 128 + n mod 64])"

definition upper_hex :: "nat \<Rightarrow> char" where
  "upper_hex n = (if n < 10 then char_of (48 + n) else char_of (55 + n))"

definition quote_plus_char :: "char \<Rightarrow> string" where
  "quote_plus_char c =
     (if is_lower c \<or> is_upper c \<or> is_digit c \<or> c \<in> set ''_.-~'' then [c]
      else if c = CHR 0x20 then ''+''
      else concat (map (\<lambda>b. [CHR ''%'', upper_hex (b div 16), upper_hex (b mod 16)]) (utf8 c)))"

definition quote_plus :: "string \<Rightarrow> string" where
  "quote_plus s = concat (map quote_plus_char s)"

definition urlencode :: "(string \<times> string) list \<Rightarrow> string" where
  "urlencode q = join ''&'' (map (\<lambda>(k, v). quote_plus k @ ''='' @ quote_plus v) q)"

end
