(* ===== verification/Sha1.thy ===== *)
theory Sha1
  imports Sha256 Url Python_Number
begin

text \<open>
  SHA-1 over 32-bit words and the name-based UUID of version 5 built on it (\<open>uuid.uuid5\<close>).
\<close>

section \<open>SHA-1\<close>

definition sha1_initial :: "word32 list" where
  "sha1_initial = map of_nat [0x67452301, 0xEFCDAB89, 0x98BADCFE, 0x10325476, 0xC3D2E1F0]"

fun sha1_schedule :: "nat \<Rightarrow> word32 list \<Rightarrow> word32 list" where
  "sha1_schedule 0 w = w"
| "sha1_schedule (Suc n) w =
     (let l = length w in
      sha1_schedule n (w @ [word_rotl 1 (w ! (l - 3) XOR w ! (l - 8) XOR w ! (l - 14) XOR w ! (l - 16))]))"

text \<open>The function and the constant of a round: the roots of 2, 3, 5 and 10, 30 bits after the point.\<close>

definition sha1_constant :: "nat \<Rightarrow> word32" where
  "sha1_constant t = word_of_int (root_bits 2 ([2, 3, 5, 10] ! (t div 20) * 2 ^ 60) 33 0)"

definition sha1_mix :: "nat \<Rightarrow> word32 \<Rightarrow> word32 \<Rightarrow> word32 \<Rightarrow> word32" where
  "sha1_mix t b c d =
     (if t < 20 then sha_ch b c d
      else if 40 \<le> t \<and> t < 60 then majority b c d
      else b XOR c XOR d)"

fun sha1_round :: "word32 list \<Rightarrow> nat \<times> word32 \<Rightarrow> word32 list" where
  "sha1_round [a, b, c, d, e] (t, w) =
     [word_rotl 5 a + sha1_mix t b c d + e + sha1_constant t + w, a, word_rotl 30 b, c, d]"
| "sha1_round s _ = s"

definition sha1_block :: "word32 list \<Rightarrow> word32 list \<Rightarrow> word32 list" where
  "sha1_block s block = map2 (+) s (foldl sha1_round s (zip [0..<80] (sha1_schedule 64 block)))"

function sha1_blocks :: "word32 list \<Rightarrow> word32 list \<Rightarrow> word32 list" where
  "sha1_blocks s ws = (if ws = [] then s else sha1_blocks (sha1_block s (take 16 ws)) (drop 16 ws))"
  by pat_completeness auto
termination
  by (relation "measure (\<lambda>(s, ws). length ws)") auto

declare sha1_blocks.simps [simp del]

definition sha1_hex :: "nat list \<Rightarrow> string" where
  "sha1_hex bytes = concat (map hex_of_word (sha1_blocks sha1_initial (words_of_bytes (pad_message bytes))))"

section \<open>Name-based UUIDs\<close>

definition namespace_url :: "nat list" where
  "namespace_url = [0x6b, 0xa7, 0xb8, 0x11, 0x9d, 0xad, 0x11, 0xd1, 0x80, 0xb4, 0x00, 0xc0, 0x4f, 0xd4, 0x30, 0xc8]"

text \<open>The first 32 digits of the digest with the version and the variant written over them.\<close>

definition uuid5_text :: "nat list \<Rightarrow> string \<Rightarrow> string" where
  "uuid5_text namespace name =
     (let h = take 32 (sha1_hex (namespace @ concat (map utf8 name)));
          h' = h[12 := CHR ''5'', 16 := hex_char (8 + hex_value (h ! 16) mod 4)]
      in take 8 h' @ ''-'' @ take 4 (drop 8 h') @ ''-'' @ take 4 (drop 12 h') @ ''-'' @ take 4 (drop 16 h') @
         ''-'' @ drop 20 h')"

lemma length_sha1_round: "length s = 5 \<Longrightarrow> length (sha1_round s tw) = 5"
  by (cases "(s, tw)" rule: sha1_round.cases) auto

lemma length_sha1_block: "length s = 5 \<Longrightarrow> length (sha1_block s b) = 5"
proof -
  assume "length s = 5"
  moreover have "length s = 5 \<Longrightarrow> length (foldl sha1_round s tws) = 5" for tws
    by (induction tws arbitrary: s) (auto simp: length_sha1_round)
  ultimately show ?thesis by (simp add: sha1_block_def)
qed

lemma length_sha1_blocks: "length s = 5 \<Longrightarrow> length (sha1_blocks s ws) = 5"
proof (induction s ws rule: sha1_blocks.induct)
  case (1 s ws)
  then show ?case by (simp add: sha1_blocks.simps [of s ws] length_sha1_block)
qed

lemma sha1_hex_form: "length (sha1_hex m) = 40 \<and> list_all is_lower_hex (sha1_hex m)"
proof -
  have len: "length (concat (map hex_of_word ws)) = 8 * length ws" for ws
    by (induction ws) (simp_all add: hex_of_word_def)
  have "list_all is_lower_hex (concat (map hex_of_word ws))" for ws
    by (auto simp: list_all_iff hex_of_word_def hex_char_lower)
  then show ?thesis
    by (simp add: sha1_hex_def len length_sha1_blocks sha1_initial_def)
qed

end
