(* ===== verification/Accept_Commands.thy ===== *)
theory Accept_Commands
  imports Accept_Lookups Ingest Sha1
begin

text \<open>
  The commands of \<open>accept.py\<close>: each checks that its payload is an object of the bound tenant, reads and
  checks the fields in the order of the code, and runs the operations of the persistent ledger. An
  environment variable (the HomeTax credential) is an argument.
\<close>

section \<open>Fields\<close>

text \<open>The two checks every command starts with.\<close>

definition command_payload :: "py_value \<Rightarrow> string \<Rightarrow> string \<Rightarrow> string \<Rightarrow> payload result" where
  "command_payload v tenant msg_object msg_tenant =
     (case as_mapping v of
        None \<Rightarrow> Inl (validation_error msg_object)
      | Some p \<Rightarrow> if get_value p ''tenant_reference'' \<noteq> PStr tenant then Inl (validation_error msg_tenant) else Inr p)"

definition period_field :: "payload \<Rightarrow> string" where
  "period_field p = period_code_from_reference (first_field p ''fiscal_period_reference'' ''period_code'')"

section \<open>Journal proposals\<close>

definition msg_proposal_object :: string where
  "msg_proposal_object =
     ''journal proposal payload must be a JSON object. '' @
     ''Supply a Billing accounting_journal_proposal, then retry accept.''"

definition msg_proposal_tenant :: string where
  "msg_proposal_tenant =
     ''proposal tenant_reference does not match the bound tenant. '' @
     ''Call accept_journal_proposal with that tenant_reference, then retry.''"

definition accept_journal_proposal :: "'w database \<Rightarrow> py_value \<Rightarrow> string \<Rightarrow> ('w, payload) io" where
  "accept_journal_proposal db v tenant =
     io_bind (io_lift (bind_result (command_payload v tenant msg_proposal_object msg_proposal_tenant) (\<lambda>_.
                ingest_journal_proposal v))) (\<lambda>proposal.
     with_ledger db tenant (\<lambda>ledger.
     io_bind (run_post_proposal ledger proposal) (\<lambda>_.
       run_published_receipt ledger proposal)))"

section \<open>Adjusting journals\<close>

definition msg_adjusting_object :: string where
  "msg_adjusting_object =
     ''adjusting journal payload must be a JSON object. Supply an AIS adjusting journal, then retry the '' @
     ''journal post.''"

definition msg_adjusting_tenant :: string where
  "msg_adjusting_tenant =
     ''adjusting journal tenant_reference does not match the bound tenant. '' @
     ''Call accept_adjusting_journal with that tenant_reference, then retry.''"

definition msg_adjusting_scope :: string where
  "msg_adjusting_scope =
     ''legal_entity_reference, accounting_book_reference, and fiscal_period_reference are required. '' @
     ''Supply those adjusting-journal fields, then retry the journal post.''"

definition msg_adjusting_key :: string where
  "msg_adjusting_key =
     ''idempotency_key is required. Supply the adjusting-journal idempotency key, then retry the journal post.''"

definition msg_adjusting_description :: string where
  "msg_adjusting_description =
     ''journal_description is required. Supply the adjusting-journal description, then retry the journal post.''"

definition msg_journal_date :: string where
  "msg_journal_date =
     ''journal_date must be an ISO-8601 date. Supply journal_date, then retry the journal post.''"

definition parse_iso_date :: "string \<Rightarrow> string \<Rightarrow> date result" where
  "parse_iso_date value msg =
     (case date_fromisoformat value of None \<Rightarrow> Inl (validation_error msg) | Some d \<Rightarrow> Inr d)"

definition parse_journal_date :: "string \<Rightarrow> date result" where
  "parse_journal_date value = parse_iso_date value msg_journal_date"

definition msg_adjusting_lines :: string where
  "msg_adjusting_lines =
     ''journal_lines must be an array. Supply balanced adjusting journal_lines, then retry the journal post.''"

definition msg_adjusting_two_lines :: string where
  "msg_adjusting_two_lines =
     ''adjusting journal requires at least two lines. '' @
     ''Supply balanced adjusting journal_lines, then retry the journal post.''"

definition msg_adjusting_line_object :: string where
  "msg_adjusting_line_object =
     ''each journal line must be a JSON object. '' @
     ''Supply chart_account_code, debit_credit_code, amount, and currency_code, then retry the journal post.''"

definition msg_adjusting_account :: string where
  "msg_adjusting_account =
     ''chart_account_code is required. Supply a statutory chart_account_code, then retry the journal post.''"

definition msg_adjusting_side :: string where
  "msg_adjusting_side =
     ''debit_credit_code must be debit or credit. Supply debit_credit_code, then retry the journal post.''"

definition msg_adjusting_currency :: string where
  "msg_adjusting_currency =
     ''journal_lines currency_code must match on every line. '' @
     ''Supply one book currency, then retry the journal post.''"

definition msg_adjusting_amount_text :: string where
  "msg_adjusting_amount_text =
     ''amount must be an exact decimal string. '' @
     ''Supply each adjusting-journal amount as a quoted decimal string, then retry the journal post.''"

definition msg_adjusting_amount_positive :: string where
  "msg_adjusting_amount_positive =
     ''amount must be greater than zero. '' @
     ''Supply a positive exact decimal amount, then retry the journal post.''"

definition msg_adjusting_balance :: string where
  "msg_adjusting_balance =
     ''adjusting journal must balance. Correct the journal_lines amounts, then retry the journal post.''"

text \<open>One line: its account, side, currency and amount.\<close>

definition adjusting_line_parts :: "string \<Rightarrow> py_value \<Rightarrow> (string \<times> string \<times> string \<times> dec) result" where
  "adjusting_line_parts currency raw =
     (case as_mapping raw of
        None \<Rightarrow> Inl (validation_error msg_adjusting_line_object)
      | Some p \<Rightarrow>
          let account = text_field p ''chart_account_code'';
              side = text_field p ''debit_credit_code'';
              line_currency = text_field p ''currency_code''
          in bind_result (require (account \<noteq> []) (validation_error msg_adjusting_account)) (\<lambda>_.
             bind_result (require (side \<in> {''debit'', ''credit''}) (validation_error msg_adjusting_side)) (\<lambda>_.
             bind_result (require_currency line_currency) (\<lambda>_.
             bind_result (require (currency = [] \<or> line_currency = currency)
                            (validation_error msg_adjusting_currency)) (\<lambda>_.
             bind_result (require (as_str (get_value p ''amount'') \<noteq> None)
                            (validation_error msg_adjusting_amount_text)) (\<lambda>_.
             bind_result (parse_amount (get_value p ''amount'')) (\<lambda>amount.
             bind_result (require (dec_less dec_zero amount) (validation_error msg_adjusting_amount_positive)) (\<lambda>_.
               Inr (account, side, line_currency, amount)))))))))"

record adjusting_totals =
  at_currency :: string
  at_debit_total :: dec
  at_credit_total :: dec
  at_lines :: "posted_journal_line list"

definition add_adjusting_line :: "adjusting_totals \<Rightarrow> py_value \<Rightarrow> adjusting_totals result" where
  "add_adjusting_line acc raw =
     bind_result (adjusting_line_parts (at_currency acc) raw) (\<lambda>(account, side, currency, amount).
       let debit = (if side = ''debit'' then amount else dec_zero);
           credit = (if side = ''credit'' then amount else dec_zero)
       in Inr \<lparr>at_currency = currency,
               at_debit_total = dec_add (at_debit_total acc) debit,
               at_credit_total = dec_add (at_credit_total acc) credit,
               at_lines = at_lines acc @
                 [\<lparr>pl_line_number = int (length (at_lines acc)) + 1, pl_chart_account_code = account,
                   pl_account_role_code = ''adjusting'', pl_debit_amount = debit, pl_credit_amount = credit\<rparr>]\<rparr>)"

definition parse_adjusting_journal_lines :: "py_value \<Rightarrow> (posted_journal_line list \<times> string) result" where
  "parse_adjusting_journal_lines raw =
     (case raw of
        PList raw_lines \<Rightarrow>
          if length raw_lines < 2 then Inl (validation_error msg_adjusting_two_lines)
          else
            bind_result (fold_result add_adjusting_line
                \<lparr>at_currency = [], at_debit_total = dec_zero, at_credit_total = dec_zero, at_lines = []\<rparr> raw_lines)
              (\<lambda>acc. bind_result (require (dec_eq (at_debit_total acc) (at_credit_total acc))
                                    (validation_error msg_adjusting_balance)) (\<lambda>_.
                 Inr (at_lines acc, at_currency acc)))
      | _ \<Rightarrow> Inl (validation_error msg_adjusting_lines))"

definition adjusting_line_payload :: "string \<Rightarrow> posted_journal_line \<Rightarrow> py_value" where
  "adjusting_line_payload currency line =
     PDict [(''chart_account_code'', PStr (pl_chart_account_code line)),
            (''credit_amount'', PStr (dec_format_f (pl_credit_amount line))),
            (''currency_code'', PStr currency),
            (''debit_amount'', PStr (dec_format_f (pl_debit_amount line)))]"

definition adjusting_journal_payload ::
    "string \<Rightarrow> string \<Rightarrow> string \<Rightarrow> string \<Rightarrow> date \<Rightarrow> string \<Rightarrow> string \<Rightarrow> posted_journal_line list \<Rightarrow> string \<Rightarrow> payload" where
  "adjusting_journal_payload tenant entity book period d key description lines currency =
     [(''accounting_book_reference'', PStr book),
      (''idempotency_key'', PStr key),
      (''journal_date'', PStr (date_isoformat d)),
      (''journal_description'', PStr description),
      (''journal_lines'', PList (map (adjusting_line_payload currency) lines)),
      (''legal_entity_reference'', PStr entity),
      (''period_code'', PStr period),
      (''tenant_reference'', PStr tenant)]"

definition adjusting_journal_hash ::
    "string \<Rightarrow> string \<Rightarrow> string \<Rightarrow> string \<Rightarrow> date \<Rightarrow> string \<Rightarrow> string \<Rightarrow> posted_journal_line list \<Rightarrow> string \<Rightarrow> string" where
  "adjusting_journal_hash tenant entity book period d key description lines currency =
     sha256_reference
       (the (json_dumps (PDict (adjusting_journal_payload tenant entity book period d key description lines currency))))"

text \<open>The command as it is handed to the ledger.\<close>

definition adjusting_command_of :: "payload \<Rightarrow> string \<Rightarrow> adjusting_command result" where
  "adjusting_command_of p tenant =
     (let entity = text_field p ''legal_entity_reference'';
          book = text_field p ''accounting_book_reference'';
          period = period_field p;
          key = text_field p ''idempotency_key'';
          description = text_field p ''journal_description''
      in bind_result (require (entity \<noteq> [] \<and> book \<noteq> [] \<and> period \<noteq> []) (validation_error msg_adjusting_scope)) (\<lambda>_.
         bind_result (require (key \<noteq> []) (validation_error msg_adjusting_key)) (\<lambda>_.
         bind_result (require (description \<noteq> []) (validation_error msg_adjusting_description)) (\<lambda>_.
         bind_result (parse_journal_date (text_field p ''journal_date'')) (\<lambda>d.
         bind_result (parse_adjusting_journal_lines (get_value p ''journal_lines'')) (\<lambda>(lines, currency).
           Inr \<lparr>ac_legal_entity_reference = entity, ac_book_reference = book, ac_period_code = period,
                ac_journal_date = d, ac_idempotency_key = key,
                ac_source_payload_hash = adjusting_journal_hash tenant entity book period d key description lines currency,
                ac_proposal_id = uuid5_text namespace_url (tenant @ '':'' @ key),
                ac_transaction_currency = currency, ac_lines = lines\<rparr>))))))"

definition accept_adjusting_journal :: "'w database \<Rightarrow> py_value \<Rightarrow> string \<Rightarrow> ('w, payload) io" where
  "accept_adjusting_journal db v tenant =
     io_bind (io_lift (bind_result (command_payload v tenant msg_adjusting_object msg_adjusting_tenant) (\<lambda>p.
                adjusting_command_of p tenant))) (\<lambda>command.
     with_ledger db tenant (\<lambda>ledger.
     io_bind (run_post_adjusting ledger command) (\<lambda>_.
       run_query ledger (Published_Receipt_By_Key (ac_idempotency_key command)))))"

section \<open>Reversals\<close>

definition msg_reversal_object :: string where
  "msg_reversal_object =
     ''journal reversal payload must be a JSON object. Supply a journal-reversal command, then retry the reverse.''"

definition msg_reversal_tenant :: string where
  "msg_reversal_tenant =
     ''reversal tenant_reference does not match the bound tenant. '' @
     ''Call accept_journal_reversal with that tenant_reference, then retry.''"

definition msg_reversal_identity :: string where
  "msg_reversal_identity =
     ''journal_reference or idempotency_key is required. '' @
     ''Supply the posted journal or the Billing idempotency key, then retry the reverse.''"

definition msg_reversal_reason :: string where
  "msg_reversal_reason =
     ''reversal_reason_code is required. Supply a reversal reason code, then retry the reverse.''"

definition msg_reversal_mismatch :: string where
  "msg_reversal_mismatch =
     ''journal_reference and idempotency_key do not match the same posted journal. '' @
     ''Supply one identity, then retry the reverse.''"

definition msg_reversal_date :: string where
  "msg_reversal_date =
     ''reversal_date must be an ISO-8601 date. Supply reversal_date, then retry the reverse.''"

definition parse_reversal_date :: "string \<Rightarrow> date result" where
  "parse_reversal_date value = parse_iso_date value msg_reversal_date"

text \<open>The fields of the command, and the journal it names.\<close>

record reversal_fields =
  rf_journal_reference :: string
  rf_idempotency_key :: string
  rf_reversal_key :: string
  rf_reason_code :: string
  rf_date :: date

definition reversal_fields_of :: "payload \<Rightarrow> reversal_fields result" where
  "reversal_fields_of p =
     (let journal = text_field p ''journal_reference'';
          key = text_field p ''idempotency_key'';
          reversal_key = strip (text_field p ''reversal_idempotency_key'');
          reason = text_field p ''reversal_reason_code''
      in bind_result (require (journal \<noteq> [] \<or> key \<noteq> []) (validation_error msg_reversal_identity)) (\<lambda>_.
         bind_result (require (reason \<noteq> []) (validation_error msg_reversal_reason)) (\<lambda>_.
         bind_result (parse_reversal_date (text_field p ''reversal_date'')) (\<lambda>d.
           Inr \<lparr>rf_journal_reference = journal, rf_idempotency_key = key, rf_reversal_key = reversal_key,
                rf_reason_code = reason, rf_date = d\<rparr>))))"

definition receipt_journal_reference :: "payload \<Rightarrow> string result" where
  "receipt_journal_reference receipt =
     (if has_key receipt ''journal_reference'' then Inr (py_str (get_value receipt ''journal_reference''))
      else Inl (KeyError ''journal_reference''))"

definition resolve_reversal_journal :: "'w database \<Rightarrow> string \<Rightarrow> reversal_fields \<Rightarrow> ('w, string) io" where
  "resolve_reversal_journal db tenant f =
     (if rf_idempotency_key f = [] then io_lift (Inr (rf_journal_reference f))
      else
        io_bind (lookup_published_receipt db tenant (rf_idempotency_key f)) (\<lambda>original.
        io_lift (bind_result (receipt_journal_reference original) (\<lambda>resolved.
          if rf_journal_reference f \<noteq> [] \<and> rf_journal_reference f \<noteq> resolved
          then Inl (validation_error msg_reversal_mismatch) else Inr resolved))))"

definition accepted_reversal_key :: "reversal_fields \<Rightarrow> string \<Rightarrow> string" where
  "accepted_reversal_key f journal =
     (if rf_reversal_key f = [] then ''reversal:'' @ journal else rf_reversal_key f)"

definition accept_journal_reversal :: "'w database \<Rightarrow> py_value \<Rightarrow> string \<Rightarrow> ('w, payload) io" where
  "accept_journal_reversal db v tenant =
     io_bind (io_lift (bind_result (command_payload v tenant msg_reversal_object msg_reversal_tenant)
                reversal_fields_of)) (\<lambda>f.
     with_ledger db tenant (\<lambda>ledger.
     io_bind (resolve_reversal_journal db tenant f) (\<lambda>journal.
     io_bind (run_reversal_policy ledger journal (rf_date f)) (\<lambda>policy.
     io_bind (run_reverse ledger journal (rf_date f) (rf_reason_code f) policy (accepted_reversal_key f journal)) (\<lambda>_.
       run_query ledger (Published_Receipt_By_Key (accepted_reversal_key f journal)))))))"

section \<open>Closing and opening a period\<close>

definition msg_close_object :: string where
  "msg_close_object =
     ''period close payload must be a JSON object. Supply a period-close command, then retry the close.''"

definition msg_close_tenant :: string where
  "msg_close_tenant =
     ''close tenant_reference does not match the bound tenant. '' @
     ''Call accept_period_close with that tenant_reference, then retry.''"

definition msg_close_scope :: string where
  "msg_close_scope =
     ''legal_entity_reference, book_reference, and fiscal_period_reference are required. '' @
     ''Supply those close command fields, then retry the close.''"

definition msg_close_currency :: string where
  "msg_close_currency =
     ''snapshot_currency_code is required. Supply the book reporting currency, then retry the close.''"

definition msg_close_key :: string where
  "msg_close_key =
     ''idempotency_key is required. Supply the period-close idempotency key, then retry the close.''"

definition msg_close_status_code :: string where
  "msg_close_status_code =
     ''period_status_code must be soft_closed or hard_closed. '' @
     ''Omit the field to hard-close, or supply soft_closed or hard_closed, then retry the close.''"

definition period_status_from_close_payload :: "payload \<Rightarrow> string result" where
  "period_status_from_close_payload p =
     (if \<not> has_key p ''period_status_code'' then Inr ''hard_closed''
      else case get_value p ''period_status_code'' of
             PStr s \<Rightarrow> if s \<in> {''soft_closed'', ''hard_closed''} then Inr s
                       else Inl (validation_error msg_close_status_code)
           | _ \<Rightarrow> Inl (validation_error msg_close_status_code))"

definition close_command_of :: "payload \<Rightarrow> close_command result" where
  "close_command_of p =
     (let entity = text_field p ''legal_entity_reference'';
          book = first_field p ''book_reference'' ''accounting_book_reference'';
          period = period_field p;
          currency = text_field p ''snapshot_currency_code'';
          key = text_field p ''idempotency_key''
      in bind_result (require (entity \<noteq> [] \<and> book \<noteq> [] \<and> period \<noteq> []) (validation_error msg_close_scope)) (\<lambda>_.
         bind_result (require (currency \<noteq> []) (validation_error msg_close_currency)) (\<lambda>_.
         bind_result (require (key \<noteq> []) (validation_error msg_close_key)) (\<lambda>_.
         bind_result (period_status_from_close_payload p) (\<lambda>status.
           Inr \<lparr>cc_legal_entity_reference = entity, cc_book_reference = book, cc_period_code = period,
                cc_snapshot_currency_code = currency, cc_period_status_code = status, cc_idempotency_key = key\<rparr>)))))"

definition period_close_document :: "period_close_receipt \<Rightarrow> payload result" where
  "period_close_document receipt =
     bind_result (format_timestamp (pc_snapshot_generated_at receipt)) (\<lambda>generated_at.
       Inr [(''tenant_reference'', PStr (pc_tenant_reference receipt)),
            (''legal_entity_reference'', PStr (pc_legal_entity_reference receipt)),
            (''accounting_book_reference'', PStr (pc_book_reference receipt)),
            (''period_code'', PStr (pc_period_code receipt)),
            (''period_status_code'', PStr (pc_period_status_code receipt)),
            (''snapshot_record_id'', PStr (pc_snapshot_record_id receipt)),
            (''snapshot_generated_at'', PStr generated_at),
            (''source_journal_count'', PInt (pc_source_journal_count receipt)),
            (''source_payload_hash'', PStr (pc_source_payload_hash receipt)),
            (''replayed'', PBool (pc_replayed receipt))])"

definition accept_period_close :: "'w database \<Rightarrow> py_value \<Rightarrow> string \<Rightarrow> ('w, payload) io" where
  "accept_period_close db v tenant =
     io_bind (io_lift (bind_result (command_payload v tenant msg_close_object msg_close_tenant) close_command_of)) (\<lambda>command.
     with_ledger db tenant (\<lambda>ledger.
     io_bind (run_close_period ledger command) (\<lambda>receipt.
       io_lift (period_close_document receipt))))"

definition msg_open_object :: string where
  "msg_open_object =
     ''period open payload must be a JSON object. Supply a period-open command, then retry the period open.''"

definition msg_open_tenant :: string where
  "msg_open_tenant =
     ''open tenant_reference does not match the bound tenant. '' @
     ''Call accept_period_open with that tenant_reference, then retry.''"

definition msg_open_scope :: string where
  "msg_open_scope =
     ''legal_entity_reference and fiscal_period_reference are required. '' @
     ''Supply those period-open fields, then retry the period open.''"

definition msg_open_key :: string where
  "msg_open_key =
     ''idempotency_key is required and must be a canonical non-empty string. '' @
     ''Supply the period-open command key, then retry the period open.''"

definition msg_open_hash :: string where
  "msg_open_hash =
     ''source_payload_hash must be a canonical sha256 digest. '' @
     ''Supply the immutable period-open command hash, then retry the period open.''"

definition msg_period_date :: "string \<Rightarrow> string" where
  "msg_period_date field_name =
     field_name @ '' must be an ISO-8601 date. Supply '' @ field_name @ '', then retry the period open.''"

definition parse_period_date :: "string \<Rightarrow> string \<Rightarrow> date result" where
  "parse_period_date value field_name = parse_iso_date value (msg_period_date field_name)"

definition optional_period_date :: "payload \<Rightarrow> string \<Rightarrow> date option result" where
  "optional_period_date p field_name =
     (let s = text_field p field_name in
      if s = [] then Inr None else bind_result (parse_period_date s field_name) (\<lambda>d. Inr (Some d)))"

definition canonical_key :: "py_value \<Rightarrow> string option" where
  "canonical_key v = (case v of PStr s \<Rightarrow> if s \<noteq> [] \<and> s = strip s then Some s else None | _ \<Rightarrow> None)"

definition canonical_hash :: "py_value \<Rightarrow> string option" where
  "canonical_hash v = (case v of PStr s \<Rightarrow> if hash_pattern s then Some s else None | _ \<Rightarrow> None)"

definition open_command_of :: "payload \<Rightarrow> open_command result" where
  "open_command_of p =
     (let entity = text_field p ''legal_entity_reference''; period = period_field p
      in bind_result (require (entity \<noteq> [] \<and> period \<noteq> []) (validation_error msg_open_scope)) (\<lambda>_.
         case canonical_key (get_value p ''idempotency_key'') of
           None \<Rightarrow> Inl (validation_error msg_open_key)
         | Some key \<Rightarrow>
             (case canonical_hash (get_value p ''source_payload_hash'') of
                None \<Rightarrow> Inl (validation_error msg_open_hash)
              | Some h \<Rightarrow>
                  bind_result (optional_period_date p ''period_start_date'') (\<lambda>start_date.
                  bind_result (optional_period_date p ''period_end_date'') (\<lambda>end_date.
                    Inr \<lparr>oc_legal_entity_reference = entity, oc_period_code = period,
                         oc_period_start_date = start_date, oc_period_end_date = end_date,
                         oc_idempotency_key = key, oc_source_payload_hash = h\<rparr>)))))"

definition accept_period_open :: "'w database \<Rightarrow> py_value \<Rightarrow> string \<Rightarrow> ('w, payload) io" where
  "accept_period_open db v tenant =
     io_bind (io_lift (bind_result (command_payload v tenant msg_open_object msg_open_tenant) open_command_of)) (\<lambda>command.
     with_ledger db tenant (\<lambda>ledger. run_open_period ledger command))"

section \<open>HomeTax\<close>

definition msg_tax_object :: string where
  "msg_tax_object =
     ''home tax submission payload must be a JSON object. '' @
     ''Supply a home-tax-submission command, then retry the home-tax-submission.''"

definition msg_tax_tenant :: string where
  "msg_tax_tenant =
     ''home tax submission tenant_reference does not match the bound tenant. '' @
     ''Call accept_home_tax_submission with that tenant_reference, then retry.''"

definition msg_tax_key :: string where
  "msg_tax_key =
     ''home tax submission idempotency_key is required. '' @
     ''Supply a tenant-scoped command key, then retry the home-tax-submission.''"

definition msg_tax_hash :: string where
  "msg_tax_hash =
     ''home tax submission source_payload_hash is required and must be a sha256 digest. '' @
     ''Supply immutable source evidence, then retry the home-tax-submission.''"

definition msg_tax_reference :: string where
  "msg_tax_reference =
     ''home tax submission source_payload_reference is required. '' @
     ''Supply the immutable source locator, then retry the home-tax-submission.''"

definition home_tax_error :: "string \<Rightarrow> py_exc" where
  "home_tax_error m = HomeTaxRequestValidationError (customer_safe_error_message m)"

definition nonblank_text :: "py_value \<Rightarrow> string option" where
  "nonblank_text v = (case v of PStr s \<Rightarrow> if strip s \<noteq> [] then Some s else None | _ \<Rightarrow> None)"

definition vat_register_required_keys :: "string list" where
  "vat_register_required_keys =
     [''tenant_reference'', ''legal_entity_reference'', ''accounting_book_reference'', ''book_reference'',
      ''fiscal_period_reference'', ''as_of_date'', ''chart_account_code'', ''account_role_code'', ''issued_amount'',
      ''voided_amount'', ''closing_amount'']"

definition vat_register_is_loadable :: "payload \<Rightarrow> bool" where
  "vat_register_is_loadable d \<longleftrightarrow> list_all (has_key d) vat_register_required_keys"

definition home_tax_credential_present :: "string \<Rightarrow> bool" where
  "home_tax_credential_present credential \<longleftrightarrow> strip credential \<noteq> []"

definition rejected_home_tax_document ::
    "string \<Rightarrow> string \<Rightarrow> string \<Rightarrow> string \<Rightarrow> payload \<Rightarrow> string \<Rightarrow> payload" where
  "rejected_home_tax_document tenant entity book period register reason =
     [(''tenant_reference'', PStr tenant), (''legal_entity_reference'', PStr entity),
      (''book_reference'', PStr book), (''fiscal_period_reference'', PStr period),
      (''vat_period_register'', PDict register), (''submission_status_code'', PStr ''rejected''),
      (''rejection_reason_code'', PStr reason)]"

definition home_tax_rejection_reason :: "string \<Rightarrow> payload \<Rightarrow> string" where
  "home_tax_rejection_reason credential register =
     (if \<not> vat_register_is_loadable register then ''register_unavailable''
      else if \<not> home_tax_credential_present credential then ''hometax_credential_missing''
      else ''hometax_transport_unavailable'')"

definition home_tax_identity :: "payload \<Rightarrow> (string \<times> string \<times> string) result" where
  "home_tax_identity p =
     (case nonblank_text (get_value p ''idempotency_key'') of
        None \<Rightarrow> Inl (home_tax_error msg_tax_key)
      | Some key \<Rightarrow>
          (case canonical_hash (get_value p ''source_payload_hash'') of
             None \<Rightarrow> Inl (home_tax_error msg_tax_hash)
           | Some h \<Rightarrow>
               (case nonblank_text (get_value p ''source_payload_reference'') of
                  None \<Rightarrow> Inl (home_tax_error msg_tax_reference)
                | Some source \<Rightarrow> Inr (key, h, source))))"

definition accept_home_tax_submission :: "'w database \<Rightarrow> string \<Rightarrow> py_value \<Rightarrow> string \<Rightarrow> ('w, payload) io" where
  "accept_home_tax_submission db credential v tenant =
     io_bind (io_lift (command_payload v tenant msg_tax_object msg_tax_tenant)) (\<lambda>p.
     io_bind (io_lift (home_tax_identity p)) (\<lambda>(key, h, source).
       let entity = text_field p ''legal_entity_reference'';
           book = first_field p ''book_reference'' ''accounting_book_reference'';
           period_reference = text_field p ''fiscal_period_reference'';
           period = period_code_from_reference period_reference
       in if entity = [] \<or> book = [] \<or> period = []
          then io_lift (Inr (rejected_home_tax_document tenant entity book period_reference
                  [(''as_of_date'', PStr []), (''closing_amount'', PStr ''0'')] ''register_unavailable''))
          else
            with_ledger db tenant (\<lambda>ledger.
            io_bind (run_query ledger (Vat_Period_Register entity book period)) (\<lambda>register.
              run_persist_home_tax ledger
                \<lparr>ht_legal_entity_reference = entity, ht_book_reference = book, ht_period_code = period,
                 ht_idempotency_key = key, ht_source_payload_hash = h, ht_source_payload_reference = source,
                 ht_register_document = register,
                 ht_rejection_reason_code = home_tax_rejection_reason credential register\<rparr>))))"

section \<open>Outbox\<close>

definition publish_outbox_event :: "'w database \<Rightarrow> string \<Rightarrow> string \<Rightarrow> ('w, payload) io" where
  "publish_outbox_event db tenant event_id = with_ledger db tenant (\<lambda>ledger. run_publish_outbox_event ledger event_id)"

end
