(* ===== verification/Billing_Pull.thy ===== *)
theory Billing_Pull
  imports Ingest Url Python_Number
begin

text \<open>
  \<open>billing_pull.py\<close>: reading validated journal proposals page by page from the billing service
  and accepting each. The service and the acceptance of one proposal are parameters acting on a
  world: \<open>net\<close> answers an HTTP request, \<open>accept\<close> is \<open>accept_journal_proposal\<close>. The environment
  variables \<open>BILLING_BASE_URL\<close> and \<open>BILLING_ALLOWED_ORIGINS\<close> are the two fields of a record.
\<close>

section \<open>Messages\<close>

definition msg_list_unknown :: string where
  "msg_list_unknown =
     ''Billing list envelope contains fields outside the closed list contract. Ask Billing to publish only '' @
     ''journal_proposals and next_cursor, then retry the pull.''"

definition msg_list_missing :: string where
  "msg_list_missing =
     ''Billing list envelope is missing journal_proposals. Ask Billing to correct the published list '' @
     ''contract, then retry the pull.''"

definition msg_list_cursor_missing :: string where
  "msg_list_cursor_missing =
     ''Billing list envelope is missing next_cursor. Ask Billing to return next_cursor as null or a '' @
     ''non-empty string, then retry the pull.''"

definition msg_list_array :: string where
  "msg_list_array =
     ''Billing list envelope journal_proposals must be an array. Ask Billing to correct the published list '' @
     ''contract, then retry the pull.''"

definition msg_list_items :: string where
  "msg_list_items =
     ''Billing list must contain validated proposal objects only. Ask Billing to correct the list item '' @
     ''contract, then retry the pull.''"

definition msg_list_cursor :: string where
  "msg_list_cursor =
     ''Billing next_cursor must be null or a non-empty string. Ask Billing to correct the list cursor, '' @
     ''then retry the pull.''"

definition msg_pull_proposal_id :: string where
  "msg_pull_proposal_id =
     ''proposal_id is required. Supply the Billing proposal_id, then retry the pull.''"

definition msg_pull_not_validated :: string where
  "msg_pull_not_validated =
     ''Billing journal proposal is not validated. Ask Billing for a validated proposal, then retry the '' @
     ''pull.''"

definition msg_pull_pages :: string where
  "msg_pull_pages =
     ''Billing pull exceeded 20 pages. Narrow proposed_after or cursor, then retry the pull.''"

definition msg_pull_cursor :: string where
  "msg_pull_cursor =
     ''Billing list cursor did not advance. Ask Billing to fix the list cursor, then retry the pull.''"

definition msg_pull_payload :: string where
  "msg_pull_payload =
     ''billing proposal pull payload must be a JSON object. Supply a billing-proposal-pull command, then '' @
     ''retry the pull.''"

definition msg_pull_tenant :: string where
  "msg_pull_tenant =
     ''pull tenant_reference does not match the bound tenant. Call accept_billing_proposal_pull with that '' @
     ''tenant_reference, then retry.''"

definition msg_pull_limit_integer :: string where
  "msg_pull_limit_integer =
     ''page_limit must be an integer. Supply a Billing page_limit, then retry the pull.''"

definition msg_pull_limit_range :: string where
  "msg_pull_limit_range =
     ''page_limit must be between 1 and 100. Supply a Billing page_limit, then retry the pull.''"

definition msg_base_empty :: string where
  "msg_base_empty =
     ''BILLING_BASE_URL is empty. Set BILLING_BASE_URL to the Billing origin, then retry the pull.''"

definition msg_base_origin :: string where
  "msg_base_origin =
     ''BILLING_BASE_URL must be an http or https origin. Set BILLING_BASE_URL to the Billing origin, then '' @
     ''retry the pull.''"

definition msg_origin_loopback :: string where
  "msg_origin_loopback =
     ''Billing configured origins must not use loopback or link-local hosts. Set BILLING_BASE_URL to a '' @
     ''routable Billing service, then retry the pull.''"

definition msg_origin_path :: string where
  "msg_origin_path =
     ''Billing configured origins must not include a path, query, fragment, or userinfo. Set '' @
     ''BILLING_BASE_URL and BILLING_ALLOWED_ORIGINS to scheme://host[:port] origins, then retry the pull.''"

definition msg_origin_not_allowed :: string where
  "msg_origin_not_allowed =
     ''billing_base_url is not an allowed Billing origin. Set BILLING_BASE_URL or BILLING_ALLOWED_ORIGINS '' @
     ''to that origin, then retry the pull.''"

definition msg_pull_unreachable :: string where
  "msg_pull_unreachable =
     ''Billing journal-proposal pull could not be reached. Retry the Billing pull after Billing recovers.''"

definition msg_pull_404 :: string where
  "msg_pull_404 =
     ''Billing journal proposal was not found for this tenant. Do not retry as another tenant. Confirm the '' @
     ''proposal_id, then retry the pull.''"

definition msg_pull_422 :: string where
  "msg_pull_422 =
     ''Billing rejected the journal-proposal pull. Ask Billing to correct the tenant header and '' @
     ''tenant_reference query, then retry the pull.''"

definition msg_pull_500 :: string where
  "msg_pull_500 =
     ''Billing journal-proposal pull failed. Retry the Billing pull after Billing recovers.''"

definition msg_pull_http :: "string \<Rightarrow> string" where
  "msg_pull_http status =
     ''Billing journal-proposal pull returned HTTP '' @ status @ ''. Ask Billing to correct the pull contract, then retry the pull.''"

definition msg_pull_json :: string where
  "msg_pull_json =
     ''Billing journal-proposal pull returned non-JSON. Ask Billing to correct the published contract, '' @
     ''then retry the pull.''"

definition msg_pull_object :: string where
  "msg_pull_object =
     ''Billing journal-proposal pull must return a JSON object. Ask Billing to correct the published '' @
     ''contract, then retry the pull.''"

section \<open>Allowed origins\<close>

record billing_env =
  env_billing_base_url :: string
  env_billing_allowed_origins :: string

definition default_page_limit :: int where "default_page_limit = 50"
definition max_page_limit :: int where "max_page_limit = 100"
definition max_pull_pages :: nat where "max_pull_pages = 20"
definition validated_proposal_status :: string where "validated_proposal_status = ''validated''"

definition require_billing_base_url :: "string \<Rightarrow> string result" where
  "require_billing_base_url url =
     (let stripped = rstrip_set (\<lambda>c. c = CHR ''/'') (strip url) in
      if stripped = [] then Inl (validation_error msg_base_empty) else Inr stripped)"

definition canonical_billing_origin :: "string \<Rightarrow> string result" where
  "canonical_billing_origin url =
     bind_result (require_billing_base_url url) (\<lambda>base.
       case urlparse base of
         None \<Rightarrow> Inl (validation_error msg_base_origin)
       | Some u \<Rightarrow>
           (case (url_hostname u, url_port u) of
              (Some hostname, Some port) \<Rightarrow>
                if url_scheme u \<notin> {''http'', ''https''} then Inl (validation_error msg_base_origin)
                else
                  let lower = py_lower hostname;
                      host = (if has_char (CHR '':'') lower then ''['' @ lower @ '']'' else lower)
                  in (case port of
                        None \<Rightarrow> Inr (url_scheme u @ ''://'' @ host)
                      | Some p \<Rightarrow>
                          if (url_scheme u = ''http'' \<and> p = 80) \<or> (url_scheme u = ''https'' \<and> p = 443)
                          then Inr (url_scheme u @ ''://'' @ host)
                          else Inr (url_scheme u @ ''://'' @ host @ '':'' @ nat_text p))
            | _ \<Rightarrow> Inl (validation_error msg_base_origin)))"

definition require_safe_configured_origin :: "string \<Rightarrow> unit result" where
  "require_safe_configured_origin origin =
     (case urlparse origin of
        None \<Rightarrow> Inl (ValueError ''Invalid IPv6 URL'')
      | Some u \<Rightarrow>
          let hostname = rstrip_set (\<lambda>c. c = CHR ''.'') (case url_hostname u of None \<Rightarrow> [] | Some h \<Rightarrow> h) in
          if py_lower hostname = ''localhost'' then Inl (validation_error msg_origin_loopback)
          else case read_ip_address hostname of
                 None \<Rightarrow> Inr ()
               | Some a \<Rightarrow> if is_loopback a \<or> is_link_local a then Inl (validation_error msg_origin_loopback)
                           else Inr ())"

definition bare_origin :: "string \<Rightarrow> bool" where
  "bare_origin base \<longleftrightarrow>
     (case urlparse base of
        None \<Rightarrow> False
      | Some u \<Rightarrow> \<not> url_has_userinfo u \<and> url_path u = [] \<and> url_params u = [] \<and> url_query u = [] \<and> url_fragment u = [])"

text \<open>One turn of the loop over the configured values; the first spelling of an origin wins.\<close>

definition add_configured_base ::
    "(string \<times> string) list \<Rightarrow> string \<Rightarrow> (string \<times> string) list result" where
  "add_configured_base entries raw =
     (if strip raw = [] then Inr entries
      else
        bind_result (require_billing_base_url raw) (\<lambda>base.
        bind_result (canonical_billing_origin base) (\<lambda>origin.
        bind_result (require (bare_origin base) (validation_error msg_origin_path)) (\<lambda>_.
        bind_result (require_safe_configured_origin origin) (\<lambda>_.
          if origin \<in> set (map fst entries) then Inr entries else Inr (entries @ [(origin, base)]))))))"

definition configured_billing_bases :: "billing_env \<Rightarrow> (string \<times> string) list result" where
  "configured_billing_bases env =
     fold_result add_configured_base []
       (env_billing_base_url env # map strip (split_on (CHR '','') (env_billing_allowed_origins env)))"

definition resolve_command_billing_origin :: "billing_env \<Rightarrow> py_value \<Rightarrow> string result" where
  "resolve_command_billing_origin env requested =
     bind_result (configured_billing_bases env) (\<lambda>configured.
       if none_or_empty requested
       then (if strip (env_billing_base_url env) = [] then Inl (validation_error msg_base_empty)
             else Inr (snd (hd configured)))
       else bind_result (canonical_billing_origin (py_str requested)) (\<lambda>origin.
              case dict_get configured origin of
                Some base \<Rightarrow> Inr base
              | None \<Rightarrow> if configured = [] then Inl (validation_error msg_base_empty)
                        else Inl (validation_error msg_origin_not_allowed)))"

section \<open>One request\<close>

text \<open>
  A request as the code opens it, and what became of it: the connection failed with an \<open>OSError\<close>,
  \<open>http.client\<close> raised something else (a path it cannot send, an answer it cannot read), or a status
  came back with the body, decoded as JSON when it is JSON.
\<close>

record billing_request =
  rq_scheme :: string
  rq_hostname :: string
  rq_port :: "nat option"
  rq_path :: string
  rq_tenant_header :: string

datatype billing_reply = Unreachable | Broken | Reply nat "py_value option"

type_synonym 'w network = "'w \<Rightarrow> billing_request \<Rightarrow> 'w \<times> billing_reply"

definition billing_http_error :: "nat \<Rightarrow> py_exc" where
  "billing_http_error status =
     (if status = 404 then validation_error msg_pull_404
      else if status = 422 then validation_error msg_pull_422
      else if status \<ge> 500 then validation_error msg_pull_500
      else validation_error (msg_pull_http (nat_text status)))"

fun parse_billing_object :: "py_value option \<Rightarrow> payload result" where
  "parse_billing_object None = Inl (validation_error msg_pull_json)"
| "parse_billing_object (Some v) =
     (case as_mapping v of None \<Rightarrow> Inl (validation_error msg_pull_object) | Some d \<Rightarrow> Inr d)"

fun read_billing_reply :: "billing_reply \<Rightarrow> payload result" where
  "read_billing_reply Unreachable = Inl (validation_error msg_pull_unreachable)"
| "read_billing_reply Broken = Inl HTTPException"
| "read_billing_reply (Reply status body) =
     (if status \<ge> 400 then Inl (billing_http_error status) else parse_billing_object body)"

definition billing_request_of :: "string \<Rightarrow> string \<Rightarrow> (string \<times> string) list \<Rightarrow> billing_request result" where
  "billing_request_of url tenant query =
     bind_result (require_reference tenant ''tenant reference'') (\<lambda>_.
       case urlparse url of
         None \<Rightarrow> Inl (ValueError ''Invalid IPv6 URL'')
       | Some u \<Rightarrow>
           (case url_hostname u of
              Some hostname \<Rightarrow>
                if url_scheme u \<notin> {''http'', ''https''} then Inl (validation_error msg_base_origin)
                else (case url_port u of
                        None \<Rightarrow> Inl (ValueError ''Port out of range'')
                      | Some port \<Rightarrow>
                          Inr \<lparr>rq_scheme = url_scheme u, rq_hostname = hostname,
                               rq_port = (if url_scheme u = ''https'' \<and> port = None then Some 443 else port),
                               rq_path = url_path u @ ''?'' @ urlencode query,
                               rq_tenant_header = tenant\<rparr>)
            | None \<Rightarrow> Inl (validation_error msg_base_origin)))"

definition billing_get :: "'w network \<Rightarrow> string \<Rightarrow> string \<Rightarrow> (string \<times> string) list \<Rightarrow> ('w, payload) io" where
  "billing_get net url tenant query w =
     (case billing_request_of url tenant query of
        Inl e \<Rightarrow> (w, Inl e)
      | Inr request \<Rightarrow> (case net w request of (w', reply) \<Rightarrow> (w', read_billing_reply reply)))"

section \<open>One page\<close>

record proposal_page =
  page_proposals :: "payload list"
  page_next_cursor :: "string option"

definition resolve_pull_page_limit :: "int option \<Rightarrow> int result" where
  "resolve_pull_page_limit limit =
     (case limit of
        None \<Rightarrow> Inr default_page_limit
      | Some n \<Rightarrow> if n < 1 \<or> n > max_page_limit then Inl (validation_error msg_pull_limit_range) else Inr n)"

definition list_query :: "string \<Rightarrow> int \<Rightarrow> string option \<Rightarrow> string option \<Rightarrow> (string \<times> string) list" where
  "list_query tenant limit proposed_after cursor =
     [(''tenant_reference'', tenant), (''proposal_status'', validated_proposal_status), (''page_limit'', int_text limit)] @
     (case proposed_after of Some p \<Rightarrow> if p \<noteq> [] then [(''proposed_after'', p)] else [] | None \<Rightarrow> []) @
     (case cursor of Some c \<Rightarrow> if c \<noteq> [] then [(''cursor'', c)] else [] | None \<Rightarrow> [])"

definition validated_item :: "py_value \<Rightarrow> payload result" where
  "validated_item item =
     (case as_mapping item of
        Some d \<Rightarrow> if get_value d ''proposal_status'' = PStr validated_proposal_status then Inr d
                  else Inl (validation_error msg_list_items)
      | None \<Rightarrow> Inl (validation_error msg_list_items))"

definition read_page :: "payload \<Rightarrow> proposal_page result" where
  "read_page document =
     bind_result (require (set (dict_keys document) \<subseteq> {''journal_proposals'', ''next_cursor''})
                    (validation_error msg_list_unknown)) (\<lambda>_.
     bind_result (require (has_key document ''journal_proposals'') (validation_error msg_list_missing)) (\<lambda>_.
     bind_result (require (has_key document ''next_cursor'') (validation_error msg_list_cursor_missing)) (\<lambda>_.
       case get_value document ''journal_proposals'' of
         PList raw \<Rightarrow>
           bind_result (map_result validated_item raw) (\<lambda>items.
             case get_value document ''next_cursor'' of
               PNone \<Rightarrow> Inr \<lparr>page_proposals = items, page_next_cursor = None\<rparr>
             | PStr c \<Rightarrow> if c = [] then Inl (validation_error msg_list_cursor)
                         else Inr \<lparr>page_proposals = items, page_next_cursor = Some c\<rparr>
             | _ \<Rightarrow> Inl (validation_error msg_list_cursor))
       | _ \<Rightarrow> Inl (validation_error msg_list_array))))"

definition pull_validated_journal_proposals ::
    "'w network \<Rightarrow> billing_env \<Rightarrow> py_value \<Rightarrow> string \<Rightarrow> string option \<Rightarrow> string option \<Rightarrow> int option \<Rightarrow>
       ('w, proposal_page) io" where
  "pull_validated_journal_proposals net env base_url tenant proposed_after cursor limit =
     io_bind (io_lift (resolve_command_billing_origin env base_url)) (\<lambda>fetch_base.
     io_bind (io_lift (resolve_pull_page_limit limit)) (\<lambda>n.
     io_bind (billing_get net (fetch_base @ ''/v1/journal-proposals'') tenant (list_query tenant n proposed_after cursor))
       (\<lambda>document. io_lift (read_page document))))"

definition pull_journal_proposal ::
    "'w network \<Rightarrow> billing_env \<Rightarrow> py_value \<Rightarrow> string \<Rightarrow> string \<Rightarrow> ('w, payload) io" where
  "pull_journal_proposal net env base_url tenant proposal_id =
     io_bind (io_lift (require (proposal_id \<noteq> []) (validation_error msg_pull_proposal_id))) (\<lambda>_.
     io_bind (io_lift (resolve_command_billing_origin env base_url)) (\<lambda>fetch_base.
     io_bind (billing_get net (fetch_base @ ''/v1/journal-proposals/'' @ proposal_id) tenant
                [(''tenant_reference'', tenant)]) (\<lambda>document.
       io_lift (if get_value document ''proposal_status'' \<noteq> PStr validated_proposal_status
                then Inl (validation_error msg_pull_not_validated) else Inr document))))"

section \<open>The pull\<close>

definition rejection_reason_rules :: "(string list \<times> string) list" where
  "rejection_reason_rules =
     [([''is not mapped'', ''account_role_mapping''], ''unknown_account_role''),
      ([''must balance''], ''unbalanced_journal''),
      ([''closed fiscal period'', ''open period'', ''is soft_closed'', ''is hard_closed''], ''closed_period''),
      ([''bound tenant''], ''cross_tenant''),
      ([''canonical decimal'', ''amount must be''], ''invalid_amount'')]"

fun first_reason :: "(string list \<times> string) list \<Rightarrow> string \<Rightarrow> string" where
  "first_reason [] message = ''proposal_validation_failed''"
| "first_reason ((needles, reason) # rules) message =
     (if list_ex (\<lambda>needle. contains needle message) needles then reason else first_reason rules message)"

definition rejection_reason_code :: "py_exc \<Rightarrow> string" where
  "rejection_reason_code e =
     (if is_idempotency_conflict e then ''idempotency_conflict'' else first_reason rejection_reason_rules (exc_message e))"

definition rejected_proposal :: "payload \<Rightarrow> py_exc \<Rightarrow> payload" where
  "rejected_proposal item e =
     [(''proposal_id'', PStr (str_or_empty (get_value item ''proposal_id''))),
      (''idempotency_key'', PStr (str_or_empty (get_value item ''idempotency_key''))),
      (''rejection_reason_code'', PStr (rejection_reason_code e)),
      (''rejection_message'', PStr (exc_message e))]"

type_synonym 'w acceptor = "py_value \<Rightarrow> string \<Rightarrow> ('w, payload) io"

record pull_result =
  pr_posting_receipts :: "payload list"
  pr_rejected_proposals :: "payload list"

text \<open>One item: a receipt, a rejection, or an exception that is no validation error.\<close>

definition accept_item :: "'w acceptor \<Rightarrow> string \<Rightarrow> pull_result \<Rightarrow> payload \<Rightarrow> ('w, pull_result) io" where
  "accept_item accept tenant acc item w =
     (case accept (PDict item) tenant w of
        (w', Inr receipt) \<Rightarrow> (w', Inr (acc\<lparr>pr_posting_receipts := pr_posting_receipts acc @ [receipt]\<rparr>))
      | (w', Inl e) \<Rightarrow>
          if is_validation_error e
          then (w', Inr (acc\<lparr>pr_rejected_proposals := pr_rejected_proposals acc @ [rejected_proposal item e]\<rparr>))
          else (w', Inl e))"

fun accept_items :: "'w acceptor \<Rightarrow> string \<Rightarrow> pull_result \<Rightarrow> payload list \<Rightarrow> ('w, pull_result) io" where
  "accept_items accept tenant acc [] = io_lift (Inr acc)"
| "accept_items accept tenant acc (item # items) =
     io_bind (accept_item accept tenant acc item) (\<lambda>acc'. accept_items accept tenant acc' items)"

text \<open>
  The page loop: the first argument is how many more pages may be fetched, so that the turn after
  the last allowed one raises.
\<close>

fun pull_pages ::
    "nat \<Rightarrow> 'w network \<Rightarrow> 'w acceptor \<Rightarrow> billing_env \<Rightarrow> py_value \<Rightarrow> string \<Rightarrow> string option \<Rightarrow> int option \<Rightarrow>
       string option \<Rightarrow> string set \<Rightarrow> pull_result \<Rightarrow> ('w, pull_result) io" where
  "pull_pages 0 net accept env base tenant proposed_after limit cursor seen acc =
     io_lift (Inl (validation_error msg_pull_pages))"
| "pull_pages (Suc n) net accept env base tenant proposed_after limit cursor seen acc =
     io_bind (pull_validated_journal_proposals net env base tenant proposed_after cursor limit) (\<lambda>page.
     io_bind (accept_items accept tenant acc (page_proposals page)) (\<lambda>acc'.
       let seen' = (case cursor of Some c \<Rightarrow> if c \<noteq> [] then insert c seen else seen | None \<Rightarrow> seen) in
       case page_next_cursor page of
         None \<Rightarrow> io_lift (Inr acc')
       | Some next_cursor \<Rightarrow>
           if next_cursor \<in> seen' then io_lift (Inl (validation_error msg_pull_cursor))
           else pull_pages n net accept env base tenant proposed_after limit (Some next_cursor) seen' acc'))"

definition accept_pulled_proposals ::
    "'w network \<Rightarrow> 'w acceptor \<Rightarrow> billing_env \<Rightarrow> py_value \<Rightarrow> string \<Rightarrow> string option \<Rightarrow> string option \<Rightarrow> int option \<Rightarrow>
       ('w, pull_result) io" where
  "accept_pulled_proposals net accept env base tenant proposed_after cursor limit =
     pull_pages max_pull_pages net accept env base tenant proposed_after limit cursor {}
       \<lparr>pr_posting_receipts = [], pr_rejected_proposals = []\<rparr>"

definition pull_page_limit :: "py_value \<Rightarrow> int option result" where
  "pull_page_limit raw =
     (if none_or_empty raw then Inr None
      else case int_of_value raw of
             Int_Value n \<Rightarrow> Inr (Some n)
           | Int_Bad \<Rightarrow> Inl (validation_error msg_pull_limit_integer)
           | Int_Overflow \<Rightarrow> Inl OverflowError)"

definition truthy_text :: "py_value \<Rightarrow> string option" where
  "truthy_text v = (if truthy v then Some (py_str v) else None)"

definition accept_billing_proposal_pull ::
    "'w network \<Rightarrow> 'w acceptor \<Rightarrow> billing_env \<Rightarrow> py_value \<Rightarrow> string \<Rightarrow> ('w, pull_result) io" where
  "accept_billing_proposal_pull net accept env command tenant =
     (case as_mapping command of
        None \<Rightarrow> io_lift (Inl (validation_error msg_pull_payload))
      | Some p \<Rightarrow>
          if get_value p ''tenant_reference'' \<noteq> PStr tenant then io_lift (Inl (validation_error msg_pull_tenant))
          else
            io_bind (io_lift (resolve_command_billing_origin env (get_value p ''billing_base_url''))) (\<lambda>base.
            io_bind (io_lift (pull_page_limit (get_value p ''page_limit''))) (\<lambda>limit.
              accept_pulled_proposals net accept env (PStr base) tenant (truthy_text (get_value p ''proposed_after''))
                (truthy_text (get_value p ''cursor'')) limit)))"

end
