(* ===== verification/Pull_Contract.thy ===== *)
theory Pull_Contract
  imports Billing_Pull
begin

text \<open>
  The contract between the billing pull and its collaborators, the billing service and the acceptance
  of one proposal: a relation between the worlds before and after that the service keeps on every
  request bound to the tenant and a configured base, and that the acceptance keeps on every validated
  proposal, is kept by a whole pull.
\<close>

definition page_url :: "string \<Rightarrow> string" where
  "page_url base = base @ ''/v1/journal-proposals''"

definition bound_request :: "billing_env \<Rightarrow> string \<Rightarrow> billing_request \<Rightarrow> bool" where
  "bound_request env tenant r \<longleftrightarrow>
     (\<exists>bases origin base query. configured_billing_bases env = Inr bases \<and> (origin, base) \<in> set bases \<and>
        billing_request_of (page_url base) tenant query = Inr r)"

lemma resolved_base_configured:
  assumes "resolve_command_billing_origin env requested = Inr base"
  shows "\<exists>bases origin. configured_billing_bases env = Inr bases \<and> (origin, base) \<in> set bases"
proof -
  have first: "\<exists>e es. bases = e # es" if "configured_billing_bases env = Inr bases" "strip (env_billing_base_url env) \<noteq> []" for bases
  proof -
    have "bases' \<noteq> []" if "add_configured_base [] (env_billing_base_url env) = Inr bases'" for bases'
      using that \<open>strip _ \<noteq> []\<close> by (auto simp: add_configured_base_def result_simps split: if_splits)
    moreover have "entries' \<noteq> []" if "add_configured_base entries raw = Inr entries'" "entries \<noteq> []" for entries entries' raw
      using that by (auto simp: add_configured_base_def result_simps split: if_splits)
    then have "entries' \<noteq> []" if "fold_result add_configured_base entries raws = Inr entries'" "entries \<noteq> []" for entries entries' raws
      using that by (induction raws arbitrary: entries) (auto simp: result_simps)
    ultimately show ?thesis
      using that by (auto simp: configured_billing_bases_def result_simps neq_Nil_conv)
  qed
  from assms obtain bases where bases: "configured_billing_bases env = Inr bases"
    by (auto simp: resolve_command_billing_origin_def result_simps)
  have listed: "\<exists>origin. (origin, base) \<in> set bases" if "dict_get bases x = Some base" for x
    using that by (metis map_of_SomeD)
  have "strip (env_billing_base_url env) \<noteq> [] \<and> base = snd (hd bases) \<or> (\<exists>x. dict_get bases x = Some base)"
    using assms bases
    by (auto simp: resolve_command_billing_origin_def result_simps split: if_splits option.splits)
  then show ?thesis using first [OF bases] listed bases by force
qed

lemma bound_requestI:
  "resolve_command_billing_origin env requested = Inr base \<Longrightarrow>
   billing_request_of (base @ ''/v1/journal-proposals'') tenant query = Inr r \<Longrightarrow> bound_request env tenant r"
  unfolding bound_request_def page_url_def using resolved_base_configured by blast

lemma page_items_validated:
  assumes "pull_validated_journal_proposals net env base tenant after cursor limit w = (w', Inr page)"
  shows "\<forall>d\<in>set (page_proposals page). get_value d ''proposal_status'' = PStr ''validated''"
proof -
  have item: "get_value d ''proposal_status'' = PStr ''validated''" if "validated_item v = Inr d" for v d
    using that by (auto simp: validated_item_def validated_proposal_status_def split: option.splits if_splits)
  obtain document where "read_page document = Inr page"
    using assms by (auto simp: pull_validated_journal_proposals_def io_bind_Inr_iff)
  then obtain raw where "map_result validated_item raw = Inr (page_proposals page)"
    by (cases "get_value document ''journal_proposals''"; cases "get_value document ''next_cursor''")
      (auto simp: read_page_def result_simps split: if_splits)
  then show ?thesis using item by (metis map_result_set)
qed

locale pull_collaborators =
  fixes R :: "'w \<Rightarrow> 'w \<Rightarrow> bool"
    and net :: "'w network"
    and accept :: "'w acceptor"
    and env :: billing_env
    and tenant :: string
  assumes R_refl: "reflp R"
    and R_trans: "transp R"
    and net_keeps: "bound_request env tenant r \<Longrightarrow> R w (fst (net w r))"
    and accept_keeps: "get_value d ''proposal_status'' = PStr ''validated'' \<Longrightarrow> R w (fst (accept (PDict d) tenant w))"
begin

lemmas keeps_rules = io_keeps_bind_dep [OF R_trans] io_keeps_lift [OF R_refl]

lemma get_keeps:
  "(\<And>r. billing_request_of url tenant query = Inr r \<Longrightarrow> bound_request env tenant r) \<Longrightarrow>
   io_keeps R (billing_get net url tenant query)"
proof -
  assume bound: "\<And>r. billing_request_of url tenant query = Inr r \<Longrightarrow> bound_request env tenant r"
  show ?thesis
    unfolding io_keeps_def
  proof
    fix w
    show "R w (fst (billing_get net url tenant query w))"
    proof (cases "billing_request_of url tenant query")
      case (Inl e)
      then show ?thesis using reflpD [OF R_refl] by (simp add: billing_get_def)
    next
      case (Inr r)
      then show ?thesis using net_keeps [OF bound [OF Inr], of w] by (auto simp: billing_get_def split: prod.splits)
    qed
  qed
qed

lemma page_keeps:
  "io_keeps R (pull_validated_journal_proposals net env base tenant after cursor limit)"
  unfolding pull_validated_journal_proposals_def
  by (intro keeps_rules get_keeps) (auto intro: bound_requestI)

lemma items_keep:
  "(\<And>d. d \<in> set items \<Longrightarrow> get_value d ''proposal_status'' = PStr ''validated'') \<Longrightarrow>
   io_keeps R (accept_items accept tenant acc items)"
proof (induction items arbitrary: acc)
  case Nil
  then show ?case by (simp add: keeps_rules)
next
  case (Cons d items)
  have "R w (fst (accept (PDict d) tenant w))" for w
    using Cons.prems by (intro accept_keeps) simp
  moreover have "fst (accept_item accept tenant acc d w) = fst (accept (PDict d) tenant w)" for w
    by (simp add: accept_item_def split: prod.splits sum.splits)
  ultimately have "io_keeps R (accept_item accept tenant acc d)"
    by (simp add: io_keeps_def)
  with Cons show ?case by (simp add: keeps_rules)
qed

lemma pages_keep:
  "io_keeps R (pull_pages n net accept env base tenant after limit cursor seen acc)"
proof (induction n arbitrary: cursor seen acc)
  case 0
  then show ?case by (simp add: keeps_rules)
next
  case (Suc n)
  have rest: "io_keeps R
      (case nxt of None \<Rightarrow> io_lift (Inr acc')
       | Some c \<Rightarrow> if c \<in> seen' then io_lift (Inl (validation_error msg_pull_cursor))
                  else pull_pages n net accept env base tenant after limit (Some c) seen' acc')"
    for nxt acc' seen'
    by (cases nxt) (simp_all add: keeps_rules Suc)
  show ?case
    unfolding pull_pages.simps Let_def
    by (intro keeps_rules page_keeps items_keep rest) (use page_items_validated in fastforce)
qed

lemma pull_keeps: "io_keeps R (accept_billing_proposal_pull net accept env command tenant)"
  unfolding accept_billing_proposal_pull_def accept_pulled_proposals_def
  by (auto intro!: keeps_rules pages_keep split: option.split)

end

end
