(* ===== verification/Billing_Origins.thy ===== *)
theory Billing_Origins
  imports Pull_Contract
begin

text \<open>
  Where a request of the billing pull goes: the host of a request made from a configured base is the
  host of the origin that was checked when the configuration was read, although the code parses and
  strips the texts several times. So no request is sent to a loopback or link-local host.
\<close>


section \<open>Origins stay where they were configured\<close>

lemma code_lower_latin:
  "code (lower_latin c) = (if 65 \<le> code c \<and> code c \<le> 90 \<or> (192 \<le> code c \<and> code c \<le> 222 \<and> code c \<noteq> 215)
     then code c + 32 else code c)"
  by (auto simp: lower_latin_def in_range_def)

lemma char_eq_code: "c = d \<longleftrightarrow> code c = code d"
  by (simp add: of_char_eq_iff)

lemma lower_latin_idem [simp]: "lower_latin (lower_latin c) = lower_latin c"
  unfolding char_eq_code code_lower_latin by auto

definition unaffected :: "char \<Rightarrow> bool" where
  "unaffected d \<longleftrightarrow> code d < 65 \<or> (90 < code d \<and> code d < 97) \<or> (122 < code d \<and> code d < 192)"

lemma lower_latin_unaffected: "unaffected d \<Longrightarrow> lower_latin c = d \<longleftrightarrow> c = d"
  unfolding char_eq_code code_lower_latin unaffected_def by auto

lemma set_py_lower_unaffected [simp]: "unaffected d \<Longrightarrow> d \<in> set (py_lower s) \<longleftrightarrow> d \<in> set s"
  by (auto simp: py_lower_def image_iff) (metis lower_latin_unaffected)+

lemma unaffected_separators [simp]:
  "unaffected CHR '':''" "unaffected CHR ''[''" "unaffected CHR '']''" "unaffected CHR ''@''" "unaffected CHR ''/''"
  "unaffected CHR ''?''" "unaffected CHR ''#''" "unaffected CHR ''%''" "unaffected CHR 0x09" "unaffected CHR 0x0A"
  "unaffected CHR 0x0D"
  by (simp_all add: unaffected_def)

lemma py_lower_idem [simp]: "py_lower (py_lower s) = py_lower s"
  by (simp add: py_lower_def)

text \<open>The scheme and the network location of a URL do not depend on a path appended to it.\<close>

lemma dropWhile_append_stop: "\<exists>c\<in>set s. \<not> P c \<Longrightarrow> dropWhile P (s @ t) = dropWhile P s @ t"
  by (auto simp: dropWhile_append)

lemma takeWhile_append_stop: "P c = False \<Longrightarrow> takeWhile P (s @ c # t) = takeWhile P s"
  by (induction s) auto

lemma before_after_append:
  "c \<in> set s \<Longrightarrow> before_char c (s @ t) = before_char c s"
  "c \<in> set s \<Longrightarrow> after_char c (s @ t) = after_char c s @ t"
  by (induction s) (auto simp: before_char_def after_char_def)

lemma split_scheme_append:
  "split_scheme s = (sch, rest) \<Longrightarrow> sch \<noteq> [] \<Longrightarrow> split_scheme (s @ t) = (sch, rest @ t)"
  unfolding split_scheme_def Let_def has_char_def
  by (cases "CHR '':'' \<in> set s") (auto simp: before_after_append split: if_splits)

lemma starts_with_append: "starts_with p s \<Longrightarrow> starts_with p (s @ t)"
proof -
  assume "starts_with p s"
  then obtain q where "s = p @ q" unfolding starts_with_def by (metis append_take_drop_id)
  then show ?thesis by (simp add: starts_with_def)
qed

definition clean_url :: "string \<Rightarrow> string" where
  "clean_url s = filter (\<lambda>c. c \<notin> {CHR 0x09, CHR 0x0A, CHR 0x0D}) (lstrip_set (\<lambda>c. code c \<le> 32) s)"

lemma clean_url_append:
  "clean_url base \<noteq> [] \<Longrightarrow> clean_url (base @ CHR ''/'' # t) = clean_url base @ CHR ''/'' # filter (\<lambda>c. c \<notin> {CHR 0x09, CHR 0x0A, CHR 0x0D}) t"
proof -
  assume "clean_url base \<noteq> []"
  then have "\<not> (\<forall>c\<in>set base. code c \<le> 32)"
    by (metis clean_url_def dropWhile_eq_Nil_conv filter.simps(1) lstrip_set_def)
  then have "dropWhile (\<lambda>c. code c \<le> 32) (base @ CHR ''/'' # t) = dropWhile (\<lambda>c. code c \<le> 32) base @ CHR ''/'' # t"
    by (intro dropWhile_append_stop) blast
  then show ?thesis by (simp add: clean_url_def lstrip_set_def)
qed

definition url_location :: "string \<Rightarrow> string \<times> string" where
  "url_location raw =
     (let (sch, rest) = split_scheme (clean_url raw)
      in (sch, if starts_with ''//'' rest then takeWhile (\<lambda>c. c \<notin> set ''/?#'') (drop 2 rest) else []))"

lemma urlparse_location:
  "urlparse raw = Some u \<Longrightarrow> url_location raw = (url_scheme u, url_netloc u)"
  "urlparse raw \<noteq> None \<longleftrightarrow> netloc_ok (snd (url_location raw))"
  by (auto simp: urlparse_def url_location_def clean_url_def Let_def split: prod.splits if_splits)

lemma url_location_append:
  assumes "url_location base = (sch, netloc)" "sch \<noteq> []" "netloc \<noteq> []"
  shows "url_location (base @ CHR ''/'' # path) = (sch, netloc)"
proof -
  obtain rest where sp: "split_scheme (clean_url base) = (sch, rest)" "starts_with ''//'' rest"
    and netloc: "netloc = takeWhile (\<lambda>c. c \<notin> set ''/?#'') (drop 2 rest)"
    using assms by (auto simp: url_location_def split: prod.splits if_splits)
  have ne: "clean_url base \<noteq> []"
    using sp assms(2) by (auto simp: split_scheme_def has_char_def)
  have len: "2 \<le> length rest"
    using sp(2) by (auto simp: starts_with_def dest: arg_cong [where f = length])
  show ?thesis
    unfolding url_location_def clean_url_append [OF ne] split_scheme_append [OF sp(1) assms(2)] prod.case netloc
    using starts_with_append [OF sp(2)] len by (simp add: takeWhile_append_stop)
qed


definition unsafe_host :: "string \<Rightarrow> bool" where
  "unsafe_host h \<longleftrightarrow>
     (let t = rstrip_set (\<lambda>c. c = CHR ''.'') (py_lower h)
      in t = ''localhost'' \<or> (\<exists>a. read_ip_address t = Some a \<and> (is_loopback a \<or> is_link_local a)))"

lemma py_lower_append [simp]: "py_lower (s @ t) = py_lower s @ py_lower t"
  by (simp add: py_lower_def)

lemma py_lower_url_hostname: "url_hostname u = Some h \<Longrightarrow> py_lower h = py_lower (fst (host_and_port (url_netloc u)))"
  unfolding url_hostname_def Let_def before_char_def
  by (auto split: if_splits) (metis py_lower_append takeWhile_dropWhile_id)

lemma lower_fixed: "py_lower s = s \<longleftrightarrow> (\<forall>c\<in>set s. lower_latin c = c)"
  by (simp add: py_lower_def map_idI) (metis list.set_map map_idI map_eq_conv map_ident)

lemma rstrip_set_subset: "set (rstrip_set P s) \<subseteq> set s"
  by (auto simp: rstrip_set_def dest: set_dropWhileD)

lemma rstrip_set_keeps: "c \<in> set s \<Longrightarrow> \<not> P c \<Longrightarrow> c \<in> set (rstrip_set P s)"
proof -
  assume c: "c \<in> set s" "\<not> P c"
  have "c \<in> set (takeWhile P (rev s) @ dropWhile P (rev s))" using c(1) by simp
  then show ?thesis using c(2) set_takeWhileD by (fastforce simp: rstrip_set_def simp del: takeWhile_dropWhile_id)
qed

lemma rstrip_lower: "py_lower s = s \<Longrightarrow> py_lower (rstrip_set P s) = rstrip_set P s"
  using rstrip_set_subset unfolding lower_fixed by blast

lemma safe_hostname:
  assumes "require_safe_configured_origin origin = Inr ()" "urlparse origin = Some u" "url_hostname u = Some h" "py_lower h = h"
  shows "\<not> unsafe_host h"
  using assms rstrip_lower [OF assms(4)]
  by (auto simp: require_safe_configured_origin_def unsafe_host_def Let_def split: if_splits option.splits)

text \<open>A host that holds a space and no colon is no address and not \<open>localhost\<close>.\<close>

lemma split_on_chars: "c \<in> set s \<Longrightarrow> c \<noteq> sep \<Longrightarrow> \<exists>p\<in>set (split_on sep s). c \<in> set p"
  by (induction sep s rule: split_on.induct) (auto split: list.splits)

lemma ipv4_chars: "ipv4_octets s = Some q \<Longrightarrow> c \<in> set s \<Longrightarrow> is_digit c \<or> c = CHR ''.''"
proof (rule ccontr)
  assume q: "ipv4_octets s = Some q" and c: "c \<in> set s" "\<not> (is_digit c \<or> c = CHR ''.'')"
  then obtain p where p: "p \<in> set (split_on (CHR ''.'') s)" "c \<in> set p" using split_on_chars by blast
  have "ipv4_octet p = None" using c p(2) by (auto simp: ipv4_octet_def list_all_iff)
  with p(1) q show False by (force simp: ipv4_octets_def Let_def split: if_splits)
qed

lemma ipv6_colon: "CHR '':'' \<notin> set s \<Longrightarrow> ipv6_hextets s = None"
  by (simp add: ipv6_hextets_def ipv6_parts_def split_on_no_sep)

lemma spaced_host_safe:
  assumes "CHR '':'' \<notin> set h" "c \<in> set h" "is_space c"
  shows "\<not> unsafe_host h"
proof -
  define t where "t = rstrip_set (\<lambda>c. c = CHR ''.'') (py_lower h)"
  have c: "unaffected c" "c \<noteq> CHR ''.''" "\<not> is_digit c" "c \<notin> set ''localhost''"
    using assms(3) by (auto simp: is_space_def unaffected_def in_range_def)
  have "c \<in> set (py_lower h)" using assms(2) c(1) by simp
  then have ct: "c \<in> set t"
    unfolding t_def using c(2) by (rule rstrip_set_keeps)
  have colon: "CHR '':'' \<notin> set t"
    using assms(1) subsetD [OF rstrip_set_subset] unfolding t_def by (metis set_py_lower_unaffected unaffected_separators(1))
  have "CHR '':'' \<notin> set (before_char (CHR ''%'') t)"
    using colon by (auto simp: before_char_def dest: set_takeWhileD)
  then have "read_ip_address t = None"
    using ipv4_chars [of t _ c] ct c ipv6_colon by (auto simp: read_ip_address_def split: option.splits)
  moreover have "t \<noteq> ''localhost''" using ct c(4) by blast
  ultimately show ?thesis by (simp add: unsafe_host_def t_def [symmetric])
qed


text \<open>Splitting a network location that is a host and perhaps a port.\<close>

lemma before_after_char:
  "c \<notin> set s \<Longrightarrow> before_char c s = s" "c \<notin> set s \<Longrightarrow> after_char c s = []"
  "c \<notin> set s \<Longrightarrow> before_char c (s @ c # t) = s" "c \<notin> set s \<Longrightarrow> after_char c (s @ c # t) = t"
  by (induction s) (auto simp: before_char_def after_char_def)

lemma after_at_no_at: "CHR ''@'' \<notin> set s \<Longrightarrow> after_at s = s"
proof -
  assume "CHR ''@'' \<notin> set s"
  then have kept: "takeWhile (\<lambda>d. d \<noteq> CHR ''@'') (rev s) = rev s"
    by (intro takeWhile_eq_all_conv [THEN iffD2]) auto
  show ?thesis unfolding after_at_def after_last_def kept by simp
qed

lemma before_char_free: "c \<notin> set (before_char c s)"
  by (auto simp: before_char_def dest: set_takeWhileD)

lemma before_char_subset: "set (before_char c s) \<subseteq> set s"
  by (auto simp: before_char_def dest: set_takeWhileD)

lemma after_char_subset: "set (after_char c s) \<subseteq> set s"
  by (auto simp: after_char_def dest: in_set_dropD set_dropWhileD)

lemma host_and_port_origin:
  assumes "CHR ''@'' \<notin> set L" "CHR '']'' \<notin> set L" "CHR ''@'' \<notin> set port" "CHR ''['' \<notin> set port" "CHR '']'' \<notin> set port"
    and "port = [] \<or> hd port = CHR '':''"
  shows "CHR '':'' \<in> set L \<Longrightarrow> fst (host_and_port (''['' @ L @ '']'' @ port)) = L"
    and "CHR '':'' \<notin> set L \<Longrightarrow> netloc_ok (L @ port) \<Longrightarrow> fst (host_and_port (L @ port)) = L"
proof -
  show "fst (host_and_port (''['' @ L @ '']'' @ port)) = L" if "CHR '':'' \<in> set L"
    using assms before_after_char [of "CHR ''[''" "[]"]
    by (simp add: host_and_port_def after_at_no_at has_char_def before_after_char)
  show "fst (host_and_port (L @ port)) = L" if "CHR '':'' \<notin> set L" "netloc_ok (L @ port)"
  proof -
    have "CHR ''['' \<notin> set L" using that(2) assms by (auto simp: netloc_ok_def has_char_def)
    then show ?thesis
      using assms that(1)
      by (cases port) (auto simp: host_and_port_def after_at_no_at has_char_def before_after_char)
  qed
qed

text \<open>The host of a network location: where its characters come from.\<close>

lemma host_chars:
  assumes "CHR ''@'' \<notin> set netloc" "netloc_ok netloc"
  shows "set (fst (host_and_port netloc)) \<subseteq> set netloc" and "CHR '']'' \<notin> set (fst (host_and_port netloc))"
proof -
  show "set (fst (host_and_port netloc)) \<subseteq> set netloc"
    using assms before_char_subset after_char_subset
    by (simp add: host_and_port_def after_at_no_at Let_def) (meson subset_trans)
  show "CHR '']'' \<notin> set (fst (host_and_port netloc))"
    using assms before_char_free before_char_subset [of "CHR '':''" netloc]
    by (auto simp: host_and_port_def after_at_no_at Let_def netloc_ok_def has_char_def)
qed

lemma url_location_chars:
  assumes "url_location s = (sch, netloc)" "c \<in> set netloc"
  shows "c \<notin> {CHR 0x09, CHR 0x0A, CHR 0x0D}" and "c \<notin> set ''/?#''"
proof -
  obtain rest where sp: "split_scheme (clean_url s) = (sch, rest)"
    and netloc: "netloc = takeWhile (\<lambda>c. c \<notin> set ''/?#'') (drop 2 rest)"
    using assms by (auto simp: url_location_def split: prod.splits if_splits)
  show "c \<notin> set ''/?#''" using assms(2) netloc by (metis set_takeWhileD)
  have "c \<in> set rest" using assms(2) netloc by (metis in_set_dropD set_takeWhileD)
  then have "c \<in> set (clean_url s)"
    using sp after_char_subset by (fastforce simp: split_scheme_def Let_def split: if_splits)
  then show "c \<notin> {CHR 0x09, CHR 0x0A, CHR 0x0D}" by (simp add: clean_url_def)
qed

definition origin_text :: "string \<Rightarrow> string \<Rightarrow> string \<Rightarrow> string" where
  "origin_text sch L port =
     sch @ ''://'' @ (if has_char (CHR '':'') L then ''['' @ L @ '']'' else L) @ port"

lemma url_location_origin:
  assumes "sch \<in> {''http'', ''https''}" "\<And>c. c \<in> set netloc \<Longrightarrow> c \<notin> {CHR 0x09, CHR 0x0A, CHR 0x0D} \<and> c \<notin> set ''/?#''"
  shows "url_location (sch @ ''://'' @ netloc) = (sch, netloc)"
proof -
  have "filter (\<lambda>c. c \<notin> {CHR 0x09, CHR 0x0A, CHR 0x0D}) netloc = netloc"
    using assms(2) by (intro filter_True) blast
  then have clean: "clean_url (sch @ ''://'' @ netloc) = sch @ ''://'' @ netloc"
    using assms(1) by (elim insertE emptyE) (simp_all add: clean_url_def lstrip_set_def)
  have split: "split_scheme (sch @ ''://'' @ netloc) = (sch, ''//'' @ netloc)"
    using assms(1) by (elim insertE emptyE)
      (simp_all add: split_scheme_def has_char_def before_char_def after_char_def scheme_char_def in_range_def
        py_lower_def lower_latin_def)
  have kept: "takeWhile (\<lambda>c. c \<notin> set ''/?#'') netloc = netloc"
    using assms(2) by (intro takeWhile_eq_all_conv [THEN iffD2]) blast
  have "drop 2 (''//'' @ netloc) = netloc" "starts_with ''//'' (''//'' @ netloc)"
    by (simp_all add: starts_with_def)
  then show ?thesis
    unfolding url_location_def clean split prod.case Let_def by (simp only: kept if_True)
qed


section \<open>Configured bases\<close>

lemma add_configured_baseD:
  "add_configured_base entries raw = Inr entries' \<Longrightarrow> (origin, base) \<in> set entries' \<Longrightarrow>
   (origin, base) \<in> set entries \<or>
   (require_billing_base_url raw = Inr base \<and> canonical_billing_origin base = Inr origin \<and> bare_origin base \<and>
    require_safe_configured_origin origin = Inr ())"
  by (auto simp: add_configured_base_def result_simps split: if_splits)

lemma configured_entryD:
  assumes "configured_billing_bases env = Inr bases" "(origin, base) \<in> set bases"
  shows "\<exists>raw. require_billing_base_url raw = Inr base \<and> canonical_billing_origin base = Inr origin \<and>
           bare_origin base \<and> require_safe_configured_origin origin = Inr ()"
proof -
  have "(origin, base) \<in> set entries \<or> (\<exists>raw. require_billing_base_url raw = Inr base \<and>
          canonical_billing_origin base = Inr origin \<and> bare_origin base \<and> require_safe_configured_origin origin = Inr ())"
    if "fold_result add_configured_base entries raws = Inr bases" for entries raws
    using that assms(2)
    by (induction raws arbitrary: entries) (auto simp: result_simps dest: add_configured_baseD)
  from this [OF assms(1) [unfolded configured_billing_bases_def]] show ?thesis by simp
qed

definition port_text :: "string \<Rightarrow> bool" where
  "port_text port \<longleftrightarrow> port = [] \<or> (\<exists>n. port = CHR '':'' # nat_text n)"

lemma canonical_originD:
  assumes "canonical_billing_origin base = Inr origin"
  shows "\<exists>b u h port. require_billing_base_url base = Inr b \<and> urlparse b = Some u \<and> url_scheme u \<in> {''http'', ''https''} \<and>
     url_hostname u = Some h \<and> port_text port \<and> origin = origin_text (url_scheme u) (py_lower h) port"
proof -
  obtain b where b: "require_billing_base_url base = Inr b"
    using assms by (auto simp: canonical_billing_origin_def result_simps)
  obtain u where u: "urlparse b = Some u"
    using assms b by (cases "urlparse b") (simp_all add: canonical_billing_origin_def)
  obtain h where h: "url_hostname u = Some h"
    using assms b u by (cases "url_hostname u") (simp_all add: canonical_billing_origin_def)
  obtain p where p: "url_port u = Some p"
    using assms b u h by (cases "url_port u") (simp_all add: canonical_billing_origin_def)
  have "url_scheme u \<in> {''http'', ''https''}"
    using assms b u h p by (rule_tac ccontr) (simp add: canonical_billing_origin_def)
  note bu = b u this h p
  have "\<exists>port. port_text port \<and> origin = origin_text (url_scheme u) (py_lower h) port"
  proof (cases p)
    case None
    then show ?thesis using assms bu
      by (intro exI [of _ "[]"])
        (simp add: canonical_billing_origin_def Let_def origin_text_def port_text_def split: if_splits)
  next
    case (Some n)
    show ?thesis
    proof (cases "(url_scheme u = ''http'' \<and> n = 80) \<or> (url_scheme u = ''https'' \<and> n = 443)")
      case True
      then show ?thesis using assms bu Some
        by (intro exI [of _ "[]"])
          (simp add: canonical_billing_origin_def Let_def origin_text_def port_text_def split: if_splits)
    next
      case False
      then show ?thesis using assms bu Some
        by (intro exI [of _ "CHR '':'' # nat_text n"])
          (simp add: canonical_billing_origin_def Let_def origin_text_def port_text_def del: nat_text.simps split: if_splits; blast)
    qed
  qed
  with bu show ?thesis by blast
qed

lemma nat_text_no_char: "\<not> is_digit c \<Longrightarrow> c \<notin> set (nat_text n)"
  using nat_text_digits [of n] by (auto simp: list_all_iff simp del: nat_text.simps)

lemma port_text_chars: "port_text port \<Longrightarrow> c \<in> set port \<Longrightarrow> is_digit c \<or> c = CHR '':''"
  using nat_text_digits by (auto simp: port_text_def list_all_iff simp del: nat_text.simps)

lemma origin_hostname:
  assumes u: "urlparse b = Some u" "url_scheme u \<in> {''http'', ''https''}" "url_hostname u = Some h" "CHR ''@'' \<notin> set (url_netloc u)"
    and port: "port_text port" and v: "urlparse (origin_text (url_scheme u) (py_lower h) port) = Some v"
  shows "url_hostname v = Some (py_lower h)"
proof -
  define L where "L = py_lower h"
  define host where "host = fst (host_and_port (url_netloc u))"
  define netloc where "netloc = (if has_char (CHR '':'') L then ''['' @ L @ '']'' else L) @ port"
  have ok: "netloc_ok (url_netloc u)" using u(1) urlparse_location(1) [OF u(1)] urlparse_location(2) [of b] by simp
  have L: "L = py_lower host" unfolding L_def host_def by (rule py_lower_url_hostname) fact
  have "L \<noteq> []" using u(3) by (auto simp: L host_def url_hostname_def Let_def py_lower_def split: if_splits)
  have chars: "c \<in> set (url_netloc u)" if "c \<in> set L" "unaffected c" for c
    using host_chars(1) [OF u(4) ok] that by (auto simp: L host_def)
  have loc: "url_location b = (url_scheme u, url_netloc u)" by (rule urlparse_location) fact
  have plain: "c \<notin> {CHR 0x09, CHR 0x0A, CHR 0x0D} \<and> c \<notin> set ''/?#''" if "c \<in> set L" for c
    using url_location_chars(1) [OF loc chars [OF that]] url_location_chars(2) [OF loc chars [OF that]] by (auto simp: unaffected_def)
  have "c \<notin> {CHR 0x09, CHR 0x0A, CHR 0x0D} \<and> c \<notin> set ''/?#''" if "c \<in> set netloc" for c
  proof -
    from that have "c \<in> set L \<or> c \<in> {CHR ''['', CHR '']''} \<or> c \<in> set port"
      by (auto simp: netloc_def split: if_splits)
    moreover have ?thesis if "c \<in> set port"
      using port_text_chars [OF port that] by (auto simp: in_range_def)
    ultimately show ?thesis using plain by auto
  qed
  then have "url_location (url_scheme u @ ''://'' @ netloc) = (url_scheme u, netloc)"
    by (intro url_location_origin u(2))
  then have v_netloc: "url_netloc v = netloc" and v_ok: "netloc_ok netloc"
    using v urlparse_location by (auto simp: origin_text_def netloc_def L_def) (metis option.distinct(1) snd_conv)+
  have no: "CHR ''@'' \<notin> set L" "CHR '']'' \<notin> set L"
    using chars u(4) host_chars(2) [OF u(4) ok] by (auto simp: L host_def)
  have "c \<notin> set port" if "\<not> is_digit c" "c \<noteq> CHR '':''" for c
    using port_text_chars [OF port] that by blast
  then have pno: "CHR ''@'' \<notin> set port" "CHR ''['' \<notin> set port" "CHR '']'' \<notin> set port" "port = [] \<or> hd port = CHR '':''"
    using port by (auto simp: in_range_def port_text_def)
  have "fst (host_and_port netloc) = L"
    using host_and_port_origin [OF no pno] v_ok by (auto simp: netloc_def has_char_def split: if_splits)
  moreover have "py_lower (before_char (CHR ''%'') L) = before_char (CHR ''%'') L"
    using before_char_subset [of "CHR ''%''" L] lower_fixed [of L] by (auto simp: lower_fixed L_def)
  ultimately show ?thesis
    using \<open>L \<noteq> []\<close> v_netloc by (simp add: url_hostname_def L_def before_char_def)
qed


lemma unsafe_host_lower: "unsafe_host (py_lower h) = unsafe_host h"
  by (simp add: unsafe_host_def)

lemma stripped_prefix:
  assumes "require_billing_base_url raw = Inr base" "require_billing_base_url base = Inr b"
  shows "\<exists>ws. base = b @ ws \<and> (\<forall>c\<in>set ws. is_space c \<or> c = CHR ''/'')"
proof -
  have suffix: "\<exists>ws. s = rstrip_set P s @ ws \<and> (\<forall>c\<in>set ws. P c)" for P s
    by (intro exI [of _ "rev (takeWhile P (rev s))"])
      (auto simp: rstrip_set_def dest: set_takeWhileD simp flip: rev_append)
  obtain ws0 where ws0: "rstrip_set is_space (lstrip_set is_space raw) = base @ ws0" and ne: "base \<noteq> []"
    using assms(1) suffix [of "strip raw" "\<lambda>c. c = CHR ''/''"]
    by (auto simp: require_billing_base_url_def Let_def strip_def split: if_splits)
  obtain ws1 where ws1: "lstrip_set is_space raw = (base @ ws0) @ ws1"
    using suffix [of "lstrip_set is_space raw" is_space] ws0 by auto
  have "\<not> is_space (hd base)"
  proof -
    have raw: "dropWhile is_space raw = base @ ws0 @ ws1" using ws1 by (simp add: lstrip_set_def)
    then have "dropWhile is_space raw \<noteq> []" using ne by auto
    from hd_dropWhile [OF this] show ?thesis using ne unfolding raw by simp
  qed
  then have "lstrip_set is_space base = base" using ne by (cases base) (auto simp: lstrip_set_def)
  then have b: "b = rstrip_set (\<lambda>c. c = CHR ''/'') (rstrip_set is_space base)"
    using assms(2) by (simp add: require_billing_base_url_def Let_def strip_def split: if_splits)
  define s1 where "s1 = rstrip_set is_space base"
  obtain w1 where w1: "base = s1 @ w1" "\<forall>c\<in>set w1. is_space c"
    using suffix [of base is_space] unfolding s1_def by (elim exE conjE)
  obtain w2 where w2: "s1 = b @ w2" "\<forall>c\<in>set w2. c = CHR ''/''"
    using suffix [of s1 "\<lambda>c. c = CHR ''/''"] unfolding b s1_def by (elim exE conjE)
  have "base = b @ w2 @ w1" using w1(1) w2(1) by simp
  then show ?thesis using w1(2) w2(2) by (intro exI [of _ "w2 @ w1"]) auto
qed

lemma takeWhile_append_split: "\<exists>y. takeWhile P (s @ t) = takeWhile P s @ y \<and> set y \<subseteq> {c \<in> set t. P c}"
  by (induction s) (auto dest: set_takeWhileD)

lemma url_location_suffix:
  assumes "url_location b = (sch, netloc)" "sch \<noteq> []" "netloc \<noteq> []" "\<forall>c\<in>set ws. is_space c \<or> c = CHR ''/''"
  shows "\<exists>y. url_location (b @ ws) = (sch, netloc @ y) \<and> (\<forall>c\<in>set y. is_space c)"
proof -
  define F where "F = filter (\<lambda>c. c \<notin> {CHR 0x09, CHR 0x0A, CHR 0x0D})"
  define keep where "keep = (\<lambda>c. c \<notin> set ''/?#'')"
  obtain rest where sp: "split_scheme (clean_url b) = (sch, rest)" "starts_with ''//'' rest"
    and netloc: "netloc = takeWhile keep (drop 2 rest)"
    using assms by (auto simp: url_location_def keep_def split: prod.splits if_splits)
  have ne: "clean_url b \<noteq> []"
    using sp assms(2) by (auto simp: split_scheme_def has_char_def)
  have len: "2 \<le> length rest"
    using sp(2) by (auto simp: starts_with_def dest: arg_cong [where f = length])
  have "\<not> (\<forall>c\<in>set b. code c \<le> 32)"
    using ne by (metis clean_url_def dropWhile_eq_Nil_conv filter.simps(1) lstrip_set_def)
  then have "dropWhile (\<lambda>c. code c \<le> 32) (b @ ws) = dropWhile (\<lambda>c. code c \<le> 32) b @ ws"
    by (intro dropWhile_append_stop) blast
  then have clean: "clean_url (b @ ws) = clean_url b @ F ws"
    by (simp add: clean_url_def lstrip_set_def F_def)
  obtain y where y: "takeWhile keep (drop 2 rest @ F ws) = netloc @ y" "set y \<subseteq> {c \<in> set (F ws). keep c}"
    using takeWhile_append_split [of keep "drop 2 rest" "F ws"] netloc by auto
  have "url_location (b @ ws) = (sch, netloc @ y)"
    using starts_with_append [OF sp(2), of "F ws"] len y(1)
    unfolding url_location_def clean split_scheme_append [OF sp(1) assms(2)] prod.case keep_def Let_def
    by (simp only: drop_append if_True) simp
  moreover have "\<forall>c\<in>set y. is_space c"
    using y(2) assms(4) by (auto simp: F_def keep_def)
  ultimately show ?thesis by blast
qed


lemma spaces_no_digits: "y \<noteq> [] \<Longrightarrow> \<forall>c\<in>set y. is_space c \<Longrightarrow> \<not> list_all is_digit y"
  by (cases y) (auto simp: is_space_def in_range_def)

lemma url_port_spaced: "snd (host_and_port (url_netloc v)) = p @ y \<Longrightarrow> y \<noteq> [] \<Longrightarrow> \<forall>c\<in>set y. is_space c \<Longrightarrow> url_port v = None"
  using spaces_no_digits [of y] by (simp add: url_port_def Let_def)

lemma split_at_char: "c \<in> set s \<Longrightarrow> s = before_char c s @ c # after_char c s"
  by (induction s) (auto simp: before_char_def after_char_def)

text \<open>
  A network location that continues another with spaces: either its port is no number or its host
  holds a space and no colon.
\<close>

lemma spaced_netloc:
  assumes netloc: "url_netloc v = nl @ y" and y: "y \<noteq> []" "\<forall>c\<in>set y. is_space c"
    and no_at: "CHR ''@'' \<notin> set (nl @ y)" and ok: "netloc_ok (nl @ y)" and port: "url_port v \<noteq> None"
  shows "\<exists>c. c \<in> set (fst (host_and_port (url_netloc v))) \<and> is_space c \<and> CHR '':'' \<notin> set (fst (host_and_port (url_netloc v)))"
proof -
  have plain: "CHR ''['' \<notin> set y" "CHR '']'' \<notin> set y" "CHR '':'' \<notin> set y"
    using y(2) by (auto simp: is_space_def)
  show ?thesis
  proof (cases "CHR ''['' \<in> set nl")
    case True
    define b where "b = after_char (CHR ''['') nl"
    have b: "after_char (CHR ''['') (nl @ y) = b @ y" "before_char (CHR ''['') (nl @ y) = []"
      using before_after_append(2) [OF True] ok no_at True
      by (auto simp: b_def netloc_ok_def bracketed_netloc_ok_def has_char_def after_at_no_at Let_def)
    have "CHR '']'' \<in> set nl" using ok True plain by (auto simp: netloc_ok_def has_char_def)
    have "before_char (CHR ''['') nl = []" using b(2) before_after_append(1) [OF True] by simp
    then have "nl = CHR ''['' # b" using split_at_char [OF True] by (simp add: b_def)
    with \<open>CHR '']'' \<in> set nl\<close> have cb: "CHR '']'' \<in> set b" by (simp only: list.set insert_iff) simp
    define p where "p = after_char (CHR '']'') b"
    have p: "after_char (CHR '']'') (b @ y) = p @ y" using before_after_append(2) [OF cb] by (simp add: p_def)
    have "hd (p @ y) = CHR '':''"
      using ok no_at True y(1) b p
      by (auto simp: netloc_ok_def bracketed_netloc_ok_def has_char_def after_at_no_at Let_def)
    then obtain q where q: "p = CHR '':'' # q"
      using y(1) plain(3) by (cases p; cases y) simp_all
    have "after_char (CHR '':'') (CHR '':'' # q @ y) = q @ y" by (simp add: after_char_def)
    then have "snd (host_and_port (nl @ y)) = q @ y"
      unfolding host_and_port_def after_at_no_at [OF no_at] Let_def has_char_def b(1) p q
      using True by simp
    then have "snd (host_and_port (url_netloc v)) = q @ y" by (simp add: netloc)
    from url_port_spaced [OF this y] port show ?thesis by simp
  next
    case False
    show ?thesis
    proof (cases "CHR '':'' \<in> set nl")
      case True
      then have "snd (host_and_port (url_netloc v)) = after_char (CHR '':'') nl @ y"
        using False plain no_at by (simp add: netloc host_and_port_def has_char_def after_at_no_at before_after_append)
      from url_port_spaced [OF this y] port show ?thesis by simp
    next
      case colon: False
      then have "fst (host_and_port (url_netloc v)) = nl @ y"
        using False plain no_at by (simp add: netloc host_and_port_def has_char_def after_at_no_at before_after_char)
      then show ?thesis using y colon plain by (cases y) auto
    qed
  qed
qed

lemma request_host_safe:
  assumes env: "configured_billing_bases env = Inr bases" "(origin, base) \<in> set bases"
    and request: "billing_request_of (page_url base) tenant query = Inr r"
  shows "\<not> unsafe_host (rq_hostname r)"
proof -
  obtain raw where raw: "require_billing_base_url raw = Inr base" "canonical_billing_origin base = Inr origin"
    "bare_origin base" "require_safe_configured_origin origin = Inr ()"
    using configured_entryD [OF env] by blast
  obtain b u h port where b: "require_billing_base_url base = Inr b" "urlparse b = Some u" "url_scheme u \<in> {''http'', ''https''}"
    "url_hostname u = Some h" "port_text port" "origin = origin_text (url_scheme u) (py_lower h) port"
    using canonical_originD [OF raw(2)] by blast
  define nl where "nl = url_netloc u"
  have nl: "nl \<noteq> []" "url_scheme u \<noteq> []"
    using b(3,4) by (auto simp: nl_def url_hostname_def host_and_port_def after_at_def after_last_def has_char_def before_char_def split: if_splits)
  have loc: "url_location b = (url_scheme u, nl)" unfolding nl_def by (rule urlparse_location) fact
  obtain ws where ws: "base = b @ ws" "\<forall>c\<in>set ws. is_space c \<or> c = CHR ''/''" using stripped_prefix [OF raw(1) b(1)] by blast
  obtain y where y: "url_location base = (url_scheme u, nl @ y)" "\<forall>c\<in>set y. is_space c"
    using url_location_suffix [OF loc nl(2,1) ws(2)] ws(1) by blast
  have page_loc: "url_location (page_url base) = (url_scheme u, nl @ y)"
    using url_location_append [OF y(1) nl(2)] nl(1) by (simp add: page_url_def)
  obtain v hv where v: "urlparse (page_url base) = Some v" "url_hostname v = Some hv" "rq_hostname r = hv" "url_port v \<noteq> None"
    using request by (auto simp: billing_request_of_def result_simps split: option.splits if_splits)
  have v_netloc: "url_netloc v = nl @ y" using urlparse_location(1) [OF v(1)] page_loc by simp
  have ok: "netloc_ok (nl @ y)" using urlparse_location(2) [of "page_url base"] v(1) page_loc by simp
  have no_at: "CHR ''@'' \<notin> set (nl @ y)"
  proof -
    obtain ub where ub: "urlparse base = Some ub" "CHR ''@'' \<notin> set (url_netloc ub)"
      using raw(3) by (auto simp: bare_origin_def url_has_userinfo_def has_char_def split: option.splits)
    then show ?thesis using urlparse_location(1) [OF ub(1)] y(1) by simp
  qed
  show ?thesis
  proof (cases "y = []")
    case True
    obtain w where w: "urlparse origin = Some w"
      using raw(4) by (auto simp: require_safe_configured_origin_def split: option.splits)
    have "CHR ''@'' \<notin> set (url_netloc u)" using no_at by (simp add: nl_def)
    then have "url_hostname w = Some (py_lower h)" using origin_hostname b w by simp
    then have "\<not> unsafe_host (py_lower h)" using safe_hostname raw(4) w by simp
    moreover have "py_lower hv = py_lower h"
      using py_lower_url_hostname [OF v(2)] py_lower_url_hostname [OF b(4)] v_netloc True by (simp add: nl_def)
    ultimately show ?thesis using unsafe_host_lower v(3) by metis
  next
    case False
    then obtain c where c: "c \<in> set (fst (host_and_port (url_netloc v)))" "is_space c"
      "CHR '':'' \<notin> set (fst (host_and_port (url_netloc v)))"
      using spaced_netloc [OF v_netloc] y(2) no_at ok v(4) by blast
    have "unaffected c" using c(2) by (auto simp: is_space_def unaffected_def)
    then have "c \<in> set hv" "CHR '':'' \<notin> set hv"
      using c py_lower_url_hostname [OF v(2)] by (metis set_py_lower_unaffected unaffected_separators(1))+
    then show ?thesis using spaced_host_safe c(2) v(3) by blast
  qed
qed

end
