(* ===== verification/Billing_Properties.thy ===== *)
theory Billing_Properties
  imports Billing_Origins
begin

text \<open>
  What the billing pull guarantees. The world of the pull is given a trace of the requests sent and
  the proposals handed over for acceptance; the statements are about that trace and about the result.
\<close>

section \<open>Traces\<close>

datatype pull_event = Requested billing_request | Offered py_value string

type_synonym 'w traced = "'w \<times> pull_event list"

definition traced_net :: "'w network \<Rightarrow> 'w traced network" where
  "traced_net net w request = (case net (fst w) request of (v, reply) \<Rightarrow> ((v, snd w @ [Requested request]), reply))"

definition traced_accept :: "'w acceptor \<Rightarrow> 'w traced acceptor" where
  "traced_accept accept item tenant w =
     (case accept item tenant (fst w) of (v, r) \<Rightarrow> ((v, snd w @ [Offered item tenant]), r))"

text \<open>The later trace extends the earlier one by events that all satisfy a predicate.\<close>

definition extends :: "(pull_event \<Rightarrow> bool) \<Rightarrow> 'w traced \<Rightarrow> 'w traced \<Rightarrow> bool" where
  "extends P w w' \<longleftrightarrow> (\<exists>es. snd w' = snd w @ es \<and> (\<forall>e\<in>set es. P e))"

lemma reflp_extends [simp]: "reflp (extends P)"
  by (simp add: reflp_def extends_def)

lemma transp_extends [simp]: "transp (extends P)"
  unfolding transp_def extends_def by (metis Un_iff append_assoc set_append)

section \<open>Where requests go and what is offered\<close>

fun allowed_event :: "billing_env \<Rightarrow> string \<Rightarrow> pull_event \<Rightarrow> bool" where
  "allowed_event env tenant (Requested r) = bound_request env tenant r"
| "allowed_event env tenant (Offered v t) =
     (t = tenant \<and> (\<exists>d. v = PDict d \<and> get_value d ''proposal_status'' = PStr ''validated''))"

text \<open>The traced service and the traced acceptance are collaborators of the pull that keep the trace allowed.\<close>

interpretation traced: pull_collaborators "extends (allowed_event env tenant)" "traced_net net" "traced_accept accept" env tenant
  for net :: "'w network" and accept env tenant
proof
  fix w :: "'w traced" and r
  assume "bound_request env tenant r"
  then show "extends (allowed_event env tenant) w (fst (traced_net net w r))"
    by (auto simp: traced_net_def extends_def split: prod.splits)
next
  fix w :: "'w traced" and d
  assume "get_value d ''proposal_status'' = PStr ''validated''"
  then show "extends (allowed_event env tenant) w (fst (traced_accept accept (PDict d) tenant w))"
    by (auto simp: traced_accept_def extends_def split: prod.splits)
qed simp_all

section \<open>How many requests are sent\<close>

fun is_request :: "pull_event \<Rightarrow> bool" where
  "is_request (Requested r) = True"
| "is_request (Offered v t) = False"

definition requests :: "'w traced \<Rightarrow> nat" where
  "requests w = length (filter is_request (snd w))"

definition sends_at_most :: "nat \<Rightarrow> ('w traced, 'a) io \<Rightarrow> bool" where
  "sends_at_most k m \<longleftrightarrow> (\<forall>w. requests (fst (m w)) \<le> requests w + k)"

lemma sends_lift [simp]: "sends_at_most k (io_lift r)"
  by (simp add: sends_at_most_def io_lift_def)

lemma sends_bind:
  assumes "sends_at_most j m" "\<And>x. sends_at_most k (f x)"
  shows "sends_at_most (j + k) (io_bind m f)"
  unfolding sends_at_most_def
proof
  fix w
  obtain w' r where m: "m w = (w', r)" by (cases "m w")
  then have "requests w' \<le> requests w + j" using assms(1) by (metis fst_conv sends_at_most_def)
  moreover have f_le: "requests (fst (f x w')) \<le> requests w' + k" for x
    using assms(2) unfolding sends_at_most_def by blast
  ultimately show "requests (fst (io_bind m f w)) \<le> requests w + (j + k)"
  proof (cases r)
    case (Inr x)
    show ?thesis using m Inr \<open>requests w' \<le> _\<close> f_le [of x] by (simp add: io_bind_def)
  qed (simp add: io_bind_def m)
qed

lemma sends_page: "sends_at_most 1 (pull_validated_journal_proposals (traced_net net) env base tenant after cursor limit)"
proof -
  have get: "sends_at_most 1 (billing_get (traced_net net) url tenant query)" for url query
    by (auto simp: sends_at_most_def requests_def billing_get_def traced_net_def split: sum.splits prod.splits)
  have "sends_at_most (0 + (0 + (1 + 0)))
      (pull_validated_journal_proposals (traced_net net) env base tenant after cursor limit)"
    unfolding pull_validated_journal_proposals_def by (intro sends_bind sends_lift get)
  then show ?thesis by simp
qed

lemma sends_accept: "sends_at_most 0 (accept_items (traced_accept accept) tenant acc items)"
proof (induction items arbitrary: acc)
  case (Cons d items)
  have "sends_at_most 0 (accept_item (traced_accept accept) tenant acc d)"
    by (auto simp: sends_at_most_def requests_def accept_item_def traced_accept_def split: prod.splits sum.splits)
  from sends_bind [OF this Cons] show ?case by simp
qed simp

lemma sends_pages:
  "sends_at_most n (pull_pages n (traced_net net) (traced_accept accept) env base tenant after limit cursor seen acc)"
proof (induction n arbitrary: cursor seen acc)
  case (Suc n)
  have rest: "sends_at_most n
      (case nxt of None \<Rightarrow> io_lift (Inr acc')
       | Some c \<Rightarrow> if c \<in> seen' then io_lift (Inl (validation_error msg_pull_cursor))
                  else pull_pages n (traced_net net) (traced_accept accept) env base tenant after limit (Some c) seen' acc')"
    for nxt acc' seen'
    using Suc by (cases nxt) simp_all
  have "sends_at_most (1 + (0 + n))
      (pull_pages (Suc n) (traced_net net) (traced_accept accept) env base tenant after limit cursor seen acc)"
    unfolding pull_pages.simps Let_def by (intro sends_bind sends_page sends_accept rest)
  then show ?case by simp
qed simp

lemma bound_request_tenant: "billing_request_of url tenant query = Inr r \<Longrightarrow> rq_tenant_header r = tenant"
  by (auto simp: billing_request_of_def result_simps split: option.splits if_splits)

lemma pull_sends:
  "sends_at_most 20 (accept_billing_proposal_pull (traced_net net) (traced_accept accept) env command tenant)"
proof (cases "as_mapping command")
  case (Some p)
  let ?pull = "\<lambda>base after cursor limit.
     accept_pulled_proposals (traced_net net) (traced_accept accept) env base tenant after cursor limit"
  have pull: "sends_at_most 20 (?pull base after cursor limit)" for base after cursor limit
    using sends_pages [of max_pull_pages] by (simp add: accept_pulled_proposals_def max_pull_pages_def)
  have "sends_at_most (0 + (0 + 20))
      (io_bind (io_lift (resolve_command_billing_origin env (get_value p ''billing_base_url''))) (\<lambda>base.
       io_bind (io_lift (pull_page_limit (get_value p ''page_limit''))) (\<lambda>limit.
         ?pull (PStr base) (truthy_text (get_value p ''proposed_after'')) (truthy_text (get_value p ''cursor'')) limit)))"
    by (intro sends_bind sends_lift pull)
  then show ?thesis using Some by (simp add: accept_billing_proposal_pull_def)
qed (simp add: accept_billing_proposal_pull_def)


section \<open>A run\<close>

text \<open>One pull over a feed of one page with one proposal.\<close>

definition sample_env :: billing_env where
  "sample_env = \<lparr>env_billing_base_url = ''https://Billing.example/'', env_billing_allowed_origins = ''http://b.example''\<rparr>"

definition sample_item :: payload where
  "sample_item = [(''proposal_id'', PStr ''p-1''), (''proposal_status'', PStr ''validated'')]"

definition sample_billing :: "unit network" where
  "sample_billing u r = (u, Reply 200 (Some (PDict [(''journal_proposals'', PList [PDict sample_item]), (''next_cursor'', PNone)])))"

definition sample_acceptor :: "unit acceptor" where
  "sample_acceptor v t u = (u, Inr [(''receipt'', v)])"

definition sample_command :: py_value where
  "sample_command = PDict [(''tenant_reference'', PStr ''urn:cwl:tenant_001''), (''billing_base_url'', PStr ''https://billing.example/x'')]"

lemma sample_texts:
  "strip ''https://Billing.example/'' = ''https://Billing.example/''"
  "rstrip_set (\<lambda>c. c = CHR ''/'') ''https://Billing.example/'' = ''https://Billing.example''"
  "rstrip_set (\<lambda>c. c = CHR ''/'') ''https://Billing.example'' = ''https://Billing.example''"
  "strip ''https://Billing.example'' = ''https://Billing.example''"
  "strip ''http://b.example'' = ''http://b.example''"
  "rstrip_set (\<lambda>c. c = CHR ''/'') ''http://b.example'' = ''http://b.example''"
  "strip ''https://billing.example/x'' = ''https://billing.example/x''"
  "rstrip_set (\<lambda>c. c = CHR ''/'') ''https://billing.example/x'' = ''https://billing.example/x''"
  "split_on CHR '','' ''http://b.example'' = [''http://b.example'']"
  "rstrip_set (\<lambda>c. c = CHR ''.'') ''billing.example'' = ''billing.example''"
  "rstrip_set (\<lambda>c. c = CHR ''.'') ''b.example'' = ''b.example''"
  "py_lower ''billing.example'' = ''billing.example''" "py_lower ''b.example'' = ''b.example''"
  "read_ip_address ''billing.example'' = None" "read_ip_address ''b.example'' = None"
  by code_simp+
lemma sample_urls:
  "urlparse ''https://Billing.example'' = Some \<lparr>url_scheme = ''https'', url_netloc = ''Billing.example'', url_path=[],url_params=[],url_query=[],url_fragment=[]\<rparr>"
  "urlparse ''https://billing.example'' = Some \<lparr>url_scheme = ''https'', url_netloc = ''billing.example'', url_path=[],url_params=[],url_query=[],url_fragment=[]\<rparr>"
  "urlparse ''http://b.example'' = Some \<lparr>url_scheme = ''http'', url_netloc = ''b.example'', url_path=[],url_params=[],url_query=[],url_fragment=[]\<rparr>"
  "urlparse ''https://billing.example/x'' = Some \<lparr>url_scheme = ''https'', url_netloc = ''billing.example'', url_path=''/x'',url_params=[],url_query=[],url_fragment=[]\<rparr>"
  "urlparse ''https://Billing.example/v1/journal-proposals'' = Some \<lparr>url_scheme = ''https'', url_netloc = ''Billing.example'', url_path=''/v1/journal-proposals'',url_params=[],url_query=[],url_fragment=[]\<rparr>"
  "host_and_port ''Billing.example'' = (''Billing.example'', [])"
  "host_and_port ''billing.example'' = (''billing.example'', [])"
  "host_and_port ''b.example'' = (''b.example'', [])"
  "py_lower ''Billing.example'' = ''billing.example''" 
  by code_simp+

lemma sample_bases: "configured_billing_bases sample_env = Inr [(''https://billing.example'', ''https://Billing.example''), (''http://b.example'', ''http://b.example'')]"
  by (simp add: configured_billing_bases_def add_configured_base_def sample_env_def require_billing_base_url_def canonical_billing_origin_def
   sample_texts sample_urls url_hostname_def url_port_def before_char_def has_char_def bare_origin_def require_safe_configured_origin_def url_has_userinfo_def)

lemma sample_resolved: "resolve_command_billing_origin sample_env (PStr ''https://billing.example/x'') = Inr ''https://Billing.example''"
  "resolve_command_billing_origin sample_env (PStr ''https://Billing.example'') = Inr ''https://Billing.example''"
  by (simp_all add: resolve_command_billing_origin_def sample_bases canonical_billing_origin_def require_billing_base_url_def sample_texts sample_urls
    none_or_empty_def url_hostname_def url_port_def before_char_def has_char_def)

lemma sample_request: "billing_request_of ''https://Billing.example/v1/journal-proposals'' ''urn:cwl:tenant_001''
     (list_query ''urn:cwl:tenant_001'' default_page_limit None None) = Inr \<lparr>rq_scheme = ''https'', rq_hostname = ''billing.example'', rq_port = Some 443,
     rq_path = ''/v1/journal-proposals?'' @ urlencode (list_query ''urn:cwl:tenant_001'' default_page_limit None None), rq_tenant_header = ''urn:cwl:tenant_001''\<rparr>"
proof -
  have "reference_pattern ''urn:cwl:tenant_001''" by code_simp
  then show ?thesis
  by (simp add: billing_request_of_def require_reference_def sample_urls url_hostname_def url_port_def before_char_def has_char_def)
qed

lemma sample_page:
  "read_page [(''journal_proposals'', PList [PDict sample_item]), (''next_cursor'', PNone)] =
     Inr \<lparr>page_proposals = [sample_item], page_next_cursor = None\<rparr>"
  by (simp add: read_page_def sample_item_def validated_item_def validated_proposal_status_def get_value_def has_key_def)

lemma sample_run:
 "\<exists>request. accept_billing_proposal_pull (traced_net sample_billing) (traced_accept sample_acceptor) sample_env sample_command
    ''urn:cwl:tenant_001'' ((), []) =
  (((), [Requested request, Offered (PDict sample_item) ''urn:cwl:tenant_001'']), 
     Inr \<lparr>pr_posting_receipts = [[(''receipt'', PDict sample_item)]], pr_rejected_proposals = []\<rparr>)"
  by (simp add: accept_billing_proposal_pull_def sample_command_def get_value_def sample_resolved pull_page_limit_def none_or_empty_def
     accept_pulled_proposals_def max_pull_pages_def numeral_eq_Suc pull_validated_journal_proposals_def resolve_pull_page_limit_def
     truthy_text_def billing_get_def sample_request traced_net_def sample_billing_def sample_page io_bind_def io_lift_def
     accept_item_def traced_accept_def sample_acceptor_def)


section \<open>A whole feed\<close>

text \<open>The service answers a fetch at a cursor with a page, whatever the state of the world, and
  leaves it alone.\<close>

definition fetches ::
    "'w network \<Rightarrow> billing_env \<Rightarrow> py_value \<Rightarrow> string \<Rightarrow> string option \<Rightarrow> int option \<Rightarrow> string option \<Rightarrow> proposal_page \<Rightarrow> bool" where
  "fetches net env base tenant after limit cursor page \<longleftrightarrow>
     (\<forall>w. pull_validated_journal_proposals net env base tenant after cursor limit w = (w, Inr page))"

text \<open>Pages linked by their cursors, from a first cursor to a page without one.\<close>

fun feed :: "(string option \<Rightarrow> proposal_page \<Rightarrow> bool) \<Rightarrow> string option \<Rightarrow> proposal_page list \<Rightarrow> bool" where
  "feed F cursor [] = False"
| "feed F cursor [p] = (F cursor p \<and> page_next_cursor p = None)"
| "feed F cursor (p # q # ps) =
     (F cursor p \<and> page_next_cursor p \<noteq> None \<and> feed F (page_next_cursor p) (q # ps))"

definition feed_cursors :: "string option \<Rightarrow> proposal_page list \<Rightarrow> string option list" where
  "feed_cursors cursor pages = filter (\<lambda>c. c \<noteq> None) (cursor # map page_next_cursor pages)"

lemma io_bind_assoc: "io_bind (io_bind m f) g = io_bind m (\<lambda>x. io_bind (f x) g)"
  by (auto simp: io_bind_def fun_eq_iff split: prod.splits sum.splits)

lemma io_bind_lift_right: "io_bind m (\<lambda>x. io_lift (Inr x)) = m"
  by (auto simp: io_bind_def io_lift_def fun_eq_iff split: prod.splits sum.splits)

lemma accept_items_append:
  "accept_items accept tenant acc (xs @ ys) =
     io_bind (accept_items accept tenant acc xs) (\<lambda>acc'. accept_items accept tenant acc' ys)"
proof (induction xs arbitrary: acc)
  case Nil
  then show ?case by (simp add: fun_eq_iff)
next
  case (Cons x xs)
  then show ?case by (simp add: io_bind_assoc)
qed

lemma accept_items_count:
  "accept_items accept tenant acc items w = (w', Inr acc') \<Longrightarrow>
   length (pr_posting_receipts acc') + length (pr_rejected_proposals acc') =
     length (pr_posting_receipts acc) + length (pr_rejected_proposals acc) + length items"
proof (induction items arbitrary: acc w)
  case (Cons x items)
  then obtain w1 acc1 where 1: "accept_item accept tenant acc x w = (w1, Inr acc1)"
    and 2: "accept_items accept tenant acc1 items w1 = (w', Inr acc')"
    by (auto simp: io_bind_Inr_iff)
  have "length (pr_posting_receipts acc1) + length (pr_rejected_proposals acc1) =
      length (pr_posting_receipts acc) + length (pr_rejected_proposals acc) + 1"
    using 1 by (auto simp: accept_item_def split: prod.splits sum.splits if_splits)
  with Cons.IH [OF 2] show ?case by simp
qed simp

lemma pull_pages_feed:
  assumes "feed (fetches net env base tenant after limit) cursor pages" "length pages \<le> n"
    and "distinct (feed_cursors cursor pages)" "\<forall>c\<in>seen. Some c \<notin> set (feed_cursors cursor pages)"
  shows "pull_pages n net accept env base tenant after limit cursor seen acc =
     accept_items accept tenant acc (concat (map page_proposals pages))"
  using assms
proof (induction pages arbitrary: n cursor seen acc)
  case Nil
  then show ?case by simp
next
  case (Cons p pages)
  then obtain m where n: "n = Suc m" by (cases n) auto
  have fetch: "pull_validated_journal_proposals net env base tenant after cursor limit w = (w, Inr p)" for w
    using Cons.prems(1) by (cases pages) (auto simp: fetches_def)
  show ?case
  proof (cases pages)
    case Nil
    then have "page_next_cursor p = None" using Cons.prems(1) by simp
    then show ?thesis
      using Nil fetch by (simp add: n fun_eq_iff io_bind_lift_right) (simp add: io_bind_def io_lift_def split: prod.splits sum.splits)
  next
    case (Cons q qs)
    define seen' where "seen' = (case cursor of Some c \<Rightarrow> if c \<noteq> [] then insert c seen else seen | None \<Rightarrow> seen)"
    obtain c where c: "page_next_cursor p = Some c" and rest: "feed (fetches net env base tenant after limit) (Some c) pages"
      using Cons.prems(1) \<open>pages = q # qs\<close> by auto
    have "c \<notin> seen'"
      using Cons.prems(3,4) c by (auto simp: seen'_def feed_cursors_def split: option.splits)
    moreover have "\<forall>d\<in>seen'. Some d \<notin> set (feed_cursors (Some c) pages)" "distinct (feed_cursors (Some c) pages)"
      using Cons.prems(3,4) c by (auto simp: seen'_def feed_cursors_def split: option.splits if_splits)
    ultimately have tail: "pull_pages m net accept env base tenant after limit (Some c) seen' acc' =
        accept_items accept tenant acc' (concat (map page_proposals pages))" for acc'
      using Cons.IH [OF rest] Cons.prems(2) n by simp
    show ?thesis
      using fetch \<open>c \<notin> seen'\<close>
      by (simp add: n c tail accept_items_append fun_eq_iff flip: seen'_def) (simp add: io_bind_def tail c split: prod.splits sum.splits)
  qed
qed


text \<open>A pull command whose page limit is the JSON number Infinity fails with an \<open>OverflowError\<close>,
  which is no validation error and which no handler of the pull expects.\<close>

theorem infinite_page_limit_escapes:
  assumes "resolve_command_billing_origin env PNone = Inr base"
  shows "accept_billing_proposal_pull net accept env
       (PDict [(''tenant_reference'', PStr tenant), (''page_limit'', PFloat ''inf'')]) tenant w = (w, Inl OverflowError) \<and>
     \<not> is_validation_error OverflowError"
proof -
  have "int_of_value (PFloat ''inf'') = Int_Overflow" by code_simp
  then show ?thesis
    using assms
    by (simp add: accept_billing_proposal_pull_def get_value_def pull_page_limit_def none_or_empty_def)
qed

section \<open>The feed and the command at work\<close>

abbreviation sample_base :: py_value where
  "sample_base \<equiv> PStr ''https://Billing.example''"

lemma sample_fetch:
  "fetches sample_billing sample_env sample_base ''urn:cwl:tenant_001'' None None None
     \<lparr>page_proposals = [sample_item], page_next_cursor = None\<rparr>"
  by (simp add: fetches_def pull_validated_journal_proposals_def sample_resolved resolve_pull_page_limit_def billing_get_def
      sample_request sample_billing_def sample_page io_bind_def io_lift_def)


lemma sample_default: "resolve_command_billing_origin sample_env PNone = Inr ''https://Billing.example''"
  by (simp add: resolve_command_billing_origin_def sample_bases none_or_empty_def) (simp add: sample_env_def sample_texts)

theorem infinite_page_limit_escapes_witness:
  "accept_billing_proposal_pull sample_billing sample_acceptor sample_env
     (PDict [(''tenant_reference'', PStr ''urn:cwl:tenant_001''), (''page_limit'', PFloat ''inf'')])
     ''urn:cwl:tenant_001'' () = ((), Inl OverflowError)"
  by (rule conjunct1 [OF infinite_page_limit_escapes [OF sample_default]])

end
