(* ===== verification/Accept_Properties.thy ===== *)
theory Accept_Properties
  imports Accept_Commands Billing_Properties Ingest_Properties
begin

text \<open>
  What the commands of the facade guarantee: the lines of an accepted adjusting journal, the identity
  of a reversed journal, the fail-closed HomeTax command, and, with the billing pull on top, what a
  pull can post. The persistent ledger is arbitrary throughout.
\<close>

section \<open>Adjusting journals\<close>

text \<open>A raw line and the posted line made of it.\<close>

definition adjusting_line_of :: "string \<Rightarrow> py_value \<Rightarrow> posted_journal_line \<Rightarrow> bool" where
  "adjusting_line_of currency raw l \<longleftrightarrow>
     (\<exists>p amount. raw = PDict p \<and> text_field p ''chart_account_code'' = pl_chart_account_code l \<and>
        pl_chart_account_code l \<noteq> [] \<and> text_field p ''currency_code'' = currency \<and> currency_pattern currency \<and>
        get_value p ''amount'' = PStr (dec_text amount) \<and> amount_ok amount \<and> 0 < dval amount \<and>
        pl_account_role_code l = ''adjusting'' \<and>
        (text_field p ''debit_credit_code'' = ''debit'' \<and> pl_debit_amount l = amount \<and> pl_credit_amount l = dec_zero \<or>
         text_field p ''debit_credit_code'' = ''credit'' \<and> pl_debit_amount l = dec_zero \<and> pl_credit_amount l = amount))"

definition adjusting_inv :: "py_value list \<Rightarrow> adjusting_totals \<Rightarrow> bool" where
  "adjusting_inv raws acc \<longleftrightarrow>
     (raws = [] \<longrightarrow> at_currency acc = []) \<and> (raws \<noteq> [] \<longrightarrow> at_currency acc \<noteq> []) \<and>
     list_all2 (adjusting_line_of (at_currency acc)) raws (at_lines acc) \<and>
     map pl_line_number (at_lines acc) = map int [1..<Suc (length raws)] \<and>
     at_debit_total acc = foldl dec_add dec_zero (map pl_debit_amount (at_lines acc)) \<and>
     at_credit_total acc = foldl dec_add dec_zero (map pl_credit_amount (at_lines acc))"

lemma currency_pattern_nonempty: "currency_pattern c \<Longrightarrow> c \<noteq> []"
  by (auto simp: currency_pattern_def)

lemma add_adjusting_line_inv:
  assumes inv: "adjusting_inv raws acc" and add: "add_adjusting_line acc raw = Inr acc'"
  shows "adjusting_inv (raws @ [raw]) acc'"
proof -
  obtain p amount side currency account where p: "raw = PDict p" "account = text_field p ''chart_account_code''" "account \<noteq> []"
      "side = text_field p ''debit_credit_code''" "side \<in> {''debit'', ''credit''}"
      "currency = text_field p ''currency_code''" "currency_pattern currency" "at_currency acc = [] \<or> currency = at_currency acc"
      "parse_amount (get_value p ''amount'') = Inr amount" "as_str (get_value p ''amount'') \<noteq> None" "0 < dval amount"
    and acc': "acc' = \<lparr>at_currency = currency,
               at_debit_total = dec_add (at_debit_total acc) (if side = ''debit'' then amount else dec_zero),
               at_credit_total = dec_add (at_credit_total acc) (if side = ''credit'' then amount else dec_zero),
               at_lines = at_lines acc @
                 [\<lparr>pl_line_number = int (length (at_lines acc)) + 1, pl_chart_account_code = account,
                   pl_account_role_code = ''adjusting'', pl_debit_amount = (if side = ''debit'' then amount else dec_zero),
                   pl_credit_amount = (if side = ''credit'' then amount else dec_zero)\<rparr>]\<rparr>"
    using add unfolding add_adjusting_line_def adjusting_line_parts_def require_currency_def Let_def
    by (auto simp: result_simps dec_less_iff split: option.splits)
  have amount: "amount_ok amount" "get_value p ''amount'' = PStr (dec_text amount)"
    using parse_amount_ok [OF p(9)] p(10) by auto
  have line: "adjusting_line_of currency raw (last (at_lines acc'))"
    using p amount by (auto simp: acc' adjusting_line_of_def)
  have same: "list_all2 (adjusting_line_of currency) raws (at_lines acc)"
    using inv p(8) by (cases "raws = []") (auto simp: adjusting_inv_def)
  have len: "length (at_lines acc) = length raws" using inv by (auto simp: adjusting_inv_def dest: list_all2_lengthD)
  show ?thesis
    using inv same line p(7) currency_pattern_nonempty
    by (auto simp: adjusting_inv_def acc' list_all2_appendI len)
qed

lemma adjusting_fold_inv:
  "fold_result add_adjusting_line acc raws = Inr acc' \<Longrightarrow> adjusting_inv pre acc \<Longrightarrow> adjusting_inv (pre @ raws) acc'"
proof (induction raws arbitrary: acc pre)
  case (Cons raw raws)
  then obtain acc1 where 1: "add_adjusting_line acc raw = Inr acc1" "fold_result add_adjusting_line acc1 raws = Inr acc'"
    by (auto simp: bind_result_eq_Inr)
  show ?case using Cons.IH [OF 1(2) add_adjusting_line_inv [OF Cons.prems(2) 1(1)]] by simp
qed simp

text \<open>C27 The lines of an accepted adjusting journal are those of the command: at least two, numbered from
  one in their order, each with its account, its currency (the same on all) and its amount, positive and
  written canonically, on the side the command names and zero on the other; and below ten to the 22 the
  two sides have the same exact total.\<close>

theorem adjusting_journal_well_formed:
  assumes "parse_adjusting_journal_lines raw = Inr (lines, currency)"
  shows "(\<exists>raws. raw = PList raws \<and> list_all2 (adjusting_line_of currency) raws lines) \<and>
     2 \<le> length lines \<and> map pl_line_number lines = map int [1..<Suc (length lines)] \<and>
     (dval_sum (map pl_debit_amount lines) < 10 ^ 22 \<and> dval_sum (map pl_credit_amount lines) < 10 ^ 22 \<longrightarrow>
      dval_sum (map pl_debit_amount lines) = dval_sum (map pl_credit_amount lines))"
proof -
  obtain raws acc where raws: "raw = PList raws" "2 \<le> length raws"
    and fold: "fold_result add_adjusting_line
      \<lparr>at_currency = [], at_debit_total = dec_zero, at_credit_total = dec_zero, at_lines = []\<rparr> raws = Inr acc"
    and acc: "dec_eq (at_debit_total acc) (at_credit_total acc)" "lines = at_lines acc" "currency = at_currency acc"
    using assms by (cases raw) (auto simp: parse_adjusting_journal_lines_def result_simps not_less split: if_splits)
  have inv: "adjusting_inv raws acc"
    using adjusting_fold_inv [OF fold, of "[]"] by (simp add: adjusting_inv_def)
  then have lines: "list_all2 (adjusting_line_of currency) raws lines" "length raws = length lines"
    using acc by (auto simp: adjusting_inv_def dest: list_all2_lengthD)
  have "\<forall>l\<in>set lines. amount_ok (pl_debit_amount l) \<and> amount_ok (pl_credit_amount l)"
    using lines(1) by (auto simp: list_all2_conv_all_nth adjusting_line_of_def in_set_conv_nth) (metis amount_ok_zero)+
  then have "\<forall>d\<in>set (map pl_debit_amount lines). 0 \<le> dval d \<and> - 6 \<le> dexp d"
    and "\<forall>d\<in>set (map pl_credit_amount lines). 0 \<le> dval d \<and> - 6 \<le> dexp d"
    using amount_ok_nonneg by (auto simp: amount_ok_def)
  then have "dval (at_debit_total acc) = dval_sum (map pl_debit_amount lines)"
    if "dval_sum (map pl_debit_amount lines) < 10 ^ 22"
    using that inv acc dec_sum_exact(1) by (simp add: adjusting_inv_def dec_sum_def)
  moreover have "dval (at_credit_total acc) = dval_sum (map pl_credit_amount lines)"
    if "dval_sum (map pl_credit_amount lines) < 10 ^ 22"
    using that inv acc dec_sum_exact(1) \<open>\<forall>d\<in>set (map pl_credit_amount lines). _\<close>
    by (simp add: adjusting_inv_def dec_sum_def)
  ultimately show ?thesis
    using raws lines inv acc by (auto simp: adjusting_inv_def dec_eq_iff)
qed

definition sample_adjusting_lines :: py_value where
  "sample_adjusting_lines =
     PList [PDict [(''chart_account_code'', PStr ''510100''), (''debit_credit_code'', PStr ''debit''),
                   (''currency_code'', PStr ''KRW''), (''amount'', PStr ''12.50'')],
            PDict [(''chart_account_code'', PStr ''210300''), (''debit_credit_code'', PStr ''credit''),
                   (''currency_code'', PStr ''KRW''), (''amount'', PStr ''12.5'')]]"

lemma sample_amounts:
  "parse_amount (PStr ''12.50'') = Inr (Dec False 1250 (- 2))" "parse_amount (PStr ''12.5'') = Inr (Dec False 125 (- 1))"
  by (simp add: parse_amount_def Let_def, code_simp)+

lemma sample_adjusting_parses:
  "\<exists>lines. parse_adjusting_journal_lines sample_adjusting_lines = Inr (lines, ''KRW'') \<and> length lines = 2"
proof -
  have "currency_pattern ''KRW''" by code_simp
  moreover have "dec_less dec_zero (Dec False 1250 (- 2))" "dec_less dec_zero (Dec False 125 (- 1))"
    "dec_eq (dec_add (dec_add dec_zero (Dec False 1250 (- 2))) dec_zero) (dec_add (dec_add dec_zero dec_zero) (Dec False 125 (- 1)))"
    by code_simp+
  ultimately show ?thesis
    by (simp add: sample_adjusting_lines_def parse_adjusting_journal_lines_def add_adjusting_line_def adjusting_line_parts_def
      text_field_def get_value_def str_or_empty_def require_currency_def sample_amounts)
qed

theorem adjusting_journal_well_formed_witness:
  "\<exists>lines. parse_adjusting_journal_lines sample_adjusting_lines = Inr (lines, ''KRW'') \<and>
     map pl_line_number lines = [1, 2]"
proof -
  obtain lines where lines: "parse_adjusting_journal_lines sample_adjusting_lines = Inr (lines, ''KRW'')" "length lines = 2"
    using sample_adjusting_parses by blast
  have "map int [1..<Suc 2] = [1, 2]" by code_simp
  then show ?thesis using adjusting_journal_well_formed [OF lines(1)] lines by auto
qed

section \<open>HomeTax\<close>


text \<open>A ledger that answers every operation, over a world without state.\<close>

definition sample_ledger :: "unit postgres_ledger" where
  "sample_ledger =
     \<lparr>run_post_proposal = (\<lambda>q u. (u, Inr ())), run_published_receipt = (\<lambda>q u. (u, Inr [])),
      run_post_adjusting = (\<lambda>c u. (u, Inr ())), run_reversal_policy = (\<lambda>j d u. (u, Inr sample_policy)),
      run_reverse = (\<lambda>j d r p k u. (u, Inr ())),
      run_close_period = (\<lambda>c u. (u, Inl InvalidOperation)), run_open_period = (\<lambda>c u. (u, Inr [])),
      run_persist_home_tax = (\<lambda>r u. (u, Inr [(''rejection_reason_code'', PStr (ht_rejection_reason_code r))])),
      run_publish_outbox_event = (\<lambda>e u. (u, Inr [])),
      run_query = (\<lambda>q u. (u, Inr [(''journal_reference'', PStr ''urn:cwl:journal:7'')]))\<rparr>"

definition sample_database :: "unit database" where
  "sample_database = \<lparr>db_url = ''postgresql://ledger'', db_ledger = (\<lambda>tenant. sample_ledger)\<rparr>"

definition sample_hash :: string where
  "sample_hash = ''sha256:'' @ replicate 64 (CHR ''0'')"

definition sample_tax_command :: payload where
  "sample_tax_command =
     [(''tenant_reference'', PStr ''urn:cwl:tenant_001''), (''idempotency_key'', PStr ''tax-1''),
      (''source_payload_hash'', PStr sample_hash), (''source_payload_reference'', PStr ''urn:cwl:evidence:1''),
      (''legal_entity_reference'', PStr ''urn:cwl:entity:1''), (''book_reference'', PStr ''urn:cwl:book:1''),
      (''fiscal_period_reference'', PStr ''2026-01'')]"

lemma sample_tax_run:
  "accept_home_tax_submission sample_database [] (PDict sample_tax_command) ''urn:cwl:tenant_001'' () =
     ((), Inr [(''rejection_reason_code'', PStr ''register_unavailable'')])"
proof -
  have "hash_pattern sample_hash" "reference_pattern ''urn:cwl:tenant_001''" "strip ''tax-1'' \<noteq> []"
    "strip ''urn:cwl:evidence:1'' \<noteq> []" "period_code_from_reference ''2026-01'' = ''2026-01''"
    "home_tax_rejection_reason [] [(''journal_reference'', PStr ''urn:cwl:journal:7'')] = ''register_unavailable''"
    by code_simp+
  then show ?thesis
    by (simp add: accept_home_tax_submission_def sample_tax_command_def command_payload_def get_value_def home_tax_identity_def
        nonblank_text_def canonical_hash_def text_field_def first_field_def str_or_empty_def with_ledger_def open_ledger_def
        sample_database_def require_reference_def sample_ledger_def io_bind_def io_lift_def Let_def require_def result_simps)
qed


section \<open>Reversals\<close>

text \<open>C29 A reversal that is accepted reversed one journal: the one its journal reference names when there is
  one, and the one whose receipt its idempotency key finds when there is one, and these agree; the
  reversal runs under the given reversal key or else a key made of the journal, and the answer is the
  receipt stored under that key.\<close>

theorem reversal_names_one_journal:
  assumes "accept_journal_reversal db v tenant w = (w', Inr receipt)"
  shows "\<exists>p journal key policy d w1 w2 w3. v = PDict p \<and> get_value p ''tenant_reference'' = PStr tenant \<and>
     (text_field p ''journal_reference'' \<noteq> [] \<longrightarrow> text_field p ''journal_reference'' = journal) \<and>
     (text_field p ''idempotency_key'' \<noteq> [] \<longrightarrow>
        (\<exists>original. run_query (db_ledger db tenant)
             (Published_Receipt_By_Key (text_field p ''idempotency_key'')) w = (w1, Inr original) \<and>
           has_key original ''journal_reference'' \<and> py_str (get_value original ''journal_reference'') = journal)) \<and>
     (text_field p ''idempotency_key'' = [] \<longrightarrow> w1 = w \<and> text_field p ''journal_reference'' \<noteq> []) \<and>
     date_fromisoformat (text_field p ''reversal_date'') = Some d \<and> text_field p ''reversal_reason_code'' \<noteq> [] \<and>
     key = (if strip (text_field p ''reversal_idempotency_key'') = [] then ''reversal:'' @ journal
            else strip (text_field p ''reversal_idempotency_key'')) \<and>
     run_reversal_policy (db_ledger db tenant) journal d w1 = (w2, Inr policy) \<and>
     run_reverse (db_ledger db tenant) journal d (text_field p ''reversal_reason_code'') policy key w2 = (w3, Inr ()) \<and>
     run_query (db_ledger db tenant) (Published_Receipt_By_Key key) w3 = (w', Inr receipt)"
proof -
  obtain p f where p: "v = PDict p" "get_value p ''tenant_reference'' = PStr tenant" "reversal_fields_of p = Inr f"
    and run: "with_ledger db tenant (\<lambda>ledger.
     io_bind (resolve_reversal_journal db tenant f) (\<lambda>journal.
     io_bind (run_reversal_policy ledger journal (rf_date f)) (\<lambda>policy.
     io_bind (run_reverse ledger journal (rf_date f) (rf_reason_code f) policy (accepted_reversal_key f journal)) (\<lambda>_.
       run_query ledger (Published_Receipt_By_Key (accepted_reversal_key f journal)))))) w = (w', Inr receipt)"
    using assms unfolding accept_journal_reversal_def
    by (auto simp: io_bind_Inr_iff command_payload_def result_simps split: option.splits if_splits)
  have f: "rf_journal_reference f = text_field p ''journal_reference''" "rf_idempotency_key f = text_field p ''idempotency_key''"
      "rf_reversal_key f = strip (text_field p ''reversal_idempotency_key'')"
      "rf_reason_code f = text_field p ''reversal_reason_code''" "rf_reason_code f \<noteq> []"
      "date_fromisoformat (text_field p ''reversal_date'') = Some (rf_date f)"
      "rf_journal_reference f \<noteq> [] \<or> rf_idempotency_key f \<noteq> []"
    using p(3) by (auto simp: reversal_fields_of_def parse_reversal_date_def parse_iso_date_def Let_def result_simps
        split: option.splits)
  obtain journal w1 policy w2 w3 where steps: "resolve_reversal_journal db tenant f w = (w1, Inr journal)"
      "run_reversal_policy (db_ledger db tenant) journal (rf_date f) w1 = (w2, Inr policy)"
      "run_reverse (db_ledger db tenant) journal (rf_date f) (rf_reason_code f) policy (accepted_reversal_key f journal) w2 = (w3, Inr ())"
      "run_query (db_ledger db tenant) (Published_Receipt_By_Key (accepted_reversal_key f journal)) w3 = (w', Inr receipt)"
    using run by (auto simp: with_ledger_Inr_iff io_bind_Inr_iff)
  have named: "(rf_journal_reference f \<noteq> [] \<longrightarrow> rf_journal_reference f = journal) \<and>
      (rf_idempotency_key f \<noteq> [] \<longrightarrow>
        (\<exists>original. run_query (db_ledger db tenant) (Published_Receipt_By_Key (rf_idempotency_key f)) w = (w1, Inr original) \<and>
           has_key original ''journal_reference'' \<and> py_str (get_value original ''journal_reference'') = journal)) \<and>
      (rf_idempotency_key f = [] \<longrightarrow> w1 = w \<and> rf_journal_reference f \<noteq> [])"
    using steps(1) f(7)
    by (auto simp: resolve_reversal_journal_def lookup_published_receipt_def lookup_def io_bind_Inr_iff with_ledger_Inr_iff
        receipt_journal_reference_def result_simps split: if_splits)
  have key: "accepted_reversal_key f journal =
      (if strip (text_field p ''reversal_idempotency_key'') = [] then ''reversal:'' @ journal
       else strip (text_field p ''reversal_idempotency_key''))"
    by (simp add: accepted_reversal_key_def f(3))
  note facts = p(1,2) named [unfolded f(1) f(2)] f(5) [unfolded f(4)] f(6) steps(2-4) [unfolded f(4)]
  show ?thesis
    by (rule exI [of _ p], rule exI [of _ journal], rule exI [of _ "accepted_reversal_key f journal"],
        rule exI [of _ policy], rule exI [of _ "rf_date f"], rule exI [of _ w1], rule exI [of _ w2], rule exI [of _ w3])
      (use facts key in blast)
qed

definition sample_reversal :: payload where
  "sample_reversal =
     [(''tenant_reference'', PStr ''urn:cwl:tenant_001''), (''idempotency_key'', PStr ''order-1''),
      (''reversal_date'', PStr ''2026-01-31''), (''reversal_reason_code'', PStr ''duplicate'')]"

lemma sample_reversal_run:
  "accept_journal_reversal sample_database (PDict sample_reversal) ''urn:cwl:tenant_001'' () =
     ((), Inr [(''journal_reference'', PStr ''urn:cwl:journal:7'')])"
proof -
  have "reference_pattern ''urn:cwl:tenant_001''" "strip [] = []"
    "date_fromisoformat ''2026-01-31'' = Some (Date 2026 1 31)"
    by code_simp+
  then show ?thesis
    by (simp add: accept_journal_reversal_def sample_reversal_def command_payload_def get_value_def reversal_fields_of_def
        parse_reversal_date_def parse_iso_date_def text_field_def str_or_empty_def with_ledger_def open_ledger_def
        sample_database_def require_reference_def sample_ledger_def io_bind_def io_lift_def resolve_reversal_journal_def
        lookup_published_receipt_def lookup_def receipt_journal_reference_def has_key_def)
qed

theorem reversal_names_one_journal_witness:
  "accept_journal_reversal sample_database (PDict sample_reversal) ''urn:cwl:tenant_001'' () =
     ((), Inr [(''journal_reference'', PStr ''urn:cwl:journal:7'')]) \<and>
   (\<exists>d. date_fromisoformat (text_field sample_reversal ''reversal_date'') = Some d)"
  using reversal_names_one_journal [OF sample_reversal_run] sample_reversal_run by auto

section \<open>A pull on the ledger\<close>

text \<open>The ledger with a trace of the proposals it was asked to post.\<close>

definition silently :: "('w, 'a) io \<Rightarrow> ('w \<times> 'e list, 'a) io" where
  "silently m w = (case m (fst w) of (v, r) \<Rightarrow> ((v, snd w), r))"

definition recording :: "'e \<Rightarrow> ('w, 'a) io \<Rightarrow> ('w \<times> 'e list, 'a) io" where
  "recording e m w = (case m (fst w) of (v, r) \<Rightarrow> ((v, snd w @ [e]), r))"

definition traced_ledger :: "'w postgres_ledger \<Rightarrow> ('w \<times> journal_proposal list) postgres_ledger" where
  "traced_ledger l =
     \<lparr>run_post_proposal = (\<lambda>q. recording q (run_post_proposal l q)),
      run_published_receipt = (\<lambda>q. silently (run_published_receipt l q)),
      run_post_adjusting = (\<lambda>c. silently (run_post_adjusting l c)),
      run_reversal_policy = (\<lambda>j d. silently (run_reversal_policy l j d)),
      run_reverse = (\<lambda>j d r p k. silently (run_reverse l j d r p k)),
      run_close_period = (\<lambda>c. silently (run_close_period l c)),
      run_open_period = (\<lambda>c. silently (run_open_period l c)),
      run_persist_home_tax = (\<lambda>r. silently (run_persist_home_tax l r)),
      run_publish_outbox_event = (\<lambda>e. silently (run_publish_outbox_event l e)),
      run_query = (\<lambda>q. silently (run_query l q))\<rparr>"

definition traced_database :: "'w database \<Rightarrow> ('w \<times> journal_proposal list) database" where
  "traced_database db = \<lparr>db_url = db_url db, db_ledger = (\<lambda>tenant. traced_ledger (db_ledger db tenant))\<rparr>"

definition beside :: "'w network \<Rightarrow> ('w \<times> 'e list) network" where
  "beside net w r = (case net (fst w) r of (v, reply) \<Rightarrow> ((v, snd w), reply))"

definition admitted :: "string \<Rightarrow> journal_proposal \<Rightarrow> bool" where
  "admitted tenant q \<longleftrightarrow>
     valid_proposal q \<and> list_all (\<lambda>l. jl_account_role_code l \<noteq> ''retained_earnings'') (jp_lines q) \<and>
     jp_tenant_reference q = tenant"

definition posts_more :: "string \<Rightarrow> 'w \<times> journal_proposal list \<Rightarrow> 'w \<times> journal_proposal list \<Rightarrow> bool" where
  "posts_more tenant w w' \<longleftrightarrow> (\<exists>qs. snd w' = snd w @ qs \<and> list_all (admitted tenant) qs)"

lemma reflp_posts_more: "reflp (posts_more tenant)"
  by (simp add: reflp_def posts_more_def)

lemma transp_posts_more: "transp (posts_more tenant)"
  unfolding transp_def posts_more_def by (metis append_assoc list_all_append)

lemma silently_keeps: "io_keeps (posts_more tenant) (silently m)"
  by (auto simp: io_keeps_def silently_def posts_more_def split: prod.splits)

lemma ingested_tenant:
  assumes "ingest_journal_proposal (PDict p) = Inr q" "get_value p ''tenant_reference'' = PStr tenant"
  shows "jp_tenant_reference q = tenant"
  using assms unfolding ingest_eq_Inr contract_eq_Inr by (auto simp: contract_proposal_def)

lemma ingested_admitted:
  assumes "ingest_journal_proposal (PDict p) = Inr q" "get_value p ''tenant_reference'' = PStr tenant"
  shows "admitted tenant q"
proof -
  have c: "journal_proposal_from_contract p = Inr q" using assms(1) unfolding ingest_eq_Inr by auto
  show ?thesis
    using contract_ok [OF c] ingested_tenant [OF assms] by (auto simp: admitted_def valid_proposal_def list_all_iff)
qed

lemma accept_keeps_posts:
  "io_keeps (posts_more tenant) (accept_journal_proposal (traced_database db) v tenant)"
proof -
  have post: "io_keeps (posts_more tenant) (run_post_proposal (traced_ledger l) q)" if "admitted tenant q" for l :: "'a postgres_ledger" and q
    using that by (auto simp: io_keeps_def traced_ledger_def recording_def posts_more_def split: prod.splits)
  have receipt: "io_keeps (posts_more tenant) (run_published_receipt (traced_ledger l) q)" for l :: "'a postgres_ledger" and q
    by (simp add: traced_ledger_def silently_keeps)
  have ingest: "admitted tenant q"
    if "io_lift (bind_result (command_payload v tenant msg_proposal_object msg_proposal_tenant)
          (\<lambda>_. ingest_journal_proposal v)) w = (w', Inr q)" for w w' :: "'a \<times> journal_proposal list" and q
    using that ingested_admitted by (auto simp: command_payload_def result_simps split: option.splits if_splits)
  have opened: "\<exists>l. ledger = traced_ledger l"
    if "io_lift (open_ledger (traced_database db) tenant) w = (w', Inr ledger)" for w w' :: "'a \<times> journal_proposal list" and ledger
    using that by (auto simp: open_ledger_def traced_database_def result_simps)
  show ?thesis
    unfolding accept_journal_proposal_def with_ledger_def
    by (intro io_keeps_bind_dep [OF transp_posts_more] io_keeps_lift [OF reflp_posts_more])
      (use opened ingest post receipt in \<open>fast+\<close>)
qed

interpretation posting: pull_collaborators "posts_more tenant" "beside net" "accept_journal_proposal (traced_database db)" env tenant
  for net :: "'w network" and db :: "'w database" and env tenant
proof
  show "posts_more tenant w (fst (beside net w r))" for w r
    by (auto simp: beside_def posts_more_def split: prod.splits)
  show "posts_more tenant w (fst (accept_journal_proposal (traced_database db) (PDict d) tenant w))" for w d
    using accept_keeps_posts unfolding io_keeps_def by blast
qed (rule reflp_posts_more transp_posts_more)+

text \<open>C30 Whatever the billing service answers, a pull posts only admitted proposals: every proposal it asks
  the ledger to post passed all checks of the posting core, uses the retained-earnings role on no line,
  and belongs to the bound tenant.\<close>

theorem pull_posts_only_admitted:
  assumes "accept_billing_proposal_pull (beside net) (accept_journal_proposal (traced_database db)) env command tenant (w, []) =
     ((w', posted), outcome)"
  shows "\<forall>q\<in>set posted. valid_proposal q \<and> jp_tenant_reference q = tenant \<and>
     list_all (\<lambda>l. jl_account_role_code l \<noteq> ''retained_earnings'') (jp_lines q)"
proof -
  have "posts_more tenant (w, []) (w', posted)"
    using posting.pull_keeps [of tenant net db env command] assms by (metis fst_conv io_keeps_def)
  then show ?thesis by (auto simp: posts_more_def admitted_def list_all_iff)
qed

text \<open>A service that offers one proposal for acceptance, and the pull that posts it.\<close>

abbreviation sample_tenant :: string where
  "sample_tenant \<equiv> ''urn:cwl:platform:tenant:t1''"

definition sample_offer :: payload where
  "sample_offer = proposal_fields ''validated'' ''2026-01-10T00:00:00Z'' sample_proposal"

definition offering_billing :: "unit network" where
  "offering_billing u r =
     (u, Reply 200 (Some (PDict [(''journal_proposals'', PList [PDict sample_offer]), (''next_cursor'', PNone)])))"

lemma sample_offer_get:
  "get_value sample_offer ''proposal_status'' = PStr ''validated''"
  "get_value sample_offer ''tenant_reference'' = PStr sample_tenant"
  by (simp_all add: sample_offer_def proposal_fields_get) (simp add: sample_proposal_def)

lemma sample_offer_accepted:
  "accept_journal_proposal (traced_database sample_database) (PDict sample_offer) sample_tenant ((), []) =
     (((), [sample_proposal]), Inr [])"
proof -
  have "ingest_journal_proposal (PDict sample_offer) = Inr sample_proposal"
    using ingest_reads_document_witness by (simp add: proposal_document_def sample_offer_def)
  moreover have "reference_pattern sample_tenant" by code_simp
  ultimately show ?thesis
    by (simp add: accept_journal_proposal_def command_payload_def sample_offer_get with_ledger_def open_ledger_def
        traced_database_def sample_database_def require_reference_def require_def traced_ledger_def sample_ledger_def
        recording_def silently_def io_bind_def io_lift_def)
qed

lemma offering_page:
  "read_page [(''journal_proposals'', PList [PDict sample_offer]), (''next_cursor'', PNone)] =
     Inr \<lparr>page_proposals = [sample_offer], page_next_cursor = None\<rparr>"
proof -
  have "validated_item (PDict sample_offer) = Inr sample_offer"
    by (simp add: validated_item_def validated_proposal_status_def sample_offer_get)
  then show ?thesis by (simp add: read_page_def get_value_def has_key_def require_def)
qed

lemma offering_request:
  "\<exists>r. billing_request_of ''https://Billing.example/v1/journal-proposals'' sample_tenant
     (list_query sample_tenant default_page_limit None None) = Inr r"
proof -
  have "reference_pattern sample_tenant" by code_simp
  then show ?thesis
    by (simp add: billing_request_of_def require_reference_def sample_urls url_hostname_def url_port_def before_char_def
        has_char_def)
qed

lemma offering_run:
  "accept_billing_proposal_pull (beside offering_billing) (accept_journal_proposal (traced_database sample_database)) sample_env
     (PDict [(''tenant_reference'', PStr sample_tenant), (''billing_base_url'', PStr ''https://billing.example/x'')])
     sample_tenant ((), []) =
   (((), [sample_proposal]), Inr \<lparr>pr_posting_receipts = [[]], pr_rejected_proposals = []\<rparr>)"
proof -
  obtain r where r: "billing_request_of ''https://Billing.example/v1/journal-proposals'' sample_tenant
     (list_query sample_tenant default_page_limit None None) = Inr r"
    using offering_request by blast
  show ?thesis
    by (simp add: accept_billing_proposal_pull_def get_value_def sample_resolved pull_page_limit_def none_or_empty_def
        accept_pulled_proposals_def max_pull_pages_def numeral_eq_Suc pull_validated_journal_proposals_def
        resolve_pull_page_limit_def truthy_text_def billing_get_def r beside_def offering_billing_def offering_page
        io_bind_def io_lift_def accept_item_def sample_offer_accepted)
qed

theorem pull_posts_only_admitted_witness:
  "accept_billing_proposal_pull (beside offering_billing) (accept_journal_proposal (traced_database sample_database)) sample_env
     (PDict [(''tenant_reference'', PStr sample_tenant), (''billing_base_url'', PStr ''https://billing.example/x'')])
     sample_tenant ((), []) =
   (((), [sample_proposal]), Inr \<lparr>pr_posting_receipts = [[]], pr_rejected_proposals = []\<rparr>) \<and>
   valid_proposal sample_proposal"
  using pull_posts_only_admitted [OF offering_run] offering_run by simp

end
