(* ===== verification/Paging_Properties.thy ===== *)
theory Paging_Properties
  imports Paging
begin

text \<open>
  Cursors resume where they were written: every cursor text the reads hand out is read back as the
  row it was written for. The timestamp lemmas go through the ISO reader of Calendar_Time, the UUID
  lemma through \<open>int(..., 16)\<close>.
\<close>

section \<open>Timestamps\<close>

lemma replace_text_Nil [simp]: "replace_text old new [] = []"
  by (simp add: replace_text.simps)

lemma replace_text_skip: "d \<noteq> c \<Longrightarrow> replace_text (c # old) new (d # s) = d # replace_text (c # old) new s"
  by (subst replace_text.simps) (simp add: starts_with_def)

lemma replace_text_hit: "c \<noteq> [] \<Longrightarrow> replace_text c new (c @ s) = new @ replace_text c new s"
  by (cases c; subst replace_text.simps) (simp_all add: starts_with_def)

lemma replace_text_end:
  "c \<notin> set s \<Longrightarrow> replace_text (c # old) new (s @ c # old) = s @ new"
  by (induction s) (use replace_text_hit [of "c # old" new "[]"] in \<open>auto simp: replace_text_skip\<close>)

lemma replace_text_absent: "c \<notin> set s \<Longrightarrow> replace_text (c # old) new s = s"
  by (induction s) (auto simp: replace_text_skip)

lemma utc_isoformat_chars:
  "c \<in> set (date_isoformat d @ ''T'' @ clock_text t) \<Longrightarrow> is_digit c \<or> c \<in> set ''-T:.''"
  using clock_text_chars [of c t] zero_pad_digits by (auto simp: date_isoformat_def list_all_iff)

lemma timestamp_roundtrip:
  assumes "to_utc v = Some u" "valid_datetime u" "dt_offset u = Some 0"
  shows "\<exists>t. format_timestamp v = Inr t \<and> read_timestamp t = Some u \<and> t \<noteq> [] \<and> CHR ''|'' \<notin> set t"
proof -
  let ?a = "date_isoformat (dt_date u) @ ''T'' @ clock_text u"
  have free: "c \<notin> set ?a" if "\<not> is_digit c" "c \<notin> set ''-T:.''" for c
    using utc_isoformat_chars that by blast
  have plus: "CHR ''+'' \<notin> set ?a" and Z: "CHR ''Z'' \<notin> set ?a" and bar: "CHR ''|'' \<notin> set ?a"
    by (rule free; simp add: in_range_def)+
  have "utc_isoformat u = ?a @ ''+00:00''" by (simp add: utc_isoformat_def)
  then have "format_timestamp v = Inr (?a @ ''Z'')"
    using assms(1) replace_text_end [OF plus, of "''00:00''" "''Z''"] by (simp add: format_timestamp_def)
  moreover have "read_timestamp (?a @ ''Z'') = Some u"
    using replace_text_end [OF Z, of "[]" "''+00:00''"] utc_isoformat_roundtrip [OF assms(2,3)]
    by (simp add: read_timestamp_def utc_isoformat_def)
  ultimately show ?thesis using bar by (intro exI [of _ "?a @ ''Z''"]) simp
qed

lemma cursor_halves_text: "a \<noteq> [] \<Longrightarrow> b \<noteq> [] \<Longrightarrow> CHR ''|'' \<notin> set a \<Longrightarrow> cursor_halves (a @ CHR ''|'' # b) = Some (a, b)"
  by (simp add: cursor_halves_def split_once_append)

lemma to_utc_offset: "to_utc v = Some u \<Longrightarrow> dt_offset u = Some 0"
  by (auto simp: to_utc_def Let_def split: option.splits if_splits)

section \<open>UUIDs and numbers\<close>

text \<open>A UUID reads back from its text.\<close>

lemma hex_char_digit: "n < 16 \<Longrightarrow> digit_in_base 16 (hex_char n) = Some n"
  by (auto simp: digit_in_base_def hex_char_def in_range_def Let_def)

lemma hex_char_not: "n < 16 \<Longrightarrow> is_digit (hex_char n) \<or> in_range CHR ''a'' CHR ''f'' (hex_char n)"
  by (auto simp: hex_char_def in_range_def)

lemma number_digits_hex:
  "list_all (\<lambda>n. n < 16) ds \<Longrightarrow> number_digits 16 m (map hex_char ds) = Some (foldl (\<lambda>a d. a * 16 + d) m ds)"
proof (induction ds arbitrary: m)
  case (Cons d ds)
  then have "hex_char d \<noteq> CHR ''_''" using hex_char_not [of d] by (auto simp: in_range_def)
  with Cons show ?case by (simp add: hex_char_digit)
qed simp

lemma hex_digits_value:
  "foldl (\<lambda>a d. a * 16 + d) 0 (map (\<lambda>i. n div 16 ^ (w - 1 - i) mod 16) [0..<w]) = n mod (16::nat) ^ w"
proof (induction w arbitrary: n)
  case 0
  then show ?case by simp
next
  case (Suc w)
  have shift: "map (\<lambda>i. n div 16 ^ (Suc w - 1 - i) mod 16) [0..<w] = map (\<lambda>i. (n div 16) div 16 ^ (w - 1 - i) mod 16) [0..<w]"
  proof (rule map_cong)
    fix i assume "i \<in> set [0..<w]"
    then have "Suc w - 1 - i = Suc (w - 1 - i)" by auto
    then show "n div 16 ^ (Suc w - 1 - i) mod 16 = (n div 16) div 16 ^ (w - 1 - i) mod 16"
      by (simp add: div_mult2_eq)
  qed simp
  have upt: "[0..<Suc w] = [0..<w] @ [w]" by simp
  show ?case
    unfolding upt map_append foldl_append shift Suc by (simp add: mod_mult2_eq)
qed

lemma hex_pad_value: "number_digits 16 0 (hex_pad w n) = Some (n mod 16 ^ w)"
  using number_digits_hex [of "map (\<lambda>i. n div 16 ^ (w - 1 - i) mod 16) [0..<w]" 0] hex_digits_value [of n w]
  by (simp add: hex_pad_def list_all_iff o_def)

lemma hex_pad_chars: "c \<in> set (hex_pad w n) \<Longrightarrow> is_digit c \<or> in_range CHR ''a'' CHR ''f'' c"
  using hex_char_not [of "_ mod 16"] by (fastforce simp: hex_pad_def)

lemma uuid_roundtrip:
  assumes "u < 2 ^ 128"
  shows "uuid_of_text (uuid_text u) = Some u"
proof -
  let ?h = "hex_pad 32 u" and ?brace = "\<lambda>c. c \<in> set ''{}''"
  have len: "length ?h = 32" by (simp add: hex_pad_def)
  have h: "c \<noteq> CHR ''u'' \<and> c \<noteq> CHR ''-'' \<and> c \<notin> set ''{}'' \<and> c \<noteq> CHR ''_'' \<and> \<not> is_space c \<and> c \<noteq> CHR ''+'' \<and> c \<noteq> CHR ''x'' \<and> c \<noteq> CHR ''X''"
    if "c \<in> set ?h" for c
    using hex_pad_chars [OF that] by (auto simp: in_range_def is_space_def)
  have chars: "c \<in> set ?h \<or> c = CHR ''-''" if "c \<in> set (uuid_text u)" for c
    using that by (auto simp: uuid_text_def Let_def dest: in_set_takeD in_set_dropD)
  have "CHR ''u'' \<notin> set (uuid_text u)" using chars h by blast
  then have plain: "replace_text ''uuid:'' [] (replace_text ''urn:'' [] (uuid_text u)) = uuid_text u"
    by (simp add: replace_text_absent)
  have nobrace: "list_all (\<lambda>c. \<not> ?brace c) (uuid_text u)" using chars h by (fastforce simp: list_all_iff)
  have strip: "rstrip_set ?brace (lstrip_set ?brace (uuid_text u)) = uuid_text u"
    using dropWhile_none [OF nobrace] dropWhile_none [of ?brace "rev (uuid_text u)"] nobrace
    by (simp add: lstrip_set_def rstrip_set_def)
  have keep: "filter (\<lambda>c. c \<noteq> CHR ''-'') s = s" if "set s \<subseteq> set ?h" for s
    using that h by (intro filter_True) blast
  have sub: "set (take n ?h) \<subseteq> set ?h" "set (take m (drop n ?h)) \<subseteq> set ?h" "set (drop n ?h) \<subseteq> set ?h" for n m
    by (auto dest: in_set_takeD in_set_dropD)
  have split: "?h = take 8 ?h @ take 4 (drop 8 ?h) @ take 4 (drop 12 ?h) @ take 4 (drop 16 ?h) @ drop 20 ?h"
    using append_take_drop_id [of 8 ?h] append_take_drop_id [of 4 "drop 8 ?h"] append_take_drop_id [of 4 "drop 12 ?h"]
      append_take_drop_id [of 4 "drop 16 ?h"] by simp
  have "uuid_digits (uuid_text u) = ?h"
    unfolding uuid_digits_def Let_def plain strip
    using split by (simp add: uuid_text_def Let_def keep sub)
  moreover have "int_of_text 16 ?h = Some (int u)"
  proof -
    have sp: "strip ?h = ?h" using h by (intro strip_no_space) (auto simp: list_all_iff)
    have ne: "?h \<noteq> []" using len by auto
    then have hd: "hd ?h \<in> set ?h" by simp
    have "take_sign ?h = (False, ?h)" using h [OF hd] ne by (cases ?h) (auto simp: take_sign_def)
    moreover have "\<not> starts_with ''0x'' ?h" "\<not> starts_with ''0X'' ?h"
      using h by (auto simp: starts_with_def) (metis in_set_takeD list.set_intros)+
    ultimately show ?thesis
      using sp ne h [OF hd] hex_pad_value [of 32 u] assms
      by (simp add: int_of_text_def drop_base_prefix_def Let_def)
  qed
  ultimately show ?thesis using len by (simp add: uuid_of_text_def)
qed

lemma number_digits_decimal:
  "list_all is_digit s \<Longrightarrow> number_digits 10 m s = Some (foldl (\<lambda>n c. 10 * n + digit_value c) m s)"
proof (induction s arbitrary: m)
  case (Cons c s)
  then have "c \<noteq> CHR ''_''" "digit_in_base 10 c = Some (digit_value c)"
    by (auto simp: in_range_def digit_in_base_def digit_value_def Let_def)
  with Cons show ?case by (simp add: mult.commute)
qed simp

lemma int_of_nat_text: "int_of_text 10 (nat_text n) = Some (int n)"
proof -
  have digits: "list_all is_digit (nat_text n)" by (rule nat_text_digits)
  then have "number_digits 10 0 (nat_text n) = Some n"
    using number_digits_decimal [of "nat_text n" 0] digits_value_nat_text [of n] by (simp add: digits_value_def)
  moreover have "strip (nat_text n) = nat_text n"
    using digits by (intro strip_no_space) (auto simp: list_all_iff is_space_def in_range_def)
  moreover obtain c cs where c: "nat_text n = c # cs" using nat_text_nonempty [of n] by (cases "nat_text n") auto
  moreover have "is_digit c" using digits c by simp
  ultimately show ?thesis
    by (auto simp: int_of_text_def drop_base_prefix_def take_sign_def in_range_def)
qed

section \<open>The cursors written by the reads\<close>

text \<open>What \<open>persistence.py\<close> writes as \<open>next_cursor\<close> for the last row of a page.\<close>

definition journal_list_next_cursor :: "date \<Rightarrow> string \<Rightarrow> string" where
  "journal_list_next_cursor accounting_date journal_reference = date_isoformat accounting_date @ ''|'' @ journal_reference"

definition fiscal_period_next_cursor :: "date \<Rightarrow> string \<Rightarrow> string" where
  "fiscal_period_next_cursor period_start_date period_code = date_isoformat period_start_date @ ''|'' @ period_code"

definition reversal_next_cursor :: "datetime \<Rightarrow> string \<Rightarrow> string result" where
  "reversal_next_cursor posted_at journal_reference =
     bind_result (format_timestamp posted_at) (\<lambda>t. Inr (t @ ''|'' @ journal_reference))"

definition close_next_cursor :: "datetime \<Rightarrow> nat \<Rightarrow> string result" where
  "close_next_cursor generated_at record_id =
     bind_result (format_timestamp generated_at) (\<lambda>t. Inr (t @ ''|'' @ uuid_text record_id))"

definition outbox_next_cursor :: "datetime \<Rightarrow> nat \<Rightarrow> string result" where
  "outbox_next_cursor created_at event_id =
     bind_result (format_timestamp created_at) (\<lambda>t. Inr (t @ ''|'' @ uuid_text event_id))"

definition account_ledger_next_cursor :: "datetime \<Rightarrow> string \<Rightarrow> nat \<Rightarrow> string result" where
  "account_ledger_next_cursor posted_at journal_reference line_number =
     bind_result (format_timestamp posted_at) (\<lambda>t. Inr (t @ ''|'' @ journal_reference @ ''|'' @ nat_text line_number))"

lemma date_isoformat_no_bar: "CHR ''|'' \<notin> set (date_isoformat d)" and date_isoformat_nonempty: "date_isoformat d \<noteq> []"
proof -
  have "\<not> is_digit (CHR ''|'')" by (simp add: in_range_def)
  then have "CHR ''|'' \<notin> set (zero_pad w n)" for w n using zero_pad_digits by (auto simp: list_all_iff)
  then show "CHR ''|'' \<notin> set (date_isoformat d)" by (simp add: date_isoformat_def)
qed (simp add: date_isoformat_def)

lemma split_on_append: "sep \<notin> set a \<Longrightarrow> split_on sep (a @ sep # b) = a # split_on sep b"
  by (induction a) auto

text \<open>A client that sends back a cursor it was given resumes exactly where the page ended: for every
  kind of paged list the cursor text written for a row reads back as the key of that row, its
  timestamp converted to UTC.\<close>

theorem cursors_resume:
  assumes "valid_date d" and "ref \<noteq> []"
    and "to_utc v = Some u" and "valid_datetime u" and "i < 2 ^ 128"
  shows "parse_journal_list_cursor (journal_list_next_cursor d ref) = Inr (Some (d, ref)) \<and>
    parse_fiscal_period_list_cursor (fiscal_period_next_cursor d ref) = Inr (Some (d, ref)) \<and>
    bind_result (reversal_next_cursor v ref) parse_journal_reversal_cursor = Inr (Some (u, ref)) \<and>
    bind_result (close_next_cursor v i) parse_period_close_cursor = Inr (Some (u, i)) \<and>
    bind_result (outbox_next_cursor v i) parse_outbox_cursor = Inr (Some (u, i)) \<and>
    (CHR ''|'' \<notin> set ref \<longrightarrow>
       bind_result (account_ledger_next_cursor v ref n) parse_account_ledger_cursor = Inr (Some (u, ref, int n)))"
proof -
  have utc: "dt_offset u = Some 0" using to_utc_offset assms(3) .
  obtain t where t: "format_timestamp v = Inr t" "read_timestamp t = Some u" "t \<noteq> []" "CHR ''|'' \<notin> set t"
    using timestamp_roundtrip [OF assms(3,4) utc] by blast
  have uuid: "uuid_of_text (uuid_text i) = Some i" "uuid_text i \<noteq> []"
    using uuid_roundtrip [OF assms(5)] by (auto simp: uuid_text_def Let_def)
  have date: "date_fromisoformat (date_isoformat d) = Some d" by (rule date_isoformat_roundtrip) fact
  note halves = cursor_halves_text [OF t(3) _ t(4)] cursor_halves_text [OF date_isoformat_nonempty _ date_isoformat_no_bar]
  have "parse_journal_list_cursor (journal_list_next_cursor d ref) = Inr (Some (d, ref))"
    and "parse_fiscal_period_list_cursor (fiscal_period_next_cursor d ref) = Inr (Some (d, ref))"
    using assms(2) date
    by (simp_all add: parse_journal_list_cursor_def journal_list_next_cursor_def parse_fiscal_period_list_cursor_def
        fiscal_period_next_cursor_def halves)
  moreover have "bind_result (reversal_next_cursor v ref) parse_journal_reversal_cursor = Inr (Some (u, ref))"
    and "bind_result (close_next_cursor v i) parse_period_close_cursor = Inr (Some (u, i))"
    and "bind_result (outbox_next_cursor v i) parse_outbox_cursor = Inr (Some (u, i))"
    using assms(2) t utc uuid
    by (simp_all add: reversal_next_cursor_def close_next_cursor_def outbox_next_cursor_def parse_journal_reversal_cursor_def
        parse_period_close_cursor_def parse_outbox_cursor_def halves require_aware_timestamp_def)
  moreover have "bind_result (account_ledger_next_cursor v ref n) parse_account_ledger_cursor = Inr (Some (u, ref, int n))"
    if "CHR ''|'' \<notin> set ref"
  proof -
    have bar: "CHR ''|'' \<notin> set (nat_text n)" using nat_text_digits [of n] by (auto simp: list_all_iff in_range_def)
    have "split_on (CHR ''|'') (t @ ''|'' @ ref @ ''|'' @ nat_text n) = [t, ref, nat_text n]"
      using split_on_append [OF t(4)] split_on_append [OF that] split_on_no_sep [OF bar] by simp
    then show ?thesis
      using assms(2) t utc int_of_nat_text
      by (simp add: account_ledger_next_cursor_def parse_account_ledger_cursor_def require_aware_timestamp_def)
  qed
  ultimately show ?thesis by blast
qed

definition sample_instant :: datetime where
  "sample_instant = \<lparr>dt_date = Date 2025 1 1, dt_hour = 8, dt_minute = 30, dt_second = 5, dt_micro = 250000,
     dt_offset = Some 32400000000\<rparr>"

definition sample_instant_utc :: datetime where
  "sample_instant_utc = \<lparr>dt_date = Date 2024 12 31, dt_hour = 23, dt_minute = 30, dt_second = 5, dt_micro = 250000,
     dt_offset = Some 0\<rparr>"

lemma sample_instant_utc: "to_utc sample_instant = Some sample_instant_utc" "valid_datetime sample_instant_utc"
  by code_simp+

theorem cursors_resume_witness:
  "bind_result (outbox_next_cursor sample_instant 77) parse_outbox_cursor = Inr (Some (sample_instant_utc, 77)) \<and>
   parse_journal_list_cursor (journal_list_next_cursor (Date 2024 2 29) ''urn:cwl:journal:1'') =
     Inr (Some (Date 2024 2 29, ''urn:cwl:journal:1''))"
proof -
  have "valid_date (Date 2024 2 29)" by code_simp
  note resume = cursors_resume [OF this _ sample_instant_utc, of "''urn:cwl:journal:1''" 77]
  show ?thesis using resume by simp
qed

end
