(* ===== verification/Statement_Xml.thy ===== *)
theory Statement_Xml
  imports Core Url Sha256
begin

text \<open>
  The bounded XML reader of \<open>bank_statement.py\<close> and the pinned adapter files it checks first. The
  parser itself (\<open>pyexpat\<close>, the C library expat) is a parameter: for a document it gives the events
  it reports, in order, and whether the document is well formed to its end. The model is what the
  program does with the events: the handlers that reject document types, entities and processing
  instructions, the bounds, the element tree they build, and the ways it is searched.
\<close>

section \<open>Bytes\<close>

text \<open>\<open>text.encode("utf-8")\<close>, a byte string: one character per byte.\<close>

definition encode_utf8 :: "string \<Rightarrow> string" where
  "encode_utf8 s = concat (map (\<lambda>c. map char_of (utf8 c)) s)"

definition sha256_digest :: "string \<Rightarrow> string" where
  "sha256_digest payload = ''sha256:'' @ sha256_hex payload"

section \<open>The adapter package\<close>

definition camt053_message_definition :: string where
  "camt053_message_definition = ''camt.053.001.14''"

definition camt053_namespace :: string where
  "camt053_namespace = ''urn:iso:std:iso:20022:tech:xsd:camt.053.001.14''"

definition max_statement_bytes :: nat where "max_statement_bytes = 1048576"
definition max_xml_depth :: int where "max_xml_depth = 32"
definition max_element_count :: int where "max_element_count = 20000"
definition max_attribute_count :: int where "max_attribute_count = 20000"
definition max_text_bytes :: int where "max_text_bytes = 262144"

text \<open>
  The files beside the module: the manifest with the path, digest and length of each pinned file, the
  files themselves, and the required paths of the structural profile.
\<close>

record adapter_artifact =
  aa_local_package_path :: string
  aa_sha256 :: string
  aa_byte_length :: nat

record adapter_package =
  package_message_definition :: string
  package_artifacts :: "adapter_artifact list"
  package_file :: "string \<Rightarrow> string"
  package_required_paths :: "string list"

definition msg_manifest_identifier :: string where
  "msg_manifest_identifier =
     ''adapter manifest message-definition identifier is not camt.053.001.14. Restore the pinned adapter '' @
     ''evidence, then retry ingest.''"

definition msg_adapter_hash :: string where
  "msg_adapter_hash =
     ''adapter evidence SHA-256 or byte length does not match the pinned manifest. Restore the vendored '' @
     ''ISO 20022 adapter files, then retry ingest.''"

definition check_adapter_artifact :: "adapter_package \<Rightarrow> adapter_artifact \<Rightarrow> unit result" where
  "check_adapter_artifact package artifact =
     (let payload = package_file package (aa_local_package_path artifact)
      in require (sha256_hex payload = aa_sha256 artifact \<and> length payload = aa_byte_length artifact)
           (validation_error msg_adapter_hash))"

definition load_adapter_manifest :: "adapter_package \<Rightarrow> unit result" where
  "load_adapter_manifest package =
     bind_result (require (package_message_definition package = camt053_message_definition)
         (validation_error msg_manifest_identifier)) (\<lambda>_.
       check_all (check_adapter_artifact package) (package_artifacts package))"

definition load_canonical_statement_fixture :: "adapter_package \<Rightarrow> string result" where
  "load_canonical_statement_fixture package =
     bind_result (load_adapter_manifest package) (\<lambda>_.
       Inr (package_file package ''iso20022/fixtures/camt.053.001.14.valid.xml''))"

section \<open>Elements and events\<close>

datatype xml_element = Xml_Element
  (xe_local_name: string) (xe_namespace: string) (xe_attributes: "(string, string) dict")
  (xe_text: string) (xe_children: "xml_element list")

datatype xml_event =
    Start_Element string "(string \<times> string) list"
  | End_Element string
  | Character_Data string
  | Doctype_Decl
  | Entity_Decl
  | External_Entity_Ref
  | Processing_Instruction string string

type_synonym expat = "string \<Rightarrow> xml_event list \<times> bool"

text \<open>
  The state of the handlers: the open elements, innermost first, each with its finished children; the
  finished document element; and the four counters.
\<close>

record xml_state =
  xs_open :: "xml_element list"
  xs_root :: "xml_element option"
  xs_depth :: int
  xs_elements :: int
  xs_attributes :: int
  xs_text_bytes :: int

definition xml_start :: xml_state where
  "xml_start = \<lparr>xs_open = [], xs_root = None, xs_depth = 0, xs_elements = 0, xs_attributes = 0, xs_text_bytes = 0\<rparr>"

fun add_child :: "xml_element \<Rightarrow> xml_element \<Rightarrow> xml_element" where
  "add_child child (Xml_Element local ns attrs txt children) = Xml_Element local ns attrs txt (children @ [child])"

fun add_text :: "string \<Rightarrow> xml_element \<Rightarrow> xml_element" where
  "add_text s (Xml_Element local ns attrs txt children) = Xml_Element local ns attrs (txt @ s) children"

definition split_expat_name :: "string \<Rightarrow> string \<times> string" where
  "split_expat_name name =
     (if CHR '' '' \<notin> set name then ([], name) else split_once (CHR '' '') name)"

section \<open>Handlers\<close>

definition msg_xml_external :: string where
  "msg_xml_external =
     ''external XML entity or DTD resolution is not permitted. Remove DTD and external entities, then '' @
     ''retry ingest.''"

definition msg_xml_doctype :: string where
  "msg_xml_doctype =
     ''XML DTD declarations are not permitted. Remove the DTD, then retry ingest.''"

definition msg_xml_entity :: string where
  "msg_xml_entity =
     ''XML entity declarations are not permitted. Remove entity declarations, then retry ingest.''"

definition msg_xml_stylesheet :: string where
  "msg_xml_stylesheet =
     ''XML stylesheet processing is not permitted. Remove processing instructions, then retry ingest.''"

definition msg_xml_instruction :: string where
  "msg_xml_instruction =
     ''XML processing instructions are not permitted. Remove processing instructions, then retry ingest.''"

definition msg_xml_depth :: string where
  "msg_xml_depth =
     ''XML depth exceeds the adapter bound. Send a shallower statement document, then retry ingest.''"

definition msg_xml_elements :: string where
  "msg_xml_elements =
     ''XML element count exceeds the adapter bound. Send a smaller statement document, then retry ingest.''"

definition msg_xml_attributes :: string where
  "msg_xml_attributes =
     ''XML attribute count exceeds the adapter bound. Send a smaller statement document, then retry '' @
     ''ingest.''"

definition msg_xml_text :: string where
  "msg_xml_text =
     ''XML text length exceeds the adapter bound. Send a smaller statement document, then retry ingest.''"

definition reject_pi :: "string \<Rightarrow> py_exc" where
  "reject_pi target =
     (if py_lower target \<in> {''xml-stylesheet'', ''xsl'', ''xslt''} then validation_error msg_xml_stylesheet
      else validation_error msg_xml_instruction)"

definition attributes_dict :: "(string \<times> string) list \<Rightarrow> (string, string) dict" where
  "attributes_dict attrs = fold (\<lambda>(k, v) d. dict_set k v d) attrs []"

definition handle_start :: "xml_state \<Rightarrow> string \<Rightarrow> (string \<times> string) list \<Rightarrow> xml_state result" where
  "handle_start st name attrs =
     (let attrib = attributes_dict attrs;
          st' = st\<lparr>xs_depth := xs_depth st + 1, xs_elements := xs_elements st + 1,
                   xs_attributes := xs_attributes st + int (length attrib)\<rparr>
      in bind_result (require (xs_depth st' \<le> max_xml_depth) (validation_error msg_xml_depth)) (\<lambda>_.
         bind_result (require (xs_elements st' \<le> max_element_count) (validation_error msg_xml_elements)) (\<lambda>_.
         bind_result (require (xs_attributes st' \<le> max_attribute_count) (validation_error msg_xml_attributes)) (\<lambda>_.
           case split_expat_name name of (ns, local_name) \<Rightarrow>
             Inr (st'\<lparr>xs_open := Xml_Element local_name ns attrib [] [] # xs_open st,
                      xs_root := (if xs_open st = [] then None else xs_root st)\<rparr>)))))"

definition handle_end :: "xml_state \<Rightarrow> xml_state result" where
  "handle_end st =
     (case xs_open st of
        [] \<Rightarrow> Inl IndexError
      | [e] \<Rightarrow> Inr (st\<lparr>xs_open := [], xs_root := Some e, xs_depth := xs_depth st - 1\<rparr>)
      | e # p # rest \<Rightarrow> Inr (st\<lparr>xs_open := add_child e p # rest, xs_depth := xs_depth st - 1\<rparr>))"

definition handle_text :: "xml_state \<Rightarrow> string \<Rightarrow> xml_state result" where
  "handle_text st s =
     (let st' = st\<lparr>xs_text_bytes := xs_text_bytes st + int (length (encode_utf8 s))\<rparr>
      in bind_result (require (xs_text_bytes st' \<le> max_text_bytes) (validation_error msg_xml_text)) (\<lambda>_.
           Inr (case xs_open st of [] \<Rightarrow> st' | e # rest \<Rightarrow> st'\<lparr>xs_open := add_text s e # rest\<rparr>)))"

fun handle_event :: "xml_state \<Rightarrow> xml_event \<Rightarrow> xml_state result" where
  "handle_event st (Start_Element name attrs) = handle_start st name attrs"
| "handle_event st (End_Element name) = handle_end st"
| "handle_event st (Character_Data s) = handle_text st s"
| "handle_event st Doctype_Decl = Inl (validation_error msg_xml_doctype)"
| "handle_event st Entity_Decl = Inl (validation_error msg_xml_entity)"
| "handle_event st External_Entity_Ref = Inl (validation_error msg_xml_external)"
| "handle_event st (Processing_Instruction target data) = Inl (reject_pi target)"

definition msg_xml_form :: string where
  "msg_xml_form =
     ''statement XML is not well formed. Supply a well-formed camt.053.001.14 document, then retry ingest.''"

definition msg_xml_root :: string where
  "msg_xml_root =
     ''statement XML has no document element. Supply a Document root, then retry ingest.''"

text \<open>The document element, whose open descendants hang below it.\<close>

definition document_element :: "xml_state \<Rightarrow> xml_element option" where
  "document_element st =
     (case xs_open st of [] \<Rightarrow> xs_root st | e # rest \<Rightarrow> Some (foldl add_child e rest))"

definition parse_bounded_xml :: "expat \<Rightarrow> string \<Rightarrow> xml_element result" where
  "parse_bounded_xml expat payload =
     (case expat payload of (events, well_formed) \<Rightarrow>
        bind_result (fold_result handle_event xml_start events) (\<lambda>st.
          if \<not> well_formed then Inl (validation_error msg_xml_form)
          else case document_element st of
                 None \<Rightarrow> Inl (validation_error msg_xml_root)
               | Some element \<Rightarrow> Inr element))"

section \<open>Searching the tree\<close>

definition direct_children :: "xml_element \<Rightarrow> string \<Rightarrow> xml_element list" where
  "direct_children parent name = filter (\<lambda>child. xe_local_name child = name) (xe_children parent)"

fun child_elements_of :: "xml_element list \<Rightarrow> string list \<Rightarrow> xml_element list" where
  "child_elements_of nodes [] = nodes"
| "child_elements_of nodes (name # path) =
     child_elements_of (concat (map (\<lambda>node. direct_children node name) nodes)) path"

definition child_elements :: "xml_element \<Rightarrow> string list \<Rightarrow> xml_element list" where
  "child_elements parent path = child_elements_of [parent] path"

fun descend :: "xml_element \<Rightarrow> string list \<Rightarrow> xml_element option" where
  "descend node [] = Some node"
| "descend node (name # path) =
     (case direct_children node name of [] \<Rightarrow> None | child # _ \<Rightarrow> descend child path)"

text \<open>\<open>text.strip() or None\<close> of the element at the end of a path of first children.\<close>

definition first_text :: "xml_element \<Rightarrow> string list \<Rightarrow> string option" where
  "first_text parent path =
     (case descend parent path of
        None \<Rightarrow> None
      | Some node \<Rightarrow> if strip (xe_text node) = [] then None else Some (strip (xe_text node)))"

fun first_found :: "('a \<Rightarrow> 'b option) \<Rightarrow> 'a list \<Rightarrow> 'b option" where
  "first_found f [] = None"
| "first_found f (x # xs) = (case f x of None \<Rightarrow> first_found f xs | Some y \<Rightarrow> Some y)"

fun find_path :: "xml_element \<Rightarrow> string list \<Rightarrow> xml_element option" where
  "find_path element [] = Some element"
| "find_path element (expected # parts) =
     (if xe_local_name element \<noteq> expected then None
      else if parts = [] then Some element
      else first_found (\<lambda>child. find_path child parts) (xe_children element))"

definition msg_revision :: string where
  "msg_revision =
     ''message-definition revision is not camt.053.001.14. Send BankToCustomerStatementV14, then retry '' @
     ''ingest.''"

definition msg_structural_path :: string where
  "msg_structural_path =
     ''statement is missing a required camt.053.001.14 path. Supply a complete BankToCustomerStatementV14 '' @
     ''document, then retry ingest.''"

definition reject_revision_mismatch :: "xml_element \<Rightarrow> unit result" where
  "reject_revision_mismatch document =
     require (xe_local_name document = ''Document'' \<and> xe_namespace document = camt053_namespace)
       (validation_error msg_revision)"

definition require_structural_paths :: "xml_element \<Rightarrow> string list \<Rightarrow> unit result" where
  "require_structural_paths document required_paths =
     check_all (\<lambda>path. require (find_path document (split_on (CHR ''/'') path) \<noteq> None)
       (validation_error msg_structural_path)) required_paths"

end
