(* ===== verification/Bank_Statement.thy ===== *)
theory Bank_Statement
  imports Statement_Xml Paging
begin

text \<open>
  The normalization of \<open>bank_statement.py\<close>: from the element tree of one camt.053.001.14 statement to
  the normalized statement with its entries and transaction details, their exact amounts, their
  direction, their instants in UTC, and the digests that identify them.
\<close>

section \<open>Normalized values\<close>

record entry_detail =
  ed_sequence_number :: int
  ed_source_locator_path :: string
  ed_amount :: dec
  ed_currency_code :: string
  ed_credit_debit_code :: string
  ed_end_to_end_reference :: "string option"
  ed_account_servicer_reference :: "string option"
  ed_remittance_evidence_text :: "string option"
  ed_source_detail_hash :: string

record normalized_entry =
  ne_source_entry_identity :: "string option"
  ne_sequence_number :: int
  ne_source_locator_path :: string
  ne_booking_occurred_at :: "datetime option"
  ne_value_occurred_at :: "datetime option"
  ne_amount :: dec
  ne_currency_code :: string
  ne_credit_debit_code :: string
  ne_reversal_indicator :: bool
  ne_domain_code :: "string option"
  ne_family_code :: "string option"
  ne_subfamily_code :: "string option"
  ne_end_to_end_reference :: "string option"
  ne_account_servicer_reference :: "string option"
  ne_mandate_reference :: "string option"
  ne_cheque_reference :: "string option"
  ne_remittance_evidence_text :: "string option"
  ne_counterparty_evidence_hash :: "string option"
  ne_source_entry_hash :: string
  ne_entry_details :: "entry_detail list"

record normalized_statement =
  ns_message_definition_identifier :: string
  ns_statement_identity_reference :: string
  ns_electronic_sequence_number :: "string option"
  ns_legal_sequence_number :: "string option"
  ns_period_start_at :: "datetime option"
  ns_period_end_at :: "datetime option"
  ns_opening_balance_hash :: "string option"
  ns_closing_balance_hash :: "string option"
  ns_account_currency_code :: string
  ns_account_identifier_hash :: string
  ns_source_artifact_hash :: string
  ns_normalized_payload_hash :: string
  ns_entries :: "normalized_entry list"

definition max_entry_count :: int where "max_entry_count = 500"
definition max_remittance_chars :: nat where "max_remittance_chars = 256"

section \<open>Texts\<close>

text \<open>\<open>_decimal_text\<close>: plain notation without trailing zeros behind the point.\<close>

definition decimal_text :: "dec \<Rightarrow> string" where
  "decimal_text amount =
     (let plain = dec_format_f amount
      in if CHR ''.'' \<in> set plain
         then rstrip_set (\<lambda>c. c = CHR ''.'') (rstrip_set (\<lambda>c. c = CHR ''0'') plain)
         else plain)"

definition bound_text :: "string option \<Rightarrow> string option" where
  "bound_text v = map_option (take max_remittance_chars) v"

text \<open>
  \<open>_format_timestamp\<close> of an instant that is already in UTC, as all instants of a normalized statement
  are: the conversion cannot leave the calendar.
\<close>

definition instant_text :: "datetime \<Rightarrow> string" where
  "instant_text t = (case format_timestamp t of Inr s \<Rightarrow> s | Inl e \<Rightarrow> [])"

definition instant_value :: "datetime option \<Rightarrow> py_value" where
  "instant_value t = (case t of None \<Rightarrow> PNone | Some u \<Rightarrow> PStr (instant_text u))"

definition text_value :: "string option \<Rightarrow> py_value" where
  "text_value s = (case s of None \<Rightarrow> PNone | Some t \<Rightarrow> PStr t)"

text \<open>\<open>json.dumps(payload, separators=(",", ":"), sort_keys=True)\<close>, an ASCII text, and its digest.\<close>

definition canonical_digest :: "payload \<Rightarrow> string" where
  "canonical_digest document = sha256_digest (the (json_dumps (PDict document)))"

definition msg_child_missing :: "string \<Rightarrow> string \<Rightarrow> string" where
  "msg_child_missing label name = label @ '' is missing. Supply '' @ name @ '', then retry ingest.''"

definition required_child :: "xml_element \<Rightarrow> string \<Rightarrow> string \<Rightarrow> xml_element result" where
  "required_child parent name label =
     (case direct_children parent name of
        [] \<Rightarrow> Inl (validation_error (msg_child_missing label name))
      | child # _ \<Rightarrow> Inr child)"

definition required_text :: "xml_element \<Rightarrow> string list \<Rightarrow> string \<Rightarrow> string result" where
  "required_text parent path label =
     (case first_text parent path of
        None \<Rightarrow> Inl (validation_error (msg_child_missing label (join ''/'' path)))
      | Some t \<Rightarrow> Inr t)"

section \<open>Instants\<close>

definition msg_timestamp :: "string \<Rightarrow> string" where
  "msg_timestamp label =
     label @ '' must be an ISO-8601 date or timestamp. Supply a UTC timestamp, then retry.''"

text \<open>A timestamp without an offset is taken as UTC; a conversion to UTC that leaves the calendar overflows.\<close>

definition parse_timestamp :: "string \<Rightarrow> string \<Rightarrow> datetime result" where
  "parse_timestamp s label =
     (case read_timestamp s of
        None \<Rightarrow> Inl (validation_error (msg_timestamp label))
      | Some parsed \<Rightarrow>
          (let aware = (if dt_offset parsed = None then parsed\<lparr>dt_offset := Some 0\<rparr> else parsed)
           in case to_utc aware of None \<Rightarrow> Inl OverflowError | Some instant \<Rightarrow> Inr instant))"

definition optional_timestamp :: "string option \<Rightarrow> datetime option result" where
  "optional_timestamp s =
     (case s of
        None \<Rightarrow> Inr None
      | Some t \<Rightarrow> bind_result (parse_timestamp t ''statement timestamp'') (\<lambda>instant. Inr (Some instant)))"

definition or_else :: "'a option \<Rightarrow> 'a option \<Rightarrow> 'a option" where
  "or_else a b = (case a of None \<Rightarrow> b | Some x \<Rightarrow> Some x)"

section \<open>Amounts and codes\<close>

definition msg_amount_missing :: "string \<Rightarrow> string" where
  "msg_amount_missing label =
     label @ '' is missing. Supply Amt and Ccy, then retry ingest.''"

definition msg_amount_currency :: "string \<Rightarrow> string" where
  "msg_amount_currency label =
     label @ '' currency is missing or invalid. Supply a three-letter Ccy, then retry ingest.''"

definition msg_amount_exact :: "string \<Rightarrow> string" where
  "msg_amount_exact label =
     label @ '' must be an exact decimal with at most six fractional digits. Correct the amount, then retry '' @
     ''ingest.''"

definition msg_amount_zero :: "string \<Rightarrow> string" where
  "msg_amount_zero label =
     label @ '' must be greater than zero. Correct the amount, then retry ingest.''"

definition msg_indicator :: string where
  "msg_indicator =
     ''credit/debit indicator must be CRDT or DBIT. Correct CdtDbtInd, then retry ingest.''"

definition msg_reversal_indicator :: string where
  "msg_reversal_indicator =
     ''reversal indicator must be true or false. Correct RvslInd, then retry ingest.''"

definition amount_from_element :: "xml_element \<Rightarrow> string \<Rightarrow> bool \<Rightarrow> (dec \<times> string) result" where
  "amount_from_element amount_node label allow_zero =
     (let currency = (case dict_get (xe_attributes amount_node) ''Ccy'' of None \<Rightarrow> [] | Some c \<Rightarrow> c)
      in if \<not> currency_pattern currency then Inl (validation_error (msg_amount_currency label))
         else case parse_amount (PStr (strip (xe_text amount_node))) of
                Inl e \<Rightarrow> Inl (validation_error (msg_amount_exact label))
              | Inr amount \<Rightarrow>
                  if dec_eq amount dec_zero \<and> \<not> allow_zero then Inl (validation_error (msg_amount_zero label))
                  else Inr (amount, currency))"

definition required_amount :: "xml_element \<Rightarrow> string \<Rightarrow> bool \<Rightarrow> (dec \<times> string) result" where
  "required_amount parent label allow_zero =
     (case direct_children parent ''Amt'' of
        [] \<Rightarrow> Inl (validation_error (msg_amount_missing label))
      | amount_node # _ \<Rightarrow> amount_from_element amount_node label allow_zero)"

definition credit_debit_ok :: "string \<Rightarrow> bool" where
  "credit_debit_ok c \<longleftrightarrow> c = ''CRDT'' \<or> c = ''DBIT''"

definition parse_reversal :: "string option \<Rightarrow> bool result" where
  "parse_reversal s =
     (case s of
        None \<Rightarrow> Inr False
      | Some t \<Rightarrow>
          (let lowered = py_lower (strip t)
           in if lowered = ''true'' \<or> lowered = ''1'' then Inr True
              else if lowered = ''false'' \<or> lowered = ''0'' then Inr False
              else Inl (validation_error msg_reversal_indicator)))"

section \<open>Transaction details\<close>

definition msg_detail_amount :: string where
  "msg_detail_amount =
     ''transaction detail is missing an exact amount. Supply TxDtls/AmtDtls/TxAmt/Amt, then retry ingest.''"

definition entry_locator :: "int \<Rightarrow> string" where
  "entry_locator number = ''Document/BkToCstmrStmt/Stmt/Ntry['' @ int_text number @ '']''"

definition detail_locator :: "int \<Rightarrow> int \<Rightarrow> string" where
  "detail_locator entry number = entry_locator entry @ ''/NtryDtls/TxDtls['' @ int_text number @ '']''"

definition detail_evidence :: "entry_detail \<Rightarrow> payload" where
  "detail_evidence detail =
     [(''locator'', PStr (ed_source_locator_path detail)),
      (''amount'', PStr (decimal_text (ed_amount detail))),
      (''currency'', PStr (ed_currency_code detail)),
      (''credit_debit'', PStr (ed_credit_debit_code detail)),
      (''end_to_end'', text_value (ed_end_to_end_reference detail)),
      (''remittance'', text_value (ed_remittance_evidence_text detail))]"

definition normalize_detail :: "xml_element \<Rightarrow> int \<Rightarrow> int \<Rightarrow> string \<Rightarrow> entry_detail result" where
  "normalize_detail detail_node entry_sequence detail_sequence fallback =
     (case find_path detail_node [''TxDtls'', ''AmtDtls'', ''TxAmt'', ''Amt''] of
        None \<Rightarrow> Inl (validation_error msg_detail_amount)
      | Some amount_node \<Rightarrow>
          bind_result (amount_from_element amount_node ''TxDtls/AmtDtls/TxAmt/Amt'' False) (\<lambda>(amount, currency).
            let credit_debit = (case first_text detail_node [''CdtDbtInd''] of None \<Rightarrow> fallback | Some c \<Rightarrow> c)
            in if \<not> credit_debit_ok credit_debit then Inl (validation_error msg_indicator)
               else
                 (let detail =
                    \<lparr>ed_sequence_number = detail_sequence,
                     ed_source_locator_path = detail_locator entry_sequence detail_sequence,
                     ed_amount = amount, ed_currency_code = currency, ed_credit_debit_code = credit_debit,
                     ed_end_to_end_reference = first_text detail_node [''Refs'', ''EndToEndId''],
                     ed_account_servicer_reference = first_text detail_node [''Refs'', ''AcctSvcrRef''],
                     ed_remittance_evidence_text = bound_text (first_text detail_node [''RmtInf'', ''Ustrd'']),
                     ed_source_detail_hash = []\<rparr>
                  in Inr (detail\<lparr>ed_source_detail_hash := canonical_digest (detail_evidence detail)\<rparr>))))"

section \<open>Entries\<close>

definition detail_payload :: "entry_detail \<Rightarrow> payload" where
  "detail_payload detail =
     [(''detail_sequence_number'', PInt (ed_sequence_number detail)),
      (''source_locator_path'', PStr (ed_source_locator_path detail)),
      (''detail_amount'', PStr (decimal_text (ed_amount detail))),
      (''detail_currency_code'', PStr (ed_currency_code detail)),
      (''credit_debit_code'', PStr (ed_credit_debit_code detail)),
      (''end_to_end_reference'', text_value (ed_end_to_end_reference detail)),
      (''remittance_evidence_text'', text_value (ed_remittance_evidence_text detail))]"

definition entry_payload :: "normalized_entry \<Rightarrow> payload" where
  "entry_payload entry =
     [(''source_entry_identity'', text_value (ne_source_entry_identity entry)),
      (''entry_sequence_number'', PInt (ne_sequence_number entry)),
      (''source_locator_path'', PStr (ne_source_locator_path entry)),
      (''booking_occurred_at'', instant_value (ne_booking_occurred_at entry)),
      (''value_occurred_at'', instant_value (ne_value_occurred_at entry)),
      (''entry_amount'', PStr (decimal_text (ne_amount entry))),
      (''entry_currency_code'', PStr (ne_currency_code entry)),
      (''credit_debit_code'', PStr (ne_credit_debit_code entry)),
      (''reversal_indicator'', PBool (ne_reversal_indicator entry)),
      (''bank_transaction_domain_code'', text_value (ne_domain_code entry)),
      (''bank_transaction_family_code'', text_value (ne_family_code entry)),
      (''bank_transaction_subfamily_code'', text_value (ne_subfamily_code entry)),
      (''end_to_end_reference'', text_value (ne_end_to_end_reference entry)),
      (''account_servicer_reference'', text_value (ne_account_servicer_reference entry)),
      (''mandate_reference'', text_value (ne_mandate_reference entry)),
      (''cheque_reference'', text_value (ne_cheque_reference entry)),
      (''remittance_evidence_text'', text_value (ne_remittance_evidence_text entry)),
      (''counterparty_evidence_hash'', text_value (ne_counterparty_evidence_hash entry)),
      (''details'', PList (map (\<lambda>detail. PDict (detail_payload detail)) (ne_entry_details entry)))]"

text \<open>\<open>enumerate(xs, start=1)\<close>.\<close>

definition numbered :: "'a list \<Rightarrow> (int \<times> 'a) list" where
  "numbered xs = zip (map int [1..<Suc (length xs)]) xs"

text \<open>
  The counterparty of a credit is the debtor and that of a debit the creditor, when the statement
  names one, and else the other party.
\<close>

definition counterparty_name :: "string \<Rightarrow> string option \<Rightarrow> string option \<Rightarrow> string option" where
  "counterparty_name credit_debit debtor_name creditor_name =
     (if credit_debit = ''CRDT'' then or_else debtor_name creditor_name else or_else creditor_name debtor_name)"

definition normalize_entry :: "xml_element \<Rightarrow> int \<Rightarrow> normalized_entry result" where
  "normalize_entry entry_node number =
     bind_result (required_amount entry_node ''Ntry/Amt'' False) (\<lambda>(amount, currency).
     bind_result (required_text entry_node [''CdtDbtInd''] ''credit/debit indicator'') (\<lambda>credit_debit.
     if \<not> credit_debit_ok credit_debit then Inl (validation_error msg_indicator)
     else
       bind_result (map_result (\<lambda>(detail_index, detail_node).
           normalize_detail detail_node number detail_index credit_debit)
         (numbered (child_elements entry_node [''NtryDtls'', ''TxDtls'']))) (\<lambda>details.
       bind_result (optional_timestamp
         (or_else (first_text entry_node [''BookgDt'', ''DtTm'']) (first_text entry_node [''BookgDt'', ''Dt'']))) (\<lambda>booking.
       bind_result (optional_timestamp
         (or_else (first_text entry_node [''ValDt'', ''DtTm'']) (first_text entry_node [''ValDt'', ''Dt'']))) (\<lambda>val_date.
       bind_result (parse_reversal (first_text entry_node [''RvslInd''])) (\<lambda>reversal.
         let counterparty = counterparty_name credit_debit
               (first_text entry_node [''NtryDtls'', ''TxDtls'', ''RltdPties'', ''Dbtr'', ''Pty'', ''Nm''])
               (first_text entry_node [''NtryDtls'', ''TxDtls'', ''RltdPties'', ''Cdtr'', ''Pty'', ''Nm'']);
             entry =
               \<lparr>ne_source_entry_identity = first_text entry_node [''NtryRef''],
                ne_sequence_number = number, ne_source_locator_path = entry_locator number,
                ne_booking_occurred_at = booking, ne_value_occurred_at = val_date,
                ne_amount = amount, ne_currency_code = currency, ne_credit_debit_code = credit_debit,
                ne_reversal_indicator = reversal,
                ne_domain_code = first_text entry_node [''BkTxCd'', ''Domn'', ''Cd''],
                ne_family_code = first_text entry_node [''BkTxCd'', ''Domn'', ''Fmly'', ''Cd''],
                ne_subfamily_code = first_text entry_node [''BkTxCd'', ''Domn'', ''Fmly'', ''SubFmlyCd''],
                ne_end_to_end_reference = first_text entry_node [''NtryDtls'', ''TxDtls'', ''Refs'', ''EndToEndId''],
                ne_account_servicer_reference = first_text entry_node [''AcctSvcrRef''],
                ne_mandate_reference = first_text entry_node [''NtryDtls'', ''TxDtls'', ''Refs'', ''MndtId''],
                ne_cheque_reference = first_text entry_node [''NtryDtls'', ''TxDtls'', ''Refs'', ''ChqNb''],
                ne_remittance_evidence_text =
                  bound_text (first_text entry_node [''NtryDtls'', ''TxDtls'', ''RmtInf'', ''Ustrd'']),
                ne_counterparty_evidence_hash =
                  map_option (\<lambda>name. sha256_digest (encode_utf8 name)) counterparty,
                ne_source_entry_hash = [], ne_entry_details = details\<rparr>
         in Inr (entry\<lparr>ne_source_entry_hash := canonical_digest (entry_payload entry)\<rparr>)))))))"

section \<open>Balances\<close>

definition balance_evidence :: "string option \<Rightarrow> dec \<Rightarrow> string \<Rightarrow> string \<Rightarrow> payload" where
  "balance_evidence balance_code amount currency indicator =
     [(''code'', text_value balance_code), (''amount'', PStr (decimal_text amount)),
      (''currency'', PStr currency), (''credit_debit'', PStr indicator)]"

definition normalize_balance :: "xml_element \<Rightarrow> (string option \<times> string) result" where
  "normalize_balance node =
     (let balance_code = first_text node [''Tp'', ''CdOrPrtry'', ''Cd'']
      in bind_result (required_amount node ''Bal/Amt'' True) (\<lambda>(amount, currency).
         bind_result (required_text node [''CdtDbtInd''] ''balance credit/debit indicator'') (\<lambda>indicator.
           Inr (balance_code, canonical_digest (balance_evidence balance_code amount currency indicator)))))"

definition balance_hash :: "string \<Rightarrow> (string option \<times> string) list \<Rightarrow> string option" where
  "balance_hash balance_code balances =
     map_option snd (find (\<lambda>item. fst item = Some balance_code) balances)"

section \<open>Statements\<close>

definition msg_account_identifier :: string where
  "msg_account_identifier =
     ''statement account identifier is missing. Supply Acct/Id, then retry ingest.''"

definition msg_entry_bound :: string where
  "msg_entry_bound =
     ''statement entry count exceeds the adapter bound. Send fewer entries, then retry ingest.''"

definition msg_no_entries :: string where
  "msg_no_entries =
     ''statement contains no Ntry elements. Supply at least one entry, then retry ingest.''"

definition msg_entry_currency :: "int \<Rightarrow> string \<Rightarrow> string \<Rightarrow> string" where
  "msg_entry_currency number currency account_currency =
     ''statement entry '' @ int_text number @ '' uses currency '' @ currency @
     '', but this registry accepts only '' @ account_currency @
     '' evidence. Register a matching-currency account or correct the statement, then retry ingest.''"

definition normalized_payload :: "normalized_statement \<Rightarrow> payload" where
  "normalized_payload statement =
     [(''message_definition_identifier'', PStr (ns_message_definition_identifier statement)),
      (''statement_identity_reference'', PStr (ns_statement_identity_reference statement)),
      (''electronic_sequence_number'', text_value (ns_electronic_sequence_number statement)),
      (''legal_sequence_number'', text_value (ns_legal_sequence_number statement)),
      (''period_start_at'', instant_value (ns_period_start_at statement)),
      (''period_end_at'', instant_value (ns_period_end_at statement)),
      (''opening_balance_hash'', text_value (ns_opening_balance_hash statement)),
      (''closing_balance_hash'', text_value (ns_closing_balance_hash statement)),
      (''account_currency_code'', PStr (ns_account_currency_code statement)),
      (''entries'', PList (map (\<lambda>entry. PDict (entry_payload entry)) (ns_entries statement)))]"

definition normalize_numbered_entry :: "int \<times> xml_element \<Rightarrow> normalized_entry result" where
  "normalize_numbered_entry item =
     (case item of (index, entry_node) \<Rightarrow>
        if max_entry_count < index then Inl (validation_error msg_entry_bound)
        else normalize_entry entry_node index)"

definition statement_account_identifier :: "xml_element \<Rightarrow> string option" where
  "statement_account_identifier account =
     or_else (first_text account [''Id'', ''IBAN'']) (first_text account [''Id'', ''Othr'', ''Id''])"

definition period_timestamp :: "xml_element option \<Rightarrow> string \<Rightarrow> datetime option result" where
  "period_timestamp period name =
     (case period of None \<Rightarrow> Inr None | Some node \<Rightarrow> optional_timestamp (first_text node [name]))"

definition normalize_statement :: "xml_element \<Rightarrow> string \<Rightarrow> normalized_statement result" where
  "normalize_statement statement payload =
     bind_result (required_text statement [''Id''] ''statement identity'') (\<lambda>identity.
     bind_result (required_child statement ''Acct'' ''statement account'') (\<lambda>account.
     bind_result (required_text account [''Ccy''] ''account currency'') (\<lambda>currency.
     bind_result (require_currency currency) (\<lambda>_.
     case statement_account_identifier account of
       None \<Rightarrow> Inl (validation_error msg_account_identifier)
     | Some account_id_text \<Rightarrow>
         bind_result (map_result normalize_numbered_entry (numbered (direct_children statement ''Ntry''))) (\<lambda>entries.
         bind_result (require (entries \<noteq> []) (validation_error msg_no_entries)) (\<lambda>_.
         bind_result (map_result normalize_balance (direct_children statement ''Bal'')) (\<lambda>balances.
         let period = descend statement [''FrToDt''] in
         bind_result (period_timestamp period ''FrDtTm'') (\<lambda>period_start.
         bind_result (period_timestamp period ''ToDtTm'') (\<lambda>period_end.
           let normalized =
             \<lparr>ns_message_definition_identifier = camt053_message_definition,
              ns_statement_identity_reference = identity,
              ns_electronic_sequence_number = first_text statement [''ElctrncSeqNb''],
              ns_legal_sequence_number = first_text statement [''LglSeqNb''],
              ns_period_start_at = period_start, ns_period_end_at = period_end,
              ns_opening_balance_hash = balance_hash ''OPBD'' balances,
              ns_closing_balance_hash = balance_hash ''CLBD'' balances,
              ns_account_currency_code = currency,
              ns_account_identifier_hash = sha256_digest (encode_utf8 account_id_text),
              ns_source_artifact_hash = sha256_digest payload,
              ns_normalized_payload_hash = [], ns_entries = entries\<rparr>
           in Inr (normalized\<lparr>ns_normalized_payload_hash := canonical_digest (normalized_payload normalized)\<rparr>))))))))))"

definition require_entry_currencies :: "normalized_statement \<Rightarrow> unit result" where
  "require_entry_currencies statement =
     check_all (\<lambda>entry. require (ne_currency_code entry = ns_account_currency_code statement)
         (validation_error (msg_entry_currency (ne_sequence_number entry) (ne_currency_code entry)
            (ns_account_currency_code statement))))
       (ns_entries statement)"

section \<open>The adapter\<close>

definition msg_message_definition :: string where
  "msg_message_definition =
     ''message-definition identifier is not the pinned camt.053.001.14 adapter. Send '' @
     ''BankToCustomerStatementV14, then retry ingest.''"

definition msg_payload_empty :: string where
  "msg_payload_empty =
     ''statement payload is empty. Supply the original camt.053.001.14 bytes, then retry ingest.''"

definition msg_payload_bound :: string where
  "msg_payload_bound =
     ''statement payload exceeds the 1 MiB adapter bound. Split the statement file, then retry ingest.''"

definition msg_one_statement :: string where
  "msg_one_statement =
     ''this adapter accepts exactly one Stmt per command. Send one statement, then retry ingest.''"

definition parse_bank_statement_payload ::
    "adapter_package \<Rightarrow> expat \<Rightarrow> string \<Rightarrow> string \<Rightarrow> normalized_statement result" where
  "parse_bank_statement_payload package expat payload message_definition_identifier =
     bind_result (load_adapter_manifest package) (\<lambda>_.
     bind_result (require (message_definition_identifier = camt053_message_definition)
         (validation_error msg_message_definition)) (\<lambda>_.
     bind_result (require (payload \<noteq> []) (validation_error msg_payload_empty)) (\<lambda>_.
     bind_result (require (length payload \<le> max_statement_bytes) (validation_error msg_payload_bound)) (\<lambda>_.
     bind_result (parse_bounded_xml expat payload) (\<lambda>document.
     bind_result (reject_revision_mismatch document) (\<lambda>_.
     bind_result (require_structural_paths document (package_required_paths package)) (\<lambda>_.
       case child_elements document [''BkToCstmrStmt'', ''Stmt''] of
         [statement] \<Rightarrow> normalize_statement statement payload
       | _ \<Rightarrow> Inl (validation_error msg_one_statement))))))))"

end
