(* ===== verification/Postgres_Session.thy ===== *)
theory Postgres_Session
  imports Core Paging
begin

text \<open>
  What the commands on PostgreSQL share (\<open>persistence.py\<close>): the server and its session, the tables of
  the catalogue (tenants, legal entities, books, accounts) as lists of rows, the transaction around a
  command, which is rolled back when the command raises, and the checks of tenant and legal entity.
  The server is a parameter: whether it can be reached, which tenant the session is bound to, whether
  its role bypasses row security, the identifiers it generates and the time of its clock.
\<close>

section \<open>Columns\<close>

text \<open>
  A \<open>numeric(38, 6)\<close> column holds a whole number of millionths with at most 38 digits; storing a larger
  one fails with SQLSTATE 22003.
\<close>

definition numeric_38_6 :: "dec \<Rightarrow> dec result" where
  "numeric_38_6 amount =
     (let millionths = scaled amount (- 6)
      in if 10 ^ 38 \<le> \<bar>millionths\<bar> then Inl (DatabaseError ''22003'')
         else Inr (Dec (millionths < 0) (nat \<bar>millionths\<bar>) (- 6)))"

text \<open>\<open>btrim(text) <> ''\<close>: only spaces are trimmed.\<close>

definition not_blank :: "string \<Rightarrow> bool" where
  "not_blank s \<longleftrightarrow> list_ex (\<lambda>c. c \<noteq> CHR '' '') s"

text \<open>The position of a UTC instant on the time line, in microseconds.\<close>

definition instant_micros :: "datetime \<Rightarrow> int" where
  "instant_micros t =
     to_ordinal (dt_date t) * day_micros +
     ((dt_hour t * 60 + dt_minute t) * 60 + dt_second t) * 1000000 + dt_micro t"

section \<open>Catalogue tables\<close>

record tenant_row =
  tn_id :: nat
  tn_code :: string

record entity_row =
  en_id :: nat
  en_tenant :: nat
  en_code :: string
  en_functional_currency :: string
  en_valid_to :: "datetime option"

record book_row =
  bk_id :: nat
  bk_tenant :: nat
  bk_entity :: nat
  bk_name :: string
  bk_role_code :: string
  bk_reporting_currency :: string
  bk_valid_to :: "datetime option"

record chart_row =
  ch_id :: nat
  ch_tenant :: nat
  ch_book :: nat
  ch_code :: string
  ch_valid_to :: "datetime option"

record catalog =
  ct_tenants :: "tenant_row list"
  ct_entities :: "entity_row list"
  ct_books :: "book_row list"
  ct_charts :: "chart_row list"

section \<open>The server\<close>

record db_server =
  sv_url :: string
  sv_reachable :: bool
  sv_session_tenant :: "nat option"
  sv_bypasses_row_security :: bool
  sv_uuid :: "nat \<Rightarrow> nat"  \<comment> \<open>the identifier of the n-th inserted row\<close>
  sv_clock :: "nat \<Rightarrow> datetime"  \<comment> \<open>the time at which it is inserted\<close>

definition msg_empty_url :: string where
  "msg_empty_url =
     ''ACCOUNTING_DATABASE_URL is empty. Set a PostgreSQL 18 URL and retry posting.''"

text \<open>\<open>PostgresPostingLedger(database_url, tenant_reference)\<close>.\<close>

definition bind_ledger :: "db_server \<Rightarrow> string \<Rightarrow> unit result" where
  "bind_ledger srv tenant_reference =
     bind_result (require (sv_url srv \<noteq> []) (validation_error msg_empty_url)) (\<lambda>_.
       require_reference tenant_reference ''tenant reference'')"

definition msg_unreachable :: string where
  "msg_unreachable =
     ''PostgreSQL is not reachable. Start PostgreSQL 18, set ACCOUNTING_DATABASE_URL to that server, then '' @
     ''retry posting.''"

text \<open>
  The transaction of a command: what it did to the tables is undone when it raises. The first argument
  says which part of the world that is.
\<close>

definition session :: "('w \<Rightarrow> 'w \<Rightarrow> 'w) \<Rightarrow> db_server \<Rightarrow> ('w, 'a) io \<Rightarrow> ('w, 'a) io" where
  "session rollback srv body w =
     (if \<not> sv_reachable srv then (w, Inl (validation_error msg_unreachable))
      else case body w of
             (w', Inr x) \<Rightarrow> (w', Inr x)
           | (w', Inl e) \<Rightarrow> (rollback w w', Inl e))"

definition io_get :: "('w \<Rightarrow> 'a) \<Rightarrow> ('w, 'a) io" where
  "io_get f w = (w, Inr (f w))"

lemma io_get_bind [simp]: "io_bind (io_get f) g w = g (f w) w"
  by (simp add: io_bind_def io_get_def)

lemma session_Inr_iff:
  "session rollback srv body w = (w', Inr x) \<longleftrightarrow> sv_reachable srv \<and> body w = (w', Inr x)"
  by (auto simp: session_def split: prod.splits sum.splits)

section \<open>Tenant and legal entity\<close>

definition msg_tenant_missing :: "string \<Rightarrow> string" where
  "msg_tenant_missing tenant =
     ''Tenant '' @ tenant @ '' is not recorded. Create the tenant_account row, then retry posting.''"

definition msg_session_tenant :: string where
  "msg_session_tenant =
     ''the database session is not provisioned for this tenant. Ask the platform operator to verify tenant '' @
     ''provisioning, then retry the request.''"

definition msg_unauthorized :: string where
  "msg_unauthorized =
     ''this request cannot be authorized for the requested tenant. Ask the platform operator to verify '' @
     ''tenant provisioning, then retry.''"

definition require_tenant :: "db_server \<Rightarrow> tenant_row list \<Rightarrow> string \<Rightarrow> nat result" where
  "require_tenant srv tenants tenant_reference =
     (case find (\<lambda>row. tn_code row = tenant_reference) tenants of
        None \<Rightarrow> Inl (validation_error (msg_tenant_missing tenant_reference))
      | Some row \<Rightarrow>
          (case sv_session_tenant srv of
             Some bound \<Rightarrow>
               if bound \<noteq> tn_id row then Inl (validation_error msg_session_tenant) else Inr (tn_id row)
           | None \<Rightarrow>
               if sv_bypasses_row_security srv then Inr (tn_id row)
               else Inl (validation_error msg_unauthorized)))"

definition msg_entity_missing :: "string \<Rightarrow> string \<Rightarrow> string" where
  "msg_entity_missing entity next_action =
     ''Legal entity '' @ entity @ '' is not recorded for this tenant. '' @
     ''Create the legal_entity_record row, then retry '' @ next_action @ ''.''"

definition load_legal_entity :: "entity_row list \<Rightarrow> nat \<Rightarrow> string \<Rightarrow> string \<Rightarrow> (nat \<times> string) result" where
  "load_legal_entity entities tenant_id legal_entity_reference next_action =
     (case find (\<lambda>row. en_tenant row = tenant_id \<and> en_code row = legal_entity_reference \<and> en_valid_to row = None)
             entities of
        None \<Rightarrow> Inl (validation_error (msg_entity_missing legal_entity_reference next_action))
      | Some row \<Rightarrow> Inr (en_id row, en_functional_currency row))"

end
