(* ===== verification/Bank_Registry.thy ===== *)
theory Bank_Registry
  imports Bank_Statement Postgres_Session
begin

text \<open>
  The registry of \<open>bank_statement.py\<close>: bank accounts, their assignments to a book, and the statements
  with their entries and transaction details, as tables of rows; the three commands that write it, each
  one transaction, and its reads. The tables keep the constraints of the migrations that created them:
  an insert that breaks one fails with the SQLSTATE of the database. The original bytes of a statement go
  to the artifact store of the host, here the memory store of the module.
\<close>

section \<open>The artifact store\<close>

type_synonym artifacts = "(string, string) dict"

definition msg_store_conflict :: string where
  "msg_store_conflict =
     ''artifact store already holds different bytes for this source hash. Supply the original statement '' @
     ''bytes, then retry ingest.''"

definition msg_store_locator :: string where
  "msg_store_locator =
     ''artifact store reference is not a memory locator. Use the host evidence store for that locator, '' @
     ''then retry the read.''"

definition msg_store_missing :: string where
  "msg_store_missing =
     ''statement artifact is not retained in the host evidence store. Restore the original artifact, then '' @
     ''retry the read.''"

definition memory_prefix :: string where
  "memory_prefix = ''memory:''"

definition put_artifact :: "string \<Rightarrow> string \<Rightarrow> artifacts \<Rightarrow> (artifacts \<times> string) result" where
  "put_artifact source_artifact_hash payload store =
     (case dict_get store source_artifact_hash of
        Some existing \<Rightarrow>
          if existing \<noteq> payload then Inl (validation_error msg_store_conflict)
          else Inr (dict_set source_artifact_hash payload store, memory_prefix @ source_artifact_hash)
      | None \<Rightarrow> Inr (dict_set source_artifact_hash payload store, memory_prefix @ source_artifact_hash))"

definition get_artifact :: "artifacts \<Rightarrow> string \<Rightarrow> string result" where
  "get_artifact store artifact_store_reference =
     (if \<not> starts_with memory_prefix artifact_store_reference then Inl (validation_error msg_store_locator)
      else case dict_get store (drop (length memory_prefix) artifact_store_reference) of
             None \<Rightarrow> Inl (validation_error msg_store_missing)
           | Some payload \<Rightarrow> Inr payload)"

text \<open>
  What the registry expects of the host's store (\<open>ArtifactStore\<close>): a locator gives back the bytes that
  were put under it, and later puts do not change them.
\<close>

locale artifact_store =
  fixes put :: "string \<Rightarrow> string \<Rightarrow> 's \<Rightarrow> ('s \<times> string) result"
    and get :: "'s \<Rightarrow> string \<Rightarrow> string result"
  assumes put_get: "put h payload s = Inr (s', locator) \<Longrightarrow> get s' locator = Inr payload"
    and put_keeps: "put h payload s = Inr (s', locator) \<Longrightarrow> get s l = Inr kept \<Longrightarrow> get s' l = Inr kept"
begin

definition keeps :: "'s \<Rightarrow> 's \<Rightarrow> bool" where
  "keeps s s' \<longleftrightarrow> (\<forall>l kept. get s l = Inr kept \<longrightarrow> get s' l = Inr kept)"

lemma reflp_keeps: "reflp keeps"
  by (simp add: reflp_def keeps_def)

lemma transp_keeps: "transp keeps"
  by (auto simp: transp_def keeps_def)

lemma keeps_put: "put h payload s = Inr (s', locator) \<Longrightarrow> keeps s s'"
  using put_keeps by (auto simp: keeps_def)

lemma retained:
  assumes "put h payload s = Inr (s', locator)" "keeps s' s''"
  shows "get s'' locator = Inr payload"
  using put_get [OF assms(1)] assms(2) by (simp add: keeps_def)

end

interpretation memory_store: artifact_store put_artifact get_artifact
  by unfold_locales
    (auto simp: put_artifact_def get_artifact_def memory_prefix_def starts_with_def split: option.splits if_splits)

section \<open>Tables\<close>

record bank_account_row =
  ba_id :: nat
  ba_tenant :: nat
  ba_reference :: string
  ba_currency_code :: string
  ba_identifier_hash :: string

record assignment_row =
  as_id :: nat
  as_tenant :: nat
  as_bank_account :: nat
  as_entity :: nat
  as_book :: nat
  as_chart :: nat
  as_valid_from :: datetime
  as_valid_to :: "datetime option"
  as_idempotency_key :: string
  as_command_hash :: string

record artifact_row =
  af_id :: nat
  af_tenant :: nat
  af_source_hash :: string
  af_store_reference :: string
  af_byte_length :: nat

text \<open>The columns that an insert copies from the normalized value are kept as that value.\<close>

record statement_row =
  sr_id :: nat
  sr_tenant :: nat
  sr_bank_account :: nat
  sr_artifact :: nat
  sr_columns :: normalized_statement
  sr_idempotency_key :: string
  sr_recorded_at :: datetime

record entry_row =
  er_id :: nat
  er_tenant :: nat
  er_statement :: nat
  er_columns :: normalized_entry

record detail_row =
  dr_id :: nat
  dr_tenant :: nat
  dr_entry :: nat
  dr_columns :: entry_detail

record registry = catalog +
  rg_accounts :: "bank_account_row list"
  rg_assignments :: "assignment_row list"
  rg_artifacts :: "artifact_row list"
  rg_statements :: "statement_row list"
  rg_entries :: "entry_row list"
  rg_details :: "detail_row list"
  rg_inserted :: nat  \<comment> \<open>how many rows were inserted so far\<close>

record bank_world =
  bw_registry :: registry
  bw_store :: artifacts

type_synonym 'a bank = "(bank_world, 'a) io"

definition bank_rollback :: "bank_world \<Rightarrow> bank_world \<Rightarrow> bank_world" where
  "bank_rollback before after = after\<lparr>bw_registry := bw_registry before\<rparr>"

abbreviation bank_session :: "db_server \<Rightarrow> 'a bank \<Rightarrow> 'a bank" where
  "bank_session \<equiv> session bank_rollback"

definition bank_read :: "(registry \<Rightarrow> 'a result) \<Rightarrow> 'a bank" where
  "bank_read f w = (w, f (bw_registry w))"

section \<open>Inserts\<close>

text \<open>\<open>uuidv7()\<close> and \<open>clock_timestamp()\<close> at an insert.\<close>

definition next_id :: "db_server \<Rightarrow> registry \<Rightarrow> nat" where
  "next_id srv reg = sv_uuid srv (rg_inserted reg)"

definition insert_bank_account :: "db_server \<Rightarrow> bank_account_row \<Rightarrow> registry \<Rightarrow> (registry \<times> nat) result" where
  "insert_bank_account srv row reg =
     (if list_ex (\<lambda>r. ba_tenant r = ba_tenant row \<and> ba_reference r = ba_reference row) (rg_accounts reg)
      then Inl (DatabaseError ''23505'')
      else Inr (reg\<lparr>rg_accounts := rg_accounts reg @ [row\<lparr>ba_id := next_id srv reg\<rparr>],
                    rg_inserted := Suc (rg_inserted reg)\<rparr>, next_id srv reg))"

text \<open>The check of the validity period comes first, then the two unique indexes.\<close>

definition insert_assignment :: "db_server \<Rightarrow> assignment_row \<Rightarrow> registry \<Rightarrow> (registry \<times> nat) result" where
  "insert_assignment srv row reg =
     (if (case as_valid_to row of None \<Rightarrow> False
          | Some valid_to \<Rightarrow> instant_micros valid_to \<le> instant_micros (as_valid_from row))
      then Inl (DatabaseError ''23514'')
      else if list_ex (\<lambda>r. as_tenant r = as_tenant row \<and> as_idempotency_key r = as_idempotency_key row) (rg_assignments reg)
      then Inl (DatabaseError ''23505'')
      else if as_valid_to row = None \<and>
              list_ex (\<lambda>r. as_tenant r = as_tenant row \<and> as_bank_account r = as_bank_account row \<and>
                 as_book r = as_book row \<and> as_valid_to r = None) (rg_assignments reg)
      then Inl (DatabaseError ''23505'')
      else Inr (reg\<lparr>rg_assignments := rg_assignments reg @ [row\<lparr>as_id := next_id srv reg\<rparr>],
                    rg_inserted := Suc (rg_inserted reg)\<rparr>, next_id srv reg))"

definition insert_artifact :: "db_server \<Rightarrow> artifact_row \<Rightarrow> registry \<Rightarrow> (registry \<times> nat) result" where
  "insert_artifact srv row reg =
     (if list_ex (\<lambda>r. af_tenant r = af_tenant row \<and> af_source_hash r = af_source_hash row) (rg_artifacts reg)
      then Inl (DatabaseError ''23505'')
      else Inr (reg\<lparr>rg_artifacts := rg_artifacts reg @ [row\<lparr>af_id := next_id srv reg\<rparr>],
                    rg_inserted := Suc (rg_inserted reg)\<rparr>, next_id srv reg))"

definition statement_clash :: "statement_row \<Rightarrow> statement_row \<Rightarrow> bool" where
  "statement_clash r row \<longleftrightarrow>
     sr_tenant r = sr_tenant row \<and>
     (sr_idempotency_key r = sr_idempotency_key row \<or>
      ns_source_artifact_hash (sr_columns r) = ns_source_artifact_hash (sr_columns row) \<or>
      sr_bank_account r = sr_bank_account row \<and>
      ns_statement_identity_reference (sr_columns r) = ns_statement_identity_reference (sr_columns row))"

definition insert_statement :: "db_server \<Rightarrow> statement_row \<Rightarrow> registry \<Rightarrow> (registry \<times> nat) result" where
  "insert_statement srv row reg =
     (if \<not> not_blank (sr_idempotency_key row) \<or> \<not> not_blank (ns_statement_identity_reference (sr_columns row))
      then Inl (DatabaseError ''23514'')
      else if list_ex (\<lambda>r. statement_clash r row) (rg_statements reg) then Inl (DatabaseError ''23505'')
      else Inr (reg\<lparr>rg_statements := rg_statements reg @
                      [row\<lparr>sr_id := next_id srv reg, sr_recorded_at := sv_clock srv (rg_inserted reg)\<rparr>],
                    rg_inserted := Suc (rg_inserted reg)\<rparr>, next_id srv reg))"

definition insert_entry :: "db_server \<Rightarrow> nat \<Rightarrow> nat \<Rightarrow> normalized_entry \<Rightarrow> registry \<Rightarrow> (registry \<times> nat) result" where
  "insert_entry srv tenant_id statement_id entry reg =
     bind_result (numeric_38_6 (ne_amount entry)) (\<lambda>amount.
       if list_ex (\<lambda>r. er_tenant r = tenant_id \<and> er_statement r = statement_id \<and>
            ne_sequence_number (er_columns r) = ne_sequence_number entry) (rg_entries reg)
       then Inl (DatabaseError ''23505'')
       else Inr (reg\<lparr>rg_entries := rg_entries reg @
                       [\<lparr>er_id = next_id srv reg, er_tenant = tenant_id, er_statement = statement_id,
                         er_columns = entry\<lparr>ne_amount := amount, ne_entry_details := []\<rparr>\<rparr>],
                     rg_inserted := Suc (rg_inserted reg)\<rparr>, next_id srv reg))"

definition insert_detail :: "db_server \<Rightarrow> nat \<Rightarrow> nat \<Rightarrow> registry \<Rightarrow> entry_detail \<Rightarrow> registry result" where
  "insert_detail srv tenant_id entry_id reg detail =
     bind_result (numeric_38_6 (ed_amount detail)) (\<lambda>amount.
       if list_ex (\<lambda>r. dr_tenant r = tenant_id \<and> dr_entry r = entry_id \<and>
            ed_sequence_number (dr_columns r) = ed_sequence_number detail) (rg_details reg)
       then Inl (DatabaseError ''23505'')
       else Inr (reg\<lparr>rg_details := rg_details reg @
                       [\<lparr>dr_id = next_id srv reg, dr_tenant = tenant_id, dr_entry = entry_id,
                         dr_columns = detail\<lparr>ed_amount := amount\<rparr>\<rparr>],
                     rg_inserted := Suc (rg_inserted reg)\<rparr>))"

definition insert_entry_with_details :: "db_server \<Rightarrow> nat \<Rightarrow> nat \<Rightarrow> registry \<Rightarrow> normalized_entry \<Rightarrow> registry result" where
  "insert_entry_with_details srv tenant_id statement_id reg entry =
     bind_result (insert_entry srv tenant_id statement_id entry reg) (\<lambda>(reg', entry_id).
       fold_result (insert_detail srv tenant_id entry_id) reg' (ne_entry_details entry))"

section \<open>Shared checks\<close>

definition msg_command_object :: "string \<Rightarrow> string" where
  "msg_command_object supply_what =
     ''command payload must be a JSON object. Supply '' @ supply_what @ '', then retry.''"

definition msg_command_tenant :: string where
  "msg_command_tenant =
     ''command tenant_reference does not match the bound tenant. Call the command with that '' @
     ''tenant_reference, then retry.''"

definition msg_identifier_hash_form :: string where
  "msg_identifier_hash_form =
     ''account_identifier_hash must be sha256: plus 64 lowercase hex characters. Supply that digest, then '' @
     ''retry the account register.''"

definition msg_identifier_hash :: string where
  "msg_identifier_hash =
     ''account_identifier_hash is required unless a one-time account_identifier is hashed. Supply the '' @
     ''hash, then retry the account register.''"

definition msg_account_missing :: string where
  "msg_account_missing =
     ''bank account is not recorded for this tenant. Register the bank account, then retry.''"

definition require_bank_command :: "py_value \<Rightarrow> string \<Rightarrow> string \<Rightarrow> payload result" where
  "require_bank_command v supply_what tenant_reference =
     (case as_mapping v of
        None \<Rightarrow> Inl (validation_error (msg_command_object supply_what))
      | Some p \<Rightarrow>
          if get_value p ''tenant_reference'' \<noteq> PStr tenant_reference then Inl (validation_error msg_command_tenant)
          else Inr p)"

definition account_identifier_hash :: "payload \<Rightarrow> string result" where
  "account_identifier_hash p =
     (let supplied = text_field p ''account_identifier_hash'' in
      if supplied \<noteq> [] then
        (if \<not> hash_pattern supplied then Inl (validation_error msg_identifier_hash_form) else Inr supplied)
      else case get_value p ''account_identifier'' of
             PStr identifier \<Rightarrow>
               if identifier = [] then Inl (validation_error msg_identifier_hash)
               else Inr (sha256_digest (encode_utf8 identifier))
           | _ \<Rightarrow> Inl (validation_error msg_identifier_hash))"

definition load_bank_account :: "nat \<Rightarrow> string \<Rightarrow> registry \<Rightarrow> bank_account_row result" where
  "load_bank_account tenant_id bank_account_reference reg =
     (case find (\<lambda>row. ba_tenant row = tenant_id \<and> ba_reference row = bank_account_reference) (rg_accounts reg) of
        None \<Rightarrow> Inl (validation_error msg_account_missing)
      | Some row \<Rightarrow> Inr row)"

definition registry_tenant :: "db_server \<Rightarrow> string \<Rightarrow> nat bank" where
  "registry_tenant srv tenant_reference = bank_read (\<lambda>reg. require_tenant srv (ct_tenants reg) tenant_reference)"

definition bank_update :: "(registry \<Rightarrow> (registry \<times> 'a) result) \<Rightarrow> 'a bank" where
  "bank_update f w =
     (case f (bw_registry w) of
        Inl e \<Rightarrow> (w, Inl e)
      | Inr (reg, x) \<Rightarrow> (w\<lparr>bw_registry := reg\<rparr>, Inr x))"

section \<open>Bank accounts\<close>

definition msg_account_reused :: string where
  "msg_account_reused =
     ''bank account reference was already used with different account evidence. Supply a new '' @
     ''bank_account_reference, then retry the account register''"

definition bank_account_document :: "string \<Rightarrow> string \<Rightarrow> nat \<Rightarrow> bool \<Rightarrow> payload" where
  "bank_account_document tenant_reference bank_account_reference record_id replayed =
     [(''tenant_reference'', PStr tenant_reference),
      (''bank_account_reference'', PStr bank_account_reference),
      (''bank_account_record_id'', PStr (uuid_text record_id)),
      (''replayed'', PBool replayed)]"

definition register_bank_account ::
    "db_server \<Rightarrow> string \<Rightarrow> string \<Rightarrow> string \<Rightarrow> string \<Rightarrow> payload bank" where
  "register_bank_account srv tenant_reference bank_account_reference currency identifier_hash =
     io_bind (registry_tenant srv tenant_reference) (\<lambda>tenant_id.
     io_bind (io_get (\<lambda>w. find (\<lambda>row. ba_tenant row = tenant_id \<and> ba_reference row = bank_account_reference)
                (rg_accounts (bw_registry w)))) (\<lambda>existing.
     case existing of
       Some row \<Rightarrow>
         if ba_currency_code row \<noteq> currency \<or> ba_identifier_hash row \<noteq> identifier_hash
         then io_lift (Inl (conflict_error msg_account_reused))
         else io_lift (Inr (bank_account_document tenant_reference bank_account_reference (ba_id row) True))
     | None \<Rightarrow>
         io_bind (bank_update (insert_bank_account srv
             \<lparr>ba_id = 0, ba_tenant = tenant_id, ba_reference = bank_account_reference,
              ba_currency_code = currency, ba_identifier_hash = identifier_hash\<rparr>)) (\<lambda>record_id.
           io_lift (Inr (bank_account_document tenant_reference bank_account_reference record_id False)))))"

definition accept_bank_account_record :: "db_server \<Rightarrow> py_value \<Rightarrow> string \<Rightarrow> payload bank" where
  "accept_bank_account_record srv v tenant_reference =
     io_bind (io_lift (require_bank_command v ''a bank-account command'' tenant_reference)) (\<lambda>p.
       let bank_account_reference = text_field p ''bank_account_reference'';
           currency = text_field p ''account_currency_code'' in
     io_bind (io_lift (require_reference bank_account_reference ''bank account reference'')) (\<lambda>_.
     io_bind (io_lift (require_currency currency)) (\<lambda>_.
     io_bind (io_lift (account_identifier_hash p)) (\<lambda>identifier_hash.
     io_bind (io_lift (bind_ledger srv tenant_reference)) (\<lambda>_.
       bank_session srv
         (register_bank_account srv tenant_reference bank_account_reference currency identifier_hash))))))"

section \<open>Assignments\<close>

definition msg_chart_code :: string where
  "msg_chart_code =
     ''chart_account_code is required. Supply the cash chart account on the same book, then retry the '' @
     ''assignment.''"

definition msg_assignment_key :: string where
  "msg_assignment_key =
     ''assignment_idempotency_key is required. Supply the tenant-scoped assignment key, then retry the '' @
     ''assignment.''"

definition msg_assignment_conflict :: string where
  "msg_assignment_conflict =
     ''assignment idempotency key was already used with a different bank-account assignment''"

definition msg_chart_missing :: string where
  "msg_chart_missing =
     ''chart account is not recorded on the selected accounting book. Select a chart account from that '' @
     ''book, then retry the assignment.''"

definition msg_assignment_chart :: string where
  "msg_assignment_chart =
     ''bank-account assignment must use a chart account from the same accounting book. Select that book's '' @
     ''cash chart account, then retry the assignment.''"

definition msg_assignment_active :: string where
  "msg_assignment_active =
     ''bank account already has an active assignment on that accounting book. Close the existing binding '' @
     ''with an explicit valid_to, then retry the assignment.''"

definition msg_assignment_reload :: string where
  "msg_assignment_reload =
     ''bank-account assignment could not be reloaded after replay. Repeat the original command, then '' @
     ''retry.''"

definition msg_book_missing :: "string \<Rightarrow> string" where
  "msg_book_missing book =
     ''Accounting book '' @ book @ '' is not recorded for this legal entity. Create the accounting_book row, '' @
     ''then retry the assignment.''"

record assignment_command =
  ak_bank_account_reference :: string
  ak_legal_entity_reference :: string
  ak_accounting_book_reference :: string
  ak_chart_account_code :: string
  ak_idempotency_key :: string
  ak_valid_from :: datetime
  ak_valid_to :: "datetime option"

definition assignment_payload :: "assignment_command \<Rightarrow> payload" where
  "assignment_payload c =
     [(''bank_account_reference'', PStr (ak_bank_account_reference c)),
      (''chart_account_code'', PStr (ak_chart_account_code c)),
      (''accounting_book_reference'', PStr (ak_accounting_book_reference c)),
      (''legal_entity_reference'', PStr (ak_legal_entity_reference c)),
      (''valid_from'', PStr (instant_text (ak_valid_from c))),
      (''valid_to'', instant_value (ak_valid_to c))]"

definition assignment_command_hash :: "assignment_command \<Rightarrow> string" where
  "assignment_command_hash c = canonical_digest (assignment_payload c)"

definition read_assignment_command :: "payload \<Rightarrow> assignment_command result" where
  "read_assignment_command p =
     (let bank_account_reference = text_field p ''bank_account_reference'';
          legal_entity_reference = text_field p ''legal_entity_reference'';
          accounting_book_reference = first_field p ''accounting_book_reference'' ''book_reference'';
          chart_account_code = text_field p ''chart_account_code'';
          idempotency_key = text_field p ''assignment_idempotency_key'';
          raw_valid_to = get_value p ''valid_to'' in
      bind_result (require_reference bank_account_reference ''bank account reference'') (\<lambda>_.
      bind_result (require_reference legal_entity_reference ''legal entity reference'') (\<lambda>_.
      bind_result (require_reference accounting_book_reference ''accounting book reference'') (\<lambda>_.
      bind_result (require (chart_account_code \<noteq> []) (validation_error msg_chart_code)) (\<lambda>_.
      bind_result (require (strip idempotency_key \<noteq> []) (validation_error msg_assignment_key)) (\<lambda>_.
      bind_result (parse_timestamp (text_field p ''valid_from'') ''assignment valid_from'') (\<lambda>valid_from.
      bind_result (if none_or_empty raw_valid_to then Inr None
                   else bind_result (parse_timestamp (py_str raw_valid_to) ''assignment valid_to'') (\<lambda>t. Inr (Some t))) (\<lambda>valid_to.
        Inr \<lparr>ak_bank_account_reference = bank_account_reference,
             ak_legal_entity_reference = legal_entity_reference,
             ak_accounting_book_reference = accounting_book_reference,
             ak_chart_account_code = chart_account_code, ak_idempotency_key = idempotency_key,
             ak_valid_from = valid_from, ak_valid_to = valid_to\<rparr>))))))))"

definition assignment_document ::
    "string \<Rightarrow> string \<Rightarrow> string \<Rightarrow> string \<Rightarrow> string \<Rightarrow> nat \<Rightarrow> bool \<Rightarrow> payload" where
  "assignment_document tenant_reference bank_account entity book chart assignment_id replayed =
     [(''tenant_reference'', PStr tenant_reference), (''bank_account_reference'', PStr bank_account),
      (''legal_entity_reference'', PStr entity), (''accounting_book_reference'', PStr book),
      (''chart_account_code'', PStr chart), (''bank_account_assignment_id'', PStr (uuid_text assignment_id)),
      (''replayed'', PBool replayed)]"

text \<open>The stored assignment with the names of what it joins; an inner join, so no row when one is gone.\<close>

definition load_assignment_document :: "nat \<Rightarrow> string \<Rightarrow> nat \<Rightarrow> bool \<Rightarrow> registry \<Rightarrow> payload result" where
  "load_assignment_document tenant_id tenant_reference assignment_id replayed reg =
     (case find (\<lambda>row. as_tenant row = tenant_id \<and> as_id row = assignment_id) (rg_assignments reg) of
        None \<Rightarrow> Inl (validation_error msg_assignment_reload)
      | Some row \<Rightarrow>
          (case (find (\<lambda>r. ba_tenant r = tenant_id \<and> ba_id r = as_bank_account row) (rg_accounts reg),
                 find (\<lambda>r. en_tenant r = tenant_id \<and> en_id r = as_entity row) (ct_entities reg),
                 find (\<lambda>r. bk_tenant r = tenant_id \<and> bk_id r = as_book row) (ct_books reg),
                 find (\<lambda>r. ch_tenant r = tenant_id \<and> ch_id r = as_chart row) (ct_charts reg)) of
             (Some account, Some entity, Some book, Some chart) \<Rightarrow>
               Inr (assignment_document tenant_reference (ba_reference account) (en_code entity) (bk_name book)
                      (ch_code chart) assignment_id replayed)
           | _ \<Rightarrow> Inl (validation_error msg_assignment_reload)))"

text \<open>How the handler around the insert translates an error of the driver.\<close>

definition assignment_insert_error :: "py_exc \<Rightarrow> py_exc" where
  "assignment_insert_error e =
     (if e = DatabaseError ''23503'' then validation_error msg_assignment_chart
      else if e = DatabaseError ''23505'' then validation_error msg_assignment_active
      else e)"

definition insert_assignment_handled :: "db_server \<Rightarrow> assignment_row \<Rightarrow> registry \<Rightarrow> (registry \<times> nat) result" where
  "insert_assignment_handled srv row reg =
     (case insert_assignment srv row reg of Inl e \<Rightarrow> Inl (assignment_insert_error e) | Inr r \<Rightarrow> Inr r)"

definition load_assignment_book :: "nat \<Rightarrow> nat \<Rightarrow> string \<Rightarrow> registry \<Rightarrow> nat result" where
  "load_assignment_book tenant_id entity_id book reg =
     (case find (\<lambda>row. bk_tenant row = tenant_id \<and> bk_entity row = entity_id \<and> bk_name row = book \<and> bk_valid_to row = None)
             (ct_books reg) of
        None \<Rightarrow> Inl (validation_error (msg_book_missing book))
      | Some row \<Rightarrow> Inr (bk_id row))"

definition load_assignment_chart :: "nat \<Rightarrow> nat \<Rightarrow> string \<Rightarrow> registry \<Rightarrow> nat result" where
  "load_assignment_chart tenant_id book_id chart reg =
     (case find (\<lambda>row. ch_tenant row = tenant_id \<and> ch_book row = book_id \<and> ch_code row = chart \<and> ch_valid_to row = None)
             (ct_charts reg) of
        None \<Rightarrow> Inl (validation_error msg_chart_missing)
      | Some row \<Rightarrow> Inr (ch_id row))"

definition assign_bank_account :: "db_server \<Rightarrow> string \<Rightarrow> assignment_command \<Rightarrow> payload bank" where
  "assign_bank_account srv tenant_reference c =
     io_bind (registry_tenant srv tenant_reference) (\<lambda>tenant_id.
     io_bind (io_get (\<lambda>w. find (\<lambda>row. as_tenant row = tenant_id \<and> as_idempotency_key row = ak_idempotency_key c)
                (rg_assignments (bw_registry w)))) (\<lambda>prior.
     case prior of
       Some row \<Rightarrow>
         if as_command_hash row \<noteq> assignment_command_hash c then io_lift (Inl (conflict_error msg_assignment_conflict))
         else bank_read (load_assignment_document tenant_id tenant_reference (as_id row) True)
     | None \<Rightarrow>
         io_bind (bank_read (load_bank_account tenant_id (ak_bank_account_reference c))) (\<lambda>account.
         io_bind (bank_read (\<lambda>reg. load_legal_entity (ct_entities reg) tenant_id (ak_legal_entity_reference c)
                    ''the bank-account assignment'')) (\<lambda>(entity_id, _).
         io_bind (bank_read (load_assignment_book tenant_id entity_id (ak_accounting_book_reference c))) (\<lambda>book_id.
         io_bind (bank_read (load_assignment_chart tenant_id book_id (ak_chart_account_code c))) (\<lambda>chart_id.
         io_bind (bank_update (insert_assignment_handled srv
             \<lparr>as_id = 0, as_tenant = tenant_id, as_bank_account = ba_id account, as_entity = entity_id,
              as_book = book_id, as_chart = chart_id, as_valid_from = ak_valid_from c,
              as_valid_to = ak_valid_to c, as_idempotency_key = ak_idempotency_key c,
              as_command_hash = assignment_command_hash c\<rparr>)) (\<lambda>assignment_id.
           io_lift (Inr (assignment_document tenant_reference (ak_bank_account_reference c)
             (ak_legal_entity_reference c) (ak_accounting_book_reference c) (ak_chart_account_code c)
             assignment_id False)))))))))"

definition accept_bank_account_assignment :: "db_server \<Rightarrow> py_value \<Rightarrow> string \<Rightarrow> payload bank" where
  "accept_bank_account_assignment srv v tenant_reference =
     io_bind (io_lift (bind_result (require_bank_command v ''a bank-account-assignment command'' tenant_reference)
                read_assignment_command)) (\<lambda>c.
     io_bind (io_lift (bind_ledger srv tenant_reference)) (\<lambda>_.
       bank_session srv (assign_bank_account srv tenant_reference c)))"

end
