(* ===== verification/Bank_Ingestion.thy ===== *)
theory Bank_Ingestion
  imports Bank_Registry
begin

text \<open>
  The ingestion of one statement into the registry of \<open>bank_statement.py\<close>, one transaction that stores
  its artifact, its record, its entries and their details or replays what is stored, and the three reads
  of statements and entries with their pages and cursors.
\<close>

section \<open>Reading a statement back\<close>

definition msg_statement_missing :: string where
  "msg_statement_missing =
     ''bank statement is not recorded for this tenant. Supply a persisted bank_statement_record_id, then '' @
     ''retry the statement read.''"

definition msg_statement_missing_entries :: string where
  "msg_statement_missing_entries =
     ''bank statement is not recorded for this tenant. Supply a persisted bank_statement_record_id, then '' @
     ''retry the entry list.''"

text \<open>The SQL sum of a \<open>numeric(38, 6)\<close> column, exact; an empty sum is the integer 0.\<close>

definition column_total :: "dec list \<Rightarrow> dec" where
  "column_total amounts =
     (if amounts = [] then dec_zero else Dec False (sum_list (map dcoef amounts)) (- 6))"

definition statement_entries :: "nat \<Rightarrow> nat \<Rightarrow> registry \<Rightarrow> entry_row list" where
  "statement_entries tenant_id statement_id reg =
     filter (\<lambda>row. er_tenant row = tenant_id \<and> er_statement row = statement_id) (rg_entries reg)"

definition side_total :: "string \<Rightarrow> entry_row list \<Rightarrow> dec" where
  "side_total side rows =
     column_total (map (\<lambda>row. ne_amount (er_columns row))
       (filter (\<lambda>row. ne_credit_debit_code (er_columns row) = side) rows))"

definition statement_document ::
    "string \<Rightarrow> statement_row \<Rightarrow> artifact_row \<Rightarrow> bank_account_row \<Rightarrow> entry_row list \<Rightarrow> bool \<Rightarrow> payload" where
  "statement_document tenant_reference row artifact account entries replayed =
     (let s = sr_columns row in
     [(''tenant_reference'', PStr tenant_reference),
      (''bank_account_reference'', PStr (ba_reference account)),
      (''bank_statement_record_id'', PStr (uuid_text (sr_id row))),
      (''statement_identity_reference'', PStr (ns_statement_identity_reference s)),
      (''message_definition_identifier'', PStr (ns_message_definition_identifier s)),
      (''source_artifact_hash'', PStr (ns_source_artifact_hash s)),
      (''normalized_payload_hash'', PStr (ns_normalized_payload_hash s)),
      (''electronic_sequence_number'', text_value (ns_electronic_sequence_number s)),
      (''legal_sequence_number'', text_value (ns_legal_sequence_number s)),
      (''period_start_at'', instant_value (ns_period_start_at s)),
      (''period_end_at'', instant_value (ns_period_end_at s)),
      (''opening_balance_hash'', text_value (ns_opening_balance_hash s)),
      (''closing_balance_hash'', text_value (ns_closing_balance_hash s)),
      (''artifact_store_reference'', PStr (af_store_reference artifact)),
      (''entry_count'', PInt (int (length entries))),
      (''credit_total_amount'', PStr (decimal_text (side_total ''CRDT'' entries))),
      (''debit_total_amount'', PStr (decimal_text (side_total ''DBIT'' entries))),
      (''replayed'', PBool replayed)])"

definition load_statement_document :: "nat \<Rightarrow> string \<Rightarrow> nat \<Rightarrow> bool \<Rightarrow> registry \<Rightarrow> payload result" where
  "load_statement_document tenant_id tenant_reference statement_id replayed reg =
     (case find (\<lambda>row. sr_tenant row = tenant_id \<and> sr_id row = statement_id) (rg_statements reg) of
        None \<Rightarrow> Inl (validation_error msg_statement_missing)
      | Some row \<Rightarrow>
          (case (find (\<lambda>r. af_tenant r = tenant_id \<and> af_id r = sr_artifact row) (rg_artifacts reg),
                 find (\<lambda>r. ba_tenant r = tenant_id \<and> ba_id r = sr_bank_account row) (rg_accounts reg)) of
             (Some artifact, Some account) \<Rightarrow>
               Inr (statement_document tenant_reference row artifact account
                      (statement_entries tenant_id statement_id reg) replayed)
           | _ \<Rightarrow> Inl (validation_error msg_statement_missing)))"

section \<open>Ingestion\<close>

definition msg_ingestion_key :: string where
  "msg_ingestion_key =
     ''ingestion_idempotency_key is required. Supply the statement ingest key, then retry ingest.''"

definition msg_statement_payload :: string where
  "msg_statement_payload =
     ''statement_payload must be the original XML text. Supply the camt.053.001.14 document, then retry '' @
     ''ingest.''"

definition msg_artifact_hash_form :: string where
  "msg_artifact_hash_form =
     ''source_artifact_hash must be sha256: plus 64 lowercase hex characters. Supply that digest, then '' @
     ''retry ingest.''"

definition msg_artifact_hash_match :: string where
  "msg_artifact_hash_match =
     ''source_artifact_hash does not match the supplied statement bytes. Send the original artifact and '' @
     ''its SHA-256, then retry ingest.''"

definition msg_account_currency :: string where
  "msg_account_currency =
     ''statement account currency does not match the registered bank account. Register the matching '' @
     ''currency, then retry ingest.''"

definition msg_account_identifier_match :: string where
  "msg_account_identifier_match =
     ''statement account identifier does not match the registered bank account. Register the matching '' @
     ''account identifier, then retry ingest.''"

definition msg_ingestion_conflict :: string where
  "msg_ingestion_conflict =
     ''ingestion idempotency key was already used with a different statement artifact''"

definition msg_identity_conflict :: string where
  "msg_identity_conflict =
     ''statement identity already exists with different entry evidence. Use an explicit correction '' @
     ''contract, then retry ingest.''"

record statement_command =
  sk_bank_account_reference :: string
  sk_idempotency_key :: string
  sk_message_definition :: string
  sk_raw_bytes :: string

definition check_supplied_hash :: "py_value \<Rightarrow> string \<Rightarrow> unit result" where
  "check_supplied_hash supplied source_hash =
     (if none_or_empty supplied then Inr ()
      else if \<not> hash_pattern (py_str supplied) then Inl (validation_error msg_artifact_hash_form)
      else if py_str supplied \<noteq> source_hash then Inl (validation_error msg_artifact_hash_match)
      else Inr ())"

definition read_statement_command :: "payload \<Rightarrow> statement_command result" where
  "read_statement_command p =
     (let bank_account_reference = text_field p ''bank_account_reference'';
          idempotency_key = text_field p ''ingestion_idempotency_key'';
          message_definition = text_field p ''message_definition_identifier'' in
      bind_result (require_reference bank_account_reference ''bank account reference'') (\<lambda>_.
      bind_result (require (idempotency_key \<noteq> []) (validation_error msg_ingestion_key)) (\<lambda>_.
        case get_value p ''statement_payload'' of
          PStr statement_payload \<Rightarrow>
            if statement_payload = [] then Inl (validation_error msg_statement_payload)
            else
              (let raw_bytes = encode_utf8 statement_payload in
               bind_result (check_supplied_hash (get_value p ''source_artifact_hash'') (sha256_digest raw_bytes)) (\<lambda>_.
                 Inr \<lparr>sk_bank_account_reference = bank_account_reference,
                      sk_idempotency_key = idempotency_key,
                      sk_message_definition = message_definition, sk_raw_bytes = raw_bytes\<rparr>))
        | _ \<Rightarrow> Inl (validation_error msg_statement_payload))))"

text \<open>
  What is already stored for a command: under its key, under its artifact, under its statement identity.
  \<open>Some (Inr id)\<close> is a replay of the statement \<open>id\<close>, \<open>Some (Inl e)\<close> a conflict.
\<close>

definition prior_statement ::
    "nat \<Rightarrow> nat \<Rightarrow> string \<Rightarrow> normalized_statement \<Rightarrow> registry \<Rightarrow> nat result option" where
  "prior_statement tenant_id account_id idempotency_key statement reg =
     (case find (\<lambda>row. sr_tenant row = tenant_id \<and> sr_idempotency_key row = idempotency_key) (rg_statements reg) of
        Some row \<Rightarrow>
          if ns_source_artifact_hash (sr_columns row) \<noteq> ns_source_artifact_hash statement \<or>
             ns_normalized_payload_hash (sr_columns row) \<noteq> ns_normalized_payload_hash statement
          then Some (Inl (conflict_error msg_ingestion_conflict))
          else Some (Inr (sr_id row))
      | None \<Rightarrow>
     (case find (\<lambda>row. sr_tenant row = tenant_id \<and>
              ns_source_artifact_hash (sr_columns row) = ns_source_artifact_hash statement) (rg_statements reg) of
        Some row \<Rightarrow> Some (Inr (sr_id row))
      | None \<Rightarrow>
     (case find (\<lambda>row. sr_tenant row = tenant_id \<and> sr_bank_account row = account_id \<and>
              ns_statement_identity_reference (sr_columns row) = ns_statement_identity_reference statement)
             (rg_statements reg) of
        Some row \<Rightarrow>
          if ns_normalized_payload_hash (sr_columns row) \<noteq> ns_normalized_payload_hash statement
          then Some (Inl (validation_error msg_identity_conflict))
          else Some (Inr (sr_id row))
      | None \<Rightarrow> None)))"

text \<open>
  The artifact goes to the host's store, or to a new store that is dropped afterwards when the host gives
  none.
\<close>

definition store_artifact :: "bool \<Rightarrow> string \<Rightarrow> string \<Rightarrow> string bank" where
  "store_artifact host_store source_hash raw_bytes w =
     (case put_artifact source_hash raw_bytes (if host_store then bw_store w else []) of
        Inl e \<Rightarrow> (w, Inl e)
      | Inr (store, locator) \<Rightarrow> (if host_store then w\<lparr>bw_store := store\<rparr> else w, Inr locator))"

definition insert_statement_rows ::
    "db_server \<Rightarrow> nat \<Rightarrow> nat \<Rightarrow> string \<Rightarrow> normalized_statement \<Rightarrow> string \<Rightarrow> nat \<Rightarrow> registry \<Rightarrow> (registry \<times> nat) result" where
  "insert_statement_rows srv tenant_id account_id idempotency_key statement locator byte_length reg =
     bind_result (insert_artifact srv
         \<lparr>af_id = 0, af_tenant = tenant_id, af_source_hash = ns_source_artifact_hash statement,
          af_store_reference = locator, af_byte_length = byte_length\<rparr> reg) (\<lambda>(reg1, artifact_id).
     bind_result (insert_statement srv
         \<lparr>sr_id = 0, sr_tenant = tenant_id, sr_bank_account = account_id, sr_artifact = artifact_id,
          sr_columns = statement\<lparr>ns_entries := []\<rparr>, sr_idempotency_key = idempotency_key,
          sr_recorded_at = sv_clock srv 0\<rparr> reg1) (\<lambda>(reg2, statement_id).
     bind_result (fold_result (insert_entry_with_details srv tenant_id statement_id) reg2 (ns_entries statement)) (\<lambda>reg3.
       Inr (reg3, statement_id))))"

definition check_statement_account :: "bank_account_row \<Rightarrow> normalized_statement \<Rightarrow> unit result" where
  "check_statement_account account statement =
     bind_result (require (ba_currency_code account = ns_account_currency_code statement)
         (validation_error msg_account_currency)) (\<lambda>_.
     bind_result (require (ba_identifier_hash account = ns_account_identifier_hash statement)
         (validation_error msg_account_identifier_match)) (\<lambda>_.
       require_entry_currencies statement))"

definition ingest_statement ::
    "db_server \<Rightarrow> bool \<Rightarrow> string \<Rightarrow> statement_command \<Rightarrow> normalized_statement \<Rightarrow> payload bank" where
  "ingest_statement srv host_store tenant_reference c statement =
     io_bind (registry_tenant srv tenant_reference) (\<lambda>tenant_id.
     io_bind (bank_read (load_bank_account tenant_id (sk_bank_account_reference c))) (\<lambda>account.
     io_bind (io_lift (check_statement_account account statement)) (\<lambda>_.
     io_bind (io_get (\<lambda>w. prior_statement tenant_id (ba_id account) (sk_idempotency_key c) statement (bw_registry w))) (\<lambda>prior.
     case prior of
       Some (Inl e) \<Rightarrow> io_lift (Inl e)
     | Some (Inr statement_id) \<Rightarrow> bank_read (load_statement_document tenant_id tenant_reference statement_id True)
     | None \<Rightarrow>
         io_bind (store_artifact host_store (ns_source_artifact_hash statement) (sk_raw_bytes c)) (\<lambda>locator.
         io_bind (bank_update (insert_statement_rows srv tenant_id (ba_id account) (sk_idempotency_key c) statement
             locator (length (sk_raw_bytes c)))) (\<lambda>statement_id.
           bank_read (load_statement_document tenant_id tenant_reference statement_id False)))))))"

definition accept_bank_statement_evidence ::
    "adapter_package \<Rightarrow> expat \<Rightarrow> db_server \<Rightarrow> bool \<Rightarrow> py_value \<Rightarrow> string \<Rightarrow> payload bank" where
  "accept_bank_statement_evidence package expat srv host_store v tenant_reference =
     io_bind (io_lift (bind_result (require_bank_command v ''a bank-statement command'' tenant_reference)
                read_statement_command)) (\<lambda>c.
     io_bind (io_lift (parse_bank_statement_payload package expat (sk_raw_bytes c) (sk_message_definition c))) (\<lambda>statement.
     io_bind (io_lift (bind_ledger srv tenant_reference)) (\<lambda>_.
       bank_session srv (ingest_statement srv host_store tenant_reference c statement))))"

section \<open>Pages and cursors\<close>

definition msg_statement_page_limit :: string where
  "msg_statement_page_limit =
     ''page_limit must be an integer from 1 to 100. Supply a valid page_limit, then retry the list.''"

definition msg_statement_cursor :: string where
  "msg_statement_cursor =
     ''cursor must be recorded_at|bank_statement_record_id. Supply the next_cursor from the previous page, '' @
     ''then retry the list.''"

definition msg_entry_cursor :: string where
  "msg_entry_cursor =
     ''cursor must be the last entry_sequence_number. Supply the next_cursor from the previous page, then '' @
     ''retry the entry list.''"

definition msg_uuid :: "string \<Rightarrow> string" where
  "msg_uuid label =
     label @ '' must be a UUID. Supply the persisted identifier, then retry.''"

definition statement_page_limit :: "int option \<Rightarrow> int result" where
  "statement_page_limit limit =
     (case limit of
        None \<Rightarrow> Inr 50
      | Some n \<Rightarrow> if n < 1 \<or> 100 < n then Inl (validation_error msg_statement_page_limit) else Inr n)"

text \<open>An instant that leaves the calendar is not caught: it overflows here too.\<close>

definition statement_cursor :: "string option \<Rightarrow> (datetime \<times> nat) option result" where
  "statement_cursor cursor =
     (case cursor of
        None \<Rightarrow> Inr None
      | Some c \<Rightarrow>
          if c = [] then Inr None
          else if CHR ''|'' \<notin> set c then Inl (validation_error msg_statement_cursor)
          else (case split_once (CHR ''|'') c of (stamp, record_id) \<Rightarrow>
                 (case parse_timestamp stamp ''cursor'' of
                    Inl OverflowError \<Rightarrow> Inl OverflowError
                  | Inl e \<Rightarrow> Inl (validation_error msg_statement_cursor)
                  | Inr instant \<Rightarrow>
                      (case uuid_of_text record_id of
                         None \<Rightarrow> Inl (validation_error msg_statement_cursor)
                       | Some u \<Rightarrow> Inr (Some (instant, u))))))"

definition entry_cursor :: "string option \<Rightarrow> int result" where
  "entry_cursor cursor =
     (case cursor of
        None \<Rightarrow> Inr 0
      | Some c \<Rightarrow>
          if c = [] then Inr 0
          else (case int_of_text 10 c of
                  None \<Rightarrow> Inl (validation_error msg_entry_cursor)
                | Some n \<Rightarrow> if n < 0 then Inl (validation_error msg_entry_cursor) else Inr n))"

definition require_uuid :: "string \<Rightarrow> string \<Rightarrow> nat result" where
  "require_uuid s label =
     (case uuid_of_text s of None \<Rightarrow> Inl (validation_error (msg_uuid label)) | Some u \<Rightarrow> Inr u)"

section \<open>Reads\<close>

text \<open>\<open>None if not text else _parse_timestamp(text, label)\<close>\<close>

definition optional_bound :: "string option \<Rightarrow> string \<Rightarrow> datetime option result" where
  "optional_bound s label =
     (case s of
        None \<Rightarrow> Inr None
      | Some t \<Rightarrow> if t = [] then Inr None else bind_result (parse_timestamp t label) (\<lambda>instant. Inr (Some instant)))"

definition statement_listed ::
    "nat \<Rightarrow> nat \<Rightarrow> datetime option \<Rightarrow> datetime option \<Rightarrow> (datetime \<times> nat) option \<Rightarrow> statement_row \<Rightarrow> bool" where
  "statement_listed tenant_id account_id start_at end_at cursor row \<longleftrightarrow>
     sr_tenant row = tenant_id \<and> sr_bank_account row = account_id \<and>
     (case (start_at, ns_period_start_at (sr_columns row)) of
        (Some bound, Some t) \<Rightarrow> instant_micros bound \<le> instant_micros t | _ \<Rightarrow> True) \<and>
     (case (end_at, ns_period_end_at (sr_columns row)) of
        (Some bound, Some t) \<Rightarrow> instant_micros t \<le> instant_micros bound | _ \<Rightarrow> True) \<and>
     (case cursor of
        None \<Rightarrow> True
      | Some (since, last_id) \<Rightarrow>
          instant_micros since < instant_micros (sr_recorded_at row) \<or>
          instant_micros since = instant_micros (sr_recorded_at row) \<and> last_id < sr_id row)"

text \<open>\<open>ORDER BY recorded_at, bank_statement_record_id\<close>.\<close>

definition statement_order :: "statement_row list \<Rightarrow> statement_row list" where
  "statement_order rows = sort_key (\<lambda>row. instant_micros (sr_recorded_at row)) (sort_key sr_id rows)"

definition listed_statement_document :: "string \<Rightarrow> string \<Rightarrow> statement_row \<Rightarrow> payload" where
  "listed_statement_document tenant_reference bank_account_reference row =
     (let s = sr_columns row in
     [(''tenant_reference'', PStr tenant_reference),
      (''bank_account_reference'', PStr bank_account_reference),
      (''bank_statement_record_id'', PStr (uuid_text (sr_id row))),
      (''statement_identity_reference'', PStr (ns_statement_identity_reference s)),
      (''message_definition_identifier'', PStr (ns_message_definition_identifier s)),
      (''source_artifact_hash'', PStr (ns_source_artifact_hash s)),
      (''normalized_payload_hash'', PStr (ns_normalized_payload_hash s)),
      (''period_start_at'', instant_value (ns_period_start_at s)),
      (''period_end_at'', instant_value (ns_period_end_at s))])"

definition statement_next_cursor :: "int \<Rightarrow> statement_row list \<Rightarrow> py_value" where
  "statement_next_cursor limit rows =
     (if int (length rows) \<le> limit then PNone
      else (let row = last (take (nat limit) rows)
            in PStr (instant_text (sr_recorded_at row) @ ''|'' @ uuid_text (sr_id row))))"

definition lookup_bank_statements ::
    "db_server \<Rightarrow> string \<Rightarrow> string \<Rightarrow> string option \<Rightarrow> string option \<Rightarrow> int option \<Rightarrow> string option \<Rightarrow> payload bank" where
  "lookup_bank_statements srv tenant_reference bank_account_reference period_start period_end page_limit cursor =
     io_bind (io_lift (require_reference bank_account_reference ''bank account reference'')) (\<lambda>_.
     io_bind (io_lift (statement_page_limit page_limit)) (\<lambda>limit.
     io_bind (io_lift (optional_bound period_start ''period_start'')) (\<lambda>start_at.
     io_bind (io_lift (optional_bound period_end ''period_end'')) (\<lambda>end_at.
     io_bind (io_lift (statement_cursor cursor)) (\<lambda>after.
     io_bind (io_lift (bind_ledger srv tenant_reference)) (\<lambda>_.
     bank_session srv (
       io_bind (registry_tenant srv tenant_reference) (\<lambda>tenant_id.
       io_bind (bank_read (load_bank_account tenant_id bank_account_reference)) (\<lambda>account.
       io_bind (io_get (\<lambda>w. take (nat limit + 1) (statement_order
           (filter (statement_listed tenant_id (ba_id account) start_at end_at after) (rg_statements (bw_registry w)))))) (\<lambda>rows.
         io_lift (Inr
           [(''tenant_reference'', PStr tenant_reference),
            (''bank_account_reference'', PStr bank_account_reference),
            (''bank_statements'', PList (map (\<lambda>row. PDict
               (listed_statement_document tenant_reference bank_account_reference row)) (take (nat limit) rows))),
            (''next_cursor'', statement_next_cursor limit rows)])))))))))))"

definition lookup_bank_statement :: "db_server \<Rightarrow> string \<Rightarrow> string \<Rightarrow> payload bank" where
  "lookup_bank_statement srv tenant_reference bank_statement_record_id =
     io_bind (io_lift (require_uuid bank_statement_record_id ''bank_statement_record_id'')) (\<lambda>statement_id.
     io_bind (io_lift (bind_ledger srv tenant_reference)) (\<lambda>_.
     bank_session srv (
       io_bind (registry_tenant srv tenant_reference) (\<lambda>tenant_id.
         bank_read (load_statement_document tenant_id tenant_reference statement_id False)))))"

definition detail_document :: "detail_row \<Rightarrow> payload" where
  "detail_document row =
     (let d = dr_columns row in
     [(''detail_sequence_number'', PInt (ed_sequence_number d)),
      (''source_locator_path'', PStr (ed_source_locator_path d)),
      (''detail_amount'', PStr (decimal_text (ed_amount d))),
      (''detail_currency_code'', PStr (ed_currency_code d)),
      (''credit_debit_code'', PStr (ed_credit_debit_code d)),
      (''end_to_end_reference'', text_value (ed_end_to_end_reference d)),
      (''remittance_evidence_text'', text_value (ed_remittance_evidence_text d)),
      (''source_detail_hash'', PStr (ed_source_detail_hash d))])"

definition entry_details_of :: "nat \<Rightarrow> nat \<Rightarrow> registry \<Rightarrow> detail_row list" where
  "entry_details_of tenant_id entry_id reg =
     sort_key (\<lambda>row. ed_sequence_number (dr_columns row))
       (filter (\<lambda>row. dr_tenant row = tenant_id \<and> dr_entry row = entry_id) (rg_details reg))"

definition entry_document :: "nat \<Rightarrow> registry \<Rightarrow> entry_row \<Rightarrow> payload" where
  "entry_document tenant_id reg row =
     (let e = er_columns row in
     [(''bank_statement_entry_id'', PStr (uuid_text (er_id row))),
      (''source_entry_identity'', text_value (ne_source_entry_identity e)),
      (''entry_sequence_number'', PInt (ne_sequence_number e)),
      (''source_locator_path'', PStr (ne_source_locator_path e)),
      (''booking_occurred_at'', instant_value (ne_booking_occurred_at e)),
      (''value_occurred_at'', instant_value (ne_value_occurred_at e)),
      (''entry_amount'', PStr (decimal_text (ne_amount e))),
      (''entry_currency_code'', PStr (ne_currency_code e)),
      (''credit_debit_code'', PStr (ne_credit_debit_code e)),
      (''reversal_indicator'', PBool (ne_reversal_indicator e)),
      (''bank_transaction_domain_code'', text_value (ne_domain_code e)),
      (''bank_transaction_family_code'', text_value (ne_family_code e)),
      (''bank_transaction_subfamily_code'', text_value (ne_subfamily_code e)),
      (''end_to_end_reference'', text_value (ne_end_to_end_reference e)),
      (''account_servicer_reference'', text_value (ne_account_servicer_reference e)),
      (''mandate_reference'', text_value (ne_mandate_reference e)),
      (''cheque_reference'', text_value (ne_cheque_reference e)),
      (''remittance_evidence_text'', text_value (ne_remittance_evidence_text e)),
      (''counterparty_evidence_hash'', text_value (ne_counterparty_evidence_hash e)),
      (''source_entry_hash'', PStr (ne_source_entry_hash e)),
      (''entry_details'', PList (map (\<lambda>row. PDict (detail_document row))
         (entry_details_of tenant_id (er_id row) reg)))])"

text \<open>The rows after a sequence number, in the order of the sequence numbers.\<close>

definition entries_after :: "int \<Rightarrow> nat \<Rightarrow> nat \<Rightarrow> registry \<Rightarrow> entry_row list" where
  "entries_after after_sequence tenant_id statement_id reg =
     sort_key (\<lambda>row. ne_sequence_number (er_columns row))
       (filter (\<lambda>row. after_sequence < ne_sequence_number (er_columns row)) (statement_entries tenant_id statement_id reg))"

definition entry_page ::
    "string \<Rightarrow> nat \<Rightarrow> int \<Rightarrow> int \<Rightarrow> nat \<Rightarrow> registry \<Rightarrow> payload result" where
  "entry_page tenant_reference statement_id limit after_sequence tenant_id reg =
     (if \<not> list_ex (\<lambda>row. sr_tenant row = tenant_id \<and> sr_id row = statement_id) (rg_statements reg)
      then Inl (validation_error msg_statement_missing_entries)
      else
        (let rows = take (nat limit + 1) (entries_after after_sequence tenant_id statement_id reg);
             page = take (nat limit) rows
         in Inr
           [(''tenant_reference'', PStr tenant_reference),
            (''bank_statement_record_id'', PStr (uuid_text statement_id)),
            (''bank_statement_entries'', PList (map (\<lambda>row. PDict (entry_document tenant_id reg row)) page)),
            (''next_cursor'',
               if int (length rows) \<le> limit then PNone
               else PStr (int_text (ne_sequence_number (er_columns (last page)))))]))"

definition lookup_bank_statement_entries ::
    "db_server \<Rightarrow> string \<Rightarrow> string \<Rightarrow> int option \<Rightarrow> string option \<Rightarrow> payload bank" where
  "lookup_bank_statement_entries srv tenant_reference bank_statement_record_id page_limit cursor =
     io_bind (io_lift (require_uuid bank_statement_record_id ''bank_statement_record_id'')) (\<lambda>statement_id.
     io_bind (io_lift (statement_page_limit page_limit)) (\<lambda>limit.
     io_bind (io_lift (entry_cursor cursor)) (\<lambda>after_sequence.
     io_bind (io_lift (bind_ledger srv tenant_reference)) (\<lambda>_.
     bank_session srv (
       io_bind (registry_tenant srv tenant_reference) (\<lambda>tenant_id.
         bank_read (entry_page tenant_reference statement_id limit after_sequence tenant_id)))))))"

end
