(* ===== verification/Statement_Tree.thy ===== *)
theory Statement_Tree
  imports Statement_Xml
begin

text \<open>
  What the bounded XML reader guarantees: whatever events the parser reports, an accepted document has a
  tree within the bounds of depth, elements, attributes and text, and the events of a tree are read back
  as that tree.
\<close>

section \<open>Measures of a tree\<close>

fun tree_depth :: "xml_element \<Rightarrow> nat" and forest_depth :: "xml_element list \<Rightarrow> nat" where
  "tree_depth (Xml_Element l ns attrs chars children) = Suc (forest_depth children)"
| "forest_depth [] = 0"
| "forest_depth (c # cs) = max (tree_depth c) (forest_depth cs)"

text \<open>A sum over all elements of a tree.\<close>

fun tree_sum :: "(xml_element \<Rightarrow> nat) \<Rightarrow> xml_element \<Rightarrow> nat" and forest_sum :: "(xml_element \<Rightarrow> nat) \<Rightarrow> xml_element list \<Rightarrow> nat" where
  "tree_sum f (Xml_Element l ns attrs chars children) = f (Xml_Element l ns attrs chars []) + forest_sum f children"
| "forest_sum f [] = 0"
| "forest_sum f (c # cs) = tree_sum f c + forest_sum f cs"

definition tree_elements :: "xml_element \<Rightarrow> nat" where
  "tree_elements = tree_sum (\<lambda>e. 1)"

definition tree_attributes :: "xml_element \<Rightarrow> nat" where
  "tree_attributes = tree_sum (\<lambda>e. length (xe_attributes e))"

definition tree_text_bytes :: "xml_element \<Rightarrow> nat" where
  "tree_text_bytes = tree_sum (\<lambda>e. length (encode_utf8 (xe_text e)))"

lemma forest_sum_append [simp]: "forest_sum f (cs @ ds) = forest_sum f cs + forest_sum f ds"
  by (induction cs) auto

lemma forest_depth_append [simp]: "forest_depth (cs @ ds) = max (forest_depth cs) (forest_depth ds)"
  by (induction cs) auto

lemma tree_sum_add_child [simp]: "tree_sum f (add_child c p) = tree_sum f p + tree_sum f c"
  by (cases p) simp

lemma tree_depth_add_child [simp]: "tree_depth (add_child c p) = max (tree_depth p) (Suc (tree_depth c))"
  by (cases p) auto

lemma encode_utf8_append [simp]: "encode_utf8 (s @ t) = encode_utf8 s @ encode_utf8 t"
  by (simp add: encode_utf8_def)

lemma encode_utf8_Nil [simp]: "encode_utf8 [] = []"
  by (simp add: encode_utf8_def)

lemma add_text_measures [simp]:
  "tree_depth (add_text s e) = tree_depth e"
  "tree_sum (\<lambda>e. Suc 0) (add_text s e) = tree_sum (\<lambda>e. Suc 0) e"
  "tree_sum (\<lambda>e. length (xe_attributes e)) (add_text s e) = tree_sum (\<lambda>e. length (xe_attributes e)) e"
  "tree_sum (\<lambda>e. length (encode_utf8 (xe_text e))) (add_text s e) =
     tree_sum (\<lambda>e. length (encode_utf8 (xe_text e))) e + length (encode_utf8 s)"
  by (cases e; simp)+

section \<open>The bounds\<close>

definition stack_sum :: "(xml_element \<Rightarrow> nat) \<Rightarrow> xml_state \<Rightarrow> nat" where
  "stack_sum f st = sum_list (map (tree_sum f) (xs_open st)) + (case xs_root st of None \<Rightarrow> 0 | Some r \<Rightarrow> tree_sum f r)"

text \<open>An open element at nesting level \<open>n\<close> and everything below it stays within the depth bound.\<close>

fun levels_ok :: "xml_element list \<Rightarrow> bool" where
  "levels_ok [] = True"
| "levels_ok (e # es) = (int (length es + tree_depth e) \<le> max_xml_depth \<and> levels_ok es)"

definition xml_inv :: "xml_state \<Rightarrow> bool" where
  "xml_inv st \<longleftrightarrow>
     xs_depth st = int (length (xs_open st)) \<and> levels_ok (xs_open st) \<and>
     (case xs_root st of None \<Rightarrow> True | Some r \<Rightarrow> int (tree_depth r) \<le> max_xml_depth) \<and>
     int (stack_sum (\<lambda>e. Suc 0) st) \<le> xs_elements st \<and> xs_elements st \<le> max_element_count \<and>
     int (stack_sum (\<lambda>e. length (xe_attributes e)) st) \<le> xs_attributes st \<and> xs_attributes st \<le> max_attribute_count \<and>
     int (stack_sum (\<lambda>e. length (encode_utf8 (xe_text e))) st) \<le> xs_text_bytes st \<and> xs_text_bytes st \<le> max_text_bytes"

lemma xml_inv_start: "xml_inv xml_start"
  by (simp add: xml_inv_def xml_start_def stack_sum_def max_element_count_def max_attribute_count_def max_text_bytes_def)

lemma tree_depth_pos: "0 < tree_depth e"
  by (cases e) simp

lemma xml_inv_open:
  "handle_start st name attrs = Inr st' \<Longrightarrow> xml_inv st \<Longrightarrow> xml_inv st'"
  by (cases "xs_open st"; cases "xs_root st"; cases "split_expat_name name")
    (auto simp: handle_start_def Let_def result_simps xml_inv_def stack_sum_def)

lemma xml_inv_close: "handle_end st = Inr st' \<Longrightarrow> xml_inv st \<Longrightarrow> xml_inv st'"
  by (cases "xs_root st") (auto simp: handle_end_def xml_inv_def stack_sum_def split: list.splits)

lemma xml_inv_text: "handle_text st s = Inr st' \<Longrightarrow> xml_inv st \<Longrightarrow> xml_inv st'"
  by (cases "xs_open st"; cases "xs_root st") (auto simp: handle_text_def Let_def result_simps xml_inv_def stack_sum_def)

lemma xml_inv_step: "handle_event st ev = Inr st' \<Longrightarrow> xml_inv st \<Longrightarrow> xml_inv st'"
  by (cases ev) (auto intro: xml_inv_open xml_inv_close xml_inv_text)

lemma xml_inv_run: "fold_result handle_event st events = Inr st' \<Longrightarrow> xml_inv st \<Longrightarrow> xml_inv st'"
  by (induction events arbitrary: st) (auto simp: result_simps intro: xml_inv_step)

lemma foldl_add_child_sum: "tree_sum f (foldl add_child e rest) = tree_sum f e + sum_list (map (tree_sum f) rest)"
  by (induction rest arbitrary: e) auto

lemma document_depth: "levels_ok (e # rest) \<Longrightarrow> int (tree_depth (foldl add_child e rest)) \<le> max_xml_depth"
  by (induction rest arbitrary: e) (auto simp: of_nat_max)

text \<open>C37 Whatever the XML parser reports, a document that the reader accepts is at most 32 elements deep and
  has at most 20000 elements, 20000 attributes and 262144 bytes of text.\<close>

theorem accepted_tree_bounded:
  assumes "parse_bounded_xml expat payload = Inr t"
  shows "tree_depth t \<le> 32 \<and> tree_elements t \<le> 20000 \<and> tree_attributes t \<le> 20000 \<and> tree_text_bytes t \<le> 262144"
proof -
  obtain events st where st: "fold_result handle_event xml_start events = Inr st" "document_element st = Some t"
    using assms by (auto simp: parse_bounded_xml_def result_simps split: prod.splits if_splits option.splits)
  have inv: "xml_inv st" using xml_inv_run [OF st(1) xml_inv_start] .
  have sums: "tree_sum f t \<le> stack_sum f st" for f
    using st(2) by (auto simp: document_element_def stack_sum_def foldl_add_child_sum split: list.splits)
  have "int (tree_depth t) \<le> max_xml_depth"
    using st(2) inv document_depth by (cases "xs_open st") (auto simp: document_element_def xml_inv_def)
  then show ?thesis
    using inv sums [of "\<lambda>e. Suc 0"] sums [of "\<lambda>e. length (xe_attributes e)"] sums [of "\<lambda>e. length (encode_utf8 (xe_text e))"]
    by (simp add: xml_inv_def max_xml_depth_def max_element_count_def max_attribute_count_def max_text_bytes_def
        tree_elements_def tree_attributes_def tree_text_bytes_def)
qed

section \<open>The events of a tree\<close>

definition expat_name :: "string \<Rightarrow> string \<Rightarrow> string" where
  "expat_name ns l = (if ns = [] then l else ns @ CHR '' '' # l)"

fun tree_events :: "xml_element \<Rightarrow> xml_event list" and forest_events :: "xml_element list \<Rightarrow> xml_event list" where
  "tree_events (Xml_Element l ns attrs chars children) =
     Start_Element (expat_name ns l) attrs # Character_Data chars #
     forest_events children @ [End_Element (expat_name ns l)]"
| "forest_events [] = []"
| "forest_events (c # cs) = tree_events c @ forest_events cs"

text \<open>Names without spaces, and no attribute twice, as the XML grammar has it.\<close>

fun tree_named :: "xml_element \<Rightarrow> bool" and forest_named :: "xml_element list \<Rightarrow> bool" where
  "tree_named (Xml_Element l ns attrs chars children) =
     (CHR '' '' \<notin> set l \<and> CHR '' '' \<notin> set ns \<and> dict_wf attrs \<and> forest_named children)"
| "forest_named [] = True"
| "forest_named (c # cs) = (tree_named c \<and> forest_named cs)"

definition tree_fits :: "xml_element \<Rightarrow> bool" where
  "tree_fits t \<longleftrightarrow> tree_depth t \<le> 32 \<and> tree_elements t \<le> 20000 \<and> tree_attributes t \<le> 20000 \<and> tree_text_bytes t \<le> 262144"

lemma split_once_at: "sep \<notin> set s \<Longrightarrow> split_once sep (s @ sep # t) = (s, t)"
  by (induction s) (auto simp: split_once_def)

lemma split_expat_name: "CHR '' '' \<notin> set l \<Longrightarrow> CHR '' '' \<notin> set ns \<Longrightarrow> split_expat_name (expat_name ns l) = (ns, l)"
  by (auto simp: split_expat_name_def expat_name_def split_once_at)

lemma attributes_dict_fold: "distinct (map fst (d @ attrs)) \<Longrightarrow> fold (\<lambda>(k, v) d. dict_set k v d) attrs d = d @ attrs"
  by (induction attrs arbitrary: d) (auto simp: dict_set_fresh)

lemma attributes_dict_wf [simp]: "dict_wf attrs \<Longrightarrow> attributes_dict attrs = attrs"
  using attributes_dict_fold [of "[]" attrs] by (simp add: attributes_dict_def)

abbreviation bytes_of :: "xml_element \<Rightarrow> nat" where
  "bytes_of e \<equiv> length (encode_utf8 (xe_text e))"

text \<open>The counters after a tree or a forest.\<close>

definition counted :: "nat \<Rightarrow> nat \<Rightarrow> nat \<Rightarrow> xml_state \<Rightarrow> xml_state" where
  "counted n a b st = st\<lparr>xs_elements := xs_elements st + int n, xs_attributes := xs_attributes st + int a,
     xs_text_bytes := xs_text_bytes st + int b\<rparr>"

definition room :: "xml_state \<Rightarrow> nat \<Rightarrow> nat \<Rightarrow> nat \<Rightarrow> nat \<Rightarrow> bool" where
  "room st d n a b \<longleftrightarrow> xs_depth st + int d \<le> max_xml_depth \<and> xs_elements st + int n \<le> max_element_count \<and>
     xs_attributes st + int a \<le> max_attribute_count \<and> xs_text_bytes st + int b \<le> max_text_bytes"

definition absorb :: "xml_element \<Rightarrow> xml_state \<Rightarrow> xml_state" where
  "absorb t st =
     (case xs_open st of [] \<Rightarrow> st\<lparr>xs_root := Some t\<rparr> | p # rest \<Rightarrow> st\<lparr>xs_open := add_child t p # rest\<rparr>)"

lemma run_events:
  "tree_named t \<Longrightarrow>
     room st (tree_depth t) (tree_sum (\<lambda>e. Suc 0) t) (tree_sum (\<lambda>e. length (xe_attributes e)) t) (tree_sum bytes_of t) \<Longrightarrow>
     fold_result handle_event st (tree_events t @ evs) =
       fold_result handle_event (counted (tree_sum (\<lambda>e. Suc 0) t) (tree_sum (\<lambda>e. length (xe_attributes e)) t)
         (tree_sum bytes_of t) (absorb t st)) evs"
  "forest_named ts \<Longrightarrow>
     room st (forest_depth ts) (forest_sum (\<lambda>e. Suc 0) ts) (forest_sum (\<lambda>e. length (xe_attributes e)) ts) (forest_sum bytes_of ts) \<Longrightarrow>
     xs_open st = Xml_Element l ns attrs chars cs # rest \<Longrightarrow>
     fold_result handle_event st (forest_events ts @ evs) =
       fold_result handle_event (counted (forest_sum (\<lambda>e. Suc 0) ts) (forest_sum (\<lambda>e. length (xe_attributes e)) ts)
         (forest_sum bytes_of ts) (st\<lparr>xs_open := Xml_Element l ns attrs chars (cs @ ts) # rest\<rparr>)) evs"
proof (induction t and ts arbitrary: st evs and st evs l ns attrs chars cs rest rule: tree_events_forest_events.induct)
  case (1 l ns attrs chars children)
  define st1 where "st1 = st\<lparr>xs_depth := xs_depth st + 1, xs_elements := xs_elements st + 1,
     xs_attributes := xs_attributes st + int (length attrs), xs_text_bytes := xs_text_bytes st + int (length (encode_utf8 chars)),
     xs_open := Xml_Element l ns attrs chars [] # xs_open st, xs_root := (if xs_open st = [] then None else xs_root st)\<rparr>"
  have start: "fold_result handle_event st (tree_events (Xml_Element l ns attrs chars children) @ evs) =
      fold_result handle_event st1 (forest_events children @ End_Element (expat_name ns l) # evs)"
    using 1(2,3) by (cases st) (simp add: handle_start_def handle_text_def Let_def split_expat_name room_def st1_def)
  have rm: "room st1 (forest_depth children) (forest_sum (\<lambda>e. Suc 0) children)
      (forest_sum (\<lambda>e. length (xe_attributes e)) children) (forest_sum bytes_of children)"
    using 1(3) by (simp add: room_def st1_def)
  have "forest_named children" using 1(2) by simp
  from 1(1) [OF this rm, of l ns attrs chars "[]" "xs_open st" "End_Element (expat_name ns l) # evs"]
  show ?case
    unfolding start by (cases st; cases "xs_open st") (simp_all add: st1_def handle_end_def absorb_def counted_def algebra_simps)
next
  case 2
  then show ?case by (cases st) (simp add: counted_def)
next
  case (3 t ts)
  have t: "tree_named t" "room st (tree_depth t) (tree_sum (\<lambda>e. Suc 0) t) (tree_sum (\<lambda>e. length (xe_attributes e)) t) (tree_sum bytes_of t)"
    using 3(3,4) by (auto simp: room_def)
  define st1 where "st1 = counted (tree_sum (\<lambda>e. Suc 0) t) (tree_sum (\<lambda>e. length (xe_attributes e)) t) (tree_sum bytes_of t) (absorb t st)"
  have open1: "xs_open st1 = Xml_Element l ns attrs chars (cs @ [t]) # rest"
    by (simp add: st1_def counted_def absorb_def 3(5))
  have "forest_named ts" "room st1 (forest_depth ts) (forest_sum (\<lambda>e. Suc 0) ts) (forest_sum (\<lambda>e. length (xe_attributes e)) ts) (forest_sum bytes_of ts)"
    using 3(3,4) by (auto simp: room_def st1_def counted_def absorb_def 3(5))
  from 3(2) [OF this open1, of evs] 3(1) [OF t, of "forest_events ts @ evs"]
  show ?case by (simp add: st1_def counted_def absorb_def 3(5) algebra_simps)
qed

lemma events_read_back:
  assumes "tree_named t" "tree_fits t" "expat payload = (tree_events t, True)"
  shows "parse_bounded_xml expat payload = Inr t"
proof -
  have "room xml_start (tree_depth t) (tree_sum (\<lambda>e. Suc 0) t) (tree_sum (\<lambda>e. length (xe_attributes e)) t) (tree_sum bytes_of t)"
    using assms(2) by (simp add: room_def tree_fits_def tree_elements_def tree_attributes_def tree_text_bytes_def xml_start_def
        max_xml_depth_def max_element_count_def max_attribute_count_def max_text_bytes_def)
  from run_events(1) [OF assms(1) this, of "[]"] show ?thesis
    by (simp add: parse_bounded_xml_def assms(3) counted_def absorb_def xml_start_def document_element_def)
qed


section \<open>A document\<close>

definition sample_tree :: xml_element where
  "sample_tree =
     Xml_Element ''Document'' ''urn:x'' [] [] [Xml_Element ''Amt'' ''urn:x'' [(''Ccy'', ''KRW'')] ''20'' [],
       Xml_Element ''Ntry'' ''urn:x'' [] [] []]"

lemma sample_tree_ok: "tree_named sample_tree" "tree_fits sample_tree"
  by (simp_all add: sample_tree_def tree_fits_def tree_elements_def tree_attributes_def tree_text_bytes_def encode_utf8_def utf8_def)


theorem accepted_tree_bounded_witness:
  "tree_depth sample_tree \<le> 32 \<and> tree_elements sample_tree \<le> 20000"
proof -
  have "parse_bounded_xml (\<lambda>p. (tree_events sample_tree, True)) [] = Inr sample_tree"
    by (rule events_read_back [where expat = "\<lambda>p. (tree_events sample_tree, True)", OF sample_tree_ok refl])
  from accepted_tree_bounded [OF this] show ?thesis by simp
qed

end
