(* ===== verification/Bank_Evidence.thy ===== *)
theory Bank_Evidence
  imports Bank_Ingestion Statement_Tree
begin

text \<open>
  What a normalized statement is: the shape of everything the adapter accepts.
\<close>

section \<open>Well-formed evidence\<close>

definition instant_ok :: "datetime option \<Rightarrow> bool" where
  "instant_ok t \<longleftrightarrow> (case t of None \<Rightarrow> True | Some u \<Rightarrow> dt_offset u = Some 0)"

definition positive_amount :: "dec \<Rightarrow> bool" where
  "positive_amount d \<longleftrightarrow> \<not> dneg d \<and> 0 < dval d \<and> - 6 \<le> dexp d \<and> dexp d \<le> 0"

definition bounded_text :: "string option \<Rightarrow> bool" where
  "bounded_text s \<longleftrightarrow> (case s of None \<Rightarrow> True | Some t \<Rightarrow> t \<noteq> [] \<and> length t \<le> 256)"

definition detail_ok :: "int \<Rightarrow> int \<Rightarrow> entry_detail \<Rightarrow> bool" where
  "detail_ok entry_number number d \<longleftrightarrow>
     ed_sequence_number d = number \<and> ed_source_locator_path d = detail_locator entry_number number \<and>
     positive_amount (ed_amount d) \<and> currency_pattern (ed_currency_code d) \<and>
     ed_credit_debit_code d \<in> {''CRDT'', ''DBIT''} \<and> bounded_text (ed_remittance_evidence_text d) \<and>
     ed_source_detail_hash d = canonical_digest (detail_evidence d)"

definition entry_ok :: "int \<Rightarrow> normalized_entry \<Rightarrow> bool" where
  "entry_ok number e \<longleftrightarrow>
     ne_sequence_number e = number \<and> ne_source_locator_path e = entry_locator number \<and>
     positive_amount (ne_amount e) \<and> currency_pattern (ne_currency_code e) \<and>
     ne_credit_debit_code e \<in> {''CRDT'', ''DBIT''} \<and>
     instant_ok (ne_booking_occurred_at e) \<and> instant_ok (ne_value_occurred_at e) \<and>
     bounded_text (ne_remittance_evidence_text e) \<and>
     list_all (\<lambda>(i, d). detail_ok number i d) (numbered (ne_entry_details e)) \<and>
     ne_source_entry_hash e = canonical_digest (entry_payload e)"

definition statement_ok :: "string \<Rightarrow> normalized_statement \<Rightarrow> bool" where
  "statement_ok payload s \<longleftrightarrow>
     ns_message_definition_identifier s = ''camt.053.001.14'' \<and>
     strip (ns_statement_identity_reference s) = ns_statement_identity_reference s \<and>
     ns_statement_identity_reference s \<noteq> [] \<and>
     currency_pattern (ns_account_currency_code s) \<and>
     instant_ok (ns_period_start_at s) \<and> instant_ok (ns_period_end_at s) \<and>
     ns_source_artifact_hash s = sha256_digest payload \<and>
     ns_normalized_payload_hash s = canonical_digest (normalized_payload s) \<and>
     1 \<le> length (ns_entries s) \<and> length (ns_entries s) \<le> 500 \<and>
     list_all (\<lambda>(i, e). entry_ok i e) (numbered (ns_entries s))"

section \<open>Helpers\<close>

lemma numbered_conv: "numbered xs = map (\<lambda>i. (int (Suc i), xs ! i)) [0..<length xs]"
  by (rule nth_equalityI) (auto simp: numbered_def nth_append simp del: upt_Suc)

lemma map_result_numbered:
  assumes "map_result f (numbered xs) = Inr ys"
    and "\<And>i x y. i \<in> {1..int (length xs)} \<Longrightarrow> f (i, x) = Inr y \<Longrightarrow> P i y"
  shows "length ys = length xs \<and> list_all (\<lambda>(i, y). P i y) (numbered ys)"
proof -
  have all: "list_all2 (\<lambda>x y. f x = Inr y) (numbered xs) ys"
    using assms(1) by (simp add: map_result_eq_Inr_list_all2)
  then have len: "length ys = length xs" by (auto dest!: list_all2_lengthD simp: numbered_conv)
  have "P (int (Suc i)) (ys ! i)" if "i < length ys" for i
  proof -
    have "f (int (Suc i), xs ! i) = Inr (ys ! i)"
      using list_all2_nthD [OF all, of i] that len by (simp add: numbered_conv)
    then show ?thesis using assms(2) that len by force
  qed
  then show ?thesis using len by (auto simp: list_all_iff numbered_conv)
qed

lemma dropWhile_trim: "dropWhile P (dropWhile P xs) = dropWhile P xs"
  by (induction xs) auto

lemma dropWhile_keeps_last: "dropWhile P xs \<noteq> [] \<Longrightarrow> last (dropWhile P xs) = last xs"
  by (induction xs) auto

lemma dropWhile_hd: "xs \<noteq> [] \<Longrightarrow> \<not> P (hd xs) \<Longrightarrow> dropWhile P xs = xs"
  by (cases xs) auto

lemma strip_strip: "strip (strip s) = strip s"
proof -
  define a where "a = dropWhile is_space s"
  define b where "b = rev (dropWhile is_space (rev a))"
  have b: "strip s = b" by (simp add: strip_def lstrip_set_def rstrip_set_def a_def b_def)
  have "dropWhile is_space b = b"
  proof (cases "b = []")
    case False
    have "hd b = hd a"
      using False dropWhile_keeps_last [of is_space "rev a"] by (simp add: b_def hd_rev last_rev)
    moreover have "a \<noteq> []" using False by (auto simp: b_def)
    then have "\<not> is_space (hd a)" unfolding a_def by (rule hd_dropWhile)
    ultimately show ?thesis using False by (simp add: dropWhile_hd)
  qed simp
  then show ?thesis by (simp add: strip_def lstrip_set_def rstrip_set_def b_def [symmetric] b [unfolded strip_def lstrip_set_def rstrip_set_def])
    (simp add: b_def dropWhile_trim)
qed

lemma first_text_ok: "first_text e path = Some t \<Longrightarrow> t \<noteq> [] \<and> strip t = t"
  by (auto simp: first_text_def strip_strip split: option.splits if_splits)

lemma bounded_bound_text: "bounded_text (bound_text (first_text e path))"
  using first_text_ok [of e path]
  by (cases "first_text e path") (auto simp: bounded_text_def bound_text_def max_remittance_chars_def)

lemma parse_timestamp_utc: "parse_timestamp s label = Inr t \<Longrightarrow> dt_offset t = Some 0"
  by (auto simp: parse_timestamp_def to_utc_def Let_def split: option.splits if_splits)

lemma optional_timestamp_ok: "optional_timestamp s = Inr t \<Longrightarrow> instant_ok t"
  by (auto simp: optional_timestamp_def instant_ok_def result_simps dest: parse_timestamp_utc split: option.splits)

lemma period_timestamp_ok: "period_timestamp p n = Inr t \<Longrightarrow> instant_ok t"
  by (auto simp: period_timestamp_def instant_ok_def dest: optional_timestamp_ok split: option.splits)

lemma amount_from_element_ok:
  assumes "amount_from_element e label False = Inr (amount, currency)"
  shows "positive_amount amount" and "currency_pattern currency"
proof -
  obtain v where "parse_amount v = Inr amount" "\<not> dec_eq amount dec_zero" "currency_pattern currency"
    using assms by (auto simp: amount_from_element_def Let_def split: if_splits sum.splits)
  with parse_amount_ok(1) [of v amount] amount_ok_nonneg [of amount]
  show "positive_amount amount" "currency_pattern currency"
    by (auto simp: positive_amount_def amount_ok_def dec_eq_iff dec_zero_def dval_def signed_coef_def)
qed

lemma required_amount_ok:
  assumes "required_amount e label False = Inr (amount, currency)"
  shows "positive_amount amount" and "currency_pattern currency"
  using assms amount_from_element_ok by (auto simp: required_amount_def split: list.splits)

lemma normalize_detail_ok: "normalize_detail node n i fallback = Inr d \<Longrightarrow> detail_ok n i d"
  by (auto simp: normalize_detail_def detail_ok_def Let_def result_simps credit_debit_ok_def bounded_bound_text detail_evidence_def
      split: option.splits if_splits prod.splits dest: amount_from_element_ok)

lemma normalize_entry_ok:
  assumes "normalize_entry node i = Inr e"
  shows "entry_ok i e"
proof -
  obtain amount currency side details booking val_date reversal where
    parts: "required_amount node ''Ntry/Amt'' False = Inr (amount, currency)" "credit_debit_ok side"
      "map_result (\<lambda>(k, n). normalize_detail n i k side) (numbered (child_elements node [''NtryDtls'', ''TxDtls''])) = Inr details"
      "optional_timestamp (or_else (first_text node [''BookgDt'', ''DtTm'']) (first_text node [''BookgDt'', ''Dt''])) = Inr booking"
      "optional_timestamp (or_else (first_text node [''ValDt'', ''DtTm'']) (first_text node [''ValDt'', ''Dt''])) = Inr val_date"
    and e: "ne_sequence_number e = i" "ne_source_locator_path e = entry_locator i" "ne_amount e = amount" "ne_currency_code e = currency"
      "ne_credit_debit_code e = side" "ne_booking_occurred_at e = booking" "ne_value_occurred_at e = val_date"
      "ne_entry_details e = details"
      "ne_remittance_evidence_text e = bound_text (first_text node [''NtryDtls'', ''TxDtls'', ''RmtInf'', ''Ustrd''])"
      "ne_source_entry_hash e = canonical_digest (entry_payload e)"
    using assms unfolding normalize_entry_def
    by (auto simp: Let_def result_simps entry_payload_def split: prod.splits if_splits)
  have "list_all (\<lambda>(k, d). detail_ok i k d) (numbered details)"
    by (rule conjunct2 [OF map_result_numbered [OF parts(3)]]) (auto intro: normalize_detail_ok)
  then show ?thesis
    using required_amount_ok [OF parts(1)] parts(2) optional_timestamp_ok [OF parts(4)] optional_timestamp_ok [OF parts(5)] e
    by (auto simp: entry_ok_def credit_debit_ok_def bounded_bound_text)
qed

lemma parsed_statement_ok:
  assumes "parse_bank_statement_payload package expat payload definition_identifier = Inr s"
  shows "statement_ok payload s"
proof -
  obtain node where "normalize_statement node payload = Inr s"
    using assms unfolding parse_bank_statement_payload_def bind_result_eq_Inr
    by (elim exE conjE) (auto split: list.split_asm)
  then obtain account currency entries period_start period_end where
    parts: "required_text node [''Id''] ''statement identity'' = Inr (ns_statement_identity_reference s)"
      "require_currency (ns_account_currency_code s) = Inr ()"
      "map_result normalize_numbered_entry (numbered (direct_children node ''Ntry'')) = Inr (ns_entries s)" "ns_entries s \<noteq> []"
      "period_timestamp (descend node [''FrToDt'']) ''FrDtTm'' = Inr (ns_period_start_at s)"
      "period_timestamp (descend node [''FrToDt'']) ''ToDtTm'' = Inr (ns_period_end_at s)"
    and s: "ns_message_definition_identifier s = ''camt.053.001.14''" "ns_source_artifact_hash s = sha256_digest payload"
      "ns_normalized_payload_hash s = canonical_digest (normalized_payload s)"
    unfolding normalize_statement_def
    by (auto simp: Let_def result_simps normalized_payload_def camt053_message_definition_def split: option.splits)
  have bound: "i \<le> 500 \<and> entry_ok i e" if "normalize_numbered_entry (i, n) = Inr e" for i n e
    using that normalize_entry_ok by (auto simp: normalize_numbered_entry_def max_entry_count_def split: if_splits)
  have entries: "list_all (\<lambda>(i, e). i \<le> 500 \<and> entry_ok i e) (numbered (ns_entries s))"
    by (rule conjunct2 [OF map_result_numbered [OF parts(3)]]) (use bound in auto)
  obtain m where m: "length (ns_entries s) = Suc m" using parts(4) by (cases "ns_entries s") auto
  then have "(int (Suc m), ns_entries s ! m) \<in> set (numbered (ns_entries s))"
    by (auto simp: numbered_conv image_iff intro!: bexI [of _ m])
  then have len: "length (ns_entries s) \<le> 500" using entries m by (auto simp: list_all_iff)
  have identity: "ns_statement_identity_reference s \<noteq> [] \<and> strip (ns_statement_identity_reference s) = ns_statement_identity_reference s"
    using parts(1) by (auto simp: required_text_def dest: first_text_ok split: option.splits)
  show ?thesis
    using parts(2,4) entries len identity s period_timestamp_ok [OF parts(5)] period_timestamp_ok [OF parts(6)]
    by (auto simp: statement_ok_def require_currency_def result_simps list_all_iff Suc_le_eq)
qed


section \<open>A statement\<close>

abbreviation camt_leaf :: "string \<Rightarrow> string \<Rightarrow> xml_element" where
  "camt_leaf name chars \<equiv> Xml_Element name camt053_namespace [] chars []"

abbreviation camt_node :: "string \<Rightarrow> xml_element list \<Rightarrow> xml_element" where
  "camt_node name children \<equiv> Xml_Element name camt053_namespace [] [] children"

abbreviation camt_amount :: "string \<Rightarrow> xml_element" where
  "camt_amount chars \<equiv> Xml_Element ''Amt'' camt053_namespace [(''Ccy'', ''KRW'')] chars []"

definition sample_entry_nodes :: "xml_element list" where
  "sample_entry_nodes =
     [camt_node ''Ntry'' [camt_amount ''125.50'', camt_leaf ''CdtDbtInd'' ''CRDT''],
      camt_node ''Ntry'' [camt_amount ''20'', camt_leaf ''CdtDbtInd'' ''DBIT'',
        camt_node ''NtryDtls'' [camt_node ''TxDtls'' [camt_node ''AmtDtls'' [camt_node ''TxAmt'' [camt_amount ''20'']]]]]]"

definition sample_document :: xml_element where
  "sample_document =
     camt_node ''Document'' [camt_node ''BkToCstmrStmt'' [camt_node ''GrpHdr'' [camt_leaf ''MsgId'' ''m-1''],
       camt_node ''Stmt'' ([camt_leaf ''Id'' ''s-1'',
         camt_node ''Acct'' [camt_node ''Id'' [camt_leaf ''IBAN'' ''KR-1''], camt_leaf ''Ccy'' ''KRW'']] @
         sample_entry_nodes)]]"

definition sample_expat :: expat where
  "sample_expat = (\<lambda>payload. (tree_events sample_document, True))"

definition sample_package :: adapter_package where
  "sample_package =
     \<lparr>package_message_definition = ''camt.053.001.14'', package_artifacts = [], package_file = (\<lambda>path. []),
      package_required_paths =
        [''Document/BkToCstmrStmt/GrpHdr/MsgId'', ''Document/BkToCstmrStmt/Stmt/Id'', ''Document/BkToCstmrStmt/Stmt/Acct'']\<rparr>"

lemma sample_document_reads: "parse_bounded_xml sample_expat payload = Inr sample_document"
proof (rule events_read_back)
  have "CHR '' '' \<notin> set camt053_namespace" by code_simp
  then show "tree_named sample_document" by (simp add: sample_document_def sample_entry_nodes_def)
  show "tree_fits sample_document"
    by (simp add: sample_document_def sample_entry_nodes_def tree_fits_def tree_elements_def tree_attributes_def
        tree_text_bytes_def encode_utf8_def utf8_def)
  show "sample_expat payload = (tree_events sample_document, True)" by (simp add: sample_expat_def)
qed

lemma sample_statement_texts:
  "strip ''s-1'' = ''s-1''" "strip ''KR-1'' = ''KR-1''" "strip ''KRW'' = ''KRW''" "strip ''CRDT'' = ''CRDT''" "strip ''DBIT'' = ''DBIT''"
  "strip ''125.50'' = ''125.50''" "strip ''20'' = ''20''" "currency_pattern ''KRW''"
  "parse_amount (PStr ''125.50'') = Inr (Dec False 12550 (- 2))" "parse_amount (PStr ''20'') = Inr (Dec False 20 0)"
  "dec_eq (Dec False 12550 (- 2)) dec_zero = False" "dec_eq (Dec False 20 0) dec_zero = False"
  by code_simp+

lemma sample_paths:
  "map (split_on (CHR ''/'')) (package_required_paths sample_package) =
     [[''Document'', ''BkToCstmrStmt'', ''GrpHdr'', ''MsgId''], [''Document'', ''BkToCstmrStmt'', ''Stmt'', ''Id''],
      [''Document'', ''BkToCstmrStmt'', ''Stmt'', ''Acct'']]"
  by (simp add: sample_package_def)

lemma sample_statement_accepted:
  "\<exists>s. parse_bank_statement_payload sample_package sample_expat ''<x/>'' ''camt.053.001.14'' = Inr s \<and>
     ns_account_currency_code s = ''KRW'' \<and> ns_statement_identity_reference s = ''s-1'' \<and>
     map ne_amount (ns_entries s) = [Dec False 12550 (- 2), Dec False 20 0] \<and>
     map ne_credit_debit_code (ns_entries s) = [''CRDT'', ''DBIT''] \<and>
     map ne_currency_code (ns_entries s) = [''KRW'', ''KRW''] \<and>
     map (\<lambda>e. map ed_amount (ne_entry_details e)) (ns_entries s) = [[], [Dec False 20 0]] \<and>
     ns_account_identifier_hash s = sha256_digest (encode_utf8 ''KR-1'')"
  using sample_paths
  by (simp add: parse_bank_statement_payload_def load_adapter_manifest_def sample_document_reads max_statement_bytes_def
      camt053_message_definition_def)
     (simp add: sample_package_def sample_document_def sample_entry_nodes_def
      reject_revision_mismatch_def require_structural_paths_def child_elements_def direct_children_def
      normalize_statement_def required_text_def required_child_def first_text_def sample_statement_texts require_currency_def
      statement_account_identifier_def or_else_def numbered_def upt_rec normalize_numbered_entry_def max_entry_count_def normalize_entry_def
      required_amount_def amount_from_element_def credit_debit_ok_def normalize_detail_def optional_timestamp_def parse_reversal_def
      period_timestamp_def Let_def)


end
