(* ===== verification/Bank_Invariants.thy ===== *)
theory Bank_Invariants
  imports Bank_Evidence
begin

text \<open>
  The invariant of the bank registry: identifiers are fresh, the unique columns are unique, every
  statement has its artifact and agrees with its account, every entry and detail belongs to a stored
  statement. Every command keeps it.
\<close>

section \<open>The invariant\<close>

definition fresh_ids :: "db_server \<Rightarrow> nat \<Rightarrow> nat \<Rightarrow> nat list \<Rightarrow> bool" where
  "fresh_ids srv m n ids \<longleftrightarrow> m \<le> n \<and> distinct ids \<and> set ids \<subseteq> sv_uuid srv ` {m..<n}"

definition artifact_keys :: "registry \<Rightarrow> (nat \<times> string \<times> nat) list" where
  "artifact_keys reg = map (\<lambda>r. (af_tenant r, af_source_hash r, af_id r)) (rg_artifacts reg)"

definition statement_keys :: "registry \<Rightarrow> (nat \<times> string \<times> nat) list" where
  "statement_keys reg = map (\<lambda>r. (sr_tenant r, ns_source_artifact_hash (sr_columns r), sr_artifact r)) (rg_statements reg)"

definition account_agrees :: "registry \<Rightarrow> statement_row \<Rightarrow> bool" where
  "account_agrees reg r \<longleftrightarrow>
     (\<exists>a\<in>set (rg_accounts reg). ba_id a = sr_bank_account r \<and> ba_tenant a = sr_tenant r \<and>
        ba_currency_code a = ns_account_currency_code (sr_columns r) \<and>
        ba_identifier_hash a = ns_account_identifier_hash (sr_columns r))"

definition entry_owned :: "registry \<Rightarrow> entry_row \<Rightarrow> bool" where
  "entry_owned reg e \<longleftrightarrow>
     (\<exists>r\<in>set (rg_statements reg). sr_id r = er_statement e \<and> sr_tenant r = er_tenant e \<and>
        ne_currency_code (er_columns e) = ns_account_currency_code (sr_columns r))"

definition detail_owned :: "registry \<Rightarrow> detail_row \<Rightarrow> bool" where
  "detail_owned reg d \<longleftrightarrow> (\<exists>e\<in>set (rg_entries reg). er_id e = dr_entry d \<and> er_tenant e = dr_tenant d)"

definition entry_key :: "entry_row \<Rightarrow> nat \<times> int" where
  "entry_key e = (er_statement e, ne_sequence_number (er_columns e))"

definition registry_inv :: "db_server \<Rightarrow> registry \<Rightarrow> bool" where
  "registry_inv srv reg \<longleftrightarrow>
     fresh_ids srv 0 (rg_inserted reg) (map ba_id (rg_accounts reg)) \<and>
     fresh_ids srv 0 (rg_inserted reg) (map as_id (rg_assignments reg)) \<and>
     fresh_ids srv 0 (rg_inserted reg) (map af_id (rg_artifacts reg)) \<and>
     fresh_ids srv 0 (rg_inserted reg) (map sr_id (rg_statements reg)) \<and>
     fresh_ids srv 0 (rg_inserted reg) (map er_id (rg_entries reg)) \<and>
     fresh_ids srv 0 (rg_inserted reg) (map dr_id (rg_details reg)) \<and>
     distinct (map (\<lambda>r. (ba_tenant r, ba_reference r)) (rg_accounts reg)) \<and>
     distinct (map (\<lambda>r. (as_tenant r, as_idempotency_key r)) (rg_assignments reg)) \<and>
     sorted_wrt (\<lambda>r row. \<not> statement_clash r row) (rg_statements reg) \<and>
     artifact_keys reg = statement_keys reg \<and>
     distinct (map entry_key (rg_entries reg)) \<and>
     (\<forall>e\<in>set (rg_entries reg). 1 \<le> ne_sequence_number (er_columns e)) \<and>
     (\<forall>r\<in>set (rg_statements reg). account_agrees reg r) \<and>
     (\<forall>e\<in>set (rg_entries reg). entry_owned reg e) \<and>
     (\<forall>d\<in>set (rg_details reg). detail_owned reg d)"

lemma fresh_ids_Nil [simp]: "fresh_ids srv m m []"
  by (simp add: fresh_ids_def)

lemma fresh_ids_weaken: "fresh_ids srv m n ids \<Longrightarrow> m' \<le> m \<Longrightarrow> n \<le> n' \<Longrightarrow> fresh_ids srv m' n' ids"
  by (fastforce simp: fresh_ids_def)

lemma fresh_ids_append:
  assumes "inj (sv_uuid srv)" "fresh_ids srv k m xs" "fresh_ids srv m n ys"
  shows "fresh_ids srv k n (xs @ ys)"
proof -
  have "sv_uuid srv ` {k..<m} \<inter> sv_uuid srv ` {m..<n} = {}"
    using assms(1) by (simp add: image_Int [symmetric])
  moreover have "sv_uuid srv ` {k..<m} \<subseteq> sv_uuid srv ` {k..<n}" "sv_uuid srv ` {m..<n} \<subseteq> sv_uuid srv ` {k..<n}"
    using assms(2,3) by (auto simp: fresh_ids_def intro!: image_mono)
  ultimately show ?thesis using assms(2,3) unfolding fresh_ids_def by auto
qed

lemma fresh_ids_one: "fresh_ids srv m (Suc m) [sv_uuid srv m]"
  by (simp add: fresh_ids_def)

text \<open>An identifier that comes later is in no earlier table.\<close>

lemma fresh_id_new:
  "inj (sv_uuid srv) \<Longrightarrow> fresh_ids srv k m ids \<Longrightarrow> m \<le> n \<Longrightarrow> sv_uuid srv n \<notin> set ids"
  unfolding fresh_ids_def by (auto simp: inj_eq dest!: subsetD)

section \<open>Inserting the entries of a statement\<close>

definition stored_entry :: "nat \<Rightarrow> nat \<Rightarrow> normalized_entry \<Rightarrow> entry_row \<Rightarrow> bool" where
  "stored_entry tenant_id statement_id e row \<longleftrightarrow>
     er_tenant row = tenant_id \<and> er_statement row = statement_id \<and>
     numeric_38_6 (ne_amount e) = Inr (ne_amount (er_columns row)) \<and>
     er_columns row = e\<lparr>ne_amount := ne_amount (er_columns row), ne_entry_details := []\<rparr>"

lemma insert_details_effect:
  assumes "fold_result (insert_detail srv tenant_id entry_id) reg ds = Inr reg'"
    and "inj (sv_uuid srv)"
  shows "\<exists>rows n. reg' = reg\<lparr>rg_details := rg_details reg @ rows, rg_inserted := n\<rparr> \<and>
     fresh_ids srv (rg_inserted reg) n (map dr_id rows) \<and>
     (\<forall>r\<in>set rows. dr_tenant r = tenant_id \<and> dr_entry r = entry_id)"
  using assms(1)
proof (induction ds arbitrary: reg)
  case Nil
  then show ?case by (intro exI [of _ "[]"] exI [of _ "rg_inserted reg"]) simp
next
  case (Cons d ds)
  obtain reg1 where 1: "insert_detail srv tenant_id entry_id reg d = Inr reg1"
    and 2: "fold_result (insert_detail srv tenant_id entry_id) reg1 ds = Inr reg'"
    using Cons.prems by (auto simp: result_simps)
  obtain row where row: "reg1 = reg\<lparr>rg_details := rg_details reg @ [row], rg_inserted := Suc (rg_inserted reg)\<rparr>"
      "dr_id row = sv_uuid srv (rg_inserted reg)" "dr_tenant row = tenant_id" "dr_entry row = entry_id"
    using 1 by (auto simp: insert_detail_def result_simps next_id_def split: if_splits)
  obtain rows n where rest: "reg' = reg1\<lparr>rg_details := rg_details reg1 @ rows, rg_inserted := n\<rparr>"
      "fresh_ids srv (rg_inserted reg1) n (map dr_id rows)" "\<forall>r\<in>set rows. dr_tenant r = tenant_id \<and> dr_entry r = entry_id"
    using Cons.IH [OF 2] by blast
  have "fresh_ids srv (rg_inserted reg) n ([dr_id row] @ map dr_id rows)"
    using rest(2) row by (intro fresh_ids_append [OF assms(2)]) (auto simp: fresh_ids_one)
  then show ?case
    using row rest by (intro exI [of _ "row # rows"] exI [of _ n]) simp
qed

lemma insert_entry_effect:
  assumes "insert_entry_with_details srv tenant_id statement_id reg e = Inr reg'" and "inj (sv_uuid srv)"
  shows "\<exists>row drows n. reg' = reg\<lparr>rg_entries := rg_entries reg @ [row], rg_details := rg_details reg @ drows, rg_inserted := n\<rparr> \<and>
     stored_entry tenant_id statement_id e row \<and> er_id row = sv_uuid srv (rg_inserted reg) \<and>
     fresh_ids srv (Suc (rg_inserted reg)) n (map dr_id drows) \<and>
     (\<forall>d\<in>set drows. dr_tenant d = tenant_id \<and> dr_entry d = er_id row)"
proof -
  obtain reg1 entry_id where 1: "insert_entry srv tenant_id statement_id e reg = Inr (reg1, entry_id)"
    and 2: "fold_result (insert_detail srv tenant_id entry_id) reg1 (ne_entry_details e) = Inr reg'"
    using assms(1) by (auto simp: insert_entry_with_details_def result_simps)
  obtain row where row: "reg1 = reg\<lparr>rg_entries := rg_entries reg @ [row], rg_inserted := Suc (rg_inserted reg)\<rparr>"
      "stored_entry tenant_id statement_id e row" "er_id row = sv_uuid srv (rg_inserted reg)" "entry_id = er_id row"
  proof -
    obtain amount where "numeric_38_6 (ne_amount e) = Inr amount" and
      "reg1 = reg\<lparr>rg_entries := rg_entries reg @ [\<lparr>er_id = sv_uuid srv (rg_inserted reg), er_tenant = tenant_id,
         er_statement = statement_id, er_columns = e\<lparr>ne_amount := amount, ne_entry_details := []\<rparr>\<rparr>],
         rg_inserted := Suc (rg_inserted reg)\<rparr>" "entry_id = sv_uuid srv (rg_inserted reg)"
      using 1 by (auto simp: insert_entry_def result_simps next_id_def split: if_splits)
    then show thesis
      by (intro that [of "\<lparr>er_id = sv_uuid srv (rg_inserted reg), er_tenant = tenant_id, er_statement = statement_id,
          er_columns = e\<lparr>ne_amount := amount, ne_entry_details := []\<rparr>\<rparr>"]) (simp_all add: stored_entry_def)
  qed
  obtain drows n where "reg' = reg1\<lparr>rg_details := rg_details reg1 @ drows, rg_inserted := n\<rparr>"
      "fresh_ids srv (rg_inserted reg1) n (map dr_id drows)" "\<forall>d\<in>set drows. dr_tenant d = tenant_id \<and> dr_entry d = entry_id"
    using insert_details_effect [OF 2 assms(2)] by blast
  then show ?thesis using row by (intro exI [of _ row] exI [of _ drows] exI [of _ n]) simp
qed

lemma insert_entries_effect:
  assumes "fold_result (insert_entry_with_details srv tenant_id statement_id) reg es = Inr reg'" and "inj (sv_uuid srv)"
  shows "\<exists>rows drows n. reg' = reg\<lparr>rg_entries := rg_entries reg @ rows, rg_details := rg_details reg @ drows, rg_inserted := n\<rparr> \<and>
     list_all2 (stored_entry tenant_id statement_id) es rows \<and>
     fresh_ids srv (rg_inserted reg) n (map er_id rows) \<and> fresh_ids srv (rg_inserted reg) n (map dr_id drows) \<and>
     (\<forall>d\<in>set drows. dr_tenant d = tenant_id \<and> dr_entry d \<in> er_id ` set rows)"
  using assms(1)
proof (induction es arbitrary: reg)
  case Nil
  then show ?case by (intro exI [of _ "[]"] exI [of _ "rg_inserted reg"]) simp
next
  case (Cons e es)
  obtain reg1 where 1: "insert_entry_with_details srv tenant_id statement_id reg e = Inr reg1"
    and 2: "fold_result (insert_entry_with_details srv tenant_id statement_id) reg1 es = Inr reg'"
    using Cons.prems by (auto simp: result_simps)
  obtain row dr n1 where row: "reg1 = reg\<lparr>rg_entries := rg_entries reg @ [row], rg_details := rg_details reg @ dr, rg_inserted := n1\<rparr>"
      "stored_entry tenant_id statement_id e row" "er_id row = sv_uuid srv (rg_inserted reg)"
      "fresh_ids srv (Suc (rg_inserted reg)) n1 (map dr_id dr)" "\<forall>d\<in>set dr. dr_tenant d = tenant_id \<and> dr_entry d = er_id row"
    using insert_entry_effect [OF 1 assms(2)] by blast
  obtain rows drows n where rest: "reg' = reg1\<lparr>rg_entries := rg_entries reg1 @ rows, rg_details := rg_details reg1 @ drows, rg_inserted := n\<rparr>"
      "list_all2 (stored_entry tenant_id statement_id) es rows"
      "fresh_ids srv (rg_inserted reg1) n (map er_id rows)" "fresh_ids srv (rg_inserted reg1) n (map dr_id drows)"
      "\<forall>d\<in>set drows. dr_tenant d = tenant_id \<and> dr_entry d \<in> er_id ` set rows"
    using Cons.IH [OF 2] by blast
  have n1: "Suc (rg_inserted reg) \<le> n1" using row(4) by (simp add: fresh_ids_def)
  have "fresh_ids srv (rg_inserted reg) n ([er_id row] @ map er_id rows)"
    using rest(3) row n1
    by (intro fresh_ids_append [OF assms(2), of _ "Suc (rg_inserted reg)"]) (auto simp: fresh_ids_one intro: fresh_ids_weaken)
  moreover have "fresh_ids srv (rg_inserted reg) n (map dr_id dr @ map dr_id drows)"
    using rest(4) row n1
    by (intro fresh_ids_append [OF assms(2), of _ n1]) (auto intro: fresh_ids_weaken)
  ultimately show ?case
    using row rest by (intro exI [of _ "row # rows"] exI [of _ "dr @ drows"] exI [of _ n]) auto
qed

section \<open>Inserting a statement\<close>

text \<open>What one ingestion adds: one artifact, one statement, its entries, their details.\<close>

definition statement_inserted ::
    "db_server \<Rightarrow> nat \<Rightarrow> nat \<Rightarrow> string \<Rightarrow> normalized_statement \<Rightarrow> string \<Rightarrow> registry \<Rightarrow> registry \<Rightarrow> nat \<Rightarrow> bool" where
  "statement_inserted srv tenant_id account_id key statement locator reg reg' statement_id \<longleftrightarrow>
     (\<exists>a r rows drows n.
        reg' = reg\<lparr>rg_artifacts := rg_artifacts reg @ [a], rg_statements := rg_statements reg @ [r],
                   rg_entries := rg_entries reg @ rows, rg_details := rg_details reg @ drows, rg_inserted := n\<rparr> \<and>
        af_tenant a = tenant_id \<and> af_source_hash a = ns_source_artifact_hash statement \<and>
        af_store_reference a = locator \<and> af_id a = sv_uuid srv (rg_inserted reg) \<and>
        sr_id r = statement_id \<and> statement_id = sv_uuid srv (Suc (rg_inserted reg)) \<and>
        sr_tenant r = tenant_id \<and> sr_bank_account r = account_id \<and> sr_artifact r = af_id a \<and>
        sr_columns r = statement\<lparr>ns_entries := []\<rparr> \<and> sr_idempotency_key r = key \<and>
        \<not> list_ex (\<lambda>s. statement_clash s r) (rg_statements reg) \<and>
        list_all2 (stored_entry tenant_id statement_id) (ns_entries statement) rows \<and>
        fresh_ids srv (Suc (Suc (rg_inserted reg))) n (map er_id rows) \<and>
        fresh_ids srv (Suc (Suc (rg_inserted reg))) n (map dr_id drows) \<and>
        (\<forall>d\<in>set drows. dr_tenant d = tenant_id \<and> dr_entry d \<in> er_id ` set rows))"

lemma insert_statement_rows_effect:
  assumes "insert_statement_rows srv tenant_id account_id key statement locator len reg = Inr (reg', statement_id)"
    and "inj (sv_uuid srv)"
  shows "statement_inserted srv tenant_id account_id key statement locator reg reg' statement_id"
proof -
  define a where "a = \<lparr>af_id = next_id srv reg, af_tenant = tenant_id, af_source_hash = ns_source_artifact_hash statement,
          af_store_reference = locator, af_byte_length = len\<rparr>"
  define reg1 where "reg1 = reg\<lparr>rg_artifacts := rg_artifacts reg @ [a], rg_inserted := Suc (rg_inserted reg)\<rparr>"
  define r where "r = \<lparr>sr_id = next_id srv reg1, sr_tenant = tenant_id, sr_bank_account = account_id, sr_artifact = af_id a,
          sr_columns = statement\<lparr>ns_entries := []\<rparr>, sr_idempotency_key = key,
          sr_recorded_at = sv_clock srv (rg_inserted reg1)\<rparr>"
  define reg2 where "reg2 = reg1\<lparr>rg_statements := rg_statements reg1 @ [r], rg_inserted := Suc (rg_inserted reg1)\<rparr>"
  have clash: "\<not> list_ex (\<lambda>s. statement_clash s r) (rg_statements reg)"
    and fold: "fold_result (insert_entry_with_details srv tenant_id statement_id) reg2 (ns_entries statement) = Inr reg'"
    and id: "statement_id = next_id srv reg1"
    using assms(1)
    by (auto simp: insert_statement_rows_def insert_artifact_def insert_statement_def result_simps a_def reg1_def r_def reg2_def
        next_id_def statement_clash_def split: if_splits)
  obtain rows drows n where
    "reg' = reg2\<lparr>rg_entries := rg_entries reg2 @ rows, rg_details := rg_details reg2 @ drows, rg_inserted := n\<rparr>"
    "list_all2 (stored_entry tenant_id statement_id) (ns_entries statement) rows"
    "fresh_ids srv (rg_inserted reg2) n (map er_id rows)" "fresh_ids srv (rg_inserted reg2) n (map dr_id drows)"
    "\<forall>d\<in>set drows. dr_tenant d = tenant_id \<and> dr_entry d \<in> er_id ` set rows"
    using insert_entries_effect [OF fold assms(2)] by blast
  then show ?thesis
    unfolding statement_inserted_def using clash id
    by (intro exI [of _ a] exI [of _ r] exI [of _ rows] exI [of _ drows] exI [of _ n])
      (simp add: reg2_def reg1_def a_def r_def next_id_def)
qed

lemma stored_entry_currency: "stored_entry t i e row \<Longrightarrow> ne_currency_code (er_columns row) = ne_currency_code e"
  unfolding stored_entry_def by (metis normalized_entry.ext_inject normalized_entry.surjective normalized_entry.update_convs(6,20))

lemma stored_entry_number: "stored_entry t i e row \<Longrightarrow> entry_key row = (i, ne_sequence_number e)"
  unfolding stored_entry_def entry_key_def
  by (metis normalized_entry.ext_inject normalized_entry.surjective normalized_entry.update_convs(6,20))

lemma stored_entries_keys:
  "list_all2 (stored_entry t i) es rows \<Longrightarrow> map entry_key rows = map (\<lambda>e. (i, ne_sequence_number e)) es"
  by (induction rule: list_all2_induct) (auto dest: stored_entry_number)

lemma statement_numbers: "statement_ok payload s \<Longrightarrow> map ne_sequence_number (ns_entries s) = map int [1..<Suc (length (ns_entries s))]"
  by (rule nth_equalityI) (auto simp: statement_ok_def list_all_iff numbered_conv entry_ok_def nth_append simp del: upt_Suc)

lemma list_all2_set_right: "list_all2 P xs ys \<Longrightarrow> y \<in> set ys \<Longrightarrow> \<exists>x\<in>set xs. P x y"
  by (induction rule: list_all2_induct) auto

text \<open>A new row at the end of the tables keeps what the rows before it have.\<close>

lemma statement_inserted_inv:
  assumes ins: "statement_inserted srv tenant_id (ba_id account) key statement locator reg reg' statement_id"
    and inv: "registry_inv srv reg" and uuid: "inj (sv_uuid srv)"
    and account: "account \<in> set (rg_accounts reg)" "ba_tenant account = tenant_id"
    and agree: "check_statement_account account statement = Inr ()"
    and ok: "statement_ok payload statement"
  shows "registry_inv srv reg'"
proof -
  obtain a r rows drows n where
    reg': "reg' = reg\<lparr>rg_artifacts := rg_artifacts reg @ [a], rg_statements := rg_statements reg @ [r],
                   rg_entries := rg_entries reg @ rows, rg_details := rg_details reg @ drows, rg_inserted := n\<rparr>"
    and a: "af_tenant a = tenant_id" "af_source_hash a = ns_source_artifact_hash statement" "af_id a = sv_uuid srv (rg_inserted reg)"
    and r: "sr_id r = statement_id" "statement_id = sv_uuid srv (Suc (rg_inserted reg))" "sr_tenant r = tenant_id"
      "sr_bank_account r = ba_id account" "sr_artifact r = af_id a" "sr_columns r = statement\<lparr>ns_entries := []\<rparr>"
    and clash: "\<not> list_ex (\<lambda>s. statement_clash s r) (rg_statements reg)"
    and rows: "list_all2 (stored_entry tenant_id statement_id) (ns_entries statement) rows"
    and ids: "fresh_ids srv (Suc (Suc (rg_inserted reg))) n (map er_id rows)" "fresh_ids srv (Suc (Suc (rg_inserted reg))) n (map dr_id drows)"
    and drows: "\<forall>d\<in>set drows. dr_tenant d = tenant_id \<and> dr_entry d \<in> er_id ` set rows"
    using ins unfolding statement_inserted_def by blast
  have n: "rg_inserted reg \<le> n" "Suc (rg_inserted reg) \<le> n" "Suc (Suc (rg_inserted reg)) \<le> n"
    using ids(1) by (simp_all add: fresh_ids_def)
  have weaken: "fresh_ids srv 0 (rg_inserted reg) xs \<Longrightarrow> fresh_ids srv 0 n xs" for xs
    using n by (auto intro: fresh_ids_weaken)
  have app: "fresh_ids srv 0 (rg_inserted reg) xs \<Longrightarrow> fresh_ids srv (rg_inserted reg) n ys \<Longrightarrow> fresh_ids srv 0 n (xs @ ys)" for xs ys
    using fresh_ids_append [OF uuid] by blast
  have one: "fresh_ids srv (rg_inserted reg) n [af_id a]" "fresh_ids srv (rg_inserted reg) n [sr_id r]"
    using n by (auto simp: a r fresh_ids_def)
  have more: "fresh_ids srv (rg_inserted reg) n (map er_id rows)" "fresh_ids srv (rg_inserted reg) n (map dr_id drows)"
    using ids by (auto intro: fresh_ids_weaken)
  have agrees: "account_agrees reg' s" if "account_agrees reg s" for s
    using that by (auto simp: account_agrees_def reg')
  have new_agrees: "account_agrees reg' r"
    using account agree r by (auto simp: account_agrees_def reg' check_statement_account_def result_simps)
  have owned: "entry_owned reg' e" if "entry_owned reg e" for e
    using that by (auto simp: entry_owned_def reg')
  have new_owned: "entry_owned reg' e" if e: "e \<in> set rows" for e
  proof -
    obtain x where x: "x \<in> set (ns_entries statement)" "stored_entry tenant_id statement_id x e"
      using list_all2_set_right [OF rows e] by blast
    then have "ne_currency_code x = ns_account_currency_code statement"
      using agree by (auto simp: check_statement_account_def require_entry_currencies_def result_simps)
    then show ?thesis
      using x stored_entry_currency [OF x(2)] r by (auto simp: entry_owned_def reg' stored_entry_def)
  qed
  have new_details: "detail_owned reg' d" if "d \<in> set drows" for d
    using that drows list_all2_set_right [OF rows] by (fastforce simp: detail_owned_def reg' stored_entry_def)
  have "sv_uuid srv (Suc (rg_inserted reg)) \<notin> set (map sr_id (rg_statements reg))"
    using inv by (intro fresh_id_new [OF uuid]) (auto simp: registry_inv_def)
  then have new_statement: "statement_id \<notin> er_statement ` set (rg_entries reg)"
    using inv unfolding r(2) registry_inv_def entry_owned_def by (auto simp: image_iff) metis
  have keys: "map entry_key rows = map (\<lambda>e. (statement_id, ne_sequence_number e)) (ns_entries statement)"
    using stored_entries_keys [OF rows] .
  have numbers: "distinct (map ne_sequence_number (ns_entries statement))" "\<forall>e\<in>set (ns_entries statement). 1 \<le> ne_sequence_number e"
  proof -
    have "ne_sequence_number ` set (ns_entries statement) = int ` {1..<Suc (length (ns_entries statement))}"
      using statement_numbers [OF ok] by (metis set_map set_upt)
    then have "ne_sequence_number e \<in> int ` {1..<Suc (length (ns_entries statement))}" if "e \<in> set (ns_entries statement)" for e
      using that by blast
    then show "\<forall>e\<in>set (ns_entries statement). 1 \<le> ne_sequence_number e" by fastforce
    show "distinct (map ne_sequence_number (ns_entries statement))"
      unfolding statement_numbers [OF ok] by (simp add: distinct_map inj_on_def)
  qed
  have distinct_keys: "distinct (map entry_key (rg_entries reg @ rows))"
  proof -
    have "distinct (map entry_key rows)"
      using numbers(1) unfolding keys by (auto simp: distinct_map inj_on_def)
    moreover have "set (map entry_key (rg_entries reg)) \<inter> set (map entry_key rows) = {}"
      using new_statement unfolding keys by (auto simp: entry_key_def)
    ultimately show ?thesis using inv by (simp add: registry_inv_def)
  qed
  have positive: "1 \<le> ne_sequence_number (er_columns e)" if e: "e \<in> set rows" for e
  proof -
    have "entry_key e \<in> set (map entry_key rows)" using e by simp
    then show ?thesis unfolding keys using numbers(2) by (auto simp: entry_key_def)
  qed
  have details: "detail_owned reg' d" if "detail_owned reg d" for d
    using that by (auto simp: detail_owned_def reg')
  show ?thesis
    using inv agrees new_agrees owned new_owned details new_details distinct_keys positive clash weaken app [OF _ one(1)] app [OF _ one(2)]
      app [OF _ more(1)] app [OF _ more(2)]
    unfolding registry_inv_def
    by (auto simp: reg' artifact_keys_def statement_keys_def a r sorted_wrt_append list_ex_iff)
qed

section \<open>What a command does\<close>

lemma session_error: "bank_session srv m w = (w', Inl e) \<Longrightarrow> bw_registry w' = bw_registry w"
  by (auto simp: session_def bank_rollback_def split: if_splits prod.splits sum.splits)

lemma bank_read_Inr_iff: "bank_read f w = (w', Inr x) \<longleftrightarrow> w' = w \<and> f (bw_registry w) = Inr x"
  by (auto simp: bank_read_def)

lemma bank_update_Inr_iff:
  "bank_update f w = (w', Inr x) \<longleftrightarrow> (\<exists>reg. f (bw_registry w) = Inr (reg, x) \<and> w' = w\<lparr>bw_registry := reg\<rparr>)"
  by (auto simp: bank_update_def split: sum.splits prod.splits)

lemma lifted_error: "io_bind (io_lift r) f w = (w', Inl e) \<Longrightarrow> r = Inl e \<and> w' = w \<or> (\<exists>x. r = Inr x \<and> f x w = (w', Inl e))"
  by (cases r) auto

lemmas bank_success = io_bind_Inr_iff session_Inr_iff bank_read_Inr_iff bank_update_Inr_iff registry_tenant_def

definition ingestion_of ::
    "adapter_package \<Rightarrow> expat \<Rightarrow> db_server \<Rightarrow> registry \<Rightarrow> py_value \<Rightarrow> string \<Rightarrow> statement_command \<Rightarrow> normalized_statement \<Rightarrow>
       nat \<Rightarrow> bank_account_row \<Rightarrow> bool" where
  "ingestion_of package expat srv reg v tenant c s tid account \<longleftrightarrow>
     bind_result (require_bank_command v ''a bank-statement command'' tenant) read_statement_command = Inr c \<and>
     parse_bank_statement_payload package expat (sk_raw_bytes c) (sk_message_definition c) = Inr s \<and>
     bind_ledger srv tenant = Inr () \<and> sv_reachable srv \<and>
     require_tenant srv (ct_tenants reg) tenant = Inr tid \<and>
     load_bank_account tid (sk_bank_account_reference c) reg = Inr account \<and>
     check_statement_account account s = Inr ()"

lemma ingest_success:
  assumes "accept_bank_statement_evidence package expat srv host_store v tenant w = (w', Inr doc)"
  shows "\<exists>c s tid account. ingestion_of package expat srv (bw_registry w) v tenant c s tid account \<and>
     ((\<exists>i. prior_statement tid (ba_id account) (sk_idempotency_key c) s (bw_registry w) = Some (Inr i) \<and> w' = w \<and>
         load_statement_document tid tenant i True (bw_registry w) = Inr doc) \<or>
      (\<exists>w1 locator reg' i. prior_statement tid (ba_id account) (sk_idempotency_key c) s (bw_registry w) = None \<and>
         store_artifact host_store (ns_source_artifact_hash s) (sk_raw_bytes c) w = (w1, Inr locator) \<and>
         insert_statement_rows srv tid (ba_id account) (sk_idempotency_key c) s locator (length (sk_raw_bytes c)) (bw_registry w1) =
           Inr (reg', i) \<and> w' = w1\<lparr>bw_registry := reg'\<rparr> \<and> load_statement_document tid tenant i False reg' = Inr doc))"
proof -
  obtain c s where 1: "bind_result (require_bank_command v ''a bank-statement command'' tenant) read_statement_command = Inr c"
    "parse_bank_statement_payload package expat (sk_raw_bytes c) (sk_message_definition c) = Inr s"
    "bind_ledger srv tenant = Inr ()" "sv_reachable srv"
    and 2: "ingest_statement srv host_store tenant c s w = (w', Inr doc)"
    using assms by (auto simp: accept_bank_statement_evidence_def io_bind_Inr_iff session_Inr_iff)
  obtain tid account where 3: "require_tenant srv (ct_tenants (bw_registry w)) tenant = Inr tid"
    "load_bank_account tid (sk_bank_account_reference c) (bw_registry w) = Inr account"
    "check_statement_account account s = Inr ()"
    and 4: "(case prior_statement tid (ba_id account) (sk_idempotency_key c) s (bw_registry w) of
         Some (Inl e) \<Rightarrow> io_lift (Inl e)
       | Some (Inr statement_id) \<Rightarrow> bank_read (load_statement_document tid tenant statement_id True)
       | None \<Rightarrow>
           io_bind (store_artifact host_store (ns_source_artifact_hash s) (sk_raw_bytes c)) (\<lambda>locator.
           io_bind (bank_update (insert_statement_rows srv tid (ba_id account) (sk_idempotency_key c) s
               locator (length (sk_raw_bytes c)))) (\<lambda>statement_id.
             bank_read (load_statement_document tid tenant statement_id False)))) w = (w', Inr doc)"
    using 2 by (auto simp: ingest_statement_def bank_success)
  have "ingestion_of package expat srv (bw_registry w) v tenant c s tid account"
    using 1 3 by (simp add: ingestion_of_def)
  then show ?thesis
    using 4 by (intro exI [of _ c] exI [of _ s] exI [of _ tid] exI [of _ account])
      (auto simp: bank_success split: option.splits sum.splits)
qed

lemma store_keeps_registry: "store_artifact h hash raw w = (w1, r) \<Longrightarrow> bw_registry w1 = bw_registry w"
  by (auto simp: store_artifact_def split: sum.splits prod.splits if_splits)

lemma ingest_error_registry:
  "accept_bank_statement_evidence package expat srv host_store v tenant w = (w', Inl e) \<Longrightarrow> bw_registry w' = bw_registry w"
  unfolding accept_bank_statement_evidence_def by (auto dest!: lifted_error intro: session_error)

lemma load_account_ok:
  "load_bank_account tid reference reg = Inr a \<Longrightarrow> a \<in> set (rg_accounts reg) \<and> ba_tenant a = tid \<and> ba_reference a = reference"
  unfolding load_bank_account_def by (auto split: option.splits simp: find_Some_iff)

lemma ingest_inv:
  assumes "inj (sv_uuid srv)" "registry_inv srv (bw_registry w)"
  shows "registry_inv srv (bw_registry (fst (accept_bank_statement_evidence package expat srv host_store v tenant w)))"
proof (cases "accept_bank_statement_evidence package expat srv host_store v tenant w")
  case (Pair w' r)
  show ?thesis
  proof (cases r)
    case (Inl e)
    then show ?thesis using Pair assms(2) ingest_error_registry by fastforce
  next
    case (Inr doc)
    from ingest_success [OF Pair [unfolded Inr]] show ?thesis
      using Pair assms(2)
      by (auto simp: ingestion_of_def dest!: load_account_ok store_keeps_registry parsed_statement_ok
          intro: statement_inserted_inv [OF insert_statement_rows_effect [OF _ assms(1)] _ assms(1)])
  qed
qed

section \<open>Accounts and assignments\<close>

definition account_added :: "db_server \<Rightarrow> registry \<Rightarrow> registry \<Rightarrow> bool" where
  "account_added srv reg reg' \<longleftrightarrow>
     (\<exists>a. reg' = reg\<lparr>rg_accounts := rg_accounts reg @ [a], rg_inserted := Suc (rg_inserted reg)\<rparr> \<and>
        ba_id a = sv_uuid srv (rg_inserted reg) \<and>
        (ba_tenant a, ba_reference a) \<notin> set (map (\<lambda>r. (ba_tenant r, ba_reference r)) (rg_accounts reg)))"

definition assignment_added :: "db_server \<Rightarrow> registry \<Rightarrow> registry \<Rightarrow> bool" where
  "assignment_added srv reg reg' \<longleftrightarrow>
     (\<exists>a. reg' = reg\<lparr>rg_assignments := rg_assignments reg @ [a], rg_inserted := Suc (rg_inserted reg)\<rparr> \<and>
        as_id a = sv_uuid srv (rg_inserted reg) \<and>
        (as_tenant a, as_idempotency_key a) \<notin> set (map (\<lambda>r. (as_tenant r, as_idempotency_key r)) (rg_assignments reg)))"

lemma insert_account_added:
  assumes "insert_bank_account srv row reg = Inr (reg', i)"
  shows "account_added srv reg reg'"
  unfolding account_added_def using assms
  by (intro exI [of _ "row\<lparr>ba_id := next_id srv reg\<rparr>"])
    (auto simp: insert_bank_account_def next_id_def list_ex_iff split: if_splits)

lemma insert_assignment_added:
  assumes "insert_assignment_handled srv row reg = Inr (reg', i)"
  shows "assignment_added srv reg reg'"
  unfolding assignment_added_def using assms
  by (intro exI [of _ "row\<lparr>as_id := next_id srv reg\<rparr>"])
    (auto simp: insert_assignment_handled_def insert_assignment_def next_id_def list_ex_iff split: if_splits sum.splits)

lemma register_error_registry:
  "accept_bank_account_record srv v tenant w = (w', Inl e) \<Longrightarrow> bw_registry w' = bw_registry w"
  unfolding accept_bank_account_record_def Let_def by (auto dest!: lifted_error intro: session_error)

lemma assign_error_registry:
  "accept_bank_account_assignment srv v tenant w = (w', Inl e) \<Longrightarrow> bw_registry w' = bw_registry w"
  unfolding accept_bank_account_assignment_def by (auto dest!: lifted_error intro: session_error)

lemma register_success:
  "accept_bank_account_record srv v tenant w = (w', Inr doc) \<Longrightarrow>
     bw_registry w' = bw_registry w \<or> account_added srv (bw_registry w) (bw_registry w')"
  by (auto simp: accept_bank_account_record_def register_bank_account_def Let_def bank_success
      dest: insert_account_added split: option.splits if_splits)

lemma assign_success:
  "accept_bank_account_assignment srv v tenant w = (w', Inr doc) \<Longrightarrow>
     bw_registry w' = bw_registry w \<or> assignment_added srv (bw_registry w) (bw_registry w')"
  by (auto simp: accept_bank_account_assignment_def assign_bank_account_def bank_success
      dest: insert_assignment_added split: option.splits if_splits prod.splits)

lemma account_added_inv:
  assumes "account_added srv reg reg'" and uuid: "inj (sv_uuid srv)" and inv: "registry_inv srv reg"
  shows "registry_inv srv reg'"
proof -
  obtain a where reg': "reg' = reg\<lparr>rg_accounts := rg_accounts reg @ [a], rg_inserted := Suc (rg_inserted reg)\<rparr>"
    and a: "ba_id a = sv_uuid srv (rg_inserted reg)"
      "(ba_tenant a, ba_reference a) \<notin> set (map (\<lambda>r. (ba_tenant r, ba_reference r)) (rg_accounts reg))"
    using assms(1) unfolding account_added_def by blast
  have weaken: "fresh_ids srv 0 (rg_inserted reg) xs \<Longrightarrow> fresh_ids srv 0 (Suc (rg_inserted reg)) xs" for xs
    by (auto intro: fresh_ids_weaken)
  have "fresh_ids srv 0 (Suc (rg_inserted reg)) (map ba_id (rg_accounts reg) @ [ba_id a])"
    using inv by (intro fresh_ids_append [OF uuid]) (auto simp: registry_inv_def a fresh_ids_one)
  moreover have "account_agrees reg s \<Longrightarrow> account_agrees reg' s" for s by (auto simp: account_agrees_def reg')
  ultimately show ?thesis
    using inv weaken a(2) unfolding registry_inv_def
    by (auto simp: reg' artifact_keys_def statement_keys_def entry_owned_def detail_owned_def)
qed

lemma assignment_added_inv:
  assumes "assignment_added srv reg reg'" and uuid: "inj (sv_uuid srv)" and inv: "registry_inv srv reg"
  shows "registry_inv srv reg'"
proof -
  obtain a where reg': "reg' = reg\<lparr>rg_assignments := rg_assignments reg @ [a], rg_inserted := Suc (rg_inserted reg)\<rparr>"
    and a: "as_id a = sv_uuid srv (rg_inserted reg)"
      "(as_tenant a, as_idempotency_key a) \<notin> set (map (\<lambda>r. (as_tenant r, as_idempotency_key r)) (rg_assignments reg))"
    using assms(1) unfolding assignment_added_def by blast
  have weaken: "fresh_ids srv 0 (rg_inserted reg) xs \<Longrightarrow> fresh_ids srv 0 (Suc (rg_inserted reg)) xs" for xs
    by (auto intro: fresh_ids_weaken)
  have "fresh_ids srv 0 (Suc (rg_inserted reg)) (map as_id (rg_assignments reg) @ [as_id a])"
    using inv by (intro fresh_ids_append [OF uuid]) (auto simp: registry_inv_def a fresh_ids_one)
  then show ?thesis
    using inv weaken a(2) unfolding registry_inv_def
    by (auto simp: reg' artifact_keys_def statement_keys_def entry_owned_def detail_owned_def account_agrees_def)
qed

section \<open>Commands in sequence\<close>

datatype bank_command =
    Register_Account py_value string
  | Assign_Account py_value string
  | Ingest_Statement py_value string bool

definition run_bank_command :: "adapter_package \<Rightarrow> expat \<Rightarrow> db_server \<Rightarrow> bank_world \<Rightarrow> bank_command \<Rightarrow> bank_world" where
  "run_bank_command package expat srv w c =
     (case c of
        Register_Account v tenant \<Rightarrow> fst (accept_bank_account_record srv v tenant w)
      | Assign_Account v tenant \<Rightarrow> fst (accept_bank_account_assignment srv v tenant w)
      | Ingest_Statement v tenant host_store \<Rightarrow>
          fst (accept_bank_statement_evidence package expat srv host_store v tenant w))"

definition run_bank_commands :: "adapter_package \<Rightarrow> expat \<Rightarrow> db_server \<Rightarrow> bank_world \<Rightarrow> bank_command list \<Rightarrow> bank_world" where
  "run_bank_commands package expat srv w cs = foldl (run_bank_command package expat srv) w cs"

text \<open>A registry before its first command: only the catalogue is filled.\<close>

definition empty_registry :: "registry \<Rightarrow> bool" where
  "empty_registry reg \<longleftrightarrow> rg_accounts reg = [] \<and> rg_assignments reg = [] \<and> rg_artifacts reg = [] \<and>
     rg_statements reg = [] \<and> rg_entries reg = [] \<and> rg_details reg = []"

lemma empty_registry_inv: "empty_registry reg \<Longrightarrow> registry_inv srv reg"
  by (simp add: empty_registry_def registry_inv_def fresh_ids_def artifact_keys_def statement_keys_def)

lemma run_bank_command_inv:
  assumes "inj (sv_uuid srv)" "registry_inv srv (bw_registry w)"
  shows "registry_inv srv (bw_registry (run_bank_command package expat srv w c))"
proof (cases c)
  case (Register_Account v tenant)
  obtain w' r where run: "accept_bank_account_record srv v tenant w = (w', r)" by fastforce
  then have "bw_registry w' = bw_registry w \<or> account_added srv (bw_registry w) (bw_registry w')"
    using register_error_registry register_success by (cases r) blast+
  then show ?thesis
    using account_added_inv assms run by (auto simp: run_bank_command_def Register_Account)
next
  case (Assign_Account v tenant)
  obtain w' r where run: "accept_bank_account_assignment srv v tenant w = (w', r)" by fastforce
  then have "bw_registry w' = bw_registry w \<or> assignment_added srv (bw_registry w) (bw_registry w')"
    using assign_error_registry assign_success by (cases r) blast+
  then show ?thesis
    using assignment_added_inv assms run by (auto simp: run_bank_command_def Assign_Account)
next
  case (Ingest_Statement v tenant host_store)
  then show ?thesis using ingest_inv [OF assms] by (simp add: run_bank_command_def)
qed

lemma run_commands_inv:
  "inj (sv_uuid srv) \<Longrightarrow> registry_inv srv (bw_registry w) \<Longrightarrow>
     registry_inv srv (bw_registry (run_bank_commands package expat srv w cs))"
  by (induction cs arbitrary: w) (simp_all add: run_bank_commands_def run_bank_command_inv)

end
