(* ===== verification/Bank_Properties.thy ===== *)
theory Bank_Properties
  imports Bank_Invariants
begin

text \<open>
  The properties of the bank statement registry: its invariant over all sequences of commands, exactly
  when a new statement can be stored, replays, the retained original, exact totals, and the pages of its
  entries.
\<close>

section \<open>The invariant\<close>

text \<open>C34 After any sequence of registry commands, of any tenants and in any order: account references are
  unique per tenant; no two statements of a tenant share an ingestion key, an artifact, or an identity on
  one account; every statement has its own artifact and agrees in currency and identifier with the
  registered account; every entry belongs to a stored statement of its tenant and has that account's
  currency, and its number occurs once; every detail belongs to a stored entry.\<close>

theorem bank_registry_invariant:
  assumes "inj (sv_uuid srv)" "empty_registry (bw_registry w)"
    and "reg = bw_registry (run_bank_commands package expat srv w commands)"
  shows "distinct (map (\<lambda>r. (ba_tenant r, ba_reference r)) (rg_accounts reg)) \<and>
    sorted_wrt (\<lambda>r row. \<not> statement_clash r row) (rg_statements reg) \<and>
    artifact_keys reg = statement_keys reg \<and> distinct (map entry_key (rg_entries reg)) \<and>
    list_all (account_agrees reg) (rg_statements reg) \<and> list_all (entry_owned reg) (rg_entries reg) \<and>
    list_all (detail_owned reg) (rg_details reg)"
  using run_commands_inv [OF assms(1) empty_registry_inv [OF assms(2)], of package expat commands] assms(3)
  by (simp add: registry_inv_def list_all_iff)

section \<open>A new statement\<close>

text \<open>An amount fits a \<open>numeric(38, 6)\<close> column.\<close>

definition amount_fits :: "dec \<Rightarrow> bool" where
  "amount_fits d \<longleftrightarrow> dval d < 10 ^ 32"

lemma numeric_38_6_fits:
  assumes "positive_amount d"
  shows "numeric_38_6 d = (if amount_fits d then Inr (Dec False (nat (scaled d (- 6))) (- 6)) else Inl (DatabaseError ''22003''))"
    and "0 \<le> scaled d (- 6)" and "dval (Dec False (nat (scaled d (- 6))) (- 6)) = dval d"
proof -
  have nonneg: "0 \<le> scaled d (- 6)"
    using assms by (simp add: positive_amount_def scaled_def signed_coef_def)
  have val: "dval d = of_int (scaled d (- 6)) * 10 powi (- 6)"
    using assms by (intro dval_scaled) (simp add: positive_amount_def)
  have "amount_fits d \<longleftrightarrow> (of_int (scaled d (- 6)) :: rat) < 10 ^ 38"
    by (simp add: amount_fits_def val power_int_minus field_simps)
  also have "\<dots> \<longleftrightarrow> scaled d (- 6) < 10 ^ 38"
    by (metis of_int_less_iff of_int_numeral of_int_power)
  finally show "numeric_38_6 d = (if amount_fits d then Inr (Dec False (nat (scaled d (- 6))) (- 6)) else Inl (DatabaseError ''22003''))"
    using nonneg by (auto simp: numeric_38_6_def Let_def not_less)
  show "0 \<le> scaled d (- 6)" by (rule nonneg)
  show "dval (Dec False (nat (scaled d (- 6))) (- 6)) = dval d"
    using nonneg by (simp add: val) (simp add: dval_def signed_coef_def)
qed

definition entry_fits :: "normalized_entry \<Rightarrow> bool" where
  "entry_fits e \<longleftrightarrow> amount_fits (ne_amount e) \<and> list_all (\<lambda>d. amount_fits (ed_amount d)) (ne_entry_details e)"

lemma insert_details_result:
  assumes "\<forall>d\<in>set ds. positive_amount (ed_amount d)" "distinct (map ed_sequence_number ds)"
    and "\<forall>r\<in>set (rg_details reg). dr_entry r = eid \<longrightarrow> ed_sequence_number (dr_columns r) \<notin> set (map ed_sequence_number ds)"
  shows "if list_all (\<lambda>d. amount_fits (ed_amount d)) ds then \<exists>reg'. fold_result (insert_detail srv tid eid) reg ds = Inr reg'
     else fold_result (insert_detail srv tid eid) reg ds = Inl (DatabaseError ''22003'')"
  using assms
proof (induction ds arbitrary: reg)
  case (Cons d ds)
  note amount = numeric_38_6_fits(1) [of "ed_amount d"]
  show ?case
  proof (cases "amount_fits (ed_amount d)")
    case False
    then show ?thesis using Cons.prems amount by (simp add: insert_detail_def)
  next
    case True
    define row where "row = \<lparr>dr_id = next_id srv reg, dr_tenant = tid, dr_entry = eid,
        dr_columns = d\<lparr>ed_amount := Dec False (nat (scaled (ed_amount d) (- 6))) (- 6)\<rparr>\<rparr>"
    define reg1 where "reg1 = reg\<lparr>rg_details := rg_details reg @ [row], rg_inserted := Suc (rg_inserted reg)\<rparr>"
    have step: "insert_detail srv tid eid reg d = Inr reg1"
      using True Cons.prems amount by (auto simp: insert_detail_def reg1_def row_def list_ex_iff)
    have "if list_all (\<lambda>d. amount_fits (ed_amount d)) ds then \<exists>reg'. fold_result (insert_detail srv tid eid) reg1 ds = Inr reg'
       else fold_result (insert_detail srv tid eid) reg1 ds = Inl (DatabaseError ''22003'')"
      using Cons.prems by (intro Cons.IH) (auto simp: reg1_def row_def)
    then show ?thesis using True step by simp
  qed
qed simp

definition entry_insertable :: "normalized_entry \<Rightarrow> bool" where
  "entry_insertable e \<longleftrightarrow> positive_amount (ne_amount e) \<and> distinct (map ed_sequence_number (ne_entry_details e)) \<and>
     (\<forall>d\<in>set (ne_entry_details e). positive_amount (ed_amount d))"

lemma insert_entry_result:
  assumes "entry_insertable e" "inj (sv_uuid srv)"
    and "\<forall>r\<in>set (rg_entries reg). er_statement r = sid \<longrightarrow> ne_sequence_number (er_columns r) \<noteq> ne_sequence_number e"
    and "\<forall>d\<in>set (rg_details reg). dr_entry d \<in> sv_uuid srv ` {..<rg_inserted reg}"
  shows "if entry_fits e then \<exists>reg'. insert_entry_with_details srv tid sid reg e = Inr reg'
     else insert_entry_with_details srv tid sid reg e = Inl (DatabaseError ''22003'')"
proof (cases "amount_fits (ne_amount e)")
  case False
  then show ?thesis
    using numeric_38_6_fits(1) [of "ne_amount e"] assms(1)
    by (simp add: insert_entry_with_details_def insert_entry_def entry_fits_def entry_insertable_def)
next
  case True
  define row where "row = \<lparr>er_id = next_id srv reg, er_tenant = tid, er_statement = sid,
     er_columns = e\<lparr>ne_amount := Dec False (nat (scaled (ne_amount e) (- 6))) (- 6), ne_entry_details := []\<rparr>\<rparr>"
  define reg1 where "reg1 = reg\<lparr>rg_entries := rg_entries reg @ [row], rg_inserted := Suc (rg_inserted reg)\<rparr>"
  have step: "insert_entry srv tid sid e reg = Inr (reg1, next_id srv reg)"
    using True assms(1,3) numeric_38_6_fits(1) [of "ne_amount e"]
    by (auto simp: insert_entry_def reg1_def row_def list_ex_iff entry_insertable_def)
  have "\<forall>r\<in>set (rg_details reg1). dr_entry r \<noteq> next_id srv reg"
    using assms(2,4) by (auto simp: reg1_def next_id_def inj_eq)
  then have "if list_all (\<lambda>d. amount_fits (ed_amount d)) (ne_entry_details e)
     then \<exists>reg'. fold_result (insert_detail srv tid (next_id srv reg)) reg1 (ne_entry_details e) = Inr reg'
     else fold_result (insert_detail srv tid (next_id srv reg)) reg1 (ne_entry_details e) = Inl (DatabaseError ''22003'')"
    using assms(1) by (intro insert_details_result) (auto simp: entry_insertable_def)
  then show ?thesis using True step by (simp add: insert_entry_with_details_def entry_fits_def)
qed

lemma insert_entries_result:
  assumes "\<forall>e\<in>set es. entry_insertable e" "inj (sv_uuid srv)" "distinct (map ne_sequence_number es)"
    and "\<forall>r\<in>set (rg_entries reg). er_statement r = sid \<longrightarrow> ne_sequence_number (er_columns r) \<notin> set (map ne_sequence_number es)"
    and "\<forall>d\<in>set (rg_details reg). dr_entry d \<in> sv_uuid srv ` {..<rg_inserted reg}"
  shows "if list_all entry_fits es then \<exists>reg'. fold_result (insert_entry_with_details srv tid sid) reg es = Inr reg'
     else fold_result (insert_entry_with_details srv tid sid) reg es = Inl (DatabaseError ''22003'')"
  using assms(1,3-)
proof (induction es arbitrary: reg)
  case (Cons e es)
  have one: "if entry_fits e then \<exists>reg'. insert_entry_with_details srv tid sid reg e = Inr reg'
     else insert_entry_with_details srv tid sid reg e = Inl (DatabaseError ''22003'')"
    using Cons.prems assms(2) by (intro insert_entry_result) auto
  show ?case
  proof (cases "entry_fits e")
    case True
    then obtain reg1 where reg1: "insert_entry_with_details srv tid sid reg e = Inr reg1" using one by auto
    obtain row drows n where eff: "reg1 = reg\<lparr>rg_entries := rg_entries reg @ [row], rg_details := rg_details reg @ drows, rg_inserted := n\<rparr>"
      "stored_entry tid sid e row" "er_id row = sv_uuid srv (rg_inserted reg)"
      "fresh_ids srv (Suc (rg_inserted reg)) n (map dr_id drows)" "\<forall>d\<in>set drows. dr_tenant d = tid \<and> dr_entry d = er_id row"
      using insert_entry_effect [OF reg1 assms(2)] by blast
    have n: "Suc (rg_inserted reg) \<le> n" using eff(4) by (simp add: fresh_ids_def)
    have "\<forall>d\<in>set (rg_details reg1). dr_entry d \<in> sv_uuid srv ` {..<rg_inserted reg1}"
      using Cons.prems(4) n eff(3,5) by (auto simp: eff(1) image_iff) (meson Suc_le_lessD lessThan_iff less_trans)
    moreover have "entry_key row = (sid, ne_sequence_number e)" using stored_entry_number [OF eff(2)] .
    then have "\<forall>r\<in>set (rg_entries reg1). er_statement r = sid \<longrightarrow> ne_sequence_number (er_columns r) \<notin> set (map ne_sequence_number es)"
      using Cons.prems(2,3) by (auto simp: eff(1) entry_key_def)
    ultimately have "if list_all entry_fits es then \<exists>reg'. fold_result (insert_entry_with_details srv tid sid) reg1 es = Inr reg'
       else fold_result (insert_entry_with_details srv tid sid) reg1 es = Inl (DatabaseError ''22003'')"
      using Cons.prems by (intro Cons.IH) auto
    then show ?thesis using True reg1 by simp
  next
    case False
    then show ?thesis using one by simp
  qed
qed simp

lemma detail_numbers:
  "list_all (\<lambda>(i, d). detail_ok n i d) (numbered ds) \<Longrightarrow> map ed_sequence_number ds = map int [1..<Suc (length ds)]"
  by (rule nth_equalityI) (auto simp: list_all_iff numbered_conv detail_ok_def nth_append simp del: upt_Suc)

lemma statement_insertable:
  assumes "statement_ok payload s" "e \<in> set (ns_entries s)"
  shows "entry_insertable e"
proof -
  obtain k where k: "k < length (ns_entries s)" "e = ns_entries s ! k"
    using assms(2) by (auto simp: in_set_conv_nth)
  then have "(int (Suc k), e) \<in> set (numbered (ns_entries s))"
    by (auto simp: numbered_conv image_iff intro!: bexI [of _ k])
  then obtain i where "entry_ok i e"
    using assms(1) by (auto simp: statement_ok_def list_all_iff)
  then have pos: "positive_amount (ne_amount e)" and details: "list_all (\<lambda>(k, d). detail_ok i k d) (numbered (ne_entry_details e))"
    by (auto simp: entry_ok_def)
  have "distinct (map ed_sequence_number (ne_entry_details e))"
    unfolding detail_numbers [OF details] by (simp add: distinct_map inj_on_def)
  moreover have "positive_amount (ed_amount d)" if "d \<in> set (ne_entry_details e)" for d
    using details that by (auto simp: list_all_iff numbered_conv in_set_conv_nth detail_ok_def)
  ultimately show ?thesis using pos by (simp add: entry_insertable_def)
qed

lemma stripped_not_blank:
  assumes "s \<noteq> []" "strip s = s"
  shows "not_blank s"
proof (rule ccontr)
  assume "\<not> not_blank s"
  then have "\<forall>c\<in>set s. c = CHR '' ''" by (auto simp: not_blank_def list_ex_iff)
  moreover have "is_space (CHR '' '')" by code_simp
  ultimately have "\<forall>c\<in>set s. is_space c" by metis
  then have "dropWhile is_space s = []" by (simp add: dropWhile_eq_Nil_conv)
  then have "strip s = []" by (simp add: strip_def lstrip_set_def rstrip_set_def del: dropWhile_eq_Nil_conv)
  then show False using assms by simp
qed

lemma prior_none:
  assumes "prior_statement tid aid key s reg = None" "r \<in> set (rg_statements reg)" "sr_tenant r = tid"
  shows "sr_idempotency_key r \<noteq> key \<and> ns_source_artifact_hash (sr_columns r) \<noteq> ns_source_artifact_hash s \<and>
     (sr_bank_account r = aid \<longrightarrow> ns_statement_identity_reference (sr_columns r) \<noteq> ns_statement_identity_reference s)"
  using assms by (auto simp: prior_statement_def find_None_iff split: option.splits if_splits)

lemma new_statement_result:
  assumes uuid: "inj (sv_uuid srv)" and inv: "registry_inv srv reg" and ok: "statement_ok payload s"
    and prior: "prior_statement tid aid key s reg = None"
  shows "if not_blank key \<and> list_all entry_fits (ns_entries s)
     then \<exists>reg' i. insert_statement_rows srv tid aid key s locator len reg = Inr (reg', i)
     else insert_statement_rows srv tid aid key s locator len reg = Inl (DatabaseError (if not_blank key then ''22003'' else ''23514''))"
proof -
  define a where "a = \<lparr>af_id = next_id srv reg, af_tenant = tid, af_source_hash = ns_source_artifact_hash s,
          af_store_reference = locator, af_byte_length = len\<rparr>"
  define reg1 where "reg1 = reg\<lparr>rg_artifacts := rg_artifacts reg @ [a], rg_inserted := Suc (rg_inserted reg)\<rparr>"
  define r where "r = \<lparr>sr_id = next_id srv reg1, sr_tenant = tid, sr_bank_account = aid, sr_artifact = af_id a,
          sr_columns = s\<lparr>ns_entries := []\<rparr>, sr_idempotency_key = key, sr_recorded_at = sv_clock srv (rg_inserted reg1)\<rparr>"
  define reg2 where "reg2 = reg1\<lparr>rg_statements := rg_statements reg1 @ [r], rg_inserted := Suc (rg_inserted reg1)\<rparr>"
  define sid where "sid = next_id srv reg1"
  have "\<not> list_ex (\<lambda>x. af_tenant x = tid \<and> af_source_hash x = ns_source_artifact_hash s) (rg_artifacts reg)"
  proof
    assume "list_ex (\<lambda>x. af_tenant x = tid \<and> af_source_hash x = ns_source_artifact_hash s) (rg_artifacts reg)"
    then obtain x where "x \<in> set (rg_artifacts reg)" "af_tenant x = tid" "af_source_hash x = ns_source_artifact_hash s"
      by (auto simp: list_ex_iff)
    then obtain k where "(tid, ns_source_artifact_hash s, k) \<in> set (artifact_keys reg)"
      by (force simp: artifact_keys_def)
    then have "(tid, ns_source_artifact_hash s, k) \<in> set (statement_keys reg)" using inv by (simp add: registry_inv_def)
    then obtain x where "x \<in> set (rg_statements reg)" "sr_tenant x = tid"
        "ns_source_artifact_hash (sr_columns x) = ns_source_artifact_hash s"
      by (auto simp: statement_keys_def)
    then show False using prior_none [OF prior] by blast
  qed
  then have artifact: "insert_artifact srv \<lparr>af_id = 0, af_tenant = tid, af_source_hash = ns_source_artifact_hash s,
          af_store_reference = locator, af_byte_length = len\<rparr> reg = Inr (reg1, af_id a)"
    by (simp add: insert_artifact_def reg1_def a_def)
  have "not_blank (ns_statement_identity_reference s)"
    using ok by (intro stripped_not_blank) (auto simp: statement_ok_def)
  moreover have "\<not> list_ex (\<lambda>x. statement_clash x r) (rg_statements reg)"
    using prior_none [OF prior] by (auto simp: list_ex_iff statement_clash_def r_def)
  ultimately have statement: "insert_statement srv \<lparr>sr_id = 0, sr_tenant = tid, sr_bank_account = aid, sr_artifact = af_id a,
          sr_columns = s\<lparr>ns_entries := []\<rparr>, sr_idempotency_key = key, sr_recorded_at = sv_clock srv 0\<rparr> reg1 =
      (if not_blank key then Inr (reg2, sid) else Inl (DatabaseError ''23514''))"
    by (simp add: insert_statement_def reg2_def r_def sid_def reg1_def statement_clash_def)
  have "sid \<notin> set (map sr_id (rg_statements reg))"
    unfolding sid_def next_id_def using inv by (intro fresh_id_new [OF uuid]) (auto simp: registry_inv_def reg1_def)
  then have no_rows: "\<forall>x\<in>set (rg_entries reg2). er_statement x \<noteq> sid"
    using inv by (auto simp: registry_inv_def entry_owned_def reg2_def reg1_def image_iff) metis
  have details: "\<forall>d\<in>set (rg_details reg2). dr_entry d \<in> sv_uuid srv ` {..<rg_inserted reg2}"
  proof
    fix d assume "d \<in> set (rg_details reg2)"
    then have "detail_owned reg d" using inv by (simp add: registry_inv_def reg2_def reg1_def)
    then have "dr_entry d \<in> set (map er_id (rg_entries reg))"
      unfolding detail_owned_def by (metis image_eqI list.set_map)
    then have "dr_entry d \<in> sv_uuid srv ` {0..<rg_inserted reg}"
      using inv unfolding registry_inv_def fresh_ids_def by blast
    then show "dr_entry d \<in> sv_uuid srv ` {..<rg_inserted reg2}" by (auto simp: reg2_def reg1_def)
  qed
  have "distinct (map ne_sequence_number (ns_entries s))"
    unfolding statement_numbers [OF ok] by (simp add: distinct_map inj_on_def)
  then have "if list_all entry_fits (ns_entries s)
     then \<exists>reg'. fold_result (insert_entry_with_details srv tid sid) reg2 (ns_entries s) = Inr reg'
     else fold_result (insert_entry_with_details srv tid sid) reg2 (ns_entries s) = Inl (DatabaseError ''22003'')"
    using no_rows details statement_insertable [OF ok] by (intro insert_entries_result [OF _ uuid]) auto
  then show ?thesis
    by (auto simp: insert_statement_rows_def artifact statement)
qed


section \<open>Later commands only add\<close>

text \<open>How a registry grows: rows are added at the end, and none to the entries of a stored statement.\<close>

definition registry_grows :: "registry \<Rightarrow> registry \<Rightarrow> bool" where
  "registry_grows reg reg' \<longleftrightarrow>
     ct_tenants reg' = ct_tenants reg \<and>
     (\<exists>xs. rg_accounts reg' = rg_accounts reg @ xs) \<and> (\<exists>xs. rg_artifacts reg' = rg_artifacts reg @ xs) \<and>
     (\<exists>xs. rg_statements reg' = rg_statements reg @ xs) \<and>
     (\<exists>xs. rg_entries reg' = rg_entries reg @ xs \<and> (\<forall>e\<in>set xs. er_statement e \<notin> sr_id ` set (rg_statements reg)))"

lemma registry_grows_refl: "registry_grows reg reg"
  by (simp add: registry_grows_def)

lemma registry_grows_trans: "registry_grows a b \<Longrightarrow> registry_grows b c \<Longrightarrow> registry_grows a c"
  by (fastforce simp: registry_grows_def)

lemma account_added_grows: "account_added srv reg reg' \<Longrightarrow> registry_grows reg reg'"
  by (auto simp: account_added_def registry_grows_def)

lemma assignment_added_grows: "assignment_added srv reg reg' \<Longrightarrow> registry_grows reg reg'"
  by (auto simp: assignment_added_def registry_grows_def)

lemma statement_inserted_grows:
  assumes "statement_inserted srv tid aid key s locator reg reg' sid" "inj (sv_uuid srv)" "registry_inv srv reg"
  shows "registry_grows reg reg'"
proof -
  obtain a r rows drows n where reg': "reg' = reg\<lparr>rg_artifacts := rg_artifacts reg @ [a], rg_statements := rg_statements reg @ [r],
                   rg_entries := rg_entries reg @ rows, rg_details := rg_details reg @ drows, rg_inserted := n\<rparr>"
    and sid: "sid = sv_uuid srv (Suc (rg_inserted reg))" and rows: "list_all2 (stored_entry tid sid) (ns_entries s) rows"
    using assms(1) unfolding statement_inserted_def by blast
  have "sid \<notin> set (map sr_id (rg_statements reg))"
    unfolding sid using assms(3) by (intro fresh_id_new [OF assms(2)]) (auto simp: registry_inv_def)
  moreover have "er_statement e = sid" if "e \<in> set rows" for e
    using list_all2_set_right [OF rows that] by (auto simp: stored_entry_def)
  ultimately show ?thesis by (auto simp: registry_grows_def reg')
qed

lemma run_command_grows:
  assumes "inj (sv_uuid srv)" "registry_inv srv (bw_registry w)"
  shows "registry_grows (bw_registry w) (bw_registry (run_bank_command package expat srv w c))"
proof (cases c)
  case (Register_Account v tenant)
  obtain w' r where run: "accept_bank_account_record srv v tenant w = (w', r)" by fastforce
  then have "bw_registry w' = bw_registry w \<or> account_added srv (bw_registry w) (bw_registry w')"
    using register_error_registry register_success by (cases r) blast+
  then show ?thesis
    using run by (auto simp: run_bank_command_def Register_Account registry_grows_refl account_added_grows)
next
  case (Assign_Account v tenant)
  obtain w' r where run: "accept_bank_account_assignment srv v tenant w = (w', r)" by fastforce
  then have "bw_registry w' = bw_registry w \<or> assignment_added srv (bw_registry w) (bw_registry w')"
    using assign_error_registry assign_success by (cases r) blast+
  then show ?thesis
    using run by (auto simp: run_bank_command_def Assign_Account registry_grows_refl assignment_added_grows)
next
  case (Ingest_Statement v tenant host_store)
  obtain w' r where run: "accept_bank_statement_evidence package expat srv host_store v tenant w = (w', r)" by fastforce
  show ?thesis
  proof (cases r)
    case (Inl e)
    then show ?thesis using run ingest_error_registry by (auto simp: run_bank_command_def Ingest_Statement registry_grows_refl)
  next
    case (Inr doc)
    from ingest_success [OF run [unfolded Inr]] show ?thesis
      using run assms(2)
      by (auto simp: run_bank_command_def Ingest_Statement registry_grows_refl dest!: store_keeps_registry
          intro: statement_inserted_grows [OF insert_statement_rows_effect [OF _ assms(1)] assms(1)])
  qed
qed

lemma run_commands_grows:
  "inj (sv_uuid srv) \<Longrightarrow> registry_inv srv (bw_registry w) \<Longrightarrow>
     registry_grows (bw_registry w) (bw_registry (run_bank_commands package expat srv w cs))"
proof (induction cs arbitrary: w)
  case (Cons c cs)
  let ?w = "run_bank_command package expat srv w c"
  have "registry_grows (bw_registry ?w) (bw_registry (run_bank_commands package expat srv ?w cs))"
    by (rule Cons.IH [OF Cons.prems(1) run_bank_command_inv [OF Cons.prems]])
  then have "registry_grows (bw_registry w) (bw_registry (run_bank_commands package expat srv ?w cs))"
    by (rule registry_grows_trans [OF run_command_grows [OF Cons.prems]])
  then show ?case by (simp add: run_bank_commands_def)
qed (simp add: run_bank_commands_def registry_grows_refl)

section \<open>A fresh ingestion\<close>

lemma find_append: "find P (xs @ ys) = (case find P xs of None \<Rightarrow> find P ys | Some x \<Rightarrow> Some x)"
  by (induction xs) auto

lemma find_new: "\<forall>x\<in>set xs. \<not> P x \<Longrightarrow> P y \<Longrightarrow> find P (xs @ y # ys) = Some y"
  by (simp add: find_append find_None_iff [THEN iffD2])

definition base_document :: "string \<Rightarrow> statement_row \<Rightarrow> artifact_row \<Rightarrow> bank_account_row \<Rightarrow> entry_row list \<Rightarrow> payload" where
  "base_document tenant r a account rows = butlast (statement_document tenant r a account rows False)"

lemma statement_document_base:
  "statement_document tenant r a account rows b = base_document tenant r a account rows @ [(''replayed'', PBool b)]"
  by (simp add: base_document_def statement_document_def Let_def)

lemma statement_document_fields:
  "get_value (statement_document tenant r a account rows b) ''replayed'' = PBool b"
  "get_value (statement_document tenant r a account rows b) ''artifact_store_reference'' = PStr (af_store_reference a)"
  "get_value (statement_document tenant r a account rows b) ''source_artifact_hash'' = PStr (ns_source_artifact_hash (sr_columns r))"
  "get_value (statement_document tenant r a account rows b) ''entry_count'' = PInt (int (length rows))"
  "get_value (statement_document tenant r a account rows b) ''credit_total_amount'' = PStr (decimal_text (side_total ''CRDT'' rows))"
  "get_value (statement_document tenant r a account rows b) ''debit_total_amount'' = PStr (decimal_text (side_total ''DBIT'' rows))"
  by (simp_all add: statement_document_def Let_def get_value_def)

lemma load_statement_document_eq_Inr:
  "load_statement_document tid tenant i b reg = Inr doc \<longleftrightarrow>
     (\<exists>r a account. find (\<lambda>r. sr_tenant r = tid \<and> sr_id r = i) (rg_statements reg) = Some r \<and>
        find (\<lambda>a. af_tenant a = tid \<and> af_id a = sr_artifact r) (rg_artifacts reg) = Some a \<and>
        find (\<lambda>x. ba_tenant x = tid \<and> ba_id x = sr_bank_account r) (rg_accounts reg) = Some account \<and>
        doc = statement_document tenant r a account (statement_entries tid i reg) b)"
  by (auto simp: load_statement_document_def split: option.splits)

lemma statement_entries_grows:
  assumes "registry_grows reg reg'" "i \<in> sr_id ` set (rg_statements reg)"
  shows "statement_entries tid i reg' = statement_entries tid i reg"
proof -
  obtain xs where xs: "rg_entries reg' = rg_entries reg @ xs" "\<forall>e\<in>set xs. er_statement e \<notin> sr_id ` set (rg_statements reg)"
    using assms(1) unfolding registry_grows_def by blast
  have "filter (\<lambda>e. er_tenant e = tid \<and> er_statement e = i) xs = []"
    using xs(2) assms(2) by (auto simp only: filter_empty_conv)
  then show ?thesis by (simp add: statement_entries_def xs(1))
qed

lemma load_statement_grows:
  assumes "registry_grows reg reg'" "load_statement_document tid tenant i b reg = Inr doc"
  shows "load_statement_document tid tenant i b' reg' = Inr (butlast doc @ [(''replayed'', PBool b')])"
proof -
  obtain r a account where f: "find (\<lambda>r. sr_tenant r = tid \<and> sr_id r = i) (rg_statements reg) = Some r"
      "find (\<lambda>a. af_tenant a = tid \<and> af_id a = sr_artifact r) (rg_artifacts reg) = Some a"
      "find (\<lambda>x. ba_tenant x = tid \<and> ba_id x = sr_bank_account r) (rg_accounts reg) = Some account"
    and doc: "doc = statement_document tenant r a account (statement_entries tid i reg) b"
    using assms(2) unfolding load_statement_document_eq_Inr by blast
  have "i \<in> sr_id ` set (rg_statements reg)"
    using f(1) by (auto simp: find_Some_iff image_iff intro: nth_mem)
  then have same: "statement_entries tid i reg' = statement_entries tid i reg"
    by (rule statement_entries_grows [OF assms(1)])
  obtain xs ys zs where "rg_statements reg' = rg_statements reg @ xs" "rg_artifacts reg' = rg_artifacts reg @ ys"
      "rg_accounts reg' = rg_accounts reg @ zs"
    using assms(1) unfolding registry_grows_def by blast
  with f have f': "find (\<lambda>r. sr_tenant r = tid \<and> sr_id r = i) (rg_statements reg') = Some r"
      "find (\<lambda>a. af_tenant a = tid \<and> af_id a = sr_artifact r) (rg_artifacts reg') = Some a"
      "find (\<lambda>x. ba_tenant x = tid \<and> ba_id x = sr_bank_account r) (rg_accounts reg') = Some account"
    by (simp_all add: find_append)
  have "load_statement_document tid tenant i b' reg' = Inr (statement_document tenant r a account (statement_entries tid i reg') b')"
    using f' unfolding load_statement_document_eq_Inr by blast
  then show ?thesis by (simp add: doc same statement_document_base)
qed

lemma inserted_loads:
  assumes uuid: "inj (sv_uuid srv)" and inv: "registry_inv srv reg"
    and inserted: "statement_inserted srv tid (ba_id account) key s locator reg reg' i"
    and account: "account \<in> set (rg_accounts reg)" "ba_tenant account = tid"
  obtains a r rows
  where "rg_statements reg' = rg_statements reg @ [r]"
    and "sr_id r = i" "sr_tenant r = tid" "sr_idempotency_key r = key" "sr_columns r = s\<lparr>ns_entries := []\<rparr>"
    and "list_all2 (stored_entry tid i) (ns_entries s) rows" "af_store_reference a = locator"
    and "load_statement_document tid tenant i b reg' = Inr (statement_document tenant r a account rows b)"
    and "statement_entries tid i reg' = rows"
proof -
  obtain a r rows drows n where reg': "reg' = reg\<lparr>rg_artifacts := rg_artifacts reg @ [a],
        rg_statements := rg_statements reg @ [r], rg_entries := rg_entries reg @ rows,
        rg_details := rg_details reg @ drows, rg_inserted := n\<rparr>"
    and a: "af_tenant a = tid" "af_store_reference a = locator" "af_id a = sv_uuid srv (rg_inserted reg)"
    and r: "sr_id r = i" "i = sv_uuid srv (Suc (rg_inserted reg))" "sr_tenant r = tid" "sr_bank_account r = ba_id account"
      "sr_artifact r = af_id a" "sr_columns r = s\<lparr>ns_entries := []\<rparr>" "sr_idempotency_key r = key"
    and rows: "list_all2 (stored_entry tid i) (ns_entries s) rows"
    using inserted unfolding statement_inserted_def by blast
  have ids: "fresh_ids srv 0 (rg_inserted reg) (map sr_id (rg_statements reg))"
      "fresh_ids srv 0 (rg_inserted reg) (map af_id (rg_artifacts reg))"
    using inv by (simp_all add: registry_inv_def)
  from fresh_id_new [OF uuid ids(1), of "Suc (rg_inserted reg)"] fresh_id_new [OF uuid ids(2), of "rg_inserted reg"]
  have fresh: "i \<notin> sr_id ` set (rg_statements reg)" "af_id a \<notin> af_id ` set (rg_artifacts reg)"
    by (simp_all add: r(2) a(3))
  then have "\<forall>x\<in>set (rg_statements reg). \<not> (sr_tenant x = tid \<and> sr_id x = i)" by blast
  then have "find (\<lambda>x. sr_tenant x = tid \<and> sr_id x = i) (rg_statements reg') = Some r"
    using r(1,3) by (simp add: reg' find_new)
  moreover have "\<forall>x\<in>set (rg_artifacts reg). \<not> (af_tenant x = tid \<and> af_id x = sr_artifact r)"
    using fresh(2) unfolding r(5) by (metis image_eqI)
  then have "find (\<lambda>x. af_tenant x = tid \<and> af_id x = sr_artifact r) (rg_artifacts reg') = Some a"
    using a(1) r(5) by (simp add: reg' find_new)
  moreover have "find (\<lambda>x. ba_tenant x = tid \<and> ba_id x = sr_bank_account r) (rg_accounts reg') = Some account"
  proof -
    obtain xs ys where split: "rg_accounts reg = xs @ account # ys" using account(1) by (meson split_list)
    have "distinct (map ba_id (rg_accounts reg))" using inv by (simp add: registry_inv_def fresh_ids_def)
    then have "ba_id account \<notin> ba_id ` set xs" by (simp add: split)
    then have "\<forall>x\<in>set xs. \<not> (ba_tenant x = tid \<and> ba_id x = ba_id account)" by (metis image_eqI)
    then show ?thesis using account(2) by (simp add: reg' split r(4) find_new)
  qed
  moreover have entries: "statement_entries tid i reg' = rows"
  proof -
    have "sr_id x \<noteq> i" if "x \<in> set (rg_statements reg)" for x
      using fresh(1) that by blast
    then have "er_statement e \<noteq> i" if "e \<in> set (rg_entries reg)" for e
      using inv that unfolding registry_inv_def entry_owned_def by metis
    moreover have "er_tenant e = tid \<and> er_statement e = i" if "e \<in> set rows" for e
      using list_all2_set_right [OF rows that] by (auto simp: stored_entry_def)
    ultimately show ?thesis by (simp add: statement_entries_def reg' filter_empty_conv filter_id_conv)
  qed
  ultimately have "load_statement_document tid tenant i b reg' = Inr (statement_document tenant r a account rows b)"
    unfolding load_statement_document_eq_Inr by auto
  then show thesis
    using r rows a(2) entries by (intro that [of r rows a]) (simp_all add: reg')
qed

lemma fresh_ingestion:
  assumes uuid: "inj (sv_uuid srv)" and inv: "registry_inv srv (bw_registry w)"
    and run: "accept_bank_statement_evidence package expat srv host_store v tenant w = (w1, Inr doc)"
    and new: "get_value doc ''replayed'' = PBool False"
  obtains c s tid account w' locator a r rows
  where "ingestion_of package expat srv (bw_registry w) v tenant c s tid account"
    and "prior_statement tid (ba_id account) (sk_idempotency_key c) s (bw_registry w) = None"
    and "store_artifact host_store (ns_source_artifact_hash s) (sk_raw_bytes c) w = (w', Inr locator)"
    and "bw_store w1 = bw_store w'"
    and "rg_statements (bw_registry w1) = rg_statements (bw_registry w) @ [r]"
    and "sr_tenant r = tid" "sr_idempotency_key r = sk_idempotency_key c" "sr_columns r = s\<lparr>ns_entries := []\<rparr>"
    and "list_all2 (stored_entry tid (sr_id r)) (ns_entries s) rows"
    and "af_store_reference a = locator"
    and "load_statement_document tid tenant (sr_id r) False (bw_registry w1) = Inr doc"
    and "doc = statement_document tenant r a account rows False"
    and "sr_id r = sv_uuid srv (Suc (rg_inserted (bw_registry w)))"
    and "statement_entries tid (sr_id r) (bw_registry w1) = rows"
proof -
  obtain c s tid account where ing: "ingestion_of package expat srv (bw_registry w) v tenant c s tid account"
    and cases: "(\<exists>i. prior_statement tid (ba_id account) (sk_idempotency_key c) s (bw_registry w) = Some (Inr i) \<and> w1 = w \<and>
         load_statement_document tid tenant i True (bw_registry w) = Inr doc) \<or>
      (\<exists>w' locator reg' i. prior_statement tid (ba_id account) (sk_idempotency_key c) s (bw_registry w) = None \<and>
         store_artifact host_store (ns_source_artifact_hash s) (sk_raw_bytes c) w = (w', Inr locator) \<and>
         insert_statement_rows srv tid (ba_id account) (sk_idempotency_key c) s locator (length (sk_raw_bytes c)) (bw_registry w') =
           Inr (reg', i) \<and> w1 = w'\<lparr>bw_registry := reg'\<rparr> \<and> load_statement_document tid tenant i False reg' = Inr doc)"
    using ingest_success [OF run] by blast
  from cases new obtain w' locator reg' i where prior: "prior_statement tid (ba_id account) (sk_idempotency_key c) s (bw_registry w) = None"
    and put: "store_artifact host_store (ns_source_artifact_hash s) (sk_raw_bytes c) w = (w', Inr locator)"
    and insert: "insert_statement_rows srv tid (ba_id account) (sk_idempotency_key c) s locator (length (sk_raw_bytes c)) (bw_registry w) =
           Inr (reg', i)" and w1: "w1 = w'\<lparr>bw_registry := reg'\<rparr>" and load: "load_statement_document tid tenant i False reg' = Inr doc"
    using store_keeps_registry by (auto simp: load_statement_document_eq_Inr statement_document_fields)
  have account: "account \<in> set (rg_accounts (bw_registry w))" "ba_tenant account = tid"
    using ing load_account_ok by (auto simp: ingestion_of_def)
  obtain a r rows where inserted: "rg_statements reg' = rg_statements (bw_registry w) @ [r]"
      "sr_id r = i" "sr_tenant r = tid" "sr_idempotency_key r = sk_idempotency_key c" "sr_columns r = s\<lparr>ns_entries := []\<rparr>"
      "list_all2 (stored_entry tid i) (ns_entries s) rows" "af_store_reference a = locator"
      "load_statement_document tid tenant i False reg' = Inr (statement_document tenant r a account rows False)"
      "statement_entries tid i reg' = rows"
    by (rule inserted_loads [OF uuid inv insert_statement_rows_effect [OF insert uuid] account])
  then have doc: "doc = statement_document tenant r a account rows False" using load by simp
  have "i = sv_uuid srv (Suc (rg_inserted (bw_registry w)))"
    using insert_statement_rows_effect [OF insert uuid] unfolding statement_inserted_def by blast
  with doc show thesis
    using ing prior put w1 inserted load
    by (intro that [of c s tid account w' locator r rows a]) auto
qed

end
