(* ===== verification/Bank_Replay.thy ===== *)
theory Bank_Replay
  imports Bank_Properties
begin

text \<open>
  What a caller can rely on after a statement was ingested: the same command answers with the same
  document for ever, the original bytes stay in the host's store, and the totals of the document are the
  exact sums of the entries of the statement.
\<close>

section \<open>Replays\<close>

lemma ingest_replay:
  assumes "ingestion_of package expat srv (bw_registry w) v tenant c s tid account"
    and "prior_statement tid (ba_id account) (sk_idempotency_key c) s (bw_registry w) = Some (Inr i)"
    and "load_statement_document tid tenant i True (bw_registry w) = Inr doc"
  shows "accept_bank_statement_evidence package expat srv host_store v tenant w = (w, Inr doc)"
  using assms
  by (simp add: accept_bank_statement_evidence_def ingestion_of_def ingest_statement_def registry_tenant_def bank_read_def
      session_def io_bind_def io_lift_def io_get_def)

lemma ingestion_of_grows:
  assumes "ingestion_of package expat srv reg v tenant c s tid account" "registry_grows reg reg'"
  shows "ingestion_of package expat srv reg' v tenant c s tid account"
proof -
  obtain xs where accounts: "rg_accounts reg' = rg_accounts reg @ xs" and tenants: "ct_tenants reg' = ct_tenants reg"
    using assms(2) unfolding registry_grows_def by blast
  have "load_bank_account tid (sk_bank_account_reference c) reg' = Inr account"
    using assms(1) by (auto simp: ingestion_of_def load_bank_account_def accounts find_append split: option.splits)
  then show ?thesis using assms(1) by (simp add: ingestion_of_def tenants)
qed

lemma ingestion_grows:
  assumes "inj (sv_uuid srv)" "registry_inv srv (bw_registry w)"
    and "accept_bank_statement_evidence package expat srv host_store v tenant w = (w1, r)"
  shows "registry_grows (bw_registry w) (bw_registry w1)"
  using run_command_grows [OF assms(1,2), of package expat "Ingest_Statement v tenant host_store"] assms(3)
  by (simp add: run_bank_command_def)

lemma stored_replay_after:
  assumes uuid: "inj (sv_uuid srv)" and inv: "registry_inv srv (bw_registry w)"
    and run: "accept_bank_statement_evidence package expat srv host_store v tenant w = (w1, Inr doc)"
    and new: "get_value doc ''replayed'' = PBool False"
    and later: "registry_grows (bw_registry w1) (bw_registry w2)"
  shows "accept_bank_statement_evidence package expat srv host_store' v tenant w2 =
     (w2, Inr (butlast doc @ [(''replayed'', PBool True)]))"
proof -
  obtain c s tid account r
    where ing: "ingestion_of package expat srv (bw_registry w) v tenant c s tid account"
      and none: "prior_statement tid (ba_id account) (sk_idempotency_key c) s (bw_registry w) = None"
      and rows: "rg_statements (bw_registry w1) = rg_statements (bw_registry w) @ [r]"
      and r: "sr_tenant r = tid" "sr_idempotency_key r = sk_idempotency_key c" "sr_columns r = s\<lparr>ns_entries := []\<rparr>"
      and load: "load_statement_document tid tenant (sr_id r) False (bw_registry w1) = Inr doc"
    by (rule fresh_ingestion [OF uuid inv run new])
  obtain xs where xs: "rg_statements (bw_registry w2) = rg_statements (bw_registry w1) @ xs"
    using later unfolding registry_grows_def by blast
  have "\<forall>x\<in>set (rg_statements (bw_registry w)). \<not> (sr_tenant x = tid \<and> sr_idempotency_key x = sk_idempotency_key c)"
    using prior_none [OF none] by blast
  then have "find (\<lambda>x. sr_tenant x = tid \<and> sr_idempotency_key x = sk_idempotency_key c) (rg_statements (bw_registry w2)) = Some r"
    unfolding xs rows by (simp add: find_new r)
  then have "prior_statement tid (ba_id account) (sk_idempotency_key c) s (bw_registry w2) = Some (Inr (sr_id r))"
    by (simp add: prior_statement_def r(3))
  moreover have "registry_grows (bw_registry w) (bw_registry w2)"
    using ingestion_grows [OF uuid inv run] later by (rule registry_grows_trans)
  ultimately show ?thesis
    using ingest_replay [OF ingestion_of_grows [OF ing]] load_statement_grows [OF later load] by blast
qed

text \<open>C31 A statement that was stored answers a retry of its command, after any further commands of any
  tenants, with the document of the first answer marked as replayed; the retry changes nothing.\<close>

theorem ingestion_replays:
  assumes "inj (sv_uuid srv)" "empty_registry (bw_registry w0)"
    and "w = run_bank_commands package expat srv w0 earlier"
    and "accept_bank_statement_evidence package expat srv host_store v tenant w = (w1, Inr doc)"
    and "get_value doc ''replayed'' = PBool False"
    and "w2 = run_bank_commands package expat srv w1 later"
  shows "accept_bank_statement_evidence package expat srv host_store' v tenant w2 =
     (w2, Inr (butlast doc @ [(''replayed'', PBool True)]))"
proof -
  have inv: "registry_inv srv (bw_registry w)"
    unfolding assms(3) by (rule run_commands_inv [OF assms(1) empty_registry_inv [OF assms(2)]])
  have "registry_inv srv (bw_registry w1)"
    using ingest_inv [OF assms(1) inv, of package expat host_store v tenant] assms(4) by simp
  then have "registry_grows (bw_registry w1) (bw_registry w2)"
    unfolding assms(6) by (rule run_commands_grows [OF assms(1)])
  then show ?thesis by (rule stored_replay_after [OF assms(1) inv assms(4,5)])
qed

section \<open>The retained original\<close>

definition store_grows :: "bank_world \<Rightarrow> bank_world \<Rightarrow> bool" where
  "store_grows w w' \<longleftrightarrow> memory_store.keeps (bw_store w) (bw_store w')"

lemma store_grows_refl: "reflp store_grows"
  using memory_store.reflp_keeps by (auto simp: reflp_def store_grows_def)

lemma store_grows_trans: "transp store_grows"
  using memory_store.transp_keeps unfolding transp_def store_grows_def by blast

lemma read_keeps_store: "io_keeps store_grows (bank_read f)"
  using store_grows_refl by (simp add: io_keeps_def bank_read_def reflp_def)

lemma get_keeps_store: "io_keeps store_grows (io_get f)"
  using store_grows_refl by (simp add: io_keeps_def io_get_def reflp_def)

lemma update_keeps_store: "io_keeps store_grows (bank_update f)"
  using memory_store.reflp_keeps
  by (auto simp: io_keeps_def bank_update_def store_grows_def reflp_def split: sum.splits prod.splits)

lemma put_keeps_store: "io_keeps store_grows (store_artifact host_store h raw)"
  using memory_store.reflp_keeps memory_store.keeps_put
  by (auto simp: io_keeps_def store_artifact_def store_grows_def reflp_def split: sum.splits prod.splits)

lemma session_keeps_store: "io_keeps store_grows m \<Longrightarrow> io_keeps store_grows (bank_session srv m)"
  using store_grows_refl
  by (auto simp: io_keeps_def session_def bank_rollback_def store_grows_def reflp_def split: sum.splits prod.splits)
    (metis fst_conv)+

lemmas keeps_store = io_keeps_bind [OF store_grows_trans] io_keeps_lift [OF store_grows_refl] read_keeps_store
  get_keeps_store update_keeps_store put_keeps_store session_keeps_store

lemma register_keeps_store: "io_keeps store_grows (accept_bank_account_record srv v tenant)"
  unfolding accept_bank_account_record_def register_bank_account_def registry_tenant_def Let_def
  by (intro keeps_store) (auto intro: keeps_store split: option.splits)

lemma assign_keeps_store: "io_keeps store_grows (accept_bank_account_assignment srv v tenant)"
  unfolding accept_bank_account_assignment_def assign_bank_account_def registry_tenant_def Let_def
  by (intro keeps_store) (auto intro!: keeps_store split: option.splits)

lemma ingest_keeps_store: "io_keeps store_grows (accept_bank_statement_evidence package expat srv host_store v tenant)"
  unfolding accept_bank_statement_evidence_def ingest_statement_def registry_tenant_def
  by (intro keeps_store) (auto intro!: keeps_store split: option.splits sum.splits)

lemma run_keeps_store: "store_grows w (run_bank_commands package expat srv w cs)"
proof (induction cs arbitrary: w)
  case Nil
  then show ?case using store_grows_refl by (simp add: run_bank_commands_def reflp_def)
next
  case (Cons c cs)
  have "store_grows w (run_bank_command package expat srv w c)"
    using register_keeps_store assign_keeps_store ingest_keeps_store
    by (cases c) (auto simp: run_bank_command_def io_keeps_def)
  then have "store_grows w (run_bank_commands package expat srv (run_bank_command package expat srv w c) cs)"
    by (rule transpD [OF store_grows_trans _ Cons.IH])
  then show ?case by (simp add: run_bank_commands_def)
qed


section \<open>Totals\<close>

text \<open>The exact sum of the amounts of the entries of one side.\<close>

definition side_sum :: "string \<Rightarrow> normalized_statement \<Rightarrow> rat" where
  "side_sum side s = dval_sum (map ne_amount (filter (\<lambda>e. ne_credit_debit_code e = side) (ns_entries s)))"

lemma stored_amount:
  assumes "stored_entry tid i e row" "positive_amount (ne_amount e)"
  shows "ne_credit_debit_code (er_columns row) = ne_credit_debit_code e"
    and "dval (ne_amount (er_columns row)) = dval (ne_amount e)"
    and "dval (ne_amount (er_columns row)) = of_nat (dcoef (ne_amount (er_columns row))) * 10 powi (- 6)"
proof -
  have e: "er_columns row = e\<lparr>ne_amount := ne_amount (er_columns row), ne_entry_details := []\<rparr>"
    and fit: "numeric_38_6 (ne_amount e) = Inr (ne_amount (er_columns row))"
    using assms(1) by (auto simp: stored_entry_def)
  show "ne_credit_debit_code (er_columns row) = ne_credit_debit_code e"
    by (subst e) simp
  have stored: "ne_amount (er_columns row) = Dec False (nat (scaled (ne_amount e) (- 6))) (- 6)"
    using fit unfolding numeric_38_6_fits(1) [OF assms(2)] by (auto split: if_splits)
  then show "dval (ne_amount (er_columns row)) = dval (ne_amount e)"
    using numeric_38_6_fits(3) [OF assms(2)] by simp
  show "dval (ne_amount (er_columns row)) = of_nat (dcoef (ne_amount (er_columns row))) * 10 powi (- 6)"
    by (simp add: stored dval_def signed_coef_def)
qed

lemma side_total_exact:
  assumes "list_all2 (stored_entry tid i) es rows" "\<forall>e\<in>set es. positive_amount (ne_amount e)"
  shows "dval (side_total side rows) = dval_sum (map ne_amount (filter (\<lambda>e. ne_credit_debit_code e = side) es))"
proof -
  have "of_nat (sum_list (map dcoef (map (\<lambda>row. ne_amount (er_columns row))
         (filter (\<lambda>row. ne_credit_debit_code (er_columns row) = side) rows)))) * 10 powi (- 6) =
      dval_sum (map ne_amount (filter (\<lambda>e. ne_credit_debit_code e = side) es))"
    using assms
  proof (induction es rows rule: list_all2_induct)
    case (Cons e es row rows)
    note stored = stored_amount [OF Cons.hyps(1), of]
    show ?case using Cons.IH Cons.prems stored by (simp add: distrib_right)
  qed simp
  moreover have "dval (side_total side rows) = of_nat (sum_list (map dcoef (map (\<lambda>row. ne_amount (er_columns row))
         (filter (\<lambda>row. ne_credit_debit_code (er_columns row) = side) rows)))) * 10 powi (- 6)"
    by (simp add: side_total_def column_total_def dval_def signed_coef_def dec_zero_def)
  ultimately show ?thesis by simp
qed

text \<open>C33 The document of a stored statement counts its entries and names the exact sums of its credit and of
  its debit entries, printed as decimal texts: nothing is rounded away by the columns they pass through.\<close>

theorem totals_exact:
  assumes "inj (sv_uuid srv)" "empty_registry (bw_registry w0)"
    and "w = run_bank_commands package expat srv w0 earlier"
    and "accept_bank_statement_evidence package expat srv host_store v tenant w = (w1, Inr doc)"
    and "get_value doc ''replayed'' = PBool False"
    and "bind_result (require_bank_command v ''a bank-statement command'' tenant) read_statement_command = Inr c"
    and "parse_bank_statement_payload package expat (sk_raw_bytes c) (sk_message_definition c) = Inr s"
  shows "get_value doc ''entry_count'' = PInt (int (length (ns_entries s))) \<and>
     (\<exists>credit debit. get_value doc ''credit_total_amount'' = PStr (decimal_text credit) \<and> dval credit = side_sum ''CRDT'' s \<and>
        get_value doc ''debit_total_amount'' = PStr (decimal_text debit) \<and> dval debit = side_sum ''DBIT'' s)"
proof -
  have inv: "registry_inv srv (bw_registry w)"
    unfolding assms(3) by (rule run_commands_inv [OF assms(1) empty_registry_inv [OF assms(2)]])
  obtain c' s' tid account a r rows
    where ing: "ingestion_of package expat srv (bw_registry w) v tenant c' s' tid account"
      and stored: "list_all2 (stored_entry tid (sr_id r)) (ns_entries s') rows"
      and doc: "doc = statement_document tenant r a account rows False"
    by (rule fresh_ingestion [OF assms(1) inv assms(4,5)])
  have s': "s' = s" using ing assms(6,7) by (auto simp: ingestion_of_def)
  have "\<forall>e\<in>set (ns_entries s). positive_amount (ne_amount e)"
    using statement_insertable [OF parsed_statement_ok [OF assms(7)]] by (auto simp: entry_insertable_def)
  note exact = side_total_exact [OF stored [unfolded s'] this]
  show ?thesis
    using list_all2_lengthD [OF stored] exact
    unfolding doc statement_document_fields side_sum_def s'
    by (intro conjI exI [of _ "side_total ''CRDT'' rows"] exI [of _ "side_total ''DBIT'' rows"]) simp_all
qed

section \<open>An ingestion that is stored\<close>

definition sample_bank_server :: db_server where
  "sample_bank_server =
     \<lparr>sv_url = ''postgresql://ledger'', sv_reachable = True, sv_session_tenant = Some 7, sv_bypasses_row_security = False,
      sv_uuid = Suc, sv_clock = (\<lambda>n. \<lparr>dt_date = Date 2026 1 31, dt_hour = 0,
        dt_minute = 0, dt_second = 0, dt_micro = 0, dt_offset = Some 0\<rparr>)\<rparr>"

definition sample_bank_world :: bank_world where
  "sample_bank_world =
     \<lparr>bw_registry = \<lparr>ct_tenants = [\<lparr>tn_id = 7, tn_code = ''urn:cwl:tenant_001''\<rparr>], ct_entities = [], ct_books = [], ct_charts = [],
        rg_accounts = [], rg_assignments = [], rg_artifacts = [], rg_statements = [], rg_entries = [],
        rg_details = [], rg_inserted = 0\<rparr>, bw_store = []\<rparr>"

definition sample_account_command :: py_value where
  "sample_account_command =
     PDict [(''tenant_reference'', PStr ''urn:cwl:tenant_001''), (''bank_account_reference'', PStr ''urn:cwl:account_001''),
       (''account_currency_code'', PStr ''KRW''), (''account_identifier'', PStr ''KR-1'')]"

definition sample_statement_command :: py_value where
  "sample_statement_command =
     PDict [(''tenant_reference'', PStr ''urn:cwl:tenant_001''), (''bank_account_reference'', PStr ''urn:cwl:account_001''),
       (''ingestion_idempotency_key'', PStr ''key-1''), (''message_definition_identifier'', PStr ''camt.053.001.14''),
       (''statement_payload'', PStr ''<x/>'')]"

definition sample_read_command :: statement_command where
  "sample_read_command =
     \<lparr>sk_bank_account_reference = ''urn:cwl:account_001'', sk_idempotency_key = ''key-1'',
      sk_message_definition = ''camt.053.001.14'', sk_raw_bytes = ''<x/>''\<rparr>"

abbreviation sample_registered :: bank_world where
  "sample_registered \<equiv> run_bank_commands sample_package sample_expat sample_bank_server sample_bank_world
     [Register_Account sample_account_command ''urn:cwl:tenant_001'']"

lemma sample_start: "inj (sv_uuid sample_bank_server)" "empty_registry (bw_registry sample_bank_world)"
  by (simp_all add: sample_bank_server_def sample_bank_world_def empty_registry_def inj_def)

lemma sample_bank_texts:
  "strip ''urn:cwl:tenant_001'' = ''urn:cwl:tenant_001''" "strip ''urn:cwl:account_001'' = ''urn:cwl:account_001''" "strip ''key-1'' = ''key-1''" "strip ''KRW'' = ''KRW''"
  "strip ''camt.053.001.14'' = ''camt.053.001.14''" "currency_pattern ''KRW''"
  "require_reference ''urn:cwl:tenant_001'' ''tenant reference'' = Inr ()"
  "require_reference ''urn:cwl:account_001'' ''bank account reference'' = Inr ()"
  "encode_utf8 ''<x/>'' = ''<x/>''"
  by code_simp+

lemma sample_command_read:
  "bind_result (require_bank_command sample_statement_command ''a bank-statement command'' ''urn:cwl:tenant_001'') read_statement_command =
     Inr sample_read_command"
  by (simp add: sample_statement_command_def sample_read_command_def require_bank_command_def read_statement_command_def
      get_value_def text_field_def sample_bank_texts check_supplied_hash_def none_or_empty_def Let_def)

definition sample_account :: bank_account_row where
  "sample_account =
     \<lparr>ba_id = 1, ba_tenant = 7, ba_reference = ''urn:cwl:account_001'', ba_currency_code = ''KRW'',
      ba_identifier_hash = sha256_digest (encode_utf8 ''KR-1'')\<rparr>"

lemma sample_server_reachable: "sv_reachable sample_bank_server"
  by (simp add: sample_bank_server_def)

lemma sample_registration:
  "sample_registered = sample_bank_world\<lparr>bw_registry :=
     (bw_registry sample_bank_world)\<lparr>rg_accounts := [sample_account], rg_inserted := 1\<rparr>\<rparr>"
proof -
  let ?p = "[(''tenant_reference'', PStr ''urn:cwl:tenant_001''), (''bank_account_reference'', PStr ''urn:cwl:account_001''),
       (''account_currency_code'', PStr ''KRW''), (''account_identifier'', PStr ''KR-1'')]"
  let ?hash = "sha256_digest (encode_utf8 ''KR-1'')"
  have read: "require_bank_command sample_account_command ''a bank-account command'' ''urn:cwl:tenant_001'' = Inr ?p"
    by (simp add: sample_account_command_def require_bank_command_def get_value_def)
  have texts: "text_field ?p ''bank_account_reference'' = ''urn:cwl:account_001''"
      "text_field ?p ''account_currency_code'' = ''KRW''" "account_identifier_hash ?p = Inr ?hash"
      "require_currency ''KRW'' = Inr ()" "bind_ledger sample_bank_server ''urn:cwl:tenant_001'' = Inr ()"
    by (simp_all add: get_value_def text_field_def account_identifier_hash_def require_currency_def bind_ledger_def
        sample_bank_texts sample_bank_server_def)
  have tenant: "require_tenant sample_bank_server [\<lparr>tn_id = 7, tn_code = ''urn:cwl:tenant_001''\<rparr>] ''urn:cwl:tenant_001'' = Inr 7"
    by (simp add: require_tenant_def sample_bank_server_def)
  have insert: "insert_bank_account sample_bank_server
       \<lparr>ba_id = 0, ba_tenant = 7, ba_reference = ''urn:cwl:account_001'', ba_currency_code = ''KRW'', ba_identifier_hash = ?hash\<rparr>
       (bw_registry sample_bank_world) =
      Inr ((bw_registry sample_bank_world)\<lparr>rg_accounts := [sample_account], rg_inserted := 1\<rparr>, 1)"
    by (simp add: insert_bank_account_def next_id_def sample_bank_server_def sample_bank_world_def sample_account_def)
  have "register_bank_account sample_bank_server ''urn:cwl:tenant_001'' ''urn:cwl:account_001'' ''KRW'' ?hash sample_bank_world =
      (sample_bank_world\<lparr>bw_registry := (bw_registry sample_bank_world)\<lparr>rg_accounts := [sample_account], rg_inserted := 1\<rparr>\<rparr>,
       Inr (bank_account_document ''urn:cwl:tenant_001'' ''urn:cwl:account_001'' 1 False))"
    using insert
    by (simp add: register_bank_account_def registry_tenant_def bank_read_def bank_update_def io_bind_def io_lift_def
        tenant io_get_def sample_bank_world_def)
  then show ?thesis
    by (simp add: run_bank_commands_def run_bank_command_def accept_bank_account_record_def read texts sample_bank_texts
        session_def sample_server_reachable Let_def)
qed

lemma sample_ingestion:
  "\<exists>w1 doc s. accept_bank_statement_evidence sample_package sample_expat sample_bank_server True sample_statement_command
       ''urn:cwl:tenant_001'' sample_registered = (w1, Inr doc) \<and> get_value doc ''replayed'' = PBool False \<and>
     parse_bank_statement_payload sample_package sample_expat ''<x/>'' ''camt.053.001.14'' = Inr s"
proof -
  let ?reg = "bw_registry sample_registered"
  obtain s where s: "parse_bank_statement_payload sample_package sample_expat ''<x/>'' ''camt.053.001.14'' = Inr s"
      "ns_account_currency_code s = ''KRW''" "map ne_amount (ns_entries s) = [Dec False 12550 (- 2), Dec False 20 0]"
      "map ne_currency_code (ns_entries s) = [''KRW'', ''KRW'']"
      "map (\<lambda>e. map ed_amount (ne_entry_details e)) (ns_entries s) = [[], [Dec False 20 0]]"
      "ns_account_identifier_hash s = sha256_digest (encode_utf8 ''KR-1'')"
    using sample_statement_accepted by (elim exE conjE) (rule that; assumption)
  have inv: "registry_inv sample_bank_server ?reg"
    by (rule run_commands_inv [OF sample_start(1) empty_registry_inv [OF sample_start(2)]])
  have prior: "prior_statement 7 (ba_id sample_account) ''key-1'' s ?reg = None"
    unfolding sample_registration by (simp add: prior_statement_def sample_bank_world_def)
  have put: "store_artifact True (ns_source_artifact_hash s) ''<x/>'' sample_registered =
     (sample_registered\<lparr>bw_store := [(ns_source_artifact_hash s, ''<x/>'')]\<rparr>, Inr (memory_prefix @ ns_source_artifact_hash s))"
    unfolding sample_registration by (simp add: store_artifact_def put_artifact_def sample_bank_world_def)
  let ?w = "sample_registered\<lparr>bw_store := [(ns_source_artifact_hash s, ''<x/>'')]\<rparr>"
  let ?locator = "memory_prefix @ ns_source_artifact_hash s"
  obtain e f where entries: "ns_entries s = [e, f]" and amounts: "ne_amount e = Dec False 12550 (- 2)" "ne_amount f = Dec False 20 0"
    using s(3) by (auto simp: map_eq_Cons_conv)
  then have "list_all entry_fits (ns_entries s)"
    using s(5) by (auto simp: entry_fits_def list_all_iff amount_fits_def dval_def signed_coef_def power_int_minus)
  then obtain reg' i where insert: "insert_statement_rows sample_bank_server 7 (ba_id sample_account) ''key-1'' s ?locator (length ''<x/>'') ?reg = Inr (reg', i)"
    using new_statement_result [OF sample_start(1) inv parsed_statement_ok [OF s(1)] prior, of ?locator "length ''<x/>''"]
    by (auto simp: not_blank_def)
  obtain r a rows where load: "load_statement_document 7 ''urn:cwl:tenant_001'' i False reg' =
      Inr (statement_document ''urn:cwl:tenant_001'' r a sample_account rows False)"
    by (rule inserted_loads [OF sample_start(1) inv insert_statement_rows_effect [OF insert sample_start(1)],
          of "''urn:cwl:tenant_001''" False])
      (auto simp: sample_registration sample_account_def)
  have "check_statement_account sample_account s = Inr ()"
    using s(2,4,6) by (simp add: check_statement_account_def sample_account_def require_entry_currencies_def entries)
  moreover have "require_tenant sample_bank_server (ct_tenants ?reg) ''urn:cwl:tenant_001'' = Inr 7"
      "load_bank_account 7 ''urn:cwl:account_001'' ?reg = Inr sample_account"
    unfolding sample_registration
    by (simp_all add: require_tenant_def sample_bank_server_def sample_bank_world_def load_bank_account_def sample_account_def)
  ultimately have "ingest_statement sample_bank_server True ''urn:cwl:tenant_001'' sample_read_command s sample_registered =
      (?w\<lparr>bw_registry := reg'\<rparr>, Inr (statement_document ''urn:cwl:tenant_001'' r a sample_account rows False))"
    using prior put insert load
    by (simp add: ingest_statement_def registry_tenant_def bank_read_def io_bind_def io_get_def io_lift_def sample_read_command_def
        bank_update_def)
  moreover have "bind_ledger sample_bank_server ''urn:cwl:tenant_001'' = Inr ()"
    by (simp add: bind_ledger_def sample_bank_texts sample_bank_server_def)
  ultimately have "accept_bank_statement_evidence sample_package sample_expat sample_bank_server True sample_statement_command
       ''urn:cwl:tenant_001'' sample_registered =
     (?w\<lparr>bw_registry := reg'\<rparr>, Inr (statement_document ''urn:cwl:tenant_001'' r a sample_account rows False))"
    using s(1) by (simp add: accept_bank_statement_evidence_def sample_command_read sample_read_command_def session_def
        sample_server_reachable)
  then show ?thesis using s(1) statement_document_fields(1) by metis
qed

theorem bank_registry_invariant_witness:
  "\<exists>w. w = run_bank_commands sample_package sample_expat sample_bank_server sample_bank_world
       [Register_Account sample_account_command ''urn:cwl:tenant_001'',
        Ingest_Statement sample_statement_command ''urn:cwl:tenant_001'' True] \<and>
     artifact_keys (bw_registry w) = statement_keys (bw_registry w) \<and>
     list_all (entry_owned (bw_registry w)) (rg_entries (bw_registry w))"
  using bank_registry_invariant [OF sample_start refl, of sample_package sample_expat
      "[Register_Account sample_account_command ''urn:cwl:tenant_001'',
        Ingest_Statement sample_statement_command ''urn:cwl:tenant_001'' True]"] by blast


theorem ingestion_replays_witness:
  "\<exists>w1 doc. accept_bank_statement_evidence sample_package sample_expat sample_bank_server True sample_statement_command
       ''urn:cwl:tenant_001'' sample_registered = (w1, Inr doc) \<and>
     accept_bank_statement_evidence sample_package sample_expat sample_bank_server False sample_statement_command
       ''urn:cwl:tenant_001'' w1 = (w1, Inr (butlast doc @ [(''replayed'', PBool True)]))"
proof -
  obtain w1 doc where run: "accept_bank_statement_evidence sample_package sample_expat sample_bank_server True
      sample_statement_command ''urn:cwl:tenant_001'' sample_registered = (w1, Inr doc)"
    and new: "get_value doc ''replayed'' = PBool False"
    using sample_ingestion by blast
  have "w1 = run_bank_commands sample_package sample_expat sample_bank_server w1 []" by (simp add: run_bank_commands_def)
  from run ingestion_replays [OF sample_start refl run new this] show ?thesis by blast
qed


theorem totals_exact_witness:
  "\<exists>w1 doc. accept_bank_statement_evidence sample_package sample_expat sample_bank_server True sample_statement_command
       ''urn:cwl:tenant_001'' sample_registered = (w1, Inr doc) \<and> get_value doc ''entry_count'' = PInt 2 \<and>
     (\<exists>credit. get_value doc ''credit_total_amount'' = PStr (decimal_text credit) \<and> dval credit = 251 / 2)"
proof -
  obtain w1 doc where run: "accept_bank_statement_evidence sample_package sample_expat sample_bank_server True
      sample_statement_command ''urn:cwl:tenant_001'' sample_registered = (w1, Inr doc)"
    and new: "get_value doc ''replayed'' = PBool False"
    using sample_ingestion by blast
  obtain s where s: "parse_bank_statement_payload sample_package sample_expat ''<x/>'' ''camt.053.001.14'' = Inr s"
      "map ne_amount (ns_entries s) = [Dec False 12550 (- 2), Dec False 20 0]"
      "map ne_credit_debit_code (ns_entries s) = [''CRDT'', ''DBIT'']"
    using sample_statement_accepted by (elim exE conjE) (rule that; assumption)
  obtain e f where entries: "ns_entries s = [e, f]"
      and e: "ne_amount e = Dec False 12550 (- 2)" "ne_credit_debit_code e = ''CRDT''" "ne_credit_debit_code f = ''DBIT''"
    using s(2,3) by (auto simp: map_eq_Cons_conv)
  have credit: "side_sum ''CRDT'' s = 251 / 2"
    by (simp add: side_sum_def entries e dval_def signed_coef_def power_int_minus)
  have "parse_bank_statement_payload sample_package sample_expat (sk_raw_bytes sample_read_command)
      (sk_message_definition sample_read_command) = Inr s"
    using s(1) by (simp add: sample_read_command_def)
  from run totals_exact [OF sample_start refl run new sample_command_read this] show ?thesis
    by (auto simp: credit entries)
qed

end
