(* ===== verification/Bank_Pages.thy ===== *)
theory Bank_Pages
  imports Bank_Replay Paging_Properties
begin

text \<open>
  A client that follows the cursors of \<open>lookup_bank_statement_entries\<close> (\<open>bank_statement.py\<close>) from page to
  page comes to an end, and has then read every entry of the statement once, in order.
\<close>

section \<open>The client\<close>

definition page_entries :: "payload \<Rightarrow> py_value list" where
  "page_entries doc = (case dict_get doc ''bank_statement_entries'' of Some (PList entries) \<Rightarrow> entries | _ \<Rightarrow> [])"

text \<open>It asks for the first page without a cursor, and stops at a page that has no next cursor.\<close>

partial_function (option) follow_pages :: "(string option \<Rightarrow> payload result) \<Rightarrow> string option \<Rightarrow> py_value list result option" where
  "follow_pages read_page cursor =
     (case read_page cursor of
        Inl e \<Rightarrow> Some (Inl e)
      | Inr doc \<Rightarrow>
          (case dict_get doc ''next_cursor'' of
             Some (PStr next_cursor) \<Rightarrow>
               Option.bind (follow_pages read_page (Some next_cursor)) (\<lambda>rest.
                 Some (bind_result rest (\<lambda>entries. Inr (page_entries doc @ entries))))
           | _ \<Rightarrow> Some (Inr (page_entries doc))))"

section \<open>One page\<close>

abbreviation entry_number :: "entry_row \<Rightarrow> int" where
  "entry_number row \<equiv> ne_sequence_number (er_columns row)"

lemma entries_after_filter: "a \<le> b \<Longrightarrow> entries_after b tid sid reg = filter (\<lambda>row. b < entry_number row) (entries_after a tid sid reg)"
  by (auto simp: entries_after_def filter_sort intro!: arg_cong [where f = "sort_key _"] filter_cong)

lemma entries_after_strict:
  assumes "registry_inv srv reg"
  shows "sorted_wrt (\<lambda>x y. entry_number x < entry_number y) (entries_after a tid sid reg)"
proof -
  let ?rows = "filter (\<lambda>row. a < entry_number row) (statement_entries tid sid reg)"
  have "distinct (map entry_key (rg_entries reg))" using assms by (simp add: registry_inv_def)
  then have "distinct (map entry_number ?rows)"
    by (auto simp: distinct_map inj_on_def statement_entries_def entry_key_def intro: distinct_filter)
  then have "distinct (map entry_number (entries_after a tid sid reg))" by (simp add: entries_after_def distinct_map)
  moreover have "sorted (map entry_number (entries_after a tid sid reg))" by (simp add: entries_after_def)
  ultimately have "sorted_wrt (<) (map entry_number (entries_after a tid sid reg))" by (simp add: strict_sorted_iff)
  then show ?thesis by (simp add: sorted_wrt_map)
qed

lemma strict_rest:
  fixes key :: "'a \<Rightarrow> 'b::linorder"
  assumes "sorted_wrt (\<lambda>x y. key x < key y) xs" "0 < n" "n \<le> length xs"
  shows "filter (\<lambda>x. key (last (take n xs)) < key x) xs = drop n xs"
proof -
  have "last (take n xs) = xs ! (n - 1)" using assms(2,3) by (subst last_conv_nth) (auto simp: min_def)
  moreover have "filter (\<lambda>x. key (xs ! (n - 1)) < key x) (take n xs) = []"
  proof -
    have "key (xs ! i) \<le> key (xs ! (n - 1))" if "i < n" for i
    proof (cases "i = n - 1")
      case False
      then have "i < n - 1" "n - 1 < length xs" using that assms(2,3) by auto
      then show ?thesis using assms(1) by (simp add: sorted_wrt_iff_nth_less less_imp_le)
    qed simp
    then show ?thesis by (auto simp: filter_empty_conv in_set_conv_nth not_less)
  qed
  moreover have "filter (\<lambda>x. key (xs ! (n - 1)) < key x) (drop n xs) = drop n xs"
    using assms by (auto simp: filter_id_conv in_set_conv_nth sorted_wrt_iff_nth_less)
  moreover have "filter P xs = filter P (take n xs) @ filter P (drop n xs)" for P
    by (metis append_take_drop_id filter_append)
  ultimately show ?thesis by simp
qed

lemma entry_cursor_number: "0 \<le> b \<Longrightarrow> entry_cursor (Some (int_text b)) = Inr b"
  using int_of_nat_text [of "nat b"] by (auto simp: entry_cursor_def int_text_def)

lemma entries_after_positive:
  assumes "registry_inv srv reg" "row \<in> set (entries_after a tid sid reg)"
  shows "1 \<le> entry_number row" "a < entry_number row"
  using assms by (auto simp: entries_after_def statement_entries_def registry_inv_def)

text \<open>What a page is, in terms of the entries that follow the cursor.\<close>

lemma entry_page_cases:
  assumes "entry_page tref sid limit a tid reg = Inr doc" "1 \<le> limit" "registry_inv srv reg"
  defines "rows \<equiv> entries_after a tid sid reg" and "n \<equiv> nat limit"
  shows "page_entries doc = map (\<lambda>row. PDict (entry_document tid reg row)) (take n rows)"
    and "length rows \<le> n \<Longrightarrow> dict_get doc ''next_cursor'' = Some PNone"
    and "n < length rows \<Longrightarrow> \<exists>b. dict_get doc ''next_cursor'' = Some (PStr (int_text b)) \<and> 1 \<le> b \<and>
      entries_after b tid sid reg = drop n rows"
proof -
  have doc: "doc = [(''tenant_reference'', PStr tref), (''bank_statement_record_id'', PStr (uuid_text sid)),
      (''bank_statement_entries'', PList (map (\<lambda>row. PDict (entry_document tid reg row)) (take n rows))),
      (''next_cursor'', if length rows \<le> n then PNone else PStr (int_text (entry_number (last (take n rows)))))]"
  proof -
    have "int (length (take (n + 1) rows)) \<le> limit \<longleftrightarrow> length rows \<le> n"
      using assms(2) by (auto simp: n_def min_def)
    moreover have "take n (take (n + 1) rows) = take n rows" by (simp add: min_def)
    ultimately show ?thesis
      using assms(1) by (simp add: entry_page_def rows_def [symmetric] n_def [symmetric] Let_def split: if_splits)
  qed
  show "page_entries doc = map (\<lambda>row. PDict (entry_document tid reg row)) (take n rows)"
    by (simp add: doc page_entries_def)
  show "length rows \<le> n \<Longrightarrow> dict_get doc ''next_cursor'' = Some PNone" by (simp add: doc)
  assume more: "n < length rows"
  let ?b = "entry_number (last (take n rows))"
  have n: "0 < n" using assms(2) by (simp add: n_def)
  then have "last (take n rows) \<in> set rows"
    using more by (intro in_set_takeD [OF last_in_set]) auto
  then have b: "1 \<le> ?b" "a < ?b" using entries_after_positive [OF assms(3)] by (auto simp: rows_def)
  have "entries_after ?b tid sid reg = filter (\<lambda>row. ?b < entry_number row) rows"
    unfolding rows_def by (rule entries_after_filter) (use b rows_def in simp)
  also have "\<dots> = drop n rows"
    using strict_rest [of entry_number rows n] entries_after_strict [OF assms(3)] n more by (simp add: rows_def)
  finally show "\<exists>b. dict_get doc ''next_cursor'' = Some (PStr (int_text b)) \<and> 1 \<le> b \<and> entries_after b tid sid reg = drop n rows"
    using b more by (intro exI [of _ ?b]) (simp add: doc)
qed

section \<open>All pages\<close>

lemma follow_entry_pages:
  assumes inv: "registry_inv srv reg" and limit: "1 \<le> limit"
    and page: "\<And>cursor a. entry_cursor cursor = Inr a \<Longrightarrow> read_page cursor = entry_page tref sid limit a tid reg"
    and known: "list_ex (\<lambda>row. sr_tenant row = tid \<and> sr_id row = sid) (rg_statements reg)"
    and cursor: "entry_cursor cursor = Inr a"
  shows "follow_pages read_page cursor =
     Some (Inr (map (\<lambda>row. PDict (entry_document tid reg row)) (entries_after a tid sid reg)))"
  using cursor
proof (induction "length (entries_after a tid sid reg)" arbitrary: a cursor rule: less_induct)
  case less
  let ?rows = "entries_after a tid sid reg" and ?n = "nat limit"
  obtain doc where doc: "entry_page tref sid limit a tid reg = Inr doc"
    using known by (auto simp: entry_page_def Let_def)
  note cases = entry_page_cases [OF doc limit inv]
  show ?case
  proof (cases "length ?rows \<le> ?n")
    case True
    then show ?thesis
      using cases(1) cases(2) [OF True] by (subst follow_pages.simps) (simp add: page [OF less.prems] doc)
  next
    case False
    then obtain b where b: "dict_get doc ''next_cursor'' = Some (PStr (int_text b))" "1 \<le> b"
        "entries_after b tid sid reg = drop ?n ?rows"
      using cases(3) by auto
    have "length (entries_after b tid sid reg) < length ?rows" using False limit b(3) by simp
    from less.hyps [OF this entry_cursor_number] b(2)
    have "follow_pages read_page (Some (int_text b)) =
        Some (Inr (map (\<lambda>row. PDict (entry_document tid reg row)) (drop ?n ?rows)))"
      by (simp add: b(3))
    then show ?thesis
      using cases(1) b(1)
      by (subst follow_pages.simps) (simp add: page [OF less.prems] doc map_append [symmetric] del: map_append)
  qed
qed

lemma lookup_entries_page:
  assumes "sv_reachable srv" "bind_ledger srv tenant = Inr ()" "require_tenant srv (ct_tenants (bw_registry w)) tenant = Inr tid"
    and "uuid_of_text rid = Some sid" "1 \<le> limit" "limit \<le> 100" "entry_cursor cursor = Inr a"
  shows "snd (lookup_bank_statement_entries srv tenant rid (Some limit) cursor w) =
     entry_page tenant sid limit a tid (bw_registry w)"
  using assms
  by (auto simp: lookup_bank_statement_entries_def require_uuid_def statement_page_limit_def io_bind_def io_lift_def session_def
      registry_tenant_def bank_read_def split: sum.splits)

lemma stored_numbers:
  assumes "list_all2 (stored_entry tid i) es rows" "map ne_sequence_number es = map int [1..<Suc (length es)]"
  shows "map entry_number rows = map int [1..<Suc (length es)]" "length rows = length es"
proof -
  show "length rows = length es" using list_all2_lengthD [OF assms(1)] by simp
  have "map entry_number rows = map ne_sequence_number es"
    using assms(1)
  proof (induction es rows rule: list_all2_induct)
    case (Cons e es row rows)
    have "entry_number row = ne_sequence_number e" using stored_entry_number [OF Cons.hyps(1)] by (simp add: entry_key_def)
    then show ?case using Cons.IH by simp
  qed simp
  then show "map entry_number rows = map int [1..<Suc (length es)]" by (simp add: assms(2))
qed

text \<open>C39 Reading the entries of a stored statement page by page ends: a client that follows the cursors of
  \<open>lookup_bank_statement_entries\<close> from the first page on, with any page size the API allows and after any
  further commands, comes to a page without a cursor, and has then received as many entries as the
  ingestion counted, each once and in the order of the statement.\<close>

theorem entry_pages_end:
  assumes "inj (sv_uuid srv)" "empty_registry (bw_registry w0)"
    and "w = run_bank_commands package expat srv w0 earlier"
    and "accept_bank_statement_evidence package expat srv host_store v tenant w = (w1, Inr doc)"
    and "get_value doc ''replayed'' = PBool False"
    and "w2 = run_bank_commands package expat srv w1 later"
    and "get_value doc ''bank_statement_record_id'' = PStr rid" "sv_uuid srv (Suc (rg_inserted (bw_registry w))) < 2 ^ 128"
    and "get_value doc ''entry_count'' = PInt (int n)" "1 \<le> limit" "limit \<le> 100"
  shows "\<exists>entries. follow_pages (\<lambda>cursor. snd (lookup_bank_statement_entries srv tenant rid (Some limit) cursor w2)) None =
       Some (Inr (map PDict entries)) \<and>
     map (\<lambda>entry. get_value entry ''entry_sequence_number'') entries = map (\<lambda>i. PInt (int i)) [1..<Suc n]"
proof -
  have inv: "registry_inv srv (bw_registry w)"
    unfolding assms(3) by (rule run_commands_inv [OF assms(1) empty_registry_inv [OF assms(2)]])
  have inv1: "registry_inv srv (bw_registry w1)"
    using ingest_inv [OF assms(1) inv, of package expat host_store v tenant] assms(4) by simp
  have later: "registry_grows (bw_registry w1) (bw_registry w2)" and inv2: "registry_inv srv (bw_registry w2)"
    unfolding assms(6) by (rule run_commands_grows [OF assms(1) inv1], rule run_commands_inv [OF assms(1) inv1])
  obtain c s tid account a r rows
    where ing: "ingestion_of package expat srv (bw_registry w) v tenant c s tid account"
      and r: "rg_statements (bw_registry w1) = rg_statements (bw_registry w) @ [r]" "sr_tenant r = tid"
        "sr_id r = sv_uuid srv (Suc (rg_inserted (bw_registry w)))"
      and stored: "list_all2 (stored_entry tid (sr_id r)) (ns_entries s) rows"
      and doc: "doc = statement_document tenant r a account rows False"
      and rows: "statement_entries tid (sr_id r) (bw_registry w1) = rows"
    by (rule fresh_ingestion [OF assms(1) inv assms(4,5)])
  have s: "statement_ok (sk_raw_bytes c) s" using ing parsed_statement_ok by (auto simp: ingestion_of_def)
  note numbers = stored_numbers [OF stored statement_numbers [OF s]]
  have n: "n = length (ns_entries s)" and rid: "rid = uuid_text (sr_id r)"
    using assms(7,9) numbers(2)
    by (auto simp: doc statement_document_fields) (simp add: statement_document_def get_value_def Let_def)
  have entries: "entries_after 0 tid (sr_id r) (bw_registry w2) = rows"
  proof -
    have "statement_entries tid (sr_id r) (bw_registry w2) = rows"
      using statement_entries_grows [OF later, of "sr_id r" tid] rows by (simp add: r(1))
    moreover have "filter (\<lambda>row. 0 < entry_number row) rows = rows"
    proof -
      have "\<forall>k\<in>set (map entry_number rows). 0 < k" unfolding numbers(1) by (auto simp del: upt_Suc)
      then show ?thesis by (simp add: filter_id_conv)
    qed
    moreover have "sorted (map entry_number rows)" unfolding numbers(1) by (simp add: sorted_map sorted_wrt_upt less_imp_le sorted_wrt_map del: upt_Suc)
    ultimately show ?thesis by (simp add: entries_after_def sort_key_id_if_sorted)
  qed
  have read: "snd (lookup_bank_statement_entries srv tenant rid (Some limit) cursor w2) = entry_page tenant (sr_id r) limit b tid (bw_registry w2)"
    if "entry_cursor cursor = Inr b" for cursor b
    using ing later ingestion_grows [OF assms(1) inv assms(4)] assms(8,10,11) that
    by (intro lookup_entries_page) (auto simp: ingestion_of_def registry_grows_def rid r(3) uuid_roundtrip)
  have known: "list_ex (\<lambda>row. sr_tenant row = tid \<and> sr_id row = sr_id r) (rg_statements (bw_registry w2))"
    using later r(1,2) by (auto simp: registry_grows_def)
  have "follow_pages (\<lambda>cursor. snd (lookup_bank_statement_entries srv tenant rid (Some limit) cursor w2)) None =
      Some (Inr (map PDict (map (entry_document tid (bw_registry w2)) rows)))"
    using follow_entry_pages [OF inv2 assms(10) read known, where cursor = None and a = 0] by (simp add: entry_cursor_def entries comp_def)
  moreover have "map (\<lambda>entry. get_value entry ''entry_sequence_number'') (map (entry_document tid (bw_registry w2)) rows) =
      map (\<lambda>i. PInt (int i)) [1..<Suc n]"
    using arg_cong [OF numbers(1), of "map PInt"] by (simp add: n comp_def entry_document_def get_value_def Let_def)
  ultimately show ?thesis by blast
qed

theorem entry_pages_end_witness:
  "\<exists>w1 doc rid entries. accept_bank_statement_evidence sample_package sample_expat sample_bank_server True sample_statement_command
       ''urn:cwl:tenant_001'' sample_registered = (w1, Inr doc) \<and>
     follow_pages (\<lambda>cursor. snd (lookup_bank_statement_entries sample_bank_server ''urn:cwl:tenant_001'' rid (Some 1) cursor w1)) None =
       Some (Inr (map PDict entries)) \<and> length entries = 2"
proof -
  obtain w1 doc where run: "accept_bank_statement_evidence sample_package sample_expat sample_bank_server True
      sample_statement_command ''urn:cwl:tenant_001'' sample_registered = (w1, Inr doc)"
    and new: "get_value doc ''replayed'' = PBool False"
    using sample_ingestion by blast
  have count: "get_value doc ''entry_count'' = PInt (int 2)"
    using totals_exact_witness run by simp
  have w1: "w1 = run_bank_commands sample_package sample_expat sample_bank_server w1 []" by (simp add: run_bank_commands_def)
  have id: "sv_uuid sample_bank_server (Suc (rg_inserted (bw_registry sample_registered))) < 2 ^ 128"
    unfolding sample_registration by (simp add: sample_bank_server_def)
  obtain rid where rid: "get_value doc ''bank_statement_record_id'' = PStr rid"
  proof -
    have inv: "registry_inv sample_bank_server (bw_registry sample_registered)"
      by (rule run_commands_inv [OF sample_start(1) empty_registry_inv [OF sample_start(2)]])
    obtain r a account rows where "doc = statement_document ''urn:cwl:tenant_001'' r a account rows False"
      by (rule fresh_ingestion [OF sample_start(1) inv run new])
    then show thesis using that by (simp add: statement_document_def get_value_def Let_def)
  qed
  from entry_pages_end [OF sample_start refl run new w1 rid id count, of 1] obtain entries where
    "follow_pages (\<lambda>cursor. snd (lookup_bank_statement_entries sample_bank_server ''urn:cwl:tenant_001'' rid (Some 1) cursor w1)) None =
       Some (Inr (map PDict entries))"
    "map (\<lambda>entry. get_value entry ''entry_sequence_number'') entries = map (\<lambda>i. PInt (int i)) [1..<Suc 2]" by auto
  moreover from this(2) have "length entries = 2" by (metis length_map length_upt diff_Suc_1)
  ultimately show ?thesis using run by blast
qed

end
