(* ===== verification/Ledger_Tables.thy ===== *)
theory Ledger_Tables
  imports Postgres_Session Posting_Ledger
begin

text \<open>
  The tables behind \<open>PostgresPostingLedger\<close> (\<open>persistence.py\<close>): proposals, journals with their lines,
  source references and reversals, receipts, the outbox, fiscal periods and role mappings, as lists of
  rows in the order of their inserts. Each insert checks what its migration declares (column types,
  CHECK and UNIQUE constraints, the triggers of the ledger) and fails with the SQLSTATE of PostgreSQL;
  foreign keys hold because every identifier was read from the referenced table. A command is one
  transaction: a result \<open>Inl e\<close> means that it was rolled back, so only a success has a new state.
\<close>

section \<open>Rows\<close>

record mapping_row =
  mp_tenant :: nat
  mp_book :: nat
  mp_role_code :: string
  mp_chart :: nat
  mp_policy_version :: string
  mp_rule_version :: string
  mp_valid_from :: datetime
  mp_valid_to :: "datetime option"

record calendar_row =
  cl_id :: nat
  cl_tenant :: nat
  cl_code :: string

record period_row =
  pe_id :: nat
  pe_tenant :: nat
  pe_calendar :: nat
  pe_code :: string
  pe_start_date :: date
  pe_end_date :: date
  pe_status_code :: string
  pe_closed_at :: "datetime option"

record control_row =
  pc_tenant :: nat
  pc_book :: nat
  pc_period :: nat
  pc_status_code :: string
  pc_closed_at :: "datetime option"
  pc_soft_close_key :: "string option"
  pc_soft_close_hash :: "string option"
  pc_soft_close_count :: "int option"

record open_row =
  po_tenant :: nat
  po_entity :: nat
  po_period :: nat
  po_key :: string
  po_hash :: string
  po_requested_start :: "date option"
  po_requested_end :: "date option"

record snapshot_row =
  sn_id :: nat
  sn_tenant :: nat
  sn_entity :: nat
  sn_book :: nat
  sn_period :: nat
  sn_currency_code :: string
  sn_generated_at :: datetime
  sn_journal_count :: int
  sn_hash :: string
  sn_close_key :: string

record balance_row =
  tb_tenant :: nat
  tb_snapshot :: nat
  tb_chart :: nat
  tb_debit :: dec
  tb_credit :: dec
  tb_net :: dec

record proposal_row =
  pr_id :: nat
  pr_tenant :: nat
  pr_external_id :: string
  pr_contract_version :: int
  pr_idempotency_key :: string
  pr_source_hash :: string

record journal_row =
  gj_id :: nat
  gj_tenant :: nat
  gj_entity :: nat
  gj_book :: nat
  gj_period :: nat
  gj_reference :: string
  gj_transaction_currency :: string
  gj_functional_currency :: string
  gj_transaction_date :: date
  gj_accounting_date :: date
  gj_proposal :: nat
  gj_policy_version :: string
  gj_rule_version :: string

record line_row =
  ln_tenant :: nat
  ln_journal :: nat
  ln_number :: int
  ln_chart :: nat
  ln_role_code :: string
  ln_debit :: dec
  ln_credit :: dec

record source_row =
  jr_tenant :: nat
  jr_journal :: nat
  jr_reference :: string
  jr_hash :: string

record reversal_row =
  rv_tenant :: nat
  rv_original :: nat
  rv_reversal :: nat
  rv_reason_code :: string

record receipt_row =
  rr_id :: nat
  rr_tenant :: nat
  rr_proposal :: nat
  rr_journal :: nat
  rr_hash :: string
  rr_created_at :: datetime

record outbox_row =
  ob_id :: nat
  ob_tenant :: nat
  ob_event_type :: string
  ob_aggregate_reference :: string
  ob_payload_reference :: string
  ob_payload_hash :: string
  ob_created_at :: datetime
  ob_published_at :: "datetime option"

record ledger_tables = catalog +
  lt_mappings :: "mapping_row list"
  lt_calendars :: "calendar_row list"
  lt_periods :: "period_row list"
  lt_controls :: "control_row list"
  lt_opens :: "open_row list"
  lt_snapshots :: "snapshot_row list"
  lt_balances :: "balance_row list"
  lt_proposals :: "proposal_row list"
  lt_journals :: "journal_row list"
  lt_lines :: "line_row list"
  lt_sources :: "source_row list"
  lt_reversals :: "reversal_row list"
  lt_receipts :: "receipt_row list"
  lt_outbox :: "outbox_row list"
  lt_inserted :: nat  \<comment> \<open>how many identifiers were drawn so far\<close>

text \<open>The server, and whether the role of the session may write journals into soft-closed periods.\<close>

record posting_server =
  ps_server :: db_server
  ps_closing_writer :: bool

definition fresh_id :: "posting_server \<Rightarrow> ledger_tables \<Rightarrow> nat" where
  "fresh_id srv t = sv_uuid (ps_server srv) (lt_inserted t)"

definition fresh_time :: "posting_server \<Rightarrow> ledger_tables \<Rightarrow> datetime" where
  "fresh_time srv t = sv_clock (ps_server srv) (lt_inserted t)"

text \<open>An \<open>integer\<close> column.\<close>

definition integer_column :: "int \<Rightarrow> int result" where
  "integer_column i = (if i < - (2 ^ 31) \<or> 2 ^ 31 \<le> i then Inl (DatabaseError ''22003'') else Inr i)"

section \<open>Periods\<close>

text \<open>\<open>COALESCE(accounting_book_period_control.period_status_code, fiscal_period.period_status_code)\<close>\<close>

definition book_period_status :: "ledger_tables \<Rightarrow> nat \<Rightarrow> nat \<Rightarrow> period_row \<Rightarrow> string" where
  "book_period_status t tenant_id book_id p =
     (case find (\<lambda>c. pc_tenant c = tenant_id \<and> pc_period c = pe_id p \<and> pc_book c = book_id) (lt_controls t) of
        Some c \<Rightarrow> pc_status_code c
      | None \<Rightarrow> pe_status_code p)"

text \<open>The trigger \<open>guard_period_insert\<close>.\<close>

definition guard_period_insert :: "posting_server \<Rightarrow> string \<Rightarrow> journal_row \<Rightarrow> ledger_tables \<Rightarrow> unit result" where
  "guard_period_insert srv write_role j t =
     (case find (\<lambda>p. pe_tenant p = gj_tenant j \<and> pe_id p = gj_period j) (lt_periods t) of
        None \<Rightarrow> Inl (DatabaseError ''23514'')
      | Some p \<Rightarrow>
          let status = book_period_status t (gj_tenant j) (gj_book j) p in
          if status = ''open'' then Inr ()
          else if status = ''soft_closed'' \<and> write_role \<in> {''period_closing'', ''adjusting'', ''reversal''} \<and>
                  ps_closing_writer srv
          then Inr ()
          else Inl (DatabaseError ''23514''))"

section \<open>Inserts\<close>

definition insert_proposal :: "posting_server \<Rightarrow> proposal_row \<Rightarrow> ledger_tables \<Rightarrow> (ledger_tables \<times> nat) result" where
  "insert_proposal srv row t =
     bind_result (integer_column (pr_contract_version row)) (\<lambda>_.
     if pr_contract_version row \<le> 0 \<or> \<not> hash_pattern (pr_source_hash row) then Inl (DatabaseError ''23514'')
     else if list_ex (\<lambda>r. pr_tenant r = pr_tenant row \<and>
               (pr_external_id r = pr_external_id row \<or> pr_idempotency_key r = pr_idempotency_key row)) (lt_proposals t)
     then Inl (DatabaseError ''23505'')
     else Inr (t\<lparr>lt_proposals := lt_proposals t @ [row\<lparr>pr_id := fresh_id srv t\<rparr>],
                 lt_inserted := Suc (lt_inserted t)\<rparr>, fresh_id srv t))"

definition insert_journal_row ::
    "posting_server \<Rightarrow> string \<Rightarrow> journal_row \<Rightarrow> ledger_tables \<Rightarrow> (ledger_tables \<times> nat) result" where
  "insert_journal_row srv write_role row t =
     bind_result (guard_period_insert srv write_role row t) (\<lambda>_.
     if \<not> currency_pattern (gj_transaction_currency row) \<or> \<not> currency_pattern (gj_functional_currency row)
     then Inl (DatabaseError ''23514'')
     else if list_ex (\<lambda>r. gj_tenant r = gj_tenant row \<and> gj_reference r = gj_reference row) (lt_journals t)
     then Inl (DatabaseError ''23505'')
     else Inr (t\<lparr>lt_journals := lt_journals t @ [row\<lparr>gj_id := fresh_id srv t\<rparr>],
                 lt_inserted := Suc (lt_inserted t)\<rparr>, fresh_id srv t))"

text \<open>
  The guard that the account belongs to the book of the journal holds because the account was looked up
  in that book; the guard against finalized journals because the receipt is inserted after the lines.
\<close>

definition insert_line :: "line_row \<Rightarrow> ledger_tables \<Rightarrow> ledger_tables result" where
  "insert_line row t =
     bind_result (integer_column (ln_number row)) (\<lambda>_.
     bind_result (numeric_38_6 (ln_debit row)) (\<lambda>debit.
     bind_result (numeric_38_6 (ln_credit row)) (\<lambda>credit.
     if ln_number row \<le> 0 \<or> dec_less debit dec_zero \<or> dec_less credit dec_zero \<or>
        dec_positive debit = dec_positive credit
     then Inl (DatabaseError ''23514'')
     else if list_ex (\<lambda>r. ln_tenant r = ln_tenant row \<and> ln_journal r = ln_journal row \<and> ln_number r = ln_number row)
               (lt_lines t)
     then Inl (DatabaseError ''23505'')
     else Inr (t\<lparr>lt_lines := lt_lines t @ [row\<lparr>ln_debit := debit, ln_credit := credit\<rparr>]\<rparr>))))"

definition insert_source :: "source_row \<Rightarrow> ledger_tables \<Rightarrow> ledger_tables result" where
  "insert_source row t =
     (if \<not> hash_pattern (jr_hash row) then Inl (DatabaseError ''23514'')
      else if list_ex (\<lambda>r. jr_tenant r = jr_tenant row \<and> jr_journal r = jr_journal row \<and>
                jr_reference r = jr_reference row) (lt_sources t)
      then Inl (DatabaseError ''23505'')
      else Inr (t\<lparr>lt_sources := lt_sources t @ [row]\<rparr>))"

definition journal_date_of :: "ledger_tables \<Rightarrow> nat \<Rightarrow> nat \<Rightarrow> date option" where
  "journal_date_of t tenant_id journal_id =
     map_option gj_accounting_date (find (\<lambda>j. gj_tenant j = tenant_id \<and> gj_id j = journal_id) (lt_journals t))"

definition has_receipt :: "ledger_tables \<Rightarrow> nat \<Rightarrow> nat \<Rightarrow> bool" where
  "has_receipt t tenant_id journal_id \<longleftrightarrow>
     list_ex (\<lambda>r. rr_tenant r = tenant_id \<and> rr_journal r = journal_id) (lt_receipts t)"

text \<open>With the triggers \<open>guard_reversal_temporal_order\<close> and \<open>guard_reversal_lineage_insert\<close>.\<close>

definition insert_reversal :: "reversal_row \<Rightarrow> ledger_tables \<Rightarrow> ledger_tables result" where
  "insert_reversal row t =
     (case (journal_date_of t (rv_tenant row) (rv_original row), journal_date_of t (rv_tenant row) (rv_reversal row)) of
        (Some original_date, Some reversal_date) \<Rightarrow>
          if reversal_date < original_date \<or> \<not> has_receipt t (rv_tenant row) (rv_original row) \<or>
             has_receipt t (rv_tenant row) (rv_reversal row) \<or> rv_original row = rv_reversal row
          then Inl (DatabaseError ''23514'')
          else if list_ex (\<lambda>r. rv_tenant r = rv_tenant row \<and>
                    (rv_original r = rv_original row \<or> rv_reversal r = rv_reversal row)) (lt_reversals t)
          then Inl (DatabaseError ''23505'')
          else Inr (t\<lparr>lt_reversals := lt_reversals t @ [row]\<rparr>)
      | _ \<Rightarrow> Inl (DatabaseError ''23514''))"

text \<open>\<open>_canonical_receipt_hash\<close>\<close>

definition canonical_receipt_hash :: "posting_receipt \<Rightarrow> string" where
  "canonical_receipt_hash receipt =
     sha256_reference (the (json_dumps (PDict
       [(''journal_reference'', PStr (rc_journal_reference receipt)),
        (''line_count'', PInt (int (rc_line_count receipt))),
        (''posting_status_code'', PStr (rc_status_code receipt)),
        (''receipt_reference'', PStr (rc_receipt_reference receipt)),
        (''reversal_of_journal_reference'',
           case rc_reversal_of receipt of None \<Rightarrow> PNone | Some r \<Rightarrow> PStr r),
        (''source_payload_hash'', PStr (rc_source_payload_hash receipt)),
        (''source_proposal_id'', PStr (rc_source_proposal_id receipt))])))"

definition insert_receipt ::
    "posting_server \<Rightarrow> nat \<Rightarrow> nat \<Rightarrow> nat \<Rightarrow> posting_receipt \<Rightarrow> ledger_tables \<Rightarrow> ledger_tables result" where
  "insert_receipt srv tenant_id proposal_record_id journal_id receipt t =
     (if list_ex (\<lambda>r. rr_tenant r = tenant_id \<and> rr_proposal r = proposal_record_id) (lt_receipts t)
      then Inl (DatabaseError ''23505'')
      else Inr (t\<lparr>lt_receipts := lt_receipts t @
             [\<lparr>rr_id = fresh_id srv t, rr_tenant = tenant_id, rr_proposal = proposal_record_id, rr_journal = journal_id,
               rr_hash = canonical_receipt_hash receipt, rr_created_at = fresh_time srv t\<rparr>],
             lt_inserted := Suc (lt_inserted t)\<rparr>))"

definition insert_outbox ::
    "posting_server \<Rightarrow> nat \<Rightarrow> string \<Rightarrow> string \<Rightarrow> string \<Rightarrow> posting_receipt \<Rightarrow> ledger_tables \<Rightarrow> ledger_tables" where
  "insert_outbox srv tenant_id event_type_code aggregate_reference payload_reference receipt t =
     t\<lparr>lt_outbox := lt_outbox t @
         [\<lparr>ob_id = fresh_id srv t, ob_tenant = tenant_id, ob_event_type = event_type_code,
           ob_aggregate_reference = aggregate_reference, ob_payload_reference = payload_reference,
           ob_payload_hash = canonical_receipt_hash receipt, ob_created_at = fresh_time srv t,
           ob_published_at = None\<rparr>],
       lt_inserted := Suc (lt_inserted t)\<rparr>"

section \<open>Transactions\<close>

definition journal_lines :: "ledger_tables \<Rightarrow> nat \<Rightarrow> nat \<Rightarrow> line_row list" where
  "journal_lines t tenant_id journal_id =
     filter (\<lambda>l. ln_tenant l = tenant_id \<and> ln_journal l = journal_id) (lt_lines t)"

text \<open>The SQL sum of a \<open>numeric(38, 6)\<close> column.\<close>

definition numeric_sum :: "dec list \<Rightarrow> dec" where
  "numeric_sum amounts = Dec False (sum_list (map dcoef amounts)) (- 6)"

text \<open>The deferred trigger \<open>assert_journal_balance\<close> for one journal.\<close>

definition assert_journal_balance :: "ledger_tables \<Rightarrow> journal_row \<Rightarrow> unit result" where
  "assert_journal_balance t j =
     (let lines = journal_lines t (gj_tenant j) (gj_id j) in
      bind_result (numeric_38_6 (numeric_sum (map ln_debit lines))) (\<lambda>debit_total.
      bind_result (numeric_38_6 (numeric_sum (map ln_credit lines))) (\<lambda>credit_total.
        require (lines \<noteq> [] \<and> dec_eq debit_total credit_total) (DatabaseError ''23514''))))"

text \<open>
  \<open>_session\<close>: connecting, the body, and the commit, at which the deferred triggers check the journals
  the transaction inserted.
\<close>

definition transaction ::
    "posting_server \<Rightarrow> (ledger_tables \<Rightarrow> (ledger_tables \<times> 'a) result) \<Rightarrow> ledger_tables \<Rightarrow> (ledger_tables \<times> 'a) result" where
  "transaction srv body t =
     bind_result (require (sv_reachable (ps_server srv)) (validation_error msg_unreachable)) (\<lambda>_.
     bind_result (body t) (\<lambda>(t', x).
     bind_result (check_all (assert_journal_balance t') (drop (length (lt_journals t)) (lt_journals t'))) (\<lambda>_.
       Inr (t', x))))"

end
