(* ===== verification/Ledger_Catalog.thy ===== *)
theory Ledger_Catalog
  imports Ledger_Tables
begin

text \<open>
  The lookups of \<open>PostgresPostingLedger\<close> that decide whether a journal may be written and how: the book of
  an entity, the fiscal period of a date and its state for one book, the effective role mappings, and the
  accounting policy that is assembled from them.
\<close>

section \<open>Books\<close>

definition msg_book_not_recorded :: "string \<Rightarrow> string" where
  "msg_book_not_recorded accounting_book_reference =
     ''Accounting book '' @ accounting_book_reference @
     '' is not recorded for this legal entity. Create the accounting_book row, then retry posting.''"

definition msg_book_role_missing :: "string \<Rightarrow> string" where
  "msg_book_role_missing book_role_code =
     ''Accounting book for role '' @ book_role_code @ '' is not recorded for this legal entity. Create the accounting_book row, then retry posting.''"

definition find_role_book :: "ledger_tables \<Rightarrow> nat \<Rightarrow> nat \<Rightarrow> string \<Rightarrow> book_row option" where
  "find_role_book t tenant_id legal_entity_id book_role_code =
     find (\<lambda>b. bk_tenant b = tenant_id \<and> bk_entity b = legal_entity_id \<and> bk_role_code b = book_role_code \<and>
             bk_valid_to b = None) (ct_books t)"

definition require_book :: "ledger_tables \<Rightarrow> nat \<Rightarrow> nat \<Rightarrow> string \<Rightarrow> string \<Rightarrow> nat result" where
  "require_book t tenant_id legal_entity_id book_role_code accounting_book_reference =
     (case find_role_book t tenant_id legal_entity_id book_role_code of
        None \<Rightarrow> Inl (validation_error (msg_book_not_recorded accounting_book_reference))
      | Some b \<Rightarrow> Inr (bk_id b))"

definition require_book_for_role :: "ledger_tables \<Rightarrow> nat \<Rightarrow> nat \<Rightarrow> string \<Rightarrow> (nat \<times> string) result" where
  "require_book_for_role t tenant_id legal_entity_id book_role_code =
     (case find_role_book t tenant_id legal_entity_id book_role_code of
        None \<Rightarrow> Inl (validation_error (msg_book_role_missing book_role_code))
      | Some b \<Rightarrow> Inr (bk_id b, bk_name b))"

definition require_legal_entity :: "ledger_tables \<Rightarrow> nat \<Rightarrow> string \<Rightarrow> nat result" where
  "require_legal_entity t tenant_id legal_entity_reference =
     bind_result (load_legal_entity (ct_entities t) tenant_id legal_entity_reference ''posting'') (\<lambda>(entity_id, _).
       Inr entity_id)"

section \<open>Periods\<close>

definition msg_no_period :: "string \<Rightarrow> string" where
  "msg_no_period accounting_date =
     ''No fiscal period covers accounting date '' @ accounting_date @ ''. Create an open fiscal period on the tenant calendar, then retry posting.''"

definition msg_book_period_locked :: "string \<Rightarrow> string \<Rightarrow> string \<Rightarrow> string" where
  "msg_book_period_locked period_code status locked_marker =
     ''Fiscal period '' @ period_code @ '' is '' @ status @ locked_marker @ ''. Open that period or post into an open period for this accounting book; no journal was written.''"

definition msg_period_locked :: "string \<Rightarrow> string \<Rightarrow> string \<Rightarrow> string \<Rightarrow> string" where
  "msg_period_locked period_code status locked_marker next_action =
     ''Fiscal period '' @ period_code @ '' is '' @ status @ locked_marker @ ''. '' @ next_action @
     ''; no journal was written.''"

definition locked_marker :: "string \<Rightarrow> string" where
  "locked_marker status = (if status = ''hard_closed'' then '' (period_closed)'' else [])"

definition covering_period :: "ledger_tables \<Rightarrow> nat \<Rightarrow> date \<Rightarrow> period_row option" where
  "covering_period t tenant_id accounting_date =
     find (\<lambda>p. pe_tenant p = tenant_id \<and> pe_start_date p \<le> accounting_date \<and> accounting_date \<le> pe_end_date p)
       (lt_periods t)"

text \<open>The period that covers a date is looked up, locked, and read again by its identifier.\<close>

definition locked_period :: "ledger_tables \<Rightarrow> nat \<Rightarrow> date \<Rightarrow> period_row result" where
  "locked_period t tenant_id accounting_date =
     (case covering_period t tenant_id accounting_date of
        None \<Rightarrow> Inl (validation_error (msg_no_period (date_isoformat accounting_date)))
      | Some p \<Rightarrow>
          (case find (\<lambda>q. pe_tenant q = tenant_id \<and> pe_id q = pe_id p) (lt_periods t) of
             None \<Rightarrow> Inl (validation_error (msg_no_period (date_isoformat accounting_date)))
           | Some q \<Rightarrow> Inr q))"

definition require_open_book_period_bounds ::
    "ledger_tables \<Rightarrow> nat \<Rightarrow> nat \<Rightarrow> date \<Rightarrow> (nat \<times> date \<times> date) result" where
  "require_open_book_period_bounds t tenant_id book_id accounting_date =
     bind_result (locked_period t tenant_id accounting_date) (\<lambda>p.
       let status = book_period_status t tenant_id book_id p in
       if status \<noteq> ''open''
       then Inl (validation_error (msg_book_period_locked (pe_code p) status (locked_marker status)))
       else Inr (pe_id p, pe_start_date p, pe_end_date p))"

definition require_open_book_period :: "ledger_tables \<Rightarrow> nat \<Rightarrow> nat \<Rightarrow> date \<Rightarrow> nat result" where
  "require_open_book_period t tenant_id book_id accounting_date =
     bind_result (require_open_book_period_bounds t tenant_id book_id accounting_date) (\<lambda>bounds. Inr (fst bounds))"

definition require_period_bounds ::
    "ledger_tables \<Rightarrow> nat \<Rightarrow> date \<Rightarrow> string set \<Rightarrow> string \<Rightarrow> (nat \<times> date \<times> date) result" where
  "require_period_bounds t tenant_id accounting_date allowed_status_codes next_action =
     bind_result (locked_period t tenant_id accounting_date) (\<lambda>p.
       if pe_status_code p \<notin> allowed_status_codes
       then Inl (validation_error (msg_period_locked (pe_code p) (pe_status_code p) (locked_marker (pe_status_code p))
                  next_action))
       else Inr (pe_id p, pe_start_date p, pe_end_date p))"

definition require_adjusting_period_bounds :: "ledger_tables \<Rightarrow> nat \<Rightarrow> date \<Rightarrow> (nat \<times> date \<times> date) result" where
  "require_adjusting_period_bounds t tenant_id accounting_date =
     require_period_bounds t tenant_id accounting_date {''open'', ''soft_closed''}
       ''Reverse into an open or soft-closed period''"

definition require_adjusting_period :: "ledger_tables \<Rightarrow> nat \<Rightarrow> date \<Rightarrow> nat result" where
  "require_adjusting_period t tenant_id accounting_date =
     bind_result (require_adjusting_period_bounds t tenant_id accounting_date) (\<lambda>bounds. Inr (fst bounds))"

section \<open>Role mappings\<close>

definition msg_no_mapping :: string where
  "msg_no_mapping =
     ''No account_role_mapping is effective for this book and accounting date. Create the '' @
     ''account_role_mapping rows, then retry posting.''"

definition msg_mapping_ambiguous :: "string \<Rightarrow> string" where
  "msg_mapping_ambiguous role_code =
     ''More than one effective account_role_mapping applies for role '' @ role_code @ ''. Close the superseded mapping, then retry posting.''"

definition msg_role_missing :: "string \<Rightarrow> string" where
  "msg_role_missing role_code =
     ''Account role '' @ role_code @ '' is not mapped on this book. Create the account_role_mapping row, then retry posting.''"

definition msg_mapping_versions :: string where
  "msg_mapping_versions =
     ''Account role mappings use more than one policy version. Approve a single effective mapping set, '' @
     ''then retry posting.''"

text \<open>\<open>datetime.combine(d, datetime.min.time(), tzinfo=timezone.utc)\<close> and \<open>tuple(dict.fromkeys(xs))\<close>.\<close>

definition midnight :: "date \<Rightarrow> datetime" where
  "midnight d = \<lparr>dt_date = d, dt_hour = 0, dt_minute = 0, dt_second = 0, dt_micro = 0, dt_offset = Some 0\<rparr>"

definition first_occurrences :: "'a list \<Rightarrow> 'a list" where
  "first_occurrences xs = rev (remdups (rev xs))"

definition mapping_effective :: "nat \<Rightarrow> nat \<Rightarrow> string list \<Rightarrow> int \<Rightarrow> mapping_row \<Rightarrow> bool" where
  "mapping_effective tenant_id book_id role_codes as_of m \<longleftrightarrow>
     mp_tenant m = tenant_id \<and> mp_book m = book_id \<and> mp_role_code m \<in> set role_codes \<and>
     instant_micros (mp_valid_from m) \<le> as_of \<and>
     (case mp_valid_to m of None \<Rightarrow> True | Some until \<Rightarrow> as_of < instant_micros until)"

text \<open>The joined rows: role, account code, policy version, rule version.\<close>

definition mapping_rows ::
    "ledger_tables \<Rightarrow> nat \<Rightarrow> nat \<Rightarrow> string list \<Rightarrow> date \<Rightarrow> (string \<times> string \<times> string \<times> string) list" where
  "mapping_rows t tenant_id book_id role_codes accounting_date =
     concat (map (\<lambda>m.
         case find (\<lambda>c. ch_tenant c = mp_tenant m \<and> ch_id c = mp_chart m) (ct_charts t) of
           None \<Rightarrow> []
         | Some c \<Rightarrow> [(mp_role_code m, ch_code c, mp_policy_version m, mp_rule_version m)])
       (filter (mapping_effective tenant_id book_id role_codes (instant_micros (midnight accounting_date)))
         (lt_mappings t)))"

definition see_role ::
    "(string, string \<times> string \<times> string) dict \<Rightarrow> string \<times> string \<times> string \<times> string \<Rightarrow>
       (string, string \<times> string \<times> string) dict result" where
  "see_role seen row =
     (if dict_get seen (fst row) \<noteq> None then Inl (validation_error (msg_mapping_ambiguous (fst row)))
      else Inr (dict_set (fst row) (snd row) seen))"

definition load_role_mapping ::
    "ledger_tables \<Rightarrow> nat \<Rightarrow> nat \<Rightarrow> journal_proposal \<Rightarrow> ((string, string) dict \<times> string \<times> string) result" where
  "load_role_mapping t tenant_id book_id proposal =
     (let role_codes = first_occurrences (map jl_account_role_code (jp_lines proposal));
          rows = mapping_rows t tenant_id book_id role_codes (jp_accounting_date proposal) in
      if rows = [] then Inl (validation_error msg_no_mapping)
      else bind_result (fold_result see_role [] rows) (\<lambda>seen_roles.
        case filter (\<lambda>role. dict_get seen_roles role = None) role_codes of
          missing # _ \<Rightarrow> Inl (validation_error (msg_role_missing missing))
        | [] \<Rightarrow>
            (case remdups (map (\<lambda>(_, _, policy_version, rule_version). (policy_version, rule_version)) seen_roles) of
               [(policy_version, rule_version)] \<Rightarrow>
                 Inr (map (\<lambda>(role, account, _). (role, account)) seen_roles, policy_version, rule_version)
             | _ \<Rightarrow> Inl (validation_error msg_mapping_versions))))"

section \<open>The policy of a proposal\<close>

definition msg_deployment_scope :: string where
  "msg_deployment_scope =
     ''proposal tenant scope does not match this deployment. Send the proposal to that tenant's accounting '' @
     ''endpoint, then retry posting.''"

definition resolve_accounting_policy ::
    "string \<Rightarrow> nat \<Rightarrow> journal_proposal \<Rightarrow> ledger_tables \<Rightarrow> accounting_policy result" where
  "resolve_accounting_policy tenant_reference tenant_id proposal t =
     (if jp_tenant_reference proposal \<noteq> tenant_reference then Inl (validation_error msg_deployment_scope)
      else
        bind_result (load_legal_entity (ct_entities t) tenant_id (jp_legal_entity_reference proposal) ''posting'')
          (\<lambda>(legal_entity_id, functional_currency).
        bind_result (require_book_for_role t tenant_id legal_entity_id (jp_book_role_code proposal)) (\<lambda>(book_id, book_name).
        bind_result (require_open_book_period_bounds t tenant_id book_id (jp_accounting_date proposal))
          (\<lambda>(_, period_start, period_end).
        bind_result (load_role_mapping t tenant_id book_id proposal) (\<lambda>(mapping, policy_version, rule_version).
          validate_policy
            \<lparr>pol_tenant_reference = jp_tenant_reference proposal,
             pol_legal_entity_reference = jp_legal_entity_reference proposal,
             pol_book_reference = book_name,
             pol_book_role_code = jp_book_role_code proposal,
             pol_transaction_currency = jp_transaction_currency proposal,
             pol_functional_currency = functional_currency,
             pol_open_period_start = period_start,
             pol_open_period_end = period_end,
             pol_chart_account_mapping = mapping,
             pol_policy_version = policy_version,
             pol_rule_version = rule_version\<rparr>)))))"

end
