(* ===== verification/Persistent_Posting.thy ===== *)
theory Persistent_Posting
  imports Ledger_Catalog Url
begin

text \<open>
  The commands of \<open>PostgresPostingLedger\<close> that post proposals and reverse journals (\<open>post\<close>,
  \<open>post_proposal\<close>, \<open>reverse\<close>), the receipts they answer with, and \<open>journal_count\<close> and
  \<open>trial_balance\<close>, over the tables of \<open>Ledger_Tables\<close>.
\<close>

section \<open>Writing a journal\<close>

definition msg_chart_not_recorded :: "string \<Rightarrow> string" where
  "msg_chart_not_recorded chart_account_code =
     ''Chart account '' @ chart_account_code @ '' is not recorded on this book. Create the chart_account row, then retry posting.''"

text \<open>
  What \<open>_insert_journal\<close> reads of the value it is given: an ordinary proposal, or one of the shapes
  \<open>_ClosingProposal\<close>, \<open>_AdjustingProposal\<close>, \<open>_ReversalProposal\<close>, which differ in the write role that
  \<open>_journal_write_role\<close> sets for the transaction.
\<close>

datatype write_role = Ordinary | Period_Closing | Adjusting | Reversal

fun journal_write_role :: "write_role \<Rightarrow> string" where
  "journal_write_role Period_Closing = ''period_closing''"
| "journal_write_role Adjusting = ''adjusting''"
| "journal_write_role Reversal = ''reversal''"
| "journal_write_role Ordinary = ''''"

definition closing_journal_prefix :: string where
  "closing_journal_prefix = ''urn:cwl:accounting:general_journal:period_closing:''"

record journal_source =
  js_role :: write_role
  js_source_payload_hash :: string
  js_transaction_currency :: string
  js_transaction_date :: date
  js_accounting_date :: date
  js_source_event_references :: "string list"

definition proposal_source :: "journal_proposal \<Rightarrow> journal_source" where
  "proposal_source p =
     \<lparr>js_role = Ordinary, js_source_payload_hash = jp_source_payload_hash p,
      js_transaction_currency = jp_transaction_currency p, js_transaction_date = jp_transaction_date p,
      js_accounting_date = jp_accounting_date p, js_source_event_references = jp_source_event_references p\<rparr>"

definition insert_journal_line ::
    "nat \<Rightarrow> nat \<Rightarrow> nat \<Rightarrow> ledger_tables \<Rightarrow> posted_journal_line \<Rightarrow> ledger_tables result" where
  "insert_journal_line tenant_id book_id journal_id t line =
     (case find (\<lambda>c. ch_tenant c = tenant_id \<and> ch_book c = book_id \<and> ch_code c = pl_chart_account_code line \<and>
                   ch_valid_to c = None) (ct_charts t) of
        None \<Rightarrow> Inl (validation_error (msg_chart_not_recorded (pl_chart_account_code line)))
      | Some c \<Rightarrow>
          insert_line
            \<lparr>ln_tenant = tenant_id, ln_journal = journal_id, ln_number = pl_line_number line, ln_chart = ch_id c,
             ln_role_code = pl_account_role_code line, ln_debit = pl_debit_amount line,
             ln_credit = pl_credit_amount line\<rparr> t)"

record journal_header =
  jh_tenant :: nat
  jh_entity :: nat
  jh_book :: nat
  jh_period :: nat
  jh_reference :: string
  jh_proposal :: nat

definition insert_journal ::
    "posting_server \<Rightarrow> journal_header \<Rightarrow> journal_source \<Rightarrow> accounting_policy \<Rightarrow> posted_journal_line list \<Rightarrow>
       ledger_tables \<Rightarrow> (ledger_tables \<times> nat) result" where
  "insert_journal srv h source policy lines t =
     bind_result (insert_journal_row srv (journal_write_role (js_role source))
         \<lparr>gj_id = 0, gj_tenant = jh_tenant h, gj_entity = jh_entity h, gj_book = jh_book h, gj_period = jh_period h,
          gj_reference = jh_reference h, gj_transaction_currency = js_transaction_currency source,
          gj_functional_currency = pol_functional_currency policy, gj_transaction_date = js_transaction_date source,
          gj_accounting_date = js_accounting_date source, gj_proposal = jh_proposal h,
          gj_policy_version = pol_policy_version policy, gj_rule_version = pol_rule_version policy\<rparr> t) (\<lambda>(t1, journal_id).
     bind_result (fold_result (insert_journal_line (jh_tenant h) (jh_book h) journal_id) t1 lines) (\<lambda>t2.
     bind_result (fold_result (\<lambda>t reference. insert_source
         \<lparr>jr_tenant = jh_tenant h, jr_journal = journal_id, jr_reference = reference,
          jr_hash = js_source_payload_hash source\<rparr> t) t2 (js_source_event_references source)) (\<lambda>t3.
       Inr (t3, journal_id))))"

section \<open>Posting\<close>

definition msg_retained_reserved :: string where
  "msg_retained_reserved =
     ''retained_earnings is reserved for AIS period-close. Post revenue and expense through Billing, then '' @
     ''hard-close; no journal was written.''"

text \<open>The joins of the replayed receipt: \<open>fetchone()\<close> gives \<open>None\<close> when there is no row.\<close>

definition journal_for_key :: "ledger_tables \<Rightarrow> nat \<Rightarrow> string \<Rightarrow> (journal_row \<times> book_row) option" where
  "journal_for_key t tenant_id idempotency_key =
     (case find (\<lambda>p. pr_tenant p = tenant_id \<and> pr_idempotency_key p = idempotency_key) (lt_proposals t) of
        None \<Rightarrow> None
      | Some p \<Rightarrow>
          (case find (\<lambda>j. gj_tenant j = tenant_id \<and> gj_proposal j = pr_id p) (lt_journals t) of
             None \<Rightarrow> None
           | Some j \<Rightarrow>
               (case find (\<lambda>b. bk_tenant b = tenant_id \<and> bk_id b = gj_book j) (ct_books t) of
                  None \<Rightarrow> None
                | Some b \<Rightarrow> Some (j, b))))"

definition receipt_for_idempotency_key :: "ledger_tables \<Rightarrow> nat \<Rightarrow> journal_proposal \<Rightarrow> posting_receipt result" where
  "receipt_for_idempotency_key t tenant_id p =
     (case journal_for_key t tenant_id (jp_idempotency_key p) of
        None \<Rightarrow> Inl TypeError
      | Some (j, b) \<Rightarrow> Inr
          \<lparr>rc_receipt_reference = posting_receipt_prefix @ jp_proposal_id p,
           rc_journal_reference = general_journal_prefix @ jp_proposal_id p,
           rc_status_code = ''posted'',
           rc_source_proposal_id = jp_proposal_id p,
           rc_source_payload_hash = jp_source_payload_hash p,
           rc_tenant_reference = jp_tenant_reference p,
           rc_legal_entity_reference = jp_legal_entity_reference p,
           rc_book_reference = bk_name b,
           rc_policy_version = gj_policy_version j,
           rc_rule_version = gj_rule_version j,
           rc_line_count = length (journal_lines t tenant_id (gj_id j)),
           rc_reversal_of = None\<rparr>)"

text \<open>The inserts of a new posting: proposal, journal, receipt, outbox event.\<close>

definition write_with_receipt ::
    "posting_server \<Rightarrow> proposal_row \<Rightarrow> journal_header \<Rightarrow> journal_source \<Rightarrow> accounting_policy \<Rightarrow>
       posted_journal_line list \<Rightarrow> posting_receipt \<Rightarrow> ledger_tables \<Rightarrow> (ledger_tables \<times> posting_receipt) result" where
  "write_with_receipt srv row h source policy lines receipt t =
     bind_result (insert_proposal srv row t) (\<lambda>(t1, proposal_record_id).
     bind_result (insert_journal srv (h\<lparr>jh_proposal := proposal_record_id\<rparr>) source policy lines t1) (\<lambda>(t2, journal_id).
     bind_result (insert_receipt srv (jh_tenant h) proposal_record_id journal_id receipt t2) (\<lambda>t3.
       Inr (insert_outbox srv (jh_tenant h) ''posting_receipt'' (jh_reference h) (rc_receipt_reference receipt) receipt t3,
            receipt))))"

definition write_posting ::
    "posting_server \<Rightarrow> nat \<Rightarrow> journal_proposal \<Rightarrow> accounting_policy \<Rightarrow> posted_journal_line list \<Rightarrow> nat \<Rightarrow> nat \<Rightarrow> nat \<Rightarrow>
       ledger_tables \<Rightarrow> (ledger_tables \<times> posting_receipt) result" where
  "write_posting srv tenant_id p policy resolved_lines legal_entity_id book_id period_id =
     write_with_receipt srv
       \<lparr>pr_id = 0, pr_tenant = tenant_id, pr_external_id = py_lower (jp_proposal_id p),
        pr_contract_version = jp_contract_version p, pr_idempotency_key = jp_idempotency_key p,
        pr_source_hash = jp_source_payload_hash p\<rparr>
       \<lparr>jh_tenant = tenant_id, jh_entity = legal_entity_id, jh_book = book_id, jh_period = period_id,
        jh_reference = general_journal_prefix @ jp_proposal_id p, jh_proposal = 0\<rparr>
       (proposal_source p) policy resolved_lines (posting_receipt_of p policy resolved_lines)"

definition post_fresh_proposal ::
    "posting_server \<Rightarrow> string \<Rightarrow> nat \<Rightarrow> journal_proposal \<Rightarrow> accounting_policy option \<Rightarrow>
       ledger_tables \<Rightarrow> (ledger_tables \<times> posting_receipt) result" where
  "post_fresh_proposal srv tenant_reference tenant_id p policy_given t =
     bind_result (require (\<not> list_ex (\<lambda>l. jl_account_role_code l = ''retained_earnings'') (jp_lines p))
         (validation_error msg_retained_reserved)) (\<lambda>_.
     bind_result (case policy_given of Some policy \<Rightarrow> Inr policy
         | None \<Rightarrow> resolve_accounting_policy tenant_reference tenant_id p t) (\<lambda>policy.
     bind_result (validate_policy_scope p policy) (\<lambda>_.
     bind_result (map_result (resolve_line policy) (jp_lines p)) (\<lambda>resolved_lines.
     bind_result (require_legal_entity t tenant_id (jp_legal_entity_reference p)) (\<lambda>legal_entity_id.
     bind_result (require_book t tenant_id legal_entity_id (pol_book_role_code policy) (pol_book_reference policy)) (\<lambda>book_id.
     bind_result (require_open_book_period t tenant_id book_id (jp_accounting_date p)) (\<lambda>period_id.
       write_posting srv tenant_id p policy resolved_lines legal_entity_id book_id period_id t)))))))"

definition persist_proposal ::
    "posting_server \<Rightarrow> string \<Rightarrow> journal_proposal \<Rightarrow> accounting_policy option \<Rightarrow>
       ledger_tables \<Rightarrow> (ledger_tables \<times> posting_receipt) result" where
  "persist_proposal srv tenant_reference p policy_given t =
     bind_result (require_proposal_id (jp_proposal_id p)) (\<lambda>_.
       transaction srv (\<lambda>t.
         bind_result (require_tenant (ps_server srv) (ct_tenants t) tenant_reference) (\<lambda>tenant_id.
           case find (\<lambda>r. pr_tenant r = tenant_id \<and> pr_idempotency_key r = jp_idempotency_key p) (lt_proposals t) of
             Some prior \<Rightarrow>
               if pr_source_hash prior \<noteq> jp_source_payload_hash p then Inl (conflict_error msg_conflict)
               else bind_result (receipt_for_idempotency_key t tenant_id p) (\<lambda>receipt. Inr (t, receipt))
           | None \<Rightarrow> post_fresh_proposal srv tenant_reference tenant_id p policy_given t)) t)"

definition pg_post ::
    "posting_server \<Rightarrow> string \<Rightarrow> journal_proposal \<Rightarrow> accounting_policy \<Rightarrow> ledger_tables \<Rightarrow> (ledger_tables \<times> posting_receipt) result" where
  "pg_post srv tenant_reference p policy = persist_proposal srv tenant_reference p (Some policy)"

definition pg_post_proposal ::
    "posting_server \<Rightarrow> string \<Rightarrow> journal_proposal \<Rightarrow> ledger_tables \<Rightarrow> (ledger_tables \<times> posting_receipt) result" where
  "pg_post_proposal srv tenant_reference p = persist_proposal srv tenant_reference p None"

definition pg_resolve_accounting_policy ::
    "posting_server \<Rightarrow> string \<Rightarrow> journal_proposal \<Rightarrow> ledger_tables \<Rightarrow> (ledger_tables \<times> accounting_policy) result" where
  "pg_resolve_accounting_policy srv tenant_reference p =
     transaction srv (\<lambda>t.
       bind_result (require_tenant (ps_server srv) (ct_tenants t) tenant_reference) (\<lambda>tenant_id.
       bind_result (resolve_accounting_policy tenant_reference tenant_id p t) (\<lambda>policy. Inr (t, policy))))"

section \<open>Reading rows back\<close>

definition find_journal :: "ledger_tables \<Rightarrow> nat \<Rightarrow> string \<Rightarrow> journal_row option" where
  "find_journal t tenant_id journal_reference =
     find (\<lambda>j. gj_tenant j = tenant_id \<and> gj_reference j = journal_reference) (lt_journals t)"

definition journal_by_id :: "ledger_tables \<Rightarrow> nat \<Rightarrow> nat \<Rightarrow> journal_row option" where
  "journal_by_id t tenant_id journal_id = find (\<lambda>j. gj_tenant j = tenant_id \<and> gj_id j = journal_id) (lt_journals t)"

definition proposal_by_id :: "ledger_tables \<Rightarrow> nat \<Rightarrow> nat \<Rightarrow> proposal_row option" where
  "proposal_by_id t tenant_id proposal_id = find (\<lambda>p. pr_tenant p = tenant_id \<and> pr_id p = proposal_id) (lt_proposals t)"

definition entity_by_id :: "ledger_tables \<Rightarrow> nat \<Rightarrow> nat \<Rightarrow> entity_row option" where
  "entity_by_id t tenant_id entity_id = find (\<lambda>e. en_tenant e = tenant_id \<and> en_id e = entity_id) (ct_entities t)"

definition book_by_id :: "ledger_tables \<Rightarrow> nat \<Rightarrow> nat \<Rightarrow> book_row option" where
  "book_by_id t tenant_id book_id = find (\<lambda>b. bk_tenant b = tenant_id \<and> bk_id b = book_id) (ct_books t)"

definition chart_by_id :: "ledger_tables \<Rightarrow> nat \<Rightarrow> nat \<Rightarrow> chart_row option" where
  "chart_by_id t tenant_id chart_id = find (\<lambda>c. ch_tenant c = tenant_id \<and> ch_id c = chart_id) (ct_charts t)"

text \<open>The lines of a journal in line order, with their account codes.\<close>

definition line_of_row :: "ledger_tables \<Rightarrow> line_row \<Rightarrow> posted_journal_line list" where
  "line_of_row t l =
     (case chart_by_id t (ln_tenant l) (ln_chart l) of
        None \<Rightarrow> []
      | Some c \<Rightarrow> [\<lparr>pl_line_number = ln_number l, pl_chart_account_code = ch_code c,
                   pl_account_role_code = ln_role_code l, pl_debit_amount = ln_debit l, pl_credit_amount = ln_credit l\<rparr>])"

definition load_lines :: "ledger_tables \<Rightarrow> nat \<Rightarrow> nat \<Rightarrow> posted_journal_line list" where
  "load_lines t tenant_id journal_id =
     sort_key pl_line_number (concat (map (line_of_row t) (journal_lines t tenant_id journal_id)))"

text \<open>The journal a reversal journal reverses.\<close>

definition original_of :: "ledger_tables \<Rightarrow> nat \<Rightarrow> journal_row \<Rightarrow> journal_row option" where
  "original_of t tenant_id j =
     (case find (\<lambda>r. rv_tenant r = tenant_id \<and> rv_reversal r = gj_id j) (lt_reversals t) of
        None \<Rightarrow> None
      | Some r \<Rightarrow> journal_by_id t tenant_id (rv_original r))"

definition remove_prefix :: "string \<Rightarrow> string \<Rightarrow> string" where
  "remove_prefix start s = (if starts_with start s then drop (length start) s else s)"

definition remove_suffix :: "string \<Rightarrow> string \<Rightarrow> string" where
  "remove_suffix ending s = rev (remove_prefix (rev ending) (rev s))"

definition receipt_for_journal :: "ledger_tables \<Rightarrow> string \<Rightarrow> nat \<Rightarrow> string \<Rightarrow> posting_receipt result" where
  "receipt_for_journal t tenant_reference tenant_id journal_reference =
     (case find_journal t tenant_id journal_reference of
        None \<Rightarrow> Inl TypeError
      | Some j \<Rightarrow>
          (case (proposal_by_id t tenant_id (gj_proposal j), book_by_id t tenant_id (gj_book j),
                 entity_by_id t tenant_id (gj_entity j)) of
             (Some p, Some b, Some e) \<Rightarrow> Inr
               \<lparr>rc_receipt_reference = journal_reference @ '':receipt'',
                rc_journal_reference = gj_reference j,
                rc_status_code = ''posted'',
                rc_source_proposal_id =
                  remove_suffix '':reversal'' (remove_prefix general_journal_prefix journal_reference),
                rc_source_payload_hash = pr_source_hash p,
                rc_tenant_reference = tenant_reference,
                rc_legal_entity_reference = en_code e,
                rc_book_reference = bk_name b,
                rc_policy_version = gj_policy_version j,
                rc_rule_version = gj_rule_version j,
                rc_line_count = length (journal_lines t tenant_id (gj_id j)),
                rc_reversal_of = map_option gj_reference (original_of t tenant_id j)\<rparr>
           | _ \<Rightarrow> Inl TypeError))"

section \<open>Reversal\<close>

definition msg_reversal_evidence :: string where
  "msg_reversal_evidence =
     ''reversal idempotency key was already used with different command evidence. Use a new reversal '' @
     ''command identity, then retry.''"

definition msg_reversal_key_taken :: string where
  "msg_reversal_key_taken =
     ''reversal idempotency key was already used by another accounting command. Supply a new reversal '' @
     ''command identity, then retry.''"

definition msg_reversal_too_early :: string where
  "msg_reversal_too_early =
     ''reversal date cannot precede original journal accounting date. Supply a reversal_date on or after '' @
     ''the original accounting date, then retry reversal.''"

definition msg_reversal_closed :: string where
  "msg_reversal_closed =
     ''reversal date belongs to a closed fiscal period. Reverse into an open or soft-closed period, then '' @
     ''retry reversal.''"

text \<open>What the join on an existing reversal of a journal gives.\<close>

record existing_reversal =
  ex_reference :: string
  ex_idempotency_key :: string
  ex_source_hash :: string
  ex_original_reference :: string
  ex_reason_code :: string
  ex_accounting_date :: date

definition find_existing_reversal :: "ledger_tables \<Rightarrow> nat \<Rightarrow> string \<Rightarrow> existing_reversal option" where
  "find_existing_reversal t tenant_id journal_reference =
     (case find_journal t tenant_id journal_reference of
        None \<Rightarrow> None
      | Some original \<Rightarrow>
          (case find (\<lambda>r. rv_tenant r = tenant_id \<and> rv_original r = gj_id original) (lt_reversals t) of
             None \<Rightarrow> None
           | Some r \<Rightarrow>
               (case journal_by_id t tenant_id (rv_reversal r) of
                  None \<Rightarrow> None
                | Some j \<Rightarrow>
                    (case proposal_by_id t tenant_id (gj_proposal j) of
                       None \<Rightarrow> None
                     | Some p \<Rightarrow> Some
                         \<lparr>ex_reference = gj_reference j, ex_idempotency_key = pr_idempotency_key p,
                          ex_source_hash = pr_source_hash p, ex_original_reference = gj_reference original,
                          ex_reason_code = rv_reason_code r, ex_accounting_date = gj_accounting_date j\<rparr>))))"

definition replay_reversal ::
    "ledger_tables \<Rightarrow> string \<Rightarrow> nat \<Rightarrow> string \<Rightarrow> date \<Rightarrow> string \<Rightarrow> string \<Rightarrow> string \<Rightarrow> existing_reversal \<Rightarrow>
       (ledger_tables \<times> posting_receipt) result" where
  "replay_reversal t tenant_reference tenant_id journal_reference reversal_date reason command_key command_hash existing =
     (if ex_idempotency_key existing \<noteq> command_key then Inl (validation_error msg_already_reversed)
      else if ex_source_hash existing \<noteq> command_hash \<or> ex_original_reference existing \<noteq> journal_reference \<or>
              ex_reason_code existing \<noteq> reason \<or> ex_accounting_date existing \<noteq> reversal_date
      then Inl (conflict_error msg_reversal_evidence)
      else bind_result (receipt_for_journal t tenant_reference tenant_id (ex_reference existing)) (\<lambda>receipt.
        Inr (t, receipt)))"

text \<open>The checks of a new reversal against its original.\<close>

definition check_reversal_scope ::
    "ledger_tables \<Rightarrow> string \<Rightarrow> nat \<Rightarrow> journal_row \<Rightarrow> date \<Rightarrow> accounting_policy \<Rightarrow> unit result" where
  "check_reversal_scope t tenant_reference tenant_id original reversal_date policy =
     (if list_ex (\<lambda>r. rv_tenant r = tenant_id \<and> rv_reversal r = gj_id original) (lt_reversals t)
      then Inl (validation_error msg_reverse_reversal)
      else if reversal_date < gj_accounting_date original then Inl (validation_error msg_reversal_too_early)
      else if \<not> permits policy reversal_date then Inl (validation_error msg_reversal_closed)
      else if tenant_reference \<noteq> pol_tenant_reference policy then Inl (validation_error msg_reversal_scope)
      else
        case entity_by_id t tenant_id (gj_entity original) of
          None \<Rightarrow> Inl TypeError
        | Some e \<Rightarrow>
            if en_code e \<noteq> pol_legal_entity_reference policy then Inl (validation_error msg_reversal_scope)
            else
              case book_by_id t tenant_id (gj_book original) of
                None \<Rightarrow> Inl TypeError
              | Some b \<Rightarrow>
                  if bk_name b \<noteq> pol_book_reference policy then Inl (validation_error msg_reversal_scope)
                  else Inr ())"

definition reversal_source :: "string \<Rightarrow> journal_row \<Rightarrow> date \<Rightarrow> journal_source" where
  "reversal_source command_hash original reversal_date =
     \<lparr>js_role = Reversal, js_source_payload_hash = command_hash,
      js_transaction_currency = gj_transaction_currency original, js_transaction_date = gj_transaction_date original,
      js_accounting_date = reversal_date, js_source_event_references = []\<rparr>"

definition pg_reversal_receipt :: "string \<Rightarrow> string \<Rightarrow> accounting_policy \<Rightarrow> string \<Rightarrow> nat \<Rightarrow> posting_receipt" where
  "pg_reversal_receipt journal_reference source_proposal_id policy command_hash line_count =
     \<lparr>rc_receipt_reference = journal_reference @ '':reversal'' @ '':receipt'',
      rc_journal_reference = journal_reference @ '':reversal'',
      rc_status_code = ''posted'',
      rc_source_proposal_id = source_proposal_id,
      rc_source_payload_hash = command_hash,
      rc_tenant_reference = pol_tenant_reference policy,
      rc_legal_entity_reference = pol_legal_entity_reference policy,
      rc_book_reference = pol_book_reference policy,
      rc_policy_version = pol_policy_version policy,
      rc_rule_version = pol_rule_version policy,
      rc_line_count = line_count,
      rc_reversal_of = Some journal_reference\<rparr>"

text \<open>The inserts of a new reversal; its proposal gets an identifier from \<open>uuidv7()\<close>.\<close>

definition write_reversal ::
    "posting_server \<Rightarrow> nat \<Rightarrow> string \<Rightarrow> journal_row \<Rightarrow> date \<Rightarrow> string \<Rightarrow> string \<Rightarrow> string \<Rightarrow> accounting_policy \<Rightarrow> nat \<Rightarrow>
       ledger_tables \<Rightarrow> (ledger_tables \<times> posting_receipt) result" where
  "write_reversal srv tenant_id journal_reference original reversal_date reason command_key command_hash policy period_id t =
     (let reversal_lines = map reversal_line (load_lines t tenant_id (gj_id original));
          reversal_reference = journal_reference @ '':reversal'' in
      if find_journal t tenant_id reversal_reference \<noteq> None then Inl (validation_error msg_immutable)
      else
        case proposal_by_id t tenant_id (gj_proposal original) of
          None \<Rightarrow> Inl TypeError
        | Some source_proposal \<Rightarrow>
            let receipt = pg_reversal_receipt journal_reference (pr_external_id source_proposal) policy command_hash
                            (length reversal_lines) in
            bind_result (insert_proposal srv
                \<lparr>pr_id = 0, pr_tenant = tenant_id, pr_external_id = uuid_text (fresh_id srv t),
                 pr_contract_version = 1, pr_idempotency_key = command_key, pr_source_hash = command_hash\<rparr>
                (t\<lparr>lt_inserted := Suc (lt_inserted t)\<rparr>)) (\<lambda>(t1, reversal_proposal_id).
            bind_result (insert_journal srv
                \<lparr>jh_tenant = tenant_id, jh_entity = gj_entity original, jh_book = gj_book original, jh_period = period_id,
                 jh_reference = reversal_reference, jh_proposal = reversal_proposal_id\<rparr>
                (reversal_source command_hash original reversal_date) policy reversal_lines t1) (\<lambda>(t2, reversal_journal_id).
            bind_result (insert_reversal
                \<lparr>rv_tenant = tenant_id, rv_original = gj_id original, rv_reversal = reversal_journal_id,
                 rv_reason_code = reason\<rparr> t2) (\<lambda>t3.
            bind_result (insert_receipt srv tenant_id reversal_proposal_id reversal_journal_id receipt t3) (\<lambda>t4.
              Inr (insert_outbox srv tenant_id ''journal_reversal'' reversal_reference
                     (rc_receipt_reference receipt) receipt t4, receipt))))))"

definition reverse_in_session ::
    "posting_server \<Rightarrow> string \<Rightarrow> string \<Rightarrow> date \<Rightarrow> string \<Rightarrow> accounting_policy \<Rightarrow> string \<Rightarrow> string \<Rightarrow>
       ledger_tables \<Rightarrow> (ledger_tables \<times> posting_receipt) result" where
  "reverse_in_session srv tenant_reference journal_reference reversal_date reason policy command_key command_hash t =
     bind_result (require_tenant (ps_server srv) (ct_tenants t) tenant_reference) (\<lambda>tenant_id.
       case find_existing_reversal t tenant_id journal_reference of
         Some existing \<Rightarrow>
           replay_reversal t tenant_reference tenant_id journal_reference reversal_date reason command_key command_hash existing
       | None \<Rightarrow>
           if list_ex (\<lambda>p. pr_tenant p = tenant_id \<and> pr_idempotency_key p = command_key) (lt_proposals t)
           then Inl (conflict_error msg_reversal_key_taken)
           else
             case find_journal t tenant_id journal_reference of
               None \<Rightarrow> Inl (validation_error msg_no_journal)
             | Some original \<Rightarrow>
                 bind_result (check_reversal_scope t tenant_reference tenant_id original reversal_date policy) (\<lambda>_.
                 bind_result (require_adjusting_period t tenant_id reversal_date) (\<lambda>period_id.
                   write_reversal srv tenant_id journal_reference original reversal_date reason command_key command_hash
                     policy period_id t)))"

definition pg_reverse ::
    "posting_server \<Rightarrow> string \<Rightarrow> string \<Rightarrow> date \<Rightarrow> string \<Rightarrow> accounting_policy \<Rightarrow> string option \<Rightarrow>
       ledger_tables \<Rightarrow> (ledger_tables \<times> posting_receipt) result" where
  "pg_reverse srv tenant_reference journal_reference reversal_date reason policy reversal_key t =
     bind_result (require_code reason ''reversal reason code'') (\<lambda>_.
       let command_key = reversal_command_key journal_reference reversal_key in
       if command_key = [] then Inl (validation_error msg_reversal_key)
       else
         transaction srv (reverse_in_session srv tenant_reference journal_reference reversal_date reason policy command_key
             (reversal_command_hash tenant_reference command_key journal_reference reversal_date reason)) t)"

section \<open>Trial balance\<close>

definition pg_journal_count :: "posting_server \<Rightarrow> string \<Rightarrow> ledger_tables \<Rightarrow> (ledger_tables \<times> nat) result" where
  "pg_journal_count srv tenant_reference =
     transaction srv (\<lambda>t.
       bind_result (require_tenant (ps_server srv) (ct_tenants t) tenant_reference) (\<lambda>tenant_id.
         Inr (t, length (filter (\<lambda>j. gj_tenant j = tenant_id) (lt_journals t)))))"

text \<open>The lines of the journals of one entity and book through a date.\<close>

definition scope_line :: "ledger_tables \<Rightarrow> nat \<Rightarrow> nat \<Rightarrow> nat \<Rightarrow> date \<Rightarrow> line_row \<Rightarrow> bool" where
  "scope_line t tenant_id legal_entity_id book_id through l \<longleftrightarrow>
     (case journal_by_id t (ln_tenant l) (ln_journal l) of
        None \<Rightarrow> False
      | Some j \<Rightarrow> ln_tenant l = tenant_id \<and> gj_entity j = legal_entity_id \<and> gj_book j = book_id \<and>
                  gj_accounting_date j \<le> through)"

text \<open>Totals by account, in the order of the codes.\<close>

definition account_totals :: "ledger_tables \<Rightarrow> nat \<Rightarrow> line_row list \<Rightarrow> (nat \<times> string \<times> dec \<times> dec) list" where
  "account_totals t tenant_id lines =
     sort_key (\<lambda>(_, code, _). code)
       (concat (map (\<lambda>chart_id.
           case chart_by_id t tenant_id chart_id of
             None \<Rightarrow> []
           | Some c \<Rightarrow>
               let group = filter (\<lambda>l. ln_chart l = chart_id) lines in
               [(chart_id, ch_code c, numeric_sum (map ln_debit group), numeric_sum (map ln_credit group))])
         (first_occurrences (map ln_chart lines))))"

definition aggregate_trial_balance ::
    "ledger_tables \<Rightarrow> nat \<Rightarrow> nat \<Rightarrow> nat \<Rightarrow> date \<Rightarrow> (nat \<times> string \<times> dec \<times> dec) list" where
  "aggregate_trial_balance t tenant_id legal_entity_id book_id through =
     account_totals t tenant_id (filter (scope_line t tenant_id legal_entity_id book_id through) (lt_lines t))"

definition pg_trial_balance ::
    "posting_server \<Rightarrow> string \<Rightarrow> string \<Rightarrow> string \<Rightarrow> string \<Rightarrow> date \<Rightarrow> ledger_tables \<Rightarrow>
       (ledger_tables \<times> (string, account_balance) dict) result" where
  "pg_trial_balance srv tenant_reference asked_tenant legal_entity_reference accounting_book_reference through =
     transaction srv (\<lambda>t.
       bind_result (require_tenant (ps_server srv) (ct_tenants t) tenant_reference) (\<lambda>tenant_id.
         if asked_tenant \<noteq> tenant_reference then Inr (t, [])
         else
           case (find (\<lambda>e. en_tenant e = tenant_id \<and> en_code e = legal_entity_reference) (ct_entities t),
                 find (\<lambda>b. bk_tenant b = tenant_id \<and> bk_name b = accounting_book_reference) (ct_books t)) of
             (Some e, Some b) \<Rightarrow>
               Inr (t, foldl (\<lambda>d (_, code, debit_total, credit_total).
                        dict_set code \<lparr>ab_chart_account_code = code, ab_debit_total = debit_total,
                                       ab_credit_total = credit_total\<rparr> d)
                      [] (aggregate_trial_balance t tenant_id (en_id e) (bk_id b) through))
           | _ \<Rightarrow> Inr (t, [])))"

end
