(* ===== verification/Persistent_Reads.thy ===== *)
theory Persistent_Reads
  imports Persistent_Posting
begin

text \<open>
  The reads of single journals and receipts (\<open>load_posted_journal\<close>, \<open>load_published_receipt\<close>,
  \<open>load_reversal_policy\<close>): the joins over the tables and the documents made of them.
\<close>

section \<open>Journals\<close>

text \<open>The joined row of \<open>_load_journal_row\<close>.\<close>

record joined_journal =
  jj_journal :: journal_row
  jj_proposal :: proposal_row
  jj_book :: book_row
  jj_entity :: entity_row
  jj_original :: "journal_row option"
  jj_reason_code :: "string option"

definition reversal_of :: "ledger_tables \<Rightarrow> nat \<Rightarrow> journal_row \<Rightarrow> reversal_row option" where
  "reversal_of t tenant_id j = find (\<lambda>r. rv_tenant r = tenant_id \<and> rv_reversal r = gj_id j) (lt_reversals t)"

definition join_journal :: "ledger_tables \<Rightarrow> nat \<Rightarrow> journal_row \<Rightarrow> joined_journal option" where
  "join_journal t tenant_id j =
     (case (proposal_by_id t tenant_id (gj_proposal j), book_by_id t tenant_id (gj_book j),
            entity_by_id t tenant_id (gj_entity j)) of
        (Some p, Some b, Some e) \<Rightarrow> Some
          \<lparr>jj_journal = j, jj_proposal = p, jj_book = b, jj_entity = e,
           jj_original = original_of t tenant_id j,
           jj_reason_code = map_option rv_reason_code (reversal_of t tenant_id j)\<rparr>
      | _ \<Rightarrow> None)"

definition journal_asked :: "string \<Rightarrow> string \<Rightarrow> joined_journal \<Rightarrow> bool" where
  "journal_asked idempotency_key journal_reference row \<longleftrightarrow>
     (idempotency_key = [] \<or> pr_idempotency_key (jj_proposal row) = idempotency_key) \<and>
     (journal_reference = [] \<or> gj_reference (jj_journal row) = journal_reference)"

definition load_journal_row :: "ledger_tables \<Rightarrow> nat \<Rightarrow> string \<Rightarrow> string \<Rightarrow> joined_journal option" where
  "load_journal_row t tenant_id idempotency_key journal_reference =
     find (journal_asked idempotency_key journal_reference)
       (List.map_filter (join_journal t tenant_id) (filter (\<lambda>j. gj_tenant j = tenant_id) (lt_journals t)))"

definition msg_journal_identity :: string where
  "msg_journal_identity =
     ''idempotency_key or journal_reference is required. Supply the Billing key or the posted journal '' @
     ''reference, then retry the journal read.''"

definition msg_journal_key_missing :: string where
  "msg_journal_key_missing =
     ''posted journal is missing for this idempotency key. Accept the proposal, then retry the journal '' @
     ''read.''"

definition msg_journal_reference_missing :: string where
  "msg_journal_reference_missing =
     ''posted journal is missing for this journal_reference. Accept the proposal, then retry the journal '' @
     ''read.''"

definition msg_journal_identities_differ :: string where
  "msg_journal_identities_differ =
     ''journal_reference and idempotency_key do not match the same posted journal. Supply one identity, '' @
     ''then retry the journal read.''"

definition option_value :: "string option \<Rightarrow> py_value" where
  "option_value s = (case s of None \<Rightarrow> PNone | Some t \<Rightarrow> PStr t)"

definition line_document :: "posted_journal_line \<Rightarrow> payload" where
  "line_document l =
     [(''line_number'', PInt (pl_line_number l)),
      (''chart_account_code'', PStr (pl_chart_account_code l)),
      (''account_role_code'', PStr (pl_account_role_code l)),
      (''debit_amount'', PStr (dec_format_f (pl_debit_amount l))),
      (''credit_amount'', PStr (dec_format_f (pl_credit_amount l)))]"

definition journal_document :: "string \<Rightarrow> joined_journal \<Rightarrow> posted_journal_line list \<Rightarrow> payload" where
  "journal_document tenant_reference row lines =
     [(''tenant_reference'', PStr tenant_reference),
      (''legal_entity_reference'', PStr (en_code (jj_entity row))),
      (''accounting_book_reference'', PStr (bk_name (jj_book row))),
      (''journal_reference'', PStr (gj_reference (jj_journal row))),
      (''idempotency_key'', PStr (pr_idempotency_key (jj_proposal row))),
      (''journal_status_code'', PStr ''posted''),
      (''accounting_date'', PStr (date_isoformat (gj_accounting_date (jj_journal row)))),
      (''transaction_currency'', PStr (gj_transaction_currency (jj_journal row))),
      (''functional_currency'', PStr (gj_functional_currency (jj_journal row))),
      (''accounting_policy_version'', PStr (gj_policy_version (jj_journal row))),
      (''posting_rule_version'', PStr (gj_rule_version (jj_journal row))),
      (''source_payload_hash'', PStr (pr_source_hash (jj_proposal row))),
      (''source_proposal_id'', PStr (pr_external_id (jj_proposal row))),
      (''reversal_of_journal_reference'', option_value (map_option gj_reference (jj_original row))),
      (''reversal_reason_code'', option_value (jj_reason_code row)),
      (''lines'', PList (map (\<lambda>l. PDict (line_document l)) lines))]"

definition asked_row ::
    "ledger_tables \<Rightarrow> nat \<Rightarrow> string \<Rightarrow> string \<Rightarrow> string \<Rightarrow> joined_journal option result" where
  "asked_row t tenant_id idempotency_key journal_reference missing =
     (if idempotency_key = [] \<and> journal_reference = [] then Inr None
      else case load_journal_row t tenant_id idempotency_key journal_reference of
             None \<Rightarrow> Inl (validation_error missing)
           | Some row \<Rightarrow> Inr (Some row))"

definition pg_load_posted_journal ::
    "posting_server \<Rightarrow> string \<Rightarrow> string \<Rightarrow> string \<Rightarrow> ledger_tables \<Rightarrow> (ledger_tables \<times> payload) result" where
  "pg_load_posted_journal srv tenant_reference idempotency_key journal_reference t =
     (if idempotency_key = [] \<and> journal_reference = [] then Inl (validation_error msg_journal_identity)
      else transaction srv (\<lambda>t.
        bind_result (require_tenant (ps_server srv) (ct_tenants t) tenant_reference) (\<lambda>tenant_id.
        bind_result (asked_row t tenant_id idempotency_key [] msg_journal_key_missing) (\<lambda>by_key.
        bind_result (asked_row t tenant_id [] journal_reference msg_journal_reference_missing) (\<lambda>by_reference.
          case (by_key, by_reference) of
            (Some a, Some b) \<Rightarrow>
              if gj_id (jj_journal a) \<noteq> gj_id (jj_journal b)
              then Inl (validation_error msg_journal_identities_differ)
              else Inr (t, journal_document tenant_reference a (load_lines t tenant_id (gj_id (jj_journal a))))
          | (Some a, None) \<Rightarrow> Inr (t, journal_document tenant_reference a (load_lines t tenant_id (gj_id (jj_journal a))))
          | (None, Some b) \<Rightarrow> Inr (t, journal_document tenant_reference b (load_lines t tenant_id (gj_id (jj_journal b))))
          | (None, None) \<Rightarrow> Inl TypeError)))) t)"

section \<open>Receipts\<close>

definition msg_receipt_missing :: string where
  "msg_receipt_missing =
     ''posting receipt is missing for this idempotency key. Accept the proposal, then retry the receipt '' @
     ''read.''"

record joined_receipt =
  jx_receipt :: receipt_row
  jx_row :: joined_journal
  jx_period :: period_row

definition join_receipt :: "ledger_tables \<Rightarrow> nat \<Rightarrow> receipt_row \<Rightarrow> joined_receipt option" where
  "join_receipt t tenant_id r =
     (case journal_by_id t tenant_id (rr_journal r) of
        None \<Rightarrow> None
      | Some j \<Rightarrow>
          (case (join_journal t tenant_id j, proposal_by_id t tenant_id (rr_proposal r),
                 find (\<lambda>p. pe_tenant p = tenant_id \<and> pe_id p = gj_period j) (lt_periods t)) of
             (Some row, Some p, Some period) \<Rightarrow> Some \<lparr>jx_receipt = r, jx_row = row\<lparr>jj_proposal := p\<rparr>, jx_period = period\<rparr>
           | _ \<Rightarrow> None))"

definition receipt_document :: "string \<Rightarrow> nat \<Rightarrow> joined_receipt \<Rightarrow> payload result" where
  "receipt_document tenant_reference line_count x =
     bind_result (format_timestamp (rr_created_at (jx_receipt x))) (\<lambda>recorded_at.
       let row = jx_row x; j = jj_journal row; p = jj_proposal row in
       Inr
     [(''receipt_id'', PStr (uuid_text (rr_id (jx_receipt x)))),
      (''receipt_contract_version'', PInt 1),
      (''idempotency_key'', PStr (pr_idempotency_key p)),
      (''source_proposal_id'', PStr (pr_external_id p)),
      (''source_payload_hash'', PStr (pr_source_hash p)),
      (''tenant_reference'', PStr tenant_reference),
      (''legal_entity_reference'', PStr (en_code (jj_entity row))),
      (''accounting_book_reference'', PStr (bk_name (jj_book row))),
      (''fiscal_period_reference'', PStr (''urn:cwl:accounting:fiscal_period:'' @ pe_code (jx_period x))),
      (''journal_reference'', PStr (gj_reference j)),
      (''accounting_policy_version'', PStr (gj_policy_version j)),
      (''posting_rule_version'', PStr (gj_rule_version j)),
      (''posting_status_code'', PStr ''posted''),
      (''recorded_at'', PStr recorded_at),
      (''posted_at'', PStr recorded_at),
      (''line_count'', PInt (int line_count)),
      (''transaction_currency'', PStr (gj_transaction_currency j)),
      (''functional_currency'', PStr (gj_functional_currency j))])"

definition load_published_receipt :: "ledger_tables \<Rightarrow> string \<Rightarrow> nat \<Rightarrow> string \<Rightarrow> payload result" where
  "load_published_receipt t tenant_reference tenant_id idempotency_key =
     (case find (\<lambda>x. pr_idempotency_key (jj_proposal (jx_row x)) = idempotency_key)
             (List.map_filter (join_receipt t tenant_id) (filter (\<lambda>r. rr_tenant r = tenant_id) (lt_receipts t))) of
        None \<Rightarrow> Inl (validation_error msg_receipt_missing)
      | Some x \<Rightarrow>
          receipt_document tenant_reference (length (journal_lines t tenant_id (gj_id (jj_journal (jx_row x))))) x)"

definition pg_load_published_receipt_by_key ::
    "posting_server \<Rightarrow> string \<Rightarrow> string \<Rightarrow> ledger_tables \<Rightarrow> (ledger_tables \<times> payload) result" where
  "pg_load_published_receipt_by_key srv tenant_reference idempotency_key =
     transaction srv (\<lambda>t.
       bind_result (require_tenant (ps_server srv) (ct_tenants t) tenant_reference) (\<lambda>tenant_id.
       bind_result (load_published_receipt t tenant_reference tenant_id idempotency_key) (\<lambda>document.
         Inr (t, document))))"

definition pg_load_published_receipt ::
    "posting_server \<Rightarrow> string \<Rightarrow> journal_proposal \<Rightarrow> ledger_tables \<Rightarrow> (ledger_tables \<times> payload) result" where
  "pg_load_published_receipt srv tenant_reference p =
     pg_load_published_receipt_by_key srv tenant_reference (jp_idempotency_key p)"

section \<open>The policy of a reversal\<close>

definition role_accounts :: "posted_journal_line list \<Rightarrow> (string, string) dict" where
  "role_accounts lines =
     fold (\<lambda>l d. dict_set (pl_account_role_code l) (pl_chart_account_code l) d) lines []"

definition reversal_policy :: "ledger_tables \<Rightarrow> string \<Rightarrow> nat \<Rightarrow> string \<Rightarrow> date \<Rightarrow> accounting_policy result" where
  "reversal_policy t tenant_reference tenant_id journal_reference reversal_date =
     (case find_journal t tenant_id journal_reference of
        None \<Rightarrow> Inl (validation_error msg_no_journal)
      | Some j \<Rightarrow>
          (case (entity_by_id t tenant_id (gj_entity j), book_by_id t tenant_id (gj_book j)) of
             (Some e, Some b) \<Rightarrow>
               bind_result (require_adjusting_period_bounds t tenant_id reversal_date) (\<lambda>(_, period_start, period_end).
                 validate_policy
                   \<lparr>pol_tenant_reference = tenant_reference,
                    pol_legal_entity_reference = en_code e,
                    pol_book_reference = bk_name b,
                    pol_book_role_code = bk_role_code b,
                    pol_transaction_currency = gj_transaction_currency j,
                    pol_functional_currency = gj_functional_currency j,
                    pol_open_period_start = period_start,
                    pol_open_period_end = period_end,
                    pol_chart_account_mapping = role_accounts (load_lines t tenant_id (gj_id j)),
                    pol_policy_version = gj_policy_version j,
                    pol_rule_version = gj_rule_version j\<rparr>)
           | _ \<Rightarrow> Inl (validation_error msg_no_journal)))"

definition pg_load_reversal_policy ::
    "posting_server \<Rightarrow> string \<Rightarrow> string \<Rightarrow> date \<Rightarrow> ledger_tables \<Rightarrow> (ledger_tables \<times> accounting_policy) result" where
  "pg_load_reversal_policy srv tenant_reference journal_reference reversal_date =
     transaction srv (\<lambda>t.
       bind_result (require_tenant (ps_server srv) (ct_tenants t) tenant_reference) (\<lambda>tenant_id.
       bind_result (reversal_policy t tenant_reference tenant_id journal_reference reversal_date) (\<lambda>policy.
         Inr (t, policy))))"

end
