(* ===== verification/Persistent_Adjusting.thy ===== *)
theory Persistent_Adjusting
  imports Persistent_Reads Ledger_Service
begin

text \<open>
  \<open>post_adjusting_journal\<close> of \<open>PostgresPostingLedger\<close>: an adjusting journal that the accounting system
  itself owns, posted through the same tables as a proposal.
\<close>

section \<open>Book and period\<close>

text \<open>\<open>_load_book_period_state\<close>: the period of a code, with the state of one book.\<close>

definition period_of_code :: "ledger_tables \<Rightarrow> nat \<Rightarrow> string \<Rightarrow> period_row option" where
  "period_of_code t tenant_id period_code =
     find (\<lambda>p. pe_tenant p = tenant_id \<and> pe_code p = period_code) (lt_periods t)"

definition load_book_period_state :: "ledger_tables \<Rightarrow> nat \<Rightarrow> nat \<Rightarrow> string \<Rightarrow> (nat \<times> string \<times> date \<times> date) option" where
  "load_book_period_state t tenant_id book_id period_code =
     map_option (\<lambda>p. (pe_id p, book_period_status t tenant_id book_id p, pe_start_date p, pe_end_date p))
       (period_of_code t tenant_id period_code)"

definition find_named_book :: "ledger_tables \<Rightarrow> nat \<Rightarrow> nat \<Rightarrow> string \<Rightarrow> book_row option" where
  "find_named_book t tenant_id legal_entity_id book_name =
     find (\<lambda>b. bk_tenant b = tenant_id \<and> bk_entity b = legal_entity_id \<and> bk_name b = book_name \<and> bk_valid_to b = None)
       (ct_books t)"

text \<open>The first effective mapping of a book in the order of the roles.\<close>

definition first_book_mapping :: "ledger_tables \<Rightarrow> nat \<Rightarrow> nat \<Rightarrow> mapping_row option" where
  "first_book_mapping t tenant_id book_id =
     (case sort_key mp_role_code
             (filter (\<lambda>m. mp_tenant m = tenant_id \<and> mp_book m = book_id \<and> mp_valid_to m = None) (lt_mappings t)) of
        [] \<Rightarrow> None
      | m # _ \<Rightarrow> Some m)"

section \<open>The command\<close>

definition msg_adjusting_book :: "string \<Rightarrow> string" where
  "msg_adjusting_book accounting_book_reference =
     ''Accounting book '' @ accounting_book_reference @ '' is not recorded for this legal entity. Create the accounting_book row, then retry the journal '' @
     ''post.''"

definition msg_adjusting_currency :: "string \<Rightarrow> string \<Rightarrow> string" where
  "msg_adjusting_currency transaction_currency reporting_currency_code =
     ''currency '' @ transaction_currency @ '' does not match book reporting currency '' @ reporting_currency_code @ ''. Supply the book reporting currency, then retry the journal post.''"

definition msg_adjusting_period :: "string \<Rightarrow> string" where
  "msg_adjusting_period period_code =
     ''Fiscal period '' @ period_code @ '' is not recorded for this tenant. Create the fiscal_period row, then retry the journal post.''"

definition msg_journal_date_outside :: string where
  "msg_journal_date_outside =
     ''journal_date must fall inside the supplied fiscal period. Supply a journal_date in that period, '' @
     ''then retry the journal post.''"

definition msg_adjusting_hard_closed :: "string \<Rightarrow> string" where
  "msg_adjusting_hard_closed period_code =
     ''Fiscal period '' @ period_code @ '' is hard_closed. Post the adjusting journal into an open or soft-closed period, then retry; no '' @
     ''journal was written.''"

definition msg_no_book_mapping :: string where
  "msg_no_book_mapping =
     ''No account_role_mapping is effective for this book. Create the account_role_mapping rows, then '' @
     ''retry the journal post.''"

definition adjusting_policy ::
    "string \<Rightarrow> adjusting_command \<Rightarrow> book_row \<Rightarrow> string \<Rightarrow> date \<Rightarrow> date \<Rightarrow> mapping_row \<Rightarrow> accounting_policy" where
  "adjusting_policy tenant_reference c book functional_currency period_start period_end m =
     \<lparr>pol_tenant_reference = tenant_reference,
      pol_legal_entity_reference = ac_legal_entity_reference c,
      pol_book_reference = ac_book_reference c,
      pol_book_role_code = bk_role_code book,
      pol_transaction_currency = ac_transaction_currency c,
      pol_functional_currency = functional_currency,
      pol_open_period_start = period_start,
      pol_open_period_end = period_end,
      pol_chart_account_mapping = [],
      pol_policy_version = mp_policy_version m,
      pol_rule_version = mp_rule_version m\<rparr>"

definition adjusting_source :: "adjusting_command \<Rightarrow> journal_source" where
  "adjusting_source c =
     \<lparr>js_role = Adjusting, js_source_payload_hash = ac_source_payload_hash c,
      js_transaction_currency = ac_transaction_currency c, js_transaction_date = ac_journal_date c,
      js_accounting_date = ac_journal_date c,
      js_source_event_references = [''urn:cwl:accounting:adjusting_journal:'' @ ac_proposal_id c]\<rparr>"

definition adjusting_receipt :: "string \<Rightarrow> adjusting_command \<Rightarrow> accounting_policy \<Rightarrow> posting_receipt" where
  "adjusting_receipt tenant_reference c policy =
     \<lparr>rc_receipt_reference = posting_receipt_prefix @ ac_proposal_id c,
      rc_journal_reference = general_journal_prefix @ ac_proposal_id c,
      rc_status_code = ''posted'',
      rc_source_proposal_id = ac_proposal_id c,
      rc_source_payload_hash = ac_source_payload_hash c,
      rc_tenant_reference = tenant_reference,
      rc_legal_entity_reference = ac_legal_entity_reference c,
      rc_book_reference = ac_book_reference c,
      rc_policy_version = pol_policy_version policy,
      rc_rule_version = pol_rule_version policy,
      rc_line_count = length (ac_lines c),
      rc_reversal_of = None\<rparr>"

definition write_adjusting ::
    "posting_server \<Rightarrow> string \<Rightarrow> nat \<Rightarrow> adjusting_command \<Rightarrow> accounting_policy \<Rightarrow> nat \<Rightarrow> nat \<Rightarrow> nat \<Rightarrow>
       ledger_tables \<Rightarrow> (ledger_tables \<times> posting_receipt) result" where
  "write_adjusting srv tenant_reference tenant_id c policy legal_entity_id book_id period_id =
     write_with_receipt srv
       \<lparr>pr_id = 0, pr_tenant = tenant_id, pr_external_id = py_lower (ac_proposal_id c), pr_contract_version = 1,
        pr_idempotency_key = ac_idempotency_key c, pr_source_hash = ac_source_payload_hash c\<rparr>
       \<lparr>jh_tenant = tenant_id, jh_entity = legal_entity_id, jh_book = book_id, jh_period = period_id,
        jh_reference = general_journal_prefix @ ac_proposal_id c, jh_proposal = 0\<rparr>
       (adjusting_source c) policy (ac_lines c) (adjusting_receipt tenant_reference c policy)"

definition post_fresh_adjusting ::
    "posting_server \<Rightarrow> string \<Rightarrow> nat \<Rightarrow> adjusting_command \<Rightarrow> ledger_tables \<Rightarrow> (ledger_tables \<times> unit) result" where
  "post_fresh_adjusting srv tenant_reference tenant_id c t =
     bind_result (load_legal_entity (ct_entities t) tenant_id (ac_legal_entity_reference c) ''the journal post'')
       (\<lambda>(legal_entity_id, functional_currency).
       case find_named_book t tenant_id legal_entity_id (ac_book_reference c) of
         None \<Rightarrow> Inl (validation_error (msg_adjusting_book (ac_book_reference c)))
       | Some book \<Rightarrow>
           if ac_transaction_currency c \<noteq> bk_reporting_currency book
           then Inl (validation_error (msg_adjusting_currency (ac_transaction_currency c) (bk_reporting_currency book)))
           else
             case load_book_period_state t tenant_id (bk_id book) (ac_period_code c) of
               None \<Rightarrow> Inl (validation_error (msg_adjusting_period (ac_period_code c)))
             | Some (period_id, period_status_code, period_start, period_end) \<Rightarrow>
                 if ac_journal_date c < period_start \<or> ac_journal_date c > period_end
                 then Inl (validation_error msg_journal_date_outside)
                 else if period_status_code = ''hard_closed''
                 then Inl (validation_error (msg_adjusting_hard_closed (ac_period_code c)))
                 else
                   case first_book_mapping t tenant_id (bk_id book) of
                     None \<Rightarrow> Inl (validation_error msg_no_book_mapping)
                   | Some m \<Rightarrow>
                       bind_result (validate_policy
                           (adjusting_policy tenant_reference c book functional_currency period_start period_end m)) (\<lambda>policy.
                       bind_result (write_adjusting srv tenant_reference tenant_id c policy legal_entity_id (bk_id book) period_id t)
                         (\<lambda>(t', _). Inr (t', ()))))"

definition pg_post_adjusting ::
    "posting_server \<Rightarrow> string \<Rightarrow> adjusting_command \<Rightarrow> ledger_tables \<Rightarrow> (ledger_tables \<times> unit) result" where
  "pg_post_adjusting srv tenant_reference c t =
     bind_result (require_proposal_id (ac_proposal_id c)) (\<lambda>_.
       transaction srv (\<lambda>t.
         bind_result (require_tenant (ps_server srv) (ct_tenants t) tenant_reference) (\<lambda>tenant_id.
           case find (\<lambda>r. pr_tenant r = tenant_id \<and> pr_idempotency_key r = ac_idempotency_key c) (lt_proposals t) of
             Some prior \<Rightarrow>
               if pr_source_hash prior \<noteq> ac_source_payload_hash c then Inl (conflict_error msg_conflict)
               else Inr (t, ())
           | None \<Rightarrow> post_fresh_adjusting srv tenant_reference tenant_id c t)) t)"

end
