(* ===== verification/Persistent_Periods.thy ===== *)
theory Persistent_Periods
  imports Persistent_Adjusting
begin

text \<open>
  Fiscal periods of \<open>PostgresPostingLedger\<close>: opening a period, reading its state and its trial balance,
  and closing it for one book, softly or for good. A hard close posts the closing journal that moves the
  income accounts to retained earnings, stores the trial balance, and locks the period.
\<close>

section \<open>Hashes\<close>

text \<open>\<open>_canonical_snapshot_hash\<close> and \<open>_canonical_closing_hash\<close>\<close>

definition canonical_snapshot_hash ::
    "string \<Rightarrow> string \<Rightarrow> string \<Rightarrow> string \<Rightarrow> string \<Rightarrow> nat \<Rightarrow> (nat \<times> string \<times> dec \<times> dec) list \<Rightarrow> string" where
  "canonical_snapshot_hash tenant entity book period_code currency source_count lines =
     sha256_reference (the (json_dumps (PDict
       [(''accounting_book_reference'', PStr book),
        (''legal_entity_reference'', PStr entity),
        (''lines'', PList (map (\<lambda>(_, account_code, debit_total, credit_total). PDict
           [(''chart_account_code'', PStr account_code),
            (''credit_total_amount'', PStr (dec_format_f credit_total)),
            (''debit_total_amount'', PStr (dec_format_f debit_total)),
            (''net_balance_amount'', PStr (dec_format_f (dec_sub debit_total credit_total)))]) lines)),
        (''period_code'', PStr period_code),
        (''snapshot_currency_code'', PStr currency),
        (''source_journal_count'', PInt (int source_count)),
        (''tenant_reference'', PStr tenant)])))"

definition canonical_closing_hash ::
    "string \<Rightarrow> string \<Rightarrow> string \<Rightarrow> string \<Rightarrow> posted_journal_line list \<Rightarrow> string" where
  "canonical_closing_hash tenant entity book period_code lines =
     sha256_reference (the (json_dumps (PDict
       [(''accounting_book_reference'', PStr book),
        (''legal_entity_reference'', PStr entity),
        (''lines'', PList (map (\<lambda>l. PDict
           [(''account_role_code'', PStr (pl_account_role_code l)),
            (''chart_account_code'', PStr (pl_chart_account_code l)),
            (''credit_amount'', PStr (dec_format_f (pl_credit_amount l))),
            (''debit_amount'', PStr (dec_format_f (pl_debit_amount l))),
            (''line_number'', PInt (pl_line_number l))]) lines)),
        (''period_code'', PStr period_code),
        (''tenant_reference'', PStr tenant)])))"

section \<open>Periods of a book\<close>

definition msg_close_book :: "string \<Rightarrow> string \<Rightarrow> string" where
  "msg_close_book accounting_book_reference next_action =
     ''Accounting book '' @ accounting_book_reference @
     '' is not recorded for this legal entity. Create the accounting_book row, then retry '' @ next_action @ ''.''"

definition msg_period_not_recorded :: "string \<Rightarrow> string \<Rightarrow> string" where
  "msg_period_not_recorded period_code next_action =
     ''Fiscal period '' @ period_code @
     '' is not recorded for this tenant. Create the fiscal_period row, then retry '' @ next_action @ ''.''"

definition msg_close_period_missing :: "string \<Rightarrow> string" where
  "msg_close_period_missing period_code =
     ''Fiscal period '' @ period_code @ '' is not recorded for this tenant. Create the fiscal_period row, then retry the close.''"

definition msg_no_control_row :: "string \<Rightarrow> string" where
  "msg_no_control_row period_code =
     ''Fiscal period '' @ period_code @ '' has no control row for this accounting book. Repair the fiscal-period control data for this book, '' @
     ''then retry the close.''"

definition require_book_for_close :: "ledger_tables \<Rightarrow> nat \<Rightarrow> nat \<Rightarrow> string \<Rightarrow> string \<Rightarrow> (nat \<times> string) result" where
  "require_book_for_close t tenant_id legal_entity_id accounting_book_reference next_action =
     (case find_named_book t tenant_id legal_entity_id accounting_book_reference of
        None \<Rightarrow> Inl (validation_error (msg_close_book accounting_book_reference next_action))
      | Some b \<Rightarrow> Inr (bk_id b, bk_reporting_currency b))"

definition require_fiscal_period :: "ledger_tables \<Rightarrow> nat \<Rightarrow> string \<Rightarrow> string \<Rightarrow> (nat \<times> string \<times> date) result" where
  "require_fiscal_period t tenant_id period_code next_action =
     (case period_of_code t tenant_id period_code of
        None \<Rightarrow> Inl (validation_error (msg_period_not_recorded period_code next_action))
      | Some p \<Rightarrow> Inr (pe_id p, pe_status_code p, pe_end_date p))"

text \<open>
  \<open>_lock_book_period\<close>: every current book of the tenant gets its own state of the period, from the
  calendar, unless it has one.
\<close>

definition add_control :: "period_row \<Rightarrow> control_row list \<Rightarrow> book_row \<Rightarrow> control_row list" where
  "add_control p controls b =
     (if list_ex (\<lambda>c. pc_tenant c = pe_tenant p \<and> pc_book c = bk_id b \<and> pc_period c = pe_id p) controls then controls
      else controls @ [\<lparr>pc_tenant = pe_tenant p, pc_book = bk_id b, pc_period = pe_id p, pc_status_code = pe_status_code p,
                        pc_closed_at = pe_closed_at p, pc_soft_close_key = None, pc_soft_close_hash = None,
                        pc_soft_close_count = None\<rparr>])"

definition current_books :: "ledger_tables \<Rightarrow> nat \<Rightarrow> book_row list" where
  "current_books t tenant_id = filter (\<lambda>b. bk_tenant b = tenant_id \<and> bk_valid_to b = None) (ct_books t)"

definition find_control :: "ledger_tables \<Rightarrow> nat \<Rightarrow> nat \<Rightarrow> nat \<Rightarrow> control_row option" where
  "find_control t tenant_id book_id period_id =
     find (\<lambda>c. pc_tenant c = tenant_id \<and> pc_book c = book_id \<and> pc_period c = period_id) (lt_controls t)"

definition lock_book_period ::
    "nat \<Rightarrow> nat \<Rightarrow> string \<Rightarrow> ledger_tables \<Rightarrow> (ledger_tables \<times> nat \<times> string \<times> date) result" where
  "lock_book_period tenant_id book_id period_code t =
     (case period_of_code t tenant_id period_code of
        None \<Rightarrow> Inl (validation_error (msg_close_period_missing period_code))
      | Some p \<Rightarrow>
          let t' = t\<lparr>lt_controls := foldl (add_control p) (lt_controls t) (current_books t tenant_id)\<rparr> in
          case find_control t' tenant_id book_id (pe_id p) of
            None \<Rightarrow> Inl (validation_error (msg_no_control_row period_code))
          | Some c \<Rightarrow> Inr (t', pe_id p, pc_status_code c, pe_end_date p))"

text \<open>The SQL maximum of a timestamp column.\<close>

fun latest_instant :: "datetime option list \<Rightarrow> datetime option" where
  "latest_instant [] = None"
| "latest_instant (None # xs) = latest_instant xs"
| "latest_instant (Some d # xs) =
     (case latest_instant xs of
        None \<Rightarrow> Some d
      | Some e \<Rightarrow> if instant_micros d < instant_micros e then Some e else Some d)"

text \<open>The state of the calendar: closed only as far as every current book is.\<close>

definition aggregate_status :: "control_row list \<Rightarrow> string" where
  "aggregate_status controls =
     (if controls = [] then ''open''
      else if list_all (\<lambda>c. pc_status_code c = ''hard_closed'') controls then ''hard_closed''
      else if list_all (\<lambda>c. pc_status_code c \<noteq> ''open'') controls then ''soft_closed''
      else ''open'')"

definition set_control_status :: "nat \<Rightarrow> nat \<Rightarrow> nat \<Rightarrow> string \<Rightarrow> datetime \<Rightarrow> control_row list \<Rightarrow> control_row list" where
  "set_control_status tenant_id book_id period_id status now =
     map (\<lambda>c. if pc_tenant c = tenant_id \<and> pc_book c = book_id \<and> pc_period c = period_id
              then c\<lparr>pc_status_code := status, pc_closed_at := Some now\<rparr> else c)"

definition set_book_period_closed ::
    "posting_server \<Rightarrow> nat \<Rightarrow> nat \<Rightarrow> nat \<Rightarrow> string \<Rightarrow> ledger_tables \<Rightarrow> ledger_tables \<times> datetime" where
  "set_book_period_closed srv tenant_id book_id period_id status t =
     (let now = fresh_time srv t;
          controls = set_control_status tenant_id book_id period_id status now (lt_controls t);
          current = filter (\<lambda>c. pc_tenant c = tenant_id \<and> pc_period c = period_id \<and>
                      pc_book c \<in> set (map bk_id (current_books t tenant_id))) controls;
          calendar_status = aggregate_status current;
          closed_at = (if calendar_status = ''open'' then None else latest_instant (map pc_closed_at current)) in
      (t\<lparr>lt_controls := controls,
         lt_periods := map (\<lambda>p. if pe_tenant p = tenant_id \<and> pe_id p = period_id
                                 then p\<lparr>pe_status_code := calendar_status, pe_closed_at := closed_at\<rparr> else p) (lt_periods t),
         lt_inserted := Suc (lt_inserted t)\<rparr>, now))"

definition insert_period_close_event ::
    "posting_server \<Rightarrow> nat \<Rightarrow> string \<Rightarrow> string \<Rightarrow> nat option \<Rightarrow> string \<Rightarrow> ledger_tables \<Rightarrow> ledger_tables" where
  "insert_period_close_event srv tenant_id period_code accounting_book_reference snapshot_id payload_hash t =
     t\<lparr>lt_outbox := lt_outbox t @
         [\<lparr>ob_id = fresh_id srv t, ob_tenant = tenant_id, ob_event_type = ''period_close'',
           ob_aggregate_reference = accounting_book_reference @ '':fiscal_period:'' @ period_code,
           ob_payload_reference =
             (case snapshot_id of
                Some i \<Rightarrow> ''urn:cwl:accounting:trial_balance_snapshot:'' @ uuid_text i
              | None \<Rightarrow> ''urn:cwl:accounting:fiscal_period:'' @ period_code),
           ob_payload_hash = payload_hash, ob_created_at = fresh_time srv t, ob_published_at = None\<rparr>],
       lt_inserted := Suc (lt_inserted t)\<rparr>"

section \<open>What a close records\<close>

definition count_source_journals :: "ledger_tables \<Rightarrow> nat \<Rightarrow> nat \<Rightarrow> nat \<Rightarrow> date \<Rightarrow> nat" where
  "count_source_journals t tenant_id legal_entity_id book_id through =
     length (filter (\<lambda>j. gj_tenant j = tenant_id \<and> gj_entity j = legal_entity_id \<and> gj_book j = book_id \<and>
                       gj_accounting_date j \<le> through) (lt_journals t))"

text \<open>The scope of a close: the identifiers and the references of the command.\<close>

record close_scope =
  cs_tenant :: nat
  cs_entity :: nat
  cs_book :: nat
  cs_period :: nat
  cs_end_date :: date
  cs_tenant_reference :: string
  cs_command :: close_command
  cs_key :: string

definition live_close_source :: "close_scope \<Rightarrow> ledger_tables \<Rightarrow> (nat \<times> string \<times> dec \<times> dec) list \<times> nat \<times> string" where
  "live_close_source s t =
     (let lines = aggregate_trial_balance t (cs_tenant s) (cs_entity s) (cs_book s) (cs_end_date s);
          source_count = count_source_journals t (cs_tenant s) (cs_entity s) (cs_book s) (cs_end_date s);
          c = cs_command s in
      (lines, source_count,
       canonical_snapshot_hash (cs_tenant_reference s) (cc_legal_entity_reference c) (cc_book_reference c)
         (cc_period_code c) (cc_snapshot_currency_code c) source_count lines))"

definition close_receipt :: "close_scope \<Rightarrow> string \<Rightarrow> string \<Rightarrow> datetime \<Rightarrow> int \<Rightarrow> string \<Rightarrow> bool \<Rightarrow> period_close_receipt" where
  "close_receipt s status snapshot_record_id generated_at source_count payload_hash replayed =
     \<lparr>pc_tenant_reference = cs_tenant_reference s,
      pc_legal_entity_reference = cc_legal_entity_reference (cs_command s),
      pc_book_reference = cc_book_reference (cs_command s),
      pc_period_code = cc_period_code (cs_command s),
      pc_period_status_code = status,
      pc_snapshot_record_id = snapshot_record_id,
      pc_snapshot_generated_at = generated_at,
      pc_source_journal_count = source_count,
      pc_source_payload_hash = payload_hash,
      pc_replayed = replayed\<rparr>"

section \<open>Soft close\<close>

definition msg_soft_close_evidence :: "string \<Rightarrow> string" where
  "msg_soft_close_evidence period_code =
     ''Fiscal period '' @ period_code @ '' is soft_closed without durable close-command evidence. Restore the original evidence through an '' @
     ''audited migration, then retry; do not reconstruct it from later ledger state.''"

definition msg_soft_close_key :: string where
  "msg_soft_close_key =
     ''period-close idempotency key was already used by the soft-close command. Replay the original close '' @
     ''idempotency key, then retry the close.''"

text \<open>
  The evidence of a soft close on the control row, with its constraints, the unique index on its key, and
  the trigger \<open>guard_soft_close_evidence_update\<close>.
\<close>

definition evidence_kept :: "control_row \<Rightarrow> string \<Rightarrow> string \<Rightarrow> int \<Rightarrow> bool" where
  "evidence_kept c key payload_hash source_count \<longleftrightarrow>
     pc_soft_close_key c = None \<or>
     pc_soft_close_key c = Some key \<and> pc_soft_close_hash c = Some payload_hash \<and> pc_soft_close_count c = Some source_count"

definition record_soft_close ::
    "nat \<Rightarrow> nat \<Rightarrow> nat \<Rightarrow> string \<Rightarrow> string \<Rightarrow> int \<Rightarrow> ledger_tables \<Rightarrow> ledger_tables result" where
  "record_soft_close tenant_id book_id period_id key payload_hash source_count t =
     (let here = (\<lambda>c. pc_tenant c = tenant_id \<and> pc_book c = book_id \<and> pc_period c = period_id) in
      bind_result (integer_column source_count) (\<lambda>_.
      if list_ex (\<lambda>c. here c \<and> \<not> evidence_kept c key payload_hash source_count) (lt_controls t) \<or>
         \<not> not_blank key \<or> \<not> hash_pattern payload_hash
      then Inl (DatabaseError ''23514'')
      else if list_ex (\<lambda>c. \<not> here c \<and> pc_tenant c = tenant_id \<and> pc_soft_close_key c = Some key) (lt_controls t)
      then Inl (DatabaseError ''23505'')
      else Inr (t\<lparr>lt_controls := map (\<lambda>c. if here c
            then c\<lparr>pc_soft_close_key := Some key, pc_soft_close_hash := Some payload_hash,
                   pc_soft_close_count := Some source_count\<rparr> else c) (lt_controls t)\<rparr>)))"

definition persist_soft_close ::
    "posting_server \<Rightarrow> close_scope \<Rightarrow> ledger_tables \<Rightarrow> (ledger_tables \<times> period_close_receipt) result" where
  "persist_soft_close srv s t =
     (let (_, source_count, payload_hash) = live_close_source s t;
          (t1, closed_at) = set_book_period_closed srv (cs_tenant s) (cs_book s) (cs_period s) ''soft_closed'' t in
      bind_result (record_soft_close (cs_tenant s) (cs_book s) (cs_period s) (cs_key s) payload_hash (int source_count) t1) (\<lambda>t2.
        Inr (insert_period_close_event srv (cs_tenant s) (cc_period_code (cs_command s)) (cc_book_reference (cs_command s))
               None payload_hash t2,
             close_receipt s ''soft_closed'' [] closed_at (int source_count) payload_hash False)))"

definition replay_soft_close :: "posting_server \<Rightarrow> close_scope \<Rightarrow> ledger_tables \<Rightarrow> period_close_receipt result" where
  "replay_soft_close srv s t =
     (case find_control t (cs_tenant s) (cs_book s) (cs_period s) of
        None \<Rightarrow> Inl TypeError
      | Some c \<Rightarrow>
          let closed_at = (case pc_closed_at c of Some d \<Rightarrow> d | None \<Rightarrow> fresh_time srv t) in
          case (pc_soft_close_key c, pc_soft_close_count c, pc_soft_close_hash c) of
            (Some key, Some source_count, Some payload_hash) \<Rightarrow>
              if key \<noteq> cs_key s then Inl (conflict_error msg_soft_close_key)
              else Inr (close_receipt s ''soft_closed'' [] closed_at source_count payload_hash True)
          | _ \<Rightarrow> Inl (validation_error (msg_soft_close_evidence (cc_period_code (cs_command s)))))"

section \<open>Hard close\<close>

text \<open>The arrow in this message is written \<open>->\<close>.\<close>

definition msg_retained_mapping :: string where
  "msg_retained_mapping =
     ''account_role_mapping is missing for retained_earnings -> 310100. '' @
     ''Create the retained_earnings mapping and chart_account 310100, then retry the close.''"

definition msg_no_snapshot :: "string \<Rightarrow> string \<Rightarrow> string" where
  "msg_no_snapshot period_code current_status =
     ''Fiscal period '' @ period_code @ '' is '' @ current_status @ '' without a trial-balance snapshot. Restore the trial_balance_snapshot for this book from the '' @
     ''journal population, then retry the close.''"

definition msg_close_key_differs :: "string \<Rightarrow> string" where
  "msg_close_key_differs period_code =
     ''Fiscal period '' @ period_code @ '' is hard_closed (period_closed). Replay the original period-close idempotency key; a second close '' @
     ''of a locked period is rejected.''"

definition msg_unbalanced_close :: string where
  "msg_unbalanced_close =
     ''trial balance does not balance. Correct the posted journals so debit totals equal credit totals, '' @
     ''then retry the close.''"

text \<open>The lines on income accounts through a date, one for every open mapping of their account.\<close>

definition income_roles :: "string list" where
  "income_roles = [''usage_revenue'', ''write_off_expense'']"

definition income_lines ::
    "ledger_tables \<Rightarrow> nat \<Rightarrow> nat \<Rightarrow> nat \<Rightarrow> date \<Rightarrow> (string \<times> string \<times> dec \<times> dec) list" where
  "income_lines t tenant_id legal_entity_id book_id through =
     concat (map (\<lambda>l.
         case chart_by_id t tenant_id (ln_chart l) of
           None \<Rightarrow> []
         | Some c \<Rightarrow> map (\<lambda>m. (ch_code c, mp_role_code m, ln_debit l, ln_credit l))
             (filter (\<lambda>m. mp_tenant m = tenant_id \<and> mp_chart m = ch_id c \<and> mp_valid_to m = None \<and>
                        mp_role_code m \<in> set income_roles) (lt_mappings t)))
       (filter (scope_line t tenant_id legal_entity_id book_id through) (lt_lines t)))"

definition income_rows ::
    "ledger_tables \<Rightarrow> nat \<Rightarrow> nat \<Rightarrow> nat \<Rightarrow> date \<Rightarrow> (string \<times> string \<times> dec \<times> dec) list" where
  "income_rows t tenant_id legal_entity_id book_id through =
     (let lines = income_lines t tenant_id legal_entity_id book_id through in
      sort_key fst
        (map (\<lambda>(code, role).
            let group = filter (\<lambda>(c, r, _). c = code \<and> r = role) lines in
            (code, role, numeric_sum (map (\<lambda>(_, _, debit, _). debit) group),
                         numeric_sum (map (\<lambda>(_, _, _, credit). credit) group)))
          (first_occurrences (map (\<lambda>(c, r, _). (c, r)) lines))))"

definition closing_line :: "int \<Rightarrow> string \<Rightarrow> string \<Rightarrow> dec \<Rightarrow> posted_journal_line" where
  "closing_line number account role net_amount =
     \<lparr>pl_line_number = number, pl_chart_account_code = account, pl_account_role_code = role,
      pl_debit_amount = (if dec_positive net_amount then net_amount else dec_zero),
      pl_credit_amount = (if dec_positive net_amount then dec_zero else dec_neg net_amount)\<rparr>"

definition add_closing_line ::
    "posted_journal_line list \<times> dec \<Rightarrow> string \<times> string \<times> dec \<times> dec \<Rightarrow> posted_journal_line list \<times> dec" where
  "add_closing_line acc row =
     (let (closing_lines, retained) = acc; (account, role, debit_total, credit_total) = row;
          net_amount = dec_sub credit_total debit_total in
      if dec_eq net_amount dec_zero then acc
      else (closing_lines @ [closing_line (int (length closing_lines) + 1) account role net_amount],
            dec_add retained net_amount))"

definition retained_line :: "int \<Rightarrow> dec \<Rightarrow> posted_journal_line list" where
  "retained_line number retained =
     (if dec_positive retained
      then [\<lparr>pl_line_number = number, pl_chart_account_code = ''310100'', pl_account_role_code = ''retained_earnings'',
             pl_debit_amount = dec_zero, pl_credit_amount = retained\<rparr>]
      else if dec_less retained dec_zero
      then [\<lparr>pl_line_number = number, pl_chart_account_code = ''310100'', pl_account_role_code = ''retained_earnings'',
             pl_debit_amount = dec_neg retained, pl_credit_amount = dec_zero\<rparr>]
      else [])"

definition require_retained_mapping :: "ledger_tables \<Rightarrow> nat \<Rightarrow> nat \<Rightarrow> mapping_row result" where
  "require_retained_mapping t tenant_id book_id =
     (case find (\<lambda>m. mp_tenant m = tenant_id \<and> mp_book m = book_id \<and> mp_role_code m = ''retained_earnings'' \<and>
                   mp_valid_to m = None \<and>
                   (case chart_by_id t tenant_id (mp_chart m) of
                      None \<Rightarrow> False
                    | Some c \<Rightarrow> ch_code c = ''310100'' \<and> ch_valid_to c = None)) (lt_mappings t) of
        None \<Rightarrow> Inl (validation_error msg_retained_mapping)
      | Some m \<Rightarrow> Inr m)"

definition closing_policy :: "close_scope \<Rightarrow> string \<Rightarrow> mapping_row \<Rightarrow> accounting_policy" where
  "closing_policy s book_role_code m =
     \<lparr>pol_tenant_reference = cs_tenant_reference s,
      pol_legal_entity_reference = cc_legal_entity_reference (cs_command s),
      pol_book_reference = cc_book_reference (cs_command s),
      pol_book_role_code = book_role_code,
      pol_transaction_currency = cc_snapshot_currency_code (cs_command s),
      pol_functional_currency = cc_snapshot_currency_code (cs_command s),
      pol_open_period_start = cs_end_date s,
      pol_open_period_end = cs_end_date s,
      pol_chart_account_mapping = [(''retained_earnings'', ''310100'')],
      pol_policy_version = mp_policy_version m,
      pol_rule_version = mp_rule_version m\<rparr>"

definition closing_source :: "close_scope \<Rightarrow> string \<Rightarrow> journal_source" where
  "closing_source s payload_hash =
     \<lparr>js_role = Period_Closing, js_source_payload_hash = payload_hash,
      js_transaction_currency = cc_snapshot_currency_code (cs_command s), js_transaction_date = cs_end_date s,
      js_accounting_date = cs_end_date s, js_source_event_references = []\<rparr>"

definition closing_reference :: "close_scope \<Rightarrow> string" where
  "closing_reference s = closing_journal_prefix @ cc_period_code (cs_command s) @ '':'' @ cc_book_reference (cs_command s)"

definition closing_key :: "close_scope \<Rightarrow> string" where
  "closing_key s = cs_tenant_reference s @ '':period_closing:'' @ cc_period_code (cs_command s) @ '':'' @
     cc_book_reference (cs_command s)"

definition closing_lines_of :: "close_scope \<Rightarrow> ledger_tables \<Rightarrow> posted_journal_line list \<times> dec" where
  "closing_lines_of s t =
     foldl add_closing_line ([], dec_zero)
       (income_rows t (cs_tenant s) (cs_entity s) (cs_book s) (cs_end_date s))"

definition post_closing_journal :: "posting_server \<Rightarrow> close_scope \<Rightarrow> ledger_tables \<Rightarrow> ledger_tables result" where
  "post_closing_journal srv s t =
     (let (income_closing, retained) = closing_lines_of s t in
      if income_closing = [] then Inr t
      else
        bind_result (require_retained_mapping t (cs_tenant s) (cs_book s)) (\<lambda>m.
        let closing_lines = income_closing @ retained_line (int (length income_closing) + 1) retained;
            payload_hash = canonical_closing_hash (cs_tenant_reference s) (cc_legal_entity_reference (cs_command s))
              (cc_book_reference (cs_command s)) (cc_period_code (cs_command s)) closing_lines in
        bind_result (insert_proposal srv
            \<lparr>pr_id = 0, pr_tenant = cs_tenant s, pr_external_id = uuid_text (fresh_id srv t), pr_contract_version = 1,
             pr_idempotency_key = closing_key s, pr_source_hash = payload_hash\<rparr>
            (t\<lparr>lt_inserted := Suc (lt_inserted t)\<rparr>)) (\<lambda>(t1, proposal_record_id).
        case book_by_id t1 (cs_tenant s) (cs_book s) of
          None \<Rightarrow> Inl TypeError
        | Some book \<Rightarrow>
            bind_result (validate_policy (closing_policy s (bk_role_code book) m)) (\<lambda>policy.
            bind_result (insert_journal srv
                \<lparr>jh_tenant = cs_tenant s, jh_entity = cs_entity s, jh_book = cs_book s, jh_period = cs_period s,
                 jh_reference = closing_reference s, jh_proposal = proposal_record_id\<rparr>
                (closing_source s payload_hash) policy closing_lines t1) (\<lambda>(t2, _). Inr t2)))))"

definition insert_snapshot :: "posting_server \<Rightarrow> snapshot_row \<Rightarrow> ledger_tables \<Rightarrow> (ledger_tables \<times> snapshot_row) result" where
  "insert_snapshot srv row t =
     (if \<not> currency_pattern (sn_currency_code row) \<or> sn_journal_count row < 0 \<or> \<not> hash_pattern (sn_hash row) \<or>
         \<not> not_blank (sn_close_key row)
      then Inl (DatabaseError ''23514'')
      else if list_ex (\<lambda>r. sn_tenant r = sn_tenant row \<and>
                (sn_close_key r = sn_close_key row \<or>
                 sn_entity r = sn_entity row \<and> sn_book r = sn_book row \<and> sn_period r = sn_period row)) (lt_snapshots t)
      then Inl (DatabaseError ''23505'')
      else let row' = row\<lparr>sn_id := fresh_id srv t, sn_generated_at := fresh_time srv t\<rparr> in
           Inr (t\<lparr>lt_snapshots := lt_snapshots t @ [row'], lt_inserted := Suc (lt_inserted t)\<rparr>, row'))"

definition insert_balance ::
    "nat \<Rightarrow> nat \<Rightarrow> ledger_tables \<Rightarrow> nat \<times> string \<times> dec \<times> dec \<Rightarrow> ledger_tables result" where
  "insert_balance tenant_id snapshot_id t line =
     (let (account_id, _, debit_total, credit_total) = line in
      bind_result (numeric_38_6 debit_total) (\<lambda>debit.
      bind_result (numeric_38_6 credit_total) (\<lambda>credit.
      bind_result (numeric_38_6 (dec_sub debit_total credit_total)) (\<lambda>net.
      if dec_less debit dec_zero \<or> dec_less credit dec_zero then Inl (DatabaseError ''23514'')
      else if list_ex (\<lambda>r. tb_tenant r = tenant_id \<and> tb_snapshot r = snapshot_id \<and> tb_chart r = account_id) (lt_balances t)
      then Inl (DatabaseError ''23505'')
      else Inr (t\<lparr>lt_balances := lt_balances t @
             [\<lparr>tb_tenant = tenant_id, tb_snapshot = snapshot_id, tb_chart = account_id, tb_debit = debit, tb_credit = credit,
               tb_net = net\<rparr>]\<rparr>)))))"

definition persist_period_close ::
    "posting_server \<Rightarrow> close_scope \<Rightarrow> ledger_tables \<Rightarrow> (ledger_tables \<times> period_close_receipt) result" where
  "persist_period_close srv s t =
     bind_result (post_closing_journal srv s t) (\<lambda>t1.
     let (lines, source_count, payload_hash) = live_close_source s t1 in
     bind_result (insert_snapshot srv
         \<lparr>sn_id = 0, sn_tenant = cs_tenant s, sn_entity = cs_entity s, sn_book = cs_book s, sn_period = cs_period s,
          sn_currency_code = cc_snapshot_currency_code (cs_command s), sn_generated_at = fresh_time srv t1,
          sn_journal_count = int source_count, sn_hash = payload_hash, sn_close_key = cs_key s\<rparr> t1) (\<lambda>(t2, snapshot).
     bind_result (fold_result (insert_balance (cs_tenant s) (sn_id snapshot)) t2 lines) (\<lambda>t3.
     let (t4, _) = set_book_period_closed srv (cs_tenant s) (cs_book s) (cs_period s) ''hard_closed'' t3 in
       Inr (insert_period_close_event srv (cs_tenant s) (cc_period_code (cs_command s)) (cc_book_reference (cs_command s))
              (Some (sn_id snapshot)) payload_hash t4,
            close_receipt s ''hard_closed'' (uuid_text (sn_id snapshot)) (sn_generated_at snapshot) (int source_count)
              payload_hash False))))"

text \<open>The snapshot of a closed period: the latest one of its scope.\<close>

definition latest_close_snapshot :: "ledger_tables \<Rightarrow> nat \<Rightarrow> nat \<Rightarrow> nat \<Rightarrow> nat \<Rightarrow> snapshot_row option" where
  "latest_close_snapshot t tenant_id legal_entity_id book_id period_id =
     (case rev (sort_key (\<lambda>r. instant_micros (sn_generated_at r))
             (filter (\<lambda>r. sn_tenant r = tenant_id \<and> sn_entity r = legal_entity_id \<and> sn_book r = book_id \<and>
                        sn_period r = period_id) (lt_snapshots t))) of
        [] \<Rightarrow> None
      | r # _ \<Rightarrow> Some r)"

definition replay_close_receipt :: "close_scope \<Rightarrow> ledger_tables \<Rightarrow> period_close_receipt result" where
  "replay_close_receipt s t =
     (case latest_close_snapshot t (cs_tenant s) (cs_entity s) (cs_book s) (cs_period s) of
        None \<Rightarrow> Inl (validation_error (msg_no_snapshot (cc_period_code (cs_command s)) ''hard_closed''))
      | Some r \<Rightarrow>
          if sn_close_key r \<noteq> cs_key s then Inl (validation_error (msg_close_key_differs (cc_period_code (cs_command s))))
          else Inr (close_receipt s ''hard_closed'' (uuid_text (sn_id r)) (sn_generated_at r) (sn_journal_count r)
                      (sn_hash r) True))"

end
