(* ===== verification/Persistent_Close.thy ===== *)
theory Persistent_Close
  imports Persistent_Periods
begin

text \<open>
  The period commands of \<open>PostgresPostingLedger\<close> from their arguments to their commit:
  \<open>open_fiscal_period\<close>, \<open>close_fiscal_period\<close>, and the reads \<open>load_fiscal_period\<close> and
  \<open>load_period_trial_balance\<close> that a hard close looks at first. The other reports of the close package
  only read; they are a parameter of the close.
\<close>

section \<open>Reading a period\<close>

definition msg_period_fields :: string where
  "msg_period_fields =
     ''legal_entity_reference and fiscal_period_reference are required. Supply those period fields, then '' @
     ''retry the period read.''"

definition msg_period_read_missing :: "string \<Rightarrow> string" where
  "msg_period_read_missing period_code =
     ''Fiscal period '' @ period_code @ '' is not recorded for this tenant. Create the fiscal_period row, then retry the period read.''"

definition fiscal_period_reference :: "string \<Rightarrow> string" where
  "fiscal_period_reference period_code = ''urn:cwl:accounting:fiscal_period:'' @ period_code"

definition require_entity_for :: "ledger_tables \<Rightarrow> nat \<Rightarrow> string \<Rightarrow> string \<Rightarrow> nat result" where
  "require_entity_for t tenant_id legal_entity_reference next_action =
     bind_result (load_legal_entity (ct_entities t) tenant_id legal_entity_reference next_action) (\<lambda>(entity_id, _). Inr entity_id)"

definition load_fiscal_period :: "posting_server \<Rightarrow> string \<Rightarrow> string \<Rightarrow> string \<Rightarrow> ledger_tables \<Rightarrow> payload result" where
  "load_fiscal_period srv tenant_reference legal_entity_reference period_code t =
     (if legal_entity_reference = [] \<or> period_code = [] then Inl (validation_error msg_period_fields)
      else
        bind_result (require_tenant (ps_server srv) (ct_tenants t) tenant_reference) (\<lambda>tenant_id.
        bind_result (require_entity_for t tenant_id legal_entity_reference ''the period read'') (\<lambda>_.
        case period_of_code t tenant_id period_code of
          None \<Rightarrow> Inl (validation_error (msg_period_read_missing period_code))
        | Some p \<Rightarrow> Inr
            [(''tenant_reference'', PStr tenant_reference),
             (''legal_entity_reference'', PStr legal_entity_reference),
             (''fiscal_period_reference'', PStr (fiscal_period_reference period_code)),
             (''period_code'', PStr period_code),
             (''period_status_code'', PStr (pe_status_code p)),
             (''period_start_date'', PStr (date_isoformat (pe_start_date p))),
             (''period_end_date'', PStr (date_isoformat (pe_end_date p)))])))"

definition pg_load_fiscal_period ::
    "posting_server \<Rightarrow> string \<Rightarrow> string \<Rightarrow> string \<Rightarrow> ledger_tables \<Rightarrow> (ledger_tables \<times> payload) result" where
  "pg_load_fiscal_period srv tenant_reference legal_entity_reference period_code =
     transaction srv (\<lambda>t.
       bind_result (load_fiscal_period srv tenant_reference legal_entity_reference period_code t) (\<lambda>doc. Inr (t, doc)))"

section \<open>The trial balance of a period\<close>

definition msg_balance_code_required :: string where
  "msg_balance_code_required =
     ''period_code is required. Supply the fiscal period code, then retry the trial-balance read.''"

definition msg_balance_basis :: string where
  "msg_balance_basis =
     ''balance_basis_code must be unadjusted, adjusted, or post_close. Supply a known trial-balance basis, '' @
     ''then retry the trial-balance read.''"

definition msg_post_close_snapshot :: string where
  "msg_post_close_snapshot =
     ''balance_basis_code=post_close requires a stored trial_balance_snapshot. Hard-close the period, then '' @
     ''retry the trial-balance read.''"

definition msg_balance_snapshot :: "string \<Rightarrow> string \<Rightarrow> string" where
  "msg_balance_snapshot period_code period_status_code =
     ''Fiscal period '' @ period_code @ '' is '' @ period_status_code @ '' without a trial-balance snapshot. Restore the trial_balance_snapshot for this book from the '' @
     ''journal population, then retry the trial-balance read.''"

text \<open>SQL's \<open>LIKE\<close>: a percent sign matches any text, an underscore any one character.\<close>

fun sql_like :: "string \<Rightarrow> string \<Rightarrow> bool" where
  "sql_like [] s = (s = [])"
| "sql_like (p # ps) [] = (p = CHR ''%'' \<and> sql_like ps [])"
| "sql_like (p # ps) (c # s) =
     (if p = CHR ''%'' then sql_like ps (c # s) \<or> sql_like (p # ps) s
      else (p = CHR ''_'' \<or> p = c) \<and> sql_like ps s)"

definition closing_journal_pattern :: string where
  "closing_journal_pattern = ''urn:cwl:accounting:general_journal:period_closing:%''"

text \<open>The worksheet leaves out closing journals.\<close>

definition worksheet_line :: "ledger_tables \<Rightarrow> nat \<Rightarrow> nat \<Rightarrow> nat \<Rightarrow> date \<Rightarrow> bool \<Rightarrow> line_row \<Rightarrow> bool" where
  "worksheet_line t tenant_id legal_entity_id book_id through exclude_adjusting l \<longleftrightarrow>
     scope_line t tenant_id legal_entity_id book_id through l \<and>
     (case journal_by_id t (ln_tenant l) (ln_journal l) of
        None \<Rightarrow> False
      | Some j \<Rightarrow> \<not> sql_like closing_journal_pattern (gj_reference j)) \<and>
     (\<not> exclude_adjusting \<or> ln_role_code l \<noteq> ''adjusting'')"

definition aggregate_worksheet ::
    "ledger_tables \<Rightarrow> nat \<Rightarrow> nat \<Rightarrow> nat \<Rightarrow> date \<Rightarrow> bool \<Rightarrow> (nat \<times> string \<times> dec \<times> dec) list" where
  "aggregate_worksheet t tenant_id legal_entity_id book_id through exclude_adjusting =
     account_totals t tenant_id
       (filter (worksheet_line t tenant_id legal_entity_id book_id through exclude_adjusting) (lt_lines t))"

definition snapshot_balance_lines :: "ledger_tables \<Rightarrow> nat \<Rightarrow> nat \<Rightarrow> (string \<times> dec \<times> dec) list" where
  "snapshot_balance_lines t tenant_id snapshot_id =
     sort_key fst
       (concat (map (\<lambda>r.
           case chart_by_id t tenant_id (tb_chart r) of
             None \<Rightarrow> []
           | Some c \<Rightarrow> [(ch_code c, tb_debit r, tb_credit r)])
         (filter (\<lambda>r. tb_tenant r = tenant_id \<and> tb_snapshot r = snapshot_id) (lt_balances t))))"

text \<open>Which lines are reported, from where, and under which snapshot.\<close>

definition balance_lines ::
    "ledger_tables \<Rightarrow> nat \<Rightarrow> nat \<Rightarrow> nat \<Rightarrow> nat \<times> string \<times> date \<Rightarrow> string \<Rightarrow> string \<Rightarrow>
       ((string \<times> dec \<times> dec) list \<times> string \<times> nat option) result" where
  "balance_lines t tenant_id legal_entity_id book_id period period_code basis =
     (let (period_id, status, period_end) = period;
          live = (\<lambda>rows. Inr (map snd rows, ''live'', None));
          from_snapshot = (\<lambda>missing.
            case latest_close_snapshot t tenant_id legal_entity_id book_id period_id of
              None \<Rightarrow> Inl (validation_error missing)
            | Some r \<Rightarrow> Inr (snapshot_balance_lines t tenant_id (sn_id r), ''snapshot'', Some (sn_id r))) in
      if basis = ''post_close'' then from_snapshot msg_post_close_snapshot
      else if basis = ''unadjusted'' then live (aggregate_worksheet t tenant_id legal_entity_id book_id period_end True)
      else if basis = ''adjusted'' then live (aggregate_worksheet t tenant_id legal_entity_id book_id period_end False)
      else if status = ''hard_closed'' then from_snapshot (msg_balance_snapshot period_code status)
      else live (aggregate_trial_balance t tenant_id legal_entity_id book_id period_end))"

definition balance_line_document :: "string \<times> dec \<times> dec \<Rightarrow> payload" where
  "balance_line_document line =
     (let (account_code, debit_total, credit_total) = line in
      [(''chart_account_code'', PStr account_code),
       (''debit_amount'', PStr (dec_format_f debit_total)),
       (''credit_amount'', PStr (dec_format_f credit_total)),
       (''net_balance_amount'', PStr (dec_format_f (dec_sub debit_total credit_total)))])"

definition period_balance_document ::
    "string \<Rightarrow> string \<Rightarrow> string \<Rightarrow> string \<Rightarrow> string \<Rightarrow> string \<Rightarrow> (string \<times> dec \<times> dec) list \<times> string \<times> nat option \<Rightarrow> payload" where
  "period_balance_document tenant_reference entity book period_code status basis source =
     (let (lines, source_code, snapshot_id) = source in
      [(''tenant_reference'', PStr tenant_reference),
       (''legal_entity_reference'', PStr entity),
       (''accounting_book_reference'', PStr book),
       (''book_reference'', PStr book),
       (''fiscal_period_reference'', PStr (fiscal_period_reference period_code)),
       (''period_code'', PStr period_code),
       (''period_status_code'', PStr status),
       (''balance_source_code'', PStr source_code),
       (''lines'', PList (map (\<lambda>l. PDict (balance_line_document l)) lines))] @
      (case snapshot_id of None \<Rightarrow> [] | Some i \<Rightarrow> [(''snapshot_record_id'', PStr (uuid_text i))]) @
      (if basis = [] then [] else [(''balance_basis_code'', PStr basis)]))"

definition load_period_trial_balance ::
    "posting_server \<Rightarrow> string \<Rightarrow> string \<Rightarrow> string \<Rightarrow> string \<Rightarrow> string \<Rightarrow> ledger_tables \<Rightarrow> payload result" where
  "load_period_trial_balance srv tenant_reference entity book period_code basis t =
     bind_result (require_reference entity ''legal entity reference'') (\<lambda>_.
     bind_result (require_reference book ''accounting book reference'') (\<lambda>_.
     if strip period_code = [] then Inl (validation_error msg_balance_code_required)
     else if basis \<noteq> [] \<and> basis \<notin> {''unadjusted'', ''adjusted'', ''post_close''} then Inl (validation_error msg_balance_basis)
     else
       bind_result (require_tenant (ps_server srv) (ct_tenants t) tenant_reference) (\<lambda>tenant_id.
       bind_result (require_entity_for t tenant_id entity ''the trial-balance read'') (\<lambda>legal_entity_id.
       bind_result (require_book_for_close t tenant_id legal_entity_id book ''the trial-balance read'') (\<lambda>(book_id, _).
       bind_result (require_fiscal_period t tenant_id period_code ''the trial-balance read'') (\<lambda>period.
       bind_result (balance_lines t tenant_id legal_entity_id book_id period period_code basis) (\<lambda>source.
         Inr (period_balance_document tenant_reference entity book period_code (fst (snd period)) basis source))))))))"

definition pg_load_period_trial_balance ::
    "posting_server \<Rightarrow> string \<Rightarrow> string \<Rightarrow> string \<Rightarrow> string \<Rightarrow> string \<Rightarrow> ledger_tables \<Rightarrow> (ledger_tables \<times> payload) result" where
  "pg_load_period_trial_balance srv tenant_reference entity book period_code basis =
     transaction srv (\<lambda>t.
       bind_result (load_period_trial_balance srv tenant_reference entity book period_code basis t) (\<lambda>doc. Inr (t, doc)))"

section \<open>Closing a period\<close>

definition msg_close_code_required :: string where
  "msg_close_code_required =
     ''period_code is required. Supply the fiscal period code, then retry the close.''"

definition msg_close_currency :: string where
  "msg_close_currency =
     ''snapshot_currency_code must be a three-letter ISO currency. Supply the book reporting currency, '' @
     ''then retry the close.''"

definition msg_close_status :: string where
  "msg_close_status =
     ''period_status_code must be soft_closed or hard_closed. Supply one of those codes, then retry the '' @
     ''close.''"

definition msg_soft_close_of_hard :: "string \<Rightarrow> string" where
  "msg_soft_close_of_hard period_code =
     ''Fiscal period '' @ period_code @ '' is hard_closed. Hard-closed periods cannot be soft-closed. Open a later period or leave this '' @
     ''period hard_closed; no close row was written.''"

definition msg_snapshot_currency :: "string \<Rightarrow> string \<Rightarrow> string" where
  "msg_snapshot_currency snapshot_currency_code reporting_currency_code =
     ''snapshot currency '' @ snapshot_currency_code @ '' does not match book reporting currency '' @ reporting_currency_code @
     ''. Supply the book reporting currency, then retry the close.''"

text \<open>\<open>Decimal(str(line[key]))\<close>: the texts of a trial balance are amounts.\<close>

definition document_amount :: "py_value \<Rightarrow> string \<Rightarrow> dec" where
  "document_amount v key =
     (case v of
        PDict line \<Rightarrow>
          (case get_value line key of
             PStr s \<Rightarrow> (case decimal_of_text s of Some (Fin d) \<Rightarrow> d | _ \<Rightarrow> dec_zero)
           | _ \<Rightarrow> dec_zero)
      | _ \<Rightarrow> dec_zero)"

definition document_lines :: "payload \<Rightarrow> py_value list" where
  "document_lines doc = (case get_value doc ''lines'' of PList lines \<Rightarrow> lines | _ \<Rightarrow> [])"

definition require_closeable :: "payload \<Rightarrow> unit result" where
  "require_closeable balance =
     require (dec_eq (dec_sum (map (\<lambda>l. document_amount l ''debit_amount'') (document_lines balance)))
                     (dec_sum (map (\<lambda>l. document_amount l ''credit_amount'') (document_lines balance))))
       (validation_error msg_unbalanced_close)"

text \<open>
  The package of a hard close: the period, its trial balance, and the other reports of the package, which
  may refuse too.
\<close>

type_synonym close_reports = "close_command \<Rightarrow> ledger_tables \<Rightarrow> unit result"

definition require_close_package ::
    "posting_server \<Rightarrow> close_reports \<Rightarrow> string \<Rightarrow> close_command \<Rightarrow> ledger_tables \<Rightarrow> unit result" where
  "require_close_package srv reports tenant_reference c t =
     bind_result (load_fiscal_period srv tenant_reference (cc_legal_entity_reference c) (cc_period_code c) t) (\<lambda>_.
     bind_result (load_period_trial_balance srv tenant_reference (cc_legal_entity_reference c) (cc_book_reference c)
         (cc_period_code c) [] t) (\<lambda>balance.
     bind_result (reports c t) (\<lambda>_. require_closeable balance)))"

definition close_key :: "string \<Rightarrow> close_command \<Rightarrow> string" where
  "close_key tenant_reference c =
     (if strip (cc_idempotency_key c) \<noteq> [] then strip (cc_idempotency_key c)
      else tenant_reference @ '':period_close:'' @ cc_book_reference c @ '':'' @ cc_period_code c)"

definition close_locked ::
    "posting_server \<Rightarrow> close_reports \<Rightarrow> close_scope \<Rightarrow> string \<Rightarrow> ledger_tables \<Rightarrow> (ledger_tables \<times> period_close_receipt) result" where
  "close_locked srv reports s current_status t =
     (let wanted = cc_period_status_code (cs_command s);
          replay = (\<lambda>r. bind_result r (\<lambda>receipt. Inr (t, receipt))) in
      if current_status = ''hard_closed''
      then if wanted = ''soft_closed''
           then Inl (validation_error (msg_soft_close_of_hard (cc_period_code (cs_command s))))
           else replay (replay_close_receipt s t)
      else if current_status = wanted then replay (replay_soft_close srv s t)
      else if wanted = ''soft_closed'' then persist_soft_close srv s t
      else
        bind_result (require_close_package srv reports (cs_tenant_reference s) (cs_command s) t) (\<lambda>_.
          persist_period_close srv s t))"

definition close_in_session ::
    "posting_server \<Rightarrow> close_reports \<Rightarrow> string \<Rightarrow> close_command \<Rightarrow> ledger_tables \<Rightarrow> (ledger_tables \<times> period_close_receipt) result" where
  "close_in_session srv reports tenant_reference c t =
     bind_result (require_tenant (ps_server srv) (ct_tenants t) tenant_reference) (\<lambda>tenant_id.
     bind_result (require_entity_for t tenant_id (cc_legal_entity_reference c) ''the close'') (\<lambda>legal_entity_id.
     bind_result (require_book_for_close t tenant_id legal_entity_id (cc_book_reference c) ''the close'') (\<lambda>(book_id, reporting_currency).
     if cc_snapshot_currency_code c \<noteq> reporting_currency
     then Inl (validation_error (msg_snapshot_currency (cc_snapshot_currency_code c) reporting_currency))
     else
       bind_result (lock_book_period tenant_id book_id (cc_period_code c) t) (\<lambda>(t1, period_id, current_status, period_end).
         close_locked srv reports
           \<lparr>cs_tenant = tenant_id, cs_entity = legal_entity_id, cs_book = book_id, cs_period = period_id,
            cs_end_date = period_end, cs_tenant_reference = tenant_reference, cs_command = c,
            cs_key = close_key tenant_reference c\<rparr> current_status t1))))"

definition pg_close_fiscal_period ::
    "posting_server \<Rightarrow> close_reports \<Rightarrow> string \<Rightarrow> close_command \<Rightarrow> ledger_tables \<Rightarrow> (ledger_tables \<times> period_close_receipt) result" where
  "pg_close_fiscal_period srv reports tenant_reference c t =
     bind_result (require_reference (cc_legal_entity_reference c) ''legal entity reference'') (\<lambda>_.
     bind_result (require_reference (cc_book_reference c) ''accounting book reference'') (\<lambda>_.
     if strip (cc_period_code c) = [] then Inl (validation_error msg_close_code_required)
     else
       case require_currency (cc_snapshot_currency_code c) of
         Inl _ \<Rightarrow> Inl (validation_error msg_close_currency)
       | Inr _ \<Rightarrow>
           if cc_period_status_code c \<notin> {''soft_closed'', ''hard_closed''} then Inl (validation_error msg_close_status)
           else transaction srv (close_in_session srv reports tenant_reference c) t))"

section \<open>Opening a period\<close>

definition msg_open_fields :: string where
  "msg_open_fields =
     ''legal_entity_reference and fiscal_period_reference are required. Supply those period-open fields, '' @
     ''then retry the period open.''"

definition msg_open_key :: string where
  "msg_open_key =
     ''period-open idempotency_key must be a canonical non-empty string. Supply the original command key, '' @
     ''then retry the period open.''"

definition msg_open_hash :: string where
  "msg_open_hash =
     ''period-open source_payload_hash must be a canonical sha256 digest. Supply the immutable command '' @
     ''hash, then retry the period open.''"

definition msg_open_conflict :: string where
  "msg_open_conflict =
     ''period-open idempotency key was already used with a different payload''"

definition msg_closed_not_reopened :: "string \<Rightarrow> string \<Rightarrow> string" where
  "msg_closed_not_reopened period_code current_status =
     ''Fiscal period '' @ period_code @ '' is '' @ current_status @ ''. Closed periods cannot be reopened. Open a later period, then retry the period open.''"

definition msg_open_dates_differ :: string where
  "msg_open_dates_differ =
     ''period-open dates do not match the already-open fiscal period. Supply its existing dates or omit '' @
     ''both dates, then retry.''"

definition msg_open_dates_required :: string where
  "msg_open_dates_required =
     ''period_start_date and period_end_date are required. Supply those fiscal_period dates, then retry '' @
     ''the period open.''"

definition msg_open_dates_order :: string where
  "msg_open_dates_order =
     ''period_end_date must be on or after period_start_date. Supply a valid date range, then retry the '' @
     ''period open.''"

definition msg_no_calendar :: string where
  "msg_no_calendar =
     ''No fiscal_calendar is recorded for this tenant. Create the fiscal_calendar row, then retry the '' @
     ''period open.''"

definition period_open_document :: "string \<Rightarrow> string \<Rightarrow> string \<Rightarrow> date \<Rightarrow> date \<Rightarrow> bool \<Rightarrow> payload" where
  "period_open_document tenant_reference legal_entity_reference period_code period_start period_end replayed =
     [(''tenant_reference'', PStr tenant_reference),
      (''legal_entity_reference'', PStr legal_entity_reference),
      (''fiscal_period_reference'', PStr (fiscal_period_reference period_code)),
      (''period_code'', PStr period_code),
      (''period_status_code'', PStr ''open''),
      (''period_start_date'', PStr (date_isoformat period_start)),
      (''period_end_date'', PStr (date_isoformat period_end)),
      (''replayed'', PBool replayed)]"

definition tenant_calendar :: "ledger_tables \<Rightarrow> nat \<Rightarrow> nat result" where
  "tenant_calendar t tenant_id =
     (case sort_key cl_code (filter (\<lambda>r. cl_tenant r = tenant_id) (lt_calendars t)) of
        [] \<Rightarrow> Inl (validation_error msg_no_calendar)
      | r # _ \<Rightarrow> Inr (cl_id r))"

text \<open>The period a command opens: an open one that is there, or a new one.\<close>

definition open_period_row ::
    "posting_server \<Rightarrow> nat \<Rightarrow> open_command \<Rightarrow> ledger_tables \<Rightarrow> (ledger_tables \<times> period_row \<times> bool) result" where
  "open_period_row srv tenant_id c t =
     (case period_of_code t tenant_id (oc_period_code c) of
        Some p \<Rightarrow>
          if pe_status_code p \<noteq> ''open''
          then Inl (validation_error (msg_closed_not_reopened (oc_period_code c) (pe_status_code p)))
          else if (oc_period_start_date c \<noteq> None \<and> oc_period_start_date c \<noteq> Some (pe_start_date p)) \<or>
                  (oc_period_end_date c \<noteq> None \<and> oc_period_end_date c \<noteq> Some (pe_end_date p))
          then Inl (validation_error msg_open_dates_differ)
          else Inr (t, p, True)
      | None \<Rightarrow>
          (case (oc_period_start_date c, oc_period_end_date c) of
             (Some period_start, Some period_end) \<Rightarrow>
               if period_end < period_start then Inl (validation_error msg_open_dates_order)
               else
                 bind_result (tenant_calendar t tenant_id) (\<lambda>calendar_id.
                   let p = \<lparr>pe_id = fresh_id srv t, pe_tenant = tenant_id, pe_calendar = calendar_id,
                            pe_code = oc_period_code c, pe_start_date = period_start, pe_end_date = period_end,
                            pe_status_code = ''open'', pe_closed_at = None\<rparr> in
                   Inr (t\<lparr>lt_periods := lt_periods t @ [p], lt_inserted := Suc (lt_inserted t)\<rparr>, p, False))
           | _ \<Rightarrow> Inl (validation_error msg_open_dates_required)))"

text \<open>The constraints of the command row: its dates come together, in order.\<close>

definition insert_open_command :: "open_row \<Rightarrow> ledger_tables \<Rightarrow> ledger_tables result" where
  "insert_open_command row t =
     (if \<not> not_blank (po_key row) \<or> \<not> hash_pattern (po_hash row) \<or>
         (case (po_requested_start row, po_requested_end row) of
            (None, None) \<Rightarrow> False
          | (Some s, Some e) \<Rightarrow> e < s
          | _ \<Rightarrow> True)
      then Inl (DatabaseError ''23514'')
      else if list_ex (\<lambda>r. po_tenant r = po_tenant row \<and> po_key r = po_key row) (lt_opens t)
      then Inl (DatabaseError ''23505'')
      else Inr (t\<lparr>lt_opens := lt_opens t @ [row]\<rparr>))"

definition replay_open ::
    "string \<Rightarrow> nat \<Rightarrow> open_command \<Rightarrow> open_row \<Rightarrow> period_row \<Rightarrow> payload result" where
  "replay_open tenant_reference legal_entity_id c prior p =
     (if po_entity prior \<noteq> legal_entity_id \<or> pe_code p \<noteq> oc_period_code c \<or>
         po_requested_start prior \<noteq> oc_period_start_date c \<or> po_requested_end prior \<noteq> oc_period_end_date c \<or>
         po_hash prior \<noteq> oc_source_payload_hash c
      then Inl (conflict_error msg_open_conflict)
      else Inr (period_open_document tenant_reference (oc_legal_entity_reference c) (oc_period_code c)
                  (pe_start_date p) (pe_end_date p) True))"

definition prior_open :: "ledger_tables \<Rightarrow> nat \<Rightarrow> string \<Rightarrow> (open_row \<times> period_row) option" where
  "prior_open t tenant_id command_key =
     (case find (\<lambda>r. po_tenant r = tenant_id \<and> po_key r = command_key) (lt_opens t) of
        None \<Rightarrow> None
      | Some r \<Rightarrow> map_option (\<lambda>p. (r, p)) (find (\<lambda>p. pe_tenant p = tenant_id \<and> pe_id p = po_period r) (lt_periods t)))"

definition open_in_session ::
    "posting_server \<Rightarrow> string \<Rightarrow> open_command \<Rightarrow> ledger_tables \<Rightarrow> (ledger_tables \<times> payload) result" where
  "open_in_session srv tenant_reference c t =
     bind_result (require_tenant (ps_server srv) (ct_tenants t) tenant_reference) (\<lambda>tenant_id.
     bind_result (require_entity_for t tenant_id (oc_legal_entity_reference c) ''the period open'') (\<lambda>legal_entity_id.
     case prior_open t tenant_id (strip (oc_idempotency_key c)) of
       Some (prior, p) \<Rightarrow> bind_result (replay_open tenant_reference legal_entity_id c prior p) (\<lambda>doc. Inr (t, doc))
     | None \<Rightarrow>
         bind_result (open_period_row srv tenant_id c t) (\<lambda>(t1, p, replayed).
         bind_result (insert_open_command
             \<lparr>po_tenant = tenant_id, po_entity = legal_entity_id, po_period = pe_id p, po_key = strip (oc_idempotency_key c),
              po_hash = oc_source_payload_hash c, po_requested_start = oc_period_start_date c,
              po_requested_end = oc_period_end_date c\<rparr> t1) (\<lambda>t2.
           Inr (t2, period_open_document tenant_reference (oc_legal_entity_reference c) (oc_period_code c)
                      (pe_start_date p) (pe_end_date p) replayed)))))"

definition pg_open_fiscal_period ::
    "posting_server \<Rightarrow> string \<Rightarrow> open_command \<Rightarrow> ledger_tables \<Rightarrow> (ledger_tables \<times> payload) result" where
  "pg_open_fiscal_period srv tenant_reference c t =
     (if oc_legal_entity_reference c = [] \<or> oc_period_code c = [] then Inl (validation_error msg_open_fields)
      else if strip (oc_idempotency_key c) = [] \<or> strip (oc_idempotency_key c) \<noteq> oc_idempotency_key c
      then Inl (validation_error msg_open_key)
      else if \<not> hash_pattern (oc_source_payload_hash c) then Inl (validation_error msg_open_hash)
      else transaction srv (open_in_session srv tenant_reference c) t)"

end
