(* ===== verification/Persistent_Effects.thy ===== *)
theory Persistent_Effects
  imports Persistent_Close Bank_Properties
begin

text \<open>
  What the inserts of the persistent ledger do to its tables, and what a journal adds to them, whichever
  command writes it.
\<close>

section \<open>Amounts\<close>

text \<open>What a \<open>numeric(38, 6)\<close> column holds of a non-negative amount.\<close>

definition column_amount :: "dec \<Rightarrow> bool" where
  "column_amount d \<longleftrightarrow> \<not> dneg d \<and> dexp d = - 6"

lemma column_amount_value: "column_amount d \<Longrightarrow> dval d = of_nat (dcoef d) * 10 powi (- 6)"
  by (simp add: column_amount_def dval_def signed_coef_def)

lemma numeric_column_amount:
  assumes "numeric_38_6 d = Inr e" "\<not> dec_less e dec_zero"
  shows "column_amount e"
proof -
  have e: "e = Dec (scaled d (- 6) < 0) (nat \<bar>scaled d (- 6)\<bar>) (- 6)"
    using assms(1) by (auto simp: numeric_38_6_def Let_def split: if_splits)
  have "dval e = of_int (scaled d (- 6)) * 10 powi (- 6)"
    by (simp add: e dval_def signed_coef_def)
  then have "\<not> scaled d (- 6) < 0"
    using assms(2) by (simp add: dec_less_iff mult_less_0_iff)
  then show ?thesis by (simp add: e column_amount_def)
qed

lemma numeric_same_value:
  assumes "numeric_38_6 d = Inr e" "amount_ok d"
  shows "dval e = dval d"
proof -
  have e: "e = Dec (scaled d (- 6) < 0) (nat \<bar>scaled d (- 6)\<bar>) (- 6)"
    using assms(1) by (auto simp: numeric_38_6_def Let_def split: if_splits)
  have "dval d = of_int (scaled d (- 6)) * 10 powi (- 6)"
    using assms(2) by (intro dval_scaled) (simp add: amount_ok_def)
  then show ?thesis by (simp add: e dval_def signed_coef_def)
qed

lemma numeric_sum_value:
  assumes "\<forall>d\<in>set ds. column_amount d"
  shows "dval (numeric_sum ds) = dval_sum ds"
proof -
  have "dval (numeric_sum ds) = of_nat (sum_list (map dcoef ds)) * 10 powi (- 6)"
    by (simp add: numeric_sum_def dval_def signed_coef_def)
  also have "\<dots> = dval_sum ds"
    using assms by (induction ds) (simp_all add: column_amount_value distrib_right)
  finally show ?thesis .
qed

lemma numeric_sum_amount_ok: "amount_ok (numeric_sum ds)"
  by (simp add: numeric_sum_def amount_ok_def)

section \<open>The effect of the inserts\<close>

lemma insert_proposal_effect:
  assumes "insert_proposal srv row t = Inr (t', i)"
  shows "i = fresh_id srv t \<and> hash_pattern (pr_source_hash row) \<and>
     \<not> list_ex (\<lambda>r. pr_tenant r = pr_tenant row \<and>
          (pr_external_id r = pr_external_id row \<or> pr_idempotency_key r = pr_idempotency_key row)) (lt_proposals t) \<and>
     t' = t\<lparr>lt_proposals := lt_proposals t @ [row\<lparr>pr_id := i\<rparr>], lt_inserted := Suc (lt_inserted t)\<rparr>"
  using assms by (auto simp: insert_proposal_def result_simps)

lemma insert_journal_row_effect:
  assumes "insert_journal_row srv role row t = Inr (t', i)"
  shows "i = fresh_id srv t \<and> guard_period_insert srv role row t = Inr () \<and>
     \<not> list_ex (\<lambda>r. gj_tenant r = gj_tenant row \<and> gj_reference r = gj_reference row) (lt_journals t) \<and>
     t' = t\<lparr>lt_journals := lt_journals t @ [row\<lparr>gj_id := i\<rparr>], lt_inserted := Suc (lt_inserted t)\<rparr>"
  using assms by (auto simp: insert_journal_row_def result_simps)

text \<open>The row that a line of a journal becomes.\<close>

definition line_stored :: "chart_row list \<Rightarrow> nat \<Rightarrow> nat \<Rightarrow> nat \<Rightarrow> posted_journal_line \<Rightarrow> line_row \<Rightarrow> bool" where
  "line_stored charts tid book jid l row \<longleftrightarrow>
     ln_tenant row = tid \<and> ln_journal row = jid \<and> ln_number row = pl_line_number l \<and>
     ln_role_code row = pl_account_role_code l \<and>
     (\<exists>c\<in>set charts. ch_tenant c = tid \<and> ch_book c = book \<and> ch_code c = pl_chart_account_code l \<and> ch_id c = ln_chart row) \<and>
     numeric_38_6 (pl_debit_amount l) = Inr (ln_debit row) \<and> numeric_38_6 (pl_credit_amount l) = Inr (ln_credit row) \<and>
     column_amount (ln_debit row) \<and> column_amount (ln_credit row) \<and>
     dec_positive (ln_debit row) \<noteq> dec_positive (ln_credit row)"

lemma insert_line_effect:
  assumes "insert_journal_line tid book jid t l = Inr t'"
  shows "\<exists>row. line_stored (ct_charts t) tid book jid l row \<and>
     t' = t\<lparr>lt_lines := lt_lines t @ [row]\<rparr> \<and> 0 < ln_number row \<and>
     \<not> list_ex (\<lambda>r. ln_tenant r = tid \<and> ln_journal r = jid \<and> ln_number r = ln_number row) (lt_lines t)"
proof -
  obtain c where c: "find (\<lambda>c. ch_tenant c = tid \<and> ch_book c = book \<and> ch_code c = pl_chart_account_code l \<and>
                   ch_valid_to c = None) (ct_charts t) = Some c"
    using assms by (auto simp: insert_journal_line_def split: option.splits)
  then have found: "c \<in> set (ct_charts t)" "ch_tenant c = tid" "ch_book c = book" "ch_code c = pl_chart_account_code l"
    by (auto simp: find_Some_iff)
  obtain debit credit where d: "numeric_38_6 (pl_debit_amount l) = Inr debit" "numeric_38_6 (pl_credit_amount l) = Inr credit"
      "\<not> dec_less debit dec_zero" "\<not> dec_less credit dec_zero" "dec_positive debit \<noteq> dec_positive credit"
      "0 < pl_line_number l"
    and t': "\<not> list_ex (\<lambda>r. ln_tenant r = tid \<and> ln_journal r = jid \<and> ln_number r = pl_line_number l) (lt_lines t)"
      "t' = t\<lparr>lt_lines := lt_lines t @ [\<lparr>ln_tenant = tid, ln_journal = jid, ln_number = pl_line_number l, ln_chart = ch_id c,
             ln_role_code = pl_account_role_code l, ln_debit = debit, ln_credit = credit\<rparr>]\<rparr>"
    using assms unfolding insert_journal_line_def c option.case insert_line_def line_row.select_convs result_simps
    by (auto simp: not_le not_less)
  show ?thesis
    using d t' found numeric_column_amount [OF d(1,3)] numeric_column_amount [OF d(2,4)]
    by (intro exI [of _ "\<lparr>ln_tenant = tid, ln_journal = jid, ln_number = pl_line_number l, ln_chart = ch_id c,
             ln_role_code = pl_account_role_code l, ln_debit = debit, ln_credit = credit\<rparr>"])
      (auto simp: line_stored_def intro!: bexI [of _ c])
qed

lemma insert_lines_effect:
  assumes "fold_result (insert_journal_line tid book jid) t ls = Inr t'"
    and "\<forall>r\<in>set (lt_lines t). ln_journal r \<noteq> jid"
  shows "\<exists>rows. list_all2 (line_stored (ct_charts t) tid book jid) ls rows \<and> t' = t\<lparr>lt_lines := lt_lines t @ rows\<rparr> \<and>
     distinct (map ln_number rows) \<and> (\<forall>r\<in>set rows. 0 < ln_number r)"
proof -
  have "\<exists>rows. list_all2 (line_stored (ct_charts t) tid book jid) ls rows \<and> t' = t\<lparr>lt_lines := lt_lines t @ rows\<rparr> \<and>
     distinct (map ln_number (done_rows @ rows)) \<and> (\<forall>r\<in>set rows. 0 < ln_number r)"
    if "fold_result (insert_journal_line tid book jid) t ls = Inr t'" "lt_lines t = old @ done_rows"
      "\<forall>r\<in>set done_rows. ln_tenant r = tid \<and> ln_journal r = jid" "distinct (map ln_number done_rows)" for t old done_rows
    using that
  proof (induction ls arbitrary: t done_rows)
    case Nil
    then show ?case by (intro exI [of _ "[]"]) (cases t, simp)
  next
    case (Cons l ls)
    obtain t1 where step: "insert_journal_line tid book jid t l = Inr t1"
      and rest: "fold_result (insert_journal_line tid book jid) t1 ls = Inr t'"
      using Cons.prems(1) by (auto simp: result_simps)
    obtain row where row: "line_stored (ct_charts t) tid book jid l row" "t1 = t\<lparr>lt_lines := lt_lines t @ [row]\<rparr>" "0 < ln_number row"
      "\<not> list_ex (\<lambda>r. ln_tenant r = tid \<and> ln_journal r = jid \<and> ln_number r = ln_number row) (lt_lines t)"
      using insert_line_effect [OF step] by blast
    have "\<exists>rows. list_all2 (line_stored (ct_charts t1) tid book jid) ls rows \<and> t' = t1\<lparr>lt_lines := lt_lines t1 @ rows\<rparr> \<and>
        distinct (map ln_number ((done_rows @ [row]) @ rows)) \<and> (\<forall>r\<in>set rows. 0 < ln_number r)"
      using Cons.prems(2-) row by (intro Cons.IH [OF rest]) (auto simp: line_stored_def list_ex_iff)
    then obtain rows where "list_all2 (line_stored (ct_charts t) tid book jid) ls rows" "t' = t1\<lparr>lt_lines := lt_lines t1 @ rows\<rparr>"
        "distinct (map ln_number ((done_rows @ [row]) @ rows))" "\<forall>r\<in>set rows. 0 < ln_number r"
      by (auto simp: row(2))
    then show ?case using row by (intro exI [of _ "row # rows"]) simp
  qed
  from this [of t "lt_lines t" "[]"] assms(1) show ?thesis by simp
qed

lemma insert_sources_effect:
  assumes "fold_result (\<lambda>t reference. insert_source \<lparr>jr_tenant = tid, jr_journal = jid, jr_reference = reference, jr_hash = h\<rparr> t) t refs = Inr t'"
  shows "\<exists>rows. t' = t\<lparr>lt_sources := lt_sources t @ rows\<rparr>"
  using assms
proof (induction refs arbitrary: t)
  case Nil
  then show ?case by (intro exI [of _ "[]"]) (cases t, simp)
next
  case (Cons r refs)
  obtain t1 where step: "insert_source \<lparr>jr_tenant = tid, jr_journal = jid, jr_reference = r, jr_hash = h\<rparr> t = Inr t1"
    and rest: "fold_result (\<lambda>t reference. insert_source \<lparr>jr_tenant = tid, jr_journal = jid, jr_reference = reference, jr_hash = h\<rparr> t) t1 refs = Inr t'"
    using Cons.prems by (auto simp: result_simps)
  obtain row where "t1 = t\<lparr>lt_sources := lt_sources t @ [row]\<rparr>"
    using step by (auto simp: insert_source_def split: if_splits)
  then show ?case using Cons.IH [OF rest] by auto
qed

section \<open>A journal is added\<close>

text \<open>
  What every command that writes a journal does to the tables: one proposal, one journal with its lines,
  and, unless it is the closing journal of a period, one receipt and one outbox event; for a reversal one
  row of lineage.
\<close>

definition receipt_key :: "receipt_row \<Rightarrow> nat \<times> nat \<times> nat" where
  "receipt_key r = (rr_tenant r, rr_journal r, rr_proposal r)"

definition journal_key :: "journal_row \<Rightarrow> nat \<times> nat \<times> nat" where
  "journal_key j = (gj_tenant j, gj_id j, gj_proposal j)"

definition closing_journal :: "journal_row \<Rightarrow> bool" where
  "closing_journal j \<longleftrightarrow> starts_with closing_journal_prefix (gj_reference j)"

definition journal_added ::
    "posting_server \<Rightarrow> ledger_tables \<Rightarrow> ledger_tables \<Rightarrow> proposal_row \<Rightarrow> journal_row \<Rightarrow> posted_journal_line list \<Rightarrow>
       line_row list \<Rightarrow> reversal_row list \<Rightarrow> bool" where
  "journal_added srv t t' p j lines ls rvs \<longleftrightarrow>
     (\<exists>ss rcs obs n i. t' = t\<lparr>lt_proposals := lt_proposals t @ [p], lt_journals := lt_journals t @ [j],
          lt_lines := lt_lines t @ ls, lt_sources := lt_sources t @ ss, lt_reversals := lt_reversals t @ rvs,
          lt_receipts := lt_receipts t @ rcs, lt_outbox := lt_outbox t @ obs, lt_inserted := n\<rparr> \<and>
        lt_inserted t \<le> i \<and> Suc i < n \<and> pr_id p = sv_uuid (ps_server srv) i \<and> gj_id j = sv_uuid (ps_server srv) (Suc i) \<and>
        gj_proposal j = pr_id p \<and> pr_tenant p = gj_tenant j \<and>
        (map receipt_key rcs = [journal_key j] \<or> rcs = [] \<and> closing_journal j)) \<and>
     \<not> list_ex (\<lambda>r. pr_tenant r = pr_tenant p \<and>
          (pr_external_id r = pr_external_id p \<or> pr_idempotency_key r = pr_idempotency_key p)) (lt_proposals t) \<and>
     \<not> list_ex (\<lambda>r. gj_tenant r = gj_tenant j \<and> gj_reference r = gj_reference j) (lt_journals t) \<and>
     list_all2 (line_stored (ct_charts t) (gj_tenant j) (gj_book j) (gj_id j)) lines ls \<and>
     distinct (map ln_number ls) \<and> (\<forall>l\<in>set ls. 0 < ln_number l) \<and>
     (\<forall>r\<in>set rvs. rv_tenant r = gj_tenant j \<and> rv_reversal r = gj_id j) \<and>
     (\<exists>role. guard_period_insert srv role j t = Inr ())"

lemma insert_journal_effect:
  assumes "insert_journal srv h source policy lines t = Inr (t', jid)"
    and "\<forall>l\<in>set (lt_lines t). ln_journal l \<noteq> fresh_id srv t"
  shows "\<exists>j ls ss. t' = t\<lparr>lt_journals := lt_journals t @ [j], lt_lines := lt_lines t @ ls, lt_sources := lt_sources t @ ss,
          lt_inserted := Suc (lt_inserted t)\<rparr> \<and>
     jid = fresh_id srv t \<and>
     j = \<lparr>gj_id = jid, gj_tenant = jh_tenant h, gj_entity = jh_entity h, gj_book = jh_book h, gj_period = jh_period h,
          gj_reference = jh_reference h, gj_transaction_currency = js_transaction_currency source,
          gj_functional_currency = pol_functional_currency policy, gj_transaction_date = js_transaction_date source,
          gj_accounting_date = js_accounting_date source, gj_proposal = jh_proposal h,
          gj_policy_version = pol_policy_version policy, gj_rule_version = pol_rule_version policy\<rparr> \<and>
     guard_period_insert srv (journal_write_role (js_role source)) (j\<lparr>gj_id := 0\<rparr>) t = Inr () \<and>
     \<not> list_ex (\<lambda>r. gj_tenant r = jh_tenant h \<and> gj_reference r = jh_reference h) (lt_journals t) \<and>
     list_all2 (line_stored (ct_charts t) (jh_tenant h) (jh_book h) jid) lines ls \<and>
     distinct (map ln_number ls) \<and> (\<forall>l\<in>set ls. 0 < ln_number l)"
proof -
  define row where "row = \<lparr>gj_id = 0, gj_tenant = jh_tenant h, gj_entity = jh_entity h, gj_book = jh_book h, gj_period = jh_period h,
          gj_reference = jh_reference h, gj_transaction_currency = js_transaction_currency source,
          gj_functional_currency = pol_functional_currency policy, gj_transaction_date = js_transaction_date source,
          gj_accounting_date = js_accounting_date source, gj_proposal = jh_proposal h,
          gj_policy_version = pol_policy_version policy, gj_rule_version = pol_rule_version policy\<rparr>"
  obtain t1 t2 where t1: "insert_journal_row srv (journal_write_role (js_role source)) row t = Inr (t1, jid)"
    and t2: "fold_result (insert_journal_line (jh_tenant h) (jh_book h) jid) t1 lines = Inr t2"
    and t3: "fold_result (\<lambda>t reference. insert_source
         \<lparr>jr_tenant = jh_tenant h, jr_journal = jid, jr_reference = reference, jr_hash = js_source_payload_hash source\<rparr> t)
         t2 (js_source_event_references source) = Inr t'"
    using assms(1) unfolding insert_journal_def row_def [symmetric] by (auto simp: result_simps)
  note row = insert_journal_row_effect [OF t1]
  have "\<forall>r\<in>set (lt_lines t1). ln_journal r \<noteq> jid" using assms(2) row by auto
  from insert_lines_effect [OF t2 this] obtain ls where ls: "list_all2 (line_stored (ct_charts t1) (jh_tenant h) (jh_book h) jid) lines ls"
      "t2 = t1\<lparr>lt_lines := lt_lines t1 @ ls\<rparr>" "distinct (map ln_number ls)" "\<forall>l\<in>set ls. 0 < ln_number l" by blast
  obtain ss where ss: "t' = t2\<lparr>lt_sources := lt_sources t2 @ ss\<rparr>" using insert_sources_effect [OF t3] by blast
  have "ct_charts t1 = ct_charts t" using row by simp
  then show ?thesis
    using row ls ss by (intro exI [of _ "row\<lparr>gj_id := jid\<rparr>"] exI [of _ ls] exI [of _ ss]) (auto simp: row_def)
qed

lemma insert_receipt_effect:
  assumes "insert_receipt srv tid i jid receipt t = Inr t'"
  shows "\<exists>rc. t' = t\<lparr>lt_receipts := lt_receipts t @ [rc], lt_inserted := Suc (lt_inserted t)\<rparr> \<and>
     rr_tenant rc = tid \<and> rr_journal rc = jid \<and> rr_proposal rc = i"
  using assms by (auto simp: insert_receipt_def split: if_splits)

lemma insert_outbox_effect:
  "\<exists>ob. insert_outbox srv tid event aggregate reference receipt t =
     t\<lparr>lt_outbox := lt_outbox t @ [ob], lt_inserted := Suc (lt_inserted t)\<rparr>"
  by (auto simp: insert_outbox_def)

lemma journal_addedI:
  assumes "t' = t\<lparr>lt_proposals := lt_proposals t @ [p], lt_journals := lt_journals t @ [j],
          lt_lines := lt_lines t @ ls, lt_sources := lt_sources t @ ss, lt_reversals := lt_reversals t @ rvs,
          lt_receipts := lt_receipts t @ rcs, lt_outbox := lt_outbox t @ obs, lt_inserted := n\<rparr>"
    and "lt_inserted t \<le> i" "Suc i < n" "pr_id p = sv_uuid (ps_server srv) i" "gj_id j = sv_uuid (ps_server srv) (Suc i)"
    and "gj_proposal j = pr_id p" "pr_tenant p = gj_tenant j"
    and "map receipt_key rcs = [journal_key j] \<or> rcs = [] \<and> closing_journal j"
    and "\<not> list_ex (\<lambda>r. pr_tenant r = pr_tenant p \<and>
          (pr_external_id r = pr_external_id p \<or> pr_idempotency_key r = pr_idempotency_key p)) (lt_proposals t)"
    and "\<not> list_ex (\<lambda>r. gj_tenant r = gj_tenant j \<and> gj_reference r = gj_reference j) (lt_journals t)"
    and "list_all2 (line_stored (ct_charts t) (gj_tenant j) (gj_book j) (gj_id j)) lines ls"
    and "distinct (map ln_number ls)" "\<forall>l\<in>set ls. 0 < ln_number l"
    and "\<forall>r\<in>set rvs. rv_tenant r = gj_tenant j \<and> rv_reversal r = gj_id j"
    and "guard_period_insert srv role j t = Inr ()"
  shows "journal_added srv t t' p j lines ls rvs"
  unfolding journal_added_def
proof (intro conjI)
  show "\<exists>ss rcs obs n i. t' = t\<lparr>lt_proposals := lt_proposals t @ [p], lt_journals := lt_journals t @ [j],
          lt_lines := lt_lines t @ ls, lt_sources := lt_sources t @ ss, lt_reversals := lt_reversals t @ rvs,
          lt_receipts := lt_receipts t @ rcs, lt_outbox := lt_outbox t @ obs, lt_inserted := n\<rparr> \<and>
        lt_inserted t \<le> i \<and> Suc i < n \<and> pr_id p = sv_uuid (ps_server srv) i \<and> gj_id j = sv_uuid (ps_server srv) (Suc i) \<and>
        gj_proposal j = pr_id p \<and> pr_tenant p = gj_tenant j \<and>
        (map receipt_key rcs = [journal_key j] \<or> rcs = [] \<and> closing_journal j)"
    by (intro exI conjI) (rule assms(1-8))+
qed (use assms(9-15) in auto)

text \<open>The period guard looks at the journal's book and period only.\<close>

lemma guard_period_same:
  "gj_tenant j' = gj_tenant j \<Longrightarrow> gj_book j' = gj_book j \<Longrightarrow> gj_period j' = gj_period j \<Longrightarrow> lt_periods t' = lt_periods t \<Longrightarrow>
     lt_controls t' = lt_controls t \<Longrightarrow> guard_period_insert srv role j' t' = guard_period_insert srv role j t"
  by (simp add: guard_period_insert_def book_period_status_def Let_def split: option.splits)

lemma write_with_receipt_effect:
  assumes "write_with_receipt srv row h source policy lines receipt t = Inr (t', r)" "pr_tenant row = jh_tenant h"
    and "\<forall>l\<in>set (lt_lines t). ln_journal l \<noteq> sv_uuid (ps_server srv) (Suc (lt_inserted t))"
  shows "\<exists>j ls. journal_added srv t t' (row\<lparr>pr_id := fresh_id srv t\<rparr>) j lines ls [] \<and> r = receipt \<and>
     guard_period_insert srv (journal_write_role (js_role source)) j t = Inr () \<and>
     j = \<lparr>gj_id = gj_id j, gj_tenant = jh_tenant h, gj_entity = jh_entity h, gj_book = jh_book h, gj_period = jh_period h,
          gj_reference = jh_reference h, gj_transaction_currency = js_transaction_currency source,
          gj_functional_currency = pol_functional_currency policy, gj_transaction_date = js_transaction_date source,
          gj_accounting_date = js_accounting_date source, gj_proposal = fresh_id srv t,
          gj_policy_version = pol_policy_version policy, gj_rule_version = pol_rule_version policy\<rparr>"
proof -
  obtain t1 i t2 jid t3 where 1: "insert_proposal srv row t = Inr (t1, i)"
    and 2: "insert_journal srv (h\<lparr>jh_proposal := i\<rparr>) source policy lines t1 = Inr (t2, jid)"
    and 3: "insert_receipt srv (jh_tenant h) i jid receipt t2 = Inr t3"
    and 4: "t' = insert_outbox srv (jh_tenant h) ''posting_receipt'' (jh_reference h) (rc_receipt_reference receipt) receipt t3" "r = receipt"
    using assms(1) unfolding write_with_receipt_def by (auto simp: result_simps)
  note pr = insert_proposal_effect [OF 1]
  have "\<forall>l\<in>set (lt_lines t1). ln_journal l \<noteq> fresh_id srv t1"
    using assms(3) pr by (auto simp: fresh_id_def)
  from insert_journal_effect [OF 2 this] obtain j ls ss where j:
    "t2 = t1\<lparr>lt_journals := lt_journals t1 @ [j], lt_lines := lt_lines t1 @ ls, lt_sources := lt_sources t1 @ ss,
          lt_inserted := Suc (lt_inserted t1)\<rparr>" "jid = fresh_id srv t1"
     "j = \<lparr>gj_id = jid, gj_tenant = jh_tenant h, gj_entity = jh_entity h, gj_book = jh_book h, gj_period = jh_period h,
          gj_reference = jh_reference h, gj_transaction_currency = js_transaction_currency source,
          gj_functional_currency = pol_functional_currency policy, gj_transaction_date = js_transaction_date source,
          gj_accounting_date = js_accounting_date source, gj_proposal = i,
          gj_policy_version = pol_policy_version policy, gj_rule_version = pol_rule_version policy\<rparr>"
     "guard_period_insert srv (journal_write_role (js_role source)) (j\<lparr>gj_id := 0\<rparr>) t1 = Inr ()"
     "\<not> list_ex (\<lambda>r. gj_tenant r = jh_tenant h \<and> gj_reference r = jh_reference h) (lt_journals t1)"
     "list_all2 (line_stored (ct_charts t1) (jh_tenant h) (jh_book h) jid) lines ls"
     "distinct (map ln_number ls)" "\<forall>l\<in>set ls. 0 < ln_number l"
    by auto
  have jid: "jid = sv_uuid (ps_server srv) (Suc (lt_inserted t))"
    using j(2) pr by (simp add: fresh_id_def)
  obtain rc where rc: "t3 = t2\<lparr>lt_receipts := lt_receipts t2 @ [rc], lt_inserted := Suc (lt_inserted t2)\<rparr>"
      "rr_tenant rc = jh_tenant h" "rr_journal rc = jid" "rr_proposal rc = i"
    using insert_receipt_effect [OF 3] by blast
  obtain ob where ob: "t' = t3\<lparr>lt_outbox := lt_outbox t3 @ [ob], lt_inserted := Suc (lt_inserted t3)\<rparr>"
    using 4(1) insert_outbox_effect by metis
  have guard: "guard_period_insert srv (journal_write_role (js_role source)) j t = Inr ()"
    using j(4) guard_period_same [of j "j\<lparr>gj_id := 0\<rparr>" t t1] pr by simp
  have "t' = t\<lparr>lt_proposals := lt_proposals t @ [row\<lparr>pr_id := fresh_id srv t\<rparr>], lt_journals := lt_journals t @ [j],
          lt_lines := lt_lines t @ ls, lt_sources := lt_sources t @ ss, lt_reversals := lt_reversals t @ [],
          lt_receipts := lt_receipts t @ [rc], lt_outbox := lt_outbox t @ [ob],
          lt_inserted := Suc (Suc (Suc (Suc (lt_inserted t))))\<rparr>"
    using pr by (simp add: ob rc(1) j(1))
  then have "journal_added srv t t' (row\<lparr>pr_id := fresh_id srv t\<rparr>) j lines ls []"
    by (rule journal_addedI [where i = "lt_inserted t" and role = "journal_write_role (js_role source)"])
      (use guard pr rc j jid assms(2) in \<open>auto simp: fresh_id_def receipt_key_def journal_key_def\<close>)
  moreover have "i = fresh_id srv t" using pr by auto
  ultimately show ?thesis
    using 4(2) j(3) guard by (intro exI [of _ j] exI [of _ ls] conjI) auto
qed

lemma write_posting_effect:
  assumes "write_posting srv tid p policy lines entity book period t = Inr (t', receipt)"
    and "\<forall>l\<in>set (lt_lines t). ln_journal l \<noteq> sv_uuid (ps_server srv) (Suc (lt_inserted t))"
  shows "\<exists>pr j ls. journal_added srv t t' pr j lines ls [] \<and> receipt = posting_receipt_of p policy lines \<and>
     pr = \<lparr>pr_id = fresh_id srv t, pr_tenant = tid, pr_external_id = py_lower (jp_proposal_id p),
           pr_contract_version = jp_contract_version p, pr_idempotency_key = jp_idempotency_key p,
           pr_source_hash = jp_source_payload_hash p\<rparr> \<and>
     j = \<lparr>gj_id = gj_id j, gj_tenant = tid, gj_entity = entity, gj_book = book, gj_period = period,
          gj_reference = general_journal_prefix @ jp_proposal_id p, gj_transaction_currency = jp_transaction_currency p,
          gj_functional_currency = pol_functional_currency policy, gj_transaction_date = jp_transaction_date p,
          gj_accounting_date = jp_accounting_date p, gj_proposal = fresh_id srv t,
          gj_policy_version = pol_policy_version policy, gj_rule_version = pol_rule_version policy\<rparr>"
proof -
  from write_with_receipt_effect [OF assms(1) [unfolded write_posting_def] _ assms(2)] obtain j ls
    where "journal_added srv t t' (\<lparr>pr_id = 0, pr_tenant = tid, pr_external_id = py_lower (jp_proposal_id p),
           pr_contract_version = jp_contract_version p, pr_idempotency_key = jp_idempotency_key p,
           pr_source_hash = jp_source_payload_hash p\<rparr>\<lparr>pr_id := fresh_id srv t\<rparr>) j lines ls []"
      and "receipt = posting_receipt_of p policy lines"
      and "j = \<lparr>gj_id = gj_id j, gj_tenant = tid, gj_entity = entity, gj_book = book, gj_period = period,
          gj_reference = general_journal_prefix @ jp_proposal_id p, gj_transaction_currency = jp_transaction_currency p,
          gj_functional_currency = pol_functional_currency policy, gj_transaction_date = jp_transaction_date p,
          gj_accounting_date = jp_accounting_date p, gj_proposal = fresh_id srv t,
          gj_policy_version = pol_policy_version policy, gj_rule_version = pol_rule_version policy\<rparr>"
    by (auto simp: proposal_source_def)
  then show ?thesis
    by (intro exI [of _ "\<lparr>pr_id = fresh_id srv t, pr_tenant = tid, pr_external_id = py_lower (jp_proposal_id p),
           pr_contract_version = jp_contract_version p, pr_idempotency_key = jp_idempotency_key p,
           pr_source_hash = jp_source_payload_hash p\<rparr>"] exI [of _ j] exI [of _ ls] conjI) auto
qed

lemma insert_reversal_effect:
  assumes "insert_reversal row t = Inr t'"
  shows "t' = t\<lparr>lt_reversals := lt_reversals t @ [row]\<rparr> \<and>
     \<not> list_ex (\<lambda>r. rv_tenant r = rv_tenant row \<and> (rv_original r = rv_original row \<or> rv_reversal r = rv_reversal row)) (lt_reversals t) \<and>
     rv_original row \<noteq> rv_reversal row"
  using assms by (auto simp: insert_reversal_def split: option.splits if_splits)

lemma write_reversal_effect:
  assumes "write_reversal srv tid ref original d reason key h policy period t = Inr (t', receipt)"
    and "\<forall>l\<in>set (lt_lines t). ln_journal l \<noteq> sv_uuid (ps_server srv) (Suc (Suc (lt_inserted t)))"
  shows "\<exists>pr j ls rv src. journal_added srv t t' pr j (map reversal_line (load_lines t tid (gj_id original))) ls [rv] \<and>
     find_journal t tid (ref @ '':reversal'') = None \<and> proposal_by_id t tid (gj_proposal original) = Some src \<and>
     receipt = pg_reversal_receipt ref (pr_external_id src) policy h (length (load_lines t tid (gj_id original))) \<and>
     pr = \<lparr>pr_id = pr_id pr, pr_tenant = tid, pr_external_id = uuid_text (fresh_id srv t), pr_contract_version = 1,
           pr_idempotency_key = key, pr_source_hash = h\<rparr> \<and>
     j = \<lparr>gj_id = gj_id j, gj_tenant = tid, gj_entity = gj_entity original, gj_book = gj_book original, gj_period = period,
          gj_reference = ref @ '':reversal'', gj_transaction_currency = gj_transaction_currency original,
          gj_functional_currency = pol_functional_currency policy, gj_transaction_date = gj_transaction_date original,
          gj_accounting_date = d, gj_proposal = pr_id pr,
          gj_policy_version = pol_policy_version policy, gj_rule_version = pol_rule_version policy\<rparr> \<and>
     rv = \<lparr>rv_tenant = tid, rv_original = gj_id original, rv_reversal = gj_id j, rv_reason_code = reason\<rparr> \<and>
     \<not> list_ex (\<lambda>r. rv_tenant r = tid \<and> rv_original r = gj_id original) (lt_reversals t) \<and>
     guard_period_insert srv ''reversal'' j t = Inr ()"
proof -
  let ?lines = "map reversal_line (load_lines t tid (gj_id original))"
  let ?t0 = "t\<lparr>lt_inserted := Suc (lt_inserted t)\<rparr>"
  obtain src where src: "find_journal t tid (ref @ '':reversal'') = None" "proposal_by_id t tid (gj_proposal original) = Some src"
    using assms(1) by (auto simp: write_reversal_def Let_def split: if_splits option.splits)
  let ?receipt = "pg_reversal_receipt ref (pr_external_id src) policy h (length ?lines)"
  let ?h = "\<lambda>i. \<lparr>jh_tenant = tid, jh_entity = gj_entity original, jh_book = gj_book original, jh_period = period,
     jh_reference = ref @ '':reversal'', jh_proposal = i\<rparr>"
  obtain t1 i t2 jid t3 t4 where 1: "insert_proposal srv
          \<lparr>pr_id = 0, pr_tenant = tid, pr_external_id = uuid_text (fresh_id srv t),
           pr_contract_version = 1, pr_idempotency_key = key, pr_source_hash = h\<rparr> ?t0 = Inr (t1, i)"
    and 2: "insert_journal srv (?h i) (reversal_source h original d) policy ?lines t1 = Inr (t2, jid)"
    and 3: "insert_reversal \<lparr>rv_tenant = tid, rv_original = gj_id original, rv_reversal = jid, rv_reason_code = reason\<rparr> t2 = Inr t3"
    and 4: "insert_receipt srv tid i jid ?receipt t3 = Inr t4"
    and 5: "t' = insert_outbox srv tid ''journal_reversal'' (ref @ '':reversal'') (rc_receipt_reference ?receipt) ?receipt t4"
      "receipt = ?receipt"
    using assms(1) src unfolding write_reversal_def Let_def by (auto simp: result_simps)
  note pr = insert_proposal_effect [OF 1]
  have "\<forall>l\<in>set (lt_lines t1). ln_journal l \<noteq> fresh_id srv t1"
    using assms(2) pr by (auto simp: fresh_id_def)
  from insert_journal_effect [OF 2 this] obtain j ls ss where j:
    "t2 = t1\<lparr>lt_journals := lt_journals t1 @ [j], lt_lines := lt_lines t1 @ ls, lt_sources := lt_sources t1 @ ss,
          lt_inserted := Suc (lt_inserted t1)\<rparr>" "jid = fresh_id srv t1"
     "j = \<lparr>gj_id = jid, gj_tenant = tid, gj_entity = gj_entity original, gj_book = gj_book original, gj_period = period,
          gj_reference = ref @ '':reversal'', gj_transaction_currency = gj_transaction_currency original,
          gj_functional_currency = pol_functional_currency policy, gj_transaction_date = gj_transaction_date original,
          gj_accounting_date = d, gj_proposal = i,
          gj_policy_version = pol_policy_version policy, gj_rule_version = pol_rule_version policy\<rparr>"
     "guard_period_insert srv ''reversal'' (j\<lparr>gj_id := 0\<rparr>) t1 = Inr ()"
     "\<not> list_ex (\<lambda>r. gj_tenant r = tid \<and> gj_reference r = ref @ '':reversal'') (lt_journals t1)"
     "list_all2 (line_stored (ct_charts t1) tid (gj_book original) jid) ?lines ls"
     "distinct (map ln_number ls)" "\<forall>l\<in>set ls. 0 < ln_number l"
    by (auto simp: reversal_source_def)
  have jid: "jid = sv_uuid (ps_server srv) (Suc (Suc (lt_inserted t)))"
    using j(2) pr by (simp add: fresh_id_def)
  note rv = insert_reversal_effect [OF 3]
  obtain rc where rc: "t4 = t3\<lparr>lt_receipts := lt_receipts t3 @ [rc], lt_inserted := Suc (lt_inserted t3)\<rparr>"
      "rr_tenant rc = tid" "rr_journal rc = jid" "rr_proposal rc = i"
    using insert_receipt_effect [OF 4] by blast
  obtain ob where ob: "t' = t4\<lparr>lt_outbox := lt_outbox t4 @ [ob], lt_inserted := Suc (lt_inserted t4)\<rparr>"
    using 5(1) insert_outbox_effect by metis
  let ?pr = "\<lparr>pr_id = i, pr_tenant = tid, pr_external_id = uuid_text (fresh_id srv t),
           pr_contract_version = 1, pr_idempotency_key = key, pr_source_hash = h\<rparr>"
  let ?rv = "\<lparr>rv_tenant = tid, rv_original = gj_id original, rv_reversal = jid, rv_reason_code = reason\<rparr>"
  have guard: "guard_period_insert srv ''reversal'' j t = Inr ()"
    using j(4) guard_period_same [of j "j\<lparr>gj_id := 0\<rparr>" t t1] pr by simp
  have "t' = t\<lparr>lt_proposals := lt_proposals t @ [?pr], lt_journals := lt_journals t @ [j],
          lt_lines := lt_lines t @ ls, lt_sources := lt_sources t @ ss, lt_reversals := lt_reversals t @ [?rv],
          lt_receipts := lt_receipts t @ [rc], lt_outbox := lt_outbox t @ [ob],
          lt_inserted := Suc (Suc (Suc (Suc (Suc (lt_inserted t)))))\<rparr>"
    using pr rv by (simp add: ob rc(1) j(1))
  then have "journal_added srv t t' ?pr j ?lines ls [?rv]"
    by (rule journal_addedI [where i = "Suc (lt_inserted t)" and role = "''reversal''"]) (use guard pr rc j jid in \<open>auto simp: fresh_id_def receipt_key_def journal_key_def\<close>)
  moreover have "\<not> list_ex (\<lambda>r. rv_tenant r = tid \<and> rv_original r = gj_id original) (lt_reversals t)"
    using rv pr j(1) by (auto simp: list_ex_iff)
  ultimately show ?thesis
    using src 5(2) j(3) guard by (intro exI [of _ ?pr] exI [of _ j] exI [of _ ls] exI [of _ ?rv] exI [of _ src] conjI) auto
qed

end
