(* ===== verification/Persistent_Period_Effects.thy ===== *)
theory Persistent_Period_Effects
  imports Persistent_Effects
begin

text \<open>
  What the commands on periods write: control rows, periods, snapshots and open commands, never a journal
  apart from the closing one; and what they keep: a book that was closed for good stays closed, its
  snapshots stay, and a period is found again under its pcode with its dates.
\<close>

lemma find_memberD: "find P xs = Some x \<Longrightarrow> x \<in> set xs \<and> P x"
  by (auto simp: find_Some_iff)

section \<open>Closed books\<close>

definition closed_book :: "ledger_tables \<Rightarrow> nat \<Rightarrow> nat \<Rightarrow> nat \<Rightarrow> bool" where
  "closed_book t tid book period \<longleftrightarrow>
     (case find_control t tid book period of None \<Rightarrow> False | Some c \<Rightarrow> pc_status_code c = ''hard_closed'')"

definition book_snapshots :: "ledger_tables \<Rightarrow> nat \<Rightarrow> nat \<Rightarrow> nat \<Rightarrow> snapshot_row list" where
  "book_snapshots t tid book period =
     filter (\<lambda>r. sn_tenant r = tid \<and> sn_book r = book \<and> sn_period r = period) (lt_snapshots t)"

definition same_period :: "period_row \<Rightarrow> period_row \<Rightarrow> bool" where
  "same_period p p' \<longleftrightarrow> pe_id p' = pe_id p \<and> pe_tenant p' = pe_tenant p \<and> pe_code p' = pe_code p \<and>
     pe_start_date p' = pe_start_date p \<and> pe_end_date p' = pe_end_date p"

definition periods_kept :: "ledger_tables \<Rightarrow> ledger_tables \<Rightarrow> bool" where
  "periods_kept t t' \<longleftrightarrow>
     (\<forall>tid book period. closed_book t tid book period \<longrightarrow>
        closed_book t' tid book period \<and> book_snapshots t' tid book period = book_snapshots t tid book period) \<and>
     (\<forall>tid book period. find_control t tid book period \<noteq> None \<longrightarrow> find_control t' tid book period \<noteq> None) \<and>
     (\<forall>tid pcode p. period_of_code t tid pcode = Some p \<longrightarrow> (\<exists>p'. period_of_code t' tid pcode = Some p' \<and> same_period p p'))"

text \<open>The tables without what a command on periods writes.\<close>

definition without_periods :: "ledger_tables \<Rightarrow> ledger_tables" where
  "without_periods t = t\<lparr>lt_controls := [], lt_periods := [], lt_opens := [], lt_snapshots := [], lt_balances := [],
     lt_outbox := [], lt_inserted := 0\<rparr>"

definition periods_changed :: "ledger_tables \<Rightarrow> ledger_tables \<Rightarrow> bool" where
  "periods_changed t t' \<longleftrightarrow>
     periods_kept t t' \<and> lt_inserted t \<le> lt_inserted t' \<and> without_periods t' = without_periods t"

lemma same_period_refl [simp]: "same_period p p"
  by (simp add: same_period_def)

lemma periods_keptI:
  assumes "\<And>tid book period. closed_book t tid book period \<Longrightarrow> closed_book t' tid book period"
    and "\<And>tid book period. closed_book t tid book period \<Longrightarrow> book_snapshots t' tid book period = book_snapshots t tid book period"
    and "\<And>tid book period. find_control t tid book period \<noteq> None \<Longrightarrow> find_control t' tid book period \<noteq> None"
    and "\<And>tid pcode p. period_of_code t tid pcode = Some p \<Longrightarrow> \<exists>p'. period_of_code t' tid pcode = Some p' \<and> same_period p p'"
  shows "periods_kept t t'"
  unfolding periods_kept_def using assms by blast

lemma periods_kept_trans:
  assumes "periods_kept t t1" "periods_kept t1 t2"
  shows "periods_kept t t2"
proof (rule periods_keptI)
  fix tid pcode p
  assume "period_of_code t tid pcode = Some p"
  then obtain p1 where p1: "period_of_code t1 tid pcode = Some p1" "same_period p p1"
    using assms(1) unfolding periods_kept_def by blast
  then obtain p2 where "period_of_code t2 tid pcode = Some p2" "same_period p1 p2"
    using assms(2) unfolding periods_kept_def by blast
  then show "\<exists>p'. period_of_code t2 tid pcode = Some p' \<and> same_period p p'"
    using p1(2) by (auto simp: same_period_def)
qed (use assms in \<open>auto simp: periods_kept_def\<close>)

lemma periods_changed_trans:
  "periods_changed t t1 \<Longrightarrow> periods_changed t1 t2 \<Longrightarrow> periods_changed t t2"
  unfolding periods_changed_def by (auto intro: periods_kept_trans)

lemma periods_changed_frame:
  assumes "periods_changed t t'"
  shows "ct_tenants t' = ct_tenants t" "ct_entities t' = ct_entities t" "ct_books t' = ct_books t" "ct_charts t' = ct_charts t"
    and "lt_mappings t' = lt_mappings t" "lt_calendars t' = lt_calendars t" "lt_proposals t' = lt_proposals t"
    and "lt_journals t' = lt_journals t" "lt_lines t' = lt_lines t" "lt_sources t' = lt_sources t"
    and "lt_reversals t' = lt_reversals t" "lt_receipts t' = lt_receipts t" "lt_inserted t \<le> lt_inserted t'"
proof -
  have same: "f (without_periods t') = f (without_periods t)" for f
    using assms by (simp add: periods_changed_def)
  show "ct_tenants t' = ct_tenants t" "ct_entities t' = ct_entities t" "ct_books t' = ct_books t" "ct_charts t' = ct_charts t"
    using same [of ct_tenants] same [of ct_entities] same [of ct_books] same [of ct_charts] by (simp_all add: without_periods_def)
  show "lt_mappings t' = lt_mappings t" "lt_calendars t' = lt_calendars t" "lt_proposals t' = lt_proposals t"
    "lt_journals t' = lt_journals t" "lt_lines t' = lt_lines t" "lt_sources t' = lt_sources t"
    using same [of lt_mappings] same [of lt_calendars] same [of lt_proposals] same [of lt_journals] same [of lt_lines]
      same [of lt_sources] by (simp_all add: without_periods_def)
  show "lt_reversals t' = lt_reversals t" "lt_receipts t' = lt_receipts t"
    using same [of lt_reversals] same [of lt_receipts] by (simp_all add: without_periods_def)
  show "lt_inserted t \<le> lt_inserted t'" using assms by (simp add: periods_changed_def)
qed

text \<open>Tables with the same control rows, periods and snapshots.\<close>

lemma periods_kept_same:
  assumes "lt_controls t' = lt_controls t" "lt_periods t' = lt_periods t" "lt_snapshots t' = lt_snapshots t"
  shows "periods_kept t t'"
  using assms by (simp add: periods_kept_def closed_book_def find_control_def period_of_code_def book_snapshots_def)

lemma periods_kept_refl [simp]: "periods_kept t t"
  by (simp add: periods_kept_same)

lemma periods_changed_refl [simp]: "periods_changed t t"
  by (simp add: periods_changed_def)

lemma journal_added_kept: "journal_added srv t t' p j lines ls rvs \<Longrightarrow> periods_kept t t'"
  unfolding journal_added_def by (elim exE conjE) (rule periods_kept_same; simp)

lemma closed_book_status:
  assumes "closed_book t tid book (pe_id p)"
  shows "book_period_status t tid book p = ''hard_closed''"
proof -
  have same: "(\<lambda>c. pc_tenant c = tid \<and> pc_period c = pe_id p \<and> pc_book c = book) =
      (\<lambda>c. pc_tenant c = tid \<and> pc_book c = book \<and> pc_period c = pe_id p)" by auto
  show ?thesis
    using assms unfolding closed_book_def find_control_def book_period_status_def same by (auto split: option.splits)
qed

lemma closed_book_guard:
  assumes "closed_book t (gj_tenant j) (gj_book j) (gj_period j)"
  shows "guard_period_insert srv role j t \<noteq> Inr ()"
proof (cases "find (\<lambda>p. pe_tenant p = gj_tenant j \<and> pe_id p = gj_period j) (lt_periods t)")
  case (Some p)
  then have "pe_id p = gj_period j" by (auto dest: find_memberD)
  then have "book_period_status t (gj_tenant j) (gj_book j) p = ''hard_closed''"
    using closed_book_status assms by simp
  then show ?thesis by (simp add: guard_period_insert_def Some Let_def)
qed (simp add: guard_period_insert_def)

lemma journal_added_not_closed:
  assumes "journal_added srv t t' p j lines ls rvs"
  shows "\<not> closed_book t (gj_tenant j) (gj_book j) (gj_period j)"
  using assms closed_book_guard unfolding journal_added_def by blast

section \<open>The steps on periods\<close>

lemma find_add_control:
  "find P controls = Some c \<Longrightarrow> find P (foldl (add_control p) controls books) = Some c"
  by (induction books arbitrary: controls) (auto simp: add_control_def find_append)

definition has_control :: "period_row \<Rightarrow> control_row list \<Rightarrow> book_row \<Rightarrow> bool" where
  "has_control p controls b \<longleftrightarrow>
     list_ex (\<lambda>c. pc_tenant c = pe_tenant p \<and> pc_book c = bk_id b \<and> pc_period c = pe_id p) controls"

lemma add_control_has: "has_control p (add_control p controls b) b"
  by (simp add: has_control_def add_control_def)

lemma add_control_keeps: "has_control p controls b \<Longrightarrow> has_control p (foldl (add_control p) controls books) b"
  by (induction books arbitrary: controls) (auto simp: has_control_def add_control_def)

lemma foldl_add_control_all: "b \<in> set books \<Longrightarrow> has_control p (foldl (add_control p) controls books) b"
  by (induction books arbitrary: controls) (auto intro: add_control_keeps add_control_has)

lemma foldl_add_control_none:
  "\<forall>b\<in>set books. has_control p controls b \<Longrightarrow> foldl (add_control p) controls books = controls"
  by (induction books) (auto simp: has_control_def add_control_def)

lemma lock_book_period_effect:
  assumes "lock_book_period tid book pcode t = Inr (t', period, status, period_end)"
  obtains p where "period_of_code t tid pcode = Some p" "period = pe_id p" "period_end = pe_end_date p"
    and "t' = t\<lparr>lt_controls := foldl (add_control p) (lt_controls t) (current_books t tid)\<rparr>"
    and "periods_changed t t'" "closed_book t' tid book period \<longleftrightarrow> status = ''hard_closed''"
    and "find_control t' tid book period \<noteq> None"
proof -
  obtain p c where p: "period_of_code t tid pcode = Some p"
    and t': "t' = t\<lparr>lt_controls := foldl (add_control p) (lt_controls t) (current_books t tid)\<rparr>"
    and c: "find_control t' tid book (pe_id p) = Some c" and rest: "period = pe_id p" "period_end = pe_end_date p" "status = pc_status_code c"
    using assms by (auto simp: lock_book_period_def Let_def split: option.splits)
  have kept: "find_control t tid0 b q = Some c0 \<Longrightarrow> find_control t' tid0 b q = Some c0" for tid0 b q c0
    unfolding find_control_def t' by (simp add: find_add_control)
  have "periods_kept t t'"
  proof (rule periods_keptI)
    show "closed_book t tid0 b q \<Longrightarrow> closed_book t' tid0 b q" for tid0 b q
      using kept by (auto simp: closed_book_def split: option.splits)
    show "find_control t tid0 b q \<noteq> None \<Longrightarrow> find_control t' tid0 b q \<noteq> None" for tid0 b q
      using kept by auto
  qed (simp_all add: t' book_snapshots_def period_of_code_def)
  then have "periods_changed t t'"
    by (simp add: periods_changed_def t' without_periods_def)
  with p t' c rest show thesis by (intro that [of p]) (auto simp: closed_book_def)
qed

lemma find_map_same: "(\<And>x. P (f x) = P x) \<Longrightarrow> find P (map f xs) = map_option f (find P xs)"
  by (induction xs) auto

lemma set_book_period_closed_changed:
  assumes "set_book_period_closed srv tid book period status t = (t', now)" "\<not> closed_book t tid book period"
  shows "periods_changed t t'" and "find_control t tid book period \<noteq> None \<Longrightarrow> status = ''hard_closed'' \<Longrightarrow> closed_book t' tid book period"
    and "lt_snapshots t' = lt_snapshots t" "lt_journals t' = lt_journals t" "lt_lines t' = lt_lines t"
proof -
  obtain ps where t': "t' = t\<lparr>lt_controls := set_control_status tid book period status now (lt_controls t),
         lt_periods := map ps (lt_periods t), lt_inserted := Suc (lt_inserted t)\<rparr>"
    and ps: "\<forall>p. same_period p (ps p)"
    using assms(1) unfolding set_book_period_closed_def Let_def by (auto simp: same_period_def intro!: that)
  have controls: "find_control t' tid0 b q = map_option (\<lambda>c. if tid0 = tid \<and> b = book \<and> q = period
      then c\<lparr>pc_status_code := status, pc_closed_at := Some now\<rparr> else c) (find_control t tid0 b q)" for tid0 b q
    unfolding find_control_def t' set_control_status_def
    by (simp, subst find_map_same) (auto split: option.splits simp: find_Some_iff intro!: map_option_cong)
  have "periods_kept t t'"
  proof (rule periods_keptI)
    show "closed_book t tid0 b q \<Longrightarrow> closed_book t' tid0 b q" for tid0 b q
      using assms(2) by (auto simp: closed_book_def controls split: option.splits)
    show "find_control t tid0 b q \<noteq> None \<Longrightarrow> find_control t' tid0 b q \<noteq> None" for tid0 b q
      by (simp add: controls)
    show "period_of_code t tid0 pcode = Some p \<Longrightarrow> \<exists>p'. period_of_code t' tid0 pcode = Some p' \<and> same_period p p'" for tid0 pcode p
      using ps unfolding period_of_code_def t' same_period_def by (simp add: find_map_same)
  qed (simp add: t' book_snapshots_def)
  then show "periods_changed t t'"
    by (simp add: periods_changed_def t' without_periods_def)
  show "find_control t tid book period \<noteq> None \<Longrightarrow> status = ''hard_closed'' \<Longrightarrow> closed_book t' tid book period"
    by (auto simp: closed_book_def controls)
  show "lt_snapshots t' = lt_snapshots t" "lt_journals t' = lt_journals t" "lt_lines t' = lt_lines t"
    by (simp_all add: t')
qed

lemma insert_period_close_event_changed: "periods_changed t (insert_period_close_event srv tid pcode ref i h t)"
proof -
  have "periods_kept t (insert_period_close_event srv tid pcode ref i h t)"
    by (rule periods_kept_same) (simp_all add: insert_period_close_event_def)
  then show ?thesis by (simp add: periods_changed_def insert_period_close_event_def without_periods_def)
qed

lemma record_soft_close_changed:
  assumes "record_soft_close tid book period key h n t = Inr t'"
  shows "periods_changed t t'" "lt_snapshots t' = lt_snapshots t"
proof -
  have t': "t' = t\<lparr>lt_controls := map (\<lambda>c. if pc_tenant c = tid \<and> pc_book c = book \<and> pc_period c = period
            then c\<lparr>pc_soft_close_key := Some key, pc_soft_close_hash := Some h, pc_soft_close_count := Some n\<rparr> else c)
            (lt_controls t)\<rparr>"
    using assms by (auto simp: record_soft_close_def Let_def result_simps split: if_splits)
  have controls: "find_control t' tid0 b q = map_option (\<lambda>c. if tid0 = tid \<and> b = book \<and> q = period
      then c\<lparr>pc_soft_close_key := Some key, pc_soft_close_hash := Some h, pc_soft_close_count := Some n\<rparr> else c)
      (find_control t tid0 b q)" for tid0 b q
    unfolding find_control_def t'
    by (simp, subst find_map_same) (auto split: option.splits simp: find_Some_iff intro!: map_option_cong)
  have "periods_kept t t'"
  proof (rule periods_keptI)
    show "closed_book t tid0 b q \<Longrightarrow> closed_book t' tid0 b q" for tid0 b q
      by (auto simp: closed_book_def controls split: option.splits)
    show "find_control t tid0 b q \<noteq> None \<Longrightarrow> find_control t' tid0 b q \<noteq> None" for tid0 b q
      by (simp add: controls)
  qed (simp_all add: t' book_snapshots_def period_of_code_def)
  then show "periods_changed t t'" "lt_snapshots t' = lt_snapshots t"
    by (simp_all add: periods_changed_def t' without_periods_def)
qed

lemma insert_snapshot_changed:
  assumes "insert_snapshot srv row t = Inr (t', row')" "\<not> closed_book t (sn_tenant row) (sn_book row) (sn_period row)"
  shows "periods_changed t t'" and "lt_controls t' = lt_controls t" "lt_snapshots t' = lt_snapshots t @ [row']"
    and "row' = row\<lparr>sn_id := fresh_id srv t, sn_generated_at := fresh_time srv t\<rparr>"
    and "\<forall>r\<in>set (lt_snapshots t). \<not> (sn_tenant r = sn_tenant row \<and> sn_entity r = sn_entity row \<and>
       sn_book r = sn_book row \<and> sn_period r = sn_period row)"
proof -
  have t': "t' = t\<lparr>lt_snapshots := lt_snapshots t @ [row'], lt_inserted := Suc (lt_inserted t)\<rparr>"
    and row': "row' = row\<lparr>sn_id := fresh_id srv t, sn_generated_at := fresh_time srv t\<rparr>"
    using assms(1) by (auto simp: insert_snapshot_def Let_def split: if_splits)
  have "periods_kept t t'"
  proof (rule periods_keptI)
    show "closed_book t tid b q \<Longrightarrow> book_snapshots t' tid b q = book_snapshots t tid b q" for tid b q
      using assms(2) by (auto simp: t' row' book_snapshots_def)
  qed (simp_all add: t' closed_book_def find_control_def period_of_code_def)
  then show "periods_changed t t'" "lt_controls t' = lt_controls t" "lt_snapshots t' = lt_snapshots t @ [row']"
    by (simp_all add: periods_changed_def t' without_periods_def)
  show "row' = row\<lparr>sn_id := fresh_id srv t, sn_generated_at := fresh_time srv t\<rparr>" by (rule row')
  show "\<forall>r\<in>set (lt_snapshots t). \<not> (sn_tenant r = sn_tenant row \<and> sn_entity r = sn_entity row \<and>
       sn_book r = sn_book row \<and> sn_period r = sn_period row)"
    using assms(1) by (auto simp: insert_snapshot_def list_ex_iff split: if_splits)
qed

lemma insert_balance_changed:
  assumes "insert_balance tid i t line = Inr t'"
  shows "periods_changed t t' \<and> lt_controls t' = lt_controls t \<and> lt_snapshots t' = lt_snapshots t"
proof -
  obtain rows where t': "t' = t\<lparr>lt_balances := rows\<rparr>"
    using assms by (auto simp: insert_balance_def Let_def result_simps split: prod.splits if_splits)
  then have "periods_kept t t'" by (intro periods_kept_same) simp_all
  then show ?thesis by (simp add: periods_changed_def t' without_periods_def)
qed

lemma insert_balances_changed:
  "fold_result (insert_balance tid i) t lines = Inr t' \<Longrightarrow>
     periods_changed t t' \<and> lt_controls t' = lt_controls t \<and> lt_snapshots t' = lt_snapshots t"
proof (induction lines arbitrary: t)
  case (Cons line lines)
  then obtain t1 where t1: "insert_balance tid i t line = Inr t1" "fold_result (insert_balance tid i) t1 lines = Inr t'"
    by (auto simp: result_simps)
  from insert_balance_changed [OF t1(1)] Cons.IH [OF t1(2)] show ?case by (auto intro: periods_changed_trans)
qed simp

section \<open>Soft close and opening\<close>

lemma persist_soft_close_changed:
  assumes "persist_soft_close srv s t = Inr (t', receipt)" "\<not> closed_book t (cs_tenant s) (cs_book s) (cs_period s)"
  shows "periods_changed t t'"
proof -
  obtain t1 now n h t2 where 1: "set_book_period_closed srv (cs_tenant s) (cs_book s) (cs_period s) ''soft_closed'' t = (t1, now)"
    and 2: "record_soft_close (cs_tenant s) (cs_book s) (cs_period s) (cs_key s) h n t1 = Inr t2"
    and 3: "t' = insert_period_close_event srv (cs_tenant s) (cc_period_code (cs_command s)) (cc_book_reference (cs_command s)) None h t2"
    using assms(1) unfolding persist_soft_close_def Let_def by (auto simp: result_simps split: prod.splits)
  show ?thesis
    unfolding 3 using set_book_period_closed_changed(1) [OF 1 assms(2)] record_soft_close_changed(1) [OF 2]
      insert_period_close_event_changed by (blast intro: periods_changed_trans)
qed

lemma open_period_row_changed:
  assumes "open_period_row srv tid c t = Inr (t', p, replayed)"
  shows "periods_changed t t'"
proof (cases "t' = t")
  case False
  then obtain p' where t': "t' = t\<lparr>lt_periods := lt_periods t @ [p'], lt_inserted := Suc (lt_inserted t)\<rparr>"
    using assms by (auto simp: open_period_row_def Let_def result_simps split: option.splits if_splits)
  have "periods_kept t t'"
    by (rule periods_keptI) (simp_all add: t' closed_book_def find_control_def book_snapshots_def period_of_code_def find_append)
  then show ?thesis by (simp add: periods_changed_def t' without_periods_def)
qed simp

lemma open_in_session_changed:
  assumes "open_in_session srv tref c t = Inr (t', doc)"
  shows "periods_changed t t'"
proof (cases "t' = t")
  case False
  then obtain tid t1 p replayed row where 1: "open_period_row srv tid c t = Inr (t1, p, replayed)"
    and 2: "insert_open_command row t1 = Inr t'"
    using assms unfolding open_in_session_def by (auto simp: result_simps split: option.splits)
  obtain opens where t': "t' = t1\<lparr>lt_opens := opens\<rparr>"
    using 2 by (auto simp: insert_open_command_def split: if_splits)
  then have "periods_kept t1 t'" by (intro periods_kept_same) simp_all
  then have "periods_changed t1 t'" by (simp add: periods_changed_def t' without_periods_def)
  with open_period_row_changed [OF 1] show ?thesis by (rule periods_changed_trans)
qed simp

section \<open>The closing journal\<close>

definition closing_entry :: "close_scope \<Rightarrow> ledger_tables \<Rightarrow> posted_journal_line list" where
  "closing_entry s t =
     (let (income_closing, retained) = closing_lines_of s t in
      income_closing @ retained_line (int (length income_closing) + 1) retained)"

lemma post_closing_journal_effect:
  assumes "post_closing_journal srv s t = Inr t'" "t' \<noteq> t"
    and "\<forall>l\<in>set (lt_lines t). ln_journal l \<noteq> sv_uuid (ps_server srv) (Suc (Suc (lt_inserted t)))"
  obtains pr j ls where "journal_added srv t t' pr j (closing_entry s t) ls []"
    and "gj_tenant j = cs_tenant s" "gj_entity j = cs_entity s" "gj_book j = cs_book s" "gj_period j = cs_period s"
    and "gj_accounting_date j = cs_end_date s" "gj_reference j = closing_reference s"
    and "lt_controls t' = lt_controls t" "lt_periods t' = lt_periods t" "lt_snapshots t' = lt_snapshots t"
proof -
  obtain income retained where lines: "closing_lines_of s t = (income, retained)" by (cases "closing_lines_of s t")
  have income: "income \<noteq> []" using assms(1,2) by (auto simp: post_closing_journal_def lines)
  let ?row = "\<lambda>h. \<lparr>pr_id = 0, pr_tenant = cs_tenant s, pr_external_id = uuid_text (fresh_id srv t), pr_contract_version = 1,
             pr_idempotency_key = closing_key s, pr_source_hash = h\<rparr>"
  let ?h = "\<lambda>i. \<lparr>jh_tenant = cs_tenant s, jh_entity = cs_entity s, jh_book = cs_book s, jh_period = cs_period s,
                 jh_reference = closing_reference s, jh_proposal = i\<rparr>"
  let ?t0 = "t\<lparr>lt_inserted := Suc (lt_inserted t)\<rparr>"
  obtain h t1 i policy jid where 1: "insert_proposal srv (?row h) ?t0 = Inr (t1, i)"
    and 2: "insert_journal srv (?h i) (closing_source s h) policy (closing_entry s t) t1 = Inr (t', jid)"
    using assms(1) income unfolding post_closing_journal_def closing_entry_def lines Let_def
    by (auto simp: result_simps split: option.splits)
  note pr = insert_proposal_effect [OF 1]
  have "\<forall>l\<in>set (lt_lines t1). ln_journal l \<noteq> fresh_id srv t1"
    using assms(3) pr by (auto simp: fresh_id_def)
  from insert_journal_effect [OF 2 this] obtain j ls ss where
    t': "t' = t1\<lparr>lt_journals := lt_journals t1 @ [j], lt_lines := lt_lines t1 @ ls, lt_sources := lt_sources t1 @ ss,
          lt_inserted := Suc (lt_inserted t1)\<rparr>" and jid: "jid = fresh_id srv t1"
    and j: "j = \<lparr>gj_id = jid, gj_tenant = cs_tenant s, gj_entity = cs_entity s, gj_book = cs_book s, gj_period = cs_period s,
          gj_reference = closing_reference s, gj_transaction_currency = js_transaction_currency (closing_source s h),
          gj_functional_currency = pol_functional_currency policy, gj_transaction_date = js_transaction_date (closing_source s h),
          gj_accounting_date = js_accounting_date (closing_source s h), gj_proposal = i,
          gj_policy_version = pol_policy_version policy, gj_rule_version = pol_rule_version policy\<rparr>"
    and guard: "guard_period_insert srv (journal_write_role (js_role (closing_source s h))) (j\<lparr>gj_id := 0\<rparr>) t1 = Inr ()"
    and rest: "\<not> list_ex (\<lambda>r. gj_tenant r = cs_tenant s \<and> gj_reference r = closing_reference s) (lt_journals t1)"
     "list_all2 (line_stored (ct_charts t1) (cs_tenant s) (cs_book s) jid) (closing_entry s t) ls"
     "distinct (map ln_number ls)" "\<forall>l\<in>set ls. 0 < ln_number l"
    by auto
  have fields: "gj_id j = jid" "gj_tenant j = cs_tenant s" "gj_entity j = cs_entity s" "gj_book j = cs_book s" "gj_period j = cs_period s"
    "gj_accounting_date j = cs_end_date s" "gj_reference j = closing_reference s" "gj_proposal j = i"
    by (simp_all add: j closing_source_def)
  have closing: "closing_journal j" by (simp add: closing_journal_def fields closing_reference_def starts_with_def)
  have same: "lt_controls t' = lt_controls t" "lt_periods t' = lt_periods t" "lt_snapshots t' = lt_snapshots t"
    using t' pr by simp_all
  have guarded: "guard_period_insert srv (journal_write_role (js_role (closing_source s h))) j t = Inr ()"
    using guard guard_period_same [of j "j\<lparr>gj_id := 0\<rparr>" t t1] pr by simp
  have "t' = t\<lparr>lt_proposals := lt_proposals t @ [(?row h)\<lparr>pr_id := i\<rparr>], lt_journals := lt_journals t @ [j],
          lt_lines := lt_lines t @ ls, lt_sources := lt_sources t @ ss, lt_reversals := lt_reversals t @ [],
          lt_receipts := lt_receipts t @ [], lt_outbox := lt_outbox t @ [],
          lt_inserted := Suc (Suc (Suc (lt_inserted t)))\<rparr>"
    using pr by (simp add: t')
  then have "journal_added srv t t' ((?row h)\<lparr>pr_id := i\<rparr>) j (closing_entry s t) ls []"
    by (rule journal_addedI [where i = "Suc (lt_inserted t)" and role = "journal_write_role (js_role (closing_source s h))"])
      (use guarded pr rest jid closing fields in \<open>auto simp: fresh_id_def\<close>)
  from that [OF this fields(2-7) same] show thesis .
qed

text \<open>A hard close: the closing journal, if there is income, and then the snapshot and the states.\<close>

lemma persist_period_close_effect:
  assumes "persist_period_close srv s t = Inr (t', receipt)" "\<not> closed_book t (cs_tenant s) (cs_book s) (cs_period s)"
    and "\<forall>l\<in>set (lt_lines t). ln_journal l \<noteq> sv_uuid (ps_server srv) (Suc (Suc (lt_inserted t)))"
  obtains t1 snapshot where "post_closing_journal srv s t = Inr t1" "periods_changed t1 t'"
    and "find_control t (cs_tenant s) (cs_book s) (cs_period s) \<noteq> None \<Longrightarrow> closed_book t' (cs_tenant s) (cs_book s) (cs_period s)"
    and "lt_snapshots t' = lt_snapshots t @ [snapshot]"
    and "sn_tenant snapshot = cs_tenant s" "sn_entity snapshot = cs_entity s" "sn_book snapshot = cs_book s"
    and "sn_period snapshot = cs_period s" "sn_close_key snapshot = cs_key s"
    and "\<forall>r\<in>set (lt_snapshots t). \<not> (sn_tenant r = cs_tenant s \<and> sn_entity r = cs_entity s \<and>
       sn_book r = cs_book s \<and> sn_period r = cs_period s)"
    and "receipt = close_receipt s ''hard_closed'' (uuid_text (sn_id snapshot)) (sn_generated_at snapshot)
       (sn_journal_count snapshot) (sn_hash snapshot) False"
proof -
  let ?row = "\<lambda>now n h. \<lparr>sn_id = 0, sn_tenant = cs_tenant s, sn_entity = cs_entity s, sn_book = cs_book s, sn_period = cs_period s,
          sn_currency_code = cc_snapshot_currency_code (cs_command s), sn_generated_at = now,
          sn_journal_count = n, sn_hash = h, sn_close_key = cs_key s\<rparr>"
  obtain t1 lines n h t2 snapshot t3 t4 now where 1: "post_closing_journal srv s t = Inr t1"
    and 2: "insert_snapshot srv (?row (fresh_time srv t1) (int n) h) t1 = Inr (t2, snapshot)"
    and 3: "fold_result (insert_balance (cs_tenant s) (sn_id snapshot)) t2 lines = Inr t3"
    and 4: "set_book_period_closed srv (cs_tenant s) (cs_book s) (cs_period s) ''hard_closed'' t3 = (t4, now)"
    and 5: "t' = insert_period_close_event srv (cs_tenant s) (cc_period_code (cs_command s)) (cc_book_reference (cs_command s))
       (Some (sn_id snapshot)) h t4"
      "receipt = close_receipt s ''hard_closed'' (uuid_text (sn_id snapshot)) (sn_generated_at snapshot) (int n) h False"
  proof -
    obtain t1 where 1: "post_closing_journal srv s t = Inr t1"
      using assms(1) unfolding persist_period_close_def by (auto simp: result_simps)
    obtain lines n h where live: "live_close_source s t1 = (lines, n, h)" by (cases "live_close_source s t1")
    obtain t2 snapshot where 2: "insert_snapshot srv (?row (fresh_time srv t1) (int n) h) t1 = Inr (t2, snapshot)"
      using assms(1) unfolding persist_period_close_def 1 by (auto simp: result_simps live)
    obtain t3 where 3: "fold_result (insert_balance (cs_tenant s) (sn_id snapshot)) t2 lines = Inr t3"
      using assms(1) 2 unfolding persist_period_close_def 1 by (auto simp: result_simps live)
    obtain t4 now where 4: "set_book_period_closed srv (cs_tenant s) (cs_book s) (cs_period s) ''hard_closed'' t3 = (t4, now)"
      by (cases "set_book_period_closed srv (cs_tenant s) (cs_book s) (cs_period s) ''hard_closed'' t3")
    show thesis
      using assms(1) unfolding persist_period_close_def 1
      by (intro that [OF 1 2 3 4]) (simp_all add: live 2 3 4)
  qed
  have same: "lt_controls t1 = lt_controls t" "lt_snapshots t1 = lt_snapshots t"
    by (cases "t1 = t"; auto elim: post_closing_journal_effect [OF 1 _ assms(3)])+
  have open1: "\<not> closed_book t1 (cs_tenant s) (cs_book s) (cs_period s)"
    using assms(2) by (simp add: closed_book_def find_control_def same)
  from insert_snapshot_changed [OF 2] open1 have s: "periods_changed t1 t2" "lt_controls t2 = lt_controls t1"
      "lt_snapshots t2 = lt_snapshots t1 @ [snapshot]"
      "snapshot = (?row (fresh_time srv t1) (int n) h)\<lparr>sn_id := fresh_id srv t1, sn_generated_at := fresh_time srv t1\<rparr>"
      "\<forall>r\<in>set (lt_snapshots t1). \<not> (sn_tenant r = cs_tenant s \<and> sn_entity r = cs_entity s \<and>
       sn_book r = cs_book s \<and> sn_period r = cs_period s)" by simp_all
  note b = insert_balances_changed [OF 3]
  have "\<not> closed_book t3 (cs_tenant s) (cs_book s) (cs_period s)"
    using open1 s(2) b by (simp add: closed_book_def find_control_def)
  note c = set_book_period_closed_changed [OF 4 this]
  have "periods_changed t1 t'"
    unfolding 5(1) using s(1) b c(1) insert_period_close_event_changed by (blast intro: periods_changed_trans)
  moreover have "find_control t (cs_tenant s) (cs_book s) (cs_period s) \<noteq> None \<Longrightarrow> closed_book t' (cs_tenant s) (cs_book s) (cs_period s)"
    using c(2) same(1) s(2) b unfolding 5(1) by (simp add: closed_book_def find_control_def insert_period_close_event_def)
  moreover have "lt_snapshots t' = lt_snapshots t @ [snapshot]"
    using c(3) same(2) s(3) b unfolding 5(1) by (simp add: insert_period_close_event_def)
  ultimately show thesis
    using s(4,5) 1 5(2) same(2) by (intro that [of t1 snapshot]) simp_all
qed

text \<open>An adjusting journal.\<close>

lemma write_adjusting_effect:
  assumes "write_adjusting srv tref tid c policy entity book period t = Inr (t', receipt)"
    and "\<forall>l\<in>set (lt_lines t). ln_journal l \<noteq> sv_uuid (ps_server srv) (Suc (lt_inserted t))"
  obtains pr j ls where "journal_added srv t t' pr j (ac_lines c) ls []"
    and "gj_tenant j = tid" "gj_entity j = entity" "gj_book j = book" "gj_period j = period"
proof -
  from write_with_receipt_effect [OF assms(1) [unfolded write_adjusting_def] _ assms(2)] obtain pr j ls
    where added: "journal_added srv t t' pr j (ac_lines c) ls []"
    and j: "j = \<lparr>gj_id = gj_id j, gj_tenant = tid, gj_entity = entity, gj_book = book, gj_period = period,
          gj_reference = general_journal_prefix @ ac_proposal_id c,
          gj_transaction_currency = js_transaction_currency (adjusting_source c),
          gj_functional_currency = pol_functional_currency policy, gj_transaction_date = js_transaction_date (adjusting_source c),
          gj_accounting_date = js_accounting_date (adjusting_source c), gj_proposal = fresh_id srv t,
          gj_policy_version = pol_policy_version policy, gj_rule_version = pol_rule_version policy\<rparr>"
    by auto
  have "gj_tenant j = tid" "gj_entity j = entity" "gj_book j = book" "gj_period j = period"
    by (subst j, simp)+
  from that [OF added this] show thesis .
qed

end
