(* ===== verification/Persistent_Invariants.thy ===== *)
theory Persistent_Invariants
  imports Persistent_Period_Effects
begin

text \<open>
  The invariant of the persistent ledger that all commands keep: identifiers are fresh, references and keys
  are unique, rows point to rows, and every journal balances exactly; and that a closed period stays closed.
\<close>

section \<open>The invariant\<close>

definition ids_below :: "posting_server \<Rightarrow> nat \<Rightarrow> nat list \<Rightarrow> bool" where
  "ids_below srv n ids \<longleftrightarrow> distinct ids \<and> set ids \<subseteq> sv_uuid (ps_server srv) ` {..<n}"

text \<open>The primary keys of the catalogue.\<close>

definition catalog_keys :: "ledger_tables \<Rightarrow> bool" where
  "catalog_keys t \<longleftrightarrow> distinct (map en_id (ct_entities t)) \<and> distinct (map bk_id (ct_books t)) \<and>
     distinct (map ch_id (ct_charts t))"

text \<open>The lines of a journal add up to the same amount on both sides, exactly.\<close>

definition journal_balances :: "ledger_tables \<Rightarrow> journal_row \<Rightarrow> bool" where
  "journal_balances t j \<longleftrightarrow>
     (let lines = journal_lines t (gj_tenant j) (gj_id j) in
      lines \<noteq> [] \<and> dval_sum (map ln_debit lines) = dval_sum (map ln_credit lines))"

definition journal_sound :: "ledger_tables \<Rightarrow> journal_row \<Rightarrow> bool" where
  "journal_sound t j \<longleftrightarrow> journal_balances t j \<and>
     (\<exists>p\<in>set (lt_proposals t). pr_tenant p = gj_tenant j \<and> pr_id p = gj_proposal j) \<and>
     (\<exists>e\<in>set (ct_entities t). en_tenant e = gj_tenant j \<and> en_id e = gj_entity j) \<and>
     (\<exists>b\<in>set (ct_books t). bk_tenant b = gj_tenant j \<and> bk_id b = gj_book j)"

definition line_sound :: "ledger_tables \<Rightarrow> line_row \<Rightarrow> bool" where
  "line_sound t l \<longleftrightarrow>
     (\<exists>j\<in>set (lt_journals t). gj_tenant j = ln_tenant l \<and> gj_id j = ln_journal l \<and>
        (\<exists>c\<in>set (ct_charts t). ch_tenant c = ln_tenant l \<and> ch_book c = gj_book j \<and> ch_id c = ln_chart l)) \<and>
     0 < ln_number l \<and> column_amount (ln_debit l) \<and> column_amount (ln_credit l) \<and>
     dec_positive (ln_debit l) \<noteq> dec_positive (ln_credit l)"

definition reversal_sound :: "ledger_tables \<Rightarrow> reversal_row \<Rightarrow> bool" where
  "reversal_sound t r \<longleftrightarrow>
     (\<exists>original\<in>set (lt_journals t). gj_tenant original = rv_tenant r \<and> gj_id original = rv_original r \<and>
       (\<exists>j\<in>set (lt_journals t). gj_tenant j = rv_tenant r \<and> gj_id j = rv_reversal r \<and>
          gj_reference j = gj_reference original @ '':reversal''))"

text \<open>Receipts belong to journals, one each; only closing journals have none.\<close>

definition receipts_match :: "ledger_tables \<Rightarrow> bool" where
  "receipts_match t \<longleftrightarrow> distinct (map rr_journal (lt_receipts t)) \<and>
     receipt_key ` set (lt_receipts t) \<subseteq> journal_key ` set (lt_journals t) \<and>
     (\<forall>j\<in>set (lt_journals t). closing_journal j \<or> journal_key j \<in> receipt_key ` set (lt_receipts t))"

definition tables_inv :: "posting_server \<Rightarrow> ledger_tables \<Rightarrow> bool" where
  "tables_inv srv t \<longleftrightarrow> catalog_keys t \<and>
     ids_below srv (lt_inserted t) (map pr_id (lt_proposals t)) \<and>
     ids_below srv (lt_inserted t) (map gj_id (lt_journals t)) \<and>
     distinct (map (\<lambda>p. (pr_tenant p, pr_idempotency_key p)) (lt_proposals t)) \<and>
     distinct (map (\<lambda>j. (gj_tenant j, gj_reference j)) (lt_journals t)) \<and>
     distinct (map (\<lambda>l. (ln_journal l, ln_number l)) (lt_lines t)) \<and>
     receipts_match t \<and>
     (\<forall>j\<in>set (lt_journals t). journal_sound t j) \<and> (\<forall>l\<in>set (lt_lines t). line_sound t l) \<and>
     (\<forall>r\<in>set (lt_reversals t). reversal_sound t r)"

lemma ids_below_snoc:
  assumes "inj (sv_uuid (ps_server srv))" "ids_below srv m ids" "m \<le> i" "i < n"
  shows "ids_below srv n (ids @ [sv_uuid (ps_server srv) i])" "sv_uuid (ps_server srv) i \<notin> set ids"
proof -
  show new: "sv_uuid (ps_server srv) i \<notin> set ids"
    using assms by (auto simp: ids_below_def inj_eq dest!: subsetD)
  show "ids_below srv n (ids @ [sv_uuid (ps_server srv) i])"
    using assms new by (fastforce simp: ids_below_def)
qed

lemma balance_asserted:
  assumes "assert_journal_balance t j = Inr ()"
    and "\<forall>l\<in>set (journal_lines t (gj_tenant j) (gj_id j)). column_amount (ln_debit l) \<and> column_amount (ln_credit l)"
  shows "journal_balances t j"
proof -
  let ?ls = "journal_lines t (gj_tenant j) (gj_id j)"
  obtain debit credit where sums: "numeric_38_6 (numeric_sum (map ln_debit ?ls)) = Inr debit"
      "numeric_38_6 (numeric_sum (map ln_credit ?ls)) = Inr credit" "?ls \<noteq> []" "dec_eq debit credit"
    using assms(1) by (auto simp: assert_journal_balance_def Let_def result_simps)
  have "dval_sum (map ln_debit ?ls) = dval debit"
    using numeric_same_value [OF sums(1) numeric_sum_amount_ok] numeric_sum_value [of "map ln_debit ?ls"] assms(2) by simp
  moreover have "dval_sum (map ln_credit ?ls) = dval credit"
    using numeric_same_value [OF sums(2) numeric_sum_amount_ok] numeric_sum_value [of "map ln_credit ?ls"] assms(2) by simp
  ultimately show ?thesis using sums(3,4) by (simp add: journal_balances_def Let_def dec_eq_iff)
qed

text \<open>The tables of a journal that was added, seen from the old rows.\<close>

lemma journal_added_frame:
  assumes "journal_added srv t t' p j lines ls rvs" "tables_inv srv t" "inj (sv_uuid (ps_server srv))"
  shows "ct_tenants t' = ct_tenants t" "ct_entities t' = ct_entities t" "ct_books t' = ct_books t" "ct_charts t' = ct_charts t"
    and "lt_periods t' = lt_periods t" "lt_controls t' = lt_controls t" "lt_mappings t' = lt_mappings t"
    and "lt_proposals t' = lt_proposals t @ [p]" "lt_journals t' = lt_journals t @ [j]" "lt_lines t' = lt_lines t @ ls"
    and "lt_reversals t' = lt_reversals t @ rvs" "lt_inserted t \<le> lt_inserted t'"
    and "pr_id p \<notin> pr_id ` set (lt_proposals t)" "gj_id j \<notin> gj_id ` set (lt_journals t)"
    and "gj_proposal j = pr_id p" "pr_tenant p = gj_tenant j"
    and "\<forall>l\<in>set (lt_lines t). ln_journal l \<noteq> gj_id j"
    and "\<forall>l\<in>set ls. ln_tenant l = gj_tenant j \<and> ln_journal l = gj_id j"
    and "\<forall>r\<in>set (lt_reversals t). rv_reversal r \<noteq> gj_id j \<and> rv_original r \<noteq> gj_id j"
    and "ids_below srv (lt_inserted t') (map pr_id (lt_proposals t'))"
    and "ids_below srv (lt_inserted t') (map gj_id (lt_journals t'))"
    and "receipts_match t'"
proof -
  obtain ss rcs obs n i where t': "t' = t\<lparr>lt_proposals := lt_proposals t @ [p], lt_journals := lt_journals t @ [j],
          lt_lines := lt_lines t @ ls, lt_sources := lt_sources t @ ss, lt_reversals := lt_reversals t @ rvs,
          lt_receipts := lt_receipts t @ rcs, lt_outbox := lt_outbox t @ obs, lt_inserted := n\<rparr>"
    and i: "lt_inserted t \<le> i" "Suc i < n" "pr_id p = sv_uuid (ps_server srv) i" "gj_id j = sv_uuid (ps_server srv) (Suc i)"
    and own: "gj_proposal j = pr_id p" "pr_tenant p = gj_tenant j"
    and receipt: "map receipt_key rcs = [journal_key j] \<or> rcs = [] \<and> closing_journal j"
    using assms(1) unfolding journal_added_def by (elim exE conjE) (rule that; assumption)
  show "ct_tenants t' = ct_tenants t" "ct_entities t' = ct_entities t" "ct_books t' = ct_books t" "ct_charts t' = ct_charts t"
    "lt_periods t' = lt_periods t" "lt_controls t' = lt_controls t" "lt_mappings t' = lt_mappings t"
    "lt_proposals t' = lt_proposals t @ [p]" "lt_journals t' = lt_journals t @ [j]" "lt_lines t' = lt_lines t @ ls"
    "lt_reversals t' = lt_reversals t @ rvs" "lt_inserted t \<le> lt_inserted t'" "gj_proposal j = pr_id p" "pr_tenant p = gj_tenant j"
    using i own by (simp_all add: t')
  have ids: "ids_below srv (lt_inserted t) (map pr_id (lt_proposals t))" "ids_below srv (lt_inserted t) (map gj_id (lt_journals t))"
    using assms(2) by (simp_all add: tables_inv_def)
  note p_new = ids_below_snoc [OF assms(3) ids(1) i(1), of n] and j_new = ids_below_snoc [OF assms(3) ids(2), of "Suc i" n]
  show "pr_id p \<notin> pr_id ` set (lt_proposals t)" "ids_below srv (lt_inserted t') (map pr_id (lt_proposals t'))"
    using p_new i by (simp_all add: t')
  show fresh: "gj_id j \<notin> gj_id ` set (lt_journals t)" and "ids_below srv (lt_inserted t') (map gj_id (lt_journals t'))"
    using j_new i by (simp_all add: t')
  show "\<forall>l\<in>set (lt_lines t). ln_journal l \<noteq> gj_id j"
  proof
    fix l assume "l \<in> set (lt_lines t)"
    then have "ln_journal l \<in> gj_id ` set (lt_journals t)"
      using assms(2) unfolding tables_inv_def line_sound_def by (metis image_eqI)
    then show "ln_journal l \<noteq> gj_id j" using fresh by metis
  qed
  show "\<forall>r\<in>set (lt_reversals t). rv_reversal r \<noteq> gj_id j \<and> rv_original r \<noteq> gj_id j"
  proof
    fix r assume "r \<in> set (lt_reversals t)"
    then have "rv_reversal r \<in> gj_id ` set (lt_journals t) \<and> rv_original r \<in> gj_id ` set (lt_journals t)"
      using assms(2) unfolding tables_inv_def reversal_sound_def by (metis image_eqI)
    then show "rv_reversal r \<noteq> gj_id j \<and> rv_original r \<noteq> gj_id j" using fresh by metis
  qed
  have "list_all2 (line_stored (ct_charts t) (gj_tenant j) (gj_book j) (gj_id j)) lines ls"
    using assms(1) by (simp add: journal_added_def)
  then show "\<forall>l\<in>set ls. ln_tenant l = gj_tenant j \<and> ln_journal l = gj_id j"
    by (auto simp: line_stored_def dest!: list_all2_set_right)
  show "receipts_match t'"
  proof -
    have old: "receipts_match t" using assms(2) by (simp add: tables_inv_def)
    then have "rr_journal ` set (lt_receipts t) \<subseteq> gj_id ` set (lt_journals t)"
      unfolding receipts_match_def receipt_key_def journal_key_def by (auto dest!: subsetD)
    then have "\<forall>r\<in>set (lt_receipts t). rr_journal r \<noteq> gj_id j" using fresh by (metis imageI subsetD)
    then show ?thesis
      using old receipt unfolding receipts_match_def
      by (auto simp: t' map_eq_Cons_conv receipt_key_def journal_key_def)
  qed
qed

lemma journal_added_lines:
  assumes "journal_added srv t t' p j lines ls rvs" "tables_inv srv t" "inj (sv_uuid (ps_server srv))"
  shows "journal_lines t' (gj_tenant j) (gj_id j) = ls"
    and "jid \<in> gj_id ` set (lt_journals t) \<Longrightarrow> journal_lines t' tid jid = journal_lines t tid jid"
proof -
  note frame = journal_added_frame [OF assms]
  show "journal_lines t' (gj_tenant j) (gj_id j) = ls"
    using frame(17,18) by (simp add: journal_lines_def frame(10) filter_empty_conv filter_id_conv)
  assume "jid \<in> gj_id ` set (lt_journals t)"
  then have "jid \<noteq> gj_id j" using frame(14) by metis
  then show "journal_lines t' tid jid = journal_lines t tid jid"
    using frame(18) by (auto simp: journal_lines_def frame(10) filter_empty_conv)
qed

lemma journal_sound_mono:
  assumes "journal_sound t j0" "journal_lines t' (gj_tenant j0) (gj_id j0) = journal_lines t (gj_tenant j0) (gj_id j0)"
    and "set (lt_proposals t) \<subseteq> set (lt_proposals t')" "ct_entities t' = ct_entities t" "ct_books t' = ct_books t"
  shows "journal_sound t' j0"
  using assms unfolding journal_sound_def journal_balances_def by (auto simp: subset_eq)

lemma journal_added_inv:
  assumes added: "journal_added srv t t' p j lines ls rvs" and inv: "tables_inv srv t" and uuid: "inj (sv_uuid (ps_server srv))"
    and balance: "assert_journal_balance t' j = Inr ()"
    and scope: "\<exists>e\<in>set (ct_entities t). en_tenant e = gj_tenant j \<and> en_id e = gj_entity j"
      "\<exists>b\<in>set (ct_books t). bk_tenant b = gj_tenant j \<and> bk_id b = gj_book j"
    and lineage: "\<forall>r\<in>set rvs. \<exists>original\<in>set (lt_journals t). gj_tenant original = rv_tenant r \<and> gj_id original = rv_original r \<and>
        gj_reference j = gj_reference original @ '':reversal''"
  shows "tables_inv srv t'"
proof -
  note frame = journal_added_frame [OF added inv uuid] and line_rows = journal_added_lines [OF added inv uuid]
  have stored: "line_stored (ct_charts t) (gj_tenant j) (gj_book j) (gj_id j) l row \<Longrightarrow> row \<in> set ls \<Longrightarrow>
      line_sound t' row" for l row
  proof -
    assume l: "line_stored (ct_charts t) (gj_tenant j) (gj_book j) (gj_id j) l row" and row: "row \<in> set ls"
    have "0 < ln_number row" using added row by (simp add: journal_added_def)
    then show "line_sound t' row" using l by (auto simp: line_stored_def line_sound_def frame(4,9))
  qed
  have new_lines: "\<forall>l\<in>set ls. line_sound t' l"
  proof
    fix row assume row: "row \<in> set ls"
    have "list_all2 (line_stored (ct_charts t) (gj_tenant j) (gj_book j) (gj_id j)) lines ls"
      using added by (simp add: journal_added_def)
    then show "line_sound t' row" using stored [OF _ row] list_all2_set_right [OF _ row] by blast
  qed
  have old_lines: "\<forall>l\<in>set (lt_lines t). line_sound t' l"
    using inv unfolding tables_inv_def line_sound_def frame(4,9) by auto
  have j_balances: "journal_balances t' j"
    using new_lines by (intro balance_asserted [OF balance]) (simp add: line_rows(1) line_sound_def)
  have j_sound: "journal_sound t' j"
    using j_balances scope frame(15,16) by (simp add: journal_sound_def frame(2,3,8))
  have old_sound: "\<forall>j0\<in>set (lt_journals t). journal_sound t' j0"
  proof
    fix j0 assume j0: "j0 \<in> set (lt_journals t)"
    then have "journal_sound t j0" using inv by (simp add: tables_inv_def)
    then show "journal_sound t' j0"
      using j0 by (intro journal_sound_mono [of t j0 t']) (auto simp: line_rows(2) frame(2,3,8))
  qed
  have "(pr_tenant p, pr_idempotency_key p) \<notin> (\<lambda>p. (pr_tenant p, pr_idempotency_key p)) ` set (lt_proposals t)"
    and "(gj_tenant j, gj_reference j) \<notin> (\<lambda>j. (gj_tenant j, gj_reference j)) ` set (lt_journals t)"
    using added by (auto simp: journal_added_def list_ex_iff)
  moreover have "distinct (map (\<lambda>l. (ln_journal l, ln_number l)) (lt_lines t @ ls))"
  proof -
    have "distinct (map (\<lambda>l. (ln_journal l, ln_number l)) ls)"
      using added by (auto simp: journal_added_def distinct_map inj_on_def)
    moreover have "(\<lambda>l. (ln_journal l, ln_number l)) ` set (lt_lines t) \<inter> (\<lambda>l. (ln_journal l, ln_number l)) ` set ls = {}"
      using frame(17,18) by fastforce
    ultimately show ?thesis using inv by (simp add: tables_inv_def)
  qed
  moreover have "\<forall>r\<in>set (lt_reversals t @ rvs). reversal_sound t' r"
  proof
    fix r assume "r \<in> set (lt_reversals t @ rvs)"
    then consider "r \<in> set (lt_reversals t)" | "r \<in> set rvs" by auto
    then show "reversal_sound t' r"
    proof cases
      case 1
      then have "reversal_sound t r" using inv by (simp add: tables_inv_def)
      then show ?thesis by (auto simp: reversal_sound_def frame(9))
    next
      case 2
      then have "rv_tenant r = gj_tenant j" "rv_reversal r = gj_id j" using added by (auto simp: journal_added_def)
      moreover obtain original where "original \<in> set (lt_journals t)" "gj_tenant original = rv_tenant r"
          "gj_id original = rv_original r" "gj_reference j = gj_reference original @ '':reversal''"
        using lineage 2 by blast
      ultimately show ?thesis
        unfolding reversal_sound_def frame(9) by (intro bexI [of _ original] conjI bexI [of _ j]) simp_all
    qed
  qed
  ultimately show ?thesis
    using inv frame(20,21,22) j_sound old_sound old_lines new_lines
    unfolding tables_inv_def catalog_keys_def frame(2-5,8-11) by (simp add: ball_Un)
qed

section \<open>The commands keep the invariant\<close>

lemma transaction_Inr:
  "transaction srv body t = Inr (t', x) \<longleftrightarrow>
     sv_reachable (ps_server srv) \<and> body t = Inr (t', x) \<and>
     check_all (assert_journal_balance t') (drop (length (lt_journals t)) (lt_journals t')) = Inr ()"
  by (auto simp: transaction_def result_simps)


lemma find_role_book_ok:
  "require_book t tid entity role ref = Inr book \<Longrightarrow> \<exists>b\<in>set (ct_books t). bk_tenant b = tid \<and> bk_entity b = entity \<and> bk_id b = book"
  by (auto simp: require_book_def find_role_book_def split: option.splits dest!: find_memberD)

lemma require_legal_entity_ok:
  "require_legal_entity t tid ref = Inr entity \<Longrightarrow> \<exists>e\<in>set (ct_entities t). en_tenant e = tid \<and> en_id e = entity \<and> en_code e = ref"
  by (auto simp: require_legal_entity_def load_legal_entity_def result_simps split: option.splits dest!: find_memberD)

lemma post_fresh_effect:
  assumes run: "post_fresh_proposal srv tref tid p given t = Inr (t', receipt)"
    and inv: "tables_inv srv t" and uuid: "inj (sv_uuid (ps_server srv))"
    and balance: "check_all (assert_journal_balance t') (drop (length (lt_journals t)) (lt_journals t')) = Inr ()"
  obtains policy lines pr j ls entity
  where "(case given of Some policy \<Rightarrow> Inr policy | None \<Rightarrow> resolve_accounting_policy tref tid p t) = Inr policy"
    and "validate_policy_scope p policy = Inr ()" and "map_result (resolve_line policy) (jp_lines p) = Inr lines"
    and "require_legal_entity t tid (jp_legal_entity_reference p) = Inr entity"
    and "require_book t tid entity (pol_book_role_code policy) (pol_book_reference policy) = Inr (gj_book j)"
    and "require_open_book_period t tid (gj_book j) (jp_accounting_date p) = Inr (gj_period j)"
    and "journal_added srv t t' pr j lines ls []" and "tables_inv srv t'" and "receipt = posting_receipt_of p policy lines"
    and "pr = \<lparr>pr_id = fresh_id srv t, pr_tenant = tid, pr_external_id = py_lower (jp_proposal_id p),
           pr_contract_version = jp_contract_version p, pr_idempotency_key = jp_idempotency_key p,
           pr_source_hash = jp_source_payload_hash p\<rparr>"
    and "j = \<lparr>gj_id = gj_id j, gj_tenant = tid, gj_entity = entity, gj_book = gj_book j, gj_period = gj_period j,
          gj_reference = general_journal_prefix @ jp_proposal_id p, gj_transaction_currency = jp_transaction_currency p,
          gj_functional_currency = pol_functional_currency policy, gj_transaction_date = jp_transaction_date p,
          gj_accounting_date = jp_accounting_date p, gj_proposal = fresh_id srv t,
          gj_policy_version = pol_policy_version policy, gj_rule_version = pol_rule_version policy\<rparr>"
    and "gj_tenant j = tid"
proof -
  obtain policy lines entity book period
    where steps: "(case given of Some policy \<Rightarrow> Inr policy | None \<Rightarrow> resolve_accounting_policy tref tid p t) = Inr policy"
      "validate_policy_scope p policy = Inr ()" "map_result (resolve_line policy) (jp_lines p) = Inr lines"
      "require_legal_entity t tid (jp_legal_entity_reference p) = Inr entity"
      "require_book t tid entity (pol_book_role_code policy) (pol_book_reference policy) = Inr book"
      "require_open_book_period t tid book (jp_accounting_date p) = Inr period"
    and wrote: "write_posting srv tid p policy lines entity book period t = Inr (t', receipt)"
    using run unfolding post_fresh_proposal_def by (auto simp: result_simps)
  have "sv_uuid (ps_server srv) (Suc (lt_inserted t)) \<notin> gj_id ` set (lt_journals t)"
    using ids_below_snoc(2) [OF uuid, of "lt_inserted t" "map gj_id (lt_journals t)" "Suc (lt_inserted t)" "Suc (Suc (lt_inserted t))"] inv
    by (simp add: tables_inv_def)
  then have "\<forall>l\<in>set (lt_lines t). ln_journal l \<noteq> sv_uuid (ps_server srv) (Suc (lt_inserted t))"
    using inv unfolding tables_inv_def line_sound_def by (metis image_eqI)
  from write_posting_effect [OF wrote this] obtain pr j ls where added: "journal_added srv t t' pr j lines ls []"
    and rest: "receipt = posting_receipt_of p policy lines"
     "pr = \<lparr>pr_id = fresh_id srv t, pr_tenant = tid, pr_external_id = py_lower (jp_proposal_id p),
           pr_contract_version = jp_contract_version p, pr_idempotency_key = jp_idempotency_key p,
           pr_source_hash = jp_source_payload_hash p\<rparr>"
     "j = \<lparr>gj_id = gj_id j, gj_tenant = tid, gj_entity = entity, gj_book = book, gj_period = period,
          gj_reference = general_journal_prefix @ jp_proposal_id p, gj_transaction_currency = jp_transaction_currency p,
          gj_functional_currency = pol_functional_currency policy, gj_transaction_date = jp_transaction_date p,
          gj_accounting_date = jp_accounting_date p, gj_proposal = fresh_id srv t,
          gj_policy_version = pol_policy_version policy, gj_rule_version = pol_rule_version policy\<rparr>"
    by blast
  have fields: "gj_tenant j = tid" "gj_entity j = entity" "gj_book j = book" "gj_period j = period"
    by (subst rest(3), simp)+
  have "assert_journal_balance t' j = Inr ()"
    using balance by (simp add: journal_added_frame(9) [OF added inv uuid] result_simps)
  then have "tables_inv srv t'"
    using require_legal_entity_ok [OF steps(4)] find_role_book_ok [OF steps(5)]
    by (intro journal_added_inv [OF added inv uuid]) (auto simp: fields)
  then show thesis
    using steps added rest fields by (intro that [of policy lines entity j pr ls]) auto
qed

lemma find_journal_ok: "find_journal t tid ref = Some j \<Longrightarrow> j \<in> set (lt_journals t) \<and> gj_tenant j = tid \<and> gj_reference j = ref"
  by (auto simp: find_journal_def dest: find_memberD)

lemma reverse_effect:
  assumes run: "reverse_in_session srv tref ref d reason policy key h t = Inr (t', receipt)"
    and tenant: "require_tenant (ps_server srv) (ct_tenants t) tref = Inr tid"
    and none: "find_existing_reversal t tid ref = None"
    and inv: "tables_inv srv t" and uuid: "inj (sv_uuid (ps_server srv))"
    and balance: "check_all (assert_journal_balance t') (drop (length (lt_journals t)) (lt_journals t')) = Inr ()"
  obtains original pr j ls rv src
  where "\<not> list_ex (\<lambda>p. pr_tenant p = tid \<and> pr_idempotency_key p = key) (lt_proposals t)"
    and "find_journal t tid ref = Some original" and "check_reversal_scope t tref tid original d policy = Inr ()"
    and "require_adjusting_period t tid d = Inr (gj_period j)"
    and "journal_added srv t t' pr j (map reversal_line (load_lines t tid (gj_id original))) ls [rv]" and "tables_inv srv t'"
    and "find_journal t tid (ref @ '':reversal'') = None" and "proposal_by_id t tid (gj_proposal original) = Some src"
    and "receipt = pg_reversal_receipt ref (pr_external_id src) policy h (length (load_lines t tid (gj_id original)))"
    and "pr = \<lparr>pr_id = pr_id pr, pr_tenant = tid, pr_external_id = uuid_text (fresh_id srv t), pr_contract_version = 1,
           pr_idempotency_key = key, pr_source_hash = h\<rparr>"
    and "j = \<lparr>gj_id = gj_id j, gj_tenant = tid, gj_entity = gj_entity original, gj_book = gj_book original, gj_period = gj_period j,
          gj_reference = ref @ '':reversal'', gj_transaction_currency = gj_transaction_currency original,
          gj_functional_currency = pol_functional_currency policy, gj_transaction_date = gj_transaction_date original,
          gj_accounting_date = d, gj_proposal = pr_id pr,
          gj_policy_version = pol_policy_version policy, gj_rule_version = pol_rule_version policy\<rparr>"
    and "rv = \<lparr>rv_tenant = tid, rv_original = gj_id original, rv_reversal = gj_id j, rv_reason_code = reason\<rparr>"
    and "\<not> list_ex (\<lambda>r. rv_tenant r = tid \<and> rv_original r = gj_id original) (lt_reversals t)"
    and "gj_tenant j = tid" "guard_period_insert srv ''reversal'' j t = Inr ()"
proof -
  obtain original period
    where steps: "\<not> list_ex (\<lambda>p. pr_tenant p = tid \<and> pr_idempotency_key p = key) (lt_proposals t)"
      "find_journal t tid ref = Some original" "check_reversal_scope t tref tid original d policy = Inr ()"
      "require_adjusting_period t tid d = Inr period"
    and wrote: "write_reversal srv tid ref original d reason key h policy period t = Inr (t', receipt)"
    using run tenant none unfolding reverse_in_session_def by (auto simp: result_simps split: option.splits if_splits)
  have "sv_uuid (ps_server srv) (Suc (Suc (lt_inserted t))) \<notin> gj_id ` set (lt_journals t)"
    using ids_below_snoc(2) [OF uuid, of "lt_inserted t" "map gj_id (lt_journals t)" "Suc (Suc (lt_inserted t))" "Suc (Suc (Suc (lt_inserted t)))"] inv
    by (simp add: tables_inv_def)
  then have "\<forall>l\<in>set (lt_lines t). ln_journal l \<noteq> sv_uuid (ps_server srv) (Suc (Suc (lt_inserted t)))"
    using inv unfolding tables_inv_def line_sound_def by (metis image_eqI)
  from write_reversal_effect [OF wrote this] obtain pr j ls rv src
    where added: "journal_added srv t t' pr j (map reversal_line (load_lines t tid (gj_id original))) ls [rv]"
    and rest: "find_journal t tid (ref @ '':reversal'') = None" "proposal_by_id t tid (gj_proposal original) = Some src"
     "receipt = pg_reversal_receipt ref (pr_external_id src) policy h (length (load_lines t tid (gj_id original)))"
     "pr = \<lparr>pr_id = pr_id pr, pr_tenant = tid, pr_external_id = uuid_text (fresh_id srv t), pr_contract_version = 1,
           pr_idempotency_key = key, pr_source_hash = h\<rparr>"
     "rv = \<lparr>rv_tenant = tid, rv_original = gj_id original, rv_reversal = gj_id j, rv_reason_code = reason\<rparr>"
     "\<not> list_ex (\<lambda>r. rv_tenant r = tid \<and> rv_original r = gj_id original) (lt_reversals t)"
     "guard_period_insert srv ''reversal'' j t = Inr ()"
    and j: "j = \<lparr>gj_id = gj_id j, gj_tenant = tid, gj_entity = gj_entity original, gj_book = gj_book original, gj_period = period,
          gj_reference = ref @ '':reversal'', gj_transaction_currency = gj_transaction_currency original,
          gj_functional_currency = pol_functional_currency policy, gj_transaction_date = gj_transaction_date original,
          gj_accounting_date = d, gj_proposal = pr_id pr,
          gj_policy_version = pol_policy_version policy, gj_rule_version = pol_rule_version policy\<rparr>"
    by blast
  have fields: "gj_tenant j = tid" "gj_entity j = gj_entity original" "gj_book j = gj_book original" "gj_period j = period"
      "gj_reference j = ref @ '':reversal''"
    by (subst j, simp)+
  have original: "original \<in> set (lt_journals t)" "gj_tenant original = tid" "gj_reference original = ref"
    using find_journal_ok [OF steps(2)] by auto
  then have sound: "journal_sound t original" using inv by (simp add: tables_inv_def)
  have rv: "rv_tenant rv = tid" "rv_original rv = gj_id original" by (subst rest(5), simp)+
  have "assert_journal_balance t' j = Inr ()"
    using balance by (simp add: journal_added_frame(9) [OF added inv uuid] result_simps)
  then have "tables_inv srv t'"
    using sound original rv
    by (intro journal_added_inv [OF added inv uuid]) (auto simp: fields journal_sound_def)
  then show thesis
    using steps added rest j fields by (intro that [of original j pr ls rv src]) auto
qed

lemma replayed_reversal_state:
  assumes "reverse_in_session srv tref ref d reason policy key h t = Inr (t', receipt)"
    and "require_tenant (ps_server srv) (ct_tenants t) tref = Inr tid" "find_existing_reversal t tid ref = Some ex"
  shows "t' = t"
  using assms by (auto simp: reverse_in_session_def replay_reversal_def result_simps split: if_splits)

section \<open>Adjusting journals\<close>

lemma load_legal_entity_ok:
  "load_legal_entity es tid ref what = Inr (i, c) \<Longrightarrow> \<exists>e\<in>set es. en_tenant e = tid \<and> en_id e = i"
  by (auto simp: load_legal_entity_def split: option.splits dest!: find_memberD)

lemma find_named_book_ok:
  "find_named_book t tid entity name = Some b \<Longrightarrow> b \<in> set (ct_books t) \<and> bk_tenant b = tid \<and> bk_entity b = entity"
  by (auto simp: find_named_book_def dest!: find_memberD)

lemma fresh_journal_lines:
  assumes "tables_inv srv t" "inj (sv_uuid (ps_server srv))" "lt_inserted t \<le> i"
  shows "\<forall>l\<in>set (lt_lines t). ln_journal l \<noteq> sv_uuid (ps_server srv) i"
proof -
  have "sv_uuid (ps_server srv) i \<notin> gj_id ` set (lt_journals t)"
    using ids_below_snoc(2) [OF assms(2), of "lt_inserted t" "map gj_id (lt_journals t)" i "Suc i"] assms
    by (simp add: tables_inv_def)
  then show ?thesis using assms(1) unfolding tables_inv_def line_sound_def by (metis image_eqI)
qed

lemma adjusting_effect:
  assumes run: "post_fresh_adjusting srv tref tid c t = Inr (t', u)"
    and inv: "tables_inv srv t" and uuid: "inj (sv_uuid (ps_server srv))"
    and balance: "check_all (assert_journal_balance t') (drop (length (lt_journals t)) (lt_journals t')) = Inr ()"
  obtains pr j ls where "journal_added srv t t' pr j (ac_lines c) ls []" "gj_tenant j = tid" "tables_inv srv t'"
proof -
  obtain entity currency book policy period receipt
    where entity: "load_legal_entity (ct_entities t) tid (ac_legal_entity_reference c) ''the journal post'' = Inr (entity, currency)"
      and book: "find_named_book t tid entity (ac_book_reference c) = Some book"
      and wrote: "write_adjusting srv tref tid c policy entity (bk_id book) period t = Inr (t', receipt)"
  proof -
    obtain entity currency where entity:
        "load_legal_entity (ct_entities t) tid (ac_legal_entity_reference c) ''the journal post'' = Inr (entity, currency)"
      using run unfolding post_fresh_adjusting_def by (auto simp: bind_result_eq_Inr)
    obtain book where book: "find_named_book t tid entity (ac_book_reference c) = Some book"
      using run unfolding post_fresh_adjusting_def entity
      by (cases "find_named_book t tid entity (ac_book_reference c)") (simp_all add: result_simps)
    obtain period status s e where period: "load_book_period_state t tid (bk_id book) (ac_period_code c) = Some (period, status, s, e)"
      using run unfolding post_fresh_adjusting_def entity
      by (cases "load_book_period_state t tid (bk_id book) (ac_period_code c)") (auto simp: book result_simps split: if_splits)
    obtain m where "first_book_mapping t tid (bk_id book) = Some m"
      using run unfolding post_fresh_adjusting_def entity
      by (cases "first_book_mapping t tid (bk_id book)") (auto simp: book period result_simps split: if_splits)
    then show thesis
      using run that entity book unfolding post_fresh_adjusting_def
      by (auto simp: entity book period result_simps split: if_splits)
  qed
  obtain pr j ls where added: "journal_added srv t t' pr j (ac_lines c) ls []"
    and fields: "gj_tenant j = tid" "gj_entity j = entity" "gj_book j = bk_id book"
    by (rule write_adjusting_effect [OF wrote fresh_journal_lines [OF inv uuid]]) auto
  have "assert_journal_balance t' j = Inr ()"
    using balance by (simp add: journal_added_frame(9) [OF added inv uuid] result_simps)
  then have "tables_inv srv t'"
    using load_legal_entity_ok [OF entity] find_named_book_ok [OF book]
    by (intro journal_added_inv [OF added inv uuid]) (auto simp: fields)
  from that [OF added fields(1) this] show thesis .
qed

section \<open>Closing and opening periods\<close>

lemma periods_changed_inv:
  assumes "periods_changed t t'" "tables_inv srv t"
  shows "tables_inv srv t'"
proof -
  note frame = periods_changed_frame [OF assms(1)]
  have "ids_below srv (lt_inserted t) xs \<Longrightarrow> ids_below srv (lt_inserted t') xs" for xs
    using frame(13) by (fastforce simp: ids_below_def)
  then show ?thesis
    using assms(2) unfolding tables_inv_def catalog_keys_def receipts_match_def journal_sound_def journal_balances_def
      line_sound_def reversal_sound_def journal_lines_def frame by blast
qed

text \<open>
  A step: rows of periods change, at most one journal is added between, and each state on the way keeps
  the invariant.
\<close>

definition step_to :: "posting_server \<Rightarrow> nat \<Rightarrow> ledger_tables \<Rightarrow> ledger_tables \<Rightarrow> bool" where
  "step_to srv tid t t' \<longleftrightarrow> periods_changed t t' \<or>
     (\<exists>t1 t2 pr j lines ls rvs. periods_changed t t1 \<and> journal_added srv t1 t2 pr j lines ls rvs \<and> gj_tenant j = tid \<and>
        tables_inv srv t2 \<and> periods_changed t2 t')"

lemma step_to_periods: "periods_changed t t' \<Longrightarrow> step_to srv tid t t'"
  by (simp add: step_to_def)

lemma step_to_journal:
  "journal_added srv t t' pr j lines ls rvs \<Longrightarrow> gj_tenant j = tid \<Longrightarrow> tables_inv srv t' \<Longrightarrow> step_to srv tid t t'"
  unfolding step_to_def using periods_changed_refl by blast

lemma step_to_inv: "step_to srv tid t t' \<Longrightarrow> tables_inv srv t \<Longrightarrow> tables_inv srv t'"
  unfolding step_to_def using periods_changed_inv by blast

lemma step_to_kept: "step_to srv tid t t' \<Longrightarrow> periods_kept t t'"
  unfolding step_to_def periods_changed_def by (auto dest!: journal_added_kept intro: periods_kept_trans)

lemma journal_added_catalog:
  "journal_added srv t t' pr j lines ls rvs \<Longrightarrow> ct_tenants t' = ct_tenants t \<and> ct_entities t' = ct_entities t \<and>
     ct_books t' = ct_books t \<and> ct_charts t' = ct_charts t \<and> lt_mappings t' = lt_mappings t \<and>
     lt_journals t' = lt_journals t @ [j]"
  unfolding journal_added_def by (elim exE conjE) simp

lemma step_to_catalog:
  assumes "step_to srv tid t t'"
  shows "ct_tenants t' = ct_tenants t \<and> ct_entities t' = ct_entities t \<and> ct_books t' = ct_books t \<and> ct_charts t' = ct_charts t \<and>
     lt_mappings t' = lt_mappings t"
  using assms unfolding step_to_def
proof (elim disjE exE conjE)
  assume "periods_changed t t'"
  then show ?thesis by (simp add: periods_changed_frame)
next
  fix t1 t2 pr j lines ls rvs
  assume "periods_changed t t1" "journal_added srv t1 t2 pr j lines ls rvs" "periods_changed t2 t'"
  then show ?thesis using journal_added_catalog [of srv t1 t2 pr j lines ls rvs] by (simp add: periods_changed_frame)
qed

text \<open>A step adds no journal to a book that is closed for good.\<close>

lemma step_to_journals:
  assumes "step_to srv tid t t'" "closed_book t tid0 book period"
  shows "filter (\<lambda>j. gj_tenant j = tid0 \<and> gj_book j = book \<and> gj_period j = period) (lt_journals t') =
     filter (\<lambda>j. gj_tenant j = tid0 \<and> gj_book j = book \<and> gj_period j = period) (lt_journals t)"
  using assms(1) unfolding step_to_def
proof (elim disjE exE conjE)
  assume "periods_changed t t'"
  then show ?thesis by (simp add: periods_changed_frame(8))
next
  fix t1 t2 pr j lines ls rvs
  assume 1: "periods_changed t t1" and added: "journal_added srv t1 t2 pr j lines ls rvs" and 2: "periods_changed t2 t'"
  have "closed_book t1 tid0 book period" using 1 assms(2) by (simp add: periods_changed_def periods_kept_def)
  then have "\<not> (gj_tenant j = tid0 \<and> gj_book j = book \<and> gj_period j = period)"
    using journal_added_not_closed [OF added] by auto
  then show ?thesis
    using journal_added_catalog [OF added] periods_changed_frame(8) [OF 1] periods_changed_frame(8) [OF 2] by auto
qed

lemma require_entity_for_ok:
  "require_entity_for t tid ref what = Inr entity \<Longrightarrow> \<exists>e\<in>set (ct_entities t). en_tenant e = tid \<and> en_id e = entity"
  by (auto simp: require_entity_for_def result_simps dest: load_legal_entity_ok)

lemma require_book_for_close_ok:
  "require_book_for_close t tid entity ref what = Inr (book, c) \<Longrightarrow> \<exists>b\<in>set (ct_books t). bk_tenant b = tid \<and> bk_id b = book"
  by (auto simp: require_book_for_close_def split: option.splits dest!: find_named_book_ok)

lemma close_locked_step:
  assumes run: "close_locked srv reports s status t = Inr (t', receipt)"
    and status: "closed_book t (cs_tenant s) (cs_book s) (cs_period s) \<longleftrightarrow> status = ''hard_closed''"
    and inv: "tables_inv srv t" and uuid: "inj (sv_uuid (ps_server srv))"
    and scope: "\<exists>e\<in>set (ct_entities t). en_tenant e = cs_tenant s \<and> en_id e = cs_entity s"
      "\<exists>b\<in>set (ct_books t). bk_tenant b = cs_tenant s \<and> bk_id b = cs_book s"
    and balance: "check_all (assert_journal_balance t') (drop (length (lt_journals t)) (lt_journals t')) = Inr ()"
  shows "step_to srv (cs_tenant s) t t'"
proof -
  consider "t' = t" | "persist_soft_close srv s t = Inr (t', receipt)" "status \<noteq> ''hard_closed''"
    | "persist_period_close srv s t = Inr (t', receipt)" "status \<noteq> ''hard_closed''"
    using run unfolding close_locked_def Let_def by (auto simp: result_simps split: if_splits)
  then show ?thesis
  proof cases
    case 1
    then show ?thesis by (simp add: step_to_periods)
  next
    case 2
    then show ?thesis using persist_soft_close_changed [OF 2(1)] status by (intro step_to_periods) simp
  next
    case 3
    note lines = fresh_journal_lines [OF inv uuid, of "Suc (Suc (lt_inserted t))"]
    have "\<not> closed_book t (cs_tenant s) (cs_book s) (cs_period s)" using status 3(2) by simp
    from persist_period_close_effect [OF 3(1) this] lines obtain t1
      where t1: "post_closing_journal srv s t = Inr t1" and changed: "periods_changed t1 t'" by (metis le_SucI order_refl)
    show ?thesis
    proof (cases "t1 = t")
      case True
      then show ?thesis using changed by (simp add: step_to_periods)
    next
      case False
      from post_closing_journal_effect [OF t1 False] lines obtain pr j ls
        where added: "journal_added srv t t1 pr j (closing_entry s t) ls []"
        and fields: "gj_tenant j = cs_tenant s" "gj_entity j = cs_entity s" "gj_book j = cs_book s" by (metis le_SucI order_refl)
      have "assert_journal_balance t' j = Inr ()"
        using balance by (simp add: periods_changed_frame(8) [OF changed] journal_added_frame(9) [OF added inv uuid] result_simps)
      then have "assert_journal_balance t1 j = Inr ()"
        by (simp add: assert_journal_balance_def journal_lines_def periods_changed_frame(9) [OF changed])
      then have "tables_inv srv t1"
        using scope by (intro journal_added_inv [OF added inv uuid]) (auto simp: fields)
      with added fields(1) changed show ?thesis unfolding step_to_def using periods_changed_refl by blast
    qed
  qed
qed

lemma close_in_session_step:
  assumes run: "close_in_session srv reports tref c t = Inr (t', receipt)"
    and tenant: "require_tenant (ps_server srv) (ct_tenants t) tref = Inr tid"
    and inv: "tables_inv srv t" and uuid: "inj (sv_uuid (ps_server srv))"
    and balance: "check_all (assert_journal_balance t') (drop (length (lt_journals t)) (lt_journals t')) = Inr ()"
  shows "step_to srv tid t t'"
proof -
  obtain entity book currency t1 period status period_end
    where entity: "require_entity_for t tid (cc_legal_entity_reference c) ''the close'' = Inr entity"
      and book: "require_book_for_close t tid entity (cc_book_reference c) ''the close'' = Inr (book, currency)"
      and lock: "lock_book_period tid book (cc_period_code c) t = Inr (t1, period, status, period_end)"
      and closed: "close_locked srv reports
           \<lparr>cs_tenant = tid, cs_entity = entity, cs_book = book, cs_period = period,
            cs_end_date = period_end, cs_tenant_reference = tref, cs_command = c, cs_key = close_key tref c\<rparr> status t1 = Inr (t', receipt)"
    using run tenant unfolding close_in_session_def by (auto simp: result_simps split: if_splits)
  obtain changed: "periods_changed t t1" and status: "closed_book t1 tid book period \<longleftrightarrow> status = ''hard_closed''"
    by (rule lock_book_period_effect [OF lock])
  have "step_to srv tid t1 t'"
    using close_locked_step [OF closed, simplified, OF status periods_changed_inv [OF changed inv] uuid] balance
      require_entity_for_ok [OF entity] require_book_for_close_ok [OF book] by (simp add: periods_changed_frame [OF changed])
  then show ?thesis unfolding step_to_def using changed periods_changed_trans by blast
qed

section \<open>Commands in sequence\<close>

text \<open>Each command comes with the server as its session sees it; all draw identifiers from one source.\<close>

datatype pg_command =
    Pg_Post string journal_proposal "accounting_policy option"
  | Pg_Reverse string string date string accounting_policy "string option"
  | Pg_Adjust string adjusting_command
  | Pg_Close close_reports string close_command
  | Pg_Open string open_command

fun run_pg_command :: "ledger_tables \<Rightarrow> posting_server \<times> pg_command \<Rightarrow> ledger_tables" where
  "run_pg_command t (srv, Pg_Post tref p given) =
     (case persist_proposal srv tref p given t of Inl e \<Rightarrow> t | Inr (t', _) \<Rightarrow> t')"
| "run_pg_command t (srv, Pg_Reverse tref ref d reason policy key) =
     (case pg_reverse srv tref ref d reason policy key t of Inl e \<Rightarrow> t | Inr (t', _) \<Rightarrow> t')"
| "run_pg_command t (srv, Pg_Adjust tref c) =
     (case pg_post_adjusting srv tref c t of Inl e \<Rightarrow> t | Inr (t', _) \<Rightarrow> t')"
| "run_pg_command t (srv, Pg_Close reports tref c) =
     (case pg_close_fiscal_period srv reports tref c t of Inl e \<Rightarrow> t | Inr (t', _) \<Rightarrow> t')"
| "run_pg_command t (srv, Pg_Open tref c) =
     (case pg_open_fiscal_period srv tref c t of Inl e \<Rightarrow> t | Inr (t', _) \<Rightarrow> t')"

fun pg_command_tenant :: "pg_command \<Rightarrow> string" where
  "pg_command_tenant (Pg_Post tref p given) = tref"
| "pg_command_tenant (Pg_Reverse tref ref d reason policy key) = tref"
| "pg_command_tenant (Pg_Adjust tref c) = tref"
| "pg_command_tenant (Pg_Close reports tref c) = tref"
| "pg_command_tenant (Pg_Open tref c) = tref"

definition run_pg_commands :: "ledger_tables \<Rightarrow> (posting_server \<times> pg_command) list \<Rightarrow> ledger_tables" where
  "run_pg_commands t cs = foldl run_pg_command t cs"

text \<open>A provisioned database before its first journal: the catalogue with its keys, and no facts.\<close>

definition empty_tables :: "ledger_tables \<Rightarrow> bool" where
  "empty_tables t \<longleftrightarrow> catalog_keys t \<and> lt_proposals t = [] \<and> lt_journals t = [] \<and> lt_lines t = [] \<and>
     lt_reversals t = [] \<and> lt_receipts t = []"

lemma empty_tables_inv: "empty_tables t \<Longrightarrow> tables_inv srv t"
  by (simp add: empty_tables_def tables_inv_def ids_below_def receipts_match_def)

lemma tables_inv_uuid:
  "sv_uuid (ps_server srv) = sv_uuid (ps_server srv') \<Longrightarrow> tables_inv srv t \<longleftrightarrow> tables_inv srv' t"
  by (simp add: tables_inv_def ids_below_def)

text \<open>Every command leaves the tables as they are or makes one step of its own tenant.\<close>

lemma persist_proposal_step:
  assumes run: "persist_proposal srv tref p given t = Inr (t', receipt)"
    and inv: "tables_inv srv t" and uuid: "inj (sv_uuid (ps_server srv))"
  shows "\<exists>tid. require_tenant (ps_server srv) (ct_tenants t) tref = Inr tid \<and> step_to srv tid t t'"
proof -
  obtain tid where tid: "require_tenant (ps_server srv) (ct_tenants t) tref = Inr tid"
    using run by (auto simp: persist_proposal_def transaction_Inr result_simps)
  have "step_to srv tid t t'"
  proof (cases "find (\<lambda>r. pr_tenant r = tid \<and> pr_idempotency_key r = jp_idempotency_key p) (lt_proposals t)")
    case (Some r)
    then have "t' = t" using run tid by (auto simp: persist_proposal_def transaction_Inr result_simps split: if_splits)
    then show ?thesis by (simp add: step_to_periods)
  next
    case None
    then have fresh: "post_fresh_proposal srv tref tid p given t = Inr (t', receipt)"
      and balance: "check_all (assert_journal_balance t') (drop (length (lt_journals t)) (lt_journals t')) = Inr ()"
      using run tid by (auto simp: persist_proposal_def transaction_Inr result_simps)
    show ?thesis by (rule post_fresh_effect [OF fresh inv uuid balance]) (rule step_to_journal)
  qed
  with tid show ?thesis by blast
qed

lemma pg_reverse_run:
  assumes "pg_reverse srv tref ref d reason policy given t = Inr (t', receipt)"
  shows "code_pattern reason \<and> reversal_command_key ref given \<noteq> [] \<and>
     reverse_in_session srv tref ref d reason policy (reversal_command_key ref given)
       (reversal_command_hash tref (reversal_command_key ref given) ref d reason) t = Inr (t', receipt) \<and>
     check_all (assert_journal_balance t') (drop (length (lt_journals t)) (lt_journals t')) = Inr ()"
  using assms by (auto simp: pg_reverse_def transaction_Inr require_code_def result_simps Let_def split: if_splits)

lemma pg_reverse_step:
  assumes run: "pg_reverse srv tref ref d reason policy given t = Inr (t', receipt)"
    and inv: "tables_inv srv t" and uuid: "inj (sv_uuid (ps_server srv))"
  shows "\<exists>tid. require_tenant (ps_server srv) (ct_tenants t) tref = Inr tid \<and> step_to srv tid t t'"
proof -
  from pg_reverse_run [OF run] obtain key h where body: "reverse_in_session srv tref ref d reason policy key h t = Inr (t', receipt)"
    and balance: "check_all (assert_journal_balance t') (drop (length (lt_journals t)) (lt_journals t')) = Inr ()" by blast
  obtain tid where tid: "require_tenant (ps_server srv) (ct_tenants t) tref = Inr tid"
    using body by (auto simp: reverse_in_session_def result_simps)
  have "step_to srv tid t t'"
  proof (cases "find_existing_reversal t tid ref")
    case None
    show ?thesis by (rule reverse_effect [OF body tid None inv uuid balance]) (rule step_to_journal)
  next
    case (Some existing)
    then show ?thesis using replayed_reversal_state [OF body tid Some] by (simp add: step_to_periods)
  qed
  with tid show ?thesis by blast
qed

lemma pg_post_adjusting_step:
  assumes run: "pg_post_adjusting srv tref c t = Inr (t', u)"
    and inv: "tables_inv srv t" and uuid: "inj (sv_uuid (ps_server srv))"
  shows "\<exists>tid. require_tenant (ps_server srv) (ct_tenants t) tref = Inr tid \<and> step_to srv tid t t'"
proof -
  obtain tid where tid: "require_tenant (ps_server srv) (ct_tenants t) tref = Inr tid"
    using run by (auto simp: pg_post_adjusting_def transaction_Inr result_simps)
  have "step_to srv tid t t'"
  proof (cases "find (\<lambda>r. pr_tenant r = tid \<and> pr_idempotency_key r = ac_idempotency_key c) (lt_proposals t)")
    case (Some r)
    then have "t' = t" using run tid by (auto simp: pg_post_adjusting_def transaction_Inr result_simps split: if_splits)
    then show ?thesis by (simp add: step_to_periods)
  next
    case None
    then have fresh: "post_fresh_adjusting srv tref tid c t = Inr (t', u)"
      and balance: "check_all (assert_journal_balance t') (drop (length (lt_journals t)) (lt_journals t')) = Inr ()"
      using run tid by (auto simp: pg_post_adjusting_def transaction_Inr result_simps)
    show ?thesis by (rule adjusting_effect [OF fresh inv uuid balance]) (rule step_to_journal)
  qed
  with tid show ?thesis by blast
qed

lemma pg_close_run:
  assumes "pg_close_fiscal_period srv reports tref c t = Inr (t', receipt)"
  shows "sv_reachable (ps_server srv) \<and> close_in_session srv reports tref c t = Inr (t', receipt) \<and>
     check_all (assert_journal_balance t') (drop (length (lt_journals t)) (lt_journals t')) = Inr ()"
  using assms by (auto simp: pg_close_fiscal_period_def transaction_Inr result_simps split: sum.splits if_splits)

lemma pg_close_step:
  assumes run: "pg_close_fiscal_period srv reports tref c t = Inr (t', receipt)"
    and inv: "tables_inv srv t" and uuid: "inj (sv_uuid (ps_server srv))"
  shows "\<exists>tid. require_tenant (ps_server srv) (ct_tenants t) tref = Inr tid \<and> step_to srv tid t t'"
proof -
  note body = pg_close_run [OF run]
  then obtain tid where tid: "require_tenant (ps_server srv) (ct_tenants t) tref = Inr tid"
    by (auto simp: close_in_session_def result_simps)
  with close_in_session_step [OF _ tid inv uuid] body show ?thesis by blast
qed

lemma pg_open_step:
  assumes "pg_open_fiscal_period srv tref c t = Inr (t', doc)"
  shows "\<exists>tid. require_tenant (ps_server srv) (ct_tenants t) tref = Inr tid \<and> step_to srv tid t t'"
proof -
  have body: "open_in_session srv tref c t = Inr (t', doc)"
    using assms by (auto simp: pg_open_fiscal_period_def transaction_Inr result_simps split: if_splits)
  then obtain tid where "require_tenant (ps_server srv) (ct_tenants t) tref = Inr tid"
    by (auto simp: open_in_session_def result_simps)
  with step_to_periods [OF open_in_session_changed [OF body]] show ?thesis by blast
qed

lemma run_pg_command_step:
  assumes "tables_inv srv t" "inj (sv_uuid (ps_server srv))" "run_pg_command t (srv, c) \<noteq> t"
  shows "\<exists>tid. require_tenant (ps_server srv) (ct_tenants t) (pg_command_tenant c) = Inr tid \<and>
     step_to srv tid t (run_pg_command t (srv, c))"
proof (cases c)
  case (Pg_Post tref p given)
  then show ?thesis using assms persist_proposal_step by (auto split: sum.splits)
next
  case (Pg_Reverse tref ref d reason policy key)
  then show ?thesis using assms pg_reverse_step by (auto split: sum.splits)
next
  case (Pg_Adjust tref a)
  then show ?thesis using assms pg_post_adjusting_step by (auto split: sum.splits)
next
  case (Pg_Close reports tref a)
  then show ?thesis using assms pg_close_step by (auto split: sum.splits)
next
  case (Pg_Open tref a)
  then show ?thesis using assms pg_open_step by (auto split: sum.splits)
qed

lemma run_pg_command_step_to:
  assumes "tables_inv srv t" "inj (sv_uuid (ps_server srv))"
  obtains tid where "step_to srv tid t (run_pg_command t (srv, c))"
    and "run_pg_command t (srv, c) \<noteq> t \<Longrightarrow> require_tenant (ps_server srv) (ct_tenants t) (pg_command_tenant c) = Inr tid"
proof (cases "run_pg_command t (srv, c) = t")
  case True
  then show thesis by (intro that [of 0]) (simp_all add: step_to_periods)
next
  case False
  then show thesis using run_pg_command_step [OF assms False] that by blast
qed

lemma run_pg_command_inv:
  assumes "tables_inv srv t" "inj uuid" "sv_uuid (ps_server srv) = uuid"
  shows "tables_inv srv (run_pg_command t (srv, c))"
  by (rule run_pg_command_step_to [of srv t c]) (use assms step_to_inv in auto)

lemma run_pg_commands_inv:
  assumes "tables_inv srv t" "inj uuid" "sv_uuid (ps_server srv) = uuid" "\<forall>(srv', c)\<in>set cs. sv_uuid (ps_server srv') = uuid"
  shows "tables_inv srv (run_pg_commands t cs)"
  using assms(1,4)
proof (induction cs arbitrary: t)
  case (Cons c cs)
  obtain srv' c' where c: "c = (srv', c')" by fastforce
  then have same: "sv_uuid (ps_server srv') = uuid" using Cons.prems(2) by auto
  then have "tables_inv srv' (run_pg_command t c)"
    unfolding c using Cons.prems(1) assms(3) tables_inv_uuid [of srv srv'] by (intro run_pg_command_inv [OF _ assms(2)]) auto
  then have "tables_inv srv (run_pg_command t c)" using same assms(3) tables_inv_uuid [of srv srv'] by simp
  then show ?case using Cons.IH Cons.prems(2) by (simp add: run_pg_commands_def)
qed (simp add: run_pg_commands_def)

text \<open>What any sequence of commands keeps of a closed book.\<close>

lemma run_pg_commands_kept:
  assumes "tables_inv srv t" "inj uuid" "sv_uuid (ps_server srv) = uuid" "\<forall>(srv', c)\<in>set cs. sv_uuid (ps_server srv') = uuid"
  shows "periods_kept t (run_pg_commands t cs) \<and> ct_tenants (run_pg_commands t cs) = ct_tenants t \<and>
     ct_entities (run_pg_commands t cs) = ct_entities t \<and> ct_books (run_pg_commands t cs) = ct_books t \<and>
     (\<forall>tid book period. closed_book t tid book period \<longrightarrow>
        filter (\<lambda>j. gj_tenant j = tid \<and> gj_book j = book \<and> gj_period j = period) (lt_journals (run_pg_commands t cs)) =
        filter (\<lambda>j. gj_tenant j = tid \<and> gj_book j = book \<and> gj_period j = period) (lt_journals t))"
  using assms(1,4)
proof (induction cs arbitrary: t)
  case Nil
  then show ?case by (simp add: run_pg_commands_def)
next
  case (Cons c cs)
  obtain srv' c' where c: "c = (srv', c')" by fastforce
  then have same: "sv_uuid (ps_server srv') = uuid" using Cons.prems(2) by auto
  let ?t1 = "run_pg_command t c"
  have inv: "tables_inv srv' t" using Cons.prems(1) same assms(3) tables_inv_uuid [of srv srv'] by simp
  have "inj (sv_uuid (ps_server srv'))" using same assms(2) by simp
  from run_pg_command_step_to [OF inv this] obtain tid where step: "step_to srv' tid t ?t1" unfolding c by blast
  have inv1: "tables_inv srv ?t1"
    using step_to_inv [OF step inv] same assms(3) tables_inv_uuid [of srv srv'] by simp
  have IH: "periods_kept ?t1 (run_pg_commands ?t1 cs) \<and> ct_tenants (run_pg_commands ?t1 cs) = ct_tenants ?t1 \<and>
     ct_entities (run_pg_commands ?t1 cs) = ct_entities ?t1 \<and> ct_books (run_pg_commands ?t1 cs) = ct_books ?t1 \<and>
     (\<forall>tid book period. closed_book ?t1 tid book period \<longrightarrow>
        filter (\<lambda>j. gj_tenant j = tid \<and> gj_book j = book \<and> gj_period j = period) (lt_journals (run_pg_commands ?t1 cs)) =
        filter (\<lambda>j. gj_tenant j = tid \<and> gj_book j = book \<and> gj_period j = period) (lt_journals ?t1))"
    by (rule Cons.IH [OF inv1]) (use Cons.prems(2) in auto)
  have run: "run_pg_commands t (c # cs) = run_pg_commands ?t1 cs" by (simp add: run_pg_commands_def)
  have kept: "periods_kept t ?t1" by (rule step_to_kept [OF step])
  have closed: "closed_book t tid book period \<Longrightarrow> closed_book ?t1 tid book period" for tid book period
    using kept by (simp add: periods_kept_def)
  show ?case
    unfolding run
  proof (intro conjI allI impI)
    show "periods_kept t (run_pg_commands ?t1 cs)" using IH periods_kept_trans [OF kept] by blast
    show "ct_tenants (run_pg_commands ?t1 cs) = ct_tenants t" "ct_entities (run_pg_commands ?t1 cs) = ct_entities t"
      "ct_books (run_pg_commands ?t1 cs) = ct_books t" using IH step_to_catalog [OF step] by simp_all
  next
    fix tid0 book period
    assume "closed_book t tid0 book period"
    from step_to_journals [OF step this] IH closed [OF this]
    show "filter (\<lambda>j. gj_tenant j = tid0 \<and> gj_book j = book \<and> gj_period j = period) (lt_journals (run_pg_commands ?t1 cs)) =
        filter (\<lambda>j. gj_tenant j = tid0 \<and> gj_book j = book \<and> gj_period j = period) (lt_journals t)" by simp
  qed
qed

end
