(* ===== verification/Persistent_Refinement.thy ===== *)
theory Persistent_Refinement
  imports Persistent_Invariants
begin

text \<open>
  The persistent ledger against the in-memory ledger of \<open>core.py\<close>, which is its specification: the tables
  of one tenant are read back as journals, and every journal that the persistent ledger writes is one the
  in-memory ledger would have written, with the same receipt.
\<close>

section \<open>Lists\<close>

lemma find_unique:
  assumes "distinct (map f xs)" "x \<in> set xs" "P x" "\<And>y. y \<in> set xs \<Longrightarrow> P y \<Longrightarrow> f y = f x"
  shows "find P xs = Some x"
  using assms
proof (induction xs)
  case (Cons a xs)
  show ?case
  proof (cases "P a")
    case True
    then have "f a = f x" using Cons.prems(4) by simp
    have "f a \<notin> f ` set xs" using Cons.prems(1) by simp
    with \<open>f a = f x\<close> have "x \<notin> set xs" by auto
    then have "a = x" using Cons.prems(2) by simp
    then show ?thesis using True by simp
  next
    case False
    then have "x \<in> set xs" using Cons.prems(2,3) by auto
    then have "find P xs = Some x" using Cons.prems(1,4) by (intro Cons.IH [OF _ _ Cons.prems(3)]) simp_all
    then show ?thesis using False by simp
  qed
qed simp

lemma insort_key_rel:
  assumes "list_all2 R xs ys" "R x y" "\<And>a b. R a b \<Longrightarrow> k a = k b"
  shows "list_all2 R (insort_key k x xs) (insort_key k y ys)"
  using assms(1)
proof (induction xs ys rule: list_all2_induct)
  case (Cons a xs b ys)
  have "k x = k y" "k a = k b" using assms(2,3) Cons.hyps(1) by blast+
  then show ?case using Cons assms(2) by simp
qed (simp add: assms(2))

lemma sort_key_rel:
  assumes "list_all2 R xs ys" "\<And>a b. R a b \<Longrightarrow> k a = k b"
  shows "list_all2 R (sort_key k xs) (sort_key k ys)"
  using assms(1)
  by (induction xs ys rule: list_all2_induct) (simp_all add: insort_key_rel assms(2))

lemma insort_key_map: "(\<And>a. k (f a) = k a) \<Longrightarrow> insort_key k (f x) (map f xs) = map f (insort_key k x xs)"
  by (induction xs) auto

lemma sort_key_map: "(\<And>a. k (f a) = k a) \<Longrightarrow> sort_key k (map f xs) = map f (sort_key k xs)"
  by (induction xs) (simp_all add: insort_key_map)

lemma insort_key_sorted: "sorted (map k (x # xs)) \<Longrightarrow> insort_key k x xs = x # xs"
  by (cases xs) auto

lemma sort_key_sorted: "sorted (map k xs) \<Longrightarrow> sort_key k xs = xs"
  by (induction xs) (simp_all add: insort_key_sorted)

section \<open>The view of the tables\<close>

text \<open>A stored journal, read back as the value of \<open>core.py\<close>.\<close>

definition stored_journal :: "ledger_tables \<Rightarrow> string \<Rightarrow> journal_row \<Rightarrow> posted_journal option" where
  "stored_journal t tref j =
     (case join_journal t (gj_tenant j) j of
        None \<Rightarrow> None
      | Some row \<Rightarrow> Some
          \<lparr>pj_journal_reference = gj_reference j,
           pj_tenant_reference = tref,
           pj_legal_entity_reference = en_code (jj_entity row),
           pj_book_reference = bk_name (jj_book row),
           pj_accounting_date = gj_accounting_date j,
           pj_transaction_currency = gj_transaction_currency j,
           pj_functional_currency = gj_functional_currency j,
           pj_source_proposal_id =
             (case jj_original row of
                None \<Rightarrow> pr_external_id (jj_proposal row)
              | Some original \<Rightarrow>
                  (case proposal_by_id t (gj_tenant j) (gj_proposal original) of
                     None \<Rightarrow> [] | Some p \<Rightarrow> pr_external_id p)),
           pj_source_payload_hash = pr_source_hash (jj_proposal row),
           pj_policy_version = gj_policy_version j,
           pj_rule_version = gj_rule_version j,
           pj_lines = load_lines t (gj_tenant j) (gj_id j),
           pj_reversal_of = map_option gj_reference (jj_original row),
           pj_reversal_reason_code = jj_reason_code row,
           pj_reversal_idempotency_key = map_option (\<lambda>_. pr_idempotency_key (jj_proposal row)) (jj_original row)\<rparr>)"

definition stored_at :: "ledger_tables \<Rightarrow> string \<Rightarrow> nat \<Rightarrow> string \<Rightarrow> posted_journal option" where
  "stored_at t tref tid ref = Option.bind (find_journal t tid ref) (stored_journal t tref)"

text \<open>
  Equal up to the number of digits an amount is written with, and to the order of the lines: the tables
  give them back by line number.
\<close>

definition same_line :: "posted_journal_line \<Rightarrow> posted_journal_line \<Rightarrow> bool" where
  "same_line a b \<longleftrightarrow> pl_line_number a = pl_line_number b \<and> pl_chart_account_code a = pl_chart_account_code b \<and>
     pl_account_role_code a = pl_account_role_code b \<and>
     dval (pl_debit_amount a) = dval (pl_debit_amount b) \<and> dval (pl_credit_amount a) = dval (pl_credit_amount b)"

definition same_journal :: "posted_journal \<Rightarrow> posted_journal \<Rightarrow> bool" where
  "same_journal a b \<longleftrightarrow> b\<lparr>pj_lines := pj_lines a\<rparr> = a \<and>
     list_all2 same_line (sort_key pl_line_number (pj_lines a)) (pj_lines b)"

text \<open>
  The in-memory ledger \<open>s\<close> describes the tables: the same journals under the same references, and no key
  or reversal that the tables do not know.
\<close>

definition refines :: "string \<Rightarrow> nat \<Rightarrow> ledger_tables \<Rightarrow> ledger \<Rightarrow> bool" where
  "refines tref tid t s \<longleftrightarrow>
     (\<forall>ref. rel_option same_journal (dict_get (journals s) (tref, ref)) (stored_at t tref tid ref)) \<and>
     (\<forall>key. dict_get (receipts_by_idempotency s) (tref, key) \<noteq> None \<longrightarrow>
        (\<exists>p\<in>set (lt_proposals t). pr_tenant p = tid \<and> pr_idempotency_key p = key)) \<and>
     (\<forall>ref. dict_get (reversal_receipts s) (tref, ref) \<noteq> None \<longrightarrow> find_journal t tid (ref @ '':reversal'') \<noteq> None)"

section \<open>Old journals stay what they are\<close>

lemma journal_by_id_known:
  assumes "tables_inv srv t" "j \<in> set (lt_journals t)"
  shows "journal_by_id t (gj_tenant j) (gj_id j) = Some j"
  using assms unfolding journal_by_id_def tables_inv_def ids_below_def by (intro find_unique [of gj_id]) auto

lemma proposal_by_id_known:
  assumes "tables_inv srv t" "p \<in> set (lt_proposals t)"
  shows "proposal_by_id t (pr_tenant p) (pr_id p) = Some p"
  using assms unfolding proposal_by_id_def tables_inv_def ids_below_def by (intro find_unique [of pr_id]) auto

lemma entity_by_id_known:
  assumes "tables_inv srv t" "e \<in> set (ct_entities t)"
  shows "entity_by_id t (en_tenant e) (en_id e) = Some e"
  using assms unfolding entity_by_id_def tables_inv_def catalog_keys_def by (intro find_unique [of en_id]) auto

lemma book_by_id_known:
  assumes "tables_inv srv t" "b \<in> set (ct_books t)"
  shows "book_by_id t (bk_tenant b) (bk_id b) = Some b"
  using assms unfolding book_by_id_def tables_inv_def catalog_keys_def by (intro find_unique [of bk_id]) auto

lemma chart_by_id_known:
  assumes "tables_inv srv t" "c \<in> set (ct_charts t)"
  shows "chart_by_id t (ch_tenant c) (ch_id c) = Some c"
  using assms unfolding chart_by_id_def tables_inv_def catalog_keys_def by (intro find_unique [of ch_id]) auto

lemma find_journal_known:
  assumes "tables_inv srv t" "j \<in> set (lt_journals t)"
  shows "find_journal t (gj_tenant j) (gj_reference j) = Some j"
  using assms unfolding find_journal_def tables_inv_def
  by (intro find_unique [of "\<lambda>j. (gj_tenant j, gj_reference j)"]) auto

lemma stored_journal_mono:
  assumes added: "journal_added srv t t' p j lines ls rvs" and inv: "tables_inv srv t" "tables_inv srv t'"
    and uuid: "inj (sv_uuid (ps_server srv))" and j0: "j0 \<in> set (lt_journals t)"
  shows "stored_journal t' tref j0 = stored_journal t tref j0"
proof -
  note frame = journal_added_frame [OF added inv(1) uuid]
  let ?tid = "gj_tenant j0"
  have proposal: "proposal_by_id t' ?tid i = proposal_by_id t ?tid i" if "i \<in> pr_id ` set (lt_proposals t)" for i
    using that frame(13) by (auto simp: proposal_by_id_def frame(8) find_append split: option.splits)
  have own: "gj_proposal j0 \<in> pr_id ` set (lt_proposals t)" if "j0 \<in> set (lt_journals t)" for j0
    using inv(1) that unfolding tables_inv_def journal_sound_def by (metis image_eqI)
  have not_new: "gj_id j0 \<noteq> gj_id j" using frame(14) j0 by (metis image_eqI)
  have rvs: "\<forall>r\<in>set rvs. rv_reversal r = gj_id j" using added by (simp add: journal_added_def)
  have reversal: "reversal_of t' ?tid j0 = reversal_of t ?tid j0"
  proof -
    have "find (\<lambda>r. rv_tenant r = ?tid \<and> rv_reversal r = gj_id j0) rvs = None"
      using rvs not_new by (auto simp: find_None_iff)
    then show ?thesis by (simp add: reversal_of_def frame(11) find_append split: option.splits)
  qed
  have original: "original_of t' ?tid j0 = original_of t ?tid j0"
  proof (cases "reversal_of t ?tid j0")
    case None
    then show ?thesis using reversal by (simp add: original_of_def reversal_of_def)
  next
    case (Some r)
    then have r: "r \<in> set (lt_reversals t)" "rv_tenant r = ?tid" by (auto simp: reversal_of_def dest: find_memberD)
    then obtain o1 where o1: "o1 \<in> set (lt_journals t)" "gj_tenant o1 = ?tid" "gj_id o1 = rv_original r"
      using inv(1) unfolding tables_inv_def reversal_sound_def by metis
    then have "journal_by_id t' ?tid (rv_original r) = Some o1" "journal_by_id t ?tid (rv_original r) = Some o1"
      using journal_by_id_known [OF inv(1) o1(1)] journal_by_id_known [OF inv(2), of o1] by (auto simp: frame(9))
    then show ?thesis using reversal Some by (simp add: original_of_def reversal_of_def)
  qed
  have original_mem: "o1 \<in> set (lt_journals t)" if "original_of t ?tid j0 = Some o1" for o1
    using that by (auto simp: original_of_def journal_by_id_def split: option.splits dest: find_memberD)
  have lines: "load_lines t' ?tid (gj_id j0) = load_lines t ?tid (gj_id j0)"
  proof -
    have "line_of_row t' = line_of_row t" by (simp add: fun_eq_iff line_of_row_def chart_by_id_def frame(4))
    then show ?thesis using j0 by (simp add: load_lines_def journal_added_lines(2) [OF added inv(1) uuid])
  qed
  have join: "join_journal t' ?tid j0 = join_journal t ?tid j0"
    unfolding join_journal_def original reversal book_by_id_def entity_by_id_def frame(2,3) proposal [OF own [OF j0]] ..
  have "jj_original row = original_of t ?tid j0" if "join_journal t ?tid j0 = Some row" for row
    using that by (auto simp: join_journal_def split: option.splits)
  then show ?thesis
    using proposal own original_mem
    by (auto simp: stored_journal_def join lines split: option.splits)
qed

section \<open>A posting\<close>

lemma stored_line_same:
  assumes "line_stored (ct_charts t) tid book jid l row" "tables_inv srv t" "amount_ok (pl_debit_amount l)" "amount_ok (pl_credit_amount l)"
  shows "\<exists>l'. line_of_row t row = [l'] \<and> same_line l l'"
proof -
  obtain c where c: "c \<in> set (ct_charts t)" "ch_tenant c = tid" "ch_code c = pl_chart_account_code l" "ch_id c = ln_chart row"
    using assms(1) by (auto simp: line_stored_def)
  then have "chart_by_id t tid (ln_chart row) = Some c" using chart_by_id_known [OF assms(2) c(1)] by simp
  then show ?thesis
    using assms(1,3,4) c numeric_same_value by (auto simp: line_stored_def line_of_row_def same_line_def)
qed

lemma stored_lines_same:
  assumes "list_all2 (line_stored (ct_charts t) tid book jid) lines ls" "tables_inv srv t"
    and "\<forall>l\<in>set lines. amount_ok (pl_debit_amount l) \<and> amount_ok (pl_credit_amount l)"
  shows "list_all2 same_line lines (concat (map (line_of_row t) ls))"
  using assms(1,3)
proof (induction lines ls rule: list_all2_induct)
  case (Cons l lines row ls)
  then show ?case using stored_line_same [OF Cons.hyps(1) assms(2)] by auto
qed simp

lemma added_lines_same:
  assumes "journal_added srv t t' p j lines ls rvs" "tables_inv srv t" "tables_inv srv t'" "inj (sv_uuid (ps_server srv))"
    and "\<forall>l\<in>set lines. amount_ok (pl_debit_amount l) \<and> amount_ok (pl_credit_amount l)"
  shows "list_all2 same_line (sort_key pl_line_number lines) (load_lines t' (gj_tenant j) (gj_id j))"
proof -
  have "list_all2 (line_stored (ct_charts t') (gj_tenant j) (gj_book j) (gj_id j)) lines ls"
    using assms(1) journal_added_frame(4) [OF assms(1,2,4)] by (simp add: journal_added_def)
  then have "list_all2 same_line lines (concat (map (line_of_row t') ls))"
    by (rule stored_lines_same [OF _ assms(3,5)])
  then show ?thesis
    unfolding load_lines_def journal_added_lines(1) [OF assms(1,2,4)] by (rule sort_key_rel) (simp add: same_line_def)
qed

lemma refines_added:
  assumes added: "journal_added srv t t' pr j lines ls rvs" and inv: "tables_inv srv t" "tables_inv srv t'"
    and uuid: "inj (sv_uuid (ps_server srv))" and ref: "refines tref tid t s" and tid: "gj_tenant j = tid"
    and new: "rel_option same_journal (Some m) (stored_journal t' tref j)"
    and journals: "journals s' = dict_set (tref, gj_reference j) m (journals s)"
    and receipts: "\<forall>key. dict_get (receipts_by_idempotency s') (tref, key) \<noteq> None \<longrightarrow>
        key = pr_idempotency_key pr \<or> dict_get (receipts_by_idempotency s) (tref, key) \<noteq> None"
    and reversals: "\<forall>r. dict_get (reversal_receipts s') (tref, r) \<noteq> None \<longrightarrow>
        r @ '':reversal'' = gj_reference j \<or> dict_get (reversal_receipts s) (tref, r) \<noteq> None"
  shows "refines tref tid t' s'"
proof -
  note frame = journal_added_frame [OF added inv(1) uuid]
  have here: "find_journal t' tid (gj_reference j) = Some j"
    using find_journal_known [OF inv(2), of j] tid by (simp add: frame(9))
  have other: "find_journal t' tid r = find_journal t tid r" if "r \<noteq> gj_reference j" for r
    using that by (simp add: find_journal_def frame(9) find_append split: option.splits)
  have "rel_option same_journal (dict_get (journals s') (tref, r)) (stored_at t' tref tid r)" for r
  proof (cases "r = gj_reference j")
    case True
    then show ?thesis using new here by (simp add: journals stored_at_def)
  next
    case False
    have "stored_at t' tref tid r = stored_at t tref tid r"
      using find_journal_ok stored_journal_mono [OF added inv uuid] other [OF False]
      by (cases "find_journal t tid r") (auto simp: stored_at_def)
    then show ?thesis using False ref by (simp add: journals refines_def)
  qed
  moreover have "\<exists>p\<in>set (lt_proposals t'). pr_tenant p = tid \<and> pr_idempotency_key p = key"
    if "dict_get (receipts_by_idempotency s') (tref, key) \<noteq> None" for key
  proof (cases "key = pr_idempotency_key pr")
    case True
    then show ?thesis using frame(16) tid by (simp add: frame(8))
  next
    case False
    then have "\<exists>p\<in>set (lt_proposals t). pr_tenant p = tid \<and> pr_idempotency_key p = key"
      using receipts that ref unfolding refines_def by blast
    then show ?thesis unfolding frame(8) by auto
  qed
  moreover have "find_journal t' tid (r @ '':reversal'') \<noteq> None"
    if "dict_get (reversal_receipts s') (tref, r) \<noteq> None" for r
    using reversals that ref here other unfolding refines_def by (metis option.distinct(1))
  ultimately show ?thesis by (simp add: refines_def)
qed

text \<open>The policy that the catalogue gives for a proposal names the entity and the book the posting uses.\<close>

lemma resolved_policy_scope:
  assumes "resolve_accounting_policy tref tid p t = Inr policy" "require_legal_entity t tid (jp_legal_entity_reference p) = Inr entity"
    and "require_book t tid entity (pol_book_role_code policy) (pol_book_reference policy) = Inr book"
  shows "jp_tenant_reference p = tref \<and>
     (\<exists>e\<in>set (ct_entities t). en_tenant e = tid \<and> en_id e = entity \<and> en_code e = jp_legal_entity_reference p) \<and>
     (\<exists>b\<in>set (ct_books t). bk_tenant b = tid \<and> bk_id b = book \<and> bk_name b = pol_book_reference policy)"
proof -
  obtain functional b where "load_legal_entity (ct_entities t) tid (jp_legal_entity_reference p) ''posting'' = Inr (entity, functional)"
    using assms(2) by (auto simp: require_legal_entity_def result_simps)
  then have "find_role_book t tid entity (pol_book_role_code policy) = Some b \<Longrightarrow> bk_name b = pol_book_reference policy" for b
    using assms(1) by (auto simp: resolve_accounting_policy_def require_book_for_role_def result_simps validate_policy_eq_Inr split: if_splits option.splits)
  moreover obtain b where "find_role_book t tid entity (pol_book_role_code policy) = Some b" "bk_id b = book"
    using assms(3) by (auto simp: require_book_def split: option.splits)
  moreover have "jp_tenant_reference p = tref" using assms(1) by (auto simp: resolve_accounting_policy_def split: if_splits)
  ultimately show ?thesis
    using require_legal_entity_ok [OF assms(2)] by (auto simp: find_role_book_def dest!: find_memberD)
qed

lemma added_join:
  assumes "journal_added srv t t' pr j lines ls rvs" "tables_inv srv t" "tables_inv srv t'" "inj (sv_uuid (ps_server srv))"
    and "e \<in> set (ct_entities t)" "en_tenant e = gj_tenant j" "en_id e = gj_entity j"
    and "b \<in> set (ct_books t)" "bk_tenant b = gj_tenant j" "bk_id b = gj_book j"
  shows "join_journal t' (gj_tenant j) j = Some
     \<lparr>jj_journal = j, jj_proposal = pr, jj_book = b, jj_entity = e, jj_original = original_of t' (gj_tenant j) j,
      jj_reason_code = map_option rv_reason_code (reversal_of t' (gj_tenant j) j)\<rparr>"
proof -
  note frame = journal_added_frame [OF assms(1,2,4)]
  have "proposal_by_id t' (gj_tenant j) (gj_proposal j) = Some pr"
    using proposal_by_id_known [OF assms(3), of pr] by (simp add: frame(8,15,16))
  moreover have "entity_by_id t' (gj_tenant j) (gj_entity j) = Some e"
    using entity_by_id_known [OF assms(3), of e] assms(5-7) by (simp add: frame(2))
  moreover have "book_by_id t' (gj_tenant j) (gj_book j) = Some b"
    using book_by_id_known [OF assms(3), of b] assms(8-10) by (simp add: frame(3))
  ultimately show ?thesis by (simp add: join_journal_def)
qed

lemma posted_not_reversal:
  assumes "journal_added srv t t' pr j lines ls []" "tables_inv srv t" "inj (sv_uuid (ps_server srv))"
  shows "reversal_of t' tid j = None" "original_of t' tid j = None"
proof -
  have "find (\<lambda>r. rv_tenant r = tid \<and> rv_reversal r = gj_id j) (lt_reversals t') = None"
    using journal_added_frame(11,19) [OF assms] by (auto simp: find_None_iff)
  then show "reversal_of t' tid j = None" "original_of t' tid j = None" by (simp_all add: reversal_of_def original_of_def)
qed

lemma resolved_amounts_ok:
  assumes "map_result (resolve_line policy) (jp_lines p) = Inr lines" "valid_proposal p"
  shows "\<forall>l\<in>set lines. amount_ok (pl_debit_amount l) \<and> amount_ok (pl_credit_amount l)"
  using assms by (auto simp: resolve_lines_eq_Inr resolved_line_def valid_proposal_def line_ok_def list_all_iff)

text \<open>A key that no proposal row has is not in the in-memory cache, nor is a reference without a journal.\<close>

lemma refines_fresh:
  assumes "refines tref tid t s"
  shows "\<not> list_ex (\<lambda>p. pr_tenant p = tid \<and> pr_idempotency_key p = key) (lt_proposals t) \<Longrightarrow>
      dict_get (receipts_by_idempotency s) (tref, key) = None"
    and "find_journal t tid ref = None \<Longrightarrow> dict_get (journals s) (tref, ref) = None"
    and "find_journal t tid (ref @ '':reversal'') = None \<Longrightarrow> dict_get (reversal_receipts s) (tref, ref) = None"
proof -
  show "\<not> list_ex (\<lambda>p. pr_tenant p = tid \<and> pr_idempotency_key p = key) (lt_proposals t) \<Longrightarrow>
      dict_get (receipts_by_idempotency s) (tref, key) = None"
    using assms unfolding refines_def list_ex_iff by blast
  show "find_journal t tid (ref @ '':reversal'') = None \<Longrightarrow> dict_get (reversal_receipts s) (tref, ref) = None"
    using assms unfolding refines_def by blast
  assume "find_journal t tid ref = None"
  then have "stored_at t tref tid ref = None" by (simp add: stored_at_def)
  moreover have "rel_option same_journal (dict_get (journals s) (tref, ref)) (stored_at t tref tid ref)"
    using assms by (simp add: refines_def)
  ultimately show "dict_get (journals s) (tref, ref) = None" by simp
qed

lemma post_refines:
  assumes run: "post_fresh_proposal srv tref tid p None t = Inr (t', receipt)"
    and balance: "check_all (assert_journal_balance t') (drop (length (lt_journals t)) (lt_journals t')) = Inr ()"
    and ref: "refines tref tid t s" and inv: "tables_inv srv t" and uuid: "inj (sv_uuid (ps_server srv))"
    and p: "valid_proposal p" "py_lower (jp_proposal_id p) = jp_proposal_id p"
    and fresh: "\<not> list_ex (\<lambda>r. pr_tenant r = tid \<and> pr_idempotency_key r = jp_idempotency_key p) (lt_proposals t)"
  shows "\<exists>policy s'. resolve_accounting_policy tref tid p t = Inr policy \<and> post s p policy = Inr (s', receipt) \<and>
      refines tref tid t' s' \<and> tables_inv srv t'"
proof -
  obtain policy lines pr j ls entity
    where policy: "resolve_accounting_policy tref tid p t = Inr policy"
    and steps: "validate_policy_scope p policy = Inr ()" "map_result (resolve_line policy) (jp_lines p) = Inr lines"
      "require_legal_entity t tid (jp_legal_entity_reference p) = Inr entity"
      "require_book t tid entity (pol_book_role_code policy) (pol_book_reference policy) = Inr (gj_book j)"
    and added: "journal_added srv t t' pr j lines ls []" and inv': "tables_inv srv t'" and receipt: "receipt = posting_receipt_of p policy lines"
    and pr: "pr = \<lparr>pr_id = fresh_id srv t, pr_tenant = tid, pr_external_id = py_lower (jp_proposal_id p),
           pr_contract_version = jp_contract_version p, pr_idempotency_key = jp_idempotency_key p,
           pr_source_hash = jp_source_payload_hash p\<rparr>"
    and j: "j = \<lparr>gj_id = gj_id j, gj_tenant = tid, gj_entity = entity, gj_book = gj_book j, gj_period = gj_period j,
          gj_reference = general_journal_prefix @ jp_proposal_id p, gj_transaction_currency = jp_transaction_currency p,
          gj_functional_currency = pol_functional_currency policy, gj_transaction_date = jp_transaction_date p,
          gj_accounting_date = jp_accounting_date p, gj_proposal = fresh_id srv t,
          gj_policy_version = pol_policy_version policy, gj_rule_version = pol_rule_version policy\<rparr>"
    by (rule post_fresh_effect [OF run inv uuid balance]) (simp only: option.case)
  have fields: "gj_tenant j = tid" "gj_entity j = entity" "gj_reference j = general_journal_prefix @ jp_proposal_id p"
      "gj_transaction_currency j = jp_transaction_currency p" "gj_functional_currency j = pol_functional_currency policy"
      "gj_accounting_date j = jp_accounting_date p" "gj_policy_version j = pol_policy_version policy"
      "gj_rule_version j = pol_rule_version policy"
    by (subst j, simp)+
  from resolved_policy_scope [OF policy steps(3,4)] obtain e b
    where tref: "jp_tenant_reference p = tref"
      and e: "e \<in> set (ct_entities t)" "en_tenant e = tid" "en_id e = entity" "en_code e = jp_legal_entity_reference p"
      and b: "b \<in> set (ct_books t)" "bk_tenant b = tid" "bk_id b = gj_book j" "bk_name b = pol_book_reference policy"
    by blast
  note join = added_join [OF added inv inv' uuid, unfolded fields, OF e(1-3) b(1-3)]
  have lines: "list_all2 same_line (sort_key pl_line_number lines) (load_lines t' tid (gj_id j))"
    using added_lines_same [OF added inv inv' uuid resolved_amounts_ok [OF steps(2) p(1)]] by (simp add: fields)
  have resolved: "lines = map (resolved_line policy) (jp_lines p)" "\<forall>l\<in>set (jp_lines p). role_mapped policy l"
    using steps(2) by (auto simp: resolve_lines_eq_Inr)
  have journal: "rel_option same_journal (Some (posted_journal_of p policy lines)) (stored_journal t' tref j)"
    using lines e(4) b(4) p(2) tref
    by (simp add: stored_journal_def fields join posted_not_reversal [OF added inv uuid] same_journal_def posted_journal_of_def pr)
  have "find_journal t tid (gj_reference j) = None"
    using added by (auto simp: journal_added_def fields find_journal_def find_None_iff list_ex_iff)
  then have "post_fresh s p policy"
    using refines_fresh [OF ref] fresh steps(1) resolved(2)
    by (simp add: post_fresh_def cached_idempotency_receipt_None tref fields)
  then have "post s p policy = Inr (post_result s p policy, receipt)"
    by (simp add: post_eq_Inr receipt resolved(1))
  moreover have "refines tref tid t' (post_result s p policy)"
    by (rule refines_added [OF added inv inv' uuid ref fields(1) journal])
      (auto simp: tref fields resolved(1) pr split: if_splits)
  ultimately show ?thesis using policy inv' by blast
qed

section \<open>A reversal\<close>

lemma same_line_trans: "same_line a b \<Longrightarrow> same_line b c \<Longrightarrow> same_line a c"
  by (simp add: same_line_def)

lemma same_lines_trans: "list_all2 same_line xs ys \<Longrightarrow> list_all2 same_line ys zs \<Longrightarrow> list_all2 same_line xs zs"
  by (rule list_all2_trans [OF same_line_trans])

lemma same_lines_reversed: "list_all2 same_line xs ys \<Longrightarrow> list_all2 same_line (map reversal_line xs) (map reversal_line ys)"
  by (auto simp: list_all2_map1 list_all2_map2 same_line_def reversal_line_def elim: list_all2_mono)

lemma loaded_sorted: "sorted (map pl_line_number (load_lines t tid jid))"
  by (simp add: load_lines_def)

lemma reversed_sort: "sort_key pl_line_number (map reversal_line ls) = map reversal_line (sort_key pl_line_number ls)"
  by (rule sort_key_map) (simp add: reversal_line_def)

lemma column_amount_ok: "column_amount d \<Longrightarrow> amount_ok d"
  by (simp add: column_amount_def amount_ok_def)

lemma loaded_amounts_ok:
  assumes "tables_inv srv t"
  shows "\<forall>l\<in>set (map reversal_line (load_lines t tid jid)). amount_ok (pl_debit_amount l) \<and> amount_ok (pl_credit_amount l)"
proof -
  have "\<forall>l\<in>set (lt_lines t). line_sound t l" using assms by (simp add: tables_inv_def)
  then show ?thesis
    by (auto simp: load_lines_def line_of_row_def journal_lines_def reversal_line_def line_sound_def column_amount_ok
        split: option.splits)
qed

lemma reversed_lines_same:
  assumes added: "journal_added srv t t' pr j (map reversal_line (load_lines t tid (gj_id original))) ls rvs"
    and inv: "tables_inv srv t" "tables_inv srv t'" and uuid: "inj (sv_uuid (ps_server srv))" and tid: "gj_tenant j = tid"
    and same: "list_all2 same_line (sort_key pl_line_number ms) (load_lines t tid (gj_id original))"
  shows "list_all2 same_line (sort_key pl_line_number (map reversal_line ms)) (load_lines t' tid (gj_id j))"
proof -
  have "list_all2 same_line (map reversal_line (load_lines t tid (gj_id original))) (load_lines t' tid (gj_id j))"
    using added_lines_same [OF added inv uuid loaded_amounts_ok [OF inv(1)]]
    by (simp add: tid reversed_sort sort_key_sorted [OF loaded_sorted])
  then show ?thesis using same_lines_trans [OF same_lines_reversed [OF same]] by (simp add: reversed_sort)
qed

lemma reversal_of_new:
  assumes "journal_added srv t t' pr j lines ls [rv]" "tables_inv srv t" "tables_inv srv t'" "inj (sv_uuid (ps_server srv))"
    and "gj_tenant j = tid" "original \<in> set (lt_journals t)" "gj_tenant original = tid" "rv_original rv = gj_id original"
  shows "reversal_of t' tid j = Some rv" "original_of t' tid j = Some original"
proof -
  note frame = journal_added_frame [OF assms(1,2,4)]
  have "find (\<lambda>r. rv_tenant r = tid \<and> rv_reversal r = gj_id j) (lt_reversals t) = None"
    using frame(19) by (auto simp: find_None_iff)
  moreover have "rv_tenant rv = tid" "rv_reversal rv = gj_id j" using assms(1,5) by (simp_all add: journal_added_def)
  ultimately show found: "reversal_of t' tid j = Some rv" by (simp add: reversal_of_def frame(11) find_append)
  have "journal_by_id t' tid (gj_id original) = Some original"
    using journal_by_id_known [OF assms(3), of original] assms(6,7) by (simp add: frame(9))
  then show "original_of t' tid j = Some original" using found assms(8) by (simp add: reversal_of_def original_of_def)
qed

text \<open>What the stored journal of a known row is.\<close>

lemma stored_journal_known:
  assumes "tables_inv srv t" "j \<in> set (lt_journals t)"
  obtains p b e where "p \<in> set (lt_proposals t)" "pr_tenant p = gj_tenant j" "pr_id p = gj_proposal j"
    and "b \<in> set (ct_books t)" "bk_tenant b = gj_tenant j" "bk_id b = gj_book j"
    and "e \<in> set (ct_entities t)" "en_tenant e = gj_tenant j" "en_id e = gj_entity j"
    and "join_journal t (gj_tenant j) j = Some \<lparr>jj_journal = j, jj_proposal = p, jj_book = b, jj_entity = e,
      jj_original = original_of t (gj_tenant j) j,
      jj_reason_code = map_option rv_reason_code (reversal_of t (gj_tenant j) j)\<rparr>"
proof -
  have "journal_sound t j" using assms by (simp add: tables_inv_def)
  then obtain p b e where known: "p \<in> set (lt_proposals t)" "pr_tenant p = gj_tenant j" "pr_id p = gj_proposal j"
      "b \<in> set (ct_books t)" "bk_tenant b = gj_tenant j" "bk_id b = gj_book j"
      "e \<in> set (ct_entities t)" "en_tenant e = gj_tenant j" "en_id e = gj_entity j"
    by (auto simp: journal_sound_def)
  then show thesis
    using proposal_by_id_known [OF assms(1) known(1)] book_by_id_known [OF assms(1) known(4)] entity_by_id_known [OF assms(1) known(7)]
    by (intro that [of p b e]) (simp_all add: join_journal_def)
qed

lemma reversal_policy_scope:
  assumes "reversal_policy t tref tid ref d = Inr policy" "find_journal t tid ref = Some original"
  shows "pol_tenant_reference policy = tref \<and> pol_functional_currency policy = gj_functional_currency original \<and>
     map_option en_code (entity_by_id t tid (gj_entity original)) = Some (pol_legal_entity_reference policy) \<and>
     map_option bk_name (book_by_id t tid (gj_book original)) = Some (pol_book_reference policy)"
  using assms by (auto simp: reversal_policy_def result_simps validate_policy_eq_Inr split: option.splits)

lemma check_reversal_scope_ok:
  assumes "check_reversal_scope t tref tid original d policy = Inr ()"
  shows "reversal_of t tid original = None" "gj_accounting_date original \<le> d" "permits policy d"
  using assms
  by (auto simp: check_reversal_scope_def reversal_of_def find_None_iff list_ex_iff not_less split: if_splits option.splits)

text \<open>The in-memory journal of a row that is not a reversal.\<close>

lemma stored_original:
  assumes inv: "tables_inv srv t" and ref: "refines tref tid t s" and original: "find_journal t tid ref = Some original"
    and src: "proposal_by_id t tid (gj_proposal original) = Some src" and no_reversal: "reversal_of t tid original = None"
  obtains m b e
  where "dict_get (journals s) (tref, ref) = Some m"
    and "list_all2 same_line (sort_key pl_line_number (pj_lines m)) (load_lines t tid (gj_id original))"
    and "m = \<lparr>pj_journal_reference = ref, pj_tenant_reference = tref, pj_legal_entity_reference = en_code e,
           pj_book_reference = bk_name b, pj_accounting_date = gj_accounting_date original,
           pj_transaction_currency = gj_transaction_currency original, pj_functional_currency = gj_functional_currency original,
           pj_source_proposal_id = pr_external_id src, pj_source_payload_hash = pr_source_hash src,
           pj_policy_version = gj_policy_version original, pj_rule_version = gj_rule_version original,
           pj_lines = pj_lines m, pj_reversal_of = None, pj_reversal_reason_code = None, pj_reversal_idempotency_key = None\<rparr>"
    and "b \<in> set (ct_books t)" "bk_tenant b = tid" "bk_id b = gj_book original"
    and "e \<in> set (ct_entities t)" "en_tenant e = tid" "en_id e = gj_entity original"
proof -
  note known = find_journal_ok [OF original]
  obtain p0 b e
    where b: "b \<in> set (ct_books t)" "bk_tenant b = tid" "bk_id b = gj_book original"
    and e: "e \<in> set (ct_entities t)" "en_tenant e = tid" "en_id e = gj_entity original"
    and p0: "p0 \<in> set (lt_proposals t)" "pr_tenant p0 = tid" "pr_id p0 = gj_proposal original"
    and join0: "join_journal t tid original = Some \<lparr>jj_journal = original, jj_proposal = p0, jj_book = b, jj_entity = e,
      jj_original = original_of t tid original, jj_reason_code = map_option rv_reason_code (reversal_of t tid original)\<rparr>"
    using known by (elim conjE) (rule stored_journal_known [OF inv, of original]; simp)
  have "p0 = src" using proposal_by_id_known [OF inv p0(1)] src p0 by simp
  have "original_of t tid original = None" using no_reversal by (simp add: original_of_def reversal_of_def)
  note stored0 = stored_journal_def [of t tref original, unfolded conjunct1 [OF conjunct2 [OF known]] join0 option.case
      joined_journal.select_convs this no_reversal, simplified]
  have "rel_option same_journal (dict_get (journals s) (tref, ref)) (stored_at t tref tid ref)"
    using ref by (simp add: refines_def)
  then obtain m where "dict_get (journals s) (tref, ref) = Some m"
    and "list_all2 same_line (sort_key pl_line_number (pj_lines m)) (load_lines t tid (gj_id original))"
    and "m = \<lparr>pj_journal_reference = ref, pj_tenant_reference = tref, pj_legal_entity_reference = en_code e,
           pj_book_reference = bk_name b, pj_accounting_date = gj_accounting_date original,
           pj_transaction_currency = gj_transaction_currency original, pj_functional_currency = gj_functional_currency original,
           pj_source_proposal_id = pr_external_id src, pj_source_payload_hash = pr_source_hash src,
           pj_policy_version = gj_policy_version original, pj_rule_version = gj_rule_version original,
           pj_lines = pj_lines m, pj_reversal_of = None, pj_reversal_reason_code = None, pj_reversal_idempotency_key = None\<rparr>"
    using known \<open>p0 = src\<close> by (auto simp: option_rel_Some2 stored_at_def original stored0 same_journal_def)
  then show thesis using b e by (rule that)
qed

lemma reverse_refines:
  assumes run: "reverse_in_session srv tref ref d reason policy key h t = Inr (t', receipt)"
    and tenant: "require_tenant (ps_server srv) (ct_tenants t) tref = Inr tid"
    and none: "find_existing_reversal t tid ref = None"
    and balance: "check_all (assert_journal_balance t') (drop (length (lt_journals t)) (lt_journals t')) = Inr ()"
    and ref: "refines tref tid t s" and inv: "tables_inv srv t" and uuid: "inj (sv_uuid (ps_server srv))"
    and policy: "reversal_policy t tref tid ref d = Inr policy" and reason: "code_pattern reason"
    and key: "key = reversal_command_key ref given" "key \<noteq> []" and h: "h = reversal_command_hash tref key ref d reason"
  shows "\<exists>s'. reverse s ref d reason policy given = Inr (s', receipt) \<and> refines tref tid t' s' \<and> tables_inv srv t'"
proof -
  obtain original pr j ls rv src
    where original: "find_journal t tid ref = Some original" and scope: "check_reversal_scope t tref tid original d policy = Inr ()"
    and added: "journal_added srv t t' pr j (map reversal_line (load_lines t tid (gj_id original))) ls [rv]" and inv': "tables_inv srv t'"
    and free: "find_journal t tid (ref @ '':reversal'') = None" and src: "proposal_by_id t tid (gj_proposal original) = Some src"
    and receipt: "receipt = pg_reversal_receipt ref (pr_external_id src) policy h (length (load_lines t tid (gj_id original)))"
    and pr: "pr = \<lparr>pr_id = pr_id pr, pr_tenant = tid, pr_external_id = uuid_text (fresh_id srv t), pr_contract_version = 1,
           pr_idempotency_key = key, pr_source_hash = h\<rparr>"
    and j: "j = \<lparr>gj_id = gj_id j, gj_tenant = tid, gj_entity = gj_entity original, gj_book = gj_book original, gj_period = gj_period j,
          gj_reference = ref @ '':reversal'', gj_transaction_currency = gj_transaction_currency original,
          gj_functional_currency = pol_functional_currency policy, gj_transaction_date = gj_transaction_date original,
          gj_accounting_date = d, gj_proposal = pr_id pr,
          gj_policy_version = pol_policy_version policy, gj_rule_version = pol_rule_version policy\<rparr>"
    and rv: "rv = \<lparr>rv_tenant = tid, rv_original = gj_id original, rv_reversal = gj_id j, rv_reason_code = reason\<rparr>"
    by (rule reverse_effect [OF run tenant none inv uuid balance]) (rule that; assumption)
  have fields: "gj_tenant j = tid" "gj_entity j = gj_entity original" "gj_book j = gj_book original" "gj_reference j = ref @ '':reversal''"
      "gj_transaction_currency j = gj_transaction_currency original" "gj_functional_currency j = pol_functional_currency policy"
      "gj_accounting_date j = d" "gj_policy_version j = pol_policy_version policy" "gj_rule_version j = pol_rule_version policy"
    by (subst j, simp)+
  have pr_fields: "pr_idempotency_key pr = key" "pr_source_hash pr = h" by (subst pr, simp)+
  have rv_fields: "rv_original rv = gj_id original" "rv_reason_code rv = reason" by (subst rv, simp)+
  note known = find_journal_ok [OF original]
  from stored_original [OF inv ref original src check_reversal_scope_ok(1) [OF scope]] obtain m b e
    where m: "dict_get (journals s) (tref, ref) = Some m"
    and m_lines: "list_all2 same_line (sort_key pl_line_number (pj_lines m)) (load_lines t tid (gj_id original))"
    and m_fields: "m = \<lparr>pj_journal_reference = ref, pj_tenant_reference = tref, pj_legal_entity_reference = en_code e,
           pj_book_reference = bk_name b, pj_accounting_date = gj_accounting_date original,
           pj_transaction_currency = gj_transaction_currency original, pj_functional_currency = gj_functional_currency original,
           pj_source_proposal_id = pr_external_id src, pj_source_payload_hash = pr_source_hash src,
           pj_policy_version = gj_policy_version original, pj_rule_version = gj_rule_version original,
           pj_lines = pj_lines m, pj_reversal_of = None, pj_reversal_reason_code = None, pj_reversal_idempotency_key = None\<rparr>"
    and b: "b \<in> set (ct_books t)" "bk_tenant b = tid" "bk_id b = gj_book original"
    and e: "e \<in> set (ct_entities t)" "en_tenant e = tid" "en_id e = gj_entity original" .
  have m_simps: "pj_tenant_reference m = tref" "pj_legal_entity_reference m = en_code e" "pj_book_reference m = bk_name b"
      "pj_accounting_date m = gj_accounting_date original" "pj_transaction_currency m = gj_transaction_currency original"
      "pj_functional_currency m = gj_functional_currency original" "pj_source_proposal_id m = pr_external_id src" "pj_reversal_of m = None"
    by (subst m_fields, simp)+
  have scope_names: "pol_tenant_reference policy = tref" "pol_functional_currency policy = gj_functional_currency original"
      "en_code e = pol_legal_entity_reference policy" "bk_name b = pol_book_reference policy"
    using reversal_policy_scope [OF policy original] entity_by_id_known [OF inv e(1)] book_by_id_known [OF inv b(1)] e b by auto
  have "length (pj_lines m) = length (load_lines t tid (gj_id original))"
    using list_all2_lengthD [OF m_lines] by simp
  then have same_receipt: "receipt = reversal_receipt_of m ref policy h"
    by (simp add: receipt pg_reversal_receipt_def reversal_receipt_of_def m_simps scope_names)
  let ?s' = "record_reversal (s\<lparr>journals := dict_set (tref, ref @ '':reversal'')
       (reversal_journal_of m ref d reason key policy h) (journals s)\<rparr>) (tref, ref) receipt (key, ref, h)"
  have uncached: "reverse_uncached s ref d reason policy key h = Inr (?s', receipt)"
    using m refines_fresh(2) [OF ref free] check_reversal_scope_ok [OF scope] same_receipt scope_names
    by (subst reverse_uncached_eq_Inr) (auto simp: reversible_def m_simps)
  have ran: "reverse s ref d reason policy given = Inr (?s', receipt)"
    using uncached reason key h refines_fresh(3) [OF ref free]
    by (simp add: reverse_eq_Inr reversal_hash_of_def Let_def scope_names cached_reversal_receipt_def tenant_cache_key_def)
  note join = added_join [OF added inv inv' uuid, unfolded fields, OF e b]
    and new = reversal_of_new [OF added inv inv' uuid fields(1) _ _ rv_fields(1)]
  have src': "proposal_by_id t' tid (gj_proposal original) = Some src"
    using src by (simp add: proposal_by_id_def journal_added_frame(8) [OF added inv uuid] find_append)
  have journal: "rel_option same_journal (Some (reversal_journal_of m ref d reason key policy h)) (stored_journal t' tref j)"
    using new known reversed_lines_same [OF added inv inv' uuid fields(1) m_lines] src'
    by (simp add: stored_journal_def fields join same_journal_def reversal_journal_of_def m_simps pr_fields rv_fields scope_names)
  have "refines tref tid t' ?s'"
    by (rule refines_added [OF added inv inv' uuid ref fields(1) journal]) (auto simp: fields split: if_splits)
  then show ?thesis using ran inv' by blast
qed

end
