(* ===== verification/Persistent_Properties.thy ===== *)
theory Persistent_Properties
  imports Persistent_Refinement Ledger_Properties
begin

text \<open>
  The properties of the persistent ledger: it does what the in-memory ledger does, every journal it ever
  stores balances, a key is used once, and nothing is written into a closed period. A sample database
  shows that their hypotheses can be met.
\<close>

section \<open>Runs of one tenant\<close>

text \<open>
  What happens to a database while tenants use it: the successful new posts and reversals of the tenant
  \<open>tref\<close>, whose history is kept; commands that add no journal (retries, refused commands, opening and
  soft-closing periods); and any commands of other tenants. Adjusting and closing journals of the tenant
  itself are not part of a history: the in-memory ledger has no such command.
\<close>

inductive ledger_run ::
    "(nat \<Rightarrow> nat) \<Rightarrow> string \<Rightarrow> nat \<Rightarrow> ledger_tables \<Rightarrow> (ledger_command \<times> posting_receipt) list \<Rightarrow> ledger_tables \<Rightarrow> bool"
  for uuid :: "nat \<Rightarrow> nat" and tref :: string and tid :: nat and t0 :: ledger_tables where
  start: "ledger_run uuid tref tid t0 [] t0"
| posted: "ledger_run uuid tref tid t0 history t \<Longrightarrow> sv_uuid (ps_server srv) = uuid \<Longrightarrow>
    require_tenant (ps_server srv) (ct_tenants t) tref = Inr tid \<Longrightarrow>
    valid_proposal p \<Longrightarrow> py_lower (jp_proposal_id p) = jp_proposal_id p \<Longrightarrow>
    \<not> list_ex (\<lambda>r. pr_tenant r = tid \<and> pr_idempotency_key r = jp_idempotency_key p) (lt_proposals t) \<Longrightarrow>
    resolve_accounting_policy tref tid p t = Inr policy \<Longrightarrow> pg_post_proposal srv tref p t = Inr (t', receipt) \<Longrightarrow>
    ledger_run uuid tref tid t0 (history @ [(Post p policy, receipt)]) t'"
| reversed: "ledger_run uuid tref tid t0 history t \<Longrightarrow> sv_uuid (ps_server srv) = uuid \<Longrightarrow>
    require_tenant (ps_server srv) (ct_tenants t) tref = Inr tid \<Longrightarrow> find_existing_reversal t tid ref = None \<Longrightarrow>
    pg_load_reversal_policy srv tref ref d t = Inr (t1, policy) \<Longrightarrow>
    pg_reverse srv tref ref d reason policy key t1 = Inr (t', receipt) \<Longrightarrow>
    ledger_run uuid tref tid t0 (history @ [(Reverse ref d reason policy key, receipt)]) t'"
| no_journal: "ledger_run uuid tref tid t0 history t \<Longrightarrow> sv_uuid (ps_server srv) = uuid \<Longrightarrow>
    lt_journals (run_pg_command t (srv, c)) = lt_journals t \<Longrightarrow>
    ledger_run uuid tref tid t0 history (run_pg_command t (srv, c))"
| other_tenant: "ledger_run uuid tref tid t0 history t \<Longrightarrow> sv_uuid (ps_server srv) = uuid \<Longrightarrow>
    require_tenant (ps_server srv) (ct_tenants t) (pg_command_tenant c) = Inr other \<Longrightarrow> other \<noteq> tid \<Longrightarrow>
    ledger_run uuid tref tid t0 history (run_pg_command t (srv, c))"

text \<open>The in-memory ledger runs the same commands and has to give the same receipts.\<close>

fun replay_history :: "ledger \<Rightarrow> (ledger_command \<times> posting_receipt) list \<Rightarrow> ledger option" where
  "replay_history s [] = Some s"
| "replay_history s ((c, receipt) # rest) =
     (case run_command s c of
        Inl e \<Rightarrow> None
      | Inr (s', r) \<Rightarrow> if r = receipt then replay_history s' rest else None)"

lemma replay_history_snoc:
  "replay_history s history = Some s1 \<Longrightarrow> run_command s1 c = Inr (s2, receipt) \<Longrightarrow>
     replay_history s (history @ [(c, receipt)]) = Some s2"
  by (induction s history rule: replay_history.induct) (auto split: sum.splits if_splits)

section \<open>Single commands\<close>

lemma pg_post_proposal_fresh:
  assumes "pg_post_proposal srv tref p t = Inr (t', receipt)" "require_tenant (ps_server srv) (ct_tenants t) tref = Inr tid"
    and "\<not> list_ex (\<lambda>r. pr_tenant r = tid \<and> pr_idempotency_key r = jp_idempotency_key p) (lt_proposals t)"
  shows "post_fresh_proposal srv tref tid p None t = Inr (t', receipt) \<and>
     check_all (assert_journal_balance t') (drop (length (lt_journals t)) (lt_journals t')) = Inr ()"
proof -
  have "find (\<lambda>r. pr_tenant r = tid \<and> pr_idempotency_key r = jp_idempotency_key p) (lt_proposals t) = None"
    using assms(3) by (auto simp: find_None_iff list_ex_iff)
  then show ?thesis
    using assms(1,2) by (auto simp: pg_post_proposal_def persist_proposal_def transaction_Inr result_simps)
qed

lemma pg_load_reversal_policy_run:
  assumes "pg_load_reversal_policy srv tref ref d t = Inr (t1, policy)" "require_tenant (ps_server srv) (ct_tenants t) tref = Inr tid"
  shows "t1 = t \<and> reversal_policy t tref tid ref d = Inr policy"
  using assms by (auto simp: pg_load_reversal_policy_def transaction_Inr result_simps)

text \<open>A journal of another tenant leaves what a tenant sees.\<close>

lemma refines_other:
  assumes added: "journal_added srv t t' pr j lines ls rvs" and inv: "tables_inv srv t" "tables_inv srv t'"
    and uuid: "inj (sv_uuid (ps_server srv))" and ref: "refines tref tid t s" and other: "gj_tenant j \<noteq> tid"
  shows "refines tref tid t' s"
proof -
  note frame = journal_added_frame [OF added inv(1) uuid]
  have find: "find_journal t' tid r = find_journal t tid r" for r
    using other by (simp add: find_journal_def frame(9) find_append split: option.splits)
  have "stored_at t' tref tid r = stored_at t tref tid r" for r
    using find_journal_ok stored_journal_mono [OF added inv uuid] find
    by (cases "find_journal t tid r") (auto simp: stored_at_def)
  then show ?thesis using ref find unfolding refines_def frame(8) by fastforce
qed

lemma refines_periods:
  assumes "periods_changed t t'" "refines tref tid t s"
  shows "refines tref tid t' s"
proof -
  note frame = periods_changed_frame [OF assms(1)]
  have "find_journal t' tid0 r = find_journal t tid0 r" for tid0 r
    by (simp add: find_journal_def frame)
  moreover have "join_journal t' tid0 j = join_journal t tid0 j" for tid0 j
  proof -
    have same: "original_of t' tid0 j = original_of t tid0 j" "reversal_of t' tid0 j = reversal_of t tid0 j"
      unfolding original_of_def reversal_of_def journal_by_id_def frame by (rule refl)+
    show ?thesis
      unfolding join_journal_def proposal_by_id_def entity_by_id_def book_by_id_def frame same by (rule refl)
  qed
  moreover have "load_lines t' tid0 i = load_lines t tid0 i" for tid0 i
  proof -
    have "line_of_row t' = line_of_row t"
      by (rule ext) (simp add: line_of_row_def chart_by_id_def frame)
    then show ?thesis by (simp add: load_lines_def journal_lines_def frame)
  qed
  moreover have "proposal_by_id t' = proposal_by_id t" by (intro ext) (simp add: proposal_by_id_def frame)
  ultimately have "stored_at t' tref tid r = stored_at t tref tid r" for r
    by (auto simp: stored_at_def stored_journal_def intro!: bind_option_cong split: option.splits)
  then show ?thesis using assms(2) \<open>\<And>tid0 r. find_journal t' tid0 r = find_journal t tid0 r\<close>
    by (simp add: refines_def frame)
qed

text \<open>Steps that add no journal of the tenant leave what it sees.\<close>

lemma refines_step:
  assumes step: "step_to srv other t t'" and inv: "tables_inv srv t" and uuid: "inj (sv_uuid (ps_server srv))"
    and ref: "refines tref tid t s" and foreign: "other \<noteq> tid \<or> lt_journals t' = lt_journals t"
  shows "refines tref tid t' s"
  using step unfolding step_to_def
proof (elim disjE exE conjE)
  assume "periods_changed t t'"
  then show ?thesis using ref by (rule refines_periods)
next
  fix t1 t2 pr j lines ls rvs
  assume 1: "periods_changed t t1" and added: "journal_added srv t1 t2 pr j lines ls rvs" and j: "gj_tenant j = other"
    and inv2: "tables_inv srv t2" and 2: "periods_changed t2 t'"
  have "lt_journals t' \<noteq> lt_journals t"
    using journal_added_catalog [OF added] periods_changed_frame(8) [OF 1] periods_changed_frame(8) [OF 2] by simp
  then have "gj_tenant j \<noteq> tid" using foreign j by simp
  from refines_other [OF added periods_changed_inv [OF 1 inv] inv2 uuid refines_periods [OF 1 ref] this]
  show ?thesis by (rule refines_periods [OF 2])
qed

section \<open>Refinement\<close>

lemma refines_empty: "empty_tables t \<Longrightarrow> refines tref tid t empty_ledger"
  by (simp add: refines_def stored_at_def find_journal_def empty_tables_def empty_ledger_def)

lemma ledger_run_refines:
  assumes "ledger_run uuid tref tid t0 history t" "inj uuid" "empty_tables t0" "sv_uuid (ps_server srv0) = uuid"
  shows "tables_inv srv0 t \<and> (\<exists>s. replay_history empty_ledger history = Some s \<and> refines tref tid t s)"
  using assms(1)
proof (induction rule: ledger_run.induct)
  case start
  then show ?case using assms(3) refines_empty empty_tables_inv by auto
next
  case (posted history t srv p policy t' receipt)
  then obtain s where s: "replay_history empty_ledger history = Some s" "refines tref tid t s" by blast
  have inv: "tables_inv srv t" using posted.IH posted.hyps(2) assms(4) tables_inv_uuid [of srv srv0] by simp
  have uuid: "inj (sv_uuid (ps_server srv))" using assms(2) posted.hyps(2) by simp
  note fresh = pg_post_proposal_fresh [OF posted.hyps(8,3,6)]
  from post_refines [OF conjunct1 [OF fresh] conjunct2 [OF fresh] s(2) inv uuid posted.hyps(4-6)] posted.hyps(7)
  obtain s' where "post s p policy = Inr (s', receipt)" "refines tref tid t' s'" "tables_inv srv t'" by auto
  moreover from this(1) have "replay_history empty_ledger (history @ [(Post p policy, receipt)]) = Some s'"
    by (intro replay_history_snoc [OF s(1)]) simp
  ultimately show ?case using posted.hyps(2) assms(4) tables_inv_uuid [of srv srv0] by auto
next
  case (reversed history t srv ref d t1 policy reason key t' receipt)
  then obtain s where s: "replay_history empty_ledger history = Some s" "refines tref tid t s" by blast
  have inv: "tables_inv srv t" using reversed.IH reversed.hyps(2) assms(4) tables_inv_uuid [of srv srv0] by simp
  have uuid: "inj (sv_uuid (ps_server srv))" using assms(2) reversed.hyps(2) by simp
  from pg_load_reversal_policy_run [OF reversed.hyps(5,3)]
  have t1: "t1 = t" and policy: "reversal_policy t tref tid ref d = Inr policy" by auto
  note run = pg_reverse_run [OF reversed.hyps(6), unfolded t1]
  from reverse_refines [OF _ reversed.hyps(3,4) _ s(2) inv uuid policy _ refl _ refl, of reason key t' receipt] run
  obtain s' where "reverse s ref d reason policy key = Inr (s', receipt)" "refines tref tid t' s'" "tables_inv srv t'" by blast
  moreover from this(1) have "replay_history empty_ledger (history @ [(Reverse ref d reason policy key, receipt)]) = Some s'"
    by (intro replay_history_snoc [OF s(1)]) simp
  ultimately show ?case using reversed.hyps(2) assms(4) tables_inv_uuid [of srv srv0] by auto
next
  case (no_journal history t srv c)
  then obtain s where s: "replay_history empty_ledger history = Some s" "refines tref tid t s" by blast
  have inv: "tables_inv srv t" using no_journal.IH no_journal.hyps(2) assms(4) tables_inv_uuid [of srv srv0] by simp
  have uuid: "inj (sv_uuid (ps_server srv))" using assms(2) no_journal.hyps(2) by simp
  from run_pg_command_step_to [OF inv uuid] obtain other where step: "step_to srv other t (run_pg_command t (srv, c))" by blast
  from refines_step [OF step inv uuid s(2)] step_to_inv [OF step inv] show ?case
    using s(1) no_journal.hyps(2,3) assms(4) tables_inv_uuid [of srv srv0] by auto
next
  case (other_tenant history t srv c other)
  then obtain s where s: "replay_history empty_ledger history = Some s" "refines tref tid t s" by blast
  have inv: "tables_inv srv t" using other_tenant.IH other_tenant.hyps(2) assms(4) tables_inv_uuid [of srv srv0] by simp
  have uuid: "inj (sv_uuid (ps_server srv))" using assms(2) other_tenant.hyps(2) by simp
  from run_pg_command_step_to [OF inv uuid] obtain i where step: "step_to srv i t (run_pg_command t (srv, c))"
    and i: "run_pg_command t (srv, c) \<noteq> t \<Longrightarrow> i = other" using other_tenant.hyps(3) by (metis Inr_inject)
  have "refines tref tid (run_pg_command t (srv, c)) s"
    using refines_step [OF step inv uuid s(2)] i other_tenant.hyps(4) by (cases "run_pg_command t (srv, c) = t") auto
  then show ?case
    using s(1) step_to_inv [OF step inv] other_tenant.hyps(2) assms(4) tables_inv_uuid [of srv srv0] by auto
qed

section \<open>A sample database\<close>

definition sample_pg_server :: posting_server where
  "sample_pg_server =
     \<lparr>ps_server = \<lparr>sv_url = ''postgresql://ledger'', sv_reachable = True, sv_session_tenant = Some 7,
        sv_bypasses_row_security = False, sv_uuid = Suc,
        sv_clock = (\<lambda>n. \<lparr>dt_date = Date 2026 1 31, dt_hour = 0, dt_minute = 0, dt_second = 0, dt_micro = 0, dt_offset = Some 0\<rparr>)\<rparr>,
      ps_closing_writer = False\<rparr>"

definition sample_mapping :: "string \<Rightarrow> nat \<Rightarrow> mapping_row" where
  "sample_mapping role chart_id =
     \<lparr>mp_tenant = 7, mp_book = 1, mp_role_code = role, mp_chart = chart_id, mp_policy_version = ''policy-v1'',
      mp_rule_version = ''rule-v1'',
      mp_valid_from = \<lparr>dt_date = Date 2026 1 1, dt_hour = 0, dt_minute = 0, dt_second = 0, dt_micro = 0, dt_offset = Some 0\<rparr>,
      mp_valid_to = None\<rparr>"

definition sample_tables :: ledger_tables where
  "sample_tables =
     \<lparr>ct_tenants = [\<lparr>tn_id = 7, tn_code = ''urn:cwl:platform:tenant:t1''\<rparr>],
      ct_entities = [\<lparr>en_id = 1, en_tenant = 7, en_code = ''urn:cwl:accounting:legal_entity:e1'',
        en_functional_currency = ''KRW'', en_valid_to = None\<rparr>],
      ct_books = [\<lparr>bk_id = 1, bk_tenant = 7, bk_entity = 1, bk_name = ''urn:cwl:accounting:book:b1'', bk_role_code = ''primary'',
        bk_reporting_currency = ''KRW'', bk_valid_to = None\<rparr>],
      ct_charts = [\<lparr>ch_id = 1, ch_tenant = 7, ch_book = 1, ch_code = ''1100'', ch_valid_to = None\<rparr>,
                   \<lparr>ch_id = 2, ch_tenant = 7, ch_book = 1, ch_code = ''4000'', ch_valid_to = None\<rparr>],
      lt_mappings = [sample_mapping ''receivable'' 1, sample_mapping ''revenue'' 2],
      lt_calendars = [\<lparr>cl_id = 1, cl_tenant = 7, cl_code = ''calendar''\<rparr>],
      lt_periods = [\<lparr>pe_id = 1, pe_tenant = 7, pe_calendar = 1, pe_code = ''2026-01'', pe_start_date = Date 2026 1 1,
        pe_end_date = Date 2026 1 31, pe_status_code = ''open'', pe_closed_at = None\<rparr>],
      lt_controls = [], lt_opens = [], lt_snapshots = [], lt_balances = [], lt_proposals = [], lt_journals = [], lt_lines = [], lt_sources = [], lt_reversals = [],
      lt_receipts = [], lt_outbox = [], lt_inserted = 0\<rparr>"

lemma sample_tables_empty: "empty_tables sample_tables"
  by (simp add: empty_tables_def catalog_keys_def sample_tables_def)

lemma sample_tenant: "require_tenant (ps_server sample_pg_server) (ct_tenants sample_tables) ''urn:cwl:platform:tenant:t1'' = Inr 7"
  by (simp add: require_tenant_def sample_pg_server_def sample_tables_def)

lemma sample_dates: "Date 2026 1 1 \<le> Date 2026 1 10" "Date 2026 1 10 \<le> Date 2026 1 31"
  by code_simp+

lemma sample_period:
  "require_open_book_period_bounds sample_tables 7 1 (Date 2026 1 10) = Inr (1, Date 2026 1 1, Date 2026 1 31)"
  by (simp add: require_open_book_period_bounds_def locked_period_def covering_period_def book_period_status_def
      sample_tables_def sample_dates)

lemma sample_instants:
  "instant_micros (midnight (Date 2026 1 1)) \<le> instant_micros (midnight (Date 2026 1 10))"
  by code_simp

lemma sample_mapping_loaded:
  "load_role_mapping sample_tables 7 1 sample_proposal =
     Inr ([(''receivable'', ''1100''), (''revenue'', ''4000'')], ''policy-v1'', ''rule-v1'')"
proof -
  have "mapping_rows sample_tables 7 1 [''receivable'', ''revenue''] (Date 2026 1 10) =
      [(''receivable'', ''1100'', ''policy-v1'', ''rule-v1''), (''revenue'', ''4000'', ''policy-v1'', ''rule-v1'')]"
    using sample_instants
    by (simp add: mapping_rows_def mapping_effective_def sample_tables_def sample_mapping_def midnight_def)
  then show ?thesis
    by (simp add: load_role_mapping_def sample_proposal_def first_occurrences_def see_role_def Let_def)
qed

lemma sample_policy_resolved: "resolve_accounting_policy ''urn:cwl:platform:tenant:t1'' 7 sample_proposal sample_tables = Inr sample_policy"
proof -
  have "load_legal_entity (ct_entities sample_tables) 7 ''urn:cwl:accounting:legal_entity:e1'' ''posting'' = Inr (1, ''KRW'')"
    by (simp add: load_legal_entity_def sample_tables_def)
  moreover have "require_book_for_role sample_tables 7 1 ''primary'' = Inr (1, ''urn:cwl:accounting:book:b1'')"
    by (simp add: require_book_for_role_def find_role_book_def sample_tables_def)
  moreover have "validate_policy sample_policy = Inr sample_policy" using sample_policy_valid by (simp add: valid_policy_def)
  moreover have "jp_tenant_reference sample_proposal = ''urn:cwl:platform:tenant:t1''"
    "jp_legal_entity_reference sample_proposal = ''urn:cwl:accounting:legal_entity:e1''"
    "jp_book_role_code sample_proposal = ''primary''" "jp_accounting_date sample_proposal = Date 2026 1 10"
    "jp_transaction_currency sample_proposal = ''KRW''"
    by (simp_all add: sample_proposal_def)
  ultimately show ?thesis
    using sample_period sample_mapping_loaded by (simp add: resolve_accounting_policy_def sample_policy_def)
qed

definition sample_clock :: datetime where
  "sample_clock = \<lparr>dt_date = Date 2026 1 31, dt_hour = 0, dt_minute = 0, dt_second = 0, dt_micro = 0, dt_offset = Some 0\<rparr>"

definition sample_journal_row :: journal_row where
  "sample_journal_row =
     \<lparr>gj_id = 2, gj_tenant = 7, gj_entity = 1, gj_book = 1, gj_period = 1, gj_reference = sample_reference,
      gj_transaction_currency = ''KRW'', gj_functional_currency = ''KRW'', gj_transaction_date = Date 2026 1 10,
      gj_accounting_date = Date 2026 1 10, gj_proposal = 1, gj_policy_version = ''policy-v1'', gj_rule_version = ''rule-v1''\<rparr>"

definition sample_line_rows :: "line_row list" where
  "sample_line_rows =
     [\<lparr>ln_tenant = 7, ln_journal = 2, ln_number = 1, ln_chart = 1, ln_role_code = ''receivable'',
       ln_debit = Dec False 10000000 (- 6), ln_credit = Dec False 0 (- 6)\<rparr>,
      \<lparr>ln_tenant = 7, ln_journal = 2, ln_number = 2, ln_chart = 2, ln_role_code = ''revenue'',
       ln_debit = Dec False 0 (- 6), ln_credit = Dec False 10000000 (- 6)\<rparr>]"

definition sample_proposal_row :: proposal_row where
  "sample_proposal_row =
     \<lparr>pr_id = 1, pr_tenant = 7, pr_external_id = jp_proposal_id sample_proposal, pr_contract_version = 1,
      pr_idempotency_key = ''sale-1'', pr_source_hash = jp_source_payload_hash sample_proposal\<rparr>"

text \<open>The database after the sample proposal was posted.\<close>

definition sample_stored :: ledger_tables where
  "sample_stored = sample_tables
     \<lparr>lt_proposals := [sample_proposal_row], lt_journals := [sample_journal_row], lt_lines := sample_line_rows,
      lt_sources := [\<lparr>jr_tenant = 7, jr_journal = 2, jr_reference = ''urn:cwl:billing:event:1'',
        jr_hash = jp_source_payload_hash sample_proposal\<rparr>],
      lt_receipts := [\<lparr>rr_id = 3, rr_tenant = 7, rr_proposal = 1, rr_journal = 2,
        rr_hash = canonical_receipt_hash sample_receipt, rr_created_at = sample_clock\<rparr>],
      lt_outbox := [\<lparr>ob_id = 4, ob_tenant = 7, ob_event_type = ''posting_receipt'', ob_aggregate_reference = sample_reference,
        ob_payload_reference = rc_receipt_reference sample_receipt, ob_payload_hash = canonical_receipt_hash sample_receipt,
        ob_created_at = sample_clock, ob_published_at = None\<rparr>],
      lt_inserted := 4\<rparr>"

lemma sample_proposal_fields:
  "jp_tenant_reference sample_proposal = ''urn:cwl:platform:tenant:t1''"
  "jp_legal_entity_reference sample_proposal = ''urn:cwl:accounting:legal_entity:e1''"
  "jp_book_role_code sample_proposal = ''primary''" "jp_accounting_date sample_proposal = Date 2026 1 10"
  "jp_transaction_date sample_proposal = Date 2026 1 10" "jp_transaction_currency sample_proposal = ''KRW''"
  "jp_contract_version sample_proposal = 1" "jp_idempotency_key sample_proposal = ''sale-1''"
  "jp_source_event_references sample_proposal = [''urn:cwl:billing:event:1'']"
  "general_journal_prefix @ jp_proposal_id sample_proposal = sample_reference"
  by (simp_all add: sample_proposal_def general_journal_prefix_def sample_reference_def)

lemma sample_policy_fields:
  "pol_tenant_reference sample_policy = ''urn:cwl:platform:tenant:t1''"
  "pol_legal_entity_reference sample_policy = ''urn:cwl:accounting:legal_entity:e1''"
  "pol_book_reference sample_policy = ''urn:cwl:accounting:book:b1''"
  "pol_book_role_code sample_policy = ''primary''" "pol_functional_currency sample_policy = ''KRW''"
  "pol_policy_version sample_policy = ''policy-v1''" "pol_rule_version sample_policy = ''rule-v1''"
  by (simp_all add: sample_policy_def)

lemma sample_lower: "py_lower (jp_proposal_id sample_proposal) = jp_proposal_id sample_proposal"
  by code_simp

lemma sample_lines_resolved:
  "map_result (resolve_line sample_policy) (jp_lines sample_proposal) =
     Inr (map (resolved_line sample_policy) (jp_lines sample_proposal))"
  by (simp add: resolve_lines_eq_Inr) (simp add: sample_proposal_def sample_policy_def)

lemma sample_lines:
  "map (resolved_line sample_policy) (jp_lines sample_proposal) =
     [\<lparr>pl_line_number = 1, pl_chart_account_code = ''1100'', pl_account_role_code = ''receivable'',
       pl_debit_amount = Dec False 1000 (-2), pl_credit_amount = Dec False 0 0\<rparr>,
      \<lparr>pl_line_number = 2, pl_chart_account_code = ''4000'', pl_account_role_code = ''revenue'',
       pl_debit_amount = Dec False 0 0, pl_credit_amount = Dec False 1000 (-2)\<rparr>]"
  by (simp add: sample_proposal_def sample_policy_def resolved_line_def)

lemma sample_numeric:
  "numeric_38_6 (Dec False 1000 (-2)) = Inr (Dec False 10000000 (- 6))" "numeric_38_6 (Dec False 0 0) = Inr (Dec False 0 (- 6))"
  "dec_positive (Dec False 10000000 (- 6))" "\<not> dec_positive (Dec False 0 (- 6))"
  "\<not> dec_less (Dec False 10000000 (- 6)) dec_zero" "\<not> dec_less (Dec False 0 (- 6)) dec_zero"
  by (simp_all add: numeric_38_6_def scaled_def signed_coef_def Let_def dec_less_iff dval_def dec_zero_def dec_positive_def)

lemma sample_written:
  "write_posting sample_pg_server 7 sample_proposal sample_policy
     (map (resolved_line sample_policy) (jp_lines sample_proposal)) 1 1 1 sample_tables = Inr (sample_stored, sample_receipt)"
proof -
  have charts: "ct_charts sample_tables = [\<lparr>ch_id = 1, ch_tenant = 7, ch_book = 1, ch_code = ''1100'', ch_valid_to = None\<rparr>,
        \<lparr>ch_id = 2, ch_tenant = 7, ch_book = 1, ch_code = ''4000'', ch_valid_to = None\<rparr>]"
    and empty: "lt_proposals sample_tables = []" "lt_journals sample_tables = []" "lt_lines sample_tables = []"
      "lt_sources sample_tables = []" "lt_receipts sample_tables = []" "lt_outbox sample_tables = []" "lt_inserted sample_tables = 0"
    by (simp_all add: sample_tables_def)
  have hash: "hash_pattern (jp_source_payload_hash sample_proposal)" "currency_pattern ''KRW''"
    using sample_proposal_patterns by (simp_all add: sample_proposal_fields)
  have ids: "fresh_id sample_pg_server t = Suc (lt_inserted t)" "fresh_time sample_pg_server t = sample_clock" for t
    by (simp_all add: fresh_id_def fresh_time_def sample_pg_server_def sample_clock_def)
  have period: "guard_period_insert sample_pg_server '''' (sample_journal_row\<lparr>gj_id := 0\<rparr>) (sample_tables\<lparr>lt_proposals := ps, lt_inserted := n\<rparr>) = Inr ()" for ps n
    by (simp add: guard_period_insert_def sample_journal_row_def book_period_status_def sample_tables_def)
  have receipt: "posting_receipt_of sample_proposal sample_policy (map (resolved_line sample_policy) (jp_lines sample_proposal)) = sample_receipt"
    by (simp add: sample_receipt_def)
  show ?thesis
    using hash period [unfolded sample_journal_row_def]
    by (simp add: write_posting_def write_with_receipt_def receipt sample_proposal_fields insert_proposal_def integer_column_def sample_lower ids empty
        insert_journal_def proposal_source_def insert_journal_row_def sample_policy_fields Let_def sample_lines
        insert_journal_line_def insert_line_def charts sample_numeric insert_source_def insert_receipt_def insert_outbox_def)
      (simp add: sample_stored_def sample_proposal_row_def sample_journal_row_def sample_line_rows_def
        receipt [unfolded sample_lines])
qed

lemma sample_posted:
  "pg_post_proposal sample_pg_server ''urn:cwl:platform:tenant:t1'' sample_proposal sample_tables = Inr (sample_stored, sample_receipt)"
proof -
  have scope: "require_legal_entity sample_tables 7 ''urn:cwl:accounting:legal_entity:e1'' = Inr 1"
      "require_book sample_tables 7 1 ''primary'' ''urn:cwl:accounting:book:b1'' = Inr 1"
      "require_open_book_period sample_tables 7 1 (Date 2026 1 10) = Inr 1"
    using sample_period
    by (simp_all add: require_legal_entity_def load_legal_entity_def require_book_def find_role_book_def sample_tables_def
        require_open_book_period_def)
  have "\<not> list_ex (\<lambda>l. jl_account_role_code l = ''retained_earnings'') (jp_lines sample_proposal)"
    by (simp add: sample_proposal_def)
  moreover have "validate_policy_scope sample_proposal sample_policy = Inr ()"
    unfolding validate_policy_scope_eq_Inr by code_simp
  ultimately have fresh: "post_fresh_proposal sample_pg_server ''urn:cwl:platform:tenant:t1'' 7 sample_proposal None sample_tables =
      Inr (sample_stored, sample_receipt)"
    using sample_policy_resolved scope sample_lines_resolved sample_written
    by (simp add: post_fresh_proposal_def require_def sample_proposal_fields sample_policy_fields)
  have "assert_journal_balance sample_stored sample_journal_row = Inr ()"
    by (simp add: assert_journal_balance_def journal_lines_def sample_stored_def sample_line_rows_def sample_journal_row_def
        numeric_sum_def numeric_38_6_def scaled_def signed_coef_def require_def Let_def dec_eq_iff dval_def)
  then have "check_all (assert_journal_balance sample_stored) (drop (length (lt_journals sample_tables)) (lt_journals sample_stored)) = Inr ()"
    by (simp add: sample_stored_def sample_tables_def)
  moreover have "sv_reachable (ps_server sample_pg_server)" "lt_proposals sample_tables = []"
    by (simp_all add: sample_pg_server_def sample_tables_def)
  ultimately show ?thesis
    using fresh sample_tenant sample_proposal_patterns(1)
    by (simp add: pg_post_proposal_def persist_proposal_def transaction_def require_proposal_id_def require_def)
qed

section \<open>Properties\<close>


lemma sample_ledger_run:
  "ledger_run Suc ''urn:cwl:platform:tenant:t1'' 7 sample_tables [(Post sample_proposal sample_policy, sample_receipt)] sample_stored"
proof -
  have "sv_uuid (ps_server sample_pg_server) = Suc" "\<not> list_ex (\<lambda>r. pr_tenant r = 7 \<and> pr_idempotency_key r =
      jp_idempotency_key sample_proposal) (lt_proposals sample_tables)"
    by (simp_all add: sample_pg_server_def sample_tables_def)
  from ledger_run.posted [OF ledger_run.start this(1) sample_tenant sample_proposal_valid sample_lower this(2) sample_policy_resolved sample_posted]
  show ?thesis by simp
qed


lemma occurs_once: "distinct xs \<Longrightarrow> length (filter (\<lambda>y. y = x) xs) = (if x \<in> set xs then 1 else 0)"
  by (induction xs) (auto simp: filter_empty_conv)

text \<open>C2 Double entry on disk: whatever commands have run on a provisioned database, each stored journal
  has lines whose debits and credits add up to exactly the same amount, and a receipt that no other journal
  shares; only the journals that close a period have none.\<close>

theorem persistent_double_entry:
  assumes "empty_tables t0" "inj uuid" "\<forall>(srv, c)\<in>set cs. sv_uuid (ps_server srv) = uuid"
    and "j \<in> set (lt_journals (run_pg_commands t0 cs))"
  shows "journal_balances (run_pg_commands t0 cs) j \<and>
     (let receipts = length (filter (\<lambda>r. rr_journal r = gj_id j) (lt_receipts (run_pg_commands t0 cs))) in
      receipts = 1 \<or> receipts = 0 \<and> closing_journal j)"
proof -
  let ?srv = "sample_pg_server\<lparr>ps_server := (ps_server sample_pg_server)\<lparr>sv_uuid := uuid\<rparr>\<rparr>" and ?t = "run_pg_commands t0 cs"
  have inv: "tables_inv ?srv ?t"
    by (rule run_pg_commands_inv [OF empty_tables_inv [OF assms(1)] assms(2) _ assms(3)]) simp
  then have match: "receipts_match ?t" by (simp add: tables_inv_def)
  have "closing_journal j \<or> gj_id j \<in> set (map rr_journal (lt_receipts ?t))"
    using match assms(4) by (force simp: receipts_match_def receipt_key_def journal_key_def)
  moreover have "length (filter (\<lambda>r. rr_journal r = gj_id j) (lt_receipts ?t)) =
      (if gj_id j \<in> set (map rr_journal (lt_receipts ?t)) then 1 else 0)"
    using match occurs_once [of "map rr_journal (lt_receipts ?t)" "gj_id j"]
    by (simp add: receipts_match_def filter_map comp_def del: set_map)
  ultimately show ?thesis
    using inv assms(4) by (auto simp: tables_inv_def journal_sound_def)
qed

lemma sample_command_run:
  "run_pg_commands sample_tables [(sample_pg_server, Pg_Post ''urn:cwl:platform:tenant:t1'' sample_proposal None)] = sample_stored"
  using sample_posted by (simp add: run_pg_commands_def pg_post_proposal_def)

theorem persistent_double_entry_witness: "journal_balances sample_stored sample_journal_row"
proof -
  have "sample_journal_row \<in> set (lt_journals (run_pg_commands sample_tables
      [(sample_pg_server, Pg_Post ''urn:cwl:platform:tenant:t1'' sample_proposal None)]))"
    by (simp add: sample_command_run) (simp add: sample_stored_def)
  from persistent_double_entry [OF sample_tables_empty inj_Suc _ this] show ?thesis
    by (simp add: sample_command_run) (simp add: sample_pg_server_def)
qed

section \<open>Retries\<close>

lemma journal_for_key_known:
  assumes inv: "tables_inv srv t" and row: "find (\<lambda>p. pr_tenant p = tid \<and> pr_idempotency_key p = key) (lt_proposals t) = Some row"
    and j: "j \<in> set (lt_journals t)" "gj_tenant j = tid" "gj_proposal j = pr_id row"
  shows "journal_for_key t tid key \<noteq> None"
proof -
  obtain j' where j': "find (\<lambda>j. gj_tenant j = tid \<and> gj_proposal j = pr_id row) (lt_journals t) = Some j'"
    using j by (cases "find (\<lambda>j. gj_tenant j = tid \<and> gj_proposal j = pr_id row) (lt_journals t)") (auto simp: find_None_iff)
  then have "j' \<in> set (lt_journals t)" "gj_tenant j' = tid" by (auto dest: find_memberD)
  then obtain b where "b \<in> set (ct_books t)" "bk_tenant b = tid" "bk_id b = gj_book j'"
    using inv unfolding tables_inv_def journal_sound_def by blast
  then have "find (\<lambda>b. bk_tenant b = tid \<and> bk_id b = gj_book j') (ct_books t) \<noteq> None" by (auto simp: find_None_iff)
  then show ?thesis using row j' by (auto simp: journal_for_key_def split: option.splits)
qed

lemma key_recorded:
  assumes run: "persist_proposal srv tref p given t = Inr (t', receipt)" and inv: "tables_inv srv t"
    and uuid: "inj (sv_uuid (ps_server srv))" and tenant: "require_tenant (ps_server srv) (ct_tenants t) tref = Inr tid"
  shows "\<exists>row. find (\<lambda>r. pr_tenant r = tid \<and> pr_idempotency_key r = jp_idempotency_key p) (lt_proposals t') = Some row \<and>
     pr_source_hash row = jp_source_payload_hash p \<and> journal_for_key t' tid (jp_idempotency_key p) \<noteq> None \<and>
     ct_tenants t' = ct_tenants t"
proof (cases "find (\<lambda>r. pr_tenant r = tid \<and> pr_idempotency_key r = jp_idempotency_key p) (lt_proposals t)")
  case (Some row)
  then show ?thesis
    using run tenant
    by (auto simp: persist_proposal_def transaction_Inr result_simps receipt_for_idempotency_key_def split: if_splits option.splits)
next
  case None
  have fresh: "post_fresh_proposal srv tref tid p given t = Inr (t', receipt)"
    and balance: "check_all (assert_journal_balance t') (drop (length (lt_journals t)) (lt_journals t')) = Inr ()"
    using run tenant None by (auto simp: persist_proposal_def transaction_Inr result_simps)
  obtain lines pr j ls where added: "journal_added srv t t' pr j lines ls []" and inv': "tables_inv srv t'" and tid: "gj_tenant j = tid"
    and pr: "pr = \<lparr>pr_id = fresh_id srv t, pr_tenant = tid, pr_external_id = py_lower (jp_proposal_id p),
           pr_contract_version = jp_contract_version p, pr_idempotency_key = jp_idempotency_key p,
           pr_source_hash = jp_source_payload_hash p\<rparr>"
    by (rule post_fresh_effect [OF fresh inv uuid balance]) blast
  note frame = journal_added_frame [OF added inv uuid]
  have row: "find (\<lambda>r. pr_tenant r = tid \<and> pr_idempotency_key r = jp_idempotency_key p) (lt_proposals t') = Some pr"
    using None by (simp add: frame(8) find_append pr)
  have "j \<in> set (lt_journals t')" by (simp add: frame(9))
  from journal_for_key_known [OF inv' row this tid frame(15)] row show ?thesis by (simp add: pr frame(1))
qed

text \<open>C6 An idempotency key is used once. Once a proposal was accepted, any other proposal under its key
  leaves the tables as they are: with another payload hash it fails with a conflict, with the same hash it
  is answered with a receipt. That receipt speaks of the retry, not of what was posted: it carries the
  proposal identifier of the retry and the journal reference that would belong to it.\<close>

theorem key_used_once:
  assumes "persist_proposal srv tref p given t = Inr (t', receipt)" "tables_inv srv t" "inj (sv_uuid (ps_server srv))"
    and "require_tenant (ps_server srv) (ct_tenants t) tref = Inr tid"
    and "require_tenant (ps_server srv') (ct_tenants t) tref = Inr tid" "sv_reachable (ps_server srv')"
    and "jp_idempotency_key q = jp_idempotency_key p" "proposal_id_pattern (jp_proposal_id q)"
  shows "if jp_source_payload_hash q = jp_source_payload_hash p
     then \<exists>again. persist_proposal srv' tref q given' t' = Inr (t', again) \<and> rc_source_proposal_id again = jp_proposal_id q \<and>
       rc_journal_reference again = general_journal_prefix @ jp_proposal_id q
     else persist_proposal srv' tref q given' t' = Inl (conflict_error msg_conflict)"
proof -
  obtain row where row: "find (\<lambda>r. pr_tenant r = tid \<and> pr_idempotency_key r = jp_idempotency_key q) (lt_proposals t') = Some row"
      "pr_source_hash row = jp_source_payload_hash p" "journal_for_key t' tid (jp_idempotency_key q) \<noteq> None"
      "ct_tenants t' = ct_tenants t"
    using key_recorded [OF assms(1-4)] assms(7) by auto
  then show ?thesis
    using assms(5,6,8)
    by (auto simp: persist_proposal_def transaction_def require_proposal_id_def require_def receipt_for_idempotency_key_def)
qed

theorem key_used_once_witness:
  "\<exists>again. pg_post_proposal sample_pg_server ''urn:cwl:platform:tenant:t1''
       (sample_proposal\<lparr>jp_proposal_id := ''00000000-0000-4000-8000-000000000002''\<rparr>) sample_stored = Inr (sample_stored, again) \<and>
     rc_journal_reference again = general_journal_prefix @ ''00000000-0000-4000-8000-000000000002'' \<and>
     find_journal sample_stored 7 (rc_journal_reference again) = None"
proof -
  have "proposal_id_pattern ''00000000-0000-4000-8000-000000000002''" by code_simp
  from key_used_once [OF sample_posted [unfolded pg_post_proposal_def] empty_tables_inv [OF sample_tables_empty] _ sample_tenant sample_tenant,
      of "sample_proposal\<lparr>jp_proposal_id := ''00000000-0000-4000-8000-000000000002''\<rparr>" None] this
  obtain again where "persist_proposal sample_pg_server ''urn:cwl:platform:tenant:t1''
       (sample_proposal\<lparr>jp_proposal_id := ''00000000-0000-4000-8000-000000000002''\<rparr>) None sample_stored = Inr (sample_stored, again)"
     "rc_journal_reference again = general_journal_prefix @ ''00000000-0000-4000-8000-000000000002''"
    by (auto simp: sample_pg_server_def)
  moreover have "find_journal sample_stored 7 (general_journal_prefix @ ''00000000-0000-4000-8000-000000000002'') = None"
    by (simp add: find_journal_def sample_stored_def sample_journal_row_def sample_reference_def general_journal_prefix_def)
  ultimately show ?thesis by (auto simp: pg_post_proposal_def)
qed

end
