(* ===== verification/Persistent_Trial_Balance.thy ===== *)
theory Persistent_Trial_Balance
  imports Persistent_Properties
begin

text \<open>
  The trial balance that the database adds up from its lines: on every database the commands can reach, the
  debit and credit totals over all accounts of a book agree exactly.
\<close>

section \<open>Sums by key\<close>

lemma sum_list_by_key:
  fixes g :: "'a \<Rightarrow> rat"
  assumes "distinct ks" "f ` set xs \<subseteq> set ks"
  shows "sum_list (map (\<lambda>k. sum_list (map g (filter (\<lambda>x. f x = k) xs))) ks) = sum_list (map g xs)"
  using assms(2)
proof (induction xs)
  case (Cons x xs)
  have "sum_list (map (\<lambda>k. sum_list (map g (filter (\<lambda>x. f x = k) (x # xs)))) ks) =
      sum_list (map (\<lambda>k. (if f x = k then g x else 0) + sum_list (map g (filter (\<lambda>x. f x = k) xs))) ks)"
    by (intro arg_cong [of _ _ sum_list] map_cong) auto
  also have "\<dots> = sum_list (map (\<lambda>k. if f x = k then g x else 0) ks) + sum_list (map g xs)"
    using Cons by (simp add: sum_list_addf)
  also have "sum_list (map (\<lambda>k. if f x = k then g x else 0) ks) = g x"
  proof -
    have "f x \<in> set ks" using Cons.prems by simp
    then show ?thesis
      using assms(1) by (simp add: sum_list_distinct_conv_sum_set sum.delta')
  qed
  finally show ?case by simp
qed (simp add: comp_def)

lemma first_occurrences_set [simp]: "set (first_occurrences xs) = set xs" "distinct (first_occurrences xs)"
  by (simp_all add: first_occurrences_def)

lemma sum_list_of_concat: "sum_list (concat xss) = sum_list (map sum_list xss)" for xss :: "rat list list"
  by (induction xss) auto

lemma sum_list_sort_key: "sum_list (map f (sort_key k xs)) = sum_list (map f xs)" for f :: "'a \<Rightarrow> rat"
  by (metis mset_map mset_sort sum_mset_sum_list)

section \<open>Lines and accounts\<close>

lemma line_chart_known:
  assumes "tables_inv srv t" "l \<in> set (lt_lines t)" "ln_tenant l = tid"
  obtains c where "chart_by_id t tid (ln_chart l) = Some c"
proof -
  obtain c where "c \<in> set (ct_charts t)" "ch_tenant c = tid" "ch_id c = ln_chart l"
    using assms unfolding tables_inv_def line_sound_def by blast
  then have "chart_by_id t tid (ln_chart l) \<noteq> None" by (auto simp: chart_by_id_def find_None_iff)
  then show thesis using that by auto
qed

lemma account_totals_sum:
  assumes inv: "tables_inv srv t" and lines: "set lines \<subseteq> set (lt_lines t)" "\<forall>l\<in>set lines. ln_tenant l = tid"
  shows "dval_sum (map (\<lambda>(_, _, debit, _). debit) (account_totals t tid lines)) = dval_sum (map ln_debit lines)"
    and "dval_sum (map (\<lambda>(_, _, _, credit). credit) (account_totals t tid lines)) = dval_sum (map ln_credit lines)"
proof -
  let ?group = "\<lambda>i. filter (\<lambda>l. ln_chart l = i) lines"
  have amounts: "\<forall>d\<in>set (map ln_debit (?group i)). column_amount d" "\<forall>d\<in>set (map ln_credit (?group i)). column_amount d" for i
    using inv lines unfolding tables_inv_def line_sound_def by auto
  have row: "\<exists>c. chart_by_id t tid i = Some c" if "i \<in> ln_chart ` set lines" for i
    using that lines line_chart_known [OF inv] by (metis imageE subsetD)
  have total: "sum_list (map h (account_totals t tid lines)) =
      sum_list (map (\<lambda>i. h (i, ch_code (the (chart_by_id t tid i)), numeric_sum (map ln_debit (?group i)), numeric_sum (map ln_credit (?group i))))
        (first_occurrences (map ln_chart lines)))" for h :: "nat \<times> string \<times> dec \<times> dec \<Rightarrow> rat"
  proof -
    have "sum_list (map h (account_totals t tid lines)) = sum_list (map h (concat (map (\<lambda>i.
          case chart_by_id t tid i of None \<Rightarrow> [] | Some c \<Rightarrow>
            [(i, ch_code c, numeric_sum (map ln_debit (?group i)), numeric_sum (map ln_credit (?group i)))])
         (first_occurrences (map ln_chart lines)))))"
      unfolding account_totals_def Let_def by (rule sum_list_sort_key)
    also have "\<dots> = sum_list (map (\<lambda>i. h (i, ch_code (the (chart_by_id t tid i)), numeric_sum (map ln_debit (?group i)),
        numeric_sum (map ln_credit (?group i)))) (first_occurrences (map ln_chart lines)))"
      unfolding map_concat sum_list_of_concat map_map
      by (intro arg_cong [of _ _ sum_list] map_cong refl) (use row in \<open>force split: option.splits\<close>)
    finally show ?thesis .
  qed
  have "dval_sum (map (\<lambda>(_, _, debit, _). debit) (account_totals t tid lines)) =
      sum_list (map (\<lambda>r. dval (fst (snd (snd r)))) (account_totals t tid lines))"
    by (simp add: comp_def case_prod_unfold)
  also have "\<dots> = sum_list (map (\<lambda>i. sum_list (map (dval \<circ> ln_debit) (?group i))) (first_occurrences (map ln_chart lines)))"
    unfolding total using numeric_sum_value [OF amounts(1)] by (simp add: comp_def)
  also have "\<dots> = sum_list (map (dval \<circ> ln_debit) lines)"
    by (intro sum_list_by_key) auto
  finally show "dval_sum (map (\<lambda>(_, _, debit, _). debit) (account_totals t tid lines)) = dval_sum (map ln_debit lines)"
    by (simp add: comp_def)
  have "dval_sum (map (\<lambda>(_, _, _, credit). credit) (account_totals t tid lines)) =
      sum_list (map (\<lambda>r. dval (snd (snd (snd r)))) (account_totals t tid lines))"
    by (simp add: comp_def case_prod_unfold)
  also have "\<dots> = sum_list (map (\<lambda>i. sum_list (map (dval \<circ> ln_credit) (?group i))) (first_occurrences (map ln_chart lines)))"
    unfolding total using numeric_sum_value [OF amounts(2)] by (simp add: comp_def)
  also have "\<dots> = sum_list (map (dval \<circ> ln_credit) lines)"
    by (intro sum_list_by_key) auto
  finally show "dval_sum (map (\<lambda>(_, _, _, credit). credit) (account_totals t tid lines)) = dval_sum (map ln_credit lines)"
    by (simp add: comp_def)
qed

section \<open>Whole journals\<close>

text \<open>The lines of a scope are the lines of the journals in it.\<close>

lemma journal_id_unique:
  assumes "tables_inv srv t" "j \<in> set (lt_journals t)" "j' \<in> set (lt_journals t)" "gj_id j' = gj_id j"
  shows "j' = j"
proof -
  have "inj_on gj_id (set (lt_journals t))" using assms(1) by (simp add: tables_inv_def ids_below_def distinct_map)
  then show ?thesis using assms(2-4) by (simp add: inj_on_def)
qed

lemma line_journal:
  assumes "tables_inv srv t" "l \<in> set (lt_lines t)"
  obtains j where "j \<in> set (lt_journals t)" "gj_tenant j = ln_tenant l" "gj_id j = ln_journal l"
proof -
  have "line_sound t l" using assms by (simp add: tables_inv_def)
  then show thesis using that by (auto simp: line_sound_def)
qed

lemma scope_lines_balance:
  assumes inv: "tables_inv srv t"
  shows "dval_sum (map ln_debit (filter (scope_line t tid entity book through) (lt_lines t))) =
     dval_sum (map ln_credit (filter (scope_line t tid entity book through) (lt_lines t)))"
proof -
  let ?in = "\<lambda>j. gj_tenant j = tid \<and> gj_entity j = entity \<and> gj_book j = book \<and> gj_accounting_date j \<le> through"
  let ?js = "filter ?in (lt_journals t)" and ?ls = "filter (scope_line t tid entity book through) (lt_lines t)"
  have scope: "scope_line t tid entity book through l \<longleftrightarrow> (\<exists>j\<in>set ?js. gj_tenant j = ln_tenant l \<and> gj_id j = ln_journal l)"
    if "l \<in> set (lt_lines t)" for l
  proof -
    obtain j where j: "j \<in> set (lt_journals t)" "gj_tenant j = ln_tenant l" "gj_id j = ln_journal l"
      by (rule line_journal [OF inv \<open>l \<in> set (lt_lines t)\<close>])
    have known: "journal_by_id t (ln_tenant l) (ln_journal l) = Some j"
      using journal_by_id_known [OF inv j(1)] j by simp
    have one: "(\<exists>j'\<in>set ?js. gj_tenant j' = ln_tenant l \<and> gj_id j' = ln_journal l) \<longleftrightarrow> ?in j"
    proof
      assume "\<exists>j'\<in>set ?js. gj_tenant j' = ln_tenant l \<and> gj_id j' = ln_journal l"
      then obtain j' where j': "j' \<in> set ?js" "gj_id j' = gj_id j" using j(3) by auto
      then have "j' = j" using journal_id_unique [OF inv j(1)] by simp
      then show "?in j" using j'(1) by simp
    next
      assume "?in j"
      then show "\<exists>j'\<in>set ?js. gj_tenant j' = ln_tenant l \<and> gj_id j' = ln_journal l"
        using j by (intro bexI [of _ j]) simp_all
    qed
    show ?thesis
      unfolding one scope_line_def known using j(2) by auto
  qed
  have group: "filter (\<lambda>l. ln_journal l = gj_id j) ?ls = journal_lines t (gj_tenant j) (gj_id j)" if "j \<in> set ?js" for j
  proof -
    have same: "ln_tenant l = gj_tenant j" if "l \<in> set (lt_lines t)" "ln_journal l = gj_id j" for l
    proof -
      obtain j' where j': "j' \<in> set (lt_journals t)" "gj_tenant j' = ln_tenant l" "gj_id j' = ln_journal l"
        by (rule line_journal [OF inv \<open>l \<in> set (lt_lines t)\<close>])
      have "j \<in> set (lt_journals t)" using \<open>j \<in> set ?js\<close> by simp
      from journal_id_unique [OF inv this j'(1)] j' that(2) show ?thesis by simp
    qed
    have "scope_line t tid entity book through l \<and> ln_journal l = gj_id j \<longleftrightarrow> ln_tenant l = gj_tenant j \<and> ln_journal l = gj_id j"
      if "l \<in> set (lt_lines t)" for l
    proof (cases "ln_journal l = gj_id j")
      case True
      then have "ln_tenant l = gj_tenant j" using same \<open>l \<in> set (lt_lines t)\<close> by simp
      then have "gj_tenant j = ln_tenant l \<and> gj_id j = ln_journal l" using True by simp
      then have "scope_line t tid entity book through l"
        using scope [OF \<open>l \<in> set (lt_lines t)\<close>] \<open>j \<in> set ?js\<close> by blast
      then show ?thesis using True \<open>gj_tenant j = ln_tenant l \<and> gj_id j = ln_journal l\<close> by metis
    qed simp
    then have "filter (\<lambda>l. scope_line t tid entity book through l \<and> ln_journal l = gj_id j) (lt_lines t) =
        filter (\<lambda>l. ln_tenant l = gj_tenant j \<and> ln_journal l = gj_id j) (lt_lines t)"
      by (rule filter_cong [OF refl])
    then show ?thesis unfolding journal_lines_def filter_filter .
  qed
  have keys: "distinct (map gj_id ?js)" "ln_journal ` set ?ls \<subseteq> set (map gj_id ?js)"
  proof -
    show "distinct (map gj_id ?js)" using inv by (simp add: tables_inv_def ids_below_def distinct_map_filter)
    show "ln_journal ` set ?ls \<subseteq> set (map gj_id ?js)"
    proof
      fix i assume "i \<in> ln_journal ` set ?ls"
      then obtain l where "l \<in> set (lt_lines t)" "scope_line t tid entity book through l" "i = ln_journal l" by auto
      then have "\<exists>j\<in>set ?js. gj_tenant j = ln_tenant l \<and> gj_id j = ln_journal l" by (simp only: scope)
      then obtain j where "j \<in> set ?js" "gj_id j = i" using \<open>i = ln_journal l\<close> by blast
      then show "i \<in> set (map gj_id ?js)" unfolding set_map by (intro image_eqI [of _ _ j]) simp_all
    qed
  qed
  have sums: "dval_sum (map h ?ls) = sum_list (map (\<lambda>j. dval_sum (map h (journal_lines t (gj_tenant j) (gj_id j)))) ?js)" for h
  proof -
    have "dval_sum (map h ?ls) = sum_list (map (\<lambda>i. sum_list (map (dval \<circ> h) (filter (\<lambda>l. ln_journal l = i) ?ls))) (map gj_id ?js))"
      using sum_list_by_key [OF keys, of "dval \<circ> h"] by (simp add: comp_def)
    also have "\<dots> = sum_list (map (\<lambda>j. dval_sum (map h (journal_lines t (gj_tenant j) (gj_id j)))) ?js)"
      unfolding map_map by (intro arg_cong [of _ _ sum_list] map_cong refl) (simp only: group comp_def map_map)
    finally show ?thesis .
  qed
  have "dval_sum (map ln_debit (journal_lines t (gj_tenant j) (gj_id j))) = dval_sum (map ln_credit (journal_lines t (gj_tenant j) (gj_id j)))"
    if "j \<in> set ?js" for j
  proof -
    have "journal_sound t j" using inv that by (simp add: tables_inv_def)
    then show ?thesis by (simp add: journal_sound_def journal_balances_def Let_def)
  qed
  then show ?thesis
    unfolding sums by (rule arg_cong [OF map_cong [OF refl]])
qed

section \<open>The trial balance\<close>

lemma aggregate_balances:
  assumes inv: "tables_inv srv t"
  shows "dval_sum (map (\<lambda>(_, _, debit, _). debit) (aggregate_trial_balance t tid entity book through)) =
     dval_sum (map (\<lambda>(_, _, _, credit). credit) (aggregate_trial_balance t tid entity book through))"
proof -
  let ?ls = "filter (scope_line t tid entity book through) (lt_lines t)"
  have "set ?ls \<subseteq> set (lt_lines t)" "\<forall>l\<in>set ?ls. ln_tenant l = tid"
    by (auto simp: scope_line_def split: option.splits)
  from account_totals_sum [OF inv this] scope_lines_balance [OF inv] show ?thesis
    unfolding aggregate_trial_balance_def by simp
qed

text \<open>C5 Whatever commands have run on a provisioned database (posts, reversals, adjusting journals, closes and
  openings of any tenants, refused ones included), the totals that the trial balance of a legal entity and book
  adds up through any date have equal debit and credit sums, exactly.\<close>

theorem persistent_trial_balance_balances:
  assumes "empty_tables t0" "inj uuid" "\<forall>(srv, c)\<in>set cs. sv_uuid (ps_server srv) = uuid"
  shows "dval_sum (map (\<lambda>(_, _, debit, _). debit) (aggregate_trial_balance (run_pg_commands t0 cs) tid entity book through)) =
     dval_sum (map (\<lambda>(_, _, _, credit). credit) (aggregate_trial_balance (run_pg_commands t0 cs) tid entity book through))"
proof (rule aggregate_balances)
  let ?srv = "sample_pg_server\<lparr>ps_server := (ps_server sample_pg_server)\<lparr>sv_uuid := uuid\<rparr>\<rparr>"
  show "tables_inv ?srv (run_pg_commands t0 cs)"
    by (rule run_pg_commands_inv [OF empty_tables_inv [OF assms(1)] assms(2) _ assms(3)]) simp
qed

theorem persistent_trial_balance_balances_witness:
  "dval_sum (map (\<lambda>(_, _, debit, _). debit) (aggregate_trial_balance sample_stored 7 1 1 (Date 2026 1 31))) =
     dval_sum (map (\<lambda>(_, _, _, credit). credit) (aggregate_trial_balance sample_stored 7 1 1 (Date 2026 1 31)))"
proof -
  have "\<forall>(srv, c)\<in>set [(sample_pg_server, Pg_Post ''urn:cwl:platform:tenant:t1'' sample_proposal None)].
      sv_uuid (ps_server srv) = Suc"
    by (simp add: sample_pg_server_def)
  from persistent_trial_balance_balances [OF sample_tables_empty inj_Suc this] show ?thesis
    by (simp only: sample_command_run)
qed

end
