(* ===== verification/Persistent_Period_Properties.thy ===== *)
theory Persistent_Period_Properties
  imports Persistent_Properties
begin

text \<open>
  What a close promises: a book closed for good gets no further journal and keeps its snapshots, and a
  retry of the close is answered with its first receipt; and what the opening of a period does with an
  incomplete pair of dates.
\<close>

section \<open>A closed book is final\<close>

definition period_journals :: "ledger_tables \<Rightarrow> nat \<Rightarrow> nat \<Rightarrow> nat \<Rightarrow> journal_row list" where
  "period_journals t tid book period =
     filter (\<lambda>j. gj_tenant j = tid \<and> gj_book j = book \<and> gj_period j = period) (lt_journals t)"

lemma run_pg_commands_append: "run_pg_commands t (cs @ later) = run_pg_commands (run_pg_commands t cs) later"
  by (simp add: run_pg_commands_def)

text \<open>C3 Once a period is hard-closed for a book, nothing that any tenant does afterwards changes it: the book
  stays closed, no journal is added to the period (not even an adjusting, closing or reversal journal), and
  the snapshots of the close stay as they are.\<close>

theorem hard_closed_is_final:
  assumes "empty_tables t0" "inj uuid" "\<forall>(srv, c)\<in>set (cs @ later). sv_uuid (ps_server srv) = uuid"
    and "closed_book (run_pg_commands t0 cs) tid book period"
  shows "closed_book (run_pg_commands t0 (cs @ later)) tid book period \<and>
     period_journals (run_pg_commands t0 (cs @ later)) tid book period = period_journals (run_pg_commands t0 cs) tid book period \<and>
     book_snapshots (run_pg_commands t0 (cs @ later)) tid book period = book_snapshots (run_pg_commands t0 cs) tid book period"
proof -
  let ?srv = "sample_pg_server\<lparr>ps_server := (ps_server sample_pg_server)\<lparr>sv_uuid := uuid\<rparr>\<rparr>" and ?t = "run_pg_commands t0 cs"
  have inv: "tables_inv ?srv ?t"
    by (rule run_pg_commands_inv [OF empty_tables_inv [OF assms(1)] assms(2)]) (use assms(3) in auto)
  have "sv_uuid (ps_server ?srv) = uuid" "\<forall>(srv, c)\<in>set later. sv_uuid (ps_server srv) = uuid" using assms(3) by auto
  from run_pg_commands_kept [OF inv assms(2) this] assms(4) show ?thesis
    unfolding run_pg_commands_append periods_kept_def period_journals_def by blast
qed

definition sample_closed :: ledger_tables where
  "sample_closed = sample_tables\<lparr>lt_controls :=
     [\<lparr>pc_tenant = 7, pc_book = 1, pc_period = 1, pc_status_code = ''hard_closed'', pc_closed_at = None,
       pc_soft_close_key = None, pc_soft_close_hash = None, pc_soft_close_count = None\<rparr>]\<rparr>"

theorem hard_closed_is_final_witness:
  "period_journals (run_pg_commands sample_closed
     [(sample_pg_server, Pg_Post ''urn:cwl:platform:tenant:t1'' sample_proposal None)]) 7 1 1 = []"
proof -
  have "empty_tables sample_closed" using sample_tables_empty by (simp add: sample_closed_def empty_tables_def catalog_keys_def)
  moreover have "closed_book (run_pg_commands sample_closed []) 7 1 1"
    by (simp add: run_pg_commands_def sample_closed_def closed_book_def find_control_def)
  moreover have "\<forall>(srv, c)\<in>set ([] @ [(sample_pg_server, Pg_Post ''urn:cwl:platform:tenant:t1'' sample_proposal None)]).
      sv_uuid (ps_server srv) = Suc" by (simp add: sample_pg_server_def)
  ultimately have "period_journals (run_pg_commands sample_closed
      ([] @ [(sample_pg_server, Pg_Post ''urn:cwl:platform:tenant:t1'' sample_proposal None)])) 7 1 1 =
      period_journals (run_pg_commands sample_closed []) 7 1 1"
    using hard_closed_is_final [OF _ inj_Suc] by blast
  then show ?thesis by (simp add: run_pg_commands_def sample_closed_def period_journals_def sample_tables_def)
qed

section \<open>Retrying a close\<close>

lemma latest_of_book:
  "latest_close_snapshot t tid entity book period =
     (case rev (sort_key (\<lambda>r. instant_micros (sn_generated_at r)) (filter (\<lambda>r. sn_entity r = entity) (book_snapshots t tid book period))) of
        [] \<Rightarrow> None | r # _ \<Rightarrow> Some r)"
proof -
  have "filter (\<lambda>r. sn_tenant r = tid \<and> sn_entity r = entity \<and> sn_book r = book \<and> sn_period r = period) (lt_snapshots t) =
      filter (\<lambda>r. sn_entity r = entity) (book_snapshots t tid book period)"
    unfolding book_snapshots_def filter_filter by (rule filter_cong) auto
  then show ?thesis by (simp only: latest_close_snapshot_def)
qed

lemma has_control_iff: "has_control p (lt_controls t) b \<longleftrightarrow> find_control t (pe_tenant p) (bk_id b) (pe_id p) \<noteq> None"
  by (auto simp: has_control_def find_control_def find_None_iff list_ex_iff)

text \<open>The state after a hard close, as far as a retry looks at it.\<close>

definition closed_with :: "close_scope \<Rightarrow> ledger_tables \<Rightarrow> snapshot_row \<Rightarrow> bool" where
  "closed_with s t r \<longleftrightarrow> closed_book t (cs_tenant s) (cs_book s) (cs_period s) \<and> sn_close_key r = cs_key s \<and>
     latest_close_snapshot t (cs_tenant s) (cs_entity s) (cs_book s) (cs_period s) = Some r \<and>
     (\<exists>p. period_of_code t (cs_tenant s) (cc_period_code (cs_command s)) = Some p \<and> pe_id p = cs_period s \<and>
        pe_end_date p = cs_end_date s \<and> (\<forall>b\<in>set (current_books t (cs_tenant s)). has_control p (lt_controls t) b))"

definition replayed_receipt :: "close_scope \<Rightarrow> snapshot_row \<Rightarrow> period_close_receipt" where
  "replayed_receipt s r =
     close_receipt s ''hard_closed'' (uuid_text (sn_id r)) (sn_generated_at r) (sn_journal_count r) (sn_hash r) True"

lemma period_of_code_tenant: "period_of_code t tid pcode = Some p \<Longrightarrow> pe_tenant p = tid"
  by (auto simp: period_of_code_def dest!: find_memberD)

lemma closed_with_kept:
  assumes "closed_with s t r" "periods_kept t t'" "ct_books t' = ct_books t"
  shows "closed_with s t' r"
proof -
  obtain p where p: "period_of_code t (cs_tenant s) (cc_period_code (cs_command s)) = Some p" "pe_id p = cs_period s"
      "pe_end_date p = cs_end_date s" "\<forall>b\<in>set (current_books t (cs_tenant s)). has_control p (lt_controls t) b"
    using assms(1) by (auto simp: closed_with_def)
  obtain p' where p': "period_of_code t' (cs_tenant s) (cc_period_code (cs_command s)) = Some p'" "same_period p p'"
    using assms(2) p(1) unfolding periods_kept_def by blast
  have "\<forall>b\<in>set (current_books t' (cs_tenant s)). has_control p' (lt_controls t') b"
    using p(4) assms(2,3) p'(2) unfolding has_control_iff periods_kept_def same_period_def current_books_def by auto
  moreover have "book_snapshots t' (cs_tenant s) (cs_book s) (cs_period s) = book_snapshots t (cs_tenant s) (cs_book s) (cs_period s)"
    "closed_book t' (cs_tenant s) (cs_book s) (cs_period s)"
    using assms(1,2) unfolding closed_with_def periods_kept_def by blast+
  ultimately show ?thesis
    using assms(1) p p' unfolding closed_with_def latest_of_book same_period_def by auto
qed

lemma lock_closed_with:
  assumes "closed_with s t r"
  shows "lock_book_period (cs_tenant s) (cs_book s) (cc_period_code (cs_command s)) t =
     Inr (t, cs_period s, ''hard_closed'', cs_end_date s)"
proof -
  obtain p where p: "period_of_code t (cs_tenant s) (cc_period_code (cs_command s)) = Some p" "pe_id p = cs_period s"
      "pe_end_date p = cs_end_date s" "\<forall>b\<in>set (current_books t (cs_tenant s)). has_control p (lt_controls t) b"
    using assms by (auto simp: closed_with_def)
  obtain c where "find_control t (cs_tenant s) (cs_book s) (cs_period s) = Some c" "pc_status_code c = ''hard_closed''"
    using assms by (auto simp: closed_with_def closed_book_def split: option.splits)
  then show ?thesis
    using p by (simp add: lock_book_period_def Let_def foldl_add_control_none)
qed

lemma replay_closed_with: "closed_with s t r \<Longrightarrow> replay_close_receipt s t = Inr (replayed_receipt s r)"
  by (simp add: replay_close_receipt_def closed_with_def replayed_receipt_def)

lemma close_locked_leaves:
  assumes run: "close_locked srv reports s status t = Inr (t', receipt)" and hard: "cc_period_status_code (cs_command s) = ''hard_closed''"
    and status: "closed_book t (cs_tenant s) (cs_book s) (cs_period s) \<longleftrightarrow> status = ''hard_closed''"
    and control: "find_control t (cs_tenant s) (cs_book s) (cs_period s) \<noteq> None"
    and period: "period_of_code t (cs_tenant s) (cc_period_code (cs_command s)) = Some p" "pe_id p = cs_period s" "pe_end_date p = cs_end_date s"
      "\<forall>b\<in>set (current_books t (cs_tenant s)). has_control p (lt_controls t) b"
    and lines: "\<forall>l\<in>set (lt_lines t). ln_journal l \<noteq> sv_uuid (ps_server srv) (Suc (Suc (lt_inserted t)))"
    and kept: "periods_kept t t'" "ct_books t' = ct_books t"
  shows "\<exists>r. closed_with s t' r \<and> receipt\<lparr>pc_replayed := True\<rparr> = replayed_receipt s r"
proof (cases "status = ''hard_closed''")
  case True
  then have "replay_close_receipt s t = Inr receipt" "t' = t"
    using run hard by (auto simp: close_locked_def Let_def result_simps)
  then obtain r where "latest_close_snapshot t (cs_tenant s) (cs_entity s) (cs_book s) (cs_period s) = Some r" "sn_close_key r = cs_key s"
      "receipt = replayed_receipt s r"
    by (auto simp: replay_close_receipt_def replayed_receipt_def split: option.splits if_splits)
  then show ?thesis
    using True status period \<open>t' = t\<close> by (auto simp: closed_with_def replayed_receipt_def close_receipt_def)
next
  case False
  then have "persist_period_close srv s t = Inr (t', receipt)"
    using run hard by (auto simp: close_locked_def Let_def result_simps split: if_splits)
  moreover have "\<not> closed_book t (cs_tenant s) (cs_book s) (cs_period s)" using False status by simp
  ultimately obtain snapshot where close: "closed_book t' (cs_tenant s) (cs_book s) (cs_period s)"
     "lt_snapshots t' = lt_snapshots t @ [snapshot]"
     "sn_tenant snapshot = cs_tenant s" "sn_entity snapshot = cs_entity s" "sn_book snapshot = cs_book s"
     "sn_period snapshot = cs_period s" "sn_close_key snapshot = cs_key s"
     "\<forall>r\<in>set (lt_snapshots t). \<not> (sn_tenant r = cs_tenant s \<and> sn_entity r = cs_entity s \<and>
       sn_book r = cs_book s \<and> sn_period r = cs_period s)"
     "receipt = close_receipt s ''hard_closed'' (uuid_text (sn_id snapshot)) (sn_generated_at snapshot)
       (sn_journal_count snapshot) (sn_hash snapshot) False"
    using control lines by (blast elim: persist_period_close_effect)
  have "filter (\<lambda>r. sn_tenant r = cs_tenant s \<and> sn_entity r = cs_entity s \<and> sn_book r = cs_book s \<and> sn_period r = cs_period s)
      (lt_snapshots t') = [snapshot]"
    using close(2-6,8) by (simp add: filter_empty_conv)
  then have latest: "latest_close_snapshot t' (cs_tenant s) (cs_entity s) (cs_book s) (cs_period s) = Some snapshot"
    by (simp add: latest_close_snapshot_def)
  obtain p' where p': "period_of_code t' (cs_tenant s) (cc_period_code (cs_command s)) = Some p'" "same_period p p'"
    using kept(1) period(1) unfolding periods_kept_def by blast
  have "\<forall>b\<in>set (current_books t' (cs_tenant s)). has_control p' (lt_controls t') b"
    using period(4) kept p'(2) unfolding has_control_iff periods_kept_def same_period_def current_books_def by auto
  then have "closed_with s t' snapshot"
    using close latest p' period by (auto simp: closed_with_def same_period_def)
  then show ?thesis using close(9) by (auto simp: replayed_receipt_def close_receipt_def)
qed

lemma pg_close_checks:
  assumes "pg_close_fiscal_period srv reports tref c t = Inr (t', receipt)"
  shows "pg_close_fiscal_period srv reports' tref c u = transaction srv (close_in_session srv reports' tref c) u"
  using assms by (auto simp: pg_close_fiscal_period_def result_simps split: sum.splits if_splits)

lemma hard_close_leaves:
  assumes run: "pg_close_fiscal_period srv reports tref c t = Inr (t', receipt)" and hard: "cc_period_status_code c = ''hard_closed''"
    and inv: "tables_inv srv t" and uuid: "inj (sv_uuid (ps_server srv))"
    and tenant: "require_tenant (ps_server srv) (ct_tenants t) tref = Inr tid"
  obtains s r entity book currency where "closed_with s t' r" "receipt\<lparr>pc_replayed := True\<rparr> = replayed_receipt s r"
    and "s = \<lparr>cs_tenant = tid, cs_entity = entity, cs_book = book, cs_period = cs_period s, cs_end_date = cs_end_date s,
           cs_tenant_reference = tref, cs_command = c, cs_key = close_key tref c\<rparr>"
    and "require_entity_for t tid (cc_legal_entity_reference c) ''the close'' = Inr entity"
    and "require_book_for_close t tid entity (cc_book_reference c) ''the close'' = Inr (book, currency)"
    and "cc_snapshot_currency_code c = currency"
proof -
  note body = pg_close_run [OF run]
  obtain entity book currency t1 period status period_end
    where entity: "require_entity_for t tid (cc_legal_entity_reference c) ''the close'' = Inr entity"
      and book: "require_book_for_close t tid entity (cc_book_reference c) ''the close'' = Inr (book, currency)"
      and currency: "cc_snapshot_currency_code c = currency"
      and lock: "lock_book_period tid book (cc_period_code c) t = Inr (t1, period, status, period_end)"
      and closed: "close_locked srv reports
           \<lparr>cs_tenant = tid, cs_entity = entity, cs_book = book, cs_period = period,
            cs_end_date = period_end, cs_tenant_reference = tref, cs_command = c, cs_key = close_key tref c\<rparr> status t1 = Inr (t', receipt)"
    using body tenant unfolding close_in_session_def by (auto simp: result_simps split: if_splits)
  let ?s = "\<lparr>cs_tenant = tid, cs_entity = entity, cs_book = book, cs_period = period,
            cs_end_date = period_end, cs_tenant_reference = tref, cs_command = c, cs_key = close_key tref c\<rparr>"
  obtain p where p: "period_of_code t tid (cc_period_code c) = Some p" "period = pe_id p" "period_end = pe_end_date p"
    and t1: "t1 = t\<lparr>lt_controls := foldl (add_control p) (lt_controls t) (current_books t tid)\<rparr>"
    and changed: "periods_changed t t1" and status: "closed_book t1 tid book period \<longleftrightarrow> status = ''hard_closed''"
    and control: "find_control t1 tid book period \<noteq> None"
    by (rule lock_book_period_effect [OF lock])
  have inv1: "tables_inv srv t1" by (rule periods_changed_inv [OF changed inv])
  have all: "\<forall>b\<in>set (current_books t1 tid). has_control p (lt_controls t1) b"
    by (simp add: t1 current_books_def foldl_add_control_all)
  have period1: "period_of_code t1 tid (cc_period_code c) = Some p" using p(1) by (simp add: t1 period_of_code_def)
  have "step_to srv tid t1 t'"
    using close_locked_step [OF closed, simplified, OF status inv1 uuid] body
      require_entity_for_ok [OF entity] require_book_for_close_ok [OF book] by (simp add: periods_changed_frame [OF changed])
  then have kept: "periods_kept t1 t'" "ct_books t' = ct_books t1" by (auto dest: step_to_kept step_to_catalog)
  have "\<exists>r. closed_with ?s t' r \<and> receipt\<lparr>pc_replayed := True\<rparr> = replayed_receipt ?s r"
    by (rule close_locked_leaves [OF closed, of p])
      (use hard status control period1 p all kept fresh_journal_lines [OF inv1 uuid] in simp_all)
  then obtain r where "closed_with ?s t' r" "receipt\<lparr>pc_replayed := True\<rparr> = replayed_receipt ?s r" by blast
  from that [OF this _ entity book currency] show thesis by simp
qed

text \<open>C4 A hard close that succeeded can be retried: after any further commands of any tenants the same
  command is answered with the receipt of the first call, marked as replayed, and the database stays exactly
  as it is; the reports of the close package are not asked again.\<close>

theorem hard_close_replays:
  assumes "pg_close_fiscal_period srv reports tref c t = Inr (t', receipt)" "cc_period_status_code c = ''hard_closed''"
    and "tables_inv srv t" "inj (sv_uuid (ps_server srv))"
    and "\<forall>(srv', c)\<in>set later. sv_uuid (ps_server srv') = sv_uuid (ps_server srv)"
  shows "pg_close_fiscal_period srv reports' tref c (run_pg_commands t' later) =
     Inr (run_pg_commands t' later, receipt\<lparr>pc_replayed := True\<rparr>)"
proof -
  note body = pg_close_run [OF assms(1)]
  then obtain tid where tenant: "require_tenant (ps_server srv) (ct_tenants t) tref = Inr tid"
    by (auto simp: close_in_session_def result_simps)
  obtain s r entity book currency where s: "closed_with s t' r" "receipt\<lparr>pc_replayed := True\<rparr> = replayed_receipt s r"
      "s = \<lparr>cs_tenant = tid, cs_entity = entity, cs_book = book, cs_period = cs_period s, cs_end_date = cs_end_date s,
           cs_tenant_reference = tref, cs_command = c, cs_key = close_key tref c\<rparr>"
    and scope: "require_entity_for t tid (cc_legal_entity_reference c) ''the close'' = Inr entity"
      "require_book_for_close t tid entity (cc_book_reference c) ''the close'' = Inr (book, currency)"
      "cc_snapshot_currency_code c = currency"
    by (rule hard_close_leaves [OF assms(1-4) tenant])
  have fields: "cs_tenant s = tid" "cs_entity s = entity" "cs_book s = book" "cs_command s = c" by (subst s(3), simp)+
  let ?u = "run_pg_commands t' later"
  from pg_close_step [OF assms(1,3,4)] obtain tid' where step: "step_to srv tid' t t'" by blast
  have inv': "tables_inv srv t'" by (rule step_to_inv [OF step assms(3)])
  note kept = run_pg_commands_kept [OF inv' assms(4) refl assms(5)] and catalog = step_to_catalog [OF step]
  have closed: "closed_with s ?u r" using closed_with_kept [OF s(1)] kept by blast
  have same: "ct_tenants ?u = ct_tenants t" "ct_entities ?u = ct_entities t" "ct_books ?u = ct_books t"
    using kept catalog by simp_all
  have "require_entity_for ?u tid (cc_legal_entity_reference c) ''the close'' = Inr entity"
    "require_book_for_close ?u tid entity (cc_book_reference c) ''the close'' = Inr (book, currency)"
    using scope(1,2) by (simp_all add: require_entity_for_def require_book_for_close_def find_named_book_def same)
  moreover have "lock_book_period tid book (cc_period_code c) ?u = Inr (?u, cs_period s, ''hard_closed'', cs_end_date s)"
    using lock_closed_with [OF closed] fields by simp
  moreover have "close_locked srv reports' s ''hard_closed'' ?u = Inr (?u, replayed_receipt s r)"
    using replay_closed_with [OF closed] assms(2) fields by (simp add: close_locked_def Let_def)
  ultimately have "close_in_session srv reports' tref c ?u = Inr (?u, replayed_receipt s r)"
    using tenant scope(3) s(3) by (simp add: close_in_session_def same)
  then show ?thesis
    using body s(2) unfolding pg_close_checks [OF assms(1)] by (simp add: transaction_Inr)
qed

definition sample_close :: close_command where
  "sample_close =
     \<lparr>cc_legal_entity_reference = ''urn:cwl:accounting:legal_entity:e1'', cc_book_reference = ''urn:cwl:accounting:book:b1'',
      cc_period_code = ''2026-01'', cc_snapshot_currency_code = ''KRW'', cc_period_status_code = ''hard_closed'',
      cc_idempotency_key = ''close-1''\<rparr>"

definition sample_scope :: close_scope where
  "sample_scope =
     \<lparr>cs_tenant = 7, cs_entity = 1, cs_book = 1, cs_period = 1, cs_end_date = Date 2026 1 31,
      cs_tenant_reference = ''urn:cwl:platform:tenant:t1'', cs_command = sample_close, cs_key = ''close-1''\<rparr>"

definition sample_locked :: ledger_tables where
  "sample_locked = sample_tables\<lparr>lt_controls :=
     [\<lparr>pc_tenant = 7, pc_book = 1, pc_period = 1, pc_status_code = ''open'', pc_closed_at = None,
       pc_soft_close_key = None, pc_soft_close_hash = None, pc_soft_close_count = None\<rparr>]\<rparr>"

lemma sample_patterns:
  "reference_pattern ''urn:cwl:accounting:legal_entity:e1''" "reference_pattern ''urn:cwl:accounting:book:b1''"
  "currency_pattern ''KRW''" "strip ''2026-01'' = ''2026-01''" "strip ''close-1'' = ''close-1''" "not_blank ''close-1''"
  by code_simp+

lemma sample_references:
  "require_reference ''urn:cwl:accounting:legal_entity:e1'' ''legal entity reference'' = Inr ()"
  "require_reference ''urn:cwl:accounting:book:b1'' ''accounting book reference'' = Inr ()"
  "require_currency ''KRW'' = Inr ()" "currency_pattern ''KRW''" "strip ''2026-01'' = ''2026-01''" "strip ''close-1'' = ''close-1''"
  "not_blank ''close-1''"
  using sample_patterns by (simp_all add: require_reference_def require_currency_def require_def)

lemma sample_scope_found:
  "require_entity_for sample_tables 7 ''urn:cwl:accounting:legal_entity:e1'' what = Inr 1"
  "require_book_for_close sample_tables 7 1 ''urn:cwl:accounting:book:b1'' what = Inr (1, ''KRW'')"
  "lock_book_period 7 1 ''2026-01'' sample_tables = Inr (sample_locked, 1, ''open'', Date 2026 1 31)"
  by (simp_all add: require_entity_for_def load_legal_entity_def require_book_for_close_def find_named_book_def
      lock_book_period_def period_of_code_def current_books_def add_control_def find_control_def sample_locked_def sample_tables_def Let_def)

lemma sample_package:
  "require_close_package sample_pg_server (\<lambda>c t. Inr ()) ''urn:cwl:platform:tenant:t1'' sample_close sample_locked = Inr ()"
proof -
  have scope: "require_entity_for sample_locked 7 ''urn:cwl:accounting:legal_entity:e1'' what = Inr 1"
    "require_book_for_close sample_locked 7 1 ''urn:cwl:accounting:book:b1'' what = Inr (1, ''KRW'')" for what
    by (simp_all add: require_entity_for_def load_legal_entity_def require_book_for_close_def find_named_book_def
        sample_locked_def sample_tables_def)
  have tenant: "require_tenant (ps_server sample_pg_server) (ct_tenants sample_locked) ''urn:cwl:platform:tenant:t1'' = Inr 7"
    using sample_tenant by (simp add: sample_locked_def)
  have "aggregate_trial_balance sample_locked 7 1 1 (Date 2026 1 31) = []"
    by (simp add: aggregate_trial_balance_def account_totals_def first_occurrences_def sample_locked_def sample_tables_def)
  then have source: "balance_lines sample_locked 7 1 1 (1, ''open'', Date 2026 1 31) ''2026-01'' [] = Inr ([], ''live'', None)"
    by (simp add: balance_lines_def Let_def del: One_nat_def)
  have code: "period_of_code sample_locked 7 ''2026-01'' =
     Some \<lparr>pe_id = 1, pe_tenant = 7, pe_calendar = 1, pe_code = ''2026-01'', pe_start_date = Date 2026 1 1,
        pe_end_date = Date 2026 1 31, pe_status_code = ''open'', pe_closed_at = None\<rparr>"
    by (simp add: period_of_code_def sample_locked_def sample_tables_def)
  obtain doc where period: "load_fiscal_period sample_pg_server ''urn:cwl:platform:tenant:t1'' ''urn:cwl:accounting:legal_entity:e1''
      ''2026-01'' sample_locked = Inr doc"
    using tenant by (simp add: load_fiscal_period_def scope code del: One_nat_def)
  have balance: "load_period_trial_balance sample_pg_server ''urn:cwl:platform:tenant:t1'' ''urn:cwl:accounting:legal_entity:e1''
      ''urn:cwl:accounting:book:b1'' ''2026-01'' [] sample_locked =
      Inr (period_balance_document ''urn:cwl:platform:tenant:t1'' ''urn:cwl:accounting:legal_entity:e1''
        ''urn:cwl:accounting:book:b1'' ''2026-01'' ''open'' [] ([], ''live'', None))"
    using tenant by (simp add: load_period_trial_balance_def sample_references scope require_fiscal_period_def code source del: One_nat_def)
  have "require_closeable (period_balance_document ''urn:cwl:platform:tenant:t1'' ''urn:cwl:accounting:legal_entity:e1''
        ''urn:cwl:accounting:book:b1'' ''2026-01'' ''open'' [] ([], ''live'', None)) = Inr ()"
    by (simp add: require_closeable_def document_lines_def period_balance_document_def get_value_def dec_eq_iff)
  then show ?thesis by (simp add: require_close_package_def sample_close_def period balance)
qed

lemma sample_closing: "post_closing_journal sample_pg_server sample_scope sample_locked = Inr sample_locked"
  by (simp add: post_closing_journal_def closing_lines_of_def income_rows_def income_lines_def first_occurrences_def
      sample_locked_def sample_tables_def Let_def)

lemma sample_closed_now:
  "\<exists>t' receipt. persist_period_close sample_pg_server sample_scope sample_locked = Inr (t', receipt) \<and> \<not> pc_replayed receipt"
proof -
  obtain lines n h where live: "live_close_source sample_scope sample_locked = (lines, n, h)"
    by (cases "live_close_source sample_scope sample_locked")
  have "lines = []" "hash_pattern h"
    using live sha256_reference_pattern
    by (auto simp: live_close_source_def Let_def aggregate_trial_balance_def account_totals_def first_occurrences_def
        sample_locked_def sample_tables_def canonical_snapshot_hash_def)
  moreover have "lt_snapshots sample_locked = []" by (simp add: sample_locked_def sample_tables_def)
  moreover have "cc_snapshot_currency_code (cs_command sample_scope) = ''KRW''" "cs_key sample_scope = ''close-1''"
    by (simp_all add: sample_scope_def sample_close_def)
  ultimately show ?thesis
    using sample_references(4,7)
    by (simp add: persist_period_close_def sample_closing live insert_snapshot_def Let_def close_receipt_def split: prod.splits)
qed

lemma sample_close_run:
  "\<exists>t' receipt. pg_close_fiscal_period sample_pg_server (\<lambda>c t. Inr ()) ''urn:cwl:platform:tenant:t1'' sample_close sample_tables =
     Inr (t', receipt) \<and> \<not> pc_replayed receipt"
proof -
  obtain t' receipt where run: "persist_period_close sample_pg_server sample_scope sample_locked = Inr (t', receipt)" "\<not> pc_replayed receipt"
    using sample_closed_now by blast
  have "close_locked sample_pg_server (\<lambda>c t. Inr ()) sample_scope ''open'' sample_locked = Inr (t', receipt)"
    using sample_package run by (simp add: close_locked_def sample_scope_def sample_close_def Let_def)
  then have "close_in_session sample_pg_server (\<lambda>c t. Inr ()) ''urn:cwl:platform:tenant:t1'' sample_close sample_tables = Inr (t', receipt)"
    using sample_tenant sample_scope_found
    by (simp add: close_in_session_def sample_close_def sample_scope_def close_key_def sample_references del: One_nat_def)
  moreover have "lt_journals t' = lt_journals sample_tables"
  proof -
    have "\<not> closed_book sample_locked (cs_tenant sample_scope) (cs_book sample_scope) (cs_period sample_scope)"
      "lt_lines sample_locked = []" "lt_journals sample_locked = lt_journals sample_tables"
      by (simp_all add: sample_locked_def sample_tables_def closed_book_def find_control_def sample_scope_def)
    moreover have "\<forall>l\<in>set (lt_lines sample_locked). ln_journal l \<noteq>
        sv_uuid (ps_server sample_pg_server) (Suc (Suc (lt_inserted sample_locked)))"
      by (simp add: calculation(2))
    ultimately obtain t1 where "post_closing_journal sample_pg_server sample_scope sample_locked = Inr t1" "periods_changed t1 t'"
      using persist_period_close_effect [OF run(1)] by blast
    then show ?thesis
      using sample_closing \<open>lt_journals sample_locked = lt_journals sample_tables\<close> by (simp add: periods_changed_frame(8))
  qed
  ultimately show ?thesis
    using run(2) by (simp add: pg_close_fiscal_period_def sample_close_def sample_references transaction_def require_def sample_pg_server_def)
qed

theorem hard_close_replays_witness:
  "\<exists>t' receipt. pg_close_fiscal_period sample_pg_server (\<lambda>c t. Inr ()) ''urn:cwl:platform:tenant:t1'' sample_close sample_tables =
       Inr (t', receipt) \<and> \<not> pc_replayed receipt \<and>
     pg_close_fiscal_period sample_pg_server (\<lambda>c t. Inl TypeError) ''urn:cwl:platform:tenant:t1'' sample_close t' =
       Inr (t', receipt\<lparr>pc_replayed := True\<rparr>)"
proof -
  obtain t' receipt where run: "pg_close_fiscal_period sample_pg_server (\<lambda>c t. Inr ()) ''urn:cwl:platform:tenant:t1'' sample_close
      sample_tables = Inr (t', receipt)" "\<not> pc_replayed receipt"
    using sample_close_run by blast
  have "cc_period_status_code sample_close = ''hard_closed''" "inj (sv_uuid (ps_server sample_pg_server))"
    by (simp_all add: sample_close_def sample_pg_server_def)
  from hard_close_replays [OF run(1) this(1) empty_tables_inv [OF sample_tables_empty] this(2), of "[]" "\<lambda>c t. Inl TypeError"] run
  show ?thesis by (auto simp: run_pg_commands_def)
qed

section \<open>Opening with one date\<close>

text \<open>C40 A command that opens an open period again and repeats only one of its dates, the right one, passes every
  check of the function, but the row it records must have both dates or none: it fails with the raw
  constraint error of the database instead of an answer, although the function only asks that dates match.\<close>

theorem open_with_one_date_fails:
  assumes "require_tenant (ps_server srv) (ct_tenants t) tref = Inr tid" "sv_reachable (ps_server srv)"
    and "require_entity_for t tid (oc_legal_entity_reference c) ''the period open'' = Inr entity"
    and "prior_open t tid (oc_idempotency_key c) = None" "strip (oc_idempotency_key c) = oc_idempotency_key c"
    and "oc_legal_entity_reference c \<noteq> []" "oc_period_code c \<noteq> []" "oc_idempotency_key c \<noteq> []" "hash_pattern (oc_source_payload_hash c)"
    and "period_of_code t tid (oc_period_code c) = Some p" "pe_status_code p = ''open''"
    and "(oc_period_start_date c, oc_period_end_date c) \<in> {(Some (pe_start_date p), None), (None, Some (pe_end_date p))}"
  shows "pg_open_fiscal_period srv tref c t = Inl (DatabaseError ''23514'')"
proof -
  have "open_period_row srv tid c t = Inr (t, p, True)"
    using assms(10-12) by (auto simp: open_period_row_def)
  moreover have "insert_open_command \<lparr>po_tenant = tid, po_entity = entity, po_period = pe_id p, po_key = oc_idempotency_key c,
      po_hash = oc_source_payload_hash c, po_requested_start = oc_period_start_date c,
      po_requested_end = oc_period_end_date c\<rparr> t = Inl (DatabaseError ''23514'')"
    using assms(12) by (auto simp: insert_open_command_def)
  ultimately have "open_in_session srv tref c t = Inl (DatabaseError ''23514'')"
    using assms(1,3-5) by (simp add: open_in_session_def)
  then show ?thesis using assms(2,5-9) by (simp add: pg_open_fiscal_period_def transaction_def require_def)
qed

definition sample_open :: open_command where
  "sample_open =
     \<lparr>oc_legal_entity_reference = ''urn:cwl:accounting:legal_entity:e1'', oc_period_code = ''2026-01'',
      oc_period_start_date = Some (Date 2026 1 1), oc_period_end_date = None, oc_idempotency_key = ''close-1'',
      oc_source_payload_hash = jp_source_payload_hash sample_proposal\<rparr>"

theorem open_with_one_date_fails_witness:
  "pg_open_fiscal_period sample_pg_server ''urn:cwl:platform:tenant:t1'' sample_open sample_tables = Inl (DatabaseError ''23514'')"
proof (rule open_with_one_date_fails [OF sample_tenant])
  show "require_entity_for sample_tables 7 (oc_legal_entity_reference sample_open) ''the period open'' = Inr 1"
    by (simp add: sample_open_def sample_scope_found)
  show "period_of_code sample_tables 7 (oc_period_code sample_open) =
     Some \<lparr>pe_id = 1, pe_tenant = 7, pe_calendar = 1, pe_code = ''2026-01'', pe_start_date = Date 2026 1 1,
        pe_end_date = Date 2026 1 31, pe_status_code = ''open'', pe_closed_at = None\<rparr>"
    by (simp add: period_of_code_def sample_tables_def sample_open_def)
qed (use sample_patterns sample_proposal_patterns in
    \<open>simp_all add: sample_open_def sample_pg_server_def prior_open_def sample_tables_def\<close>)

end
