(* ===== verification/Spec2Isabelle.thy ===== *)
theory Spec2Isabelle
  imports Ingest_Properties Reconciliation_Properties Accept_Properties Paging_Properties Bank_Pages Persistent_Trial_Balance Persistent_Period_Properties
begin

text \<open>
  A verification development for the accounting information platform: the Python package
  \<open>src/accounting_information_platform\<close>, which takes journal proposals from a billing product, posts
  them into a double-entry ledger on PostgreSQL, closes fiscal periods, and reconciles the books with bank
  statements. This theory imports the others and holds no definitions.

  \<^bold>\<open>The program.\<close> \<open>core.py\<close> defines the validated values (amounts, lines, proposals, policies,
  receipts) and an in-memory ledger, \<open>PostingLedger\<close>, that its tests use as the reference.
  \<open>ingest.py\<close> reads a published proposal document into such a value. \<open>persistence.py\<close> is the ledger
  of production, \<open>PostgresPostingLedger\<close>: one transaction per command over the tables of
  \<open>database/migrations\<close>, whose constraints and triggers are part of its behaviour. \<open>accept.py\<close> is the
  facade in front of it: it checks the payload of a command or a read, opens the ledger of the tenant and
  calls it. \<open>billing_pull.py\<close> reads pages of proposals over HTTP and hands each to the facade.
  \<open>bank_statement.py\<close> reads camt.053 XML into a normalized statement and registers it;
  \<open>reconciliation.py\<close>, \<open>allocation.py\<close>, \<open>reconciliation_bridge.py\<close> and
  \<open>reconciliation_read_model.py\<close> match statements with journals and review the result.

  \<^bold>\<open>The layers.\<close>

  \<^item> \<open>Prelude\<close>: exceptions as values (\<open>py_exc\<close>), \<open>result\<close> and \<open>io\<close> as the types of fallible
    and of stateful code, the recursion schemes of \<open>for\<close> loops that may raise, dictionaries in the order of
    insertion. \<open>Command_Contract\<close>: the locales of the interfaces between a component that takes commands
    and its callers (an invariant kept, replays, an append-only log).
  \<^item> The Python and PostgreSQL the program uses: \<open>Python_Text\<close>, \<open>Python_Number\<close>,
    \<open>Python_Decimal\<close> (the default context: 28 digits, half-even), \<open>Python_Value\<close>,
    \<open>Calendar_Date\<close>, \<open>Calendar_Time\<close>, \<open>Url\<close>, \<open>Sha1\<close>, \<open>Sha256\<close> (with canonical JSON),
    \<open>Postgres_Session\<close> (connection, transaction, tenant binding, \<open>numeric(38, 6)\<close>).
  \<^item> \<open>core.py\<close>: \<open>Core\<close>, \<open>Posting_Ledger\<close>; \<open>ingest.py\<close>: \<open>Ingest\<close>.
  \<^item> \<open>persistence.py\<close>: \<open>Ledger_Tables\<close> (the rows, and every insert with the CHECK, UNIQUE
    and trigger conditions of its migration), \<open>Ledger_Catalog\<close> (entities, books, mappings, periods),
    \<open>Persistent_Posting\<close> (\<open>post\<close>, \<open>post_proposal\<close>, \<open>reverse\<close>), \<open>Persistent_Adjusting\<close>,
    \<open>Persistent_Periods\<close> and \<open>Persistent_Close\<close> (\<open>open_fiscal_period\<close>, \<open>close_fiscal_period\<close>
    soft and hard, the closing journal and its snapshot), \<open>Persistent_Reads\<close>.
  \<^item> \<open>accept.py\<close>: \<open>Paging\<close> (limits and cursors), \<open>Ledger_Service\<close> (what it calls of the ledger),
    \<open>Accept_Commands\<close>, \<open>Accept_Lookups\<close>; \<open>billing_pull.py\<close>: \<open>Billing_Pull\<close>, with the contract
    of its collaborators as the locale of \<open>Pull_Contract\<close>.
  \<^item> \<open>bank_statement.py\<close>: \<open>Statement_Xml\<close> (the bounded reader), \<open>Bank_Statement\<close>
    (normalization), \<open>Bank_Registry\<close> and \<open>Bank_Ingestion\<close> (the tables and commands).
  \<^item> \<open>reconciliation.py\<close>: \<open>Reconciliation\<close>; \<open>allocation.py\<close>: \<open>Allocation\<close>;
    \<open>reconciliation_bridge.py\<close>: \<open>Reconciliation_Bridge\<close>; \<open>reconciliation_read_model.py\<close>:
    \<open>Close_Review\<close>.

  \<^bold>\<open>How state and operations correspond.\<close> A class or a table row is a \<open>record\<close>, a table the list of its
  rows in the order of the inserts. A method is a definition under its own name (with the prefix \<open>pg_\<close>
  where both ledgers have it). Every \<open>raise\<close> is a value of \<open>py_exc\<close> with its message, an error of the
  database the constructor \<open>DatabaseError\<close> with its SQLSTATE, and the message texts are definitions
  (\<open>msg_...\<close>). A command of the persistent ledger takes the tables to the new tables and its answer, or
  to an error; an error leaves the tables as they were, which is the rollback. The identifiers and times the
  server draws (\<open>uuidv7()\<close>, \<open>clock_timestamp()\<close>) are functions of how many were drawn before.

  \<^bold>\<open>What is proved.\<close>

  \<^item> The in-memory ledger (\<open>Ledger_Invariants\<close>, \<open>Ledger_Properties\<close>, \<open>Trial_Balance\<close>): its
    invariant over all sequences of commands, replays that answer for ever with the first receipt,
    reversals that mirror their original and take it off every balance, tenants that never meet, and a trial
    balance that lists each account in scope with the sum of its lines.
  \<^item> The persistent ledger (\<open>Persistent_Effects\<close>, \<open>Persistent_Period_Effects\<close>,
    \<open>Persistent_Invariants\<close>, \<open>Persistent_Refinement\<close>, \<open>Persistent_Properties\<close>,
    \<open>Persistent_Trial_Balance\<close>, \<open>Persistent_Period_Properties\<close>): what each command adds to the tables;
    that all commands keep the invariant of the tables; that the journals of the tables are those of the
    in-memory ledger run on the same commands (the simulation \<open>ledger_run\<close>); that every stored journal
    balances to the last digit and a key is used once; that a book closed for good gets no further journal,
    keeps its snapshots and answers a retry of the close with the first receipt.
  \<^item> The values and the ingestion (\<open>Core_Properties\<close>, \<open>Ingest_Properties\<close>): balancing, exact parsing
    and printing of amounts, the reversal identity, exactly which documents are admitted and how a refused
    one fails.
  \<^item> Facade and pull (\<open>Accept_Properties\<close>, \<open>Paging_Properties\<close>, \<open>Billing_Origins\<close>,
    \<open>Billing_Properties\<close>): accepted adjusting journals, the tax command that fails closed, cursors that
    resume where they were written, a pull that only calls the configured origin, never a loopback or
    link-local host, posts only admitted proposals and reads the whole feed of at most 20 pages.
  \<^item> Bank statements (\<open>Statement_Tree\<close>, \<open>Bank_Evidence\<close>, \<open>Bank_Invariants\<close>, \<open>Bank_Replay\<close>,
    \<open>Bank_Properties\<close>, \<open>Bank_Pages\<close>): bounds of every accepted tree and the round trip of its events, the
    shape of an accepted statement, the registry's invariant, exactly when a new statement is stored, replays,
    exact totals, and that following the cursors ends.
  \<^item> Reconciliation (\<open>Reconciliation_Properties\<close>): a match is the unique agreeing candidate, splits conserve
    money, the bridge equations, and when a run is suitable for close review.

  \<^bold>\<open>Bounds.\<close> Sums of \<open>Decimal\<close> are exact while they fit 28 digits, so the theorems about sums bound the
  amounts or the turnover (below \<open>10 ^ 22\<close> with six decimals); the sums of SQL are exact and need no bound.
  The columns are \<open>numeric(38, 6)\<close> and \<open>integer\<close> with their overflow as an error. The pull is bounded by its
  page limit (at most 20), the XML reader by the source's limits on bytes, depth, elements, attributes and
  text, and both recursions are structural; no definition needs fuel beyond them.

  \<^bold>\<open>What is not modelled.\<close> Text is a list of code points below 256, so characters outside Latin-1 are not
  covered. Limits of decimal exponents, the decoding of JSON bodies and the tokenizer of expat are outside
  (documents arrive decoded, XML as the events expat reports); the HTTP exchange, the store of original
  artifacts and the file system are parameters. Commands run one after the other: the advisory locks
  and isolation levels that make concurrent transactions so are not modelled. Of \<open>persistence.py\<close> the list
  reads and the financial reports are not modelled (the parts of the close package that need
  them are the parameter \<open>close_reports\<close>). \<open>http_api.py\<close> (routing and status codes), the execution of
  the migrations, the scripts and the schemas are not modelled.
\<close>

end
